(* ===== verification/Prelude.thy ===== *)
theory Prelude
  imports Main "HOL-Library.Word"
begin

text \<open>
  Shared vocabulary of the development: Rust's \<open>Result\<close> as a sum with its early return, the
  machine integers of the sources, the text primitives of the Rust standard library that the
  sources use, and the generic lemmas on list-shaped database tables that the adapter theories
  rely on.
\<close>

named_theorems res_simps \<open>facts that decide how a chain of early returns ends\<close>

section \<open>Results and early returns\<close>

text \<open>
  \<open>Result<T, E>\<close> is \<open>'e + 'a\<close> with \<^const>\<open>Inl\<close> for \<open>Err\<close>. \<open>rbind m f\<close> is Rust's
  \<open>let x = m?; f(x)\<close>; \<open>ok_or\<close> is \<open>Option::ok_or\<close> (and \<open>ok_or_else\<close>).
\<close>

definition rbind :: "'e + 'a \<Rightarrow> ('a \<Rightarrow> 'e + 'b) \<Rightarrow> 'e + 'b" where
  "rbind m f = (case m of Inl e \<Rightarrow> Inl e | Inr x \<Rightarrow> f x)"

definition ok_or :: "'e \<Rightarrow> 'a option \<Rightarrow> 'e + 'a" where
  "ok_or e x = (case x of None \<Rightarrow> Inl e | Some a \<Rightarrow> Inr a)"

definition map_err :: "('e \<Rightarrow> 'f) \<Rightarrow> 'e + 'a \<Rightarrow> 'f + 'a" where
  "map_err g m = (case m of Inl e \<Rightarrow> Inl (g e) | Inr x \<Rightarrow> Inr x)"

definition is_ok :: "'e + 'a \<Rightarrow> bool" where
  "is_ok m = (case m of Inl e \<Rightarrow> False | Inr x \<Rightarrow> True)"

text \<open>Evaluation decides the scrutinee before it looks at the rest of the handler.\<close>

declare rbind_def [code_unfold]

lemma rbind_simps [simp]: "rbind (Inl e) f = Inl e" "rbind (Inr x) f = f x"
  by (simp_all add: rbind_def)

lemma rbind_Inr_iff [res_simps]: "rbind m f = Inr y \<longleftrightarrow> (\<exists>x. m = Inr x \<and> f x = Inr y)"
  by (cases m) auto

lemma rbind_Inl_iff [res_simps]:
  "rbind m f = Inl e \<longleftrightarrow> m = Inl e \<or> (\<exists>x. m = Inr x \<and> f x = Inl e)"
  by (cases m) auto

lemma rbind_cong [fundef_cong]:
  "m = m' \<Longrightarrow> (\<And>x. m' = Inr x \<Longrightarrow> f x = g x) \<Longrightarrow> rbind m f = rbind m' g"
  by (cases m') auto

lemma ok_or_simps [simp]: "ok_or e None = Inl e" "ok_or e (Some a) = Inr a"
  by (simp_all add: ok_or_def)

lemma ok_or_Inr_iff [res_simps]: "ok_or e x = Inr a \<longleftrightarrow> x = Some a"
  by (cases x) auto

lemma ok_or_Inl_iff [res_simps]: "ok_or e x = Inl e' \<longleftrightarrow> x = None \<and> e' = e"
  by (cases x) auto

lemma map_err_simps [simp]: "map_err g (Inl e) = Inl (g e)" "map_err g (Inr x) = Inr x"
  by (simp_all add: map_err_def)

lemma map_err_Inr_iff [res_simps]: "map_err g m = Inr x \<longleftrightarrow> m = Inr x"
  by (cases m) auto

lemma is_ok_simps [simp]: "\<not> is_ok (Inl e)" "is_ok (Inr x)"
  by (simp_all add: is_ok_def)

lemma is_ok_iff: "is_ok m \<longleftrightarrow> (\<exists>x. m = Inr x)"
  by (cases m) auto

text \<open>\<open>for x in xs { f(x)?; }\<close> over a threaded state: the first error stops the loop.\<close>

fun rfold :: "('x \<Rightarrow> 's \<Rightarrow> 'e + 's) \<Rightarrow> 'x list \<Rightarrow> 's \<Rightarrow> 'e + 's" where
  "rfold f [] s = Inr s"
| "rfold f (x # xs) s = rbind (f x s) (rfold f xs)"

lemma rfold_append: "rfold f (xs @ ys) s = rbind (rfold f xs s) (rfold f ys)"
  by (induction xs arbitrary: s) (auto simp: rbind_def split: sum.splits)

lemma rfold_invariant:
  assumes "rfold f xs s = Inr t" and "I s"
    and "\<And>x s t. x \<in> set xs \<Longrightarrow> I s \<Longrightarrow> f x s = Inr t \<Longrightarrow> I t"
  shows "I t"
  using assms
proof (induction xs arbitrary: s)
  case Nil
  then show ?case by simp
next
  case (Cons x xs)
  then obtain s' where "f x s = Inr s'" and "rfold f xs s' = Inr t"
    by (auto simp: rbind_Inr_iff)
  with Cons show ?case by (metis list.set_intros)
qed

section \<open>Machine integers\<close>

type_synonym u32 = "32 word"
type_synonym u64 = "64 word"

text \<open>
  Signed values that travel between Rust and PostgreSQL (\<open>i32\<close>/\<open>integer\<close> and
  \<open>i64\<close>/\<open>bigint\<close>) are integers with their range written out: \<open>checked_add\<close> and PostgreSQL
  refuse a result outside it, Rust's \<open>+\<close> wraps around (release profile).
\<close>

definition in_i32 :: "int \<Rightarrow> bool" where
  "in_i32 n \<longleftrightarrow> - 2147483648 \<le> n \<and> n \<le> 2147483647"

definition in_i64 :: "int \<Rightarrow> bool" where
  "in_i64 n \<longleftrightarrow> - 9223372036854775808 \<le> n \<and> n \<le> 9223372036854775807"

definition checked_i32 :: "int \<Rightarrow> int option" where
  "checked_i32 n = (if in_i32 n then Some n else None)"

definition checked_i64 :: "int \<Rightarrow> int option" where
  "checked_i64 n = (if in_i64 n then Some n else None)"

definition wrap_i32 :: "int \<Rightarrow> int" where
  "wrap_i32 n = (n + 2147483648) mod 4294967296 - 2147483648"

lemma wrap_i32_in_range [simp]: "in_i32 (wrap_i32 n)"
proof -
  have "0 \<le> (n + 2147483648) mod 4294967296" and "(n + 2147483648) mod 4294967296 < 4294967296"
    by simp_all
  then show ?thesis unfolding in_i32_def wrap_i32_def by linarith
qed

lemma wrap_i32_id: "in_i32 n \<Longrightarrow> wrap_i32 n = n"
  by (simp add: in_i32_def wrap_i32_def)

lemma wrap_i32_succ_pos:
  assumes "in_i32 v" and "0 < wrap_i32 (v + 1)"
  shows "wrap_i32 (v + 1) = v + 1"
proof (cases "v = 2147483647")
  case True
  with assms show ?thesis by (simp add: wrap_i32_def)
next
  case False
  with assms(1) have "in_i32 (v + 1)" by (simp add: in_i32_def)
  then show ?thesis by (rule wrap_i32_id)
qed

section \<open>Text of the Rust standard library\<close>

text \<open>A \<open>str\<close> is its UTF-8 byte string.\<close>

abbreviation byte :: "char \<Rightarrow> nat" where
  "byte c \<equiv> of_char c"

definition is_ascii_digit :: "char \<Rightarrow> bool" where
  "is_ascii_digit c \<longleftrightarrow> 48 \<le> byte c \<and> byte c \<le> 57"

definition is_ascii_alphanumeric :: "char \<Rightarrow> bool" where
  "is_ascii_alphanumeric c \<longleftrightarrow>
     is_ascii_digit c \<or> (65 \<le> byte c \<and> byte c \<le> 90) \<or> (97 \<le> byte c \<and> byte c \<le> 122)"

definition to_ascii_uppercase :: "string \<Rightarrow> string" where
  "to_ascii_uppercase s =
     map (\<lambda>c. if 97 \<le> byte c \<and> byte c \<le> 122 then char_of (byte c - 32) else c) s"

text \<open>
  The number of bytes of the white space character that starts the text, 0 if none does:
  \<open>char::is_whitespace\<close> is Unicode's White\_Space property, here on UTF-8.
\<close>

fun ws_prefix :: "string \<Rightarrow> nat" where
  "ws_prefix [] = 0"
| "ws_prefix (a # s) =
     (if byte a \<in> {9, 10, 11, 12, 13, 32} then 1
      else case s of
        [] \<Rightarrow> 0
      | b # s' \<Rightarrow>
          (if byte a = 194 \<and> byte b \<in> {133, 160} then 2
           else case s' of
             [] \<Rightarrow> 0
           | c # _ \<Rightarrow>
               (if byte a = 225 \<and> byte b = 154 \<and> byte c = 128
                 \<or> byte a = 226 \<and> byte b = 128 \<and>
                     (128 \<le> byte c \<and> byte c \<le> 138 \<or> byte c \<in> {168, 169, 175})
                 \<or> byte a = 226 \<and> byte b = 129 \<and> byte c = 159
                 \<or> byte a = 227 \<and> byte b = 128 \<and> byte c = 128
                then 3 else 0)))"

definition ws_suffix :: "string \<Rightarrow> nat" where
  "ws_suffix s =
     (let n = length s in
      if 1 \<le> n \<and> ws_prefix (drop (n - 1) s) = 1 then 1
      else if 2 \<le> n \<and> ws_prefix (drop (n - 2) s) = 2 then 2
      else if 3 \<le> n \<and> ws_prefix (drop (n - 3) s) = 3 then 3
      else 0)"

function trim_start :: "string \<Rightarrow> string" where
  "trim_start s = (if s = [] \<or> ws_prefix s = 0 then s else trim_start (drop (ws_prefix s) s))"
  by pat_completeness auto
termination
  by (relation "measure length") auto

function trim_end :: "string \<Rightarrow> string" where
  "trim_end s = (if s = [] \<or> ws_suffix s = 0 then s
                 else trim_end (take (length s - ws_suffix s) s))"
  by pat_completeness auto
termination
  by (relation "measure length") auto

declare trim_start.simps [simp del] trim_end.simps [simp del]

definition trim :: "string \<Rightarrow> string" where
  "trim s = trim_end (trim_start s)"

text \<open>\<open>s.trim().is_empty()\<close>, the test for a missing reason.\<close>

definition is_blank :: "string \<Rightarrow> bool" where
  "is_blank s \<longleftrightarrow> trim s = []"

fun strip_prefix :: "string \<Rightarrow> string \<Rightarrow> string option" where
  "strip_prefix [] s = Some s"
| "strip_prefix (p # ps) [] = None"
| "strip_prefix (p # ps) (c # cs) = (if p = c then strip_prefix ps cs else None)"

lemma strip_prefix_Some_iff: "strip_prefix p s = Some r \<longleftrightarrow> s = p @ r"
  by (induction p s rule: strip_prefix.induct) auto

fun split_once :: "char \<Rightarrow> string \<Rightarrow> (string \<times> string) option" where
  "split_once d [] = None"
| "split_once d (c # cs) =
     (if c = d then Some ([], cs)
      else map_option (\<lambda>(a, b). (c # a, b)) (split_once d cs))"

lemma split_once_append: "d \<notin> set p \<Longrightarrow> split_once d (p @ d # s) = Some (p, s)"
  by (induction p) auto

lemma split_once_Some_iff:
  "split_once d s = Some (a, b) \<longleftrightarrow> s = a @ d # b \<and> d \<notin> set a"
  by (induction s arbitrary: a b) (auto simp: Cons_eq_append_conv)

fun split_on :: "char \<Rightarrow> string \<Rightarrow> string list" where
  "split_on d [] = [[]]"
| "split_on d (c # cs) =
     (if c = d then [] # split_on d cs
      else case split_on d cs of [] \<Rightarrow> [[c]] | w # ws \<Rightarrow> (c # w) # ws)"

text \<open>Decimal numbers: \<open>str::parse\<close> reads an optional plus sign and digits, \<open>fmt\<close> writes them.\<close>

definition digit_val :: "char \<Rightarrow> nat" where
  "digit_val c = byte c - 48"

definition digit_char :: "nat \<Rightarrow> char" where
  "digit_char n = char_of (48 + n mod 10)"

definition decimal_value :: "string \<Rightarrow> nat" where
  "decimal_value s = foldl (\<lambda>n c. 10 * n + digit_val c) 0 s"

definition parse_u64 :: "string \<Rightarrow> u64 option" where
  "parse_u64 s =
     (let ds = (case s of [] \<Rightarrow> [] | c # cs \<Rightarrow> if c = CHR ''+'' then cs else s)
      in if ds \<noteq> [] \<and> list_all is_ascii_digit ds \<and> decimal_value ds < 2 ^ 64
         then Some (of_nat (decimal_value ds)) else None)"

fun decimal :: "nat \<Rightarrow> string" where
  "decimal n = (if n < 10 then [digit_char n] else decimal (n div 10) @ [digit_char n])"

declare decimal.simps [simp del]

lemma digit_char_digit: "is_ascii_digit (digit_char n)"
proof -
  have "byte (digit_char n) = 48 + n mod 10"
    by (simp add: digit_char_def)
  then show ?thesis by (simp add: is_ascii_digit_def)
qed

lemma digit_val_char [simp]: "digit_val (digit_char n) = n mod 10"
  by (simp add: digit_val_def digit_char_def)

lemma decimal_digits: "list_all is_ascii_digit (decimal n)"
proof (induction n rule: decimal.induct)
  case (1 n)
  then show ?case
    by (subst decimal.simps) (simp add: digit_char_digit)
qed

lemma decimal_nonempty [simp]: "decimal n \<noteq> []"
  by (subst decimal.simps) simp

lemma decimal_value_decimal: "decimal_value (decimal n) = n"
proof (induction n rule: decimal.induct)
  case (1 n)
  then show ?case
    by (subst decimal.simps) (auto simp: decimal_value_def)
qed

lemma decimal_value_zeros: "decimal_value (replicate k (CHR ''0'') @ s) = decimal_value s"
proof -
  have "foldl (\<lambda>n c. 10 * n + digit_val c) 0 (replicate k (CHR ''0'')) = 0"
    by (induction k) (simp_all add: digit_val_def)
  then show ?thesis by (simp add: decimal_value_def)
qed

text \<open>\<open>format!("{n:04}")\<close>: padded with zeros to at least four places.\<close>

definition decimal_pad :: "nat \<Rightarrow> nat \<Rightarrow> string" where
  "decimal_pad w n = replicate (w - length (decimal n)) (CHR ''0'') @ decimal n"

lemma decimal_pad_digits: "list_all is_ascii_digit (decimal_pad w n)"
proof -
  have "list_all is_ascii_digit (replicate k (CHR ''0''))" for k
    by (simp add: list_all_iff is_ascii_digit_def)
  then show ?thesis by (simp add: decimal_pad_def decimal_digits)
qed

lemma decimal_pad_inj: "decimal_pad w m = decimal_pad w n \<Longrightarrow> m = n"
  by (metis decimal_pad_def decimal_value_decimal decimal_value_zeros)

section \<open>Operations that keep an invariant\<close>

text \<open>
  An operation that fails leaves the state as it was: a Rust method on \<open>&mut self\<close> returns before
  it writes, a database transaction rolls back. \<open>attempt\<close> is one such call, \<open>attempts\<close> a sequence
  of calls by callers who may see any of them refused.
\<close>

definition attempt :: "('s \<Rightarrow> 'op \<Rightarrow> 'e + 's) \<Rightarrow> 's \<Rightarrow> 'op \<Rightarrow> 's" where
  "attempt step s a = (case step s a of Inl e \<Rightarrow> s | Inr t \<Rightarrow> t)"

definition attempts :: "('s \<Rightarrow> 'op \<Rightarrow> 'e + 's) \<Rightarrow> 's \<Rightarrow> 'op list \<Rightarrow> 's" where
  "attempts step s ops = foldl (attempt step) s ops"

lemma attempts_simps [simp]:
  "attempts step s [] = s"
  "attempts step s (a # ops) = attempts step (attempt step s a) ops"
  by (simp_all add: attempts_def)

lemma attempts_append: "attempts step s (xs @ ys) = attempts step (attempts step s xs) ys"
  by (simp add: attempts_def)

locale invariant_ops =
  fixes step :: "'s \<Rightarrow> 'op \<Rightarrow> 'e + 's"
    and inv :: "'s \<Rightarrow> bool"
  assumes step_inv: "inv s \<Longrightarrow> step s a = Inr t \<Longrightarrow> inv t"
begin

lemma attempt_inv: "inv s \<Longrightarrow> inv (attempt step s a)"
  by (auto simp: attempt_def step_inv split: sum.splits)

lemma attempts_inv: "inv s \<Longrightarrow> inv (attempts step s ops)"
  by (induction ops arbitrary: s) (auto simp: attempt_inv)

lemma attempts_stable:
  assumes "\<And>s a t. inv s \<Longrightarrow> a \<in> A \<Longrightarrow> step s a = Inr t \<Longrightarrow> P s \<Longrightarrow> P t"
    and "inv s" and "P s" and "set ops \<subseteq> A"
  shows "P (attempts step s ops)"
  using assms(2-)
proof (induction ops arbitrary: s)
  case Nil
  then show ?case by simp
next
  case (Cons a ops)
  then have "P (attempt step s a)"
    using assms(1) by (auto simp: attempt_def split: sum.splits)
  with Cons show ?case by (simp add: attempt_inv)
qed

end

section \<open>Tables\<close>

text \<open>
  A database table is the list of its rows. \<open>SELECT \<dots> WHERE key = k\<close> on a primary key is
  \<^term>\<open>row_at key k t\<close>, \<open>UPDATE \<dots> WHERE p\<close> is \<^term>\<open>update_where p f t\<close>.
\<close>

definition row_at :: "('r \<Rightarrow> 'k) \<Rightarrow> 'k \<Rightarrow> 'r list \<Rightarrow> 'r option" where
  "row_at key k t = find (\<lambda>r. key r = k) t"

definition update_where :: "('r \<Rightarrow> bool) \<Rightarrow> ('r \<Rightarrow> 'r) \<Rightarrow> 'r list \<Rightarrow> 'r list" where
  "update_where p f t = map (\<lambda>r. if p r then f r else r) t"

definition unique_key :: "('r \<Rightarrow> 'k) \<Rightarrow> 'r list \<Rightarrow> bool" where
  "unique_key key t \<longleftrightarrow> distinct (map key t)"

lemma row_at_Nil [simp]: "row_at key k [] = None"
  by (simp add: row_at_def)

lemma row_at_Cons [simp]:
  "row_at key k (r # t) = (if key r = k then Some r else row_at key k t)"
  by (simp add: row_at_def)

lemma row_at_append:
  "row_at key k (t @ u) = (case row_at key k t of None \<Rightarrow> row_at key k u | Some r \<Rightarrow> Some r)"
  by (induction t) auto

lemma row_at_SomeD: "row_at key k t = Some r \<Longrightarrow> r \<in> set t \<and> key r = k"
  by (induction t) (auto split: if_splits)

lemma row_at_None_iff: "row_at key k t = None \<longleftrightarrow> k \<notin> key ` set t"
  by (induction t) auto

lemma row_at_unique: "unique_key key t \<Longrightarrow> r \<in> set t \<Longrightarrow> row_at key (key r) t = Some r"
  by (induction t) (auto simp: unique_key_def)

lemma unique_key_eq: "unique_key key t \<Longrightarrow> a \<in> set t \<Longrightarrow> b \<in> set t \<Longrightarrow> key a = key b \<Longrightarrow> a = b"
  by (auto simp: unique_key_def distinct_map inj_on_def)

lemma set_update_where: "set (update_where p f t) = (\<lambda>r. if p r then f r else r) ` set t"
  by (simp add: update_where_def)

lemma update_where_Nil [simp]: "update_where p f [] = []"
  by (simp add: update_where_def)

lemma update_where_Cons [simp]:
  "update_where p f (r # t) = (if p r then f r else r) # update_where p f t"
  by (simp add: update_where_def)

lemma length_update_where [simp]: "length (update_where p f t) = length t"
  by (simp add: update_where_def)

lemma row_at_update_where:
  assumes "\<And>r. key (f r) = key r"
  shows "row_at key k (update_where p f t) =
    map_option (\<lambda>r. if p r then f r else r) (row_at key k t)"
  by (induction t) (auto simp: assms)

lemma unique_key_update_where:
  assumes "\<And>r. key (f r) = key r"
  shows "unique_key key (update_where p f t) \<longleftrightarrow> unique_key key t"
proof -
  have "map key (update_where p f t) = map key t"
    using assms by (simp add: update_where_def)
  then show ?thesis by (simp add: unique_key_def)
qed

lemma unique_key_snoc:
  "unique_key key (t @ [r]) \<longleftrightarrow> unique_key key t \<and> row_at key (key r) t = None"
  by (auto simp: unique_key_def row_at_None_iff)

lemma filter_update_where:
  assumes "\<And>r. p r \<Longrightarrow> \<not> q r" and "\<And>r. p r \<Longrightarrow> \<not> q (f r)"
  shows "filter q (update_where p f t) = filter q t"
  using assms by (induction t) auto

lemma update_where_none: "\<forall>r \<in> set t. \<not> p r \<Longrightarrow> update_where p f t = t"
  by (induction t) auto

lemma update_where_other: "k \<notin> key ` set t \<Longrightarrow> update_where (\<lambda>r. key r = k) f t = t"
  by (induction t) auto

text \<open>Changing the one row with a key changes a sum over the table by that row's share.\<close>

lemma sum_update_where:
  fixes g :: "'r \<Rightarrow> int"
  assumes "unique_key key t" and "row_at key k t = Some r"
  shows "sum_list (map g (update_where (\<lambda>r. key r = k) f t)) = sum_list (map g t) - g r + g (f r)"
  using assms
proof (induction t)
  case Nil
  then show ?case by simp
next
  case (Cons x t)
  show ?case
  proof (cases "key x = k")
    case True
    with Cons.prems have "k \<notin> key ` set t" and "x = r" by (auto simp: unique_key_def)
    with True show ?thesis using update_where_other [of k key t f] by simp
  next
    case False
    with Cons show ?thesis by (simp add: unique_key_def)
  qed
qed

lemma row_at_replace:
  assumes "key c = k"
  shows "row_at key j (update_where (\<lambda>r. key r = k) (\<lambda>_. c) t) =
    (if j = k then map_option (\<lambda>_. c) (row_at key k t) else row_at key j t)"
  using assms by (induction t) auto

lemma count_filter_unique:
  "unique_key key t \<Longrightarrow>
     length (filter (\<lambda>r. key r = k) t) = (if row_at key k t = None then 0 else 1)"
  by (induction t) (auto simp: unique_key_def row_at_None_iff filter_empty_conv)

end
