(* ===== verification/Kernel_State.thy ===== *)
theory Kernel_State
  imports Prelude
begin

text \<open>
  The five lifecycle machines of \<open>crates/kernel/src/state.rs\<close>, the parser of their database
  spelling, and the versioned state that only moves along declared edges. The locale
  \<open>versioned_machine\<close> is the contract of such a state; the SDK's finite-state helper is its second
  instance.
\<close>

section \<open>Paths and the contract of a versioned machine\<close>

fun edge_path :: "('s \<Rightarrow> 's \<Rightarrow> bool) \<Rightarrow> 's \<Rightarrow> 's list \<Rightarrow> bool" where
  "edge_path e s [] = True"
| "edge_path e s (t # ts) = (e s t \<and> edge_path e t ts)"

lemma edge_path_append:
  "edge_path e s (ts @ us) \<longleftrightarrow> edge_path e s ts \<and> edge_path e (last (s # ts)) us"
  by (induction ts arbitrary: s) auto

definition replay :: "('c \<Rightarrow> 's \<Rightarrow> 'e + 'c) \<Rightarrow> 's list \<Rightarrow> 'c \<Rightarrow> 'e + 'c" where
  "replay move ts c = rfold (\<lambda>t c. move c t) ts c"

lemma replay_simps [simp]:
  "replay move [] c = Inr c"
  "replay move (t # ts) c = rbind (move c t) (replay move ts)"
  by (simp_all add: replay_def [abs_def])

locale versioned_machine =
  fixes st :: "'c \<Rightarrow> 's"
    and ver :: "'c \<Rightarrow> u64"
    and edge :: "'s \<Rightarrow> 's \<Rightarrow> bool"
    and move :: "'c \<Rightarrow> 's \<Rightarrow> 'e + 'c"
  assumes move_legal:
      "edge (st c) t \<Longrightarrow> \<exists>c'. move c t = Inr c' \<and> st c' = t \<and> ver c' = ver c + 1"
    and move_illegal: "\<not> edge (st c) t \<Longrightarrow> \<exists>e. move c t = Inl e"
begin

lemma move_Inr:
  assumes "move c t = Inr c'"
  shows "edge (st c) t" and "st c' = t" and "ver c' = ver c + 1"
proof -
  from assms move_illegal [of c t] show e: "edge (st c) t" by fastforce
  from move_legal [OF e] assms show "st c' = t" and "ver c' = ver c + 1" by auto
qed

lemma replay_Inr:
  assumes "replay move ts c = Inr c'"
  shows "edge_path edge (st c) ts \<and> st c' = last (st c # ts) \<and> ver c' = ver c + of_nat (length ts)"
  using assms
proof (induction ts arbitrary: c)
  case Nil
  then show ?case by simp
next
  case (Cons t ts)
  then obtain d where d: "move c t = Inr d" and r: "replay move ts d = Inr c'"
    by (auto simp: rbind_Inr_iff)
  from Cons.IH [OF r] move_Inr [OF d] show ?case by simp
qed

lemma replay_complete:
  "edge_path edge (st c) ts \<Longrightarrow> \<exists>c'. replay move ts c = Inr c'"
proof (induction ts arbitrary: c)
  case Nil
  then show ?case by simp
next
  case (Cons t ts)
  then obtain d where "move c t = Inr d" and "st d = t"
    using move_legal [of c t] by auto
  with Cons show ?case by (metis edge_path.simps(2) replay_simps(2) rbind_simps(2))
qed

lemma replay_iff_path: "is_ok (replay move ts c) \<longleftrightarrow> edge_path edge (st c) ts"
  using replay_Inr replay_complete by (metis is_ok_iff)

end

section \<open>Machines\<close>

datatype plugin_state =
    P_Discovered | P_Verified | P_Resolved | P_Staged | P_InstalledDisabled | P_Enabled
  | P_Draining | P_Disabled | P_Uninstalled | P_Quarantined | P_Revoked

datatype run_state =
    R_Queued | R_Running | R_WaitingApproval | R_WaitingRetry | R_Blocked | R_CancelRequested
  | R_Succeeded | R_Failed | R_Cancelled

datatype approval_state =
    A_Pending | A_Approved | A_Rejected | A_Cancelled | A_Expired | A_Stale

datatype effect_state =
    E_Prepared | E_WaitingApproval | E_Authorized | E_Executing | E_Succeeded
  | E_FailedConfirmed | E_OutcomeUnknown | E_Reconciling | E_ManualReview | E_Cancelled

datatype cost_state = C_Reserved | C_Settled | C_Unknown | C_Released

datatype machine_state =
    M_Plugin plugin_state
  | M_Run run_state
  | M_Approval approval_state
  | M_Effect effect_state
  | M_Cost cost_state

datatype state_error =
    IllegalTransition
  | UnknownState string string

definition machine_table :: "((string \<times> string) \<times> machine_state) list" where
  "machine_table =
    [((''plugin'', ''DISCOVERED''), M_Plugin P_Discovered),
     ((''plugin'', ''VERIFIED''), M_Plugin P_Verified),
     ((''plugin'', ''RESOLVED''), M_Plugin P_Resolved),
     ((''plugin'', ''STAGED''), M_Plugin P_Staged),
     ((''plugin'', ''INSTALLED_DISABLED''), M_Plugin P_InstalledDisabled),
     ((''plugin'', ''ENABLED''), M_Plugin P_Enabled),
     ((''plugin'', ''DRAINING''), M_Plugin P_Draining),
     ((''plugin'', ''DISABLED''), M_Plugin P_Disabled),
     ((''plugin'', ''UNINSTALLED''), M_Plugin P_Uninstalled),
     ((''plugin'', ''QUARANTINED''), M_Plugin P_Quarantined),
     ((''plugin'', ''REVOKED''), M_Plugin P_Revoked),
     ((''run'', ''QUEUED''), M_Run R_Queued),
     ((''run'', ''RUNNING''), M_Run R_Running),
     ((''run'', ''WAITING_APPROVAL''), M_Run R_WaitingApproval),
     ((''run'', ''WAITING_RETRY''), M_Run R_WaitingRetry),
     ((''run'', ''BLOCKED''), M_Run R_Blocked),
     ((''run'', ''CANCEL_REQUESTED''), M_Run R_CancelRequested),
     ((''run'', ''SUCCEEDED''), M_Run R_Succeeded),
     ((''run'', ''FAILED''), M_Run R_Failed),
     ((''run'', ''CANCELLED''), M_Run R_Cancelled),
     ((''approval'', ''PENDING''), M_Approval A_Pending),
     ((''approval'', ''APPROVED''), M_Approval A_Approved),
     ((''approval'', ''REJECTED''), M_Approval A_Rejected),
     ((''approval'', ''CANCELLED''), M_Approval A_Cancelled),
     ((''approval'', ''EXPIRED''), M_Approval A_Expired),
     ((''approval'', ''STALE''), M_Approval A_Stale),
     ((''effect'', ''PREPARED''), M_Effect E_Prepared),
     ((''effect'', ''WAITING_APPROVAL''), M_Effect E_WaitingApproval),
     ((''effect'', ''AUTHORIZED''), M_Effect E_Authorized),
     ((''effect'', ''EXECUTING''), M_Effect E_Executing),
     ((''effect'', ''SUCCEEDED''), M_Effect E_Succeeded),
     ((''effect'', ''FAILED_CONFIRMED''), M_Effect E_FailedConfirmed),
     ((''effect'', ''OUTCOME_UNKNOWN''), M_Effect E_OutcomeUnknown),
     ((''effect'', ''RECONCILING''), M_Effect E_Reconciling),
     ((''effect'', ''MANUAL_REVIEW''), M_Effect E_ManualReview),
     ((''effect'', ''CANCELLED''), M_Effect E_Cancelled),
     ((''cost'', ''RESERVED''), M_Cost C_Reserved),
     ((''cost'', ''SETTLED''), M_Cost C_Settled),
     ((''cost'', ''UNKNOWN''), M_Cost C_Unknown),
     ((''cost'', ''RELEASED''), M_Cost C_Released)]"

text \<open>\<open>MachineState::parse\<close>: the first matching row of the table, or the error with both names.\<close>

definition machine_parse :: "string \<Rightarrow> string \<Rightarrow> state_error + machine_state" where
  "machine_parse machine state =
     ok_or (UnknownState machine state) (map_of machine_table (machine, state))"

definition plugin_edge :: "plugin_state \<Rightarrow> plugin_state \<Rightarrow> bool" where
  "plugin_edge from_state to_state \<longleftrightarrow> (from_state, to_state) \<in>
     {(P_Discovered, P_Verified), (P_Verified, P_Resolved), (P_Resolved, P_Staged),
      (P_Staged, P_InstalledDisabled), (P_InstalledDisabled, P_Enabled), (P_Enabled, P_Draining),
      (P_Draining, P_Disabled), (P_Disabled, P_Enabled), (P_Disabled, P_Uninstalled),
      (P_InstalledDisabled, P_Uninstalled), (P_Discovered, P_Quarantined),
      (P_Verified, P_Quarantined), (P_Staged, P_Quarantined), (P_Enabled, P_Revoked),
      (P_Draining, P_Revoked), (P_Disabled, P_Revoked), (P_InstalledDisabled, P_Revoked)}"

definition run_edge :: "run_state \<Rightarrow> run_state \<Rightarrow> bool" where
  "run_edge from_state to_state \<longleftrightarrow> (from_state, to_state) \<in>
     {(R_Queued, R_Running), (R_Running, R_WaitingApproval), (R_WaitingApproval, R_Running),
      (R_Running, R_WaitingRetry), (R_WaitingRetry, R_Running), (R_Running, R_Blocked),
      (R_Blocked, R_Running), (R_Running, R_Succeeded), (R_Running, R_Failed),
      (R_Queued, R_Cancelled), (R_WaitingApproval, R_Cancelled), (R_WaitingRetry, R_Cancelled),
      (R_Blocked, R_Cancelled), (R_Running, R_CancelRequested), (R_CancelRequested, R_Cancelled),
      (R_CancelRequested, R_Succeeded)}"

definition approval_edge :: "approval_state \<Rightarrow> approval_state \<Rightarrow> bool" where
  "approval_edge from_state to_state \<longleftrightarrow> (from_state, to_state) \<in>
     {(A_Pending, A_Approved), (A_Pending, A_Rejected), (A_Pending, A_Cancelled),
      (A_Pending, A_Expired), (A_Pending, A_Stale), (A_Approved, A_Stale),
      (A_Approved, A_Expired), (A_Approved, A_Cancelled)}"

definition effect_edge :: "effect_state \<Rightarrow> effect_state \<Rightarrow> bool" where
  "effect_edge from_state to_state \<longleftrightarrow> (from_state, to_state) \<in>
     {(E_Prepared, E_WaitingApproval), (E_Prepared, E_Authorized),
      (E_WaitingApproval, E_Authorized), (E_Authorized, E_Executing), (E_Executing, E_Succeeded),
      (E_Executing, E_FailedConfirmed), (E_Executing, E_OutcomeUnknown),
      (E_OutcomeUnknown, E_Reconciling), (E_Reconciling, E_Succeeded),
      (E_Reconciling, E_FailedConfirmed), (E_Reconciling, E_Authorized),
      (E_Reconciling, E_ManualReview), (E_ManualReview, E_Reconciling), (E_Prepared, E_Cancelled),
      (E_WaitingApproval, E_Cancelled), (E_Authorized, E_Cancelled)}"

definition cost_edge :: "cost_state \<Rightarrow> cost_state \<Rightarrow> bool" where
  "cost_edge from_state to_state \<longleftrightarrow> (from_state, to_state) \<in>
     {(C_Reserved, C_Settled), (C_Reserved, C_Unknown), (C_Reserved, C_Released),
      (C_Unknown, C_Settled), (C_Unknown, C_Released)}"

fun can_transition_to :: "machine_state \<Rightarrow> machine_state \<Rightarrow> bool" where
  "can_transition_to (M_Plugin f) (M_Plugin t) = plugin_edge f t"
| "can_transition_to (M_Run f) (M_Run t) = run_edge f t"
| "can_transition_to (M_Approval f) (M_Approval t) = approval_edge f t"
| "can_transition_to (M_Effect f) (M_Effect t) = effect_edge f t"
| "can_transition_to (M_Cost f) (M_Cost t) = cost_edge f t"
| "can_transition_to _ _ = False"

record versioned_state =
  vs_state :: machine_state
  vs_version :: u64

definition versioned_new :: "machine_state \<Rightarrow> versioned_state" where
  "versioned_new s = \<lparr> vs_state = s, vs_version = 1 \<rparr>"

definition versioned_transition ::
    "versioned_state \<Rightarrow> machine_state \<Rightarrow> state_error + versioned_state" where
  "versioned_transition v target =
     (if \<not> can_transition_to (vs_state v) target then Inl IllegalTransition
      else Inr (v\<lparr>vs_state := target, vs_version := vs_version v + 1\<rparr>))"

lemmas edge_defs = plugin_edge_def run_edge_def approval_edge_def effect_edge_def cost_edge_def

interpretation kernel_machine:
  versioned_machine vs_state vs_version can_transition_to versioned_transition
  by unfold_locales (auto simp: versioned_transition_def)

section \<open>The database spelling\<close>

lemma machine_table_distinct: "distinct (map snd machine_table)"
  by (simp add: machine_table_def)

lemma machine_parse_Inr_iff:
  "machine_parse m s = Inr x \<longleftrightarrow> map_of machine_table (m, s) = Some x"
  by (simp add: machine_parse_def ok_or_Inr_iff)

lemma map_of_snd_distinct:
  assumes "distinct (map snd t)" and "map_of t a = Some x" and "map_of t b = Some x"
  shows "a = b"
proof -
  from assms(2,3) have "(a, x) \<in> set t" and "(b, x) \<in> set t"
    by (auto dest: map_of_SomeD)
  with assms(1) show ?thesis
    by (induction t) (auto simp: image_iff)
qed

section \<open>Reachability\<close>

lemma run_terminal_iff: "(\<forall>t. \<not> run_edge s t) \<longleftrightarrow> s \<in> {R_Succeeded, R_Failed, R_Cancelled}"
  unfolding run_edge_def by (cases s) auto

lemma effect_terminal_iff:
  "(\<forall>t. \<not> effect_edge s t) \<longleftrightarrow> s \<in> {E_Succeeded, E_FailedConfirmed, E_Cancelled}"
  unfolding effect_edge_def by (cases s) auto

lemma cost_terminal_iff: "(\<forall>t. \<not> cost_edge s t) \<longleftrightarrow> s \<in> {C_Settled, C_Released}"
  unfolding cost_edge_def by (cases s) auto

lemma terminal_path: "(\<And>t. \<not> e s t) \<Longrightarrow> edge_path e s ts \<longleftrightarrow> ts = []"
  by (cases ts) auto

text \<open>
  From a state that still owns an uncertain transmission, a path can only reach another
  transmission through the adjacent pair Reconciling, Authorized.
\<close>

lemma uncertain_path_reconciles:
  assumes "edge_path effect_edge s (us @ [E_Executing])"
    and "s \<in> {E_OutcomeUnknown, E_Reconciling, E_ManualReview}"
  shows "\<exists>xs ys. s # us = xs @ [E_Reconciling, E_Authorized] @ ys"
  using assms
proof (induction us arbitrary: s)
  case Nil
  then show ?case by (auto simp: effect_edge_def)
next
  case (Cons t us)
  from Cons.prems have e: "effect_edge s t" and p: "edge_path effect_edge t (us @ [E_Executing])"
    by simp_all
  show ?case
  proof (cases "t \<in> {E_OutcomeUnknown, E_Reconciling, E_ManualReview}")
    case True
    from Cons.IH [OF p True] obtain xs ys where "t # us = xs @ [E_Reconciling, E_Authorized] @ ys"
      by blast
    then have "s # t # us = (s # xs) @ [E_Reconciling, E_Authorized] @ ys" by simp
    then show ?thesis by blast
  next
    case False
    with e Cons.prems(2) have s: "s = E_Reconciling"
      and t: "t \<in> {E_Succeeded, E_FailedConfirmed, E_Authorized}"
      by (auto simp: effect_edge_def)
    have "t = E_Authorized"
    proof (rule ccontr)
      assume "t \<noteq> E_Authorized"
      with t have "\<And>u. \<not> effect_edge t u" using effect_terminal_iff [of t] by blast
      with p show False using terminal_path [of effect_edge t "us @ [E_Executing]"] by simp
    qed
    with s have "s # t # us = [] @ [E_Reconciling, E_Authorized] @ us" by simp
    then show ?thesis by blast
  qed
qed

text \<open>The machine name of a state, and that the table agrees with it.\<close>

fun machine_name :: "machine_state \<Rightarrow> string" where
  "machine_name (M_Plugin _) = ''plugin''"
| "machine_name (M_Run _) = ''run''"
| "machine_name (M_Approval _) = ''approval''"
| "machine_name (M_Effect _) = ''effect''"
| "machine_name (M_Cost _) = ''cost''"

lemma machine_table_names: "((m, s), x) \<in> set machine_table \<Longrightarrow> m = machine_name x"
  by (auto simp: machine_table_def)

lemma can_transition_same_machine: "can_transition_to a b \<Longrightarrow> machine_name a = machine_name b"
  by (cases a; cases b) simp_all

lemma edge_path_effect:
  "edge_path can_transition_to (M_Effect s) (map M_Effect ts) \<longleftrightarrow> edge_path effect_edge s ts"
  by (induction ts arbitrary: s) simp_all

section \<open>Properties\<close>

text \<open>
  A versioned state accepts a sequence of transitions exactly when it is a path of declared
  edges of its machine; it then stands in the last state of the sequence, and its version has
  grown by one per transition (modulo the 64-bit counter).
\<close>

theorem versioned_replay_iff_path:
  "(\<exists>v'. replay versioned_transition ts v = Inr v' \<and> vs_state v' = last (vs_state v # ts)
      \<and> vs_version v' = vs_version v + of_nat (length ts))
   \<longleftrightarrow> edge_path can_transition_to (vs_state v) ts"
  using kernel_machine.replay_Inr [of ts v] kernel_machine.replay_complete [of v ts] by blast

text \<open>
  The database spelling of a state is unambiguous. A pair of machine and state names that
  parses gives a state that no other pair gives, and a transition never crosses machines.
\<close>

theorem machine_parse_injective:
  assumes "machine_parse m s = Inr x" and "machine_parse m' s' = Inr y"
  shows "(x = y \<longleftrightarrow> m = m' \<and> s = s') \<and> (can_transition_to x y \<longrightarrow> m = m')"
proof -
  from assms have x: "map_of machine_table (m, s) = Some x"
    and y: "map_of machine_table (m', s') = Some y"
    by (simp_all add: machine_parse_Inr_iff)
  from x have "((m, s), x) \<in> set machine_table" by (rule map_of_SomeD)
  moreover from y have "((m', s'), y) \<in> set machine_table" by (rule map_of_SomeD)
  ultimately have "can_transition_to x y \<longrightarrow> m = m'"
    using can_transition_same_machine [of x y] machine_table_names by metis
  with x y map_of_snd_distinct [OF machine_table_distinct] show ?thesis by force
qed

theorem machine_parse_injective_witness:
  "machine_parse ''run'' ''QUEUED'' = Inr (M_Run R_Queued)
   \<and> machine_parse ''run'' ''RUNNING'' = Inr (M_Run R_Running)
   \<and> can_transition_to (M_Run R_Queued) (M_Run R_Running) \<and> M_Run R_Queued \<noteq> M_Run R_Running"
proof -
  have "machine_parse ''run'' ''QUEUED'' = Inr (M_Run R_Queued)"
    and "machine_parse ''run'' ''RUNNING'' = Inr (M_Run R_Running)"
    by (simp_all add: machine_parse_def machine_table_def)
  with machine_parse_injective [OF this] show ?thesis by (simp add: run_edge_def)
qed

text \<open>
  After an uncertain transmission no sequence of legal effect transitions reaches another
  transmission unless reconciliation proved the effect absent, which is the adjacent pair
  RECONCILING, AUTHORIZED.
\<close>

theorem no_resend_without_reconciliation:
  assumes "s \<in> {E_OutcomeUnknown, E_Reconciling, E_ManualReview}"
    and "is_ok (replay versioned_transition (map M_Effect (us @ [E_Executing]))
           \<lparr>vs_state = M_Effect s, vs_version = n\<rparr>)"
  shows "\<exists>xs ys. s # us = xs @ [E_Reconciling, E_Authorized] @ ys"
proof -
  from assms(2) have "edge_path can_transition_to (M_Effect s) (map M_Effect (us @ [E_Executing]))"
    by (simp only: kernel_machine.replay_iff_path) simp
  then have "edge_path effect_edge s (us @ [E_Executing])"
    by (simp only: edge_path_effect)
  then show ?thesis using assms(1) by (rule uncertain_path_reconciles)
qed

theorem no_resend_without_reconciliation_witness:
  "is_ok (replay versioned_transition
        (map M_Effect ([E_Reconciling, E_Authorized] @ [E_Executing]))
        \<lparr>vs_state = M_Effect E_OutcomeUnknown, vs_version = 4\<rparr>)
   \<and> (\<exists>xs ys. E_OutcomeUnknown # [E_Reconciling, E_Authorized]
        = xs @ [E_Reconciling, E_Authorized] @ ys)"
proof -
  have "is_ok (replay versioned_transition
        (map M_Effect ([E_Reconciling, E_Authorized] @ [E_Executing]))
        \<lparr>vs_state = M_Effect E_OutcomeUnknown, vs_version = 4\<rparr>)"
    by (simp add: versioned_transition_def effect_edge_def)
  with no_resend_without_reconciliation
    [of E_OutcomeUnknown "[E_Reconciling, E_Authorized]" 4] show ?thesis
    by (intro conjI) simp_all
qed

end
