(* ===== verification/Contracts.thy ===== *)
theory Contracts
  imports Prelude
begin

text \<open>
  The value objects of \<open>crates/contracts\<close>: opaque identifiers, digests, the environment name, the
  closed operation catalogue (\<open>lib.rs\<close>), and the wire values (\<open>wire.rs\<close>) the other components
  exchange. The identifier types that the macro \<open>string_id!\<close> generates, and \<open>Action\<close>, are the text
  they wrap; \<open>opaque_id_new\<close> is their only constructor.
\<close>

section \<open>Identifiers, digests, environments\<close>

datatype value_error =
    EmptyIdentifier string
  | InvalidOpaqueIdentifier string
  | InvalidSha256Digest
  | UnsupportedEnvironment string

definition opaque_tail_char :: "char \<Rightarrow> bool" where
  "opaque_tail_char c \<longleftrightarrow> is_ascii_alphanumeric c \<or> c \<in> {CHR ''.'', CHR ''_'', CHR '':'', CHR ''-''}"

definition validate_opaque_identifier :: "string \<Rightarrow> string \<Rightarrow> value_error + unit" where
  "validate_opaque_identifier kind val =
     (if val = [] then Inl (EmptyIdentifier kind)
      else if length val > 128 then Inl (InvalidOpaqueIdentifier kind)
      else case val of
        [] \<Rightarrow> Inl (EmptyIdentifier kind)
      | first # bytes \<Rightarrow>
          if \<not> is_ascii_alphanumeric first \<or> \<not> list_all opaque_tail_char bytes
          then Inl (InvalidOpaqueIdentifier kind)
          else Inr ())"

type_synonym tenant_id = string
type_synonym principal_id = string
type_synonym resource_id = string
type_synonym grant_id = string
type_synonym plugin_id = string
type_synonym effect_id = string
type_synonym artifact_id = string
type_synonym action = string

definition opaque_id_new :: "string \<Rightarrow> string \<Rightarrow> value_error + string" where
  "opaque_id_new name val = rbind (validate_opaque_identifier name val) (\<lambda>_. Inr val)"

definition action_new :: "string \<Rightarrow> value_error + action" where
  "action_new val = rbind (validate_opaque_identifier ''Action'' val) (\<lambda>_. Inr val)"

type_synonym digest = string

definition lower_hex_char :: "char \<Rightarrow> bool" where
  "lower_hex_char c \<longleftrightarrow> is_ascii_digit c \<or> (97 \<le> byte c \<and> byte c \<le> 102)"

definition digest_sha256 :: "string \<Rightarrow> value_error + digest" where
  "digest_sha256 hex =
     (if length hex \<noteq> 64 \<or> \<not> list_all lower_hex_char hex then Inl InvalidSha256Digest
      else Inr (''sha256:'' @ hex))"

definition digest_parse :: "string \<Rightarrow> value_error + digest" where
  "digest_parse val =
     (case strip_prefix ''sha256:'' val of
        None \<Rightarrow> Inl InvalidSha256Digest
      | Some hex \<Rightarrow> digest_sha256 hex)"

type_synonym epoch_millis = int

datatype environment = Local | Integration | StagingLive | Production

definition environment_parse :: "string \<Rightarrow> value_error + environment" where
  "environment_parse val =
     (let v = to_ascii_uppercase (trim val) in
      if v = ''LOCAL'' then Inr Local
      else if v = ''INTEGRATION'' then Inr Integration
      else if v = ''STAGING_LIVE'' then Inr StagingLive
      else if v = ''PRODUCTION'' then Inr Production
      else Inl (UnsupportedEnvironment val))"

section \<open>Scaffold status and the operation catalogue\<close>

datatype implementation_status = NotImplementedStatus

datatype adapter_qualification = Qualified | Unqualified

record readiness_status =
  rs_writes :: bool
  rs_critical_adapters_qualified :: bool

record scaffold_status =
  ss_service :: string
  ss_environment :: environment
  ss_scaffold :: bool
  ss_implementation_status :: implementation_status
  ss_external_mutation_enabled :: bool
  ss_live_budget_microunits :: u64
  ss_readiness :: readiness_status
  ss_contract_version :: string

definition CONTRACT_VERSION :: string where
  "CONTRACT_VERSION = ''1.0.0''"

definition scaffold_status_local :: "string \<Rightarrow> scaffold_status" where
  "scaffold_status_local service =
     \<lparr> ss_service = service,
       ss_environment = Local,
       ss_scaffold = True,
       ss_implementation_status = NotImplementedStatus,
       ss_external_mutation_enabled = False,
       ss_live_budget_microunits = 0,
       ss_readiness = \<lparr> rs_writes = False, rs_critical_adapters_qualified = False \<rparr>,
       ss_contract_version = CONTRACT_VERSION \<rparr>"

definition PLATFORM_OPERATIONS :: "string list" where
  "PLATFORM_OPERATIONS =
    [''product.compose'', ''plugin.install'', ''plugin.enable'', ''plugin.disable'',
     ''plugin.upgrade'', ''plugin.revoke'', ''plugin.uninstall'', ''plugin.invoke'',
     ''identity.configure'', ''membership.invite'', ''membership.accept'', ''membership.change'',
     ''membership.revoke'', ''policy.evaluate'', ''policy.propose'', ''grant.create'',
     ''grant.revoke'', ''artifact.begin'', ''artifact.finalize'', ''deletion.request'',
     ''run.start'', ''run.cancel'', ''approval.decide'', ''effect.propose'', ''effect.dispatch'',
     ''effect.reconcile'', ''effect.compensate'', ''budget.configure'', ''provider.configure'',
     ''provider.compact'', ''connection.authorize'', ''connection.revoke'', ''schedule.create'',
     ''deadletter.replay'', ''ui.register'', ''export.create'', ''notification.read'',
     ''support.request'', ''kill-switch.set'', ''release.qualify'', ''catalog.submit'',
     ''catalog.review'', ''conformance.run'']"

definition is_platform_operation :: "string \<Rightarrow> bool" where
  "is_platform_operation operation = List.member PLATFORM_OPERATIONS operation"

section \<open>Wire values\<close>

record resource_ref =
  rr_resource_type :: string
  rr_resource_id :: resource_id
  rr_version :: int

datatype classification = Public | Internal | Confidential | Restricted

text \<open>\<open>derive(PartialOrd, Ord)\<close> on the enum: the order of its declaration.\<close>

fun classification_rank :: "classification \<Rightarrow> nat" where
  "classification_rank Public = 0"
| "classification_rank Internal = 1"
| "classification_rank Confidential = 2"
| "classification_rank Restricted = 3"

lemma classification_rank_inj: "classification_rank a = classification_rank b \<Longrightarrow> a = b"
  by (cases a; cases b) simp_all

instantiation classification :: linorder
begin

definition less_eq_classification :: "classification \<Rightarrow> classification \<Rightarrow> bool" where
  "less_eq_classification a b \<longleftrightarrow> classification_rank a \<le> classification_rank b"

definition less_classification :: "classification \<Rightarrow> classification \<Rightarrow> bool" where
  "less_classification a b \<longleftrightarrow> classification_rank a < classification_rank b"

instance
proof
  fix a b :: classification
  assume "a \<le> b" and "b \<le> a"
  then show "a = b"
    by (simp add: less_eq_classification_def classification_rank_inj)
qed (auto simp: less_eq_classification_def less_classification_def)

end

fun classification_as_str :: "classification \<Rightarrow> string" where
  "classification_as_str Public = ''PUBLIC''"
| "classification_as_str Internal = ''INTERNAL''"
| "classification_as_str Confidential = ''CONFIDENTIAL''"
| "classification_as_str Restricted = ''RESTRICTED''"

record artifact_ref =
  ar_artifact_id :: artifact_id
  ar_tenant_id :: tenant_id
  ar_digest :: digest
  ar_schema_version :: string
  ar_classification :: classification

datatype principal_kind = User | Service | Automation | Support

record principal_ref =
  pr_kind :: principal_kind
  pr_id :: principal_id
  pr_issuer :: string

datatype execution_class = TrustedNative | WasmComponent | RemoteWorker

record handler_contract =
  hc_id :: string
  hc_input_schema_ref :: artifact_ref
  hc_output_schema_ref :: artifact_ref
  hc_effects :: string
  hc_required_capabilities :: "action list"
  hc_max_execution_seconds :: u32

record workflow_node =
  wn_id :: string
  wn_kind :: string
  wn_handler_id :: "string option"
  wn_input_schema_ref :: artifact_ref
  wn_output_schema_ref :: artifact_ref
  wn_max_attempts :: u32
  wn_timeout_seconds :: u32
  wn_max_iterations :: u32
  wn_on_failure :: string

record workflow_edge =
  we_from :: string
  we_to :: string
  we_condition :: string

record workflow_definition =
  wd_id :: string
  wd_version :: string
  wd_input_schema_ref :: artifact_ref
  wd_output_schema_ref :: artifact_ref
  wd_entry_node :: string
  wd_nodes :: "workflow_node list"
  wd_edges :: "workflow_edge list"
  wd_max_total_steps :: u32
  wd_max_model_turns :: u32
  wd_required_actions :: "action list"
  wd_digest :: digest

datatype receipt_state = ReceiptAccepted | ReceiptSucceeded

record command_receipt =
  cr_command_id :: resource_id
  cr_state :: receipt_state
  cr_resource :: "resource_ref option"
  cr_run_id :: "resource_id option"
  cr_effect_id :: "resource_id option"
  cr_correlation_id :: resource_id
  cr_accepted_at :: int

section \<open>Facts\<close>

lemma opaque_id_new_Inr_iff:
  "opaque_id_new name val = Inr x \<longleftrightarrow>
     x = val \<and> val \<noteq> [] \<and> length val \<le> 128 \<and> is_ascii_alphanumeric (hd val)
     \<and> list_all opaque_tail_char (tl val)"
  by (cases val) (auto simp: opaque_id_new_def validate_opaque_identifier_def)

lemma digest_sha256_Inr_iff:
  "digest_sha256 hex = Inr d \<longleftrightarrow> d = ''sha256:'' @ hex \<and> length hex = 64 \<and> list_all lower_hex_char hex"
  by (auto simp: digest_sha256_def)

lemma digest_parse_Inr_iff:
  "digest_parse val = Inr d \<longleftrightarrow> d = val \<and> (\<exists>hex. digest_sha256 hex = Inr val)"
  by (auto simp: digest_parse_def digest_sha256_Inr_iff strip_prefix_Some_iff split: option.splits)

text \<open>A digest made of 64 lowercase hexadecimal digits is read back from its text unchanged.\<close>

lemma digest_roundtrip: "digest_sha256 hex = Inr d \<Longrightarrow> digest_parse d = Inr d"
  by (simp add: digest_parse_Inr_iff) (metis digest_sha256_Inr_iff)

end
