(* ===== verification/Kernel_Authority.thy ===== *)
theory Kernel_Authority
  imports Contracts
begin

text \<open>
  The authority guards of the kernel: tenant scope (\<open>scope.rs\<close>), run grants and their delegation
  (\<open>grants.rs\<close>), and the immutable approval binding (\<open>approval.rs\<close>). The locale \<open>attenuation\<close> is
  what every delegation mechanism owes its callers: deriving a grant never adds authority.
\<close>

section \<open>Tenant scope\<close>

record scoped_resource =
  sr_tenant_id :: tenant_id
  sr_resource_id :: resource_id

datatype tenant_scope_error = TenantContextMismatch

definition require_tenant_scope :: "tenant_id \<Rightarrow> scoped_resource \<Rightarrow> tenant_scope_error + unit" where
  "require_tenant_scope authenticated_tenant resource =
     (if authenticated_tenant \<noteq> sr_tenant_id resource then Inl TenantContextMismatch else Inr ())"

section \<open>Delegation contract\<close>

locale attenuation =
  fixes derive :: "'g \<Rightarrow> 'q \<Rightarrow> 'e + 'g"
    and permits :: "'g \<Rightarrow> 'x \<Rightarrow> bool"
    and scope :: "'g \<Rightarrow> 't"
  assumes derive_permits: "derive g q = Inr h \<Longrightarrow> permits h x \<Longrightarrow> permits g x"
    and derive_scope: "derive g q = Inr h \<Longrightarrow> scope h = scope g"
begin

lemma chain_attenuates:
  assumes "rfold (\<lambda>q g. derive g q) qs g = Inr h"
  shows "scope h = scope g \<and> (\<forall>x. permits h x \<longrightarrow> permits g x)"
  using assms
proof (induction qs arbitrary: g)
  case Nil
  then show ?case by simp
next
  case (Cons q qs)
  then obtain m where m: "derive g q = Inr m" and r: "rfold (\<lambda>q g. derive g q) qs m = Inr h"
    by (auto simp: rbind_Inr_iff)
  from Cons.IH [OF r] derive_permits [OF m] derive_scope [OF m] show ?case by auto
qed

end

section \<open>Run grants\<close>

record run_grant =
  rg_id :: grant_id
  rg_tenant_id :: tenant_id
  rg_principal_id :: principal_id
  rg_parent_id :: "grant_id option"
  rg_actions :: "action set"
  rg_resources :: "resource_id set"
  rg_expires_at :: epoch_millis

record child_grant_request =
  cg_id :: grant_id
  cg_tenant_id :: tenant_id
  cg_principal_id :: principal_id
  cg_actions :: "action set"
  cg_resources :: "resource_id set"
  cg_expires_at :: epoch_millis

datatype grant_error = DelegationDenied | DelegationExpired

definition new_root ::
    "grant_id \<Rightarrow> tenant_id \<Rightarrow> principal_id \<Rightarrow> action list \<Rightarrow> resource_id list \<Rightarrow> epoch_millis
     \<Rightarrow> run_grant" where
  "new_root gid tenant who actions resources expires_at =
     \<lparr> rg_id = gid, rg_tenant_id = tenant, rg_principal_id = who, rg_parent_id = None,
       rg_actions = set actions, rg_resources = set resources, rg_expires_at = expires_at \<rparr>"

definition derive_child :: "run_grant \<Rightarrow> child_grant_request \<Rightarrow> grant_error + run_grant" where
  "derive_child g request =
     (if cg_tenant_id request \<noteq> rg_tenant_id g
        \<or> cg_expires_at request > rg_expires_at g
        \<or> \<not> cg_actions request \<subseteq> rg_actions g
        \<or> \<not> cg_resources request \<subseteq> rg_resources g
      then Inl DelegationDenied
      else Inr \<lparr> rg_id = cg_id request, rg_tenant_id = cg_tenant_id request,
                 rg_principal_id = cg_principal_id request, rg_parent_id = Some (rg_id g),
                 rg_actions = cg_actions request, rg_resources = cg_resources request,
                 rg_expires_at = cg_expires_at request \<rparr>)"

definition authorize :: "run_grant \<Rightarrow> action \<Rightarrow> resource_id \<Rightarrow> epoch_millis \<Rightarrow> grant_error + unit" where
  "authorize g act resource now =
     (if now \<ge> rg_expires_at g then Inl DelegationExpired
      else if act \<notin> rg_actions g \<or> resource \<notin> rg_resources g then Inl DelegationDenied
      else Inr ())"

definition derive_chain :: "run_grant \<Rightarrow> child_grant_request list \<Rightarrow> grant_error + run_grant" where
  "derive_chain g requests = rfold (\<lambda>q g. derive_child g q) requests g"

lemma authorize_Inr_iff:
  "authorize g a r now = Inr u \<longleftrightarrow> now < rg_expires_at g \<and> a \<in> rg_actions g \<and> r \<in> rg_resources g"
  by (auto simp: authorize_def)

interpretation kernel_grants:
  attenuation derive_child "\<lambda>g (a, r, now). is_ok (authorize g a r now)" rg_tenant_id
  by unfold_locales
    (auto simp: derive_child_def is_ok_iff authorize_Inr_iff split: if_splits)

section \<open>Approval bindings\<close>

record approval_binding =
  ab_action :: action
  ab_target :: resource_id
  ab_content_digest :: digest
  ab_target_revision :: u64
  ab_tenant_scope :: tenant_id
  ab_actor :: principal_id
  ab_expires_at :: epoch_millis

record dispatch_binding =
  db_action :: action
  db_target :: resource_id
  db_content_digest :: digest
  db_target_revision :: u64
  db_tenant_scope :: tenant_id

datatype approval_error = ApprovalStale | ApprovalExpired

definition approval_new ::
    "action \<Rightarrow> resource_id \<Rightarrow> digest \<Rightarrow> u64 \<Rightarrow> tenant_id \<Rightarrow> principal_id \<Rightarrow> epoch_millis
     \<Rightarrow> approval_binding" where
  "approval_new act target content_digest target_revision tenant_scope actor expires_at =
     \<lparr> ab_action = act, ab_target = target, ab_content_digest = content_digest,
       ab_target_revision = target_revision, ab_tenant_scope = tenant_scope, ab_actor = actor,
       ab_expires_at = expires_at \<rparr>"

definition validate_dispatch ::
    "approval_binding \<Rightarrow> dispatch_binding \<Rightarrow> epoch_millis \<Rightarrow> approval_error + unit" where
  "validate_dispatch a d now =
     (if now \<ge> ab_expires_at a then Inl ApprovalExpired
      else if ab_action a \<noteq> db_action d
        \<or> ab_target a \<noteq> db_target d
        \<or> ab_content_digest a \<noteq> db_content_digest d
        \<or> ab_target_revision a \<noteq> db_target_revision d
        \<or> ab_tenant_scope a \<noteq> db_tenant_scope d
      then Inl ApprovalStale
      else Inr ())"

text \<open>The one dispatch an approval covers.\<close>

definition approved_dispatch :: "approval_binding \<Rightarrow> dispatch_binding" where
  "approved_dispatch a =
     \<lparr> db_action = ab_action a, db_target = ab_target a, db_content_digest = ab_content_digest a,
       db_target_revision = ab_target_revision a, db_tenant_scope = ab_tenant_scope a \<rparr>"

lemma validate_dispatch_Inr_iff:
  "validate_dispatch a d now = Inr u \<longleftrightarrow> now < ab_expires_at a \<and> d = approved_dispatch a"
  by (cases d) (auto simp: validate_dispatch_def approved_dispatch_def)

section \<open>Properties\<close>

text \<open>
  A chain of delegations never adds authority. Whatever the derived grant authorizes at some
  time, the root grant authorizes at that time, and both belong to the same tenant.
\<close>

theorem delegation_chain_attenuates:
  assumes "derive_chain g requests = Inr h"
  shows "rg_tenant_id h = rg_tenant_id g
    \<and> (is_ok (authorize h act resource now) \<longrightarrow> is_ok (authorize g act resource now))"
  using kernel_grants.chain_attenuates [of requests g h] assms by (force simp: derive_chain_def)

theorem delegation_chain_attenuates_witness:
  "let g = new_root ''g0'' ''t'' ''p'' [''read'', ''write''] [''doc''] 100;
       h = \<lparr> rg_id = ''g1'', rg_tenant_id = ''t'', rg_principal_id = ''q'',
             rg_parent_id = Some ''g0'', rg_actions = {''read''}, rg_resources = {''doc''},
             rg_expires_at = 50 \<rparr>
   in derive_chain g [\<lparr> cg_id = ''g1'', cg_tenant_id = ''t'', cg_principal_id = ''q'',
        cg_actions = {''read''}, cg_resources = {''doc''}, cg_expires_at = 50 \<rparr>] = Inr h
      \<and> is_ok (authorize h ''read'' ''doc'' 49) \<and> is_ok (authorize g ''read'' ''doc'' 49)"
proof -
  let ?g = "new_root ''g0'' ''t'' ''p'' [''read'', ''write''] [''doc''] 100"
  let ?h = "\<lparr> rg_id = ''g1'', rg_tenant_id = ''t'', rg_principal_id = ''q'',
             rg_parent_id = Some ''g0'', rg_actions = {''read''}, rg_resources = {''doc''},
             rg_expires_at = 50 \<rparr>"
  let ?q = "\<lparr> cg_id = ''g1'', cg_tenant_id = ''t'', cg_principal_id = ''q'',
        cg_actions = {''read''}, cg_resources = {''doc''}, cg_expires_at = 50 \<rparr>"
  have d: "derive_chain ?g [?q] = Inr ?h"
    by (simp add: derive_chain_def derive_child_def new_root_def)
  have a: "is_ok (authorize ?h ''read'' ''doc'' 49)" by (simp add: authorize_def)
  from delegation_chain_attenuates [OF d] a d show ?thesis by (simp add: Let_def)
qed

text \<open>
  An approval covers exactly one dispatch until it expires. A dispatch with any other action,
  target, content digest, target revision or tenant is refused as stale, and at or after the
  expiry every dispatch is refused as expired.
\<close>

theorem approval_covers_one_dispatch:
  "validate_dispatch a d now =
     (if now \<ge> ab_expires_at a then Inl ApprovalExpired
      else if d = approved_dispatch a then Inr () else Inl ApprovalStale)"
  by (cases d) (auto simp: validate_dispatch_def approved_dispatch_def)

end
