(* ===== verification/Kernel_Runtime.thy ===== *)
theory Kernel_Runtime
  imports Contracts
begin

text \<open>
  The application failures and small guards of \<open>crates/kernel/src/runtime.rs\<close>: the failure value
  every command handler returns, page limits, and the optimistic version check.
\<close>

datatype failure_kind =
    Invalid | NotFound | Denied | Conflict | Precondition | Unavailable | Exhausted | Expired

record command_failure =
  cf_code :: string
  cf_kind :: failure_kind
  cf_integrity_reference :: "artifact_ref option"

type_synonym 'a outcome = "command_failure + 'a"

definition failure_new :: "string \<Rightarrow> failure_kind \<Rightarrow> command_failure" where
  "failure_new code kind = \<lparr> cf_code = code, cf_kind = kind, cf_integrity_reference = None \<rparr>"

definition invalid :: "string \<Rightarrow> command_failure" where
  "invalid code = failure_new code Invalid"

definition not_found :: command_failure where
  "not_found = failure_new ''RESOURCE_NOT_FOUND'' NotFound"

definition denied :: "string \<Rightarrow> command_failure" where
  "denied code = failure_new code Denied"

definition conflict :: "string \<Rightarrow> command_failure" where
  "conflict code = failure_new code Conflict"

definition precondition :: "string \<Rightarrow> command_failure" where
  "precondition code = failure_new code Precondition"

definition unavailable :: "string \<Rightarrow> command_failure" where
  "unavailable code = failure_new code Unavailable"

definition artifact_integrity :: "artifact_ref \<Rightarrow> command_failure" where
  "artifact_integrity reference =
     \<lparr> cf_code = ''ARTIFACT_INTEGRITY'', cf_kind = Precondition,
       cf_integrity_reference = Some reference \<rparr>"

lemmas failure_defs =
  failure_new_def invalid_def not_found_def denied_def conflict_def precondition_def
  unavailable_def artifact_integrity_def

record page_query =
  pq_cursor :: "string option"
  pq_limit :: "u32 option"
  pq_q :: "string option"

definition checked_limit :: "page_query \<Rightarrow> u32 outcome" where
  "checked_limit page =
     (let limit = (case pq_limit page of None \<Rightarrow> 50 | Some l \<Rightarrow> l)
      in if 1 \<le> limit \<and> limit \<le> 200 then Inr limit else Inl (invalid ''PAGE_LIMIT_INVALID''))"

record command_actor =
  ca_tenant_id :: tenant_id
  ca_principal_id :: principal_id
  ca_issuer :: string
  ca_membership_epoch :: int
  ca_permission_epoch :: int
  ca_policy_version :: string
  ca_policy_epoch :: int

definition require_expected_version :: "int \<Rightarrow> int \<Rightarrow> int outcome" where
  "require_expected_version actual expected =
     (if actual \<noteq> expected then Inl (conflict ''STALE_VERSION'')
      else ok_or (precondition ''VERSION_EXHAUSTED'') (checked_i32 (actual + 1)))"

lemma require_expected_version_Inr_iff [res_simps]:
  "require_expected_version actual expected = Inr v \<longleftrightarrow>
     actual = expected \<and> v = actual + 1 \<and> in_i32 v"
  by (auto simp: require_expected_version_def checked_i32_def)

end
