(* ===== verification/Kernel_Effects.thy ===== *)
theory Kernel_Effects
  imports Kernel_State
begin

text \<open>
  The in-memory guards of the kernel: the effect record that never resends blindly
  (\<open>effects.rs\<close>), the cost reservation that keeps its hold until authoritative usage arrives
  (\<open>budget.rs\<close>), and the bounded loop (\<open>loop_guard.rs\<close>). Each is a record with one function per
  method; \<open>effect_step\<close> and \<open>cost_step\<close> name the methods as operations, so that properties can
  speak of any interleaving of calls.
\<close>

section \<open>Effect records\<close>

record effect_record =
  er_state :: effect_state
  er_transmit_count :: u32
  er_reconciliation_queued :: bool

datatype effect_error = OutcomeUnknownBlocksResend | InvalidEffectState

datatype reconciliation_evidence =
    ConfirmedPresent | ConfirmedFailure | ProvenAbsentAndReauthorized | Unresolved

definition effect_authorized :: effect_record where
  "effect_authorized =
     \<lparr> er_state = E_Authorized, er_transmit_count = 0, er_reconciliation_queued = False \<rparr>"

definition transmit :: "effect_record \<Rightarrow> effect_error + effect_record" where
  "transmit e =
     (if er_state e \<noteq> E_Authorized
      then Inl (if er_state e \<in> {E_OutcomeUnknown, E_Reconciling, E_ManualReview}
                then OutcomeUnknownBlocksResend else InvalidEffectState)
      else Inr (e\<lparr>er_state := E_Executing, er_transmit_count := er_transmit_count e + 1\<rparr>))"

definition mark_ambiguous_timeout :: "effect_record \<Rightarrow> effect_error + effect_record" where
  "mark_ambiguous_timeout e =
     (if er_state e \<noteq> E_Executing then Inl InvalidEffectState
      else Inr (e\<lparr>er_state := E_OutcomeUnknown, er_reconciliation_queued := True\<rparr>))"

definition begin_reconciliation :: "effect_record \<Rightarrow> effect_error + effect_record" where
  "begin_reconciliation e =
     (if er_state e \<notin> {E_OutcomeUnknown, E_ManualReview} then Inl InvalidEffectState
      else Inr (e\<lparr>er_state := E_Reconciling, er_reconciliation_queued := False\<rparr>))"

fun evidence_state :: "reconciliation_evidence \<Rightarrow> effect_state" where
  "evidence_state ConfirmedPresent = E_Succeeded"
| "evidence_state ConfirmedFailure = E_FailedConfirmed"
| "evidence_state ProvenAbsentAndReauthorized = E_Authorized"
| "evidence_state Unresolved = E_ManualReview"

definition reconcile :: "effect_record \<Rightarrow> reconciliation_evidence \<Rightarrow> effect_error + effect_record" where
  "reconcile e evidence =
     (if er_state e \<noteq> E_Reconciling then Inl InvalidEffectState
      else Inr (e\<lparr>er_state := evidence_state evidence\<rparr>))"

datatype effect_op = Transmit | MarkAmbiguousTimeout | BeginReconciliation
  | Reconcile reconciliation_evidence

fun effect_step :: "effect_record \<Rightarrow> effect_op \<Rightarrow> effect_error + effect_record" where
  "effect_step e Transmit = transmit e"
| "effect_step e MarkAmbiguousTimeout = mark_ambiguous_timeout e"
| "effect_step e BeginReconciliation = begin_reconciliation e"
| "effect_step e (Reconcile evidence) = reconcile e evidence"

lemmas effect_op_defs =
  transmit_def mark_ambiguous_timeout_def begin_reconciliation_def reconcile_def

definition effect_inv :: "effect_record \<Rightarrow> bool" where
  "effect_inv e \<longleftrightarrow> er_reconciliation_queued e = (er_state e = E_OutcomeUnknown)
     \<and> er_state e \<in> {E_Authorized, E_Executing, E_OutcomeUnknown, E_Reconciling, E_ManualReview,
                     E_Succeeded, E_FailedConfirmed}"

lemma effect_op_full_cases:
  obtains "a = Transmit" | "a = MarkAmbiguousTimeout" | "a = BeginReconciliation"
    | "a = Reconcile ConfirmedPresent" | "a = Reconcile ConfirmedFailure"
    | "a = Reconcile ProvenAbsentAndReauthorized" | "a = Reconcile Unresolved"
  by (metis effect_op.exhaust reconciliation_evidence.exhaust)

lemma effect_step_inv: "effect_inv e \<Longrightarrow> effect_step e a = Inr e' \<Longrightarrow> effect_inv e'"
  by (cases a rule: effect_op_full_cases) (auto simp: effect_inv_def effect_op_defs split: if_splits)

interpretation kernel_effects: invariant_ops effect_step effect_inv
  by unfold_locales (rule effect_step_inv)

lemma effect_step_edge: "effect_step e a = Inr e' \<Longrightarrow> effect_edge (er_state e) (er_state e')"
  by (cases a rule: effect_op_full_cases; cases "er_state e")
    (simp_all add: effect_op_defs effect_edge_def, auto)

lemma effect_step_count:
  "effect_step e a = Inr e' \<Longrightarrow>
     er_transmit_count e' = er_transmit_count e + (if a = Transmit then 1 else 0)"
  by (cases a rule: effect_op_full_cases) (auto simp: effect_op_defs split: if_splits)

lemma effect_step_uncertain:
  assumes "effect_step e a = Inr e'" and "a \<noteq> Reconcile ProvenAbsentAndReauthorized"
    and "er_state e \<notin> {E_Prepared, E_WaitingApproval, E_Authorized, E_Executing}"
  shows "er_state e' \<notin> {E_Prepared, E_WaitingApproval, E_Authorized, E_Executing}
    \<and> er_transmit_count e' = er_transmit_count e"
  using assms
  by (cases a rule: effect_op_full_cases) (auto simp: effect_op_defs split: if_splits)

section \<open>Cost reservations\<close>

record cost_reservation =
  co_upper_bound :: u64
  co_held :: u64
  co_charged :: "u64 option"
  co_state :: cost_state
  co_reconciliation_queued :: bool

datatype budget_error =
    PriceBoundUnknown | IllegalCostState | SettlementConflict | UsageExceedsReservation

definition cost_reserve :: "u64 \<Rightarrow> budget_error + cost_reservation" where
  "cost_reserve upper_bound =
     (if upper_bound = 0 then Inl PriceBoundUnknown
      else Inr \<lparr> co_upper_bound = upper_bound, co_held = upper_bound, co_charged = None,
                 co_state = C_Reserved, co_reconciliation_queued = False \<rparr>)"

definition mark_usage_unknown :: "cost_reservation \<Rightarrow> budget_error + cost_reservation" where
  "mark_usage_unknown c =
     (if co_state c \<noteq> C_Reserved then Inl IllegalCostState
      else Inr (c\<lparr>co_state := C_Unknown, co_reconciliation_queued := True\<rparr>))"

definition settle_authoritative_usage ::
    "cost_reservation \<Rightarrow> u64 \<Rightarrow> budget_error + cost_reservation" where
  "settle_authoritative_usage c used =
     (if co_state c = C_Settled
      then (if co_charged c = Some used then Inr c else Inl SettlementConflict)
      else if co_state c \<notin> {C_Reserved, C_Unknown} then Inl IllegalCostState
      else if used > co_upper_bound c then Inl UsageExceedsReservation
      else Inr (c\<lparr>co_state := C_Settled, co_charged := Some used, co_held := 0,
                  co_reconciliation_queued := False\<rparr>))"

datatype cost_op = MarkUsageUnknown | SettleUsage u64

fun cost_step :: "cost_reservation \<Rightarrow> cost_op \<Rightarrow> budget_error + cost_reservation" where
  "cost_step c MarkUsageUnknown = mark_usage_unknown c"
| "cost_step c (SettleUsage used) = settle_authoritative_usage c used"

lemmas cost_op_defs = mark_usage_unknown_def settle_authoritative_usage_def

text \<open>The whole bound is held until one charge within the bound replaces it.\<close>

definition cost_inv :: "cost_reservation \<Rightarrow> bool" where
  "cost_inv c \<longleftrightarrow> co_upper_bound c \<noteq> 0
     \<and> (if co_state c \<in> {C_Reserved, C_Unknown}
        then co_held c = co_upper_bound c \<and> co_charged c = None
        else co_state c = C_Settled \<and> co_held c = 0
             \<and> (\<exists>used. co_charged c = Some used \<and> used \<le> co_upper_bound c))
     \<and> co_reconciliation_queued c = (co_state c = C_Unknown)"

lemma cost_reserve_inv: "cost_reserve b = Inr c \<Longrightarrow> cost_inv c"
  by (auto simp: cost_reserve_def cost_inv_def split: if_splits)

lemma cost_step_inv: "cost_inv c \<Longrightarrow> cost_step c a = Inr c' \<Longrightarrow> cost_inv c'"
  by (induction c a rule: cost_step.induct)
    (auto simp: cost_inv_def cost_op_defs split: if_splits)

interpretation kernel_cost: invariant_ops cost_step cost_inv
  by unfold_locales (rule cost_step_inv)

lemma cost_step_settled:
  "cost_step c a = Inr c' \<Longrightarrow> co_state c = C_Settled \<Longrightarrow> c' = c"
  by (induction c a rule: cost_step.induct) (auto simp: cost_op_defs split: if_splits)

lemma cost_step_edge:
  "cost_step c a = Inr c' \<Longrightarrow> c' = c \<or> cost_edge (co_state c) (co_state c')"
  by (induction c a rule: cost_step.induct)
    (auto simp: cost_op_defs cost_edge_def split: if_splits)

section \<open>Bounded loops\<close>

record bounded_loop =
  bl_max_turns :: u32
  bl_completed_turns :: u32

datatype loop_error = LimitReached

definition bounded_loop_new :: "u32 \<Rightarrow> bounded_loop" where
  "bounded_loop_new max_turns = \<lparr> bl_max_turns = max_turns, bl_completed_turns = 0 \<rparr>"

text \<open>
  \<open>run_next\<close> calls the closure at most once. What the closure does to its surroundings is the
  function \<open>dispatch\<close> on a world \<open>'w\<close>; it runs after the turn is counted.
\<close>

definition run_next ::
    "bounded_loop \<Rightarrow> ('w \<Rightarrow> 'w \<times> 'a) \<Rightarrow> 'w \<Rightarrow> bounded_loop \<times> 'w \<times> (loop_error + 'a)" where
  "run_next l dispatch w =
     (if bl_completed_turns l \<ge> bl_max_turns l then (l, w, Inl LimitReached)
      else (case dispatch w of (w', a) \<Rightarrow>
              (l\<lparr>bl_completed_turns := bl_completed_turns l + 1\<rparr>, w', Inr a)))"

fun run_turns :: "bounded_loop \<Rightarrow> ('w \<Rightarrow> 'w \<times> 'a) list \<Rightarrow> 'w \<Rightarrow> bounded_loop \<times> 'w" where
  "run_turns l [] w = (l, w)"
| "run_turns l (d # ds) w = (case run_next l d w of (l', w', _) \<Rightarrow> run_turns l' ds w')"

definition loop_room :: "bounded_loop \<Rightarrow> nat" where
  "loop_room l = unat (bl_max_turns l) - unat (bl_completed_turns l)"

text \<open>Counting a turn below the limit cannot wrap around.\<close>

lemma run_next_room:
  assumes "bl_completed_turns l < bl_max_turns l"
  shows "unat (bl_completed_turns l + 1) = Suc (unat (bl_completed_turns l))"
proof -
  from assms have "unat (bl_completed_turns l) < unat (bl_max_turns l)"
    by (simp add: word_less_nat_alt)
  moreover have "unat (bl_max_turns l) < 2 ^ 32" using unsigned_less [of "bl_max_turns l"] by simp
  ultimately have "unat (bl_completed_turns l) + 1 < 2 ^ 32" by linarith
  then show ?thesis by (simp add: unat_word_ariths)
qed

lemma run_next_le: "bl_completed_turns l \<le> bl_max_turns l \<Longrightarrow> run_next l d w = (l', w', r) \<Longrightarrow>
    bl_completed_turns l' \<le> bl_max_turns l' \<and> bl_max_turns l' = bl_max_turns l"
  by (auto simp: run_next_def word_le_nat_alt run_next_room not_le word_less_nat_alt
      split: if_splits prod.splits)

text \<open>Exactly the first calls, as many as the limit leaves room for, reach their closure.\<close>

lemma run_turns_world:
  "snd (run_turns l ds w) = foldl (\<lambda>w d. fst (d w)) w (take (loop_room l) ds)"
proof (induction ds arbitrary: l w)
  case Nil
  then show ?case by simp
next
  case (Cons d ds)
  show ?case
  proof (cases "bl_completed_turns l < bl_max_turns l")
    case True
    let ?l = "l\<lparr>bl_completed_turns := bl_completed_turns l + 1\<rparr>"
    from True have room: "loop_room l = Suc (loop_room ?l)"
      using run_next_room [OF True] by (simp add: loop_room_def word_less_nat_alt)
    obtain w' a where d: "d w = (w', a)" by (cases "d w")
    with True have "run_next l d w = (?l, w', Inr a)" by (simp add: run_next_def)
    with Cons.IH [of ?l w'] d room show ?thesis by simp
  next
    case False
    then have "loop_room l = 0" by (simp add: loop_room_def word_le_nat_alt not_less)
    moreover from False have "run_next l d w = (l, w, Inl LimitReached)"
      by (simp add: run_next_def not_less)
    ultimately show ?thesis using Cons.IH [of l w] by simp
  qed
qed

section \<open>Properties\<close>

text \<open>
  Whatever calls are made on an effect record, in any order and with refused calls leaving
  it unchanged, a reconciliation is queued exactly while the outcome is unknown, and without
  proof of absence the record is transmitted at most once.
\<close>

theorem effect_transmits_once:
  assumes "Reconcile ProvenAbsentAndReauthorized \<notin> set ops"
  shows "let e = attempts effect_step effect_authorized ops in
    er_reconciliation_queued e = (er_state e = E_OutcomeUnknown)
    \<and> er_transmit_count e = (if er_state e = E_Authorized then 0 else 1)"
proof -
  let ?P = "\<lambda>e. er_transmit_count e = (if er_state e = E_Authorized then 0 else 1)"
  have "?P (attempts effect_step effect_authorized ops)"
  proof (rule kernel_effects.attempts_stable [where A = "set ops"])
    fix e a e'
    assume "effect_inv e" and "a \<in> set ops" and s: "effect_step e a = Inr e'" and p: "?P e"
    with assms have "a \<noteq> Reconcile ProvenAbsentAndReauthorized" by blast
    with s p show "?P e'"
      by (cases a rule: effect_op_full_cases) (auto simp: effect_op_defs split: if_splits)
  qed (simp_all add: effect_inv_def effect_authorized_def)
  moreover have "effect_inv (attempts effect_step effect_authorized ops)"
    by (rule kernel_effects.attempts_inv) (simp add: effect_inv_def effect_authorized_def)
  ultimately show ?thesis by (simp add: effect_inv_def Let_def)
qed

theorem effect_transmits_once_witness:
  "er_transmit_count (attempts effect_step effect_authorized
     [Transmit, MarkAmbiguousTimeout, Transmit, BeginReconciliation, Transmit, Reconcile Unresolved,
      Transmit]) = 1"
  using effect_transmits_once [of "[Transmit, MarkAmbiguousTimeout, Transmit, BeginReconciliation,
      Transmit, Reconcile Unresolved, Transmit]"]
  by (simp add: Let_def attempt_def effect_op_defs effect_authorized_def)

text \<open>
  The effect record refines the declared effect machine. Every accepted call moves along an
  edge of the machine, only a transmission is counted, and it is counted once.
\<close>

theorem effect_record_refines_machine:
  assumes "effect_step e a = Inr e'"
  shows "is_ok (versioned_transition \<lparr>vs_state = M_Effect (er_state e), vs_version = n\<rparr>
           (M_Effect (er_state e')))
    \<and> er_transmit_count e' = er_transmit_count e + (if er_state e' = E_Executing then 1 else 0)"
proof -
  from assms have "a = Transmit \<longleftrightarrow> er_state e' = E_Executing"
    by (cases a rule: effect_op_full_cases) (auto simp: effect_op_defs split: if_splits)
  with effect_step_edge [OF assms] effect_step_count [OF assms] show ?thesis
    by (simp add: versioned_transition_def)
qed

theorem effect_record_refines_machine_witness:
  "effect_step effect_authorized Transmit =
     Inr \<lparr> er_state = E_Executing, er_transmit_count = 1, er_reconciliation_queued = False \<rparr>
   \<and> is_ok (versioned_transition \<lparr>vs_state = M_Effect E_Authorized, vs_version = 1\<rparr>
       (M_Effect E_Executing))"
proof -
  have "effect_step effect_authorized Transmit =
     Inr \<lparr> er_state = E_Executing, er_transmit_count = 1, er_reconciliation_queued = False \<rparr>"
    by (simp add: transmit_def effect_authorized_def)
  with effect_record_refines_machine [OF this, of 1] show ?thesis
    by (simp add: effect_authorized_def)
qed

text \<open>
  A reservation keeps its whole bound on hold until one authoritative usage within the bound
  is charged in its place; from then on no sequence of calls changes it, and repeating the same
  settlement is accepted.
\<close>

theorem reservation_settles_once:
  assumes "cost_reserve bound = Inr c0" and "c = attempts cost_step c0 ops"
  shows "co_upper_bound c = bound
    \<and> (case co_charged c of
         None \<Rightarrow> co_held c = bound
       | Some used \<Rightarrow> used \<le> bound \<and> co_held c = 0
           \<and> cost_step c (SettleUsage used) = Inr c \<and> (\<forall>more. attempts cost_step c more = c))"
proof -
  from assms(1) have c0: "cost_inv c0" "co_upper_bound c0 = bound"
    by (auto simp: cost_reserve_inv cost_reserve_def split: if_splits)
  have inv: "cost_inv c" unfolding assms(2) using c0(1) by (rule kernel_cost.attempts_inv)
  have bound: "co_upper_bound c = bound" unfolding assms(2)
  proof (rule kernel_cost.attempts_stable [where A = UNIV])
    fix s a t assume "cost_step s a = Inr t" and "co_upper_bound s = bound"
    then show "co_upper_bound t = bound"
      by (induction s a rule: cost_step.induct) (auto simp: cost_op_defs split: if_splits)
  qed (use c0 in simp_all)
  have stays: "attempts cost_step c more = c" if s: "co_state c = C_Settled" for more
  proof (induction more)
    case (Cons a more)
    have "attempt cost_step c a = c"
      using cost_step_settled [OF _ s] by (auto simp: attempt_def split: sum.splits)
    with Cons show ?case by simp
  qed simp
  show ?thesis
  proof (cases "co_charged c")
    case None
    with inv bound show ?thesis by (auto simp: cost_inv_def split: if_splits)
  next
    case (Some used)
    with inv have "co_state c = C_Settled" and "co_held c = 0" and "used \<le> co_upper_bound c"
      by (auto simp: cost_inv_def split: if_splits)
    with Some bound stays show ?thesis by (simp add: settle_authoritative_usage_def)
  qed
qed

theorem reservation_settles_once_witness:
  "\<exists>c0. cost_reserve 10 = Inr c0
   \<and> co_charged (attempts cost_step c0 [SettleUsage 11, MarkUsageUnknown, SettleUsage 7]) = Some 7
   \<and> co_held (attempts cost_step c0 [SettleUsage 11, MarkUsageUnknown, SettleUsage 7]) = 0"
proof -
  obtain c0 where c0: "cost_reserve 10 = Inr c0" by (simp add: cost_reserve_def)
  then have ch: "co_charged (attempts cost_step c0 [SettleUsage 11, MarkUsageUnknown, SettleUsage 7])
      = Some 7"
    by (auto simp: cost_reserve_def attempt_def cost_op_defs)
  from reservation_settles_once [OF c0 refl, of "[SettleUsage 11, MarkUsageUnknown, SettleUsage 7]"]
    ch c0 show ?thesis by (intro exI [of _ c0]) (simp only: option.case simp_thms)
qed

text \<open>
  Of any number of calls, a bounded loop lets exactly the first \<open>max_turns\<close> reach their
  closure, in order; the counter never wraps around.
\<close>

theorem bounded_loop_dispatches_limit:
  "snd (run_turns (bounded_loop_new m) ds w) = foldl (\<lambda>w d. fst (d w)) w (take (unat m) ds)"
  by (simp add: run_turns_world loop_room_def bounded_loop_new_def)

end
