(* ===== verification/Kernel_Registry.thy ===== *)
theory Kernel_Registry
  imports Contracts "HOL-Library.AList"
begin

text \<open>
  Dependency resolution and installation (\<open>crates/kernel/src/registry.rs\<close>). A
  \<open>BTreeMap<PluginId, Vec<PluginId>>\<close> is an association list updated by
  \<^const>\<open>AList.update\<close>; the depth-first \<open>visit\<close> is a pair of mutually recursive functions, one
  for the method and one for its loop over the dependencies.
\<close>

type_synonym dependency_graph = "(plugin_id \<times> plugin_id list) list"

datatype registry_error =
    DependencyCycle "plugin_id list"
  | DependencyUnsatisfied plugin_id

definition graph_insert :: "dependency_graph \<Rightarrow> plugin_id \<Rightarrow> plugin_id list \<Rightarrow> dependency_graph" where
  "graph_insert g plugin dependencies = AList.update plugin dependencies g"

text \<open>\<open>Iterator::position\<close> for an element.\<close>

fun position :: "'a \<Rightarrow> 'a list \<Rightarrow> nat option" where
  "position x [] = None"
| "position x (y # ys) = (if y = x then Some 0 else map_option Suc (position x ys))"

lemma position_None_iff: "position x ys = None \<longleftrightarrow> x \<notin> set ys"
  by (induction ys) auto

lemma position_SomeD: "position x ys = Some i \<Longrightarrow> i < length ys \<and> ys ! i = x"
  by (induction ys arbitrary: i) (auto split: if_splits)

lemma stack_shrinks:
  assumes "map_of g plugin = Some ds" and "plugin \<notin> set visiting"
  shows "card (fst ` set g - insert plugin (set visiting)) < card (fst ` set g - set visiting)"
proof (rule psubset_card_mono)
  from assms(1) have "plugin \<in> fst ` set g" by (metis map_of_eq_None_iff option.discI)
  with assms(2) show "fst ` set g - insert plugin (set visiting) \<subset> fst ` set g - set visiting"
    by blast
qed simp

text \<open>
  \<open>visiting\<close> is the call stack of the recursion: the method pushes its plugin before the loop and
  pops it after, so every call sees the stack of its callers. The pair carries \<open>visited\<close> and
  \<open>order\<close>.
\<close>

function visit ::
    "dependency_graph \<Rightarrow> plugin_id \<Rightarrow> plugin_id list \<Rightarrow> plugin_id set \<times> plugin_id list
     \<Rightarrow> registry_error + plugin_id set \<times> plugin_id list"
  and visit_all ::
    "dependency_graph \<Rightarrow> plugin_id list \<Rightarrow> plugin_id list \<Rightarrow> plugin_id set \<times> plugin_id list
     \<Rightarrow> registry_error + plugin_id set \<times> plugin_id list"
where
  "visit g plugin visiting vo =
     (if plugin \<in> fst vo then Inr vo
      else case position plugin visiting of
        Some pos \<Rightarrow> Inl (DependencyCycle (drop pos visiting @ [plugin]))
      | None \<Rightarrow>
          (case map_of g plugin of
             None \<Rightarrow> Inl (DependencyUnsatisfied plugin)
           | Some dependencies \<Rightarrow>
               rbind (visit_all g dependencies (visiting @ [plugin]) vo)
                 (\<lambda>vo'. Inr (insert plugin (fst vo'), snd vo' @ [plugin]))))"
| "visit_all g [] visiting vo = Inr vo"
| "visit_all g (dependency # rest) visiting vo =
     rbind (visit g dependency visiting vo) (\<lambda>vo'. visit_all g rest visiting vo')"
  by pat_completeness auto

termination
proof (relation "measures
    [\<lambda>x. case x of Inl (g, _, visiting, _) \<Rightarrow> card (fst ` set g - set visiting)
                 | Inr (g, _, visiting, _) \<Rightarrow> card (fst ` set g - set visiting),
     \<lambda>x. case x of Inl _ \<Rightarrow> 0 | Inr (_, ds, _, _) \<Rightarrow> Suc (length ds)]", goal_cases)
  case (2 g plugin visiting vo dependencies)
  then have "plugin \<notin> set visiting" by (simp add: position_None_iff)
  with 2 show ?case by (simp add: stack_shrinks insert_commute)
qed simp_all

declare visit.simps [simp del]

definition resolve :: "dependency_graph \<Rightarrow> plugin_id \<Rightarrow> registry_error + plugin_id list" where
  "resolve g root = rbind (visit g root [] ({}, [])) (\<lambda>vo. Inr (snd vo))"

text \<open>
  \<open>InstallRegistry\<close> keeps the set of installed plugins; \<open>migrate\<close> is the caller's closure, a change
  of its world for each plugin.
\<close>

definition install_with_migration ::
    "plugin_id set \<Rightarrow> dependency_graph \<Rightarrow> plugin_id \<Rightarrow> (plugin_id \<Rightarrow> 'w \<Rightarrow> 'w) \<Rightarrow> 'w
     \<Rightarrow> plugin_id set \<times> 'w \<times> (registry_error + plugin_id list)" where
  "install_with_migration installed g root migrate w =
     (case resolve g root of
        Inl e \<Rightarrow> (installed, w, Inl e)
      | Inr plan \<Rightarrow> (installed \<union> set plan, fold migrate plan w, Inr plan))"

section \<open>Dependency order\<close>

definition depends :: "dependency_graph \<Rightarrow> plugin_id \<Rightarrow> plugin_id \<Rightarrow> bool" where
  "depends g p d \<longleftrightarrow> (\<exists>ds. map_of g p = Some ds \<and> d \<in> set ds)"

text \<open>Every plugin of the list is declared and comes after all its dependencies.\<close>

definition topological :: "dependency_graph \<Rightarrow> plugin_id list \<Rightarrow> bool" where
  "topological g xs \<longleftrightarrow>
     (\<forall>i < length xs. \<exists>ds. map_of g (xs ! i) = Some ds \<and> set ds \<subseteq> set (take i xs))"

lemma topological_Nil [simp]: "topological g []"
  by (simp add: topological_def)

lemma topological_snoc:
  "topological g (xs @ [p]) \<longleftrightarrow>
     topological g xs \<and> (\<exists>ds. map_of g p = Some ds \<and> set ds \<subseteq> set xs)"
  by (auto simp: topological_def less_Suc_eq nth_append)

lemma topological_at:
  assumes "topological g xs" and "i < length xs" and "depends g (xs ! i) d"
  shows "d \<in> set (take i xs)"
proof -
  from assms(1,2) obtain ds where "map_of g (xs ! i) = Some ds" and "set ds \<subseteq> set (take i xs)"
    unfolding topological_def by blast
  with assms(3) show ?thesis by (auto simp: depends_def)
qed

lemma topological_closed:
  "topological g xs \<Longrightarrow> p \<in> set xs \<Longrightarrow> depends g p d \<Longrightarrow> d \<in> set xs"
proof -
  assume t: "topological g xs" and p: "p \<in> set xs" and d: "depends g p d"
  from p obtain i where i: "i < length xs" "xs ! i = p" by (auto simp: in_set_conv_nth)
  with topological_at [OF t, of i d] d show ?thesis by (blast dest: in_set_takeD)
qed

section \<open>A successful visit\<close>

definition visit_grows ::
    "dependency_graph \<Rightarrow> plugin_id set \<Rightarrow> plugin_id list
     \<Rightarrow> plugin_id set \<times> plugin_id list \<Rightarrow> plugin_id set \<times> plugin_id list \<Rightarrow> bool" where
  "visit_grows g roots visiting vo vo' \<longleftrightarrow>
     (\<exists>new. snd vo' = snd vo @ new \<and> set new \<inter> set visiting = {}
        \<and> (\<forall>x \<in> set new. \<exists>r \<in> roots. (depends g)\<^sup>*\<^sup>* r x))
     \<and> fst vo' = set (snd vo') \<and> distinct (snd vo') \<and> topological g (snd vo')
     \<and> roots \<subseteq> fst vo'"

lemma visit_grows_trans:
  assumes "visit_grows g A visiting a b" and "visit_grows g B visiting b c"
  shows "visit_grows g (A \<union> B) visiting a c"
proof -
  from assms obtain m n where m: "snd b = snd a @ m" "set m \<inter> set visiting = {}"
      "\<forall>x \<in> set m. \<exists>r \<in> A. (depends g)\<^sup>*\<^sup>* r x"
    and n: "snd c = snd b @ n" "set n \<inter> set visiting = {}"
      "\<forall>x \<in> set n. \<exists>r \<in> B. (depends g)\<^sup>*\<^sup>* r x"
    unfolding visit_grows_def by blast
  from m n have "snd c = snd a @ (m @ n) \<and> set (m @ n) \<inter> set visiting = {}
      \<and> (\<forall>x \<in> set (m @ n). \<exists>r \<in> A \<union> B. (depends g)\<^sup>*\<^sup>* r x)"
    by (simp add: Int_Un_distrib2) blast
  moreover from assms n(1) have "A \<union> B \<subseteq> fst c" by (auto simp: visit_grows_def)
  ultimately show ?thesis using assms(2) unfolding visit_grows_def by blast
qed

lemma visit_ok:
  "visit g p visiting vo = Inr vo' \<Longrightarrow> fst vo = set (snd vo) \<Longrightarrow> distinct (snd vo) \<Longrightarrow>
     topological g (snd vo) \<Longrightarrow>
     visit_grows g {p} visiting vo vo' \<and> (p \<notin> fst vo \<longrightarrow> last (snd vo') = p)"
  "visit_all g ds visiting vo = Inr vo' \<Longrightarrow> fst vo = set (snd vo) \<Longrightarrow> distinct (snd vo) \<Longrightarrow>
     topological g (snd vo) \<Longrightarrow> visit_grows g (set ds) visiting vo vo'"
proof (induction g p visiting vo and g ds visiting vo arbitrary: vo' and vo'
    rule: visit_visit_all.induct)
  case (1 g p visiting vo)
  show ?case
  proof (cases "p \<in> fst vo")
    case True
    with 1 show ?thesis by (auto simp: visit.simps visit_grows_def)
  next
    case False
    with "1.prems"(1) have pos: "position p visiting = None"
      by (auto simp: visit.simps split: option.splits)
    from "1.prems"(1) False pos obtain ds where ds: "map_of g p = Some ds"
      by (auto simp: visit.simps split: option.splits)
    from "1.prems"(1) False pos ds obtain vm where
      vm: "visit_all g ds (visiting @ [p]) vo = Inr vm"
      and vo': "vo' = (insert p (fst vm), snd vm @ [p])"
      by (auto simp: visit.simps rbind_Inr_iff)
    from "1.IH" [OF False pos ds vm "1.prems"(2-4)]
    obtain new where new: "snd vm = snd vo @ new" "set new \<inter> set (visiting @ [p]) = {}"
      and reach: "\<forall>x \<in> set new. \<exists>r \<in> set ds. (depends g)\<^sup>*\<^sup>* r x"
      and rest: "fst vm = set (snd vm)" "distinct (snd vm)" "topological g (snd vm)"
        "set ds \<subseteq> fst vm"
      by (auto simp: visit_grows_def)
    have "\<exists>new'. snd vo' = snd vo @ new' \<and> set new' \<inter> set visiting = {}
        \<and> (\<forall>x \<in> set new'. (depends g)\<^sup>*\<^sup>* p x)"
    proof (intro exI conjI ballI)
      show "snd vo' = snd vo @ (new @ [p])" using new(1) vo' by simp
      show "set (new @ [p]) \<inter> set visiting = {}"
        using new(2) pos by (auto simp: position_None_iff)
      fix x assume "x \<in> set (new @ [p])"
      moreover have "depends g p r" if "r \<in> set ds" for r
        using ds that by (simp add: depends_def)
      ultimately show "(depends g)\<^sup>*\<^sup>* p x"
        using reach by (auto; meson converse_rtranclp_into_rtranclp)
    qed
    moreover from new False "1.prems"(2) have "p \<notin> set (snd vm)" by auto
    ultimately show ?thesis
      using rest ds vo' by (auto simp: visit_grows_def topological_snoc)
  qed
next
  case (2 g visiting vo)
  then show ?case by (auto simp: visit_grows_def)
next
  case (3 g d ds visiting vo)
  from "3.prems"(1) obtain vm where v: "visit g d visiting vo = Inr vm"
    and va: "visit_all g ds visiting vm = Inr vo'"
    by (auto simp: rbind_Inr_iff)
  from "3.IH"(1) [OF v "3.prems"(2-4)] have g1: "visit_grows g {d} visiting vo vm" by simp
  then have "fst vm = set (snd vm)" "distinct (snd vm)" "topological g (snd vm)"
    by (auto simp: visit_grows_def)
  from "3.IH"(2) [OF v va this] have g2: "visit_grows g (set ds) visiting vm vo'" .
  from visit_grows_trans [OF g1 g2] show ?case by simp
qed

section \<open>A refused visit\<close>

lemma successively_reaches: "successively e (x # xs) \<Longrightarrow> y \<in> set (x # xs) \<Longrightarrow> e\<^sup>*\<^sup>* x y"
proof (induction xs arbitrary: x)
  case Nil
  then show ?case by simp
next
  case (Cons z zs)
  then have "e x z" and "successively e (z # zs)" by simp_all
  with Cons show ?case by (auto intro: converse_rtranclp_into_rtranclp)
qed

definition cycle_path :: "dependency_graph \<Rightarrow> plugin_id list \<Rightarrow> bool" where
  "cycle_path g path \<longleftrightarrow>
     length path \<ge> 2 \<and> hd path = last path \<and> successively (depends g) path"

lemma successively_drop: "successively e xs \<Longrightarrow> successively e (drop n xs)"
  by (metis append_take_drop_id successively_append_iff)

lemma cycle_of_stack:
  assumes "successively (depends g) (visiting @ [p])" and "position p visiting = Some i"
  shows "cycle_path g (drop i visiting @ [p])"
proof -
  from assms(2) have i: "i < length visiting" "visiting ! i = p"
    by (auto dest: position_SomeD)
  from successively_drop [OF assms(1), of i] i(1)
  have "successively (depends g) (drop i visiting @ [p])" by simp
  moreover from i have "hd (drop i visiting @ [p]) = p"
    by (simp add: hd_append hd_drop_conv_nth)
  ultimately show ?thesis using i(1) by (simp add: cycle_path_def)
qed

text \<open>What an error proves about the graph, for a stack that is a chain of dependencies.\<close>

fun error_evidence :: "dependency_graph \<Rightarrow> plugin_id \<Rightarrow> registry_error \<Rightarrow> bool" where
  "error_evidence g root (DependencyCycle path) \<longleftrightarrow>
     cycle_path g path \<and> (\<forall>x \<in> set path. (depends g)\<^sup>*\<^sup>* root x)"
| "error_evidence g root (DependencyUnsatisfied p) \<longleftrightarrow>
     map_of g p = None \<and> (depends g)\<^sup>*\<^sup>* root p"

lemma visit_error:
  "visit g p visiting vo = Inl e \<Longrightarrow> successively (depends g) (visiting @ [p]) \<Longrightarrow>
     error_evidence g (hd (visiting @ [p])) e"
  "visit_all g ds visiting vo = Inl e \<Longrightarrow>
     (\<And>d. d \<in> set ds \<Longrightarrow> successively (depends g) (visiting @ [d])) \<Longrightarrow> visiting \<noteq> [] \<Longrightarrow>
     error_evidence g (hd visiting) e"
proof (induction g p visiting vo and g ds visiting vo arbitrary: e and e
    rule: visit_visit_all.induct)
  case (1 g p visiting vo)
  have reach: "x \<in> set (visiting @ [p]) \<Longrightarrow> (depends g)\<^sup>*\<^sup>* (hd (visiting @ [p])) x" for x
    using successively_reaches [of "depends g" "hd (visiting @ [p])" "tl (visiting @ [p])" x]
      "1.prems"(2) by simp
  from "1.prems"(1) have fresh: "p \<notin> fst vo" by (auto simp: visit.simps split: if_splits)
  show ?case
  proof (cases "position p visiting")
    case (Some i)
    with "1.prems"(1) fresh have "e = DependencyCycle (drop i visiting @ [p])"
      by (simp add: visit.simps)
    with cycle_of_stack [OF "1.prems"(2) Some] reach show ?thesis
      by (auto dest: in_set_dropD)
  next
    case None
    show ?thesis
    proof (cases "map_of g p")
      case m: None
      with "1.prems"(1) fresh None have "e = DependencyUnsatisfied p" by (simp add: visit.simps)
      with m reach show ?thesis by simp
    next
      case m: (Some ds)
      with "1.prems"(1) fresh None have "visit_all g ds (visiting @ [p]) vo = Inl e"
        by (auto simp: visit.simps rbind_Inl_iff)
      moreover have "successively (depends g) ((visiting @ [p]) @ [d])" if "d \<in> set ds" for d
        using "1.prems"(2) m that by (auto simp: successively_append_iff depends_def)
      ultimately show ?thesis using "1.IH" [OF fresh None m] by simp
    qed
  qed
next
  case (2 g visiting vo)
  then show ?case by simp
next
  case (3 g d ds visiting vo)
  then show ?case by (auto simp: rbind_Inl_iff)
qed

section \<open>Resolution\<close>

lemma resolve_ok:
  assumes "resolve g root = Inr plan"
  shows "distinct plan" and "topological g plan" and "plan \<noteq> []" and "last plan = root"
    and "set plan = {p. (depends g)\<^sup>*\<^sup>* root p}"
proof -
  from assms obtain vo where v: "visit g root [] ({}, []) = Inr vo" and plan: "plan = snd vo"
    by (auto simp: resolve_def rbind_Inr_iff)
  from visit_ok(1) [OF v] plan have g: "visit_grows g {root} [] ({}, []) vo"
    and l: "last plan = root" by simp_all
  from g plan show "distinct plan" and t: "topological g plan" and ne: "plan \<noteq> []"
    by (auto simp: visit_grows_def)
  show "last plan = root" by (rule l)
  have "(depends g)\<^sup>*\<^sup>* root p \<Longrightarrow> p \<in> set plan" for p
  proof (induction rule: rtranclp_induct)
    case base
    from l ne show ?case by (metis last_in_set)
  next
    case (step p d)
    with t show ?case by (blast intro: topological_closed)
  qed
  with g plan show "set plan = {p. (depends g)\<^sup>*\<^sup>* root p}"
    by (auto simp: visit_grows_def)
qed

lemma resolve_error: "resolve g root = Inl e \<Longrightarrow> error_evidence g root e"
  using visit_error(1) [of g root "[]" "({}, [])" e] by (auto simp: resolve_def rbind_Inl_iff)

text \<open>A topological list has no cycle through its plugins.\<close>

lemma topological_rank:
  assumes "topological g xs" and "distinct xs" and "i < length xs" and "depends g (xs ! i) d"
  shows "\<exists>j < i. xs ! j = d"
proof -
  from topological_at [OF assms(1,3,4)] assms(3) show ?thesis by (auto simp: in_set_conv_nth)
qed

lemma topological_acyclic:
  assumes "topological g xs" and "distinct xs" and "p \<in> set xs"
  shows "\<not> (depends g)\<^sup>+\<^sup>+ p p"
proof -
  have rank: "(depends g)\<^sup>+\<^sup>+ (xs ! i) q \<Longrightarrow> i < length xs \<Longrightarrow> \<exists>j < i. xs ! j = q" for i q
  proof (induction rule: tranclp_induct)
    case (base q)
    with assms(1,2) show ?case by (blast intro: topological_rank)
  next
    case (step q r)
    then obtain j where "j < i" and "xs ! j = q" by blast
    with step assms(1,2) topological_rank [of g xs j r] show ?case
      by (metis order.strict_trans)
  qed
  from assms(3) obtain i where "i < length xs" and "xs ! i = p" by (auto simp: in_set_conv_nth)
  with rank [of i p] assms(2) show ?thesis
    by (metis nat_neq_iff nth_eq_iff_index_eq order.strict_trans)
qed

lemma cycle_path_tranclp: "cycle_path g path \<Longrightarrow> (depends g)\<^sup>+\<^sup>+ (hd path) (hd path)"
proof -
  assume c: "cycle_path g path"
  then obtain x y ys where path: "path = x # y # ys"
    by (cases path; cases "tl path") (auto simp: cycle_path_def)
  with c have "depends g x y" and "(depends g)\<^sup>*\<^sup>* y (last (y # ys))" and "last (y # ys) = x"
    using successively_reaches [of "depends g" y ys "last (y # ys)"]
    by (auto simp: cycle_path_def)
  with path show ?thesis by (metis list.sel(1) rtranclp_into_tranclp2)
qed

section \<open>Properties\<close>

text \<open>
  C18: resolution succeeds exactly when every plugin reachable from the root is declared and none
  of them depends on itself through other plugins.
\<close>

theorem resolve_succeeds_iff:
  "is_ok (resolve g root) \<longleftrightarrow>
     (\<forall>p. (depends g)\<^sup>*\<^sup>* root p \<longrightarrow> map_of g p \<noteq> None \<and> \<not> (depends g)\<^sup>+\<^sup>+ p p)"
proof
  assume "is_ok (resolve g root)"
  then obtain plan where plan: "resolve g root = Inr plan" by (auto simp: is_ok_iff)
  note r = resolve_ok [OF plan]
  show "\<forall>p. (depends g)\<^sup>*\<^sup>* root p \<longrightarrow> map_of g p \<noteq> None \<and> \<not> (depends g)\<^sup>+\<^sup>+ p p"
  proof (intro allI impI)
    fix p assume "(depends g)\<^sup>*\<^sup>* root p"
    with r(5) have p: "p \<in> set plan" by simp
    then obtain i where "i < length plan" and "plan ! i = p" by (auto simp: in_set_conv_nth)
    with r(2) have "map_of g p \<noteq> None" unfolding topological_def by fastforce
    with topological_acyclic [OF r(2,1) p] show "map_of g p \<noteq> None \<and> \<not> (depends g)\<^sup>+\<^sup>+ p p" by simp
  qed
next
  assume all: "\<forall>p. (depends g)\<^sup>*\<^sup>* root p \<longrightarrow> map_of g p \<noteq> None \<and> \<not> (depends g)\<^sup>+\<^sup>+ p p"
  show "is_ok (resolve g root)"
  proof (cases "resolve g root")
    case (Inl e)
    from resolve_error [OF Inl] have "error_evidence g root e" .
    with all have False
    proof (cases e)
      case (DependencyCycle path)
      with \<open>error_evidence g root e\<close> have c: "cycle_path g path"
        and reach: "\<forall>x \<in> set path. (depends g)\<^sup>*\<^sup>* root x" by simp_all
      from c have "hd path \<in> set path" by (cases path) (auto simp: cycle_path_def)
      with reach all cycle_path_tranclp [OF c] show False by blast
    qed auto
    then show ?thesis ..
  qed simp
qed

theorem resolve_succeeds_iff_witness:
  "is_ok (resolve [(''app'', [''store'']), (''store'', [])] ''app'')
   \<and> \<not> is_ok (resolve [(''app'', [''store'']), (''store'', [''app''])] ''app'')
   \<and> map_of [(''app'', [''store'']), (''store'', [])] ''store'' \<noteq> None"
proof -
  have "is_ok (resolve [(''app'', [''store'']), (''store'', [])] ''app'')"
    by (simp add: resolve_def visit.simps)
  moreover have "depends [(''app'', [''store'']), (''store'', [])] ''app'' ''store''"
    by (simp add: depends_def)
  ultimately have "map_of [(''app'', [''store'']), (''store'', [])] ''store'' \<noteq> None"
    using resolve_succeeds_iff [of "[(''app'', [''store'']), (''store'', [])]" "''app''"] by blast
  then show ?thesis by (simp add: resolve_def visit.simps)
qed

text \<open>
  A resolved plan lists exactly the plugins reachable from the root, each once, each after all
  of its dependencies, the root last.
\<close>

theorem resolve_plan_correct:
  assumes "resolve g root = Inr plan"
  shows "distinct plan \<and> topological g plan \<and> last plan = root
    \<and> set plan = {p. (depends g)\<^sup>*\<^sup>* root p}"
  using resolve_ok [OF assms] by simp

theorem resolve_plan_correct_witness:
  "resolve [(''a'', [''b'', ''c'']), (''b'', [''c'']), (''c'', [])] ''a'' = Inr [''c'', ''b'', ''a'']
   \<and> topological [(''a'', [''b'', ''c'']), (''b'', [''c'']), (''c'', [])] [''c'', ''b'', ''a'']"
proof -
  have "resolve [(''a'', [''b'', ''c'']), (''b'', [''c'']), (''c'', [])] ''a''
      = Inr [''c'', ''b'', ''a'']"
    by (simp add: resolve_def visit.simps)
  with resolve_plan_correct show ?thesis by blast
qed

text \<open>
  A refused resolution names its evidence. A reported cycle is a closed chain of dependencies
  reachable from the root; a reported missing plugin is reachable and undeclared.
\<close>

theorem resolve_error_evidence:
  "resolve g root = Inl e \<Longrightarrow> error_evidence g root e"
  by (rule resolve_error)

theorem resolve_error_evidence_witness:
  "resolve [(''a'', [''b'']), (''b'', [''c'']), (''c'', [''b''])] ''a''
     = Inl (DependencyCycle [''b'', ''c'', ''b''])
   \<and> error_evidence [(''a'', [''b'']), (''b'', [''c'']), (''c'', [''b''])] ''a''
       (DependencyCycle [''b'', ''c'', ''b''])"
proof -
  have "resolve [(''a'', [''b'']), (''b'', [''c'']), (''c'', [''b''])] ''a''
     = Inl (DependencyCycle [''b'', ''c'', ''b''])"
    by (simp add: resolve_def visit.simps)
  with resolve_error_evidence show ?thesis by blast
qed

text \<open>
  Installation is all or nothing. Either the migration ran once for every plugin of a plan
  whose prefixes are always closed under dependencies and the plan joined the installed set, or
  an error is returned and neither the installed set nor the caller's world changed.
\<close>

theorem install_all_or_nothing:
  "install_with_migration installed g root migrate w = (installed', w', r) \<Longrightarrow>
     (case r of
        Inl e \<Rightarrow> installed' = installed \<and> w' = w \<and> error_evidence g root e
      | Inr plan \<Rightarrow> installed' = installed \<union> {p. (depends g)\<^sup>*\<^sup>* root p}
          \<and> w' = fold migrate plan w \<and> distinct plan \<and> topological g plan)"
  using resolve_ok [of g root] resolve_error [of g root]
  by (auto simp: install_with_migration_def split: sum.splits)

theorem install_all_or_nothing_witness:
  "install_with_migration {} [(''a'', [''b'']), (''b'', [])] ''a'' (\<lambda>p log. log @ [p]) []
     = ({''b'', ''a''}, [''b'', ''a''], Inr [''b'', ''a''])
   \<and> topological [(''a'', [''b'']), (''b'', [])] [''b'', ''a'']"
proof -
  have i: "install_with_migration {} [(''a'', [''b'']), (''b'', [])] ''a'' (\<lambda>p log. log @ [p]) []
     = ({''b'', ''a''}, [''b'', ''a''], Inr [''b'', ''a''])"
    by (simp add: install_with_migration_def resolve_def visit.simps)
  from install_all_or_nothing [OF this] i show ?thesis by simp
qed

end
