(* ===== verification/Interpreter.thy ===== *)
theory Interpreter
  imports Contracts
begin

text \<open>
  Deterministic step selection for durable runs (\<open>crates/worker/src/run_interpreter.rs\<close>) and its
  reconstruction from durable checkpoint rows (\<open>run_resume.rs\<close>). The interpreter is pure: the
  checkpoint history is a finite map from logical step keys to records, the decision is a
  function of it and of the workflow definition. Loop counters (\<open>u32\<close> in the source, bounded by
  \<open>max_total_steps\<close>) are natural numbers here; no arithmetic on them can leave the type.
\<close>

section \<open>Records, keys, decisions\<close>

record checkpoint_record =
  ck_logical_step_id :: string
  ck_node_id :: string
  ck_state :: string
  ck_failure_code :: "string option"

datatype step_decision =
    Execute string string
  | Completed
  | StepLimitReached
  | WaitingApproval string string
  | ReplayIncompatible
  | Blocked "string option"
  | Unsupported string string

definition logical_step_key :: "nat \<Rightarrow> string \<Rightarrow> string" where
  "logical_step_key seq node_id = decimal_pad 4 seq @ CHR '':'' # node_id"

definition node_id_from_logical_step_id :: "string \<Rightarrow> string option" where
  "node_id_from_logical_step_id logical_step_id =
     (case split_once (CHR '':'') logical_step_id of
        None \<Rightarrow> None
      | Some (_, node_id) \<Rightarrow> if node_id \<noteq> [] then Some node_id else None)"

record run_interpreter =
  ri_definition :: workflow_definition
  ri_checkpoints :: "string \<rightharpoonup> checkpoint_record"

text \<open>Collecting into a \<open>BTreeMap\<close>: a later record with the same key replaces an earlier one.\<close>

definition interpreter_new :: "workflow_definition \<Rightarrow> checkpoint_record list \<Rightarrow> run_interpreter" where
  "interpreter_new d checkpoints =
     \<lparr> ri_definition = d,
       ri_checkpoints = map_of (rev (map (\<lambda>r. (ck_logical_step_id r, r)) checkpoints)) \<rparr>"

definition node :: "run_interpreter \<Rightarrow> string \<Rightarrow> workflow_node option" where
  "node i node_id = find (\<lambda>n. wn_id n = node_id) (wd_nodes (ri_definition i))"

definition successor :: "run_interpreter \<Rightarrow> string \<Rightarrow> string option" where
  "successor i node_id =
     (case node i node_id of
        None \<Rightarrow> None
      | Some n \<Rightarrow>
          (let condition = (if wn_kind n = ''APPROVAL'' then ''APPROVED'' else ''SUCCESS'')
           in map_option we_to
                (find (\<lambda>e. we_from e = node_id \<and> we_condition e = condition)
                   (wd_edges (ri_definition i)))))"

text \<open>The loop of \<open>node_at\<close>, with the number of remaining iterations and the current node.\<close>

fun node_walk :: "run_interpreter \<Rightarrow> nat \<Rightarrow> string \<Rightarrow> (string \<times> string) + string option" where
  "node_walk i 0 current =
     (if node i current = None then Inl (''NODE_UNDECLARED'', current) else Inr (Some current))"
| "node_walk i (Suc n) current =
     (if node i current = None then Inl (''NODE_UNDECLARED'', current)
      else if filter (\<lambda>e. we_from e = current) (wd_edges (ri_definition i)) = [] then Inr None
      else case successor i current of
        None \<Rightarrow> Inl (''UNMODELED_BRANCH_EDGE'', current)
      | Some next_node \<Rightarrow>
          if node i next_node = None then Inl (''EDGE_TARGET_UNDECLARED'', next_node)
          else node_walk i n next_node)"

definition node_at :: "run_interpreter \<Rightarrow> nat \<Rightarrow> (string \<times> string) + string option" where
  "node_at i seq = node_walk i (seq - 1) (wd_entry_node (ri_definition i))"

definition is_model_at :: "run_interpreter \<Rightarrow> nat \<Rightarrow> bool" where
  "is_model_at i seq =
     (case node_at i seq of
        Inr (Some node_id) \<Rightarrow>
          (case node i node_id of None \<Rightarrow> False | Some n \<Rightarrow> wn_kind n = ''MODEL'')
      | _ \<Rightarrow> False)"

definition model_turns_used :: "run_interpreter \<Rightarrow> nat \<Rightarrow> nat" where
  "model_turns_used i upto_seq = length (filter (is_model_at i) [1 ..< upto_seq])"

definition budget_gate :: "run_interpreter \<Rightarrow> nat \<Rightarrow> string \<Rightarrow> string \<Rightarrow> step_decision" where
  "budget_gate i seq node_id key =
     (case node i node_id of
        None \<Rightarrow> ReplayIncompatible
      | Some n \<Rightarrow>
          if wn_kind n = ''MODEL''
             \<and> model_turns_used i seq \<ge> unat (wd_max_model_turns (ri_definition i))
          then StepLimitReached
          else if wn_kind n = ''APPROVAL'' then WaitingApproval key node_id
          else Execute key node_id)"

text \<open>The loop of \<open>next_step\<close> from step \<open>seq\<close>, with the steps the budget still allows.\<close>

fun step_from :: "run_interpreter \<Rightarrow> nat \<Rightarrow> nat \<Rightarrow> step_decision" where
  "step_from i seq 0 = StepLimitReached"
| "step_from i seq (Suc budget) =
     (case node_at i seq of
        Inl (reason, node_id) \<Rightarrow> Unsupported node_id reason
      | Inr None \<Rightarrow> Completed
      | Inr (Some node_id) \<Rightarrow>
          (let key = logical_step_key seq node_id in
           case ri_checkpoints i key of
             None \<Rightarrow> budget_gate i seq node_id key
           | Some r \<Rightarrow>
               if ck_node_id r \<noteq> node_id then ReplayIncompatible
               else if ck_state r = ''SUCCEEDED'' then step_from i (Suc seq) budget
               else if ck_state r = ''FAILED'' \<or> ck_state r = ''BLOCKED''
               then Blocked (ck_failure_code r)
               else budget_gate i seq node_id key))"

definition next_step :: "run_interpreter \<Rightarrow> step_decision" where
  "next_step i = step_from i 1 (unat (wd_max_total_steps (ri_definition i)))"

section \<open>Resuming from durable rows\<close>

record durable_checkpoint =
  dc_logical_step_id :: string
  dc_state :: string
  dc_failure_code :: "string option"
  dc_fence :: int

definition interpreter_from_checkpoints ::
    "workflow_definition \<Rightarrow> durable_checkpoint list \<Rightarrow> run_interpreter" where
  "interpreter_from_checkpoints d checkpoints =
     interpreter_new d
       (List.map_filter
          (\<lambda>c. map_option
             (\<lambda>node_id. \<lparr> ck_logical_step_id = dc_logical_step_id c, ck_node_id = node_id,
                          ck_state = dc_state c, ck_failure_code = dc_failure_code c \<rparr>)
             (node_id_from_logical_step_id (dc_logical_step_id c)))
          checkpoints)"

definition checkpoint_fence :: "durable_checkpoint list \<Rightarrow> int option" where
  "checkpoint_fence checkpoints = (case checkpoints of [] \<Rightarrow> None | c # _ \<Rightarrow> Some (dc_fence c))"

fun dispatches :: "step_decision \<Rightarrow> bool" where
  "dispatches (Execute _ _) = True"
| "dispatches _ = False"

section \<open>Keys\<close>

lemma colon_not_digit: "CHR '':'' \<notin> set (decimal_pad w n)"
  using decimal_pad_digits [of w n] by (auto simp: list_all_iff is_ascii_digit_def)

lemma node_id_of_key:
  "node_id \<noteq> [] \<Longrightarrow> node_id_from_logical_step_id (logical_step_key seq node_id) = Some node_id"
  by (simp add: node_id_from_logical_step_id_def logical_step_key_def split_once_append
      colon_not_digit)

lemma logical_step_key_inj:
  "logical_step_key s a = logical_step_key t b \<longleftrightarrow> s = t \<and> a = b"
proof
  assume eq: "logical_step_key s a = logical_step_key t b"
  have "split_once (CHR '':'') (logical_step_key s a) = Some (decimal_pad 4 s, a)"
    and "split_once (CHR '':'') (logical_step_key t b) = Some (decimal_pad 4 t, b)"
    by (simp_all add: logical_step_key_def split_once_append colon_not_digit)
  with eq have "decimal_pad 4 s = decimal_pad 4 t" and "a = b" by simp_all
  then show "s = t \<and> a = b" by (auto dest: decimal_pad_inj)
qed simp

section \<open>The traversal\<close>

lemma node_walk_Some:
  "node_walk i n current = Inr (Some node_id) \<Longrightarrow> node i node_id \<noteq> None"
  by (induction i n current rule: node_walk.induct) (auto split: if_splits option.splits)

lemma node_at_declared: "node_at i seq = Inr (Some node_id) \<Longrightarrow> \<exists>n. node i node_id = Some n"
  by (auto simp: node_at_def dest: node_walk_Some)

text \<open>
  The traversal is recomputed from the entry node for every step; it is the same as following one
  more edge from where the previous step stood.
\<close>

lemma node_walk_Suc:
  "node_walk i (Suc n) current =
     (case node_walk i n current of
        Inl e \<Rightarrow> Inl e | Inr None \<Rightarrow> Inr None | Inr (Some m) \<Rightarrow> node_walk i 1 m)"
proof (induction n arbitrary: current)
  case 0
  then show ?case by simp
next
  case (Suc n)
  show ?case
  proof (cases "\<exists>m nx. node i current = Some m \<and> successor i current = Some nx
      \<and> node i nx \<noteq> None \<and> filter (\<lambda>e. we_from e = current) (wd_edges (ri_definition i)) \<noteq> []")
    case True
    then obtain nx where "node_walk i (Suc k) current = node_walk i k nx" for k by auto
    with Suc.IH [of nx] show ?thesis by metis
  next
    case False
    then show ?thesis by (auto split: option.splits)
  qed
qed

lemma node_at_Suc:
  assumes "0 < seq"
  shows "node_at i (Suc seq) =
    (case node_at i seq of
        Inl e \<Rightarrow> Inl e | Inr None \<Rightarrow> Inr None | Inr (Some m) \<Rightarrow> node_walk i 1 m)"
  using assms node_walk_Suc [of i "seq - 1"] by (simp add: node_at_def)

lemma node_at_checkpoints [simp]: "node_at (i\<lparr>ri_checkpoints := c\<rparr>) = node_at i"
proof -
  have n: "node (i\<lparr>ri_checkpoints := c\<rparr>) = node i" by (simp add: node_def fun_eq_iff)
  have s: "successor (i\<lparr>ri_checkpoints := c\<rparr>) = successor i"
    by (simp add: successor_def n fun_eq_iff Let_def split: option.splits)
  have "node_walk (i\<lparr>ri_checkpoints := c\<rparr>) k m = node_walk i k m" for k m
    by (induction k arbitrary: m) (simp_all add: n s split: option.split)
  then show ?thesis by (simp add: node_at_def fun_eq_iff)
qed

lemma node_checkpoints [simp]: "node (i\<lparr>ri_checkpoints := c\<rparr>) = node i"
  by (simp add: node_def fun_eq_iff)

lemma model_turns_checkpoints [simp]:
  "model_turns_used (i\<lparr>ri_checkpoints := c\<rparr>) = model_turns_used i"
proof -
  have "is_model_at (i\<lparr>ri_checkpoints := c\<rparr>) = is_model_at i"
    by (auto simp: is_model_at_def fun_eq_iff split: sum.split option.split)
  then show ?thesis unfolding model_turns_used_def by metis
qed

section \<open>What a decision says\<close>

text \<open>Step \<open>seq\<close> of the traversal has a completed checkpoint.\<close>

definition step_done :: "run_interpreter \<Rightarrow> nat \<Rightarrow> bool" where
  "step_done i seq \<longleftrightarrow>
     (\<exists>node_id r. node_at i seq = Inr (Some node_id)
        \<and> ri_checkpoints i (logical_step_key seq node_id) = Some r
        \<and> ck_node_id r = node_id \<and> ck_state r = ''SUCCEEDED'')"

text \<open>The loop skips exactly the completed steps.\<close>

lemma step_from_skip:
  assumes "\<And>s. seq \<le> s \<Longrightarrow> s < seq + k \<Longrightarrow> step_done i s"
  shows "step_from i seq (k + budget) = step_from i (seq + k) budget"
  using assms
proof (induction k arbitrary: seq)
  case 0
  then show ?case by simp
next
  case (Suc k)
  from Suc.prems [of seq] have "step_done i seq" by simp
  then have "step_from i seq (Suc (k + budget)) = step_from i (Suc seq) (k + budget)"
    by (auto simp: step_done_def)
  with Suc.IH [of "Suc seq"] Suc.prems show ?case by simp
qed

text \<open>Where the loop stops: the first step that is not completed, or the end of the budget.\<close>

lemma step_from_stops:
  "\<exists>k \<le> budget. (\<forall>s. seq \<le> s \<and> s < seq + k \<longrightarrow> step_done i s)
     \<and> (k = budget \<or> \<not> step_done i (seq + k))
     \<and> step_from i seq budget = step_from i (seq + k) (budget - k)"
proof (induction budget arbitrary: seq)
  case 0
  then show ?case by (intro exI [of _ 0]) auto
next
  case (Suc budget)
  show ?case
  proof (cases "step_done i seq")
    case True
    then have skip: "step_from i seq (Suc budget) = step_from i (Suc seq) budget"
      by (auto simp: step_done_def)
    from Suc.IH [of "Suc seq"] obtain k where k: "k \<le> budget"
        "\<forall>s. Suc seq \<le> s \<and> s < Suc seq + k \<longrightarrow> step_done i s"
        "k = budget \<or> \<not> step_done i (Suc seq + k)"
        "step_from i (Suc seq) budget = step_from i (Suc seq + k) (budget - k)"
      by blast
    have "\<forall>s. seq \<le> s \<and> s < seq + Suc k \<longrightarrow> step_done i s"
      using True k(2) by (metis Suc_leI add_Suc add_Suc_right le_neq_implies_less)
    with k skip show ?thesis by (intro exI [of _ "Suc k"]) auto
  next
    case False
    then show ?thesis by (intro exI [of _ 0]) auto
  qed
qed

declare step_from.simps(2) [simp del]

lemma step_from_undone:
  assumes "\<not> step_done i seq"
  shows "step_from i seq (Suc budget) =
    (case node_at i seq of
        Inl (reason, node_id) \<Rightarrow> Unsupported node_id reason
      | Inr None \<Rightarrow> Completed
      | Inr (Some node_id) \<Rightarrow>
          (let key = logical_step_key seq node_id in
           case ri_checkpoints i key of
             None \<Rightarrow> budget_gate i seq node_id key
           | Some r \<Rightarrow>
               if ck_node_id r \<noteq> node_id then ReplayIncompatible
               else if ck_state r = ''FAILED'' \<or> ck_state r = ''BLOCKED''
               then Blocked (ck_failure_code r)
               else budget_gate i seq node_id key))"
  using assms
  by (auto simp: step_from.simps(2) step_done_def Let_def split: sum.splits option.splits)

definition first_open :: "run_interpreter \<Rightarrow> nat \<Rightarrow> bool" where
  "first_open i seq \<longleftrightarrow>
     1 \<le> seq \<and> seq \<le> unat (wd_max_total_steps (ri_definition i))
     \<and> (\<forall>s. 1 \<le> s \<and> s < seq \<longrightarrow> step_done i s) \<and> \<not> step_done i seq"

text \<open>
  A decision is either that of the first step without a completed checkpoint, or, when all steps
  of the budget are completed, the limit.
\<close>

lemma next_step_cases:
  obtains (limit) "next_step i = StepLimitReached"
      "\<And>s. 1 \<le> s \<Longrightarrow> s \<le> unat (wd_max_total_steps (ri_definition i)) \<Longrightarrow> step_done i s"
  | (open_step) seq budget where "first_open i seq" "next_step i = step_from i seq (Suc budget)"
proof -
  let ?N = "unat (wd_max_total_steps (ri_definition i))"
  from step_from_stops [where i = i and seq = 1 and budget = ?N]
  obtain k where k: "k \<le> ?N" "\<forall>s. 1 \<le> s \<and> s < 1 + k \<longrightarrow> step_done i s"
      "k = ?N \<or> \<not> step_done i (1 + k)" "next_step i = step_from i (1 + k) (?N - k)"
    unfolding next_step_def by blast
  show thesis
  proof (cases "k = ?N")
    case True
    with k show thesis by (intro limit) auto
  next
    case False
    with k have "?N - k = Suc (?N - k - 1)" and "first_open i (1 + k)"
      by (auto simp: first_open_def)
    with k(4) show thesis by (intro open_step [of "1 + k" "?N - k - 1"]) simp_all
  qed
qed

lemma budget_gate_Execute:
  "budget_gate i seq node_id key = Execute k m \<longleftrightarrow>
     k = key \<and> m = node_id
     \<and> (\<exists>n. node i node_id = Some n \<and> wn_kind n \<noteq> ''APPROVAL''
        \<and> (wn_kind n = ''MODEL''
            \<longrightarrow> model_turns_used i seq < unat (wd_max_model_turns (ri_definition i))))"
  by (auto simp: budget_gate_def split: option.splits)

lemma next_step_Execute:
  assumes "next_step i = Execute key node_id"
  obtains seq n where "first_open i seq" and "key = logical_step_key seq node_id"
    and "node_at i seq = Inr (Some node_id)" and "node i node_id = Some n"
    and "wn_kind n \<noteq> ''APPROVAL''"
    and "wn_kind n = ''MODEL'' \<longrightarrow>
           model_turns_used i seq < unat (wd_max_model_turns (ri_definition i))"
    and "\<And>r. ri_checkpoints i key = Some r \<Longrightarrow>
           ck_node_id r = node_id \<and> ck_state r \<notin> {''SUCCEEDED'', ''FAILED'', ''BLOCKED''}"
proof (cases rule: next_step_cases [of i])
  case limit
  with assms show thesis by simp
next
  case (open_step seq budget)
  then have "step_from i seq (Suc budget) = Execute key node_id" and "\<not> step_done i seq"
    using assms by (simp_all add: first_open_def)
  then have "node_at i seq = Inr (Some node_id)"
    and "budget_gate i seq node_id (logical_step_key seq node_id) = Execute key node_id"
    and "\<And>r. ri_checkpoints i (logical_step_key seq node_id) = Some r \<Longrightarrow>
          ck_node_id r = node_id \<and> ck_state r \<notin> {''SUCCEEDED'', ''FAILED'', ''BLOCKED''}"
    by (auto simp: step_from_undone step_done_def Let_def budget_gate_Execute
        split: sum.splits option.splits if_splits)
  then show thesis using open_step(1) that by (auto simp: budget_gate_Execute)
qed

lemma next_step_Completed:
  assumes "next_step i = Completed"
  obtains seq where "first_open i seq" and "node_at i seq = Inr None"
proof (cases rule: next_step_cases [of i])
  case limit
  with assms show thesis by simp
next
  case (open_step seq budget)
  with assms have "step_from i seq (Suc budget) = Completed" and "\<not> step_done i seq"
    by (simp_all add: first_open_def)
  then have "node_at i seq = Inr None"
    by (auto simp: step_from_undone Let_def budget_gate_def
        split: sum.splits option.splits if_splits)
  with open_step(1) show thesis by (rule that)
qed

section \<open>Crash and resume\<close>

text \<open>
  The worker as a step relation on the durable history and the log of dispatched step keys: it
  dispatches the step the interpreter names and records an outcome, or dies before recording
  anything, or records the outcome of an approval it waited for.
\<close>

type_synonym history = "string \<rightharpoonup> checkpoint_record"

definition at_history :: "workflow_definition \<Rightarrow> history \<Rightarrow> run_interpreter" where
  "at_history d h = \<lparr> ri_definition = d, ri_checkpoints = h \<rparr>"

definition outcome_record :: "string \<Rightarrow> string \<Rightarrow> string \<Rightarrow> string option \<Rightarrow> checkpoint_record" where
  "outcome_record key node_id state code =
     \<lparr> ck_logical_step_id = key, ck_node_id = node_id, ck_state = state, ck_failure_code = code \<rparr>"

inductive worker_step ::
    "workflow_definition \<Rightarrow> history \<times> string list \<Rightarrow> history \<times> string list \<Rightarrow> bool"
  for d where
  recorded: "next_step (at_history d h) = Execute key node_id \<Longrightarrow>
     worker_step d (h, log) (h(key \<mapsto> outcome_record key node_id state code), log @ [key])"
| died: "next_step (at_history d h) = Execute key node_id \<Longrightarrow>
     worker_step d (h, log) (h, log @ [key])"
| approved: "next_step (at_history d h) = WaitingApproval key node_id \<Longrightarrow>
     worker_step d (h, log) (h(key \<mapsto> outcome_record key node_id ''SUCCEEDED'' None), log)"

inductive_cases worker_stepE: "worker_step d (h, log) (h', log')"

lemma at_history_simps [simp]:
  "ri_definition (at_history d h) = d" "ri_checkpoints (at_history d h) = h"
  by (simp_all add: at_history_def)

lemma node_at_history: "node_at (at_history d h) = node_at (at_history d Map.empty)"
proof -
  have "at_history d h = (at_history d Map.empty)\<lparr>ri_checkpoints := h\<rparr>" by (simp add: at_history_def)
  then show ?thesis by (metis node_at_checkpoints)
qed

lemma next_step_undone:
  assumes "next_step i = Execute key node_id \<or> next_step i = WaitingApproval key node_id"
    and "ri_checkpoints i key = Some r"
  shows "ck_state r \<noteq> ''SUCCEEDED''"
proof (cases rule: next_step_cases [of i])
  case limit
  with assms(1) show ?thesis by simp
next
  case (open_step seq budget)
  then have "\<not> step_done i seq" by (simp add: first_open_def)
  with open_step(2) assms show ?thesis
    by (auto simp: step_from_undone step_done_def Let_def budget_gate_def
        split: sum.splits option.splits if_splits)
qed

lemma worker_step_keeps_done:
  assumes "worker_step d (h, log) (h', log')" and "h key = Some r" and "ck_state r = ''SUCCEEDED''"
  shows "h' key = Some r \<and> (\<exists>new. log' = log @ new \<and> key \<notin> set new)"
  using assms next_step_undone [of "at_history d h" key _ r]
  by (auto elim!: worker_stepE)

lemma worker_steps_keep_done:
  assumes "(worker_step d)\<^sup>*\<^sup>* (h, log) (h', log')"
    and "h key = Some r" and "ck_state r = ''SUCCEEDED''"
  shows "h' key = Some r \<and> (\<exists>new. log' = log @ new \<and> key \<notin> set new)"
  using assms(1)
proof (induction rule: rtranclp_induct2)
  case refl
  with assms(2) show ?case by simp
next
  case (step h1 log1 h2 log2)
  then obtain new where h1: "h1 key = Some r" and new: "log1 = log @ new" "key \<notin> set new" by blast
  from worker_step_keeps_done [OF step.hyps(2) h1 assms(3)] new show ?case by auto
qed

text \<open>The keys a traversal can ever dispatch.\<close>

definition step_keys :: "workflow_definition \<Rightarrow> string set" where
  "step_keys d = {logical_step_key s m | s m.
     1 \<le> s \<and> s \<le> unat (wd_max_total_steps d) \<and> node_at (at_history d Map.empty) s = Inr (Some m)}"

lemma step_keys_card: "finite (step_keys d) \<and> card (step_keys d) \<le> unat (wd_max_total_steps d)"
proof -
  let ?N = "unat (wd_max_total_steps d)"
  let ?key = "\<lambda>s. case node_at (at_history d Map.empty) s of
      Inr (Some m) \<Rightarrow> logical_step_key s m | _ \<Rightarrow> []"
  have "step_keys d \<subseteq> ?key ` {1..?N}" by (force simp: step_keys_def)
  then show ?thesis
    using surj_card_le [of "{1..?N}" "step_keys d" ?key] finite_surj [of "{1..?N}" "step_keys d" ?key]
    by simp
qed

lemma next_step_key:
  assumes "next_step (at_history d h) = Execute key node_id"
  shows "key \<in> step_keys d"
  using assms
proof (rule next_step_Execute)
  fix seq n
  assume "first_open (at_history d h) seq" and "key = logical_step_key seq node_id"
    and "node_at (at_history d h) seq = Inr (Some node_id)"
  then show ?thesis by (auto simp: step_keys_def first_open_def node_at_history [of d h])
qed

lemma worker_steps_keys:
  assumes "(worker_step d)\<^sup>*\<^sup>* (h, log) (h', log')"
  shows "set log' \<subseteq> set log \<union> step_keys d"
  using assms
proof (induction rule: rtranclp_induct2)
  case refl
  then show ?case by simp
next
  case (step h1 log1 h2 log2)
  then show ?case by (auto elim!: worker_stepE dest: next_step_key)
qed

section \<open>Driving a run to its end\<close>

text \<open>Dispatch and complete steps until the decision is not a dispatch, at most \<open>n\<close> times.\<close>

fun drive :: "nat \<Rightarrow> run_interpreter \<Rightarrow> string list \<Rightarrow> step_decision \<times> string list" where
  "drive 0 i log = (next_step i, log)"
| "drive (Suc n) i log =
     (case next_step i of
        Execute key node_id \<Rightarrow>
          drive n (i\<lparr>ri_checkpoints :=
            (ri_checkpoints i)(key \<mapsto> outcome_record key node_id ''SUCCEEDED'' None)\<rparr>) (log @ [key])
      | decision \<Rightarrow> (decision, log))"

lemma step_done_record:
  assumes "next_step i = Execute key node_id"
  shows "\<exists>seq. first_open i seq \<and> key = logical_step_key seq node_id
    \<and> node_at i seq = Inr (Some node_id)
    \<and> (\<forall>s. 1 \<le> s \<and> s \<le> seq \<longrightarrow> step_done (i\<lparr>ri_checkpoints :=
          (ri_checkpoints i)(key \<mapsto> outcome_record key node_id ''SUCCEEDED'' None)\<rparr>) s)"
  using assms
proof (rule next_step_Execute)
  fix seq n
  let ?i = "i\<lparr>ri_checkpoints :=
          (ri_checkpoints i)(key \<mapsto> outcome_record key node_id ''SUCCEEDED'' None)\<rparr>"
  assume o: "first_open i seq" and key: "key = logical_step_key seq node_id"
    and at: "node_at i seq = Inr (Some node_id)"
  have "step_done ?i s" if "1 \<le> s" "s \<le> seq" for s
  proof (cases "s = seq")
    case True
    with key at show ?thesis by (simp add: step_done_def outcome_record_def)
  next
    case False
    with that o have "step_done i s" by (simp add: first_open_def)
    with False key show ?thesis
      by (auto simp: step_done_def logical_step_key_inj)
  qed
  with o key at show ?thesis by blast
qed

lemma drive_ends:
  assumes "drive n i log = (decision, log')"
    and "\<And>s. 1 \<le> s \<Longrightarrow> s < q \<Longrightarrow> step_done i s" and "1 \<le> q"
    and "unat (wd_max_total_steps (ri_definition i)) < q + n"
  shows "\<not> dispatches decision \<and> (\<exists>new. log' = log @ new \<and> distinct new
    \<and> (\<forall>k \<in> set new. \<exists>s m. q \<le> s \<and> s \<le> unat (wd_max_total_steps (ri_definition i))
           \<and> node_at i s = Inr (Some m) \<and> k = logical_step_key s m))"
  using assms
proof (induction n arbitrary: i log q)
  case 0
  have "\<not> dispatches (next_step i)"
  proof
    assume "dispatches (next_step i)"
    then obtain key m where "next_step i = Execute key m" by (cases "next_step i") auto
    from step_done_record [OF this] obtain seq where "first_open i seq" by blast
    then have "\<not> step_done i seq" "1 \<le> seq" "seq < q" using 0 by (auto simp: first_open_def)
    with 0 show False by blast
  qed
  with 0 show ?case by simp
next
  case (Suc n)
  show ?case
  proof (cases "dispatches (next_step i)")
    case False
    with Suc.prems(1) show ?thesis by (cases "next_step i") auto
  next
    case True
    then obtain key m where e: "next_step i = Execute key m" by (cases "next_step i") auto
    let ?i = "i\<lparr>ri_checkpoints := (ri_checkpoints i)(key \<mapsto> outcome_record key m ''SUCCEEDED'' None)\<rparr>"
    from step_done_record [OF e] obtain seq where seq: "first_open i seq"
        "key = logical_step_key seq m" "node_at i seq = Inr (Some m)"
      and done_upto: "\<And>s. 1 \<le> s \<Longrightarrow> s \<le> seq \<Longrightarrow> step_done ?i s" by blast
    from seq(1) Suc.prems(2) have "q \<le> seq" by (meson first_open_def not_le)
    with e Suc.prems have "\<not> dispatches decision \<and> (\<exists>new. log' = (log @ [key]) @ new \<and> distinct new
        \<and> (\<forall>k \<in> set new. \<exists>s m. Suc seq \<le> s \<and> s \<le> unat (wd_max_total_steps (ri_definition ?i))
           \<and> node_at ?i s = Inr (Some m) \<and> k = logical_step_key s m))"
      by (intro Suc.IH [of ?i "log @ [key]" "Suc seq"]) (auto simp: done_upto)
    then obtain new where d: "\<not> dispatches decision" and new: "log' = log @ key # new" "distinct new"
      and keys: "\<forall>k \<in> set new. \<exists>s m. Suc seq \<le> s
           \<and> s \<le> unat (wd_max_total_steps (ri_definition i))
           \<and> node_at i s = Inr (Some m) \<and> k = logical_step_key s m"
      by auto
    from keys seq(2) have "key \<notin> set new" by (auto simp: logical_step_key_inj)
    moreover have "\<forall>k \<in> set (key # new). \<exists>s m. q \<le> s
        \<and> s \<le> unat (wd_max_total_steps (ri_definition i))
        \<and> node_at i s = Inr (Some m) \<and> k = logical_step_key s m"
      using keys seq \<open>q \<le> seq\<close> by (auto simp: first_open_def) (meson Suc_leD le_trans)
    ultimately show ?thesis using d new by (intro conjI exI [of _ "key # new"]) simp_all
  qed
qed

section \<open>Model turns\<close>

lemma model_turns_Suc:
  "1 \<le> s \<Longrightarrow> model_turns_used i (Suc s) = model_turns_used i s + (if is_model_at i s then 1 else 0)"
  by (simp add: model_turns_used_def)

lemma model_turns_mono: "1 \<le> s \<Longrightarrow> s \<le> t \<Longrightarrow> model_turns_used i s \<le> model_turns_used i t"
proof (induction t)
  case 0
  then show ?case by simp
next
  case (Suc t)
  then show ?case by (cases "s = Suc t") (auto simp: model_turns_Suc)
qed

text \<open>At most \<open>M\<close> model steps have fewer than \<open>M\<close> model steps before them.\<close>

lemma model_steps_bounded:
  fixes M :: nat and i :: run_interpreter
  defines "S \<equiv> {s. 1 \<le> s \<and> is_model_at i s \<and> model_turns_used i s < M}"
  shows "finite S \<and> card S \<le> M"
proof -
  have "inj_on (model_turns_used i) S"
  proof (rule linorder_inj_onI)
    fix s t assume "s < t" and "s \<in> S" and "t \<in> S"
    then show "model_turns_used i s \<noteq> model_turns_used i t"
      using model_turns_mono [of "Suc s" t i] model_turns_Suc [of s i] by (simp add: S_def)
  qed auto
  moreover have "model_turns_used i ` S \<subseteq> {..<M}" by (auto simp: S_def)
  ultimately show ?thesis
    using inj_on_finite [of _ S "{..<M}"] card_inj_on_le [of _ S "{..<M}"] by auto
qed

section \<open>Durable rows never mismatch\<close>

lemma map_filter_lookup:
  assumes "map_of (rev (map (\<lambda>r. (ck_logical_step_id r, r)) (List.map_filter f cs))) k = Some r"
  shows "\<exists>c \<in> set cs. f c = Some r \<and> ck_logical_step_id r = k"
proof -
  from assms have "(k, r) \<in> set (rev (map (\<lambda>r. (ck_logical_step_id r, r)) (List.map_filter f cs)))"
    by (rule map_of_SomeD)
  then have "r \<in> set (List.map_filter f cs)" and "ck_logical_step_id r = k" by auto
  then show ?thesis by (auto simp: List.map_filter_def)
qed

lemma durable_record_node:
  assumes "ri_checkpoints (interpreter_from_checkpoints d cs) k = Some r"
  shows "node_id_from_logical_step_id k = Some (ck_node_id r)"
  using assms by (auto simp: interpreter_from_checkpoints_def interpreter_new_def
      dest!: map_filter_lookup)

lemma durable_key_node:
  assumes "ri_checkpoints (interpreter_from_checkpoints d cs) (logical_step_key seq m) = Some r"
  shows "ck_node_id r = m"
proof -
  from durable_record_node [OF assms] show ?thesis
    by (auto simp: node_id_from_logical_step_id_def logical_step_key_def split_once_append
        colon_not_digit split: if_splits)
qed

text \<open>The positions at which some history of the workflow dispatches a model node.\<close>

definition model_dispatches :: "workflow_definition \<Rightarrow> nat set" where
  "model_dispatches d = {s. \<exists>h m n. next_step (at_history d h) = Execute (logical_step_key s m) m
      \<and> node (at_history d h) m = Some n \<and> wn_kind n = ''MODEL''}"

lemma model_dispatch_step:
  assumes "next_step (at_history d h) = Execute (logical_step_key s m) m"
    and "node (at_history d h) m = Some n" and "wn_kind n = ''MODEL''"
  shows "1 \<le> s \<and> is_model_at (at_history d Map.empty) s
    \<and> model_turns_used (at_history d Map.empty) s < unat (wd_max_model_turns d)"
  using assms(1)
proof (rule next_step_Execute)
  fix seq n'
  assume o: "first_open (at_history d h) seq" and k: "logical_step_key s m = logical_step_key seq m"
    and at: "node_at (at_history d h) seq = Inr (Some m)"
    and n': "node (at_history d h) m = Some n'"
    and t: "wn_kind n' = ''MODEL'' \<longrightarrow> model_turns_used (at_history d h) seq
        < unat (wd_max_model_turns (ri_definition (at_history d h)))"
  have e: "at_history d h = (at_history d Map.empty)\<lparr>ri_checkpoints := h\<rparr>"
    by (simp add: at_history_def)
  then have "model_turns_used (at_history d h) = model_turns_used (at_history d Map.empty)"
    and "node (at_history d h) = node (at_history d Map.empty)" by (simp_all only: model_turns_checkpoints node_checkpoints)
  with assms(2,3) n' t o k at show ?thesis
    by (simp add: logical_step_key_inj first_open_def is_model_at_def node_at_history [of d h])
qed

section \<open>A sample workflow\<close>

text \<open>A two-node workflow for the witnesses.\<close>

definition sample_ref :: artifact_ref where
  "sample_ref = \<lparr> ar_artifact_id = ''s'', ar_tenant_id = ''t'', ar_digest = [],
     ar_schema_version = ''1'', ar_classification = Public \<rparr>"

definition sample_node :: "string \<Rightarrow> string \<Rightarrow> workflow_node" where
  "sample_node name kind = \<lparr> wn_id = name, wn_kind = kind, wn_handler_id = None,
     wn_input_schema_ref = sample_ref, wn_output_schema_ref = sample_ref, wn_max_attempts = 1,
     wn_timeout_seconds = 1, wn_max_iterations = 1, wn_on_failure = ''FAIL'' \<rparr>"

definition sample_workflow :: "u32 \<Rightarrow> workflow_definition" where
  "sample_workflow steps = \<lparr> wd_id = ''w'', wd_version = ''1'', wd_input_schema_ref = sample_ref,
     wd_output_schema_ref = sample_ref, wd_entry_node = ''a'',
     wd_nodes = [sample_node ''a'' ''MODEL'', sample_node ''b'' ''TASK''],
     wd_edges = [\<lparr> we_from = ''a'', we_to = ''b'', we_condition = ''SUCCESS'' \<rparr>],
     wd_max_total_steps = steps, wd_max_model_turns = 1, wd_required_actions = [],
     wd_digest = [] \<rparr>"

lemmas sample_defs = sample_ref_def sample_node_def sample_workflow_def

lemma sample_node_at:
  "node_at (at_history (sample_workflow n) h) (Suc 0) = Inr (Some ''a'')"
  "node_at (at_history (sample_workflow n) h) 2 = Inr (Some ''b'')"
  "node_at (at_history (sample_workflow n) h) 3 = Inr None"
  by (simp_all add: node_at_def node_def successor_def sample_defs at_history_def numeral_2_eq_2
      numeral_3_eq_3)

lemma sample_params:
  "wd_max_total_steps (sample_workflow n) = n" "wd_max_model_turns (sample_workflow n) = 1"
  "map_option wn_kind (node (at_history (sample_workflow n) h) ''a'') = Some ''MODEL''"
  "map_option wn_kind (node (at_history (sample_workflow n) h) ''b'') = Some ''TASK''"
  by (simp_all add: node_def sample_defs)

lemma sample_keys:
  "logical_step_key (Suc 0) ''a'' = ''0001:a''" "logical_step_key 2 ''b'' = ''0002:b''"
  by code_simp+

abbreviation done_a :: checkpoint_record where
  "done_a \<equiv> outcome_record ''0001:a'' ''a'' ''SUCCEEDED'' None"

abbreviation done_b :: checkpoint_record where
  "done_b \<equiv> outcome_record ''0002:b'' ''b'' ''SUCCEEDED'' None"

lemma sample_gate:
  "budget_gate (at_history (sample_workflow n) h) (Suc 0) ''a'' k = Execute k ''a''"
  "budget_gate (at_history (sample_workflow n) h) 2 ''b'' k = Execute k ''b''"
  using sample_params(3,4) [of n h] sample_params(2) [of n]
  by (auto simp: budget_gate_def model_turns_used_def split: option.splits)

lemma sample_budgets: "unat (3 :: u32) = Suc (Suc (Suc 0))" "unat (2 :: u32) = Suc (Suc 0)"
  by simp_all

lemmas sample_eval = sample_params step_from.simps
  sample_node_at [unfolded numeral_3_eq_3 numeral_2_eq_2]
  sample_keys [unfolded numeral_2_eq_2] sample_gate [unfolded numeral_2_eq_2]
  outcome_record_def Let_def

lemma sample_decisions:
  "next_step (at_history (sample_workflow 3) Map.empty) = Execute ''0001:a'' ''a''"
  "next_step (at_history (sample_workflow 3) [''0001:a'' \<mapsto> done_a]) = Execute ''0002:b'' ''b''"
  "next_step (at_history (sample_workflow 3) [''0001:a'' \<mapsto> done_a, ''0002:b'' \<mapsto> done_b]) = Completed"
  "next_step (at_history (sample_workflow 2) [''0001:a'' \<mapsto> done_a, ''0002:b'' \<mapsto> done_b])
     = StepLimitReached"
  unfolding next_step_def at_history_simps sample_params(1) sample_budgets
  by (simp_all add: sample_eval)

section \<open>Properties\<close>



text \<open>
  C20: however often the worker dies and resumes, the number of different step keys it ever
  dispatches is at most the step budget of the workflow.
\<close>

theorem dispatched_keys_within_budget:
  assumes "(worker_step d)\<^sup>*\<^sup>* (h, []) (h', log)"
  shows "card (set log) \<le> unat (wd_max_total_steps d)"
proof -
  from worker_steps_keys [OF assms] have "set log \<subseteq> step_keys d" by simp
  with step_keys_card [of d] show ?thesis by (meson card_mono le_trans)
qed

theorem dispatched_keys_within_budget_witness:
  "(worker_step (sample_workflow 3))\<^sup>*\<^sup>* (Map.empty, []) (Map.empty, [''0001:a'', ''0001:a''])
   \<and> card (set [''0001:a'', ''0001:a'']) \<le> unat (3 :: u32)"
proof -
  have s: "worker_step (sample_workflow 3) (Map.empty, l) (Map.empty, l @ [''0001:a''])" for l
    by (rule worker_step.died) (rule sample_decisions(1))
  from s [of "[]"] s [of "[''0001:a'']"]
  have r: "(worker_step (sample_workflow 3))\<^sup>*\<^sup>* (Map.empty, []) (Map.empty, [''0001:a'', ''0001:a''])"
    by simp
  from dispatched_keys_within_budget [OF r] r show ?thesis by (simp only: sample_params simp_thms)
qed


text \<open>
  A dispatch decision is sound. It names the first step of the traversal without a completed
  checkpoint, by the key of its position and node; the node is declared and is not an approval,
  all earlier steps are completed, and a model node is dispatched only while earlier steps used
  fewer model turns than the workflow allows.
\<close>

theorem execute_is_sound:
  assumes "next_step i = Execute key node_id"
  shows "\<exists>seq n. key = logical_step_key seq node_id \<and> node_at i seq = Inr (Some node_id)
    \<and> 1 \<le> seq \<and> seq \<le> unat (wd_max_total_steps (ri_definition i))
    \<and> (\<forall>s. 1 \<le> s \<and> s < seq \<longrightarrow> step_done i s) \<and> \<not> step_done i seq
    \<and> node i node_id = Some n \<and> wn_kind n \<noteq> ''APPROVAL''
    \<and> (wn_kind n = ''MODEL'' \<longrightarrow>
         model_turns_used i seq < unat (wd_max_model_turns (ri_definition i)))"
  using assms by (rule next_step_Execute) (auto simp: first_open_def)

theorem execute_is_sound_witness:
  "let i = at_history (sample_workflow 3) [''0001:a'' \<mapsto> done_a] in
   next_step i = Execute ''0002:b'' ''b''
   \<and> (\<exists>seq n. ''0002:b'' = logical_step_key seq ''b'' \<and> node_at i seq = Inr (Some ''b'')
        \<and> node i ''b'' = Some n)"
  using execute_is_sound [OF sample_decisions(2)] sample_decisions(2) by (auto simp: Let_def)

text \<open>
  A run is declared completed only when the traversal ends and every step of it has a
  completed checkpoint.
\<close>

theorem completed_is_sound:
  assumes "next_step i = Completed"
  shows "\<exists>seq. 1 \<le> seq \<and> node_at i seq = Inr None \<and> (\<forall>s. 1 \<le> s \<and> s < seq \<longrightarrow> step_done i s)"
  using assms by (rule next_step_Completed) (auto simp: first_open_def)

theorem completed_is_sound_witness:
  "let i = at_history (sample_workflow 3) [''0001:a'' \<mapsto> done_a, ''0002:b'' \<mapsto> done_b] in
   next_step i = Completed \<and> (\<exists>seq. 1 \<le> seq \<and> node_at i seq = Inr None)"
  using completed_is_sound [OF sample_decisions(3)] sample_decisions(3) by (auto simp: Let_def)

text \<open>
  The budget counts the end of the traversal as a step. A run whose completed steps already
  fill \<open>max_total_steps\<close> is reported as out of steps, also when no step is left to do.
\<close>

theorem full_budget_reports_limit:
  assumes "\<And>s. 1 \<le> s \<Longrightarrow> s \<le> unat (wd_max_total_steps (ri_definition i)) \<Longrightarrow> step_done i s"
  shows "next_step i = StepLimitReached"
proof (cases rule: next_step_cases [of i])
  case (open_step seq budget)
  with assms show ?thesis by (auto simp: first_open_def)
qed

theorem full_budget_reports_limit_witness:
  "let i = at_history (sample_workflow 2) [''0001:a'' \<mapsto> done_a, ''0002:b'' \<mapsto> done_b] in
   next_step i = StepLimitReached \<and> node_at i 3 = Inr None"
proof -
  let ?i = "at_history (sample_workflow 2) [''0001:a'' \<mapsto> done_a, ''0002:b'' \<mapsto> done_b]"
  have "step_done ?i 1" and "step_done ?i 2"
    by (simp_all add: step_done_def sample_node_at sample_keys outcome_record_def)
  then have "step_done ?i s" if "1 \<le> s" "s \<le> unat (wd_max_total_steps (ri_definition ?i))" for s
  proof -
    from that have "s = 1 \<or> s = 2" by (simp add: sample_params) linarith
    with \<open>step_done ?i 1\<close> \<open>step_done ?i 2\<close> show ?thesis by blast
  qed
  from full_budget_reports_limit [OF this] show ?thesis by (simp add: sample_node_at Let_def)
qed

text \<open>
  No more model steps than \<open>max_model_turns\<close> can be dispatched, over all histories of the
  workflow together.
\<close>

theorem model_dispatches_within_turns:
  "finite (model_dispatches d) \<and> card (model_dispatches d) \<le> unat (wd_max_model_turns d)"
proof -
  let ?i = "at_history d Map.empty"
  have "model_dispatches d
      \<subseteq> {s. 1 \<le> s \<and> is_model_at ?i s \<and> model_turns_used ?i s < unat (wd_max_model_turns d)}"
    unfolding model_dispatches_def using model_dispatch_step by blast
  with model_steps_bounded [of ?i "unat (wd_max_model_turns d)"] show ?thesis
    by (meson card_mono finite_subset le_trans)
qed

text \<open>
  A history read back from durable rows never raises the replay-incompatibility decision,
  because the node of a row is taken from its key. Rows written by another definition are
  ignored instead.
\<close>

theorem resume_never_incompatible:
  "next_step (interpreter_from_checkpoints d cs) \<noteq> ReplayIncompatible"
proof (cases rule: next_step_cases [of "interpreter_from_checkpoints d cs"])
  case limit
  then show ?thesis by simp
next
  case (open_step seq budget)
  let ?i = "interpreter_from_checkpoints d cs"
  from open_step(1) have undone: "\<not> step_done ?i seq" by (simp add: first_open_def)
  show ?thesis
  proof (cases "\<exists>m. node_at ?i seq = Inr (Some m)")
    case True
    then obtain m n where at: "node_at ?i seq = Inr (Some m)" and n: "node ?i m = Some n"
      using node_at_declared by blast
    then have "budget_gate ?i seq m k \<noteq> ReplayIncompatible" for k by (simp add: budget_gate_def)
    with open_step(2) undone at durable_key_node [of d cs seq m] show ?thesis
      by (auto simp: step_from_undone Let_def split: option.splits)
  next
    case False
    with open_step(2) undone show ?thesis
      by (auto simp: step_from_undone split: sum.splits option.splits)
  qed
qed

text \<open>
  A logical step key determines its position and node, and the node is read back from it.
\<close>

theorem step_key_roundtrip:
  assumes "node_id \<noteq> []"
  shows "node_id_from_logical_step_id (logical_step_key seq node_id) = Some node_id
    \<and> (logical_step_key seq node_id = logical_step_key seq' node_id' \<longleftrightarrow>
         seq = seq' \<and> node_id = node_id')"
  using assms by (simp add: node_id_of_key logical_step_key_inj)

theorem step_key_roundtrip_witness:
  "node_id_from_logical_step_id (logical_step_key 12 ''review'') = Some ''review''"
  using step_key_roundtrip [of "''review''" 12 12 "''review''"] by simp

end
