(* ===== verification/Json.thy ===== *)
theory Json
  imports Contracts
begin

text \<open>
  JSON values (\<open>serde_json::Value\<close>) and the serde mappings of the wire values that command
  handlers read from their input and keep in \<open>jsonb\<close> columns. An object is the association list
  of its members. A decoder returns \<^const>\<open>None\<close> where \<open>serde_json::from_value\<close> returns an error;
  structs marked \<open>deny_unknown_fields\<close> refuse any other member.
\<close>

datatype json =
    JNull
  | JBool bool
  | JNum int
  | JFloat string
  | JStr string
  | JArr "json list"
  | JObj "(string \<times> json) list"

text \<open>\<open>Value::get\<close>: only an object has members.\<close>

fun json_get :: "string \<Rightarrow> json \<Rightarrow> json option" where
  "json_get name (JObj members) = map_of members name"
| "json_get name _ = None"

section \<open>Decoders\<close>

fun de_string :: "json \<Rightarrow> string option" where
  "de_string (JStr s) = Some s"
| "de_string _ = None"

fun de_i32 :: "json \<Rightarrow> int option" where
  "de_i32 (JNum n) = checked_i32 n"
| "de_i32 _ = None"

fun de_option :: "(json \<Rightarrow> 'a option) \<Rightarrow> json \<Rightarrow> 'a option option" where
  "de_option de JNull = Some None"
| "de_option de j = map_option Some (de j)"

fun de_elements :: "(json \<Rightarrow> 'a option) \<Rightarrow> json list \<Rightarrow> 'a list option" where
  "de_elements de [] = Some []"
| "de_elements de (j # js) =
     (case de j of None \<Rightarrow> None | Some x \<Rightarrow> map_option (Cons x) (de_elements de js))"

fun de_list :: "(json \<Rightarrow> 'a option) \<Rightarrow> json \<Rightarrow> 'a list option" where
  "de_list de (JArr js) = de_elements de js"
| "de_list de _ = None"

text \<open>\<open>try_from = "String"\<close>: identifiers and digests are checked while they are read.\<close>

definition de_opaque :: "string \<Rightarrow> json \<Rightarrow> string option" where
  "de_opaque kind j =
     (case de_string j of
        None \<Rightarrow> None
      | Some s \<Rightarrow> (case opaque_id_new kind s of Inl _ \<Rightarrow> None | Inr x \<Rightarrow> Some x))"

definition de_digest :: "json \<Rightarrow> digest option" where
  "de_digest j =
     (case de_string j of
        None \<Rightarrow> None
      | Some s \<Rightarrow> (case digest_parse s of Inl _ \<Rightarrow> None | Inr d \<Rightarrow> Some d))"

definition de_classification :: "json \<Rightarrow> classification option" where
  "de_classification j =
     (case de_string j of
        None \<Rightarrow> None
      | Some s \<Rightarrow> find (\<lambda>c. classification_as_str c = s) [Public, Internal, Confidential, Restricted])"

fun principal_kind_as_str :: "principal_kind \<Rightarrow> string" where
  "principal_kind_as_str User = ''USER''"
| "principal_kind_as_str Service = ''SERVICE''"
| "principal_kind_as_str Automation = ''AUTOMATION''"
| "principal_kind_as_str Support = ''SUPPORT''"

definition de_principal_kind :: "json \<Rightarrow> principal_kind option" where
  "de_principal_kind j =
     (case de_string j of
        None \<Rightarrow> None
      | Some s \<Rightarrow> find (\<lambda>k. principal_kind_as_str k = s) [User, Service, Automation, Support])"

text \<open>One member of a struct: missing and unreadable members are both errors.\<close>

definition de_member :: "string \<Rightarrow> (json \<Rightarrow> 'a option) \<Rightarrow> json \<Rightarrow> 'a option" where
  "de_member name de j = (case json_get name j of None \<Rightarrow> None | Some v \<Rightarrow> de v)"

fun only_members :: "string list \<Rightarrow> json \<Rightarrow> bool" where
  "only_members names (JObj members) = list_all (\<lambda>(k, _). List.member names k) members"
| "only_members names _ = False"

definition de_resource_ref :: "json \<Rightarrow> resource_ref option" where
  "de_resource_ref j =
     (if \<not> only_members [''resource_type'', ''resource_id'', ''version''] j then None
      else case de_member ''resource_type'' de_string j of
        None \<Rightarrow> None
      | Some t \<Rightarrow>
          (case de_member ''resource_id'' (de_opaque ''ResourceId'') j of
             None \<Rightarrow> None
           | Some i \<Rightarrow>
               (case de_member ''version'' de_i32 j of
                  None \<Rightarrow> None
                | Some v \<Rightarrow>
                    Some \<lparr> rr_resource_type = t, rr_resource_id = i, rr_version = v \<rparr>)))"

definition de_artifact_ref :: "json \<Rightarrow> artifact_ref option" where
  "de_artifact_ref j =
     (if \<not> only_members
           [''artifact_id'', ''tenant_id'', ''digest'', ''schema_version'', ''classification''] j
      then None
      else case de_member ''artifact_id'' (de_opaque ''ArtifactId'') j of
        None \<Rightarrow> None
      | Some a \<Rightarrow>
          (case de_member ''tenant_id'' (de_opaque ''TenantId'') j of
             None \<Rightarrow> None
           | Some t \<Rightarrow>
               (case de_member ''digest'' de_digest j of
                  None \<Rightarrow> None
                | Some d \<Rightarrow>
                    (case de_member ''schema_version'' de_string j of
                       None \<Rightarrow> None
                     | Some s \<Rightarrow>
                         (case de_member ''classification'' de_classification j of
                            None \<Rightarrow> None
                          | Some c \<Rightarrow>
                              Some \<lparr> ar_artifact_id = a, ar_tenant_id = t, ar_digest = d,
                                     ar_schema_version = s, ar_classification = c \<rparr>)))))"

definition de_principal_ref :: "json \<Rightarrow> principal_ref option" where
  "de_principal_ref j =
     (if \<not> only_members [''type'', ''id'', ''issuer''] j then None
      else case de_member ''type'' de_principal_kind j of
        None \<Rightarrow> None
      | Some k \<Rightarrow>
          (case de_member ''id'' (de_opaque ''PrincipalId'') j of
             None \<Rightarrow> None
           | Some i \<Rightarrow>
               (case de_member ''issuer'' de_string j of
                  None \<Rightarrow> None
                | Some s \<Rightarrow> Some \<lparr> pr_kind = k, pr_id = i, pr_issuer = s \<rparr>)))"

section \<open>Serialisers\<close>

definition ser_option :: "('a \<Rightarrow> json) \<Rightarrow> 'a option \<Rightarrow> json" where
  "ser_option f x = (case x of None \<Rightarrow> JNull | Some a \<Rightarrow> f a)"

definition ser_resource_ref :: "resource_ref \<Rightarrow> json" where
  "ser_resource_ref r =
     JObj [(''resource_type'', JStr (rr_resource_type r)),
           (''resource_id'', JStr (rr_resource_id r)),
           (''version'', JNum (rr_version r))]"

definition ser_artifact_ref :: "artifact_ref \<Rightarrow> json" where
  "ser_artifact_ref r =
     JObj [(''artifact_id'', JStr (ar_artifact_id r)),
           (''tenant_id'', JStr (ar_tenant_id r)),
           (''digest'', JStr (ar_digest r)),
           (''schema_version'', JStr (ar_schema_version r)),
           (''classification'', JStr (classification_as_str (ar_classification r)))]"

definition ser_principal_ref :: "principal_ref \<Rightarrow> json" where
  "ser_principal_ref p =
     JObj [(''type'', JStr (principal_kind_as_str (pr_kind p))),
           (''id'', JStr (pr_id p)),
           (''issuer'', JStr (pr_issuer p))]"

section \<open>Round trips\<close>

text \<open>The values the Rust types can hold: their constructors admit nothing else.\<close>

definition opaque_ok :: "string \<Rightarrow> bool" where
  "opaque_ok s \<longleftrightarrow> is_ok (opaque_id_new [] s)"

definition resource_ref_ok :: "resource_ref \<Rightarrow> bool" where
  "resource_ref_ok r \<longleftrightarrow> opaque_ok (rr_resource_id r) \<and> in_i32 (rr_version r)"

definition artifact_ref_ok :: "artifact_ref \<Rightarrow> bool" where
  "artifact_ref_ok r \<longleftrightarrow> opaque_ok (ar_artifact_id r) \<and> opaque_ok (ar_tenant_id r)
     \<and> digest_parse (ar_digest r) = Inr (ar_digest r)"

lemma opaque_new_Inr: "opaque_id_new kind s = Inr x \<longleftrightarrow> x = s \<and> opaque_ok s"
  by (auto simp: opaque_ok_def is_ok_iff opaque_id_new_Inr_iff)

lemma digest_parse_Inr_same: "digest_parse s = Inr d \<longleftrightarrow> d = s \<and> is_ok (digest_parse s)"
  by (auto simp: is_ok_iff digest_parse_Inr_iff)

lemma de_opaque_JStr [simp]: "de_opaque kind (JStr s) = (if opaque_ok s then Some s else None)"
proof (cases "opaque_id_new kind s")
  case (Inl e)
  then have "\<not> opaque_ok s" using opaque_new_Inr [of kind s s] by auto
  with Inl show ?thesis by (simp add: de_opaque_def)
next
  case (Inr x)
  with opaque_new_Inr [of kind s x] show ?thesis by (simp add: de_opaque_def)
qed

lemma de_digest_JStr [simp]:
  "de_digest (JStr s) = (if digest_parse s = Inr s then Some s else None)"
  by (cases "digest_parse s") (auto simp: de_digest_def dest: digest_parse_Inr_same [THEN iffD1])

lemma de_classification_as_str [simp]:
  "de_classification (JStr (classification_as_str c)) = Some c"
  by (cases c) (simp_all add: de_classification_def)

lemma de_opaque_Some_iff: "de_opaque kind j = Some x \<longleftrightarrow> j = JStr x \<and> opaque_ok x"
proof (cases "de_string j")
  case None
  then show ?thesis by (auto simp: de_opaque_def)
next
  case (Some s)
  then have "j = JStr s" by (cases j) auto
  then show ?thesis by auto
qed

lemma de_digest_Some_iff: "de_digest j = Some d \<longleftrightarrow> j = JStr d \<and> digest_parse d = Inr d"
proof (cases "de_string j")
  case None
  then show ?thesis by (auto simp: de_digest_def)
next
  case (Some s)
  then have "j = JStr s" by (cases j) auto
  then show ?thesis by auto
qed

lemma de_i32_Some_iff: "de_i32 j = Some n \<longleftrightarrow> j = JNum n \<and> in_i32 n"
  by (cases j) (auto simp: checked_i32_def)

lemma resource_ref_roundtrip:
  "resource_ref_ok r \<Longrightarrow> de_resource_ref (ser_resource_ref r) = Some r"
  by (simp add: de_resource_ref_def ser_resource_ref_def de_member_def resource_ref_ok_def
      checked_i32_def list_all_iff)

lemma artifact_ref_roundtrip:
  "artifact_ref_ok r \<Longrightarrow> de_artifact_ref (ser_artifact_ref r) = Some r"
  by (simp add: de_artifact_ref_def ser_artifact_ref_def de_member_def artifact_ref_ok_def
      list_all_iff)

lemma de_resource_ref_ok: "de_resource_ref j = Some r \<Longrightarrow> resource_ref_ok r"
  by (auto simp: de_resource_ref_def resource_ref_ok_def de_member_def de_opaque_Some_iff
      de_i32_Some_iff split: if_splits option.splits)

lemma de_artifact_ref_ok: "de_artifact_ref j = Some r \<Longrightarrow> artifact_ref_ok r"
  by (auto simp: de_artifact_ref_def artifact_ref_ok_def de_member_def de_opaque_Some_iff
      de_digest_Some_iff split: if_splits option.splits)

end
