(* ===== verification/Store.thy ===== *)
theory Store
  imports Json Kernel_Runtime
begin

text \<open>
  What every handler of the PostgreSQL adapter shares (\<open>platform-plugins/data-postgres/src/store.rs\<close>
  and the tables of \<open>infra/migrations\<close>). The database is a record of tables. A handler is a
  function from the database to a failure or a result with the new database: a failure is a
  rolled-back transaction. A tenant's writers hold an exclusive lock until they commit, so
  transactions of one tenant are sequential. SQL statements carry the constraints of their table
  and answer with the SQLSTATE the server would raise. Values that the environment chooses
  (\<open>Uuid::new_v4\<close>, \<open>clock_timestamp()\<close>) are arguments. Losing the connection is not modelled.
\<close>

section \<open>Environment\<close>

type_synonym uuid = "128 word"
type_synonym timestamp = int
type_synonym sqlstate = string

text \<open>
  Third-party functions the adapter calls: text of UUIDs and timestamps, canonical JSON, SHA-256.
  Timestamps are microseconds since the epoch.
\<close>

record platform =
  pf_uuid_show :: "uuid \<Rightarrow> string"
  pf_uuid_parse :: "string \<Rightarrow> uuid option"
  pf_time_show :: "timestamp \<Rightarrow> string"
  pf_time_parse :: "string \<Rightarrow> timestamp option"
  pf_canonical :: "json \<Rightarrow> string option"
  pf_sha256_hex :: "string \<Rightarrow> string"

text \<open>What the sources rely on: a UUID prints as an identifier and is read back from its text.\<close>

definition uuid_text_ok :: "platform \<Rightarrow> bool" where
  "uuid_text_ok pf \<longleftrightarrow>
     (\<forall>u. pf_uuid_parse pf (pf_uuid_show pf u) = Some u \<and> opaque_ok (pf_uuid_show pf u))"

section \<open>Rows\<close>

record tenant_row =
  tn_id :: uuid
  tn_status :: string

record budget_setting_row =
  bs_tenant :: uuid
  bs_id :: uuid
  bs_currency :: string
  bs_period :: string
  bs_limit :: int
  bs_version :: int

record budget_account_row =
  ba_tenant :: uuid
  ba_key :: string
  ba_currency :: string
  ba_limit :: int
  ba_held :: int
  ba_charged :: int

record cost_reservation_row =
  cv_tenant :: uuid
  cv_id :: uuid
  cv_run_id :: uuid
  cv_logical_call_id :: string
  cv_currency :: string
  cv_upper_bound :: int
  cv_settled :: "int option"
  cv_state :: string
  cv_price_profile :: string
  cv_account_keys :: "string list"
  cv_usage_fingerprint :: "string option"
  cv_version :: int
  cv_created_at :: timestamp

record cost_event_row =
  cl_tenant :: uuid
  cl_id :: uuid
  cl_reservation_id :: uuid
  cl_event_type :: string
  cl_held_delta :: int
  cl_charged_delta :: int
  cl_usage_fingerprint :: "string option"
  cl_created_at :: timestamp

record run_row =
  rn_tenant :: uuid
  rn_id :: uuid
  rn_principal_id :: uuid
  rn_workflow_id :: string
  rn_workflow_version :: string
  rn_plugin_id :: string
  rn_plugin_digest :: string
  rn_grant_id :: uuid
  rn_grant_fence :: int
  rn_input_ref :: json
  rn_state :: string
  rn_fence :: int
  rn_version :: int
  rn_temporal_workflow_id :: string
  rn_temporal_run_id :: "string option"
  rn_dispatch_state :: string
  rn_failure_code :: "string option"
  rn_created_at :: timestamp
  rn_updated_at :: timestamp

record checkpoint_row =
  rc_tenant :: uuid
  rc_run_id :: uuid
  rc_logical_step_id :: string
  rc_fence :: int
  rc_state :: string
  rc_output_ref :: "json option"
  rc_failure_code :: "string option"

record effect_row =
  ef_tenant :: uuid
  ef_id :: uuid
  ef_run_id :: uuid
  ef_grant_id :: uuid
  ef_connection_id :: uuid
  ef_action :: string
  ef_target :: json
  ef_content_ref :: json
  ef_fingerprint :: string
  ef_idempotency_key :: string
  ef_approval_id :: "uuid option"
  ef_reservation_id :: uuid
  ef_state :: string
  ef_transmit_count :: int
  ef_dispatch_fence :: int
  ef_lease_expires_at :: "timestamp option"
  ef_reconciliation_queued :: bool
  ef_original_effect_id :: "uuid option"
  ef_version :: int
  ef_created_at :: timestamp
  ef_updated_at :: timestamp

record effect_receipt_row =
  et_tenant :: uuid
  et_id :: uuid
  et_effect_id :: uuid
  et_outcome :: string
  et_remote_id :: "string option"
  et_remote_version :: "string option"
  et_remote_url :: "string option"
  et_evidence_ref :: json
  et_provider_contract_version :: string
  et_observed_at :: timestamp

record approval_row =
  ap_tenant :: uuid
  ap_id :: uuid
  ap_run_id :: uuid
  ap_action :: string
  ap_target :: json
  ap_content_digest :: string
  ap_scope_digest :: string
  ap_policy_version :: string
  ap_policy_epoch :: int
  ap_max_cost :: int
  ap_currency :: string
  ap_expires_at :: timestamp
  ap_created_by :: uuid
  ap_decided_by :: "uuid option"
  ap_decided_issuer :: "string option"
  ap_state :: string
  ap_decision_reason :: "string option"
  ap_version :: int
  ap_created_at :: timestamp
  ap_updated_at :: timestamp

record delegation_row =
  dl_tenant :: uuid
  dl_id :: uuid
  dl_principal_id :: string
  dl_principal_type :: string
  dl_issuer :: string
  dl_creator_id :: uuid
  dl_actions :: "string list"
  dl_resources :: json
  dl_parent_grant_id :: "uuid option"
  dl_expires_at :: timestamp
  dl_state :: string
  dl_version :: int
  dl_fence :: int

record connection_row =
  cn_tenant :: uuid
  cn_id :: uuid
  cn_provider :: string
  cn_external_account :: string
  cn_scopes :: "string list"
  cn_secret_ref :: string
  cn_state :: string
  cn_contract_version :: string
  cn_capabilities :: "string list"
  cn_verified_at :: "timestamp option"
  cn_version :: int

record kill_switch_row =
  ks_tenant :: uuid
  ks_id :: uuid
  ks_scope :: string
  ks_target_id :: string
  ks_active :: bool
  ks_reason :: string
  ks_changed_by :: uuid
  ks_version :: int

record installation_row =
  pi_tenant :: uuid
  pi_id :: uuid
  pi_plugin_id :: string
  pi_artifact_digest :: string
  pi_state :: string
  pi_granted_capabilities :: "string list"
  pi_revocation_epoch :: int
  pi_version :: int

text \<open>Columns that the sources never read (\<open>definition_digest\<close> and most creation times) are left out.\<close>

record workflow_row =
  wd_tenant :: uuid
  wd_workflow_id :: string
  wd_workflow_version :: string
  wd_plugin_id :: string
  wd_plugin_digest :: string
  wd_definition :: json
  wd_created_at :: timestamp

record membership_row =
  me_tenant :: uuid
  me_principal_id :: uuid
  me_membership_id :: uuid
  me_role :: string
  me_status :: string
  me_membership_epoch :: int
  me_permission_epoch :: int
  me_version :: int

record membership_role_row =
  mr_tenant :: uuid
  mr_membership_id :: uuid
  mr_role :: string

record policy_row =
  az_tenant :: uuid
  az_policy_version :: string
  az_policy_epoch :: int
  az_cedar_source :: string
  az_is_current :: bool

record artifact_row =
  af_tenant :: uuid
  af_id :: uuid
  af_digest :: string
  af_schema_version :: string
  af_classification :: string
  af_content_type :: string
  af_size_bytes :: int
  af_storage_key :: string
  af_state :: string
  af_creator_id :: uuid
  af_legal_hold :: bool
  af_created_at :: timestamp
  af_version :: int

record tombstone_row =
  ts_tenant :: uuid
  ts_resource_type :: string
  ts_resource_id :: string

record lineage_row =
  ln_tenant :: uuid
  ln_source_id :: uuid
  ln_derived_id :: uuid

record projection_row =
  rp_tenant :: uuid
  rp_resource_type :: string
  rp_resource_id :: string
  rp_version :: int
  rp_artifact_id :: uuid
  rp_search_label :: string
  rp_created_at :: timestamp

record audit_row =
  au_tenant :: uuid
  au_id :: uuid
  au_principal_id :: uuid
  au_action :: string
  au_resource_type :: string
  au_resource_id :: uuid
  au_correlation_id :: uuid

record receipt_row =
  cp_tenant :: uuid
  cp_principal_id :: uuid
  cp_operation :: string
  cp_idempotency_key :: string
  cp_fingerprint :: string
  cp_command_id :: uuid
  cp_receipt :: json
  cp_expires_at :: timestamp

record outbox_row =
  ob_tenant :: uuid
  ob_id :: uuid
  ob_aggregate_id :: uuid
  ob_aggregate_version :: int
  ob_event_name :: string
  ob_artifact_refs :: json
  ob_aggregate_type :: string
  ob_principal_id :: "uuid option"
  ob_correlation_id :: "uuid option"
  ob_delivery_status :: string
  ob_delivery_attempts :: int
  ob_available_at :: timestamp
  ob_lease_expires_at :: "timestamp option"
  ob_stream_sequence :: int

record inbox_row =
  ib_tenant :: uuid
  ib_consumer :: string
  ib_event_id :: uuid

record notification_row =
  nt_tenant :: uuid
  nt_id :: uuid
  nt_recipient_id :: uuid
  nt_resource_type :: string
  nt_resource_id :: string
  nt_subject_code :: string
  nt_read_at :: "timestamp option"
  nt_version :: int

record support_grant_row =
  sg_tenant :: uuid
  sg_id :: uuid
  sg_requested_by :: uuid
  sg_actions :: "string list"
  sg_reason :: string
  sg_expires_at :: timestamp
  sg_state :: string
  sg_version :: int

record provider_row =
  pv_tenant :: uuid
  pv_id :: uuid
  pv_profile_id :: string
  pv_profile :: json
  pv_credential_ref :: string
  pv_version :: int

record connector_authorization_row =
  cx_tenant :: uuid
  cx_id :: uuid
  cx_principal_id :: uuid
  cx_connection_id :: uuid
  cx_state_digest :: string
  cx_authorization_url :: string
  cx_return_to :: string
  cx_requested_scopes :: "string list"
  cx_state :: string
  cx_expires_at :: timestamp

record ui_contribution_row =
  ui_tenant :: uuid
  ui_plugin_id :: string
  ui_contribution_id :: string
  ui_contribution :: json
  ui_path :: string
  ui_slot :: string

record listing_row =
  ct_tenant :: uuid
  ct_id :: uuid
  ct_publisher_id :: string
  ct_plugin_id :: string
  ct_artifact_digest :: string
  ct_manifest :: json
  ct_support_contact :: string
  ct_description :: string
  ct_submitted_by :: uuid
  ct_reviewed_by :: "uuid option"
  ct_evidence_ref :: "json option"
  ct_state :: string
  ct_version :: int

record invite_row =
  mi_tenant :: uuid
  mi_invite_id :: uuid
  mi_email :: string
  mi_roles :: "string list"
  mi_expires_at :: timestamp
  mi_token_digest :: string
  mi_created_by :: uuid
  mi_secret_retrieved_at :: "timestamp option"
  mi_consumed_at :: "timestamp option"
  mi_consumed_by :: "uuid option"
  mi_membership_id :: "uuid option"
  mi_version :: int
  mi_created_at :: timestamp

record identity_row =
  oi_principal_id :: uuid
  oi_issuer :: string
  oi_subject :: string
  oi_email :: "string option"
  oi_email_verified :: bool

record identity_proposal_row =
  ic_tenant :: uuid
  ic_id :: uuid
  ic_issuer :: string
  ic_client_id :: string
  ic_client_secret_ref :: string
  ic_allowed_redirect_uris :: "string list"
  ic_state :: string
  ic_runtime_state :: string
  ic_created_by :: uuid
  ic_version :: int

record policy_state_row =
  ps_tenant :: uuid
  ps_version :: int

record policy_proposal_row =
  pp_tenant :: uuid
  pp_id :: uuid
  pp_policy_ref :: json
  pp_review_ref :: json
  pp_policy_digest :: string
  pp_cedar_source :: string
  pp_base_policy_version :: string
  pp_base_policy_epoch :: int
  pp_state :: string
  pp_created_by :: uuid
  pp_version :: int

record publisher_key_row =
  pk_tenant :: uuid
  pk_publisher_id :: string
  pk_key_id :: string
  pk_public_key :: string
  pk_revoked_at :: "timestamp option"

record signature_row =
  sn_tenant :: uuid
  sn_id :: string
  sn_publisher_id :: string
  sn_key_id :: string
  sn_artifact_digest :: string
  sn_manifest_digest :: string
  sn_signature :: string

record plugin_version_row =
  pn_tenant :: uuid
  pn_plugin_id :: string
  pn_artifact_digest :: string
  pn_manifest :: json
  pn_contract_version :: string
  pn_plugin_version :: string
  pn_signature_id :: string

record plugin_revocation_row =
  px_tenant :: uuid
  px_plugin_id :: string
  px_artifact_digest :: string
  px_reason :: string
  px_revoked_by :: uuid

record composition_row =
  pm_tenant :: uuid
  pm_id :: uuid
  pm_product_id :: string
  pm_lock_artifact_id :: uuid
  pm_lock_digest :: string
  pm_enabled_plugins :: "string list"
  pm_version :: int

record upload_row =
  up_tenant :: uuid
  up_id :: uuid
  up_artifact_id :: uuid
  up_principal_id :: uuid
  up_expires_at :: timestamp
  up_state :: string
  up_observed_digest :: "string option"
  up_observed_size_bytes :: "int option"
  up_lease_id :: "uuid option"
  up_lease_expires_at :: "timestamp option"
  up_scan_code :: "string option"
  up_scanned_at :: "timestamp option"
  up_version :: int

record rights_row =
  rt_tenant :: uuid
  rt_artifact_id :: uuid
  rt_rights_id :: uuid
  rt_access_mode :: string
  rt_allow_acquire :: bool
  rt_allow_ai_analysis :: bool
  rt_allow_transform :: bool
  rt_allow_public_redistribution :: bool
  rt_allowed_provider_profiles :: "string list"
  rt_expires_at :: "timestamp option"
  rt_evidence_ref :: "json option"
  rt_state :: string
  rt_version :: int

record deletion_request_row =
  dq_tenant :: uuid
  dq_id :: uuid
  dq_resource_type :: string
  dq_resource_id :: string
  dq_state :: string
  dq_affected_artifact_ids :: "uuid list"
  dq_requested_by :: uuid
  dq_reason :: string
  dq_version :: int

record database =
  tb_tenants :: "tenant_row list"
  tb_budget_settings :: "budget_setting_row list"
  tb_budget_accounts :: "budget_account_row list"
  tb_cost_reservations :: "cost_reservation_row list"
  tb_cost_ledger :: "cost_event_row list"
  tb_runs :: "run_row list"
  tb_run_checkpoints :: "checkpoint_row list"
  tb_effects :: "effect_row list"
  tb_effect_receipts :: "effect_receipt_row list"
  tb_approvals :: "approval_row list"
  tb_delegations :: "delegation_row list"
  tb_connections :: "connection_row list"
  tb_kill_switches :: "kill_switch_row list"
  tb_installations :: "installation_row list"
  tb_memberships :: "membership_row list"
  tb_outbox :: "outbox_row list"
  tb_inbox :: "inbox_row list"
  tb_outbox_sequence :: int
  tb_workflow_definitions :: "workflow_row list"
  tb_membership_roles :: "membership_role_row list"
  tb_policies :: "policy_row list"
  tb_artifacts :: "artifact_row list"
  tb_tombstones :: "tombstone_row list"
  tb_lineage :: "lineage_row list"
  tb_projections :: "projection_row list"
  tb_audit :: "audit_row list"
  tb_receipts :: "receipt_row list"
  tb_notifications :: "notification_row list"
  tb_support_grants :: "support_grant_row list"
  tb_providers :: "provider_row list"
  tb_connector_authorizations :: "connector_authorization_row list"
  tb_ui_contributions :: "ui_contribution_row list"
  tb_listings :: "listing_row list"
  tb_invites :: "invite_row list"
  tb_identities :: "identity_row list"
  tb_identity_proposals :: "identity_proposal_row list"
  tb_policy_state :: "policy_state_row list"
  tb_policy_proposals :: "policy_proposal_row list"
  tb_publisher_keys :: "publisher_key_row list"
  tb_signatures :: "signature_row list"
  tb_plugin_versions :: "plugin_version_row list"
  tb_plugin_revocations :: "plugin_revocation_row list"
  tb_compositions :: "composition_row list"
  tb_uploads :: "upload_row list"
  tb_rights :: "rights_row list"
  tb_deletion_requests :: "deletion_request_row list"

section \<open>Statements\<close>

text \<open>
  \<open>INSERT\<close>: CHECK constraints, then unique indexes, then foreign keys. \<open>UPDATE\<close>: new values must
  fit their columns and pass the CHECK constraints.
\<close>

definition insert_row ::
    "('r \<Rightarrow> bool) \<Rightarrow> ('r \<Rightarrow> 'r \<Rightarrow> bool) \<Rightarrow> bool \<Rightarrow> 'r \<Rightarrow> 'r list \<Rightarrow> sqlstate + 'r list" where
  "insert_row check clash refs r t =
     (if \<not> check r then Inl ''23514''
      else if list_ex (clash r) t then Inl ''23505''
      else if \<not> refs then Inl ''23503''
      else Inr (t @ [r]))"

definition update_rows ::
    "('r \<Rightarrow> bool) \<Rightarrow> ('r \<Rightarrow> 'r) \<Rightarrow> ('r \<Rightarrow> bool) \<Rightarrow> ('r \<Rightarrow> bool) \<Rightarrow> 'r list
     \<Rightarrow> sqlstate + 'r list" where
  "update_rows p f fits check t =
     (if list_ex (\<lambda>r. p r \<and> \<not> fits (f r)) t then Inl ''22003''
      else if list_ex (\<lambda>r. p r \<and> \<not> check (f r)) t then Inl ''23514''
      else Inr (update_where p f t))"

definition database_failure :: "sqlstate option \<Rightarrow> command_failure" where
  "database_failure code =
     (if code = Some ''23505'' then conflict ''RESOURCE_CONFLICT''
      else if code = Some ''23503'' then not_found
      else if code \<in> {Some ''23514'', Some ''22003'', Some ''22001''} then invalid ''CONSTRAINT_INVALID''
      else if code \<in> {Some ''40001'', Some ''40P01''} then conflict ''CONCURRENT_UPDATE''
      else if code = Some ''55P03'' then failure_new ''RESOURCE_BUSY'' Exhausted
      else unavailable ''DATA_ADAPTER_UNAVAILABLE'')"

text \<open>A statement whose error is mapped by \<open>map_err(database_failure)?\<close>.\<close>

definition sql :: "sqlstate + 'a \<Rightarrow> 'a outcome" where
  "sql m = map_err (\<lambda>code. database_failure (Some code)) m"

lemma sql_Inr_iff [res_simps]: "sql m = Inr x \<longleftrightarrow> m = Inr x"
  by (simp add: sql_def map_err_Inr_iff)

lemma sql_simps [simp]: "sql (Inr x) = Inr x" "sql (Inl c) = Inl (database_failure (Some c))"
  by (simp_all add: sql_def)

lemma insert_row_Inr_iff [res_simps]:
  "insert_row check clash refs r t = Inr t' \<longleftrightarrow>
     check r \<and> (\<forall>r' \<in> set t. \<not> clash r r') \<and> refs \<and> t' = t @ [r]"
  by (auto simp: insert_row_def list_ex_iff)

lemma update_rows_Inr_iff [res_simps]:
  "update_rows p f fits check t = Inr t' \<longleftrightarrow>
     (\<forall>r \<in> set t. p r \<longrightarrow> fits (f r) \<and> check (f r)) \<and> t' = update_where p f t"
  by (auto simp: update_rows_def list_ex_iff)

section \<open>Small helpers of the store\<close>

definition parse_uuid :: "platform \<Rightarrow> string \<Rightarrow> uuid outcome" where
  "parse_uuid pf s = ok_or not_found (pf_uuid_parse pf s)"

definition resource_id_of :: "platform \<Rightarrow> uuid \<Rightarrow> resource_id" where
  "resource_id_of pf i = pf_uuid_show pf i"

definition resource_ref_of :: "platform \<Rightarrow> string \<Rightarrow> uuid \<Rightarrow> int \<Rightarrow> resource_ref" where
  "resource_ref_of pf kind i version =
     \<lparr> rr_resource_type = kind, rr_resource_id = resource_id_of pf i, rr_version = version \<rparr>"

definition field :: "(json \<Rightarrow> 'a option) \<Rightarrow> json \<Rightarrow> string \<Rightarrow> 'a outcome" where
  "field de input name =
     rbind (ok_or (invalid ''SCHEMA_INVALID'') (json_get name input))
       (\<lambda>v. ok_or (invalid ''SCHEMA_INVALID'') (de v))"

text \<open>\<open>serde_json::from_value\<close> on a stored column; a bad value is an integrity failure.\<close>

definition stored :: "string \<Rightarrow> (json \<Rightarrow> 'a option) \<Rightarrow> json \<Rightarrow> 'a outcome" where
  "stored code de j = ok_or (unavailable code) (de j)"

definition de_time :: "platform \<Rightarrow> json \<Rightarrow> timestamp option" where
  "de_time pf j = (case de_string j of None \<Rightarrow> None | Some s \<Rightarrow> pf_time_parse pf s)"

definition ser_uuid :: "platform \<Rightarrow> uuid \<Rightarrow> json" where
  "ser_uuid pf i = JStr (pf_uuid_show pf i)"

definition ser_time :: "platform \<Rightarrow> timestamp \<Rightarrow> json" where
  "ser_time pf t = JStr (pf_time_show pf t)"

definition digest_bytes :: "platform \<Rightarrow> string \<Rightarrow> digest" where
  "digest_bytes pf bytes = ''sha256:'' @ pf_sha256_hex pf bytes"

record projection_change =
  pc_resource :: resource_ref
  pc_value :: json
  pc_label :: string
  pc_source_artifacts :: "uuid list"

record mutation =
  mu_primary :: resource_ref
  mu_changes :: "projection_change list"
  mu_run_id :: "uuid option"
  mu_effect_id :: "uuid option"
  mu_accepted :: bool

definition mutation_one ::
    "platform \<Rightarrow> string \<Rightarrow> uuid \<Rightarrow> int \<Rightarrow> json \<Rightarrow> string \<Rightarrow> mutation" where
  "mutation_one pf kind i version val label =
     (let resource = resource_ref_of pf kind i version in
      \<lparr> mu_primary = resource,
        mu_changes = [\<lparr> pc_resource = resource, pc_value = val, pc_label = label,
                        pc_source_artifacts = [] \<rparr>],
        mu_run_id = None, mu_effect_id = None, mu_accepted = False \<rparr>)"

definition with_source_artifact :: "mutation \<Rightarrow> uuid \<Rightarrow> mutation" where
  "with_source_artifact m i =
     m\<lparr>mu_changes := map (\<lambda>c. c\<lparr>pc_source_artifacts := pc_source_artifacts c @ [i]\<rparr>) (mu_changes m)\<rparr>"

record authorized_command =
  ac_actor :: command_actor
  ac_operation :: string
  ac_idempotency_key :: resource_id
  ac_fingerprint :: digest
  ac_input :: json

text \<open>\<open>begin_system\<close>: a system transaction opens only for an active tenant.\<close>

definition begin_system :: "database \<Rightarrow> uuid \<Rightarrow> unit outcome" where
  "begin_system s tenant =
     (case row_at tn_id tenant (tb_tenants s) of
        None \<Rightarrow> Inl not_found
      | Some t \<Rightarrow> if tn_status t \<noteq> ''ACTIVE'' then Inl not_found else Inr ())"

lemma begin_system_Inr_iff [res_simps]:
  "begin_system s tenant = Inr u \<longleftrightarrow>
     (\<exists>t. row_at tn_id tenant (tb_tenants s) = Some t \<and> tn_status t = ''ACTIVE'')"
  by (auto simp: begin_system_def split: option.splits)

lemma mutation_one_simps [simp]:
  "mu_primary (mutation_one pf k i v j l) = resource_ref_of pf k i v"
  "mu_run_id (mutation_one pf k i v j l) = None" "mu_effect_id (mutation_one pf k i v j l) = None"
  "\<not> mu_accepted (mutation_one pf k i v j l)"
  by (simp_all add: mutation_one_def Let_def)

lemma resource_ref_of_simps [simp]:
  "rr_resource_id (resource_ref_of pf k i v) = pf_uuid_show pf i"
  "rr_version (resource_ref_of pf k i v) = v" "rr_resource_type (resource_ref_of pf k i v) = k"
  by (simp_all add: resource_ref_of_def resource_id_of_def)

lemma parse_uuid_Inr_iff [res_simps]: "parse_uuid pf s = Inr u \<longleftrightarrow> pf_uuid_parse pf s = Some u"
  by (simp add: parse_uuid_def ok_or_Inr_iff)

lemma parse_uuid_show: "uuid_text_ok pf \<Longrightarrow> parse_uuid pf (pf_uuid_show pf u) = Inr u"
  by (simp add: parse_uuid_def uuid_text_ok_def)

section \<open>Keys of the tables\<close>

abbreviation res_key :: "cost_reservation_row \<Rightarrow> uuid \<times> uuid" where
  "res_key r \<equiv> (cv_tenant r, cv_id r)"

abbreviation run_key :: "run_row \<Rightarrow> uuid \<times> uuid" where
  "run_key r \<equiv> (rn_tenant r, rn_id r)"

abbreviation effect_key :: "effect_row \<Rightarrow> uuid \<times> uuid" where
  "effect_key r \<equiv> (ef_tenant r, ef_id r)"

abbreviation approval_key :: "approval_row \<Rightarrow> uuid \<times> uuid" where
  "approval_key r \<equiv> (ap_tenant r, ap_id r)"

abbreviation delegation_key :: "delegation_row \<Rightarrow> uuid \<times> uuid" where
  "delegation_key r \<equiv> (dl_tenant r, dl_id r)"

abbreviation account_key :: "budget_account_row \<Rightarrow> uuid \<times> string" where
  "account_key r \<equiv> (ba_tenant r, ba_key r)"

abbreviation checkpoint_key :: "checkpoint_row \<Rightarrow> uuid \<times> uuid \<times> string" where
  "checkpoint_key r \<equiv> (rc_tenant r, rc_run_id r, rc_logical_step_id r)"

abbreviation artifact_key :: "artifact_row \<Rightarrow> uuid \<times> uuid" where
  "artifact_key r \<equiv> (af_tenant r, af_id r)"

abbreviation projection_key :: "projection_row \<Rightarrow> uuid \<times> string \<times> string \<times> int" where
  "projection_key r \<equiv> (rp_tenant r, rp_resource_type r, rp_resource_id r, rp_version r)"

abbreviation receipt_key :: "receipt_row \<Rightarrow> uuid \<times> uuid \<times> string \<times> string" where
  "receipt_key r \<equiv> (cp_tenant r, cp_principal_id r, cp_operation r, cp_idempotency_key r)"

abbreviation outbox_key :: "outbox_row \<Rightarrow> uuid \<times> uuid" where
  "outbox_key r \<equiv> (ob_tenant r, ob_id r)"

section \<open>A sample environment\<close>

text \<open>A concrete environment and database for the witnesses: one active tenant, one run.\<close>

definition sample_platform :: platform where
  "sample_platform =
     \<lparr> pf_uuid_show = (\<lambda>u. decimal (unat u)),
       pf_uuid_parse = (\<lambda>s. if s \<noteq> [] \<and> list_all is_ascii_digit s
                              then Some (of_nat (decimal_value s)) else None),
       pf_time_show = (\<lambda>t. decimal (nat t)),
       pf_time_parse = (\<lambda>s. if s \<noteq> [] \<and> list_all is_ascii_digit s
                              then Some (int (decimal_value s)) else None),
       pf_canonical = (\<lambda>j. Some []),
       pf_sha256_hex = (\<lambda>b. replicate 64 (CHR ''0'')) \<rparr>"

lemma decimal_length: "n < 10 ^ Suc k \<Longrightarrow> length (decimal n) \<le> Suc k"
proof (induction k arbitrary: n)
  case 0
  then show ?case by (subst decimal.simps) simp
next
  case (Suc k)
  then have "n div 10 < 10 ^ Suc k" by simp
  with Suc.IH [of "n div 10"] show ?case by (subst decimal.simps) simp
qed

lemma digits_opaque:
  assumes "s \<noteq> []" and "length s \<le> 128" and "list_all is_ascii_digit s"
  shows "opaque_ok s"
proof -
  from assms(1,3) have "is_ascii_digit (hd s)" and "list_all is_ascii_digit (tl s)"
    by (cases s; simp)+
  then have "is_ascii_alphanumeric (hd s)" and "list_all opaque_tail_char (tl s)"
    by (auto simp: is_ascii_alphanumeric_def opaque_tail_char_def list_all_iff)
  with assms show ?thesis by (simp add: opaque_ok_def is_ok_iff opaque_id_new_Inr_iff)
qed

lemma sample_platform_ok: "uuid_text_ok sample_platform"
proof -
  have "opaque_ok (decimal (unat u))" for u :: uuid
  proof (rule digits_opaque)
    have "unat u < 2 ^ 128" using unsigned_less [of u] by simp
    also have "(2 :: nat) ^ 128 \<le> 10 ^ Suc 38" by simp
    finally show "length (decimal (unat u)) \<le> 128" using decimal_length [of "unat u" 38] by simp
  qed (simp_all add: decimal_digits)
  then show ?thesis
    by (simp add: uuid_text_ok_def sample_platform_def decimal_digits decimal_value_decimal)
qed

definition sample_db :: database where
  "sample_db =
     \<lparr> tb_tenants = [\<lparr> tn_id = 1, tn_status = ''ACTIVE'' \<rparr>],
       tb_budget_settings =
         [\<lparr> bs_tenant = 1, bs_id = 101, bs_currency = ''USD'', bs_period = ''RUN'', bs_limit = 100,
             bs_version = 1 \<rparr>,
          \<lparr> bs_tenant = 1, bs_id = 102, bs_currency = ''USD'', bs_period = ''DAY'', bs_limit = 100,
             bs_version = 1 \<rparr>],
       tb_budget_accounts = [], tb_cost_reservations = [], tb_cost_ledger = [],
       tb_runs = [\<lparr> rn_tenant = 1, rn_id = 10, rn_principal_id = 2, rn_workflow_id = ''w'',
         rn_workflow_version = ''1'', rn_plugin_id = ''p'', rn_plugin_digest = ''d'',
         rn_grant_id = 3, rn_grant_fence = 1,
         rn_input_ref = JObj [(''artifact_id'', JStr ''7''), (''tenant_id'', JStr ''1''),
           (''digest'', JStr (''sha256:'' @ replicate 64 (CHR ''0''))),
           (''schema_version'', JStr ''1''), (''classification'', JStr ''PUBLIC'')],
         rn_state = ''QUEUED'', rn_fence = 1, rn_version = 1, rn_temporal_workflow_id = ''10'',
         rn_temporal_run_id = None, rn_dispatch_state = ''PENDING'', rn_failure_code = None,
         rn_created_at = 0, rn_updated_at = 0 \<rparr>],
       tb_run_checkpoints = [], tb_effects = [], tb_effect_receipts = [], tb_approvals = [],
       tb_delegations = [], tb_connections = [], tb_kill_switches = [], tb_installations = [],
       tb_memberships = [], tb_outbox = [], tb_inbox = [], tb_outbox_sequence = 0,
       tb_workflow_definitions = [], tb_membership_roles = [], tb_policies = [], tb_artifacts = [],
       tb_tombstones = [], tb_lineage = [], tb_projections = [], tb_audit = [], tb_receipts = [],
       tb_notifications = [], tb_support_grants = [], tb_providers = [],
       tb_connector_authorizations = [], tb_ui_contributions = [], tb_listings = [],
       tb_invites = [], tb_identities = [], tb_identity_proposals = [], tb_policy_state = [],
       tb_policy_proposals = [], tb_publisher_keys = [], tb_signatures = [], tb_plugin_versions = [],
       tb_plugin_revocations = [], tb_compositions = [], tb_uploads = [], tb_rights = [],
       tb_deletion_requests = [] \<rparr>"

end
