(* ===== verification/Run_Commands.thy ===== *)
theory Run_Commands
  imports Store Kernel_State Interpreter
begin

text \<open>
  The run lifecycle of the PostgreSQL adapter (\<open>run_commands.rs\<close>): cancellation, the fenced
  checkpoint writes of a worker, the start and completion of a run, and the history a resuming
  worker reads. Every worker write names the fence it was started under.
\<close>

section \<open>Constraints of the tables\<close>

definition run_ok :: "run_row \<Rightarrow> bool" where
  "run_ok r \<longleftrightarrow>
     rn_state r \<in> {''QUEUED'', ''RUNNING'', ''WAITING_APPROVAL'', ''WAITING_RETRY'', ''BLOCKED'',
       ''CANCEL_REQUESTED'', ''SUCCEEDED'', ''FAILED'', ''CANCELLED''}
     \<and> 0 < rn_fence r \<and> 0 < rn_version r
     \<and> rn_dispatch_state r \<in> {''PENDING'', ''STARTED'', ''BLOCKED''}"

definition run_fits :: "run_row \<Rightarrow> bool" where
  "run_fits r \<longleftrightarrow> in_i64 (rn_fence r) \<and> in_i32 (rn_version r)"

definition checkpoint_ok :: "checkpoint_row \<Rightarrow> bool" where
  "checkpoint_ok c \<longleftrightarrow> 0 < rc_fence c
     \<and> rc_state c \<in> {''RUNNING'', ''SUCCEEDED'', ''FAILED'', ''BLOCKED'', ''INCOMPLETE''}"

definition update_run ::
    "(run_row \<Rightarrow> bool) \<Rightarrow> (run_row \<Rightarrow> run_row) \<Rightarrow> database \<Rightarrow> database outcome" where
  "update_run p f s =
     rbind (sql (update_rows p f run_fits run_ok (tb_runs s))) (\<lambda>t. Inr (s\<lparr>tb_runs := t\<rparr>))"

lemma update_run_Inr_iff [res_simps]:
  "update_run p f s = Inr s' \<longleftrightarrow>
     (\<forall>r \<in> set (tb_runs s). p r \<longrightarrow> run_fits (f r) \<and> run_ok (f r))
     \<and> s' = s\<lparr>tb_runs := update_where p f (tb_runs s)\<rparr>"
  by (auto simp: update_run_def res_simps)

section \<open>Shared pieces\<close>

record checkpoint_write =
  cw_logical_step_id :: string
  cw_state :: string
  cw_failure_code :: "string option"
  cw_fence :: int
  cw_output_ref :: "artifact_ref option"

definition run_value ::
    "platform \<Rightarrow> run_row \<Rightarrow> string \<Rightarrow> int \<Rightarrow> timestamp \<Rightarrow> json" where
  "run_value pf r state version updated_at =
     JObj [(''run_id'', ser_uuid pf (rn_id r)),
           (''tenant_id'', ser_uuid pf (rn_tenant r)),
           (''workflow_id'', JStr (rn_workflow_id r)),
           (''workflow_version'', JStr (rn_workflow_version r)),
           (''state'', JStr state),
           (''plugin_digest'', JStr (rn_plugin_digest r)),
           (''grant_id'', ser_uuid pf (rn_grant_id r)),
           (''version'', JNum version),
           (''created_at'', ser_time pf (rn_created_at r)),
           (''updated_at'', ser_time pf updated_at)]"

definition cancellation_state :: "string \<Rightarrow> bool \<Rightarrow> string outcome" where
  "cancellation_state state unresolved_effect =
     rbind (if state = ''RUNNING'' then Inr ''CANCEL_REQUESTED''
            else if state \<in> {''QUEUED'', ''WAITING_APPROVAL'', ''WAITING_RETRY'', ''BLOCKED''}
            then (if unresolved_effect then Inl (precondition ''EFFECT_RECONCILIATION_REQUIRED'')
                  else Inr ''CANCELLED'')
            else Inl (conflict ''ILLEGAL_TRANSITION'')) (\<lambda>next_state.
     rbind (map_err (\<lambda>_. unavailable ''RUN_INTEGRITY'') (machine_parse ''run'' state)) (\<lambda>from_state.
     rbind (map_err (\<lambda>_. unavailable ''RUN_INTEGRITY'') (machine_parse ''run'' next_state)) (\<lambda>to_state.
     if \<not> can_transition_to from_state to_state then Inl (conflict ''ILLEGAL_TRANSITION'')
     else Inr next_state)))"

text \<open>The run still owns a transmission whose outcome is open.\<close>

definition unresolved_effect :: "database \<Rightarrow> uuid \<Rightarrow> uuid \<Rightarrow> bool" where
  "unresolved_effect s tenant run_id =
     list_ex (\<lambda>e. ef_tenant e = tenant \<and> ef_run_id e = run_id
        \<and> ef_state e \<in> {''EXECUTING'', ''OUTCOME_UNKNOWN'', ''RECONCILING'', ''MANUAL_REVIEW''})
       (tb_effects s)"

section \<open>Operations\<close>

definition cancel_run ::
    "platform \<Rightarrow> database \<Rightarrow> timestamp \<Rightarrow> authorized_command \<Rightarrow> (mutation \<times> database) outcome" where
  "cancel_run pf s now command =
     rbind (parse_uuid pf (ca_tenant_id (ac_actor command))) (\<lambda>tenant.
     rbind (field de_string (ac_input command) ''run_id'') (\<lambda>run_text.
     rbind (parse_uuid pf run_text) (\<lambda>i.
     rbind (field de_i32 (ac_input command) ''expected_version'') (\<lambda>expected.
     rbind (field de_string (ac_input command) ''reason'') (\<lambda>reason.
     if is_blank reason then Inl (invalid ''REASON_REQUIRED'')
     else
     rbind (ok_or not_found (row_at run_key (tenant, i) (tb_runs s))) (\<lambda>r.
     rbind (require_expected_version (rn_version r) expected) (\<lambda>version.
     rbind (cancellation_state (rn_state r) (unresolved_effect s tenant i)) (\<lambda>next_state.
     rbind (ok_or (precondition ''FENCE_EXHAUSTED'') (checked_i64 (rn_fence r + 1))) (\<lambda>fence.
     rbind (update_run (\<lambda>r. run_key r = (tenant, i))
              (\<lambda>r. r\<lparr>rn_state := next_state, rn_version := version, rn_fence := fence,
                     rn_dispatch_state := ''BLOCKED'', rn_updated_at := now\<rparr>) s) (\<lambda>s1.
     rbind (stored ''RUN_INTEGRITY'' de_artifact_ref (rn_input_ref r)) (\<lambda>input.
     if ar_tenant_id input \<noteq> ca_tenant_id (ac_actor command) then Inl not_found
     else
     rbind (parse_uuid pf (ar_artifact_id input)) (\<lambda>artifact.
     Inr ((with_source_artifact
             (mutation_one pf ''Run'' i version (run_value pf r next_state version now)
                (rn_workflow_id r)) artifact)
          \<lparr>mu_run_id := Some i, mu_accepted := (next_state = ''CANCEL_REQUESTED'')\<rparr>, s1)))))))))))))"

definition record_run_checkpoint ::
    "database \<Rightarrow> uuid \<Rightarrow> uuid \<Rightarrow> checkpoint_write \<Rightarrow> (bool \<times> database) outcome" where
  "record_run_checkpoint s tenant run_id w =
     rbind (begin_system s tenant) (\<lambda>_.
     rbind (ok_or not_found (row_at run_key (tenant, run_id) (tb_runs s))) (\<lambda>r.
     if rn_fence r \<noteq> cw_fence w then Inl (conflict ''STALE_FENCE'')
     else if rn_state r \<notin> {''RUNNING'', ''WAITING_APPROVAL'', ''WAITING_RETRY''}
     then Inl (conflict ''ILLEGAL_TRANSITION'')
     else if cw_state w \<notin> {''RUNNING'', ''SUCCEEDED'', ''FAILED'', ''BLOCKED'', ''INCOMPLETE''}
     then Inl (invalid ''CHECKPOINT_STATE_INVALID'')
     else
       (let c = \<lparr> rc_tenant = tenant, rc_run_id = run_id,
                  rc_logical_step_id = cw_logical_step_id w, rc_fence = cw_fence w,
                  rc_state = cw_state w, rc_output_ref = map_option ser_artifact_ref (cw_output_ref w),
                  rc_failure_code = cw_failure_code w \<rparr>
        in
        case row_at checkpoint_key (tenant, run_id, cw_logical_step_id w) (tb_run_checkpoints s) of
          Some existing \<Rightarrow>
            if rc_state existing = ''SUCCEEDED'' then Inr (False, s)
            else
              rbind (sql (update_rows (\<lambda>c'. checkpoint_key c' = checkpoint_key c) (\<lambda>_. c) (\<lambda>_. True)
                       checkpoint_ok (tb_run_checkpoints s)))
                (\<lambda>t. Inr (True, s\<lparr>tb_run_checkpoints := t\<rparr>))
        | None \<Rightarrow>
            rbind (sql (insert_row checkpoint_ok (\<lambda>c c'. checkpoint_key c' = checkpoint_key c)
                     (row_at run_key (tenant, run_id) (tb_runs s) \<noteq> None) c (tb_run_checkpoints s)))
              (\<lambda>t. Inr (True, s\<lparr>tb_run_checkpoints := t\<rparr>)))))"

definition mark_run_started ::
    "platform \<Rightarrow> database \<Rightarrow> timestamp \<Rightarrow> uuid \<Rightarrow> uuid \<Rightarrow> string \<Rightarrow> int \<Rightarrow> (mutation \<times> database) outcome" where
  "mark_run_started pf s now tenant run_id temporal_run_id fence =
     rbind (begin_system s tenant) (\<lambda>_.
     rbind (ok_or not_found (row_at run_key (tenant, run_id) (tb_runs s))) (\<lambda>r.
     if rn_fence r \<noteq> fence then Inl (conflict ''STALE_FENCE'')
     else
     (let new_version = wrap_i32 (rn_version r + 1) in
     rbind (update_run (\<lambda>r. run_key r = (tenant, run_id) \<and> rn_state r = ''QUEUED''
                          \<and> rn_dispatch_state r = ''PENDING'')
              (\<lambda>r. r\<lparr>rn_state := ''RUNNING'', rn_dispatch_state := ''STARTED'',
                     rn_temporal_run_id := Some temporal_run_id, rn_version := new_version,
                     rn_updated_at := now\<rparr>) s) (\<lambda>s1.
     if \<not> (rn_state r = ''QUEUED'' \<and> rn_dispatch_state r = ''PENDING'')
     then Inl (conflict ''ILLEGAL_TRANSITION'')
     else
     rbind (stored ''RUN_INTEGRITY'' de_artifact_ref (rn_input_ref r)) (\<lambda>input.
     rbind (map_err (\<lambda>_. not_found) (opaque_id_new ''TenantId'' (pf_uuid_show pf tenant))) (\<lambda>tenant_text.
     if ar_tenant_id input \<noteq> tenant_text then Inl not_found
     else
     rbind (parse_uuid pf (ar_artifact_id input)) (\<lambda>artifact.
     Inr ((with_source_artifact
             (mutation_one pf ''Run'' run_id new_version (run_value pf r ''RUNNING'' new_version now)
                (rn_workflow_id r)) artifact)\<lparr>mu_run_id := Some run_id\<rparr>, s1))))))))"

text \<open>
  \<open>ORDER BY logical_step_id\<close> uses the collation of the database: \<open>rank\<close> is its sort key.
\<close>

definition read_run_checkpoints ::
    "(string \<Rightarrow> 'k :: linorder) \<Rightarrow> database \<Rightarrow> uuid \<Rightarrow> uuid \<Rightarrow> durable_checkpoint list outcome" where
  "read_run_checkpoints rank s tenant run_id =
     rbind (begin_system s tenant) (\<lambda>_.
     let rows = sort_key (\<lambda>c. rank (rc_logical_step_id c))
           (filter (\<lambda>c. rc_tenant c = tenant \<and> rc_run_id c = run_id) (tb_run_checkpoints s))
     in
     rbind (ok_or not_found (row_at run_key (tenant, run_id) (tb_runs s))) (\<lambda>r.
     Inr (map (\<lambda>c. \<lparr> dc_logical_step_id = rc_logical_step_id c, dc_state = rc_state c,
                      dc_failure_code = rc_failure_code c, dc_fence = rn_fence r \<rparr>) rows)))"

definition mark_run_completed ::
    "database \<Rightarrow> timestamp \<Rightarrow> uuid \<Rightarrow> uuid \<Rightarrow> int \<Rightarrow> database outcome" where
  "mark_run_completed s now tenant run_id fence =
     rbind (begin_system s tenant) (\<lambda>_.
     let p = (\<lambda>r. run_key r = (tenant, run_id) \<and> rn_fence r = fence
                \<and> rn_state r \<in> {''RUNNING'', ''WAITING_APPROVAL'', ''WAITING_RETRY''})
     in
     rbind (update_run p
              (\<lambda>r. r\<lparr>rn_state := ''SUCCEEDED'', rn_version := rn_version r + 1, rn_updated_at := now\<rparr>)
              s) (\<lambda>s1.
     if list_ex p (tb_runs s) then Inr s1
     else
     rbind (ok_or not_found (row_at run_key (tenant, run_id) (tb_runs s))) (\<lambda>r.
     if rn_fence r \<noteq> fence then Inl (conflict ''STALE_FENCE'')
     else Inl (conflict ''ILLEGAL_TRANSITION''))))"

section \<open>Transactions on runs\<close>

datatype run_op =
    Cancel timestamp authorized_command
  | Checkpoint uuid uuid checkpoint_write
  | Started timestamp uuid uuid string int
  | Complete timestamp uuid uuid int

fun run_step :: "platform \<Rightarrow> database \<Rightarrow> run_op \<Rightarrow> database outcome" where
  "run_step pf s (Cancel now command) = rbind (cancel_run pf s now command) (\<lambda>(m, s'). Inr s')"
| "run_step pf s (Checkpoint tenant run_id w) =
     rbind (record_run_checkpoint s tenant run_id w) (\<lambda>(b, s'). Inr s')"
| "run_step pf s (Started now tenant run_id t fence) =
     rbind (mark_run_started pf s now tenant run_id t fence) (\<lambda>(m, s'). Inr s')"
| "run_step pf s (Complete now tenant run_id fence) = mark_run_completed s now tenant run_id fence"

definition run_inv :: "database \<Rightarrow> bool" where
  "run_inv s \<longleftrightarrow> unique_key run_key (tb_runs s) \<and> unique_key checkpoint_key (tb_run_checkpoints s)"

text \<open>Successful transactions, in the shape the proofs use.\<close>

lemma parse_run:
  "machine_parse ''run'' a =
     (if a = ''QUEUED'' then Inr (M_Run R_Queued)
      else if a = ''RUNNING'' then Inr (M_Run R_Running)
      else if a = ''WAITING_APPROVAL'' then Inr (M_Run R_WaitingApproval)
      else if a = ''WAITING_RETRY'' then Inr (M_Run R_WaitingRetry)
      else if a = ''BLOCKED'' then Inr (M_Run R_Blocked)
      else if a = ''CANCEL_REQUESTED'' then Inr (M_Run R_CancelRequested)
      else if a = ''SUCCEEDED'' then Inr (M_Run R_Succeeded)
      else if a = ''FAILED'' then Inr (M_Run R_Failed)
      else if a = ''CANCELLED'' then Inr (M_Run R_Cancelled)
      else Inl (UnknownState ''run'' a))"
  by (simp add: machine_parse_def machine_table_def)

lemma cancellation_state_Inr_iff:
  "cancellation_state a u = Inr b \<longleftrightarrow>
     a = ''RUNNING'' \<and> b = ''CANCEL_REQUESTED''
     \<or> a \<in> {''QUEUED'', ''WAITING_APPROVAL'', ''WAITING_RETRY'', ''BLOCKED''} \<and> \<not> u \<and> b = ''CANCELLED''"
proof (cases "a \<in> {''RUNNING'', ''QUEUED'', ''WAITING_APPROVAL'', ''WAITING_RETRY'', ''BLOCKED''}")
  case True
  then show ?thesis
    by (elim insertE; cases u) (simp_all add: cancellation_state_def parse_run run_edge_def eq_commute)
next
  case False
  then show ?thesis by (simp add: cancellation_state_def)
qed

lemma cancel_run_Inr:
  assumes "cancel_run pf s now command = Inr (m, s')"
  obtains tenant i r next_state where
    "parse_uuid pf (ca_tenant_id (ac_actor command)) = Inr tenant"
    "mu_run_id m = Some i" "row_at run_key (tenant, i) (tb_runs s) = Some r"
    "cancellation_state (rn_state r) (unresolved_effect s tenant i) = Inr next_state"
    "s' = s\<lparr>tb_runs := update_where (\<lambda>r. run_key r = (tenant, i))
       (\<lambda>q. q\<lparr>rn_state := next_state, rn_version := rn_version r + 1, rn_fence := rn_fence r + 1,
             rn_dispatch_state := ''BLOCKED'', rn_updated_at := now\<rparr>) (tb_runs s)\<rparr>"
  using assms
  by (auto simp: cancel_run_def rbind_Inr_iff ok_or_Inr_iff require_expected_version_Inr_iff
      checked_i64_def update_run_Inr_iff split: if_splits intro!: that)

lemma record_run_checkpoint_Inr:
  assumes "record_run_checkpoint s tenant run_id w = Inr (b, s')"
  obtains (replay) c where "\<not> b" "s' = s"
      "row_at checkpoint_key (tenant, run_id, cw_logical_step_id w) (tb_run_checkpoints s) = Some c"
      "rc_state c = ''SUCCEEDED''"
  | (written) c where "b" "checkpoint_key c = (tenant, run_id, cw_logical_step_id w)"
      "rc_state c = cw_state w" "rc_failure_code c = cw_failure_code w"
      "\<And>c'. row_at checkpoint_key (checkpoint_key c) (tb_run_checkpoints s) = Some c' \<Longrightarrow>
         rc_state c' \<noteq> ''SUCCEEDED''"
      "s' = s\<lparr>tb_run_checkpoints :=
         (if row_at checkpoint_key (checkpoint_key c) (tb_run_checkpoints s) = None
          then tb_run_checkpoints s @ [c]
          else update_where (\<lambda>c'. checkpoint_key c' = checkpoint_key c) (\<lambda>_. c) (tb_run_checkpoints s))\<rparr>"
proof -
  let ?c = "\<lparr> rc_tenant = tenant, rc_run_id = run_id, rc_logical_step_id = cw_logical_step_id w,
     rc_fence = cw_fence w, rc_state = cw_state w,
     rc_output_ref = map_option ser_artifact_ref (cw_output_ref w),
     rc_failure_code = cw_failure_code w \<rparr>"
  show thesis
  proof (cases "row_at checkpoint_key (tenant, run_id, cw_logical_step_id w) (tb_run_checkpoints s)")
    case None
    with assms show thesis
      by (intro written [of ?c])
        (auto simp: record_run_checkpoint_def rbind_Inr_iff sql_Inr_iff insert_row_Inr_iff split: if_splits)
  next
    case (Some c)
    show thesis
    proof (cases "rc_state c = ''SUCCEEDED''")
      case True
      with assms Some show thesis
        by (intro replay [of c]) (auto simp: record_run_checkpoint_def rbind_Inr_iff split: if_splits)
    next
      case False
      with assms Some show thesis
        by (intro written [of ?c])
          (auto simp: record_run_checkpoint_def rbind_Inr_iff sql_Inr_iff update_rows_Inr_iff split: if_splits)
    qed
  qed
qed

lemma mark_run_started_Inr:
  assumes "mark_run_started pf s now tenant run_id t fence = Inr (m, s')"
  obtains r where "row_at run_key (tenant, run_id) (tb_runs s) = Some r" "rn_fence r = fence"
    "rn_state r = ''QUEUED''" "rn_dispatch_state r = ''PENDING''"
    "s' = s\<lparr>tb_runs := update_where (\<lambda>r. run_key r = (tenant, run_id) \<and> rn_state r = ''QUEUED''
                          \<and> rn_dispatch_state r = ''PENDING'')
       (\<lambda>q. q\<lparr>rn_state := ''RUNNING'', rn_dispatch_state := ''STARTED'',
             rn_temporal_run_id := Some t, rn_version := wrap_i32 (rn_version r + 1),
             rn_updated_at := now\<rparr>) (tb_runs s)\<rparr>"
  using assms
  by (auto simp: mark_run_started_def rbind_Inr_iff ok_or_Inr_iff update_run_Inr_iff Let_def
      split: if_splits intro!: that)

lemma mark_run_completed_Inr:
  assumes "mark_run_completed s now tenant run_id fence = Inr s'"
  shows "s' = s\<lparr>tb_runs := update_where (\<lambda>r. run_key r = (tenant, run_id) \<and> rn_fence r = fence
                \<and> rn_state r \<in> {''RUNNING'', ''WAITING_APPROVAL'', ''WAITING_RETRY''})
     (\<lambda>r. r\<lparr>rn_state := ''SUCCEEDED'', rn_version := rn_version r + 1, rn_updated_at := now\<rparr>) (tb_runs s)\<rparr>
    \<and> (\<exists>r \<in> set (tb_runs s). run_key r = (tenant, run_id) \<and> rn_fence r = fence)"
  using assms
  by (auto simp: mark_run_completed_def rbind_Inr_iff update_run_Inr_iff Let_def list_ex_iff
      split: if_splits)

text \<open>
  A step of a run row: the fence never goes back, and a state change is an edge of the kernel's
  run machine, or the completion of a waiting run.
\<close>

definition state_moves :: "string \<Rightarrow> string \<Rightarrow> bool" where
  "state_moves a b \<longleftrightarrow>
     (case (machine_parse ''run'' a, machine_parse ''run'' b) of
        (Inr x, Inr y) \<Rightarrow> can_transition_to x y
      | _ \<Rightarrow> False)
     \<or> a \<in> {''WAITING_APPROVAL'', ''WAITING_RETRY''} \<and> b = ''SUCCEEDED''"

definition run_moves :: "run_row \<Rightarrow> run_row \<Rightarrow> bool" where
  "run_moves r r' \<longleftrightarrow> run_key r' = run_key r \<and> rn_fence r \<le> rn_fence r'
     \<and> (rn_state r' = rn_state r \<or> state_moves (rn_state r) (rn_state r'))"

lemma state_moves_simps:
  "state_moves ''QUEUED'' ''RUNNING''" "state_moves ''RUNNING'' ''CANCEL_REQUESTED''"
  "a \<in> {''QUEUED'', ''WAITING_APPROVAL'', ''WAITING_RETRY'', ''BLOCKED''} \<Longrightarrow> state_moves a ''CANCELLED''"
  "a \<in> {''RUNNING'', ''WAITING_APPROVAL'', ''WAITING_RETRY''} \<Longrightarrow> state_moves a ''SUCCEEDED''"
  by (auto simp: state_moves_def parse_run run_edge_def)

lemma state_moves_terminal:
  "a \<in> {''SUCCEEDED'', ''FAILED'', ''CANCELLED''} \<Longrightarrow> \<not> state_moves a b"
  using run_terminal_iff [of R_Succeeded] run_terminal_iff [of R_Failed] run_terminal_iff [of R_Cancelled]
  by (elim insertE; simp add: state_moves_def parse_run)

lemma run_step_shape:
  assumes "run_step pf s a = Inr s'" and "unique_key run_key (tb_runs s)"
  obtains (runs) p f where "s' = s\<lparr>tb_runs := update_where p f (tb_runs s)\<rparr>"
      "\<And>r. run_key (f r) = run_key r" "\<And>r. r \<in> set (tb_runs s) \<Longrightarrow> p r \<Longrightarrow> run_moves r (f r)"
  | (checkpoints) tenant run_id w b where "record_run_checkpoint s tenant run_id w = Inr (b, s')"
proof (cases a)
  case (Cancel now command)
  with assms(1) obtain m where "cancel_run pf s now command = Inr (m, s')"
    by (auto simp: rbind_Inr_iff)
  then show thesis
  proof (rule cancel_run_Inr)
    fix tenant i r b
    assume r: "row_at run_key (tenant, i) (tb_runs s) = Some r"
      and c: "cancellation_state (rn_state r) (unresolved_effect s tenant i) = Inr b"
      and s': "s' = s\<lparr>tb_runs := update_where (\<lambda>r. run_key r = (tenant, i))
         (\<lambda>q. q\<lparr>rn_state := b, rn_version := rn_version r + 1, rn_fence := rn_fence r + 1,
               rn_dispatch_state := ''BLOCKED'', rn_updated_at := now\<rparr>) (tb_runs s)\<rparr>"
    have "state_moves (rn_state r) b"
      using c [unfolded cancellation_state_Inr_iff] state_moves_simps(2) state_moves_simps(3) [of "rn_state r"]
      by fastforce
    moreover have "q = r" if "q \<in> set (tb_runs s)" "run_key q = (tenant, i)" for q
      using row_at_unique [OF assms(2) that(1)] that(2) r by simp
    ultimately have "run_moves q (q\<lparr>rn_state := b, rn_version := rn_version r + 1,
        rn_fence := rn_fence r + 1, rn_dispatch_state := ''BLOCKED'', rn_updated_at := now\<rparr>)"
      if "q \<in> set (tb_runs s)" "run_key q = (tenant, i)" for q
      using that by (simp add: run_moves_def)
    then show thesis by (intro runs [OF s']) simp_all
  qed
next
  case (Checkpoint tenant run_id w)
  with assms(1) show thesis by (auto simp: rbind_Inr_iff intro: checkpoints)
next
  case (Started now tenant run_id t fence)
  with assms(1) obtain m where "mark_run_started pf s now tenant run_id t fence = Inr (m, s')"
    by (auto simp: rbind_Inr_iff)
  then show thesis
    by (rule mark_run_started_Inr) (intro runs, assumption, auto simp: run_moves_def state_moves_simps)
next
  case (Complete now tenant run_id fence)
  with assms(1) have "mark_run_completed s now tenant run_id fence = Inr s'" by simp
  note c = mark_run_completed_Inr [OF this, THEN conjunct1]
  show thesis by (intro runs [OF c]) (auto simp: run_moves_def intro: state_moves_simps)
qed

lemma record_checkpoint_row:
  assumes "record_run_checkpoint s tenant run_id w = Inr (b, s')"
    and "row_at checkpoint_key k (tb_run_checkpoints s) = Some c" and "rc_state c = ''SUCCEEDED''"
  shows "row_at checkpoint_key k (tb_run_checkpoints s') = Some c"
  using assms(1)
proof (cases rule: record_run_checkpoint_Inr)
  case (replay c')
  with assms(2) show ?thesis by simp
next
  case (written c')
  with assms(2,3) have "k \<noteq> checkpoint_key c'" by auto
  with assms(2) written(6) show ?thesis
    using row_at_replace [of checkpoint_key c' "checkpoint_key c'" k "tb_run_checkpoints s"]
    by (auto simp: row_at_append)
qed

lemma record_checkpoint_unique:
  assumes "record_run_checkpoint s tenant run_id w = Inr (b, s')"
    and "unique_key checkpoint_key (tb_run_checkpoints s)"
  shows "unique_key checkpoint_key (tb_run_checkpoints s') \<and> tb_runs s' = tb_runs s \<and> tb_tenants s' = tb_tenants s"
  using assms(1)
proof (cases rule: record_run_checkpoint_Inr)
  case (replay c')
  with assms(2) show ?thesis by simp
next
  case (written c)
  have "map checkpoint_key (update_where (\<lambda>c'. checkpoint_key c' = checkpoint_key c) (\<lambda>_. c) t)
      = map checkpoint_key t" for t
    by (simp add: update_where_def)
  with assms(2) written(6) show ?thesis
    by (simp add: unique_key_snoc) (simp add: unique_key_def)
qed

lemma run_step_inv:
  assumes "run_inv s" and "run_step pf s a = Inr s'"
  shows "run_inv s'"
proof -
  from assms(1) have u: "unique_key run_key (tb_runs s)" by (simp add: run_inv_def)
  from assms(2) u show ?thesis
  proof (cases rule: run_step_shape)
    case (runs p f)
    with assms(1) unique_key_update_where [of run_key f p "tb_runs s", OF runs(2)] show ?thesis
      by (simp add: run_inv_def)
  next
    case (checkpoints tenant run_id w b)
    with assms(1) record_checkpoint_unique [OF checkpoints] show ?thesis by (simp add: run_inv_def)
  qed
qed

interpretation run_commands: invariant_ops "run_step pf" run_inv for pf
  by unfold_locales (rule run_step_inv)

lemma run_step_row:
  assumes "run_inv s" and "run_step pf s a = Inr s'" and "row_at run_key k (tb_runs s) = Some r"
  shows "\<exists>r'. row_at run_key k (tb_runs s') = Some r' \<and> run_moves r r'"
proof -
  from assms(1) have u: "unique_key run_key (tb_runs s)" by (simp add: run_inv_def)
  from assms(2) u show ?thesis
  proof (cases rule: run_step_shape)
    case (runs p f)
    with assms(3) row_at_SomeD [OF assms(3)] show ?thesis
      by (auto simp: row_at_update_where run_moves_def)
  next
    case (checkpoints tenant run_id w b)
    with assms record_checkpoint_unique show ?thesis by (fastforce simp: run_inv_def run_moves_def)
  qed
qed

lemma run_step_checkpoint:
  assumes "run_inv s" and "run_step pf s a = Inr s'"
    and "row_at checkpoint_key k (tb_run_checkpoints s) = Some c" and "rc_state c = ''SUCCEEDED''"
  shows "row_at checkpoint_key k (tb_run_checkpoints s') = Some c"
proof -
  from assms(1) have u: "unique_key run_key (tb_runs s)" by (simp add: run_inv_def)
  from assms(2) u show ?thesis
    by (cases rule: run_step_shape) (use assms in \<open>auto dest: record_checkpoint_row\<close>)
qed

lemma attempts_run_row:
  assumes "run_inv s" and "row_at run_key k (tb_runs s) = Some r"
    and "\<And>r r'. Q r \<Longrightarrow> run_moves r r' \<Longrightarrow> Q r'" and "Q r"
  shows "\<exists>r'. row_at run_key k (tb_runs (attempts (run_step pf) s ops)) = Some r' \<and> Q r'"
proof (rule run_commands.attempts_stable [where A = UNIV])
  fix s a t
  assume "run_inv s" and "run_step pf s a = Inr t"
    and "\<exists>r'. row_at run_key k (tb_runs s) = Some r' \<and> Q r'"
  then show "\<exists>r'. row_at run_key k (tb_runs t) = Some r' \<and> Q r'"
    using assms(3) run_step_row by blast
qed (use assms in auto)

section \<open>Stale fences\<close>

lemma stale_fence_refused:
  assumes "row_at run_key (tenant, i) (tb_runs s) = Some r" and "rn_fence r \<noteq> fence"
    and "unique_key run_key (tb_runs s)"
  shows "\<not> is_ok (mark_run_started pf s now tenant i t fence)"
    and "\<not> is_ok (mark_run_completed s now tenant i fence)"
    and "cw_fence w = fence \<Longrightarrow> \<not> is_ok (record_run_checkpoint s tenant i w)"
proof -
  show "\<not> is_ok (mark_run_started pf s now tenant i t fence)"
    using assms(1,2) by (auto simp: is_ok_iff mark_run_started_def rbind_Inr_iff)
  show "\<not> is_ok (record_run_checkpoint s tenant i w)" if "cw_fence w = fence"
    using assms(1,2) that by (auto simp: is_ok_iff record_run_checkpoint_def rbind_Inr_iff)
  show "\<not> is_ok (mark_run_completed s now tenant i fence)"
  proof
    assume "is_ok (mark_run_completed s now tenant i fence)"
    then obtain s' where "mark_run_completed s now tenant i fence = Inr s'" by (auto simp: is_ok_iff)
    from mark_run_completed_Inr [OF this] obtain q where "q \<in> set (tb_runs s)"
      and k: "run_key q = (tenant, i)" "rn_fence q = fence" by blast
    with row_at_unique [OF assms(3)] have "row_at run_key (run_key q) (tb_runs s) = Some q" by blast
    with k assms(1,2) show False by simp
  qed
qed

section \<open>Properties\<close>

definition sample_write :: "string \<Rightarrow> string \<Rightarrow> int \<Rightarrow> checkpoint_write" where
  "sample_write step state fence = \<lparr> cw_logical_step_id = step, cw_state = state,
     cw_failure_code = None, cw_fence = fence, cw_output_ref = None \<rparr>"

definition sample_cancel :: authorized_command where
  "sample_cancel = \<lparr> ac_actor = \<lparr> ca_tenant_id = ''1'', ca_principal_id = ''2'', ca_issuer = ''i'',
       ca_membership_epoch = 1, ca_permission_epoch = 1, ca_policy_version = ''1'', ca_policy_epoch = 1 \<rparr>,
     ac_operation = ''run.cancel'', ac_idempotency_key = ''k'', ac_fingerprint = [],
     ac_input = JObj [(''run_id'', JStr ''10''), (''expected_version'', JNum 2),
                      (''reason'', JStr ''stop'')] \<rparr>"

abbreviation started_db :: database where
  "started_db \<equiv> attempts (run_step sample_platform) sample_db [Started 5 1 10 ''t'' 1,
     Checkpoint 1 10 (sample_write ''0001:a'' ''SUCCEEDED'' 1)]"

lemma sample_run_inv: "run_inv sample_db"
  by (simp add: run_inv_def sample_db_def unique_key_def)

lemma started_db_checkpoint:
  "map_option rc_state (row_at checkpoint_key (1, 10, ''0001:a'') (tb_run_checkpoints started_db))
     = Some ''SUCCEEDED''"
  by code_simp

text \<open>
  C10: a completed step is final in the database. Whatever cancellations, checkpoint writes, starts
  and completions follow, a SUCCEEDED checkpoint row stays exactly as it is.
\<close>

theorem succeeded_checkpoint_is_final:
  assumes "run_inv s" and "row_at checkpoint_key k (tb_run_checkpoints s) = Some c"
    and "rc_state c = ''SUCCEEDED''"
  shows "row_at checkpoint_key k (tb_run_checkpoints (attempts (run_step pf) s ops)) = Some c"
  by (rule run_commands.attempts_stable [where A = UNIV and P = "\<lambda>s.
      row_at checkpoint_key k (tb_run_checkpoints s) = Some c"])
    (use assms run_step_checkpoint in auto)

theorem succeeded_checkpoint_is_final_witness:
  "\<exists>c. rc_state c = ''SUCCEEDED'' \<and> row_at checkpoint_key (1, 10, ''0001:a'')
     (tb_run_checkpoints (attempts (run_step sample_platform) started_db
        [Checkpoint 1 10 (sample_write ''0001:a'' ''RUNNING'' 1), Cancel 6 sample_cancel])) = Some c"
proof -
  define s where "s = started_db"
  have i: "run_inv s" unfolding s_def by (rule run_commands.attempts_inv) (rule sample_run_inv)
  from started_db_checkpoint obtain c where
    c: "row_at checkpoint_key (1, 10, ''0001:a'') (tb_run_checkpoints s) = Some c"
    and st: "rc_state c = ''SUCCEEDED''" unfolding s_def [symmetric] by auto
  from succeeded_checkpoint_is_final [OF i c st] st show ?thesis unfolding s_def [symmetric] by blast
qed



text \<open>
  A finished run stays finished. From SUCCEEDED, FAILED or CANCELLED no sequence of run
  transactions changes the state of the run.
\<close>

theorem finished_run_stays_finished:
  assumes "run_inv s" and "row_at run_key k (tb_runs s) = Some r"
    and "rn_state r \<in> {''SUCCEEDED'', ''FAILED'', ''CANCELLED''}"
  shows "map_option rn_state (row_at run_key k (tb_runs (attempts (run_step pf) s ops)))
    = Some (rn_state r)"
proof -
  have "\<exists>r'. row_at run_key k (tb_runs (attempts (run_step pf) s ops)) = Some r' \<and> rn_state r' = rn_state r"
    using assms(1,2)
  proof (rule attempts_run_row)
    fix x y assume "rn_state x = rn_state r" and "run_moves x y"
    then show "rn_state y = rn_state r"
      using state_moves_terminal [OF assms(3)] by (auto simp: run_moves_def)
  qed simp
  then show ?thesis by auto
qed

theorem finished_run_stays_finished_witness:
  "map_option rn_state (row_at run_key (1, 10) (tb_runs (attempts (run_step sample_platform)
     (attempts (run_step sample_platform) started_db [Complete 7 1 10 1])
     [Complete 8 1 10 1, Cancel 9 sample_cancel]))) = Some ''SUCCEEDED''"
proof -
  define s where "s = attempts (run_step sample_platform) started_db [Complete 7 1 10 1]"
  have i: "run_inv s" unfolding s_def
    by (intro run_commands.attempts_inv) (rule sample_run_inv)
  have "map_option rn_state (row_at run_key (1, 10) (tb_runs s)) = Some ''SUCCEEDED''"
    unfolding s_def by code_simp
  then obtain r where r: "row_at run_key (1, 10) (tb_runs s) = Some r" "rn_state r = ''SUCCEEDED''"
    by auto
  from finished_run_stays_finished [OF i r(1), of sample_platform
      "[Complete 8 1 10 1, Cancel 9 sample_cancel]"] r(2)
  show ?thesis unfolding s_def [symmetric] by simp
qed

text \<open>
  Cancelling never hides an open transmission. A cancellation that succeeds either asks a
  running run to stop, or reaches CANCELLED from a state the kernel allows while no effect of the
  run is executing, unknown, reconciling or under review.
\<close>

theorem cancel_waits_for_reconciliation:
  assumes "run_inv s" and "cancel_run pf s now command = Inr (m, s')"
    and "parse_uuid pf (ca_tenant_id (ac_actor command)) = Inr tenant" and "mu_run_id m = Some i"
  shows "\<exists>r r'. row_at run_key (tenant, i) (tb_runs s) = Some r
    \<and> row_at run_key (tenant, i) (tb_runs s') = Some r'
    \<and> (rn_state r = ''RUNNING'' \<and> rn_state r' = ''CANCEL_REQUESTED''
       \<or> rn_state r' = ''CANCELLED'' \<and> \<not> unresolved_effect s tenant i
         \<and> state_moves (rn_state r) ''CANCELLED'')"
  using assms(2)
proof (rule cancel_run_Inr)
  fix t j q b
  assume a: "parse_uuid pf (ca_tenant_id (ac_actor command)) = Inr t" "mu_run_id m = Some j"
    and q: "row_at run_key (t, j) (tb_runs s) = Some q"
    and c: "cancellation_state (rn_state q) (unresolved_effect s t j) = Inr b"
    and s': "s' = s\<lparr>tb_runs := update_where (\<lambda>r. run_key r = (t, j))
         (\<lambda>x. x\<lparr>rn_state := b, rn_version := rn_version q + 1, rn_fence := rn_fence q + 1,
               rn_dispatch_state := ''BLOCKED'', rn_updated_at := now\<rparr>) (tb_runs s)\<rparr>"
  from a assms(3,4) have e: "t = tenant" "j = i" by simp_all
  from q s' e have "map_option rn_state (row_at run_key (tenant, i) (tb_runs s')) = Some b"
    by (auto simp: row_at_update_where dest: row_at_SomeD)
  moreover from c e have "rn_state q = ''RUNNING'' \<and> b = ''CANCEL_REQUESTED''
      \<or> b = ''CANCELLED'' \<and> \<not> unresolved_effect s tenant i \<and> state_moves (rn_state q) ''CANCELLED''"
    using state_moves_simps(3) [of "rn_state q"] unfolding cancellation_state_Inr_iff by blast
  ultimately show ?thesis using q e by auto
qed

theorem cancel_waits_for_reconciliation_witness:
  "\<exists>m s' r'. cancel_run sample_platform started_db 6 sample_cancel = Inr (m, s')
     \<and> row_at run_key (1, 10) (tb_runs s') = Some r'"
proof -
  define s where "s = started_db"
  have i: "run_inv s" unfolding s_def by (rule run_commands.attempts_inv) (rule sample_run_inv)
  have "(case cancel_run sample_platform s 6 sample_cancel of Inl _ \<Rightarrow> False
      | Inr (m, _) \<Rightarrow> mu_run_id m = Some 10)"
    unfolding s_def by code_simp
  then obtain m s' where c: "cancel_run sample_platform s 6 sample_cancel = Inr (m, s')"
    and m: "mu_run_id m = Some 10" by (auto split: sum.splits)
  have p: "parse_uuid sample_platform (ca_tenant_id (ac_actor sample_cancel)) = Inr 1" by code_simp
  from cancel_waits_for_reconciliation [OF i c p m] c show ?thesis unfolding s_def [symmetric] by blast
qed

end
