(* ===== verification/Budget_Ledger.thy ===== *)
theory Budget_Ledger
  imports Store Kernel_Effects
begin

text \<open>
  The budget ledger of the PostgreSQL adapter (\<open>budget_ledger.rs\<close>): reserve, settle, mark unknown
  and release, with the CHECK constraint of \<open>budget_accounts\<close> as the arbiter of every hold. The
  conservation invariant says that the account balances are exactly what the reservations account
  for.
\<close>

section \<open>Constraints of the tables\<close>

definition max_safe :: int where
  "max_safe = 9007199254740991"

definition currency_ok :: "string \<Rightarrow> bool" where
  "currency_ok c \<longleftrightarrow> length c = 3 \<and> list_all (\<lambda>x. 65 \<le> byte x \<and> byte x \<le> 90) c"

definition account_ok :: "budget_account_row \<Rightarrow> bool" where
  "account_ok a \<longleftrightarrow> currency_ok (ba_currency a) \<and> 0 \<le> ba_limit a \<and> ba_limit a \<le> max_safe
     \<and> 0 \<le> ba_held a \<and> 0 \<le> ba_charged a \<and> ba_held a \<le> ba_limit a - ba_charged a"

definition account_fits :: "budget_account_row \<Rightarrow> bool" where
  "account_fits a \<longleftrightarrow> in_i64 (ba_held a) \<and> in_i64 (ba_charged a)"

definition reservation_ok :: "cost_reservation_row \<Rightarrow> bool" where
  "reservation_ok r \<longleftrightarrow> currency_ok (cv_currency r)
     \<and> 0 \<le> cv_upper_bound r \<and> cv_upper_bound r \<le> max_safe
     \<and> (case cv_settled r of None \<Rightarrow> True | Some n \<Rightarrow> 0 \<le> n \<and> n \<le> cv_upper_bound r)
     \<and> cv_state r \<in> {''RESERVED'', ''SETTLED'', ''UNKNOWN'', ''RELEASED''}
     \<and> 0 < cv_version r
     \<and> (cv_state r = ''SETTLED'') = (cv_settled r \<noteq> None)"

section \<open>Helpers\<close>

definition budget_constraint_failure :: "sqlstate option \<Rightarrow> command_failure" where
  "budget_constraint_failure code =
     (if code = Some ''23514'' then conflict ''BUDGET_EXCEEDED'' else database_failure code)"

definition locked_reservation :: "database \<Rightarrow> uuid \<Rightarrow> uuid \<Rightarrow> cost_reservation_row outcome" where
  "locked_reservation s tenant reservation_id =
     ok_or not_found (row_at res_key (tenant, reservation_id) (tb_cost_reservations s))"

definition require_cost_transition :: "string \<Rightarrow> string \<Rightarrow> unit outcome" where
  "require_cost_transition state next_state =
     rbind (map_err (\<lambda>_. unavailable ''COST_INTEGRITY'') (machine_parse ''cost'' state)) (\<lambda>from_state.
     rbind (map_err (\<lambda>_. unavailable ''COST_INTEGRITY'') (machine_parse ''cost'' next_state)) (\<lambda>to_state.
     if \<not> can_transition_to from_state to_state then Inl (conflict ''ILLEGAL_TRANSITION'')
     else Inr ()))"

definition insert_cost_event ::
    "database \<Rightarrow> uuid \<Rightarrow> uuid \<Rightarrow> uuid \<Rightarrow> string \<Rightarrow> int \<Rightarrow> int \<Rightarrow> string option \<Rightarrow> timestamp
     \<Rightarrow> database outcome" where
  "insert_cost_event s event_id tenant reservation_id event_type held_delta charged_delta
     usage_fingerprint created_at =
     rbind (sql (insert_row
         (\<lambda>e. cl_event_type e \<in> {''RESERVED'', ''UNKNOWN'', ''SETTLED'', ''RELEASED''})
         (\<lambda>e e'. cl_tenant e' = cl_tenant e \<and> (cl_id e' = cl_id e \<or>
            cl_reservation_id e' = cl_reservation_id e \<and> cl_event_type e' = cl_event_type e))
         (row_at res_key (tenant, reservation_id) (tb_cost_reservations s) \<noteq> None)
         \<lparr> cl_tenant = tenant, cl_id = event_id, cl_reservation_id = reservation_id,
           cl_event_type = event_type, cl_held_delta = held_delta, cl_charged_delta = charged_delta,
           cl_usage_fingerprint = usage_fingerprint, cl_created_at = created_at \<rparr>
         (tb_cost_ledger s)))
       (\<lambda>t. Inr (s\<lparr>tb_cost_ledger := t\<rparr>))"

definition reservation_value ::
    "platform \<Rightarrow> uuid \<Rightarrow> uuid \<Rightarrow> uuid \<Rightarrow> string \<Rightarrow> int \<Rightarrow> int option \<Rightarrow> string \<Rightarrow> string \<Rightarrow> int \<Rightarrow> json"
where
  "reservation_value pf reservation_id tenant run_id currency upper_bound settled state
     price_profile version =
     JObj [(''reservation_id'', ser_uuid pf reservation_id),
           (''tenant_id'', ser_uuid pf tenant),
           (''run_id'', ser_uuid pf run_id),
           (''currency'', JStr currency),
           (''upper_bound_microunits'', JNum upper_bound),
           (''settled_microunits'', ser_option JNum settled),
           (''state'', JStr state),
           (''price_profile'', JStr price_profile),
           (''version'', JNum version)]"

text \<open>The projection of a stored row, with the values a handler overrides.\<close>

definition reservation_mutation ::
    "platform \<Rightarrow> cost_reservation_row \<Rightarrow> int option \<Rightarrow> string \<Rightarrow> int \<Rightarrow> string \<Rightarrow> mutation" where
  "reservation_mutation pf r settled state version label =
     mutation_one pf ''CostReservation'' (cv_id r) version
       (reservation_value pf (cv_id r) (cv_tenant r) (cv_run_id r) (cv_currency r)
          (cv_upper_bound r) settled state (cv_price_profile r) version) label"

section \<open>Account movements\<close>

text \<open>\<open>UPDATE budget_accounts SET held = held + dh, charged = charged + dc\<close> for one key.\<close>

definition update_account ::
    "uuid \<Rightarrow> int \<Rightarrow> int \<Rightarrow> string \<Rightarrow> budget_account_row list \<Rightarrow> sqlstate + budget_account_row list" where
  "update_account tenant dh dc key t =
     update_rows (\<lambda>a. account_key a = (tenant, key))
       (\<lambda>a. a\<lparr>ba_held := ba_held a + dh, ba_charged := ba_charged a + dc\<rparr>)
       account_fits account_ok t"

definition configured_limit :: "database \<Rightarrow> uuid \<Rightarrow> string \<Rightarrow> string \<Rightarrow> int option" where
  "configured_limit s tenant currency period =
     map_option bs_limit
       (find (\<lambda>b. bs_tenant b = tenant \<and> bs_currency b = currency \<and> bs_period b = period)
          (tb_budget_settings s))"

text \<open>One turn of the reservation loop: raise the hold, or seed the account from its period.\<close>

definition hold_account ::
    "uuid \<Rightarrow> string \<Rightarrow> int \<Rightarrow> string \<Rightarrow> database \<Rightarrow> database outcome" where
  "hold_account tenant currency bound key s =
     rbind (map_err (\<lambda>code. budget_constraint_failure (Some code))
             (update_account tenant bound 0 key (tb_budget_accounts s))) (\<lambda>t.
     if length (filter (\<lambda>a. account_key a = (tenant, key)) (tb_budget_accounts s)) = 1
     then Inr (s\<lparr>tb_budget_accounts := t\<rparr>)
     else
       (let period = hd (split_on (CHR '':'') key) in
        rbind (ok_or (precondition ''BUDGET_NOT_CONFIGURED'')
                (case configured_limit s tenant currency period of
                   None \<Rightarrow> None | Some limit \<Rightarrow> if limit > 0 then Some limit else None)) (\<lambda>limit.
        rbind (map_err (\<lambda>code. budget_constraint_failure (Some code))
                (insert_row account_ok (\<lambda>a a'. account_key a' = account_key a)
                   (row_at tn_id tenant (tb_tenants s) \<noteq> None)
                   \<lparr> ba_tenant = tenant, ba_key = key, ba_currency = currency, ba_limit = limit,
                     ba_held = bound, ba_charged = 0 \<rparr> t)) (\<lambda>t'.
        Inr (s\<lparr>tb_budget_accounts := t'\<rparr>)))))"

definition move_account ::
    "uuid \<Rightarrow> int \<Rightarrow> int \<Rightarrow> string \<Rightarrow> database \<Rightarrow> database outcome" where
  "move_account tenant dh dc key s =
     rbind (sql (update_account tenant dh dc key (tb_budget_accounts s)))
       (\<lambda>t. Inr (s\<lparr>tb_budget_accounts := t\<rparr>))"

definition update_reservation ::
    "uuid \<Rightarrow> uuid \<Rightarrow> (cost_reservation_row \<Rightarrow> cost_reservation_row) \<Rightarrow> database \<Rightarrow> database outcome" where
  "update_reservation tenant reservation_id f s =
     rbind (sql (update_rows (\<lambda>r. res_key r = (tenant, reservation_id)) f (\<lambda>_. True) reservation_ok
             (tb_cost_reservations s)))
       (\<lambda>t. Inr (s\<lparr>tb_cost_reservations := t\<rparr>))"

section \<open>Operations\<close>

text \<open>\<open>new_id\<close> and \<open>event_id\<close> are the fresh identifiers, \<open>now\<close> the clock of the transaction.\<close>

definition reserve_budget ::
    "platform \<Rightarrow> database \<Rightarrow> uuid \<Rightarrow> uuid \<Rightarrow> timestamp \<Rightarrow> uuid \<Rightarrow> uuid \<Rightarrow> string \<Rightarrow> string \<Rightarrow> int
     \<Rightarrow> string \<Rightarrow> string list \<Rightarrow> (mutation \<times> database) outcome" where
  "reserve_budget pf s new_id event_id now tenant run_id logical_call_id currency upper_bound
     price_profile account_keys =
     (if upper_bound \<le> 0 then Inl (precondition ''PRICE_BOUND_UNKNOWN'')
      else
        rbind (rfold (hold_account tenant currency upper_bound) account_keys s) (\<lambda>s1.
        let r = \<lparr> cv_tenant = tenant, cv_id = new_id, cv_run_id = run_id,
                  cv_logical_call_id = logical_call_id, cv_currency = currency,
                  cv_upper_bound = upper_bound, cv_settled = None, cv_state = ''RESERVED'',
                  cv_price_profile = price_profile, cv_account_keys = account_keys,
                  cv_usage_fingerprint = None, cv_version = 1, cv_created_at = now \<rparr>
        in
        rbind (sql (insert_row reservation_ok
            (\<lambda>r r'. cv_tenant r' = cv_tenant r \<and> (cv_id r' = cv_id r \<or>
               cv_run_id r' = cv_run_id r \<and> cv_logical_call_id r' = cv_logical_call_id r))
            (row_at tn_id tenant (tb_tenants s1) \<noteq> None
             \<and> row_at run_key (tenant, run_id) (tb_runs s1) \<noteq> None)
            r (tb_cost_reservations s1))) (\<lambda>t.
        rbind (insert_cost_event (s1\<lparr>tb_cost_reservations := t\<rparr>) event_id tenant new_id
                 ''RESERVED'' upper_bound 0 None now) (\<lambda>s2.
        Inr (reservation_mutation pf r None ''RESERVED'' 1 ''reserve budget'', s2)))))"

definition settle_budget ::
    "platform \<Rightarrow> database \<Rightarrow> uuid \<Rightarrow> timestamp \<Rightarrow> uuid \<Rightarrow> uuid \<Rightarrow> int \<Rightarrow> string option
     \<Rightarrow> (mutation \<times> database) outcome" where
  "settle_budget pf s event_id now tenant reservation_id used usage_fingerprint =
     rbind (locked_reservation s tenant reservation_id) (\<lambda>r.
     if cv_state r = ''SETTLED'' then
       (case cv_settled r of
          None \<Rightarrow> Inl (database_failure None)
        | Some settled \<Rightarrow>
            if settled = used
            then Inr (reservation_mutation pf r (Some used) ''SETTLED'' (cv_version r)
                        ''settle budget'', s)
            else Inl (conflict ''SETTLEMENT_CONFLICT''))
     else
       rbind (require_cost_transition (cv_state r) ''SETTLED'') (\<lambda>_.
       if used < 0 \<or> used > cv_upper_bound r
       then Inl (precondition ''USAGE_EXCEEDS_RESERVATION'')
       else
         rbind (rfold (move_account tenant (- cv_upper_bound r) used) (cv_account_keys r) s) (\<lambda>s1.
         let new_version = wrap_i32 (cv_version r + 1) in
         rbind (update_reservation tenant reservation_id
                  (\<lambda>r. r\<lparr>cv_state := ''SETTLED'', cv_settled := Some used,
                         cv_usage_fingerprint := usage_fingerprint, cv_version := new_version\<rparr>) s1) (\<lambda>s2.
         rbind (insert_cost_event s2 event_id tenant reservation_id ''SETTLED''
                  (- cv_upper_bound r) used usage_fingerprint now) (\<lambda>s3.
         Inr (reservation_mutation pf r (Some used) ''SETTLED'' new_version ''settle budget'', s3))))))"

definition mark_cost_unknown ::
    "platform \<Rightarrow> database \<Rightarrow> uuid \<Rightarrow> timestamp \<Rightarrow> uuid \<Rightarrow> uuid \<Rightarrow> (mutation \<times> database) outcome" where
  "mark_cost_unknown pf s event_id now tenant reservation_id =
     rbind (locked_reservation s tenant reservation_id) (\<lambda>r.
     rbind (require_cost_transition (cv_state r) ''UNKNOWN'') (\<lambda>_.
     let new_version = wrap_i32 (cv_version r + 1) in
     rbind (update_reservation tenant reservation_id
              (\<lambda>r. r\<lparr>cv_state := ''UNKNOWN'', cv_version := new_version\<rparr>) s) (\<lambda>s1.
     rbind (insert_cost_event s1 event_id tenant reservation_id ''UNKNOWN'' 0 0 None now) (\<lambda>s2.
     Inr (reservation_mutation pf r None ''UNKNOWN'' new_version ''mark budget unknown'', s2)))))"

definition release_budget ::
    "platform \<Rightarrow> database \<Rightarrow> uuid \<Rightarrow> timestamp \<Rightarrow> uuid \<Rightarrow> uuid \<Rightarrow> (mutation \<times> database) outcome" where
  "release_budget pf s event_id now tenant reservation_id =
     rbind (locked_reservation s tenant reservation_id) (\<lambda>r.
     rbind (require_cost_transition (cv_state r) ''RELEASED'') (\<lambda>_.
     rbind (rfold (move_account tenant (- cv_upper_bound r) 0) (cv_account_keys r) s) (\<lambda>s1.
     let new_version = wrap_i32 (cv_version r + 1) in
     rbind (update_reservation tenant reservation_id
              (\<lambda>r. r\<lparr>cv_state := ''RELEASED'', cv_version := new_version\<rparr>) s1) (\<lambda>s2.
     rbind (insert_cost_event s2 event_id tenant reservation_id ''RELEASED''
              (- cv_upper_bound r) 0 None now) (\<lambda>s3.
     Inr (reservation_mutation pf r None ''RELEASED'' new_version ''release budget'', s3))))))"

text \<open>The public entries: the same operations in a system transaction of an active tenant.\<close>

definition reserve_run_budget ::
    "platform \<Rightarrow> database \<Rightarrow> uuid \<Rightarrow> uuid \<Rightarrow> timestamp \<Rightarrow> uuid \<Rightarrow> uuid \<Rightarrow> string \<Rightarrow> string \<Rightarrow> int
     \<Rightarrow> string \<Rightarrow> string list \<Rightarrow> (mutation \<times> database) outcome" where
  "reserve_run_budget pf s new_id event_id now tenant run_id logical_call_id currency upper_bound
     price_profile account_keys =
     rbind (begin_system s tenant) (\<lambda>_.
       reserve_budget pf s new_id event_id now tenant run_id logical_call_id currency upper_bound
         price_profile account_keys)"

definition settle_run_budget ::
    "platform \<Rightarrow> database \<Rightarrow> uuid \<Rightarrow> timestamp \<Rightarrow> uuid \<Rightarrow> uuid \<Rightarrow> int \<Rightarrow> string option
     \<Rightarrow> (mutation \<times> database) outcome" where
  "settle_run_budget pf s event_id now tenant reservation_id used usage_fingerprint =
     rbind (begin_system s tenant) (\<lambda>_.
       settle_budget pf s event_id now tenant reservation_id used usage_fingerprint)"

definition mark_run_cost_unknown ::
    "platform \<Rightarrow> database \<Rightarrow> uuid \<Rightarrow> timestamp \<Rightarrow> uuid \<Rightarrow> uuid \<Rightarrow> (mutation \<times> database) outcome" where
  "mark_run_cost_unknown pf s event_id now tenant reservation_id =
     rbind (begin_system s tenant) (\<lambda>_. mark_cost_unknown pf s event_id now tenant reservation_id)"

definition release_run_budget ::
    "platform \<Rightarrow> database \<Rightarrow> uuid \<Rightarrow> timestamp \<Rightarrow> uuid \<Rightarrow> uuid \<Rightarrow> (mutation \<times> database) outcome" where
  "release_run_budget pf s event_id now tenant reservation_id =
     rbind (begin_system s tenant) (\<lambda>_. release_budget pf s event_id now tenant reservation_id)"

section \<open>Balances\<close>

definition held_of :: "budget_account_row list \<Rightarrow> uuid \<times> string \<Rightarrow> int" where
  "held_of t k = (case row_at account_key k t of None \<Rightarrow> 0 | Some a \<Rightarrow> ba_held a)"

definition charged_of :: "budget_account_row list \<Rightarrow> uuid \<times> string \<Rightarrow> int" where
  "charged_of t k = (case row_at account_key k t of None \<Rightarrow> 0 | Some a \<Rightarrow> ba_charged a)"

text \<open>What an account change by \<open>dh\<close> and \<open>dc\<close> for each of \<open>keys\<close> does to the balances.\<close>

definition moved ::
    "uuid \<Rightarrow> int \<Rightarrow> int \<Rightarrow> string list \<Rightarrow> budget_account_row list \<Rightarrow> budget_account_row list \<Rightarrow> bool" where
  "moved tenant dh dc keys t u \<longleftrightarrow>
     unique_key account_key u \<and> (\<forall>a \<in> set u. account_ok a)
     \<and> account_key ` set u = account_key ` set t \<union> Pair tenant ` set keys
     \<and> (\<forall>k. held_of u (tenant, k) = held_of t (tenant, k) + dh * int (count_list keys k)
           \<and> charged_of u (tenant, k) = charged_of t (tenant, k) + dc * int (count_list keys k))
     \<and> (\<forall>t' k. t' \<noteq> tenant \<longrightarrow> held_of u (t', k) = held_of t (t', k)
           \<and> charged_of u (t', k) = charged_of t (t', k))"

lemma moved_Nil:
  "unique_key account_key t \<Longrightarrow> \<forall>a \<in> set t. account_ok a \<Longrightarrow> moved tenant dh dc [] t t"
  by (simp add: moved_def)

lemma moved_Cons:
  assumes "moved tenant dh dc [k] t u" and "moved tenant dh dc ks u v"
  shows "moved tenant dh dc (k # ks) t v"
  using assms unfolding moved_def by (auto simp: algebra_simps)

lemma update_account_Inr:
  "update_account tenant dh dc key t = Inr u \<longleftrightarrow>
     (\<forall>a \<in> set t. account_key a = (tenant, key) \<longrightarrow>
        account_fits (a\<lparr>ba_held := ba_held a + dh, ba_charged := ba_charged a + dc\<rparr>)
        \<and> account_ok (a\<lparr>ba_held := ba_held a + dh, ba_charged := ba_charged a + dc\<rparr>))
     \<and> u = update_where (\<lambda>a. account_key a = (tenant, key))
             (\<lambda>a. a\<lparr>ba_held := ba_held a + dh, ba_charged := ba_charged a + dc\<rparr>) t"
  by (simp add: update_account_def update_rows_Inr_iff)

lemma update_account_moved:
  assumes "update_account tenant dh dc key t = Inr u" and "row_at account_key (tenant, key) t \<noteq> None"
    and "unique_key account_key t" and "\<forall>a \<in> set t. account_ok a"
  shows "moved tenant dh dc [key] t u"
proof -
  let ?f = "\<lambda>a. a\<lparr>ba_held := ba_held a + dh, ba_charged := ba_charged a + dc\<rparr>"
  from assms(1) have u: "u = update_where (\<lambda>a. account_key a = (tenant, key)) ?f t"
    and ok: "\<forall>a \<in> set t. account_key a = (tenant, key) \<longrightarrow> account_ok (?f a)"
    by (auto simp: update_account_Inr)
  have row: "row_at account_key k u
      = map_option (\<lambda>a. if account_key a = (tenant, key) then ?f a else a) (row_at account_key k t)" for k
    unfolding u by (rule row_at_update_where) simp
  have "account_key ` set u = account_key ` set t"
    unfolding u set_update_where image_image by (rule image_cong) simp_all
  moreover from assms(2) have "(tenant, key) \<in> account_key ` set t" by (simp add: row_at_None_iff)
  moreover have "unique_key account_key u" using assms(3) u by (simp add: unique_key_update_where)
  moreover have "\<forall>a \<in> set u. account_ok a" using assms(4) ok by (auto simp: u set_update_where)
  moreover have "held_of u k = held_of t k + (if k = (tenant, key) then dh else 0)"
    and "charged_of u k = charged_of t k + (if k = (tenant, key) then dc else 0)" for k
    using assms(2)
    by (auto simp: held_of_def charged_of_def row dest: row_at_SomeD split: option.splits)
  ultimately show ?thesis by (auto simp: moved_def insert_absorb)
qed

lemma insert_account_moved:
  assumes "row_at account_key (tenant, key) t = None" and "a = \<lparr> ba_tenant = tenant, ba_key = key,
      ba_currency = c, ba_limit = l, ba_held = bound, ba_charged = 0 \<rparr>"
    and "account_ok a" and "unique_key account_key t" and "\<forall>a \<in> set t. account_ok a"
  shows "moved tenant bound 0 [key] t (t @ [a])"
proof -
  have "held_of (t @ [a]) k = held_of t k + (if k = (tenant, key) then bound else 0)"
    and "charged_of (t @ [a]) k = charged_of t k" for k
    using assms(1,2) by (auto simp: held_of_def charged_of_def row_at_append split: option.splits)
  with assms show ?thesis by (auto simp: moved_def unique_key_snoc)
qed

text \<open>A turn of the reservation loop moves one account and nothing else.\<close>

lemma hold_account_moved:
  assumes "hold_account tenant currency bound key s = Inr s'"
    and "unique_key account_key (tb_budget_accounts s)" and "\<forall>a \<in> set (tb_budget_accounts s). account_ok a"
  shows "s' = s\<lparr>tb_budget_accounts := tb_budget_accounts s'\<rparr>
    \<and> moved tenant bound 0 [key] (tb_budget_accounts s) (tb_budget_accounts s')"
proof -
  from assms(1) obtain t where t: "update_account tenant bound 0 key (tb_budget_accounts s) = Inr t"
    by (auto simp: hold_account_def res_simps)
  note len = count_filter_unique [OF assms(2), of "(tenant, key)"]
  show ?thesis
  proof (cases "row_at account_key (tenant, key) (tb_budget_accounts s)")
    case None
    then have "t = tb_budget_accounts s"
      using t by (auto simp: update_account_Inr row_at_None_iff intro!: update_where_none)
    with assms(1) None t len insert_account_moved [OF None refl _ assms(2,3)] show ?thesis
      by (auto simp: hold_account_def res_simps Let_def)
  next
    case (Some a)
    with assms t len update_account_moved [OF t] show ?thesis
      by (auto simp: hold_account_def)
  qed
qed

lemma moved_inv:
  "moved tenant dh dc keys t u \<Longrightarrow> unique_key account_key u \<and> (\<forall>a \<in> set u. account_ok a)"
  by (simp add: moved_def)

lemma hold_accounts_moved:
  assumes "rfold (hold_account tenant currency bound) keys s = Inr s'"
    and "unique_key account_key (tb_budget_accounts s)" and "\<forall>a \<in> set (tb_budget_accounts s). account_ok a"
  shows "s' = s\<lparr>tb_budget_accounts := tb_budget_accounts s'\<rparr>
    \<and> moved tenant bound 0 keys (tb_budget_accounts s) (tb_budget_accounts s')"
  using assms
proof (induction keys arbitrary: s)
  case Nil
  then show ?case by (simp add: moved_Nil)
next
  case (Cons k ks)
  then obtain s1 where s1: "hold_account tenant currency bound k s = Inr s1"
    and r: "rfold (hold_account tenant currency bound) ks s1 = Inr s'"
    by (auto simp: rbind_Inr_iff)
  note h = hold_account_moved [OF s1 Cons.prems(2,3)]
  from Cons.IH [OF r] moved_inv h have
    "s' = s1\<lparr>tb_budget_accounts := tb_budget_accounts s'\<rparr>"
    "moved tenant bound 0 ks (tb_budget_accounts s1) (tb_budget_accounts s')" by blast+
  with h show ?case
    by (metis moved_Cons database.surjective database.update_convs(3))
qed

lemma moved_keys:
  "moved tenant dh dc keys t u \<Longrightarrow> account_key ` set t \<subseteq> account_key ` set u"
  unfolding moved_def by blast

lemma move_account_Inr_iff [res_simps]:
  "move_account tenant dh dc key s = Inr s' \<longleftrightarrow>
     (\<exists>u. update_account tenant dh dc key (tb_budget_accounts s) = Inr u
        \<and> s' = s\<lparr>tb_budget_accounts := u\<rparr>)"
  by (auto simp: move_account_def res_simps)

lemma move_accounts_moved:
  assumes "rfold (move_account tenant dh dc) keys s = Inr s'"
    and "unique_key account_key (tb_budget_accounts s)" and "\<forall>a \<in> set (tb_budget_accounts s). account_ok a"
    and "Pair tenant ` set keys \<subseteq> account_key ` set (tb_budget_accounts s)"
  shows "s' = s\<lparr>tb_budget_accounts := tb_budget_accounts s'\<rparr>
    \<and> moved tenant dh dc keys (tb_budget_accounts s) (tb_budget_accounts s')"
  using assms
proof (induction keys arbitrary: s)
  case Nil
  then show ?case by (simp add: moved_Nil)
next
  case (Cons k ks)
  from Cons.prems(1) obtain u where u: "update_account tenant dh dc k (tb_budget_accounts s) = Inr u"
    and r: "rfold (move_account tenant dh dc) ks (s\<lparr>tb_budget_accounts := u\<rparr>) = Inr s'"
    by (auto simp: res_simps)
  from Cons.prems(4) have "row_at account_key (tenant, k) (tb_budget_accounts s) \<noteq> None"
    by (simp add: row_at_None_iff)
  from update_account_moved [OF u this Cons.prems(2,3)]
  have m: "moved tenant dh dc [k] (tb_budget_accounts s) u" .
  from moved_keys [OF m] Cons.prems(4) have "Pair tenant ` set ks \<subseteq> account_key ` set u"
    by (meson image_mono set_subset_Cons subset_trans)
  with Cons.IH [OF r] moved_inv [OF m] moved_Cons [OF m] show ?case by simp
qed

section \<open>Conservation\<close>

definition open_hold :: "cost_reservation_row \<Rightarrow> int" where
  "open_hold r = (if cv_state r \<in> {''RESERVED'', ''UNKNOWN''} then cv_upper_bound r else 0)"

definition settled_amount :: "cost_reservation_row \<Rightarrow> int" where
  "settled_amount r = (case cv_settled r of None \<Rightarrow> 0 | Some n \<Rightarrow> n)"

text \<open>The share of a reservation in the balances of an account.\<close>

definition hold_share :: "uuid \<times> string \<Rightarrow> cost_reservation_row \<Rightarrow> int" where
  "hold_share k r =
     (if cv_tenant r = fst k then open_hold r * int (count_list (cv_account_keys r) (snd k)) else 0)"

definition charge_share :: "uuid \<times> string \<Rightarrow> cost_reservation_row \<Rightarrow> int" where
  "charge_share k r =
     (if cv_tenant r = fst k then settled_amount r * int (count_list (cv_account_keys r) (snd k)) else 0)"

definition balanced :: "budget_account_row list \<Rightarrow> cost_reservation_row list \<Rightarrow> bool" where
  "balanced t rs \<longleftrightarrow>
     (\<forall>k. held_of t k = sum_list (map (hold_share k) rs)
        \<and> charged_of t k = sum_list (map (charge_share k) rs))"

text \<open>
  Keys are unique, every row passes its constraints, every account a reservation names exists, and
  each account holds exactly the bounds of its open reservations and is charged exactly what its
  settled reservations used.
\<close>

definition ledger_inv :: "database \<Rightarrow> bool" where
  "ledger_inv s \<longleftrightarrow>
     unique_key account_key (tb_budget_accounts s) \<and> (\<forall>a \<in> set (tb_budget_accounts s). account_ok a)
     \<and> unique_key res_key (tb_cost_reservations s)
     \<and> (\<forall>r \<in> set (tb_cost_reservations s). reservation_ok r
          \<and> Pair (cv_tenant r) ` set (cv_account_keys r) \<subseteq> account_key ` set (tb_budget_accounts s))
     \<and> balanced (tb_budget_accounts s) (tb_cost_reservations s)"

lemma ledger_invD:
  assumes "ledger_inv s"
  shows "unique_key account_key (tb_budget_accounts s)" "\<forall>a \<in> set (tb_budget_accounts s). account_ok a"
    "unique_key res_key (tb_cost_reservations s)"
    "balanced (tb_budget_accounts s) (tb_cost_reservations s)"
    "r \<in> set (tb_cost_reservations s) \<Longrightarrow> reservation_ok r
       \<and> Pair (cv_tenant r) ` set (cv_account_keys r) \<subseteq> account_key ` set (tb_budget_accounts s)"
  using assms by (auto simp: ledger_inv_def)

text \<open>Adding a reservation together with its hold.\<close>

lemma append_reservation_inv:
  assumes "ledger_inv s" and "moved (cv_tenant r) (open_hold r) 0 (cv_account_keys r) (tb_budget_accounts s) u"
    and "settled_amount r = 0" and "reservation_ok r"
    and "row_at res_key (res_key r) (tb_cost_reservations s) = None"
  shows "ledger_inv (s\<lparr>tb_budget_accounts := u, tb_cost_reservations := tb_cost_reservations s @ [r]\<rparr>)"
proof -
  note i = ledger_invD [OF assms(1)]
  have "held_of u k = held_of (tb_budget_accounts s) k + hold_share k r"
    and "charged_of u k = charged_of (tb_budget_accounts s) k + charge_share k r" for k
    using assms(2,3) by (cases k; auto simp: moved_def hold_share_def charge_share_def)+
  with i(4) have "balanced u (tb_cost_reservations s @ [r])" by (simp add: balanced_def)
  moreover from assms(2) have
    "Pair (cv_tenant r) ` set (cv_account_keys r) \<subseteq> account_key ` set u" by (simp add: moved_def)
  moreover have "reservation_ok r' \<and>
      Pair (cv_tenant r') ` set (cv_account_keys r') \<subseteq> account_key ` set u"
    if "r' \<in> set (tb_cost_reservations s)" for r'
    using i(5) [OF that] moved_keys [OF assms(2)] by blast
  ultimately show ?thesis
    using assms(4,5) i(3) moved_inv [OF assms(2)]
    unfolding ledger_inv_def by (simp add: unique_key_snoc)
qed

text \<open>Changing one reservation together with the balances it accounts for.\<close>

lemma change_reservation_inv:
  assumes "ledger_inv s" and "row_at res_key (tenant, i) (tb_cost_reservations s) = Some r"
    and "moved tenant dh dc (cv_account_keys r) (tb_budget_accounts s) u"
    and "\<And>r. cv_tenant (f r) = cv_tenant r \<and> cv_id (f r) = cv_id r
              \<and> cv_account_keys (f r) = cv_account_keys r"
    and "open_hold (f r) = open_hold r + dh" and "settled_amount (f r) = settled_amount r + dc"
    and "reservation_ok (f r)"
    and "t = update_where (\<lambda>r. res_key r = (tenant, i)) f (tb_cost_reservations s)"
  shows "ledger_inv (s\<lparr>tb_budget_accounts := u, tb_cost_reservations := t\<rparr>)"
proof -
  note inv = ledger_invD [OF assms(1)]
  from assms(2) have r: "r \<in> set (tb_cost_reservations s)" and k: "cv_tenant r = tenant" "cv_id r = i"
    by (auto dest: row_at_SomeD)
  have keys: "res_key (f r) = res_key r" for r using assms(4) by simp
  have "hold_share k (f r) = hold_share k r
          + (if fst k = tenant then dh * int (count_list (cv_account_keys r) (snd k)) else 0)"
    and "charge_share k (f r) = charge_share k r
          + (if fst k = tenant then dc * int (count_list (cv_account_keys r) (snd k)) else 0)" for k
    using assms(4-6) k by (auto simp: hold_share_def charge_share_def algebra_simps)
  moreover have "held_of u k = held_of (tb_budget_accounts s) k
          + (if fst k = tenant then dh * int (count_list (cv_account_keys r) (snd k)) else 0)"
    and "charged_of u k = charged_of (tb_budget_accounts s) k
          + (if fst k = tenant then dc * int (count_list (cv_account_keys r) (snd k)) else 0)" for k
    using assms(3) by (cases k; auto simp: moved_def)+
  ultimately have "balanced u t"
    using inv(4) unfolding assms(8) balanced_def
    by (simp only: sum_update_where [OF inv(3) assms(2)]) simp
  moreover have "unique_key res_key t"
    unfolding assms(8) using inv(3) by (simp only: unique_key_update_where [of res_key f, OF keys])
  moreover have "reservation_ok r' \<and>
      Pair (cv_tenant r') ` set (cv_account_keys r') \<subseteq> account_key ` set u" if "r' \<in> set t" for r'
  proof -
    from that obtain x where x: "x \<in> set (tb_cost_reservations s)"
      and r': "r' = (if res_key x = (tenant, i) then f x else x)"
      by (auto simp: assms(8) set_update_where)
    moreover have "x = r" if "res_key x = (tenant, i)"
      using row_at_unique [OF inv(3) x] that assms(2) by simp
    moreover from inv(5) [OF x] moved_keys [OF assms(3)]
    have "Pair (cv_tenant x) ` set (cv_account_keys x) \<subseteq> account_key ` set u" by (meson subset_trans)
    ultimately show ?thesis
      using inv(5) [OF x] assms(4,7) by (cases "res_key x = (tenant, i)") (simp_all, blast)
  qed
  ultimately show ?thesis
    using moved_inv [OF assms(3)] unfolding ledger_inv_def by simp
qed

section \<open>What the operations do\<close>

lemma parse_cost:
  "machine_parse ''cost'' a =
     (if a = ''RESERVED'' then Inr (M_Cost C_Reserved)
      else if a = ''SETTLED'' then Inr (M_Cost C_Settled)
      else if a = ''UNKNOWN'' then Inr (M_Cost C_Unknown)
      else if a = ''RELEASED'' then Inr (M_Cost C_Released)
      else Inl (UnknownState ''cost'' a))"
  by (simp add: machine_parse_def machine_table_def)

lemma require_cost_transition_iff:
  "require_cost_transition a ''SETTLED'' = Inr u \<longleftrightarrow> a \<in> {''RESERVED'', ''UNKNOWN''}"
  "require_cost_transition a ''RELEASED'' = Inr u \<longleftrightarrow> a \<in> {''RESERVED'', ''UNKNOWN''}"
  "require_cost_transition a ''UNKNOWN'' = Inr u \<longleftrightarrow> a = ''RESERVED''"
  by (auto simp: require_cost_transition_def parse_cost cost_edge_def)

lemma insert_cost_event_Inr:
  "insert_cost_event s e tenant i ty h c fp now = Inr s' \<Longrightarrow>
     s' = s\<lparr>tb_cost_ledger := tb_cost_ledger s'\<rparr>"
  by (auto simp: insert_cost_event_def res_simps)

lemma ledger_inv_ledger [simp]: "ledger_inv (s\<lparr>tb_cost_ledger := x\<rparr>) = ledger_inv s"
  by (simp add: ledger_inv_def)

lemma update_reservation_Inr [res_simps]:
  "update_reservation tenant i f s = Inr s' \<longleftrightarrow>
     (\<forall>r \<in> set (tb_cost_reservations s). res_key r = (tenant, i) \<longrightarrow> reservation_ok (f r))
     \<and> s' = s\<lparr>tb_cost_reservations :=
           update_where (\<lambda>r. res_key r = (tenant, i)) f (tb_cost_reservations s)\<rparr>"
  by (auto simp: update_reservation_def res_simps)

lemma move_accounts_reservations:
  "rfold (move_account tenant dh dc) keys s = Inr s' \<Longrightarrow>
     s' = s\<lparr>tb_budget_accounts := tb_budget_accounts s'\<rparr>"
proof (induction keys arbitrary: s)
  case (Cons k ks)
  then show ?case by (auto simp: res_simps) (metis (no_types) database.surjective database.update_convs(3))
qed simp

text \<open>
  The shape of every successful change: the accounts of \<open>ks\<close> move, one reservation row is
  rewritten by \<open>f\<close>, and the ledger gets an event.
\<close>

definition changed ::
    "uuid \<Rightarrow> uuid \<Rightarrow> int \<Rightarrow> int \<Rightarrow> string list \<Rightarrow> (cost_reservation_row \<Rightarrow> cost_reservation_row)
     \<Rightarrow> cost_reservation_row \<Rightarrow> database \<Rightarrow> database \<Rightarrow> bool" where
  "changed tenant i dh dc ks f r s s' \<longleftrightarrow>
     row_at res_key (tenant, i) (tb_cost_reservations s) = Some r \<and> reservation_ok (f r)
     \<and> (\<exists>u ev. rfold (move_account tenant dh dc) ks s = Inr (s\<lparr>tb_budget_accounts := u\<rparr>)
        \<and> s' = s\<lparr>tb_budget_accounts := u,
                 tb_cost_reservations := update_where (\<lambda>r. res_key r = (tenant, i)) f
                     (tb_cost_reservations s),
                 tb_cost_ledger := ev\<rparr>)"

lemma changedI:
  assumes "row_at res_key (tenant, i) (tb_cost_reservations s) = Some r"
    and "rfold (move_account tenant dh dc) ks s = Inr s1"
    and "update_reservation tenant i f s1 = Inr s2"
    and "insert_cost_event s2 e tenant i ty h c fp now = Inr s'"
  shows "changed tenant i dh dc ks f r s s'"
proof -
  from move_accounts_reservations [OF assms(2)] obtain u where s1: "s1 = s\<lparr>tb_budget_accounts := u\<rparr>" ..
  from insert_cost_event_Inr [OF assms(4)] obtain ev where s': "s' = s2\<lparr>tb_cost_ledger := ev\<rparr>" ..
  from row_at_SomeD [OF assms(1)] assms(3) s1 have "reservation_ok (f r)" by (simp add: res_simps)
  with assms(1-3) s1 s' show ?thesis unfolding changed_def
    by (intro conjI exI [of _ u] exI [of _ ev]) (auto simp: res_simps)
qed

lemma settle_budget_cases:
  assumes "settle_budget pf s e now tenant i used fp = Inr (m, s')"
  obtains (replay) r where "row_at res_key (tenant, i) (tb_cost_reservations s) = Some r"
      "cv_state r = ''SETTLED''" "cv_settled r = Some used" "s' = s"
      "m = reservation_mutation pf r (Some used) ''SETTLED'' (cv_version r) ''settle budget''"
  | (settle) r where "cv_state r \<in> {''RESERVED'', ''UNKNOWN''}" "0 \<le> used" "used \<le> cv_upper_bound r"
      "changed tenant i (- cv_upper_bound r) used (cv_account_keys r)
         (\<lambda>q. q\<lparr>cv_state := ''SETTLED'', cv_settled := Some used, cv_usage_fingerprint := fp,
               cv_version := wrap_i32 (cv_version r + 1)\<rparr>) r s s'"
proof -
  from assms obtain r where r: "row_at res_key (tenant, i) (tb_cost_reservations s) = Some r"
    by (auto simp: settle_budget_def locked_reservation_def res_simps)
  show thesis
  proof (cases "cv_state r = ''SETTLED''")
    case True
    with assms r show thesis
      by (intro replay [of r])
        (auto simp: settle_budget_def locked_reservation_def split: option.splits if_splits)
  next
    case False
    with assms r show thesis
      by (auto simp: settle_budget_def locked_reservation_def Let_def rbind_Inr_iff
          require_cost_transition_iff intro!: settle changedI split: if_splits)
  qed
qed

lemma mark_cost_unknown_changed:
  assumes "mark_cost_unknown pf s e now tenant i = Inr (m, s')"
  obtains r where "cv_state r = ''RESERVED''"
    "changed tenant i 0 0 [] (\<lambda>q. q\<lparr>cv_state := ''UNKNOWN'', cv_version := wrap_i32 (cv_version r + 1)\<rparr>) r s s'"
  using assms
  by (auto simp: mark_cost_unknown_def locked_reservation_def Let_def rbind_Inr_iff ok_or_Inr_iff
      require_cost_transition_iff intro!: that changedI [where ks = "[]"])

lemma release_budget_changed:
  assumes "release_budget pf s e now tenant i = Inr (m, s')"
  obtains r where "cv_state r \<in> {''RESERVED'', ''UNKNOWN''}"
    "changed tenant i (- cv_upper_bound r) 0 (cv_account_keys r)
       (\<lambda>q. q\<lparr>cv_state := ''RELEASED'', cv_version := wrap_i32 (cv_version r + 1)\<rparr>) r s s'"
  using assms
  by (auto simp: release_budget_def locked_reservation_def Let_def rbind_Inr_iff ok_or_Inr_iff
      require_cost_transition_iff intro!: that changedI)

lemma moved_zero:
  "unique_key account_key t \<Longrightarrow> \<forall>a \<in> set t. account_ok a \<Longrightarrow>
     Pair tenant ` set keys \<subseteq> account_key ` set t \<Longrightarrow> moved tenant 0 0 keys t t"
  unfolding moved_def by (simp add: Un_absorb2)

lemma changed_inv:
  assumes "ledger_inv s" and "changed tenant i dh dc ks f r s s'"
    and "ks = cv_account_keys r \<or> ks = [] \<and> dh = 0 \<and> dc = 0"
    and "\<And>r. cv_tenant (f r) = cv_tenant r \<and> cv_id (f r) = cv_id r
              \<and> cv_account_keys (f r) = cv_account_keys r"
    and "open_hold (f r) = open_hold r + dh" and "settled_amount (f r) = settled_amount r + dc"
  shows "ledger_inv s'"
proof -
  note inv = ledger_invD [OF assms(1)]
  from assms(2) obtain u ev where r: "row_at res_key (tenant, i) (tb_cost_reservations s) = Some r"
    and ok: "reservation_ok (f r)"
    and u: "rfold (move_account tenant dh dc) ks s = Inr (s\<lparr>tb_budget_accounts := u\<rparr>)"
    and s': "s' = s\<lparr>tb_budget_accounts := u, tb_cost_reservations :=
        update_where (\<lambda>r. res_key r = (tenant, i)) f (tb_cost_reservations s), tb_cost_ledger := ev\<rparr>"
    by (auto simp: changed_def)
  from row_at_SomeD [OF r] inv(5) [of r]
  have keys: "Pair tenant ` set (cv_account_keys r) \<subseteq> account_key ` set (tb_budget_accounts s)" by auto
  have "moved tenant dh dc (cv_account_keys r) (tb_budget_accounts s) u"
  proof (cases "ks = cv_account_keys r")
    case True
    with move_accounts_moved [OF u inv(1,2)] keys show ?thesis by simp
  next
    case False
    with assms(3) u have "u = tb_budget_accounts s" and "dh = 0" and "dc = 0"
      by (auto dest: arg_cong [where f = tb_budget_accounts])
    with moved_zero [OF inv(1,2) keys] show ?thesis by simp
  qed
  from change_reservation_inv [OF assms(1) r this assms(4-6) ok refl] show ?thesis
    unfolding s' by simp
qed

lemma settle_budget_inv:
  assumes "ledger_inv s" and "settle_budget pf s e now tenant i used fp = Inr (m, s')"
  shows "ledger_inv s'"
  using assms(2)
proof (cases rule: settle_budget_cases)
  case (replay r)
  with assms(1) show ?thesis by simp
next
  case (settle r)
  then have "row_at res_key (tenant, i) (tb_cost_reservations s) = Some r" by (simp add: changed_def)
  with row_at_SomeD have "r \<in> set (tb_cost_reservations s)" by fast
  with ledger_invD(5) [OF assms(1)] have "reservation_ok r" by blast
  with settle have "cv_settled r = None" by (auto simp: reservation_ok_def)
  with settle show ?thesis
    by (intro changed_inv [OF assms(1) settle(4)]) (auto simp: open_hold_def settled_amount_def)
qed

lemma mark_cost_unknown_inv:
  assumes "ledger_inv s" and "mark_cost_unknown pf s e now tenant i = Inr (m, s')"
  shows "ledger_inv s'"
  using assms(2)
proof (rule mark_cost_unknown_changed)
  fix r
  assume st: "cv_state r = ''RESERVED''" and c: "changed tenant i 0 0 []
      (\<lambda>q. q\<lparr>cv_state := ''UNKNOWN'', cv_version := wrap_i32 (cv_version r + 1)\<rparr>) r s s'"
  from st show ?thesis
    by (intro changed_inv [OF assms(1) c]) (auto simp: open_hold_def settled_amount_def)
qed

lemma release_budget_inv:
  assumes "ledger_inv s" and "release_budget pf s e now tenant i = Inr (m, s')"
  shows "ledger_inv s'"
  using assms(2)
proof (rule release_budget_changed)
  fix r
  assume st: "cv_state r \<in> {''RESERVED'', ''UNKNOWN''}"
    and c: "changed tenant i (- cv_upper_bound r) 0 (cv_account_keys r)
      (\<lambda>q. q\<lparr>cv_state := ''RELEASED'', cv_version := wrap_i32 (cv_version r + 1)\<rparr>) r s s'"
  from st show ?thesis
    by (intro changed_inv [OF assms(1) c]) (auto simp: open_hold_def settled_amount_def)
qed

lemma reserve_budget_Inr:
  assumes "reserve_budget pf s new_id e now tenant run call cur bound price keys = Inr (m, s')"
  obtains r s1 ev where "0 < bound" "rfold (hold_account tenant cur bound) keys s = Inr s1"
    "r = \<lparr> cv_tenant = tenant, cv_id = new_id, cv_run_id = run, cv_logical_call_id = call,
        cv_currency = cur, cv_upper_bound = bound, cv_settled = None, cv_state = ''RESERVED'',
        cv_price_profile = price, cv_account_keys = keys, cv_usage_fingerprint = None,
        cv_version = 1, cv_created_at = now \<rparr>"
    "reservation_ok r" "row_at res_key (tenant, new_id) (tb_cost_reservations s1) = None"
    "s' = s1\<lparr>tb_cost_reservations := tb_cost_reservations s1 @ [r], tb_cost_ledger := ev\<rparr>"
    "m = reservation_mutation pf r None ''RESERVED'' 1 ''reserve budget''"
proof -
  let ?r = "\<lparr> cv_tenant = tenant, cv_id = new_id, cv_run_id = run, cv_logical_call_id = call,
        cv_currency = cur, cv_upper_bound = bound, cv_settled = None, cv_state = ''RESERVED'',
        cv_price_profile = price, cv_account_keys = keys, cv_usage_fingerprint = None,
        cv_version = 1, cv_created_at = now \<rparr>"
  from assms obtain s1 where b: "0 < bound" and h: "rfold (hold_account tenant cur bound) keys s = Inr s1"
    and ok: "reservation_ok ?r"
    and fresh: "\<forall>r' \<in> set (tb_cost_reservations s1). cv_tenant r' = tenant \<longrightarrow> cv_id r' \<noteq> new_id"
    and i: "insert_cost_event (s1\<lparr>tb_cost_reservations := tb_cost_reservations s1 @ [?r]\<rparr>)
        e tenant new_id ''RESERVED'' bound 0 None now = Inr s'"
    and m: "m = reservation_mutation pf ?r None ''RESERVED'' 1 ''reserve budget''"
    by (auto simp: reserve_budget_def Let_def rbind_Inr_iff sql_Inr_iff insert_row_Inr_iff
        split: if_splits)
  from fresh have "row_at res_key (tenant, new_id) (tb_cost_reservations s1) = None"
    by (auto simp: row_at_None_iff)
  with b h ok insert_cost_event_Inr [OF i] m show thesis by (intro that [of s1 ?r]) simp_all
qed

lemma reserve_budget_inv:
  assumes "ledger_inv s"
    and "reserve_budget pf s new_id e now tenant run call cur bound price keys = Inr (m, s')"
  shows "ledger_inv s'"
  using assms(2)
proof (rule reserve_budget_Inr)
  fix r s1 ev
  assume b: "0 < bound" and h: "rfold (hold_account tenant cur bound) keys s = Inr s1"
    and r: "r = \<lparr> cv_tenant = tenant, cv_id = new_id, cv_run_id = run, cv_logical_call_id = call,
        cv_currency = cur, cv_upper_bound = bound, cv_settled = None, cv_state = ''RESERVED'',
        cv_price_profile = price, cv_account_keys = keys, cv_usage_fingerprint = None,
        cv_version = 1, cv_created_at = now \<rparr>"
    and ok: "reservation_ok r"
    and fresh: "row_at res_key (tenant, new_id) (tb_cost_reservations s1) = None"
    and s': "s' = s1\<lparr>tb_cost_reservations := tb_cost_reservations s1 @ [r], tb_cost_ledger := ev\<rparr>"
  note hm = hold_accounts_moved [OF h ledger_invD(1,2) [OF assms(1)]]
  then obtain u where s1: "s1 = s\<lparr>tb_budget_accounts := u\<rparr>" by blast
  with hm have "moved tenant bound 0 keys (tb_budget_accounts s) u" by simp
  then have "ledger_inv (s\<lparr>tb_budget_accounts := u, tb_cost_reservations := tb_cost_reservations s @ [r]\<rparr>)"
    using fresh s1 ok unfolding r
    by (intro append_reservation_inv [OF assms(1)]) (simp_all add: open_hold_def settled_amount_def)
  then show ?thesis using s' s1 by simp
qed

section \<open>Any sequence of ledger transactions\<close>

text \<open>The transactions other components can run, with the identifiers and clock they are given.\<close>

datatype ledger_op =
    Reserve uuid uuid timestamp uuid uuid string string int string "string list"
  | Settle uuid timestamp uuid uuid int "string option"
  | MarkUnknown uuid timestamp uuid uuid
  | Release uuid timestamp uuid uuid

fun ledger_step :: "platform \<Rightarrow> database \<Rightarrow> ledger_op \<Rightarrow> database outcome" where
  "ledger_step pf s (Reserve new_id e now tenant run call cur bound price keys) =
     rbind (reserve_run_budget pf s new_id e now tenant run call cur bound price keys)
       (\<lambda>(m, s'). Inr s')"
| "ledger_step pf s (Settle e now tenant i used fp) =
     rbind (settle_run_budget pf s e now tenant i used fp) (\<lambda>(m, s'). Inr s')"
| "ledger_step pf s (MarkUnknown e now tenant i) =
     rbind (mark_run_cost_unknown pf s e now tenant i) (\<lambda>(m, s'). Inr s')"
| "ledger_step pf s (Release e now tenant i) =
     rbind (release_run_budget pf s e now tenant i) (\<lambda>(m, s'). Inr s')"

lemmas run_budget_defs = reserve_run_budget_def settle_run_budget_def mark_run_cost_unknown_def
  release_run_budget_def

lemma ledger_step_inv:
  assumes "ledger_inv s" and "ledger_step pf s a = Inr s'"
  shows "ledger_inv s'"
  using assms
  by (cases a)
    (auto simp: run_budget_defs rbind_Inr_iff
      intro: reserve_budget_inv settle_budget_inv mark_cost_unknown_inv release_budget_inv)

interpretation budget_ledger: invariant_ops "ledger_step pf" ledger_inv for pf
  by unfold_locales (rule ledger_step_inv)

section \<open>Admission\<close>

text \<open>An account has room for a bound.\<close>

definition room :: "uuid \<Rightarrow> int \<Rightarrow> database \<Rightarrow> string \<Rightarrow> bool" where
  "room tenant bound s key =
     (case row_at account_key (tenant, key) (tb_budget_accounts s) of
        None \<Rightarrow> False
      | Some a \<Rightarrow> ba_held a + ba_charged a + bound \<le> ba_limit a)"

lemma hold_account_decides:
  assumes "unique_key account_key (tb_budget_accounts s)" and "\<forall>a \<in> set (tb_budget_accounts s). account_ok a"
    and "row_at account_key (tenant, key) (tb_budget_accounts s) = Some a"
    and "0 < bound" and "bound \<le> max_safe"
  shows "hold_account tenant currency bound key s =
    (if room tenant bound s key
     then Inr (s\<lparr>tb_budget_accounts := update_where (\<lambda>a. account_key a = (tenant, key))
            (\<lambda>a. a\<lparr>ba_held := ba_held a + bound, ba_charged := ba_charged a + 0\<rparr>)
            (tb_budget_accounts s)\<rparr>)
     else Inl (conflict ''BUDGET_EXCEEDED''))"
proof -
  let ?p = "\<lambda>a. account_key a = (tenant, key)"
  let ?f = "\<lambda>a. a\<lparr>ba_held := ba_held a + bound, ba_charged := ba_charged a + 0\<rparr>"
  from row_at_SomeD [OF assms(3)] have a: "a \<in> set (tb_budget_accounts s)" "account_key a = (tenant, key)"
    by simp_all
  have only: "x = a" if "x \<in> set (tb_budget_accounts s)" and "?p x" for x
    using row_at_unique [OF assms(1) that(1)] assms(3) that(2) by simp
  from a(1) assms(2) have ok: "account_ok a" by blast
  then have fits: "account_fits (?f a)"
    using assms(4,5) by (auto simp: account_ok_def account_fits_def in_i64_def max_safe_def)
  have "account_ok (?f a) \<longleftrightarrow> room tenant bound s key"
    using ok assms(3,4) by (auto simp: account_ok_def room_def)
  moreover have "list_ex (\<lambda>r. ?p r \<and> \<not> Q (?f r)) (tb_budget_accounts s) \<longleftrightarrow> \<not> Q (?f a)" for Q
    unfolding list_ex_iff using a only by metis
  ultimately have "update_account tenant bound 0 key (tb_budget_accounts s) =
      (if room tenant bound s key then Inr (update_where ?p ?f (tb_budget_accounts s)) else Inl ''23514'')"
    unfolding update_account_def update_rows_def using fits by presburger
  moreover from count_filter_unique [OF assms(1), of "(tenant, key)"] assms(3)
  have "length (filter ?p (tb_budget_accounts s)) = 1" by simp
  ultimately show ?thesis
    unfolding hold_account_def by (simp only: if_True map_err_simps rbind_simps budget_constraint_failure_def split: if_split) simp
qed

lemma room_other:
  assumes "k \<noteq> key"
  shows "room tenant bound (s\<lparr>tb_budget_accounts := update_where (\<lambda>a. account_key a = (tenant, key))
            (\<lambda>a. a\<lparr>ba_held := ba_held a + b, ba_charged := ba_charged a + 0\<rparr>) (tb_budget_accounts s)\<rparr>) k
    = room tenant bound s k"
  using assms unfolding room_def
  by (auto simp: row_at_update_where dest: row_at_SomeD split: option.splits)

lemma holds_decide:
  assumes "unique_key account_key (tb_budget_accounts s)" and "\<forall>a \<in> set (tb_budget_accounts s). account_ok a"
    and "Pair tenant ` set keys \<subseteq> account_key ` set (tb_budget_accounts s)"
    and "distinct keys" and "0 < bound" and "bound \<le> max_safe"
  shows "case rfold (hold_account tenant currency bound) keys s of
      Inl e \<Rightarrow> e = conflict ''BUDGET_EXCEEDED'' \<and> \<not> (\<forall>k \<in> set keys. room tenant bound s k)
    | Inr s' \<Rightarrow> \<forall>k \<in> set keys. room tenant bound s k"
  using assms
proof (induction keys arbitrary: s)
  case Nil
  then show ?case by simp
next
  case (Cons key ks)
  from Cons.prems(3) obtain a where a: "row_at account_key (tenant, key) (tb_budget_accounts s) = Some a"
    using row_at_None_iff [of account_key "(tenant, key)" "tb_budget_accounts s"] by auto
  note d = hold_account_decides [OF Cons.prems(1,2) a Cons.prems(5,6), of currency]
  show ?case
  proof (cases "room tenant bound s key")
    case False
    with d show ?thesis by simp
  next
    case True
    let ?s = "s\<lparr>tb_budget_accounts := update_where (\<lambda>a. account_key a = (tenant, key))
            (\<lambda>a. a\<lparr>ba_held := ba_held a + bound, ba_charged := ba_charged a + 0\<rparr>) (tb_budget_accounts s)\<rparr>"
    from True d have h: "hold_account tenant currency bound key s = Inr ?s" by simp
    from hold_account_moved [OF h Cons.prems(1,2)]
    have m: "moved tenant bound 0 [key] (tb_budget_accounts s) (tb_budget_accounts ?s)" by simp
    from moved_keys [OF m] Cons.prems(3)
    have "Pair tenant ` set ks \<subseteq> account_key ` set (tb_budget_accounts ?s)"
      by (meson image_mono set_subset_Cons subset_trans)
    with Cons.IH [of ?s] moved_inv [OF m] Cons.prems(4-6)
    have "case rfold (hold_account tenant currency bound) ks ?s of
        Inl e \<Rightarrow> e = conflict ''BUDGET_EXCEEDED'' \<and> \<not> (\<forall>k \<in> set ks. room tenant bound ?s k)
      | Inr s' \<Rightarrow> \<forall>k \<in> set ks. room tenant bound ?s k" by simp
    moreover have "(\<forall>k \<in> set ks. room tenant bound ?s k) \<longleftrightarrow> (\<forall>k \<in> set ks. room tenant bound s k)"
      using Cons.prems(4) by (intro ball_cong) (auto simp only: distinct.simps intro!: room_other)
    ultimately show ?thesis using h True by (auto split: sum.splits)
  qed
qed

section \<open>Properties\<close>

lemma sample_ledger_inv: "ledger_inv sample_db"
  by (simp add: ledger_inv_def sample_db_def balanced_def held_of_def charged_of_def unique_key_def)

abbreviation sample_ops :: "ledger_op list" where
  "sample_ops \<equiv>
     [Reserve 20 30 0 1 10 ''a'' ''USD'' 60 ''1.0.0'' [''RUN:USD:default'', ''DAY:USD:default''],
      Reserve 21 31 0 1 10 ''b'' ''USD'' 60 ''1.0.0'' [''RUN:USD:default''],
      MarkUnknown 32 0 1 20,
      Settle 33 0 1 20 40 None]"

lemma sample_ops_run:
  "map (\<lambda>a. (ba_key a, ba_held a, ba_charged a))
     (tb_budget_accounts (attempts (ledger_step sample_platform) sample_db sample_ops))
   = [(''RUN:USD:default'', 0, 40), (''DAY:USD:default'', 0, 40)]"
  by code_simp


lemma held_of_member:
  "unique_key account_key t \<Longrightarrow> a \<in> set t \<Longrightarrow>
     held_of t (account_key a) = ba_held a \<and> charged_of t (account_key a) = ba_charged a"
  using row_at_unique [of account_key t a] by (simp add: held_of_def charged_of_def)

text \<open>
  C4: the ledger conserves money and never overcommits. After any sequence of reserve, settle,
  mark-unknown and release transactions, refused ones included, each account holds exactly the
  bounds of its open reservations, is charged exactly what its settled reservations used, and the
  two together stay within its limit.
\<close>

theorem ledger_conserves_and_never_overcommits:
  assumes "ledger_inv s" and "s' = attempts (ledger_step pf) s ops"
    and "a \<in> set (tb_budget_accounts s')"
  shows "ba_held a = sum_list (map (hold_share (account_key a)) (tb_cost_reservations s'))
    \<and> ba_charged a = sum_list (map (charge_share (account_key a)) (tb_cost_reservations s'))
    \<and> 0 \<le> ba_held a \<and> 0 \<le> ba_charged a \<and> ba_held a + ba_charged a \<le> ba_limit a"
proof -
  have "ledger_inv s'" unfolding assms(2) using assms(1) by (rule budget_ledger.attempts_inv)
  note inv = ledger_invD [OF this]
  from inv(4) held_of_member [OF inv(1) assms(3)]
  have "ba_held a = sum_list (map (hold_share (account_key a)) (tb_cost_reservations s'))"
    and "ba_charged a = sum_list (map (charge_share (account_key a)) (tb_cost_reservations s'))"
    by (auto simp: balanced_def)
  moreover from inv(2) assms(3) have "account_ok a" by blast
  ultimately show ?thesis unfolding account_ok_def by linarith
qed

theorem ledger_conserves_and_never_overcommits_witness:
  "\<exists>a. a \<in> set (tb_budget_accounts (attempts (ledger_step sample_platform) sample_db sample_ops))
     \<and> ba_charged a = 40 \<and> ba_held a + ba_charged a \<le> ba_limit a"
proof -
  define s where "s = attempts (ledger_step sample_platform) sample_db sample_ops"
  have "(''RUN:USD:default'', 0, 40)
      \<in> set (map (\<lambda>a. (ba_key a, ba_held a, ba_charged a)) (tb_budget_accounts s))"
    unfolding s_def sample_ops_run by simp
  then obtain a where a: "a \<in> set (tb_budget_accounts s)" and c: "ba_charged a = 40" by auto
  from ledger_conserves_and_never_overcommits [OF sample_ledger_inv s_def a] a c show ?thesis
    unfolding s_def [symmetric] by blast
qed

text \<open>
  The CHECK constraint is an exact arbiter. On existing accounts a positive bound is held
  exactly when every named account has room for it; otherwise the reservation is refused as
  exceeding the budget, and as a failed transaction it leaves no partial hold.
\<close>

theorem hold_granted_iff_room:
  assumes "ledger_inv s" and "distinct keys" and "0 < bound" and "bound \<le> max_safe"
    and "\<And>k. k \<in> set keys \<Longrightarrow> (tenant, k) \<in> account_key ` set (tb_budget_accounts s)"
  shows "if \<forall>k \<in> set keys. room tenant bound s k
    then is_ok (rfold (hold_account tenant currency bound) keys s)
    else rfold (hold_account tenant currency bound) keys s = Inl (conflict ''BUDGET_EXCEEDED'')"
proof -
  note inv = ledger_invD [OF assms(1)]
  from assms(5) have "Pair tenant ` set keys \<subseteq> account_key ` set (tb_budget_accounts s)" by blast
  from holds_decide [OF inv(1,2) this assms(2-4), of currency] show ?thesis
    by (auto split: sum.splits if_split)
qed

theorem hold_granted_iff_room_witness:
  "let s = attempts (ledger_step sample_platform) sample_db (take 1 sample_ops) in
   room 1 40 s ''RUN:USD:default'' \<and> \<not> room 1 41 s ''RUN:USD:default''
   \<and> is_ok (rfold (hold_account 1 ''USD'' 40) [''RUN:USD:default''] s)
   \<and> rfold (hold_account 1 ''USD'' 41) [''RUN:USD:default''] s = Inl (conflict ''BUDGET_EXCEEDED'')"
proof -
  define s where "s = attempts (ledger_step sample_platform) sample_db (take 1 sample_ops)"
  have i: "ledger_inv s" unfolding s_def by (rule budget_ledger.attempts_inv) (rule sample_ledger_inv)
  have r: "room 1 40 s ''RUN:USD:default''" "\<not> room 1 41 s ''RUN:USD:default''"
    unfolding s_def by code_simp+
  then have k: "(1, ''RUN:USD:default'') \<in> account_key ` set (tb_budget_accounts s)"
    using row_at_None_iff [of account_key "(1, ''RUN:USD:default'')" "tb_budget_accounts s"]
    by (auto simp: room_def split: option.splits)
  have "is_ok (rfold (hold_account 1 ''USD'' 40) [''RUN:USD:default''] s)"
    using hold_granted_iff_room [OF i, of "[''RUN:USD:default'']" 40 1 "''USD''"] k r(1)
    by (simp add: max_safe_def)
  moreover have "rfold (hold_account 1 ''USD'' 41) [''RUN:USD:default''] s = Inl (conflict ''BUDGET_EXCEEDED'')"
    using hold_granted_iff_room [OF i, of "[''RUN:USD:default'']" 41 1 "''USD''"] k r(2)
    by (simp add: max_safe_def)
  ultimately show ?thesis using r unfolding Let_def s_def [symmetric] by blast
qed

text \<open>
  Settlement charges once. After a settlement the same usage is accepted again without any
  change of the database, and any other usage is refused as a settlement conflict.
\<close>

theorem settlement_is_once_only:
  assumes "unique_key res_key (tb_cost_reservations s)"
    and "settle_budget pf s e now tenant i used fp = Inr (m, s')"
  shows "(\<exists>m'. settle_budget pf s' e' now' tenant i used fp' = Inr (m', s'))
    \<and> (used' \<noteq> used \<longrightarrow>
         settle_budget pf s' e' now' tenant i used' fp' = Inl (conflict ''SETTLEMENT_CONFLICT''))"
proof -
  have "\<exists>r'. row_at res_key (tenant, i) (tb_cost_reservations s') = Some r'
      \<and> cv_state r' = ''SETTLED'' \<and> cv_settled r' = Some used"
    using assms(2)
  proof (cases rule: settle_budget_cases)
    case (replay r)
    then show ?thesis by simp
  next
    case (settle r)
    then have "row_at res_key (tenant, i) (tb_cost_reservations s') = Some
        (r\<lparr>cv_state := ''SETTLED'', cv_settled := Some used, cv_usage_fingerprint := fp,
           cv_version := wrap_i32 (cv_version r + 1)\<rparr>)"
      by (auto simp: changed_def row_at_update_where dest: row_at_SomeD)
    then show ?thesis by simp
  qed
  then show ?thesis by (auto simp: settle_budget_def locked_reservation_def)
qed

theorem settlement_is_once_only_witness:
  "let s = attempts (ledger_step sample_platform) sample_db (take 1 sample_ops) in
   \<exists>m s'. settle_budget sample_platform s 33 0 1 20 40 None = Inr (m, s')
     \<and> settle_budget sample_platform s' 34 5 1 20 41 None = Inl (conflict ''SETTLEMENT_CONFLICT'')"
proof -
  define s where "s = attempts (ledger_step sample_platform) sample_db (take 1 sample_ops)"
  have "ledger_inv s" unfolding s_def by (rule budget_ledger.attempts_inv) (rule sample_ledger_inv)
  then have u: "unique_key res_key (tb_cost_reservations s)" by (rule ledger_invD(3))
  have "is_ok (settle_budget sample_platform s 33 0 1 20 40 None)" unfolding s_def by code_simp
  then obtain m s' where st: "settle_budget sample_platform s 33 0 1 20 40 None = Inr (m, s')"
    by (auto simp: is_ok_iff)
  from settlement_is_once_only [OF u st, of 34 5 None 41] st show ?thesis
    unfolding Let_def s_def [symmetric] by auto
qed

section \<open>Refinement of the kernel's reservation\<close>

definition abs_cost_state :: "string \<Rightarrow> cost_state" where
  "abs_cost_state s =
     (if s = ''RESERVED'' then C_Reserved else if s = ''SETTLED'' then C_Settled
      else if s = ''UNKNOWN'' then C_Unknown else C_Released)"

text \<open>The kernel's view of a stored reservation.\<close>

definition abs_reservation :: "cost_reservation_row \<Rightarrow> cost_reservation" where
  "abs_reservation r =
     \<lparr> co_upper_bound = of_int (cv_upper_bound r), co_held = of_int (open_hold r),
       co_charged = map_option of_int (cv_settled r), co_state = abs_cost_state (cv_state r),
       co_reconciliation_queued = (cv_state r = ''UNKNOWN'') \<rparr>"

lemma of_int_u64_le:
  assumes "0 \<le> a" and "a \<le> b" and "b \<le> max_safe"
  shows "(of_int a :: u64) \<le> of_int b"
proof -
  have "uint (of_int a :: u64) = a" and "uint (of_int b :: u64) = b"
    using assms by (simp_all add: max_safe_def uint_word_of_int_eq take_bit_int_eq_self)
  with assms(2) show ?thesis by (simp add: word_le_def)
qed

lemma changed_row:
  assumes "changed tenant i dh dc ks f r s s'"
    and "\<And>r. cv_tenant (f r) = cv_tenant r \<and> cv_id (f r) = cv_id r"
  shows "row_at res_key (tenant, i) (tb_cost_reservations s') = Some (f r)"
  using assms by (auto simp: changed_def row_at_update_where dest: row_at_SomeD)

text \<open>
  C23: the stored ledger refines the kernel's cost reservation. A settlement and an unknown-usage
  transaction that succeed on a row are the kernel's operations on the row's abstraction, with the
  same result.
\<close>

theorem ledger_refines_kernel_reservation:
  assumes "ledger_inv s" and "row_at res_key (tenant, i) (tb_cost_reservations s) = Some r"
    and "s' = attempt (ledger_step pf) s a"
    and "a = Settle e now tenant i used fp \<and> op = SettleUsage (of_int used)
       \<or> a = MarkUnknown e now tenant i \<and> op = MarkUsageUnknown"
    and "is_ok (ledger_step pf s a)"
  shows "\<exists>r'. row_at res_key (tenant, i) (tb_cost_reservations s') = Some r'
    \<and> cost_step (abs_reservation r) op = Inr (abs_reservation r')"
  using assms(4)
proof
  assume a: "a = Settle e now tenant i used fp \<and> op = SettleUsage (of_int used)"
  with assms(3,5) obtain m where "settle_budget pf s e now tenant i used fp = Inr (m, s')"
    by (auto simp: attempt_def is_ok_iff settle_run_budget_def rbind_Inr_iff)
  then show ?thesis
  proof (cases rule: settle_budget_cases)
    case (replay q)
    with assms(2) a show ?thesis
      by (simp add: settle_authoritative_usage_def abs_reservation_def abs_cost_state_def)
  next
    case (settle q)
    then have q: "q = r" using assms(2) by (simp add: changed_def)
    from assms(2) ledger_invD(5) [OF assms(1)] have "reservation_ok r" by (auto dest: row_at_SomeD)
    then have "\<not> (of_int used :: u64) > of_int (cv_upper_bound r)"
      using settle(2,3) q of_int_u64_le [of used "cv_upper_bound r"]
      by (auto simp: reservation_ok_def not_less)
    with settle q a changed_row [OF settle(4)] show ?thesis
      by (auto simp: settle_authoritative_usage_def abs_reservation_def abs_cost_state_def open_hold_def)
  qed
next
  assume a: "a = MarkUnknown e now tenant i \<and> op = MarkUsageUnknown"
  with assms(3,5) obtain m where "mark_cost_unknown pf s e now tenant i = Inr (m, s')"
    by (auto simp: attempt_def is_ok_iff mark_run_cost_unknown_def rbind_Inr_iff)
  then show ?thesis
  proof (rule mark_cost_unknown_changed)
    fix q
    assume st: "cv_state q = ''RESERVED''" and c: "changed tenant i 0 0 []
      (\<lambda>x. x\<lparr>cv_state := ''UNKNOWN'', cv_version := wrap_i32 (cv_version q + 1)\<rparr>) q s s'"
    then have "q = r" using assms(2) by (simp add: changed_def)
    with st a changed_row [OF c] show ?thesis
      by (auto simp: mark_usage_unknown_def abs_reservation_def abs_cost_state_def open_hold_def)
  qed
qed

theorem ledger_refines_kernel_reservation_witness:
  "\<exists>r r'. cv_upper_bound r = 60
     \<and> cost_step (abs_reservation r) (SettleUsage 40) = Inr (abs_reservation r')"
proof -
  define s where "s = attempts (ledger_step sample_platform) sample_db (take 1 sample_ops)"
  define s' where "s' = attempt (ledger_step sample_platform) s (Settle 33 0 1 20 40 None)"
  have i: "ledger_inv s" unfolding s_def by (rule budget_ledger.attempts_inv) (rule sample_ledger_inv)
  have "map_option cv_upper_bound (row_at res_key (1, 20) (tb_cost_reservations s)) = Some 60"
    unfolding s_def by code_simp
  then obtain r where r: "row_at res_key (1, 20) (tb_cost_reservations s) = Some r"
    and u: "cv_upper_bound r = 60" by auto
  have "is_ok (ledger_step sample_platform s (Settle 33 0 1 20 40 None))"
    unfolding s_def by code_simp
  from ledger_refines_kernel_reservation [OF i r s'_def _ this, of 33 0 40 None "SettleUsage 40"] u
  show ?thesis by auto
qed

end
