(* ===== verification/Delegation.thy ===== *)
theory Delegation
  imports Store
begin

text \<open>
  Stored delegations (\<open>delegation.rs\<close>): the check of a grant together with all its ancestors, the
  revocation of a grant together with all its descendants, and the kill switch of
  \<open>administration.rs\<close>. Creating a grant is in theory \<open>Admission\<close>.
\<close>

section \<open>Kill switches\<close>

definition require_dispatch_enabled ::
    "platform \<Rightarrow> database \<Rightarrow> command_actor \<Rightarrow> string option \<Rightarrow> uuid option \<Rightarrow> unit outcome" where
  "require_dispatch_enabled pf s actor plugin connection =
     rbind (parse_uuid pf (ca_tenant_id actor)) (\<lambda>tenant.
     if list_ex (\<lambda>k. ks_tenant k = tenant \<and> ks_active k \<and>
          (ks_scope k = ''TENANT'' \<and> ks_target_id k = pf_uuid_show pf tenant
           \<or> ks_scope k = ''PLUGIN'' \<and> plugin = Some (ks_target_id k)
           \<or> ks_scope k = ''CONNECTION'' \<and>
               map_option (pf_uuid_show pf) connection = Some (ks_target_id k)))
        (tb_kill_switches s)
     then Inl (precondition ''KILL_SWITCH_ACTIVE'')
     else Inr ())"

section \<open>Ancestry\<close>

text \<open>
  The recursive query \<open>ancestry\<close>: the grant, its parent and so on, with the path of visited
  identifiers as the guard against cycles.
\<close>

lemma path_shrinks:
  assumes "row_at delegation_key (tenant, i) t = Some d" and "i \<notin> set path"
  shows "card (dl_id ` set t - set (path @ [i])) < card (dl_id ` set t - set path)"
proof (rule psubset_card_mono)
  from row_at_SomeD [OF assms(1)] have "i \<in> dl_id ` set t" by auto
  with assms(2) show "dl_id ` set t - set (path @ [i]) \<subset> dl_id ` set t - set path" by auto
qed simp

function ancestry ::
    "delegation_row list \<Rightarrow> uuid \<Rightarrow> uuid list \<Rightarrow> uuid \<Rightarrow> delegation_row list" where
  "ancestry t tenant path i =
     (if i \<in> set path then []
      else case row_at delegation_key (tenant, i) t of
        None \<Rightarrow> []
      | Some d \<Rightarrow>
          d # (case dl_parent_grant_id d of
                 None \<Rightarrow> []
               | Some parent \<Rightarrow> ancestry t tenant (path @ [i]) parent))"
  by pat_completeness auto
termination
  by (relation "measure (\<lambda>(t, tenant, path, i). card (dl_id ` set t - set path))")
    (auto dest: path_shrinks)

declare ancestry.simps [simp del]

record active_grant =
  ag_id :: uuid
  ag_actions :: "string list"
  ag_resources :: "resource_ref list"
  ag_expires_at :: timestamp
  ag_fence :: int

definition require_active_grant ::
    "platform \<Rightarrow> database \<Rightarrow> timestamp \<Rightarrow> command_actor \<Rightarrow> uuid \<Rightarrow> string option
     \<Rightarrow> resource_ref option \<Rightarrow> active_grant outcome" where
  "require_active_grant pf s now actor i act resource =
     rbind (parse_uuid pf (ca_tenant_id actor)) (\<lambda>tenant.
     let rows = ancestry (tb_delegations s) tenant [] i in
     if rows = [] then Inl not_found
     else if list_ex (\<lambda>d. dl_state d \<noteq> ''ACTIVE'' \<or> dl_expires_at d \<le> now) rows
     then Inl (denied ''GRANT_REVOKED_OR_EXPIRED'')
     else
     rbind (ok_or not_found (find (\<lambda>d. dl_id d = i) rows)) (\<lambda>d.
     if pf_uuid_show pf (dl_creator_id d) \<noteq> ca_principal_id actor
        \<and> (dl_principal_id d \<noteq> ca_principal_id actor \<or> dl_issuer d \<noteq> ca_issuer actor)
     then Inl (denied ''GRANT_PRINCIPAL_MISMATCH'')
     else
     rbind (stored ''GRANT_INTEGRITY'' (de_list de_resource_ref) (dl_resources d)) (\<lambda>resources.
     if (case act of None \<Rightarrow> False | Some a \<Rightarrow> a \<notin> set (dl_actions d))
        \<or> (case resource of None \<Rightarrow> False | Some r \<Rightarrow> r \<notin> set resources)
     then Inl (denied ''CAPABILITY_DENIED'')
     else Inr \<lparr> ag_id = i, ag_actions = dl_actions d, ag_resources = resources,
                ag_expires_at = dl_expires_at d, ag_fence = dl_fence d \<rparr>)))"

section \<open>Revocation\<close>

definition grant_children :: "delegation_row list \<Rightarrow> uuid \<Rightarrow> uuid list \<Rightarrow> uuid list" where
  "grant_children t tenant parents =
     map dl_id (filter (\<lambda>d. dl_tenant d = tenant
        \<and> (case dl_parent_grant_id d of None \<Rightarrow> False | Some p \<Rightarrow> p \<in> set parents)) t)"

text \<open>
  The recursive query \<open>descendants\<close>, level by level. It has no guard against cycles: a level that
  is still inhabited after as many rounds as there are rows lies on a cycle, and the statement
  runs into its timeout.
\<close>

fun descendant_levels :: "nat \<Rightarrow> delegation_row list \<Rightarrow> uuid \<Rightarrow> uuid list \<Rightarrow> uuid list option" where
  "descendant_levels 0 t tenant level = (if level = [] then Some [] else None)"
| "descendant_levels (Suc n) t tenant level =
     (if level = [] then Some []
      else map_option (append level)
        (descendant_levels n t tenant (grant_children t tenant level)))"

definition delegation_fits :: "delegation_row \<Rightarrow> bool" where
  "delegation_fits d \<longleftrightarrow> in_i32 (dl_version d) \<and> in_i64 (dl_fence d)"

definition delegation_ok :: "delegation_row \<Rightarrow> bool" where
  "delegation_ok d \<longleftrightarrow> dl_principal_type d \<in> {''USER'', ''SERVICE'', ''AUTOMATION'', ''SUPPORT''}
     \<and> dl_state d \<in> {''ACTIVE'', ''REVOKED'', ''EXPIRED''} \<and> 0 < dl_version d \<and> 0 < dl_fence d"

definition grant_json :: "platform \<Rightarrow> delegation_row \<Rightarrow> json" where
  "grant_json pf d =
     JObj [(''grant_id'', ser_uuid pf (dl_id d)),
           (''tenant_id'', ser_uuid pf (dl_tenant d)),
           (''principal'', JObj [(''type'', JStr (dl_principal_type d)),
                                 (''id'', JStr (dl_principal_id d)),
                                 (''issuer'', JStr (dl_issuer d))]),
           (''actions'', JArr (map JStr (dl_actions d))),
           (''resources'', dl_resources d),
           (''expires_at'', ser_time pf (dl_expires_at d)),
           (''parent_grant_id'', ser_option (ser_uuid pf) (dl_parent_grant_id d)),
           (''state'', JStr (dl_state d)),
           (''version'', JNum (dl_version d))]"

definition revoked_row :: "delegation_row \<Rightarrow> delegation_row" where
  "revoked_row d =
     d\<lparr>dl_state := ''REVOKED'', dl_version := dl_version d + 1, dl_fence := dl_fence d + 1\<rparr>"

definition revoke_grant ::
    "platform \<Rightarrow> database \<Rightarrow> authorized_command \<Rightarrow> (mutation \<times> database) outcome" where
  "revoke_grant pf s command =
     rbind (parse_uuid pf (ca_tenant_id (ac_actor command))) (\<lambda>tenant.
     rbind (field de_string (ac_input command) ''grant_id'') (\<lambda>grant_text.
     rbind (parse_uuid pf grant_text) (\<lambda>i.
     rbind (field de_i32 (ac_input command) ''expected_version'') (\<lambda>expected.
     rbind (field de_string (ac_input command) ''reason'') (\<lambda>reason.
     if is_blank reason then Inl (invalid ''REASON_REQUIRED'')
     else
     rbind (ok_or not_found (row_at delegation_key (tenant, i) (tb_delegations s))) (\<lambda>d.
     rbind (require_expected_version (dl_version d) expected) (\<lambda>version.
     if dl_state d \<noteq> ''ACTIVE'' then Inl (conflict ''ILLEGAL_TRANSITION'')
     else
     (case descendant_levels (Suc (length (tb_delegations s))) (tb_delegations s) tenant [i] of
        None \<Rightarrow> Inl (database_failure (Some ''57014''))
      | Some ids \<Rightarrow>
          (let hit = (\<lambda>d. dl_tenant d = tenant \<and> dl_id d \<in> set ids \<and> dl_state d = ''ACTIVE'') in
           rbind (sql (update_rows hit revoked_row delegation_fits delegation_ok (tb_delegations s))) (\<lambda>t.
           Inr (\<lparr> mu_primary = resource_ref_of pf ''Delegation'' i version,
                  mu_changes = map (\<lambda>d. \<lparr> pc_resource =
                        resource_ref_of pf ''Delegation'' (dl_id d) (dl_version d),
                      pc_value = grant_json pf d, pc_label = ''Revoked delegation'',
                      pc_source_artifacts = [] \<rparr>) (map revoked_row (filter hit (tb_delegations s))),
                  mu_run_id = None, mu_effect_id = None, mu_accepted = False \<rparr>,
                s\<lparr>tb_delegations := t\<rparr>)))))))))))"

section \<open>Facts\<close>

lemma descendant_levels_start:
  "descendant_levels (Suc n) t tenant (i # is) = Some ids \<Longrightarrow> i \<in> set ids"
  by (auto split: option.splits)

lemma descendant_levels_closed:
  assumes "descendant_levels n t tenant level = Some ids" and "p \<in> set level \<or> p \<in> set ids"
    and "d \<in> set t" and "dl_tenant d = tenant" and "dl_parent_grant_id d = Some p"
  shows "dl_id d \<in> set ids"
  using assms(1,2)
proof (induction n arbitrary: level ids)
  case 0
  then show ?case by (auto split: if_splits)
next
  case (Suc n)
  show ?case
  proof (cases "level = []")
    case True
    with Suc.prems show ?thesis by auto
  next
    case False
    with Suc.prems(1) obtain rest where rest: "descendant_levels n t tenant (grant_children t tenant level) = Some rest"
      and ids: "ids = level @ rest" by (auto split: option.splits)
    have child: "dl_id d \<in> set (grant_children t tenant level)" if "p \<in> set level"
      using that assms(3-5) by (auto simp: grant_children_def intro!: image_eqI)
    have sub: "set (grant_children t tenant level) \<subseteq> set rest"
      using rest by (cases n) (auto split: if_splits option.splits)
    show ?thesis
    proof (cases "p \<in> set level")
      case True
      with child sub ids show ?thesis by auto
    next
      case False
      with Suc.prems(2) ids have "p \<in> set rest" by auto
      with Suc.IH [OF rest] ids show ?thesis by auto
    qed
  qed
qed

lemma ancestry_update:
  assumes "\<And>d. dl_tenant (f d) = dl_tenant d \<and> dl_id (f d) = dl_id d
             \<and> dl_parent_grant_id (f d) = dl_parent_grant_id d"
  shows "ancestry (update_where p f t) tenant path i
    = map (\<lambda>d. if p d then f d else d) (ancestry t tenant path i)"
proof (induction t tenant path i rule: ancestry.induct)
  case (1 t tenant path i)
  have row: "row_at delegation_key (tenant, i) (update_where p f t)
      = map_option (\<lambda>d. if p d then f d else d) (row_at delegation_key (tenant, i) t)"
    using assms by (intro row_at_update_where) simp
  show ?case
    using 1 assms
    by (subst (1 2) ancestry.simps) (auto simp: row split: option.splits)
qed

lemma revoke_grant_Inr:
  assumes "revoke_grant pf s command = Inr (m, s')"
  obtains tenant i ids where "parse_uuid pf (ca_tenant_id (ac_actor command)) = Inr tenant"
    "rr_resource_id (mu_primary m) = pf_uuid_show pf i"
    "\<exists>d. row_at delegation_key (tenant, i) (tb_delegations s) = Some d \<and> dl_state d = ''ACTIVE''"
    "descendant_levels (Suc (length (tb_delegations s))) (tb_delegations s) tenant [i] = Some ids"
    "s' = s\<lparr>tb_delegations := update_where
       (\<lambda>d. dl_tenant d = tenant \<and> dl_id d \<in> set ids \<and> dl_state d = ''ACTIVE'') revoked_row
       (tb_delegations s)\<rparr>"
  using assms
  by (auto simp: revoke_grant_def rbind_Inr_iff ok_or_Inr_iff sql_Inr_iff update_rows_Inr_iff Let_def
      split: if_splits option.splits intro!: that)

lemma revoked_row_simps [simp]:
  "dl_tenant (revoked_row d) = dl_tenant d" "dl_id (revoked_row d) = dl_id d"
  "dl_parent_grant_id (revoked_row d) = dl_parent_grant_id d" "dl_state (revoked_row d) = ''REVOKED''"
  "dl_fence (revoked_row d) = dl_fence d + 1"
  by (simp_all add: revoked_row_def)

lemma ancestry_tenant: "d \<in> set (ancestry t tenant path i) \<Longrightarrow> d \<in> set t \<and> dl_tenant d = tenant"
proof (induction t tenant path i rule: ancestry.induct)
  case (1 t tenant path i)
  from "1.prems" have "d \<in> set (if i \<in> set path then []
      else case row_at delegation_key (tenant, i) t of None \<Rightarrow> []
        | Some d \<Rightarrow> d # (case dl_parent_grant_id d of None \<Rightarrow> []
            | Some parent \<Rightarrow> ancestry t tenant (path @ [i]) parent))"
    by (subst (asm) ancestry.simps)
  then obtain q where q: "i \<notin> set path" "row_at delegation_key (tenant, i) t = Some q"
    and "d = q \<or> (\<exists>p. dl_parent_grant_id q = Some p \<and> d \<in> set (ancestry t tenant (path @ [i]) p))"
    by (cases "row_at delegation_key (tenant, i) t")
      (simp_all split: if_splits, cases "dl_parent_grant_id (the (row_at delegation_key (tenant, i) t))", auto)
  with "1.IH" [OF q] row_at_SomeD [OF q(2)] show ?case by auto
qed

section \<open>Properties\<close>

text \<open>
  A grant is honoured only together with its whole ancestry. When the check succeeds, the
  grant and every grant it was derived from are active and unexpired at that time, the actor is
  its creator or its delegate, and the requested action and resource are within its scope.
\<close>

theorem active_grant_covers_ancestry:
  assumes "require_active_grant pf s now actor i act resource = Inr g"
    and "parse_uuid pf (ca_tenant_id actor) = Inr tenant"
  shows "(\<forall>d \<in> set (ancestry (tb_delegations s) tenant [] i).
           dl_state d = ''ACTIVE'' \<and> now < dl_expires_at d)
    \<and> (\<exists>d \<in> set (ancestry (tb_delegations s) tenant [] i). dl_id d = i
         \<and> (pf_uuid_show pf (dl_creator_id d) = ca_principal_id actor
            \<or> dl_principal_id d = ca_principal_id actor \<and> dl_issuer d = ca_issuer actor)
         \<and> (\<forall>a. act = Some a \<longrightarrow> a \<in> set (dl_actions d))
         \<and> (\<forall>r. resource = Some r \<longrightarrow> r \<in> set (ag_resources g)) \<and> ag_fence g = dl_fence d)"
proof -
  let ?rows = "ancestry (tb_delegations s) tenant [] i"
  from assms obtain d where "find (\<lambda>d. dl_id d = i) ?rows = Some d"
    and rest: "\<not> list_ex (\<lambda>d. dl_state d \<noteq> ''ACTIVE'' \<or> dl_expires_at d \<le> now) ?rows"
      "pf_uuid_show pf (dl_creator_id d) = ca_principal_id actor
       \<or> dl_principal_id d = ca_principal_id actor \<and> dl_issuer d = ca_issuer actor"
      "\<forall>a. act = Some a \<longrightarrow> a \<in> set (dl_actions d)"
      "\<forall>r. resource = Some r \<longrightarrow> r \<in> set (ag_resources g)" "ag_fence g = dl_fence d"
    by (auto simp: require_active_grant_def rbind_Inr_iff ok_or_Inr_iff Let_def stored_def
        split: if_splits option.splits)
  then have "d \<in> set ?rows" and "dl_id d = i" by (auto simp: find_Some_iff)
  with rest show ?thesis by (fastforce simp: list_ex_iff not_le)
qed

definition sample_grant :: "uuid \<Rightarrow> uuid option \<Rightarrow> delegation_row" where
  "sample_grant i parent = \<lparr> dl_tenant = 1, dl_id = i, dl_principal_id = ''5'',
     dl_principal_type = ''USER'', dl_issuer = ''i'', dl_creator_id = 2,
     dl_actions = [''run.start''], dl_resources = JArr [], dl_parent_grant_id = parent,
     dl_expires_at = 100, dl_state = ''ACTIVE'', dl_version = 1, dl_fence = 1 \<rparr>"

definition sample_actor :: command_actor where
  "sample_actor = \<lparr> ca_tenant_id = ''1'', ca_principal_id = ''2'', ca_issuer = ''i'',
     ca_membership_epoch = 1, ca_permission_epoch = 1, ca_policy_version = ''1'', ca_policy_epoch = 1 \<rparr>"

definition grants_db :: database where
  "grants_db = sample_db\<lparr>tb_delegations :=
     [sample_grant 3 None, sample_grant 4 (Some 3), sample_grant 6 (Some 4), sample_grant 8 None]\<rparr>"

definition sample_revoke :: authorized_command where
  "sample_revoke = \<lparr> ac_actor = sample_actor, ac_operation = ''grant.revoke'',
     ac_idempotency_key = ''k'', ac_fingerprint = [],
     ac_input = JObj [(''grant_id'', JStr ''3''), (''expected_version'', JNum 1),
                      (''reason'', JStr ''left'')] \<rparr>"

theorem active_grant_covers_ancestry_witness:
  "is_ok (require_active_grant sample_platform grants_db 99 sample_actor 6 (Some ''run.start'') None)
   \<and> (\<exists>d \<in> set (ancestry (tb_delegations grants_db) 1 [] 6). dl_id d = 6)"
proof -
  have o: "is_ok (require_active_grant sample_platform grants_db 99 sample_actor 6 (Some ''run.start'') None)"
    by code_simp
  then obtain g where g: "require_active_grant sample_platform grants_db 99 sample_actor 6
      (Some ''run.start'') None = Inr g" by (auto simp: is_ok_iff)
  have p: "parse_uuid sample_platform (ca_tenant_id sample_actor) = Inr 1" by code_simp
  from active_grant_covers_ancestry [OF g p] o show ?thesis by blast
qed

text \<open>
  C22: revoking a grant closes its whole subtree. After a successful revocation every grant that
  has the revoked one among its ancestors is refused, for every actor of the tenant, at every
  time; the rows of the subtree that were active are revoked with a raised fence.
\<close>

theorem revocation_closes_subtree:
  assumes "revoke_grant pf s command = Inr (m, s')"
    and "parse_uuid pf (ca_tenant_id (ac_actor command)) = Inr tenant"
    and "rr_resource_id (mu_primary m) = pf_uuid_show pf i" and "uuid_text_ok pf"
    and "a \<in> set (ancestry (tb_delegations s) tenant [] g)" and "dl_id a = i"
    and "parse_uuid pf (ca_tenant_id actor) = Inr tenant"
  shows "require_active_grant pf s' now actor g act resource = Inl (denied ''GRANT_REVOKED_OR_EXPIRED'')"
  using assms(1)
proof (rule revoke_grant_Inr)
  fix t j ids
  assume t: "parse_uuid pf (ca_tenant_id (ac_actor command)) = Inr t"
    and j: "rr_resource_id (mu_primary m) = pf_uuid_show pf j"
    and lv: "descendant_levels (Suc (length (tb_delegations s))) (tb_delegations s) t [j] = Some ids"
    and s': "s' = s\<lparr>tb_delegations := update_where
       (\<lambda>d. dl_tenant d = t \<and> dl_id d \<in> set ids \<and> dl_state d = ''ACTIVE'') revoked_row
       (tb_delegations s)\<rparr>"
  let ?hit = "\<lambda>d. dl_tenant d = t \<and> dl_id d \<in> set ids \<and> dl_state d = ''ACTIVE''"
  have e: "t = tenant" "j = i"
    using t j assms(2-4) by (simp_all add: uuid_text_ok_def) (metis option.inject)
  have "i \<in> set ids" using descendant_levels_start [OF lv] e by simp
  moreover have "dl_tenant a = tenant" using ancestry_tenant [OF assms(5)] by simp
  ultimately have "dl_state (if ?hit a then revoked_row a else a) \<noteq> ''ACTIVE''"
    using assms(6) e by auto
  moreover have "ancestry (tb_delegations s') tenant [] g
      = map (\<lambda>d. if ?hit d then revoked_row d else d) (ancestry (tb_delegations s) tenant [] g)"
    unfolding s' by (simp add: ancestry_update)
  ultimately obtain b where b: "b \<in> set (ancestry (tb_delegations s') tenant [] g)" "dl_state b \<noteq> ''ACTIVE''"
    using assms(5) by (metis (no_types, lifting) imageI list.set_map)
  then have "list_ex (\<lambda>d. dl_state d \<noteq> ''ACTIVE'' \<or> dl_expires_at d \<le> now)
        (ancestry (tb_delegations s') tenant [] g)"
    and "ancestry (tb_delegations s') tenant [] g \<noteq> []"
    unfolding list_ex_iff by auto
  then show ?thesis using assms(7) by (simp add: require_active_grant_def Let_def)
qed

theorem revocation_closes_subtree_witness:
  "\<exists>m s'. revoke_grant sample_platform grants_db sample_revoke = Inr (m, s')
     \<and> require_active_grant sample_platform s' 99 sample_actor 6 (Some ''run.start'') None
         = Inl (denied ''GRANT_REVOKED_OR_EXPIRED'')"
proof -
  have "(case revoke_grant sample_platform grants_db sample_revoke of Inl _ \<Rightarrow> False
      | Inr (m, _) \<Rightarrow> rr_resource_id (mu_primary m) = pf_uuid_show sample_platform 3)"
    by code_simp
  then obtain m s' where r: "revoke_grant sample_platform grants_db sample_revoke = Inr (m, s')"
    and m: "rr_resource_id (mu_primary m) = pf_uuid_show sample_platform 3"
    by (auto split: sum.splits)
  have p: "parse_uuid sample_platform (ca_tenant_id (ac_actor sample_revoke)) = Inr 1"
    "parse_uuid sample_platform (ca_tenant_id sample_actor) = Inr 1" by code_simp+
  have "3 \<in> dl_id ` set (ancestry (tb_delegations grants_db) 1 [] 6)" by code_simp
  then obtain a where a: "a \<in> set (ancestry (tb_delegations grants_db) 1 [] 6)" "dl_id a = 3" by auto
  from revocation_closes_subtree [OF r p(1) m sample_platform_ok a p(2)] r show ?thesis by blast
qed

end
