(* ===== verification/Effect_Commands.thy ===== *)
theory Effect_Commands
  imports Budget_Ledger Delegation
begin

text \<open>
  External effects in the PostgreSQL adapter (\<open>effect_commands.rs\<close>): propose, dispatch, reconcile
  and compensate as commands; unknown outcome, success and reconciliation evidence as system
  transactions of a worker. Each works on the effect row and, through the budget ledger, on the
  reservation that pays for it.
\<close>

section \<open>Constraints of the tables\<close>

fun is_object :: "json \<Rightarrow> bool" where
  "is_object (JObj _) = True"
| "is_object _ = False"

definition effect_states :: "string set" where
  "effect_states = {''PREPARED'', ''WAITING_APPROVAL'', ''AUTHORIZED'', ''EXECUTING'', ''SUCCEEDED'',
     ''FAILED_CONFIRMED'', ''OUTCOME_UNKNOWN'', ''RECONCILING'', ''MANUAL_REVIEW'', ''CANCELLED''}"

definition effect_ok :: "effect_row \<Rightarrow> bool" where
  "effect_ok e \<longleftrightarrow> is_object (ef_target e) \<and> is_object (ef_content_ref e)
     \<and> is_ok (digest_parse (ef_fingerprint e)) \<and> ef_state e \<in> effect_states
     \<and> 0 \<le> ef_transmit_count e \<and> 0 < ef_dispatch_fence e \<and> 0 < ef_version e"

definition effect_fits :: "effect_row \<Rightarrow> bool" where
  "effect_fits e \<longleftrightarrow> in_i32 (ef_transmit_count e) \<and> in_i64 (ef_dispatch_fence e) \<and> in_i32 (ef_version e)"

definition update_effect ::
    "uuid \<Rightarrow> uuid \<Rightarrow> (effect_row \<Rightarrow> effect_row) \<Rightarrow> database \<Rightarrow> database outcome" where
  "update_effect tenant effect_id f s =
     rbind (sql (update_rows (\<lambda>e. effect_key e = (tenant, effect_id)) f effect_fits effect_ok
             (tb_effects s)))
       (\<lambda>t. Inr (s\<lparr>tb_effects := t\<rparr>))"

definition insert_effect :: "effect_row \<Rightarrow> database \<Rightarrow> database outcome" where
  "insert_effect e s =
     rbind (sql (insert_row effect_ok
         (\<lambda>e e'. ef_tenant e' = ef_tenant e \<and> (ef_id e' = ef_id e
            \<or> ef_connection_id e' = ef_connection_id e \<and> ef_idempotency_key e' = ef_idempotency_key e))
         (row_at run_key (ef_tenant e, ef_run_id e) (tb_runs s) \<noteq> None
          \<and> row_at delegation_key (ef_tenant e, ef_grant_id e) (tb_delegations s) \<noteq> None
          \<and> list_ex (\<lambda>c. cn_tenant c = ef_tenant e \<and> cn_id c = ef_connection_id e) (tb_connections s)
          \<and> (case ef_approval_id e of None \<Rightarrow> True | Some a \<Rightarrow>
                row_at approval_key (ef_tenant e, a) (tb_approvals s) \<noteq> None)
          \<and> row_at res_key (ef_tenant e, ef_reservation_id e) (tb_cost_reservations s) \<noteq> None
          \<and> (case ef_original_effect_id e of None \<Rightarrow> True | Some i \<Rightarrow>
                row_at effect_key (ef_tenant e, i) (tb_effects s) \<noteq> None))
         e (tb_effects s)))
       (\<lambda>t. Inr (s\<lparr>tb_effects := t\<rparr>))"

definition insert_effect_receipt :: "effect_receipt_row \<Rightarrow> database \<Rightarrow> database outcome" where
  "insert_effect_receipt r s =
     rbind (sql (insert_row
         (\<lambda>r. et_outcome r \<in> {''SUCCEEDED'', ''FAILED_CONFIRMED'', ''PROVEN_ABSENT''}
            \<and> is_object (et_evidence_ref r))
         (\<lambda>r r'. et_tenant r' = et_tenant r \<and> (et_id r' = et_id r \<or> et_effect_id r' = et_effect_id r))
         (row_at effect_key (et_tenant r, et_effect_id r) (tb_effects s) \<noteq> None)
         r (tb_effect_receipts s)))
       (\<lambda>t. Inr (s\<lparr>tb_effect_receipts := t\<rparr>))"

section \<open>Shared pieces\<close>

definition effect_projection_value ::
    "platform \<Rightarrow> uuid \<Rightarrow> uuid \<Rightarrow> uuid \<Rightarrow> string \<Rightarrow> uuid \<Rightarrow> resource_ref \<Rightarrow> artifact_ref \<Rightarrow> string
     \<Rightarrow> string \<Rightarrow> uuid option \<Rightarrow> uuid \<Rightarrow> string \<Rightarrow> int \<Rightarrow> timestamp \<Rightarrow> json" where
  "effect_projection_value pf effect_id tenant run_id action connection_id target content_ref
     fingerprint idempotency_key approval_id reservation_id state version created_at =
     JObj [(''effect_id'', ser_uuid pf effect_id),
           (''tenant_id'', ser_uuid pf tenant),
           (''run_id'', ser_uuid pf run_id),
           (''action'', JStr action),
           (''connection_id'', ser_uuid pf connection_id),
           (''target'', ser_resource_ref target),
           (''content_ref'', ser_artifact_ref content_ref),
           (''fingerprint'', JStr fingerprint),
           (''idempotency_key'', JStr idempotency_key),
           (''approval_id'', ser_option (ser_uuid pf) approval_id),
           (''reservation_id'', ser_uuid pf reservation_id),
           (''state'', JStr state),
           (''version'', JNum version),
           (''created_at'', ser_time pf created_at)]"

text \<open>The mutation over a stored row, after its \<open>target\<close> and \<open>content_ref\<close> columns were read.\<close>

definition effect_mutation ::
    "platform \<Rightarrow> effect_row \<Rightarrow> resource_ref \<Rightarrow> artifact_ref \<Rightarrow> string \<Rightarrow> int \<Rightarrow> string \<Rightarrow> mutation" where
  "effect_mutation pf e target content_ref state version label =
     (mutation_one pf ''EffectIntent'' (ef_id e) version
        (effect_projection_value pf (ef_id e) (ef_tenant e) (ef_run_id e) (ef_action e)
           (ef_connection_id e) target content_ref (ef_fingerprint e) (ef_idempotency_key e)
           (ef_approval_id e) (ef_reservation_id e) state version (ef_created_at e)) label)
     \<lparr>mu_run_id := Some (ef_run_id e), mu_effect_id := Some (ef_id e)\<rparr>"

definition effect_refs :: "effect_row \<Rightarrow> (resource_ref \<times> artifact_ref) outcome" where
  "effect_refs e =
     rbind (stored ''EFFECT_INTEGRITY'' de_resource_ref (ef_target e)) (\<lambda>target.
     rbind (stored ''EFFECT_INTEGRITY'' de_artifact_ref (ef_content_ref e)) (\<lambda>content_ref.
     Inr (target, content_ref)))"

definition default_accounts :: "string list" where
  "default_accounts = [''RUN:USD:default'', ''DAY:USD:default'']"

text \<open>The fingerprint of what is transmitted: action, target and content digest.\<close>

definition effect_fingerprint ::
    "platform \<Rightarrow> string \<Rightarrow> json \<Rightarrow> digest \<Rightarrow> digest outcome" where
  "effect_fingerprint pf action target content_digest =
     rbind (ok_or (invalid ''SCHEMA_INVALID'')
             (pf_canonical pf (JObj [(''action'', JStr action), (''target'', target),
                                     (''content_digest'', JStr content_digest)])))
       (\<lambda>bytes. Inr (digest_bytes pf bytes))"

definition locked_effect :: "database \<Rightarrow> uuid \<Rightarrow> uuid \<Rightarrow> effect_row outcome" where
  "locked_effect s tenant effect_id =
     ok_or not_found (row_at effect_key (tenant, effect_id) (tb_effects s))"

section \<open>Commands\<close>

text \<open>\<open>active_run_ids\<close>: the runs of a grant that have not ended.\<close>

definition active_run_ids :: "database \<Rightarrow> uuid \<Rightarrow> uuid \<Rightarrow> uuid list" where
  "active_run_ids s tenant grant_id =
     map rn_id (filter (\<lambda>r. rn_tenant r = tenant \<and> rn_grant_id r = grant_id
        \<and> rn_state r \<notin> {''SUCCEEDED'', ''FAILED'', ''CANCELLED''}) (tb_runs s))"

text \<open>
  The second half of \<open>propose_effect\<close>: a key that is known on the connection is a replay or a
  conflict; otherwise the price bound is reserved and the intent is stored.
\<close>

definition record_proposal ::
    "platform \<Rightarrow> database \<Rightarrow> uuid \<Rightarrow> uuid \<Rightarrow> uuid \<Rightarrow> timestamp \<Rightarrow> timestamp \<Rightarrow> resource_id \<Rightarrow> uuid
     \<Rightarrow> uuid \<Rightarrow> uuid \<Rightarrow> uuid \<Rightarrow> string \<Rightarrow> resource_ref \<Rightarrow> artifact_ref \<Rightarrow> string \<Rightarrow> digest
     \<Rightarrow> (mutation \<times> database) outcome" where
  "record_proposal pf s new_id res_id event_id now_cost now key tenant connection_id grant_id run_id
     action target content_ref price_profile fingerprint =
     (case find (\<lambda>e. ef_tenant e = tenant \<and> ef_connection_id e = connection_id
             \<and> ef_idempotency_key e = key) (tb_effects s) of
       Some e \<Rightarrow>
         if ef_fingerprint e \<noteq> fingerprint then Inl (conflict ''IDEMPOTENCY_CONFLICT'')
         else
           Inr ((mutation_one pf ''EffectIntent'' (ef_id e) (ef_version e)
                   (effect_projection_value pf (ef_id e) tenant run_id action connection_id target
                      content_ref (ef_fingerprint e) key (ef_approval_id e)
                      (ef_reservation_id e) (ef_state e) (ef_version e) (ef_created_at e))
                   ''propose effect replay'')
                \<lparr>mu_run_id := Some run_id, mu_effect_id := Some (ef_id e), mu_accepted := True\<rparr>, s)
     | None \<Rightarrow>
         (let bound = (if price_profile = ''0.0.0'' then 0 else 20) in
          rbind (reserve_budget pf s res_id event_id now_cost tenant run_id
                   (''effect-'' @ key) ''USD'' bound price_profile
                   default_accounts) (\<lambda>(reserved, s1).
          rbind (parse_uuid pf (rr_resource_id (mu_primary reserved))) (\<lambda>reservation_id.
          rbind (insert_effect
                   \<lparr> ef_tenant = tenant, ef_id = new_id, ef_run_id = run_id, ef_grant_id = grant_id,
                     ef_connection_id = connection_id, ef_action = action,
                     ef_target = ser_resource_ref target, ef_content_ref = ser_artifact_ref content_ref,
                     ef_fingerprint = fingerprint, ef_idempotency_key = key,
                     ef_approval_id = None, ef_reservation_id = reservation_id,
                     ef_state = ''PREPARED'', ef_transmit_count = 0, ef_dispatch_fence = 1,
                     ef_lease_expires_at = None, ef_reconciliation_queued = False,
                     ef_original_effect_id = None, ef_version = 1, ef_created_at = now,
                     ef_updated_at = now \<rparr> s1) (\<lambda>s2.
          Inr ((mutation_one pf ''EffectIntent'' new_id 1
                  (effect_projection_value pf new_id tenant run_id action connection_id target
                     content_ref fingerprint key None reservation_id
                     ''PREPARED'' 1 now) ''propose effect'')
               \<lparr>mu_run_id := Some run_id, mu_effect_id := Some new_id, mu_accepted := True\<rparr>, s2))))))"

definition propose_effect ::
    "platform \<Rightarrow> database \<Rightarrow> uuid \<Rightarrow> uuid \<Rightarrow> uuid \<Rightarrow> timestamp \<Rightarrow> timestamp \<Rightarrow> timestamp
     \<Rightarrow> authorized_command \<Rightarrow> (mutation \<times> database) outcome" where
  "propose_effect pf s new_id res_id event_id now_grant now_cost now command =
     rbind (parse_uuid pf (ca_tenant_id (ac_actor command))) (\<lambda>tenant.
     rbind (field de_string (ac_input command) ''action'') (\<lambda>action.
     rbind (rbind (field de_string (ac_input command) ''connection_id'') (parse_uuid pf)) (\<lambda>connection_id.
     rbind (field de_resource_ref (ac_input command) ''target'') (\<lambda>target.
     rbind (field de_artifact_ref (ac_input command) ''content_ref'') (\<lambda>content_ref.
     rbind (rbind (field de_string (ac_input command) ''grant_id'') (parse_uuid pf)) (\<lambda>grant_id.
     rbind (field de_string (ac_input command) ''price_profile'') (\<lambda>price_profile.
     if ar_tenant_id content_ref \<noteq> ca_tenant_id (ac_actor command) then Inl not_found
     else
     rbind (ok_or not_found (find (\<lambda>c. cn_tenant c = tenant \<and> cn_id c = connection_id)
             (tb_connections s))) (\<lambda>connection.
     if cn_state connection \<noteq> ''ACTIVE'' then Inl (precondition ''CONNECTION_NOT_ACTIVE'')
     else
     rbind (require_active_grant pf s now_grant (ac_actor command) grant_id (Some action) (Some target)) (\<lambda>_.
     rbind (require_dispatch_enabled pf s (ac_actor command) None (Some connection_id)) (\<lambda>_.
     rbind (case active_run_ids s tenant grant_id of
              [] \<Rightarrow> Inl (precondition ''RUN_CONTEXT_REQUIRED'')
            | [run_id] \<Rightarrow> Inr run_id
            | _ \<Rightarrow> Inl (conflict ''RUN_CONTEXT_AMBIGUOUS'')) (\<lambda>run_id.
     rbind (effect_fingerprint pf action (ser_resource_ref target) (ar_digest content_ref)) (\<lambda>fingerprint.
     record_proposal pf s new_id res_id event_id now_cost now (ac_idempotency_key command) tenant
       connection_id grant_id run_id action target content_ref price_profile fingerprint))))))))))))"

definition dispatch_effect ::
    "platform \<Rightarrow> database \<Rightarrow> timestamp \<Rightarrow> timestamp \<Rightarrow> timestamp \<Rightarrow> authorized_command
     \<Rightarrow> (mutation \<times> database) outcome" where
  "dispatch_effect pf s now_check now now_lease command =
     rbind (parse_uuid pf (ca_tenant_id (ac_actor command))) (\<lambda>tenant.
     rbind (rbind (field de_string (ac_input command) ''effect_id'') (parse_uuid pf)) (\<lambda>effect_id.
     rbind (field de_i32 (ac_input command) ''expected_version'') (\<lambda>expected.
     rbind (locked_effect s tenant effect_id) (\<lambda>e.
     rbind (require_expected_version (ef_version e) expected) (\<lambda>version.
     rbind (effect_refs e) (\<lambda>(target, content_ref).
     rbind (require_dispatch_enabled pf s (ac_actor command) None (Some (ef_connection_id e))) (\<lambda>_.
     if ef_state e \<in> {''OUTCOME_UNKNOWN'', ''RECONCILING'', ''MANUAL_REVIEW''}
     then Inl (conflict ''OUTCOME_UNKNOWN_BLOCKS_RESEND'')
     else if ef_state e \<notin> {''PREPARED'', ''AUTHORIZED''} then Inl (conflict ''ILLEGAL_TRANSITION'')
     else
     rbind (case ef_approval_id e of
              None \<Rightarrow> Inr ()
            | Some a \<Rightarrow>
                rbind (ok_or (precondition ''APPROVAL_REQUIRED'')
                        (row_at approval_key (tenant, a) (tb_approvals s))) (\<lambda>ap.
                if ap_state ap \<noteq> ''APPROVED'' then Inl (precondition ''APPROVAL_REQUIRED'')
                else if now_check \<ge> ap_expires_at ap then Inl (precondition ''APPROVAL_EXPIRED'')
                else Inr ())) (\<lambda>_.
     rbind (update_effect tenant effect_id
              (\<lambda>e. e\<lparr>ef_state := ''EXECUTING'', ef_transmit_count := ef_transmit_count e + 1,
                     ef_dispatch_fence := ef_dispatch_fence e + 1,
                     ef_lease_expires_at := Some (now_lease + 60000000),
                     ef_version := version, ef_updated_at := now\<rparr>) s) (\<lambda>s1.
     Inr ((effect_mutation pf e target content_ref ''EXECUTING'' version ''dispatch effect'')
            \<lparr>mu_accepted := True\<rparr>, s1))))))))))"

definition reconcile_effect ::
    "platform \<Rightarrow> database \<Rightarrow> timestamp \<Rightarrow> authorized_command \<Rightarrow> (mutation \<times> database) outcome" where
  "reconcile_effect pf s now command =
     rbind (parse_uuid pf (ca_tenant_id (ac_actor command))) (\<lambda>tenant.
     rbind (rbind (field de_string (ac_input command) ''effect_id'') (parse_uuid pf)) (\<lambda>effect_id.
     rbind (field de_i32 (ac_input command) ''expected_version'') (\<lambda>expected.
     rbind (locked_effect s tenant effect_id) (\<lambda>e.
     rbind (require_expected_version (ef_version e) expected) (\<lambda>version.
     if ef_state e \<notin> {''OUTCOME_UNKNOWN'', ''MANUAL_REVIEW''} then Inl (conflict ''ILLEGAL_TRANSITION'')
     else
     rbind (update_effect tenant effect_id
              (\<lambda>e. e\<lparr>ef_state := ''RECONCILING'', ef_reconciliation_queued := True,
                     ef_version := version, ef_updated_at := now\<rparr>) s) (\<lambda>s1.
     rbind (effect_refs e) (\<lambda>(target, content_ref).
     Inr (effect_mutation pf e target content_ref ''RECONCILING'' version ''reconcile effect'', s1))))))))"

definition compensate_effect ::
    "platform \<Rightarrow> database \<Rightarrow> uuid \<Rightarrow> uuid \<Rightarrow> uuid \<Rightarrow> timestamp \<Rightarrow> timestamp \<Rightarrow> authorized_command
     \<Rightarrow> (mutation \<times> database) outcome" where
  "compensate_effect pf s new_id res_id event_id now now_cost command =
     rbind (parse_uuid pf (ca_tenant_id (ac_actor command))) (\<lambda>tenant.
     rbind (rbind (field de_string (ac_input command) ''effect_id'') (parse_uuid pf)) (\<lambda>original_id.
     rbind (field de_artifact_ref (ac_input command) ''compensation_ref'') (\<lambda>compensation_ref.
     rbind (rbind (field de_string (ac_input command) ''approval_id'') (parse_uuid pf)) (\<lambda>approval_id.
     rbind (locked_effect s tenant original_id) (\<lambda>orig.
     if ef_state orig \<notin> {''SUCCEEDED'', ''FAILED_CONFIRMED''}
     then Inl (precondition ''EFFECT_NOT_COMPLETED'')
     else if Some approval_id = ef_approval_id orig
     then Inl (precondition ''SEPARATE_APPROVAL_REQUIRED'')
     else
     rbind (ok_or not_found (row_at approval_key (tenant, approval_id) (tb_approvals s))) (\<lambda>ap.
     if ap_state ap \<noteq> ''APPROVED'' then Inl (precondition ''APPROVAL_REQUIRED'')
     else if list_ex (\<lambda>e. ef_tenant e = tenant \<and> ef_original_effect_id e = Some original_id
               \<and> ef_approval_id e = Some approval_id) (tb_effects s)
     then Inl (precondition ''APPROVAL_ALREADY_USED'')
     else
     (let action = ef_action orig @ ''.compensate'' in
     rbind (effect_fingerprint pf action (ef_target orig) (ar_digest compensation_ref)) (\<lambda>fingerprint.
     rbind (reserve_budget pf s res_id event_id now_cost tenant (ef_run_id orig)
              (''compensate-'' @ pf_uuid_show pf new_id) ''USD'' 20 ''1.0.0'' default_accounts) (\<lambda>(reserved, s1).
     rbind (parse_uuid pf (rr_resource_id (mu_primary reserved))) (\<lambda>reservation_id.
     rbind (insert_effect
              \<lparr> ef_tenant = tenant, ef_id = new_id, ef_run_id = ef_run_id orig,
                ef_grant_id = ef_grant_id orig, ef_connection_id = ef_connection_id orig,
                ef_action = action, ef_target = ef_target orig,
                ef_content_ref = ser_artifact_ref compensation_ref, ef_fingerprint = fingerprint,
                ef_idempotency_key = ac_idempotency_key command, ef_approval_id = Some approval_id,
                ef_reservation_id = reservation_id, ef_state = ''AUTHORIZED'', ef_transmit_count = 0,
                ef_dispatch_fence = 1, ef_lease_expires_at = None, ef_reconciliation_queued = False,
                ef_original_effect_id = Some original_id, ef_version = 1, ef_created_at = now,
                ef_updated_at = now \<rparr> s1) (\<lambda>s2.
     rbind (stored ''EFFECT_INTEGRITY'' de_resource_ref (ef_target orig)) (\<lambda>target.
     Inr ((mutation_one pf ''EffectIntent'' new_id 1
             (effect_projection_value pf new_id tenant (ef_run_id orig) action (ef_connection_id orig)
                target compensation_ref fingerprint (ac_idempotency_key command) (Some approval_id)
                reservation_id ''AUTHORIZED'' 1 now) ''compensate effect'')
          \<lparr>mu_run_id := Some (ef_run_id orig), mu_effect_id := Some new_id\<rparr>, s2)))))))))))))"

section \<open>System transactions of the worker\<close>

definition record_effect_unknown ::
    "platform \<Rightarrow> database \<Rightarrow> uuid \<Rightarrow> timestamp \<Rightarrow> timestamp \<Rightarrow> uuid \<Rightarrow> uuid \<Rightarrow> (mutation \<times> database) outcome" where
  "record_effect_unknown pf s event_id now now_cost tenant effect_id =
     rbind (begin_system s tenant) (\<lambda>_.
     rbind (locked_effect s tenant effect_id) (\<lambda>e.
     if ef_state e \<noteq> ''EXECUTING'' then Inl (conflict ''ILLEGAL_TRANSITION'')
     else
     (let new_version = wrap_i32 (ef_version e + 1) in
     rbind (update_effect tenant effect_id
              (\<lambda>e. e\<lparr>ef_state := ''OUTCOME_UNKNOWN'', ef_reconciliation_queued := True,
                     ef_version := new_version, ef_updated_at := now\<rparr>) s) (\<lambda>s1.
     rbind (mark_cost_unknown pf s1 event_id now_cost tenant (ef_reservation_id e)) (\<lambda>(_, s2).
     rbind (effect_refs e) (\<lambda>(target, content_ref).
     Inr (effect_mutation pf e target content_ref ''OUTCOME_UNKNOWN'' new_version
            ''effect outcome unknown'', s2)))))))"

definition record_effect_succeeded ::
    "platform \<Rightarrow> database \<Rightarrow> uuid \<Rightarrow> uuid \<Rightarrow> timestamp \<Rightarrow> timestamp \<Rightarrow> uuid \<Rightarrow> uuid \<Rightarrow> string
     \<Rightarrow> artifact_ref \<Rightarrow> int \<Rightarrow> (mutation \<times> database) outcome" where
  "record_effect_succeeded pf s receipt_id event_id now now_cost tenant effect_id remote_id
     evidence_ref used =
     rbind (begin_system s tenant) (\<lambda>_.
     rbind (locked_effect s tenant effect_id) (\<lambda>e.
     if ef_state e \<notin> {''EXECUTING'', ''RECONCILING''} then Inl (conflict ''ILLEGAL_TRANSITION'')
     else
     (let new_version = wrap_i32 (ef_version e + 1) in
     rbind (update_effect tenant effect_id
              (\<lambda>e. e\<lparr>ef_state := ''SUCCEEDED'', ef_reconciliation_queued := False,
                     ef_version := new_version, ef_updated_at := now\<rparr>) s) (\<lambda>s1.
     rbind (insert_effect_receipt
              \<lparr> et_tenant = tenant, et_id = receipt_id, et_effect_id = effect_id,
                et_outcome = ''SUCCEEDED'', et_remote_id = Some remote_id,
                et_remote_version = Some ''1'', et_remote_url = None,
                et_evidence_ref = ser_artifact_ref evidence_ref,
                et_provider_contract_version = ''1.0.0'', et_observed_at = now \<rparr> s1) (\<lambda>s2.
     rbind (settle_budget pf s2 event_id now_cost tenant (ef_reservation_id e) used
              (Some (ef_fingerprint e))) (\<lambda>(_, s3).
     rbind (effect_refs e) (\<lambda>(target, content_ref).
     Inr (effect_mutation pf e target content_ref ''SUCCEEDED'' new_version ''effect succeeded'',
          s3))))))))"

fun evidence_outcome :: "reconciliation_evidence \<Rightarrow> string \<times> string \<times> bool" where
  "evidence_outcome ConfirmedFailure = (''FAILED_CONFIRMED'', ''effect failed confirmed'', True)"
| "evidence_outcome ProvenAbsentAndReauthorized =
     (''AUTHORIZED'', ''effect proven absent reauthorized'', False)"
| "evidence_outcome _ = (''MANUAL_REVIEW'', ''effect manual review'', False)"

fun evidence_from :: "reconciliation_evidence \<Rightarrow> string set" where
  "evidence_from ProvenAbsentAndReauthorized = {''RECONCILING''}"
| "evidence_from Unresolved = {''RECONCILING''}"
| "evidence_from _ = {''EXECUTING'', ''RECONCILING''}"

definition apply_reconciliation_evidence ::
    "platform \<Rightarrow> database \<Rightarrow> uuid \<Rightarrow> uuid \<Rightarrow> timestamp \<Rightarrow> timestamp \<Rightarrow> uuid \<Rightarrow> uuid
     \<Rightarrow> reconciliation_evidence \<Rightarrow> string option \<Rightarrow> artifact_ref option \<Rightarrow> int option
     \<Rightarrow> (mutation \<times> database) outcome" where
  "apply_reconciliation_evidence pf s receipt_id event_id now now_cost tenant effect_id evidence
     remote_id evidence_ref used =
     (if evidence = ConfirmedPresent then
        rbind (ok_or (invalid ''REMOTE_ID_REQUIRED'') remote_id) (\<lambda>remote_id.
        rbind (ok_or (invalid ''EVIDENCE_REF_REQUIRED'') evidence_ref) (\<lambda>evidence_ref.
        record_effect_succeeded pf s receipt_id event_id now now_cost tenant effect_id remote_id
          evidence_ref (case used of None \<Rightarrow> 12 | Some u \<Rightarrow> u)))
      else
        (case evidence_outcome evidence of (next_state, label, release) \<Rightarrow>
         rbind (begin_system s tenant) (\<lambda>_.
         rbind (locked_effect s tenant effect_id) (\<lambda>e.
         if ef_state e \<notin> evidence_from evidence then Inl (conflict ''ILLEGAL_TRANSITION'')
         else
         (let new_version = wrap_i32 (ef_version e + 1) in
         rbind (update_effect tenant effect_id
                  (\<lambda>e. e\<lparr>ef_state := next_state, ef_reconciliation_queued := False,
                         ef_version := new_version, ef_updated_at := now\<rparr>) s) (\<lambda>s1.
         rbind (if release
                then rbind (release_budget pf s1 event_id now_cost tenant (ef_reservation_id e))
                       (\<lambda>(_, s2). Inr s2)
                else Inr s1) (\<lambda>s2.
         rbind (effect_refs e) (\<lambda>(target, content_ref).
         Inr (effect_mutation pf e target content_ref next_state new_version label, s2)))))))))"

section \<open>Any sequence of effect transactions\<close>

text \<open>The transactions with the identifiers, clocks and evidence they are given.\<close>

datatype effect_txn =
    ProposeTx uuid uuid uuid timestamp timestamp timestamp authorized_command
  | DispatchTx timestamp timestamp timestamp authorized_command
  | ReconcileTx timestamp authorized_command
  | CompensateTx uuid uuid uuid timestamp timestamp authorized_command
  | UnknownTx uuid timestamp timestamp uuid uuid
  | SucceededTx uuid uuid timestamp timestamp uuid uuid string artifact_ref int
  | EvidenceTx uuid uuid timestamp timestamp uuid uuid reconciliation_evidence "string option"
      "artifact_ref option" "int option"

fun effect_txn_run :: "platform \<Rightarrow> database \<Rightarrow> effect_txn \<Rightarrow> (mutation \<times> database) outcome" where
  "effect_txn_run pf s (ProposeTx i r e ng nc now c) = propose_effect pf s i r e ng nc now c"
| "effect_txn_run pf s (DispatchTx nc now nl c) = dispatch_effect pf s nc now nl c"
| "effect_txn_run pf s (ReconcileTx now c) = reconcile_effect pf s now c"
| "effect_txn_run pf s (CompensateTx i r e now nc c) = compensate_effect pf s i r e now nc c"
| "effect_txn_run pf s (UnknownTx e now nc tenant i) = record_effect_unknown pf s e now nc tenant i"
| "effect_txn_run pf s (SucceededTx r e now nc tenant i remote ref used) =
     record_effect_succeeded pf s r e now nc tenant i remote ref used"
| "effect_txn_run pf s (EvidenceTx r e now nc tenant i ev remote ref used) =
     apply_reconciliation_evidence pf s r e now nc tenant i ev remote ref used"

definition effect_txn_step :: "platform \<Rightarrow> database \<Rightarrow> effect_txn \<Rightarrow> database outcome" where
  "effect_txn_step pf s a = rbind (effect_txn_run pf s a) (\<lambda>(m, s'). Inr s')"

text \<open>The effect whose absence at the provider a transaction proves, if any.\<close>

fun proves_absence :: "effect_txn \<Rightarrow> (uuid \<times> uuid) option" where
  "proves_absence (EvidenceTx _ _ _ _ tenant i ProvenAbsentAndReauthorized _ _ _) = Some (tenant, i)"
| "proves_absence _ = None"

definition dispatched :: "timestamp \<Rightarrow> int \<Rightarrow> timestamp \<Rightarrow> effect_row \<Rightarrow> effect_row" where
  "dispatched lease version now e =
     e\<lparr>ef_state := ''EXECUTING'', ef_transmit_count := ef_transmit_count e + 1,
       ef_dispatch_fence := ef_dispatch_fence e + 1, ef_lease_expires_at := Some lease,
       ef_version := version, ef_updated_at := now\<rparr>"

definition moved_to :: "string \<Rightarrow> bool \<Rightarrow> int \<Rightarrow> timestamp \<Rightarrow> effect_row \<Rightarrow> effect_row" where
  "moved_to state queued version now e =
     e\<lparr>ef_state := state, ef_reconciliation_queued := queued, ef_version := version,
       ef_updated_at := now\<rparr>"

text \<open>
  What a committed effect transaction did, as a step relation: the statements it ran on the effect
  and on the ledger. \<open>w\<close> is the effect whose absence the transaction proves.
\<close>

inductive effect_change ::
    "platform \<Rightarrow> (uuid \<times> uuid) option \<Rightarrow> database \<Rightarrow> database \<Rightarrow> bool" for pf w where
  Replay: "effect_change pf w s s"
| Create: "reserve_budget pf s res_id event_id now tenant run call cur bound price keys = Inr (m, s1) \<Longrightarrow>
    parse_uuid pf (rr_resource_id (mu_primary m)) = Inr rid \<Longrightarrow> insert_effect e s1 = Inr s' \<Longrightarrow>
    ef_tenant e = tenant \<Longrightarrow> ef_reservation_id e = rid \<Longrightarrow>
    ef_state e \<in> {''PREPARED'', ''AUTHORIZED''} \<Longrightarrow> ef_transmit_count e = 0 \<Longrightarrow> effect_change pf w s s'"
| Dispatch: "row_at effect_key (tenant, i) (tb_effects s) = Some e \<Longrightarrow>
    ef_state e \<in> {''PREPARED'', ''AUTHORIZED''} \<Longrightarrow>
    update_effect tenant i (dispatched lease v now) s = Inr s' \<Longrightarrow> effect_change pf w s s'"
| Lookup: "row_at effect_key (tenant, i) (tb_effects s) = Some e \<Longrightarrow>
    ef_state e \<in> {''OUTCOME_UNKNOWN'', ''MANUAL_REVIEW''} \<Longrightarrow>
    update_effect tenant i (moved_to ''RECONCILING'' True v now) s = Inr s' \<Longrightarrow> effect_change pf w s s'"
| Timeout: "row_at effect_key (tenant, i) (tb_effects s) = Some e \<Longrightarrow> ef_state e = ''EXECUTING'' \<Longrightarrow>
    update_effect tenant i (moved_to ''OUTCOME_UNKNOWN'' True v now) s = Inr s1 \<Longrightarrow>
    mark_cost_unknown pf s1 event_id now_cost tenant (ef_reservation_id e) = Inr (m, s') \<Longrightarrow>
    effect_change pf w s s'"
| Success: "row_at effect_key (tenant, i) (tb_effects s) = Some e \<Longrightarrow>
    ef_state e \<in> {''EXECUTING'', ''RECONCILING''} \<Longrightarrow>
    update_effect tenant i (moved_to ''SUCCEEDED'' False v now) s = Inr s1 \<Longrightarrow>
    insert_effect_receipt r s1 = Inr s2 \<Longrightarrow>
    settle_budget pf s2 event_id now_cost tenant (ef_reservation_id e) used fp = Inr (m, s') \<Longrightarrow>
    effect_change pf w s s'"
| Failure: "row_at effect_key (tenant, i) (tb_effects s) = Some e \<Longrightarrow>
    ef_state e \<in> {''EXECUTING'', ''RECONCILING''} \<Longrightarrow>
    update_effect tenant i (moved_to ''FAILED_CONFIRMED'' False v now) s = Inr s1 \<Longrightarrow>
    release_budget pf s1 event_id now_cost tenant (ef_reservation_id e) = Inr (m, s') \<Longrightarrow>
    effect_change pf w s s'"
| Absent: "row_at effect_key (tenant, i) (tb_effects s) = Some e \<Longrightarrow> ef_state e = ''RECONCILING'' \<Longrightarrow>
    w = Some (tenant, i) \<Longrightarrow>
    update_effect tenant i (moved_to ''AUTHORIZED'' False v now) s = Inr s' \<Longrightarrow> effect_change pf w s s'"
| Review: "row_at effect_key (tenant, i) (tb_effects s) = Some e \<Longrightarrow> ef_state e = ''RECONCILING'' \<Longrightarrow>
    update_effect tenant i (moved_to ''MANUAL_REVIEW'' False v now) s = Inr s' \<Longrightarrow> effect_change pf w s s'"

lemma lookup_effect_Inr [res_simps]:
  "locked_effect s tenant i = Inr e \<longleftrightarrow> row_at effect_key (tenant, i) (tb_effects s) = Some e"
  by (simp add: locked_effect_def res_simps)

lemma record_effect_succeeded_change:
  "record_effect_succeeded pf s r e now nc tenant i remote ref used = Inr (m, s') \<Longrightarrow>
     effect_change pf w s s'"
  unfolding record_effect_succeeded_def moved_to_def [symmetric]
  by (auto simp: Let_def rbind_Inr_iff lookup_effect_Inr split: if_splits prod.splits intro: Success)

lemma record_effect_unknown_change:
  "record_effect_unknown pf s e now nc tenant i = Inr (m, s') \<Longrightarrow> effect_change pf w s s'"
  unfolding record_effect_unknown_def moved_to_def [symmetric]
  by (auto simp: Let_def rbind_Inr_iff lookup_effect_Inr split: if_splits prod.splits intro: Timeout)

lemma dispatch_effect_change:
  "dispatch_effect pf s nc now nl c = Inr (m, s') \<Longrightarrow> effect_change pf w s s'"
  unfolding dispatch_effect_def dispatched_def [symmetric]
  by (auto simp: rbind_Inr_iff lookup_effect_Inr split: if_splits prod.splits intro: Dispatch)

lemma reconcile_effect_change:
  "reconcile_effect pf s now c = Inr (m, s') \<Longrightarrow> effect_change pf w s s'"
  unfolding reconcile_effect_def moved_to_def [symmetric]
  by (auto simp: rbind_Inr_iff lookup_effect_Inr split: if_splits prod.splits intro: Lookup)

lemma apply_reconciliation_evidence_change:
  assumes "apply_reconciliation_evidence pf s r e now nc tenant i ev remote ref used = Inr (m, s')"
    and "ev = ProvenAbsentAndReauthorized \<Longrightarrow> w = Some (tenant, i)"
  shows "effect_change pf w s s'"
  using assms
  unfolding apply_reconciliation_evidence_def moved_to_def [symmetric]
  by (cases ev)
    (auto simp: Let_def rbind_Inr_iff ok_or_Inr_iff lookup_effect_Inr split: if_splits prod.splits
      intro: record_effect_succeeded_change Failure Absent Review)

lemma propose_effect_change:
  "propose_effect pf s i r e ng nc now c = Inr (m, s') \<Longrightarrow> effect_change pf w s s'"
  unfolding propose_effect_def record_proposal_def
  by (auto simp: Let_def rbind_Inr_iff split: if_splits prod.splits option.splits
      intro: Replay Create)

lemma compensate_effect_change:
  "compensate_effect pf s i r e now nc c = Inr (m, s') \<Longrightarrow> effect_change pf w s s'"
  unfolding compensate_effect_def
  by (auto simp: Let_def rbind_Inr_iff split: if_splits prod.splits intro: Create)

lemma effect_txn_change:
  assumes "effect_txn_step pf s a = Inr s'"
  shows "effect_change pf (proves_absence a) s s'"
proof -
  from assms obtain m where m: "effect_txn_run pf s a = Inr (m, s')"
    by (auto simp: effect_txn_step_def rbind_Inr_iff)
  show ?thesis
  proof (cases a)
    case (EvidenceTx r e now nc tenant i ev remote ref used)
    with m show ?thesis by (intro apply_reconciliation_evidence_change) auto
  qed (use m in \<open>auto intro: propose_effect_change dispatch_effect_change reconcile_effect_change
      compensate_effect_change record_effect_unknown_change record_effect_succeeded_change\<close>)
qed

section \<open>What the parts of a transaction touch\<close>

text \<open>The ledger operations leave effects and receipts alone.\<close>

lemma hold_account_frame:
  "hold_account tenant cur bound k s = Inr s' \<Longrightarrow> s' = s\<lparr>tb_budget_accounts := tb_budget_accounts s'\<rparr>"
  by (auto simp: hold_account_def Let_def rbind_Inr_iff split: if_splits)

lemma hold_accounts_frame:
  "rfold (hold_account tenant cur bound) keys s = Inr s' \<Longrightarrow>
     s' = s\<lparr>tb_budget_accounts := tb_budget_accounts s'\<rparr>"
proof (induction keys arbitrary: s)
  case (Cons k ks)
  then obtain s1 where "hold_account tenant cur bound k s = Inr s1" and "s' = s1\<lparr>tb_budget_accounts := tb_budget_accounts s'\<rparr>"
    by (auto simp: rbind_Inr_iff)
  with hold_account_frame [of tenant cur bound k s s1] show ?case
    by (metis database.surjective database.update_convs(3))
qed simp

lemma changed_frame:
  "changed tenant i dh dc ks f r s s' \<Longrightarrow> tb_effects s' = tb_effects s
     \<and> tb_effect_receipts s' = tb_effect_receipts s
     \<and> tb_cost_reservations s' = update_where (\<lambda>r. res_key r = (tenant, i)) f (tb_cost_reservations s)"
  by (auto simp: changed_def)

lemma reserve_budget_frame:
  assumes "reserve_budget pf s res_id e now tenant run call cur bound price keys = Inr (m, s')"
  obtains r where "tb_effects s' = tb_effects s"
    "tb_cost_reservations s' = tb_cost_reservations s @ [r]" "res_key r = (tenant, res_id)"
    "cv_state r = ''RESERVED''" "row_at res_key (tenant, res_id) (tb_cost_reservations s) = None"
    "rr_resource_id (mu_primary m) = pf_uuid_show pf res_id"
  using assms
proof (rule reserve_budget_Inr)
  fix r s1 ev
  assume h: "rfold (hold_account tenant cur bound) keys s = Inr s1"
    and r: "r = \<lparr> cv_tenant = tenant, cv_id = res_id, cv_run_id = run, cv_logical_call_id = call,
        cv_currency = cur, cv_upper_bound = bound, cv_settled = None, cv_state = ''RESERVED'',
        cv_price_profile = price, cv_account_keys = keys, cv_usage_fingerprint = None,
        cv_version = 1, cv_created_at = now \<rparr>"
    and fresh: "row_at res_key (tenant, res_id) (tb_cost_reservations s1) = None"
    and s': "s' = s1\<lparr>tb_cost_reservations := tb_cost_reservations s1 @ [r], tb_cost_ledger := ev\<rparr>"
    and m: "m = reservation_mutation pf r None ''RESERVED'' 1 ''reserve budget''"
  from hold_accounts_frame [OF h] obtain u where "s1 = s\<lparr>tb_budget_accounts := u\<rparr>" ..
  with r fresh s' m show thesis by (intro that [of r]) (simp_all add: reservation_mutation_def)
qed

lemma update_effect_Inr [res_simps]:
  "update_effect tenant i f s = Inr s' \<longleftrightarrow>
     (\<forall>e \<in> set (tb_effects s). effect_key e = (tenant, i) \<longrightarrow> effect_fits (f e) \<and> effect_ok (f e))
     \<and> s' = s\<lparr>tb_effects := update_where (\<lambda>e. effect_key e = (tenant, i)) f (tb_effects s)\<rparr>"
  by (auto simp: update_effect_def sql_Inr_iff rbind_Inr_iff update_rows_Inr_iff)

lemma insert_effect_Inr:
  assumes "insert_effect e s = Inr s'"
  shows "s' = s\<lparr>tb_effects := tb_effects s @ [e]\<rparr>"
    and "row_at effect_key (effect_key e) (tb_effects s) = None"
    and "\<forall>e' \<in> set (tb_effects s). ef_tenant e' = ef_tenant e \<longrightarrow>
      ef_connection_id e' = ef_connection_id e \<longrightarrow> ef_idempotency_key e' \<noteq> ef_idempotency_key e"
  using assms
  by (auto simp: insert_effect_def rbind_Inr_iff sql_Inr_iff insert_row_Inr_iff row_at_None_iff)

lemma insert_effect_receipt_Inr:
  "insert_effect_receipt r s = Inr s' \<Longrightarrow> s' = s\<lparr>tb_effect_receipts := tb_effect_receipts s @ [r]\<rparr>"
  by (auto simp: insert_effect_receipt_def rbind_Inr_iff sql_Inr_iff insert_row_Inr_iff)

lemma moved_to_simps [simp]:
  "ef_tenant (moved_to st q v now e) = ef_tenant e" "ef_id (moved_to st q v now e) = ef_id e"
  "ef_reservation_id (moved_to st q v now e) = ef_reservation_id e"
  "ef_state (moved_to st q v now e) = st" "ef_version (moved_to st q v now e) = v"
  "ef_transmit_count (moved_to st q v now e) = ef_transmit_count e"
  "ef_original_effect_id (moved_to st q v now e) = ef_original_effect_id e"
  "ef_approval_id (moved_to st q v now e) = ef_approval_id e"
  "ef_connection_id (moved_to st q v now e) = ef_connection_id e"
  "ef_idempotency_key (moved_to st q v now e) = ef_idempotency_key e"
  "ef_fingerprint (moved_to st q v now e) = ef_fingerprint e"
  by (simp_all add: moved_to_def)

lemma dispatched_simps [simp]:
  "ef_tenant (dispatched l v now e) = ef_tenant e" "ef_id (dispatched l v now e) = ef_id e"
  "ef_reservation_id (dispatched l v now e) = ef_reservation_id e"
  "ef_state (dispatched l v now e) = ''EXECUTING''" "ef_version (dispatched l v now e) = v"
  "ef_transmit_count (dispatched l v now e) = ef_transmit_count e + 1"
  "ef_original_effect_id (dispatched l v now e) = ef_original_effect_id e"
  "ef_approval_id (dispatched l v now e) = ef_approval_id e"
  "ef_connection_id (dispatched l v now e) = ef_connection_id e"
  "ef_idempotency_key (dispatched l v now e) = ef_idempotency_key e"
  "ef_fingerprint (dispatched l v now e) = ef_fingerprint e"
  by (simp_all add: dispatched_def)

section \<open>Effects and the funds that pay for them\<close>

abbreviation fund_key :: "effect_row \<Rightarrow> uuid \<times> uuid" where
  "fund_key e \<equiv> (ef_tenant e, ef_reservation_id e)"

abbreviation idem_key :: "effect_row \<Rightarrow> uuid \<times> uuid \<times> resource_id" where
  "idem_key e \<equiv> (ef_tenant e, ef_connection_id e, ef_idempotency_key e)"

text \<open>The reservation states that fit an effect state.\<close>

definition funded :: "string \<Rightarrow> string \<Rightarrow> bool" where
  "funded st c \<longleftrightarrow>
     (if st = ''PREPARED'' then c = ''RESERVED''
      else if st \<in> {''AUTHORIZED'', ''EXECUTING''} then c \<in> {''RESERVED'', ''UNKNOWN''}
      else if st \<in> {''OUTCOME_UNKNOWN'', ''RECONCILING'', ''MANUAL_REVIEW''} then c = ''UNKNOWN''
      else if st = ''SUCCEEDED'' then c = ''SETTLED''
      else if st = ''FAILED_CONFIRMED'' then c = ''RELEASED'' else True)"

definition effects_funded :: "database \<Rightarrow> bool" where
  "effects_funded s \<longleftrightarrow>
     unique_key effect_key (tb_effects s) \<and> unique_key fund_key (tb_effects s)
     \<and> (\<forall>e \<in> set (tb_effects s). \<exists>r. row_at res_key (fund_key e) (tb_cost_reservations s) = Some r
          \<and> funded (ef_state e) (cv_state r))"

definition effect_table_inv :: "database \<Rightarrow> bool" where
  "effect_table_inv s \<longleftrightarrow> ledger_inv s \<and> effects_funded s"

text \<open>How often an effect may still be transmitted without new evidence, added to what was sent.\<close>

definition transmit_credit :: "effect_row \<Rightarrow> int" where
  "transmit_credit e =
     ef_transmit_count e + (if ef_state e \<in> {''PREPARED'', ''AUTHORIZED''} then 1 else 0)"

text \<open>The edges of the kernel's machine on stored states, and the one the adapter adds.\<close>

definition stored_edge :: "string \<Rightarrow> string \<Rightarrow> bool" where
  "stored_edge a b \<longleftrightarrow> a = ''PREPARED'' \<and> b = ''EXECUTING''
     \<or> (\<exists>x y. machine_parse ''effect'' a = Inr (M_Effect x) \<and> machine_parse ''effect'' b = Inr (M_Effect y)
          \<and> effect_edge x y)"

definition effect_moves :: "bool \<Rightarrow> effect_row \<Rightarrow> effect_row \<Rightarrow> bool" where
  "effect_moves proven e e' \<longleftrightarrow>
     effect_key e' = effect_key e \<and> fund_key e' = fund_key e
     \<and> ef_original_effect_id e' = ef_original_effect_id e \<and> ef_approval_id e' = ef_approval_id e
     \<and> stored_edge (ef_state e) (ef_state e')
     \<and> transmit_credit e' \<le> transmit_credit e + (if proven then 1 else 0)"


lemma parse_effect:
  "machine_parse ''effect'' ''PREPARED'' = Inr (M_Effect E_Prepared)"
  "machine_parse ''effect'' ''AUTHORIZED'' = Inr (M_Effect E_Authorized)"
  "machine_parse ''effect'' ''EXECUTING'' = Inr (M_Effect E_Executing)"
  "machine_parse ''effect'' ''SUCCEEDED'' = Inr (M_Effect E_Succeeded)"
  "machine_parse ''effect'' ''FAILED_CONFIRMED'' = Inr (M_Effect E_FailedConfirmed)"
  "machine_parse ''effect'' ''OUTCOME_UNKNOWN'' = Inr (M_Effect E_OutcomeUnknown)"
  "machine_parse ''effect'' ''RECONCILING'' = Inr (M_Effect E_Reconciling)"
  "machine_parse ''effect'' ''MANUAL_REVIEW'' = Inr (M_Effect E_ManualReview)"
  by code_simp+

lemma stored_edges:
  "stored_edge ''PREPARED'' ''EXECUTING''" "stored_edge ''AUTHORIZED'' ''EXECUTING''"
  "stored_edge ''EXECUTING'' ''OUTCOME_UNKNOWN''" "stored_edge ''EXECUTING'' ''SUCCEEDED''"
  "stored_edge ''EXECUTING'' ''FAILED_CONFIRMED''" "stored_edge ''OUTCOME_UNKNOWN'' ''RECONCILING''"
  "stored_edge ''MANUAL_REVIEW'' ''RECONCILING''" "stored_edge ''RECONCILING'' ''SUCCEEDED''"
  "stored_edge ''RECONCILING'' ''FAILED_CONFIRMED''" "stored_edge ''RECONCILING'' ''MANUAL_REVIEW''"
  "stored_edge ''RECONCILING'' ''AUTHORIZED''"
  by (simp_all add: stored_edge_def parse_effect effect_edge_def)

lemma effect_moves_dispatched:
  "ef_state e \<in> {''PREPARED'', ''AUTHORIZED''} \<Longrightarrow> effect_moves p e (dispatched l v now e)"
  by (auto simp: effect_moves_def stored_edges transmit_credit_def)

lemma effect_moves_moved_to:
  assumes "stored_edge (ef_state e) st" and "st \<in> {''PREPARED'', ''AUTHORIZED''} \<Longrightarrow> p"
  shows "effect_moves p e (moved_to st q v now e)"
  using assms by (auto simp: effect_moves_def transmit_credit_def)

lemma update_where_id [simp]: "update_where p id t = t"
  by (induction t) auto

text \<open>Every committed transaction replays, creates one funded effect, or moves one effect and its funds.\<close>

lemma effect_change_shape:
  assumes "effect_change pf w s s'" and "uuid_text_ok pf"
  obtains (same) "s' = s"
  | (created) e r where "tb_effects s' = tb_effects s @ [e]"
      "row_at effect_key (effect_key e) (tb_effects s) = None"
      "row_at idem_key (idem_key e) (tb_effects s) = None"
      "tb_cost_reservations s' = tb_cost_reservations s @ [r]" "res_key r = fund_key e"
      "row_at res_key (fund_key e) (tb_cost_reservations s) = None"
      "funded (ef_state e) (cv_state r)" "ef_transmit_count e = 0"
  | (moved) tenant i e g f where "row_at effect_key (tenant, i) (tb_effects s) = Some e"
      "tb_effects s' = update_where (\<lambda>e. effect_key e = (tenant, i)) g (tb_effects s)"
      "\<And>e. effect_key (g e) = effect_key e \<and> fund_key (g e) = fund_key e"
      "\<And>e. idem_key (g e) = idem_key e \<and> ef_fingerprint (g e) = ef_fingerprint e"
      "effect_moves (w = Some (tenant, i)) e (g e)"
      "tb_cost_reservations s' = update_where (\<lambda>r. res_key r = fund_key e) f (tb_cost_reservations s)"
      "\<And>r. res_key (f r) = res_key r"
      "\<And>r. row_at res_key (fund_key e) (tb_cost_reservations s) = Some r \<Longrightarrow>
         funded (ef_state e) (cv_state r) \<Longrightarrow> funded (ef_state (g e)) (cv_state (f r))"
  using assms(1)
proof cases
  case Replay
  then show thesis by (rule same)
next
  case (Create res_id event_id now tenant run call cur bound price keys m s1 rid e)
  from Create(1) show thesis
  proof (rule reserve_budget_frame)
    fix r
    assume r: "tb_effects s1 = tb_effects s" "tb_cost_reservations s1 = tb_cost_reservations s @ [r]"
      "res_key r = (tenant, res_id)" "cv_state r = ''RESERVED''"
      "row_at res_key (tenant, res_id) (tb_cost_reservations s) = None"
      "rr_resource_id (mu_primary m) = pf_uuid_show pf res_id"
    with Create(2) parse_uuid_show [OF assms(2)] have "rid = res_id" by simp
    with r Create insert_effect_Inr [OF Create(3)] show thesis
      by (intro created [of e r]) (auto simp: funded_def row_at_None_iff)
  qed
next
  case (Dispatch tenant i e lease v now)
  from row_at_SomeD [OF Dispatch(1)] Dispatch show thesis
    by (intro moved [of tenant i e "dispatched lease v now" id])
      (auto simp: update_effect_Inr effect_moves_dispatched funded_def)
next
  case (Lookup tenant i e v now)
  from row_at_SomeD [OF Lookup(1)] Lookup show thesis
    by (intro moved [of tenant i e "moved_to ''RECONCILING'' True v now" id])
      (auto simp: update_effect_Inr stored_edges funded_def intro!: effect_moves_moved_to)
next
  case (Absent tenant i e v now)
  from row_at_SomeD [OF Absent(1)] Absent show thesis
    by (intro moved [of tenant i e "moved_to ''AUTHORIZED'' False v now" id])
      (auto simp: update_effect_Inr stored_edges funded_def intro!: effect_moves_moved_to)
next
  case (Review tenant i e v now)
  from row_at_SomeD [OF Review(1)] Review show thesis
    by (intro moved [of tenant i e "moved_to ''MANUAL_REVIEW'' False v now" id])
      (auto simp: update_effect_Inr stored_edges funded_def intro!: effect_moves_moved_to)
next
  case (Timeout tenant i e v now s1 event_id now_cost m)
  from Timeout(4) show thesis
  proof (rule mark_cost_unknown_changed)
    fix r :: cost_reservation_row
    let ?f = "\<lambda>q :: cost_reservation_row. q\<lparr>cv_state := ''UNKNOWN'', cv_version := wrap_i32 (cv_version r + 1)\<rparr>"
    assume c: "changed tenant (ef_reservation_id e) 0 0 [] ?f r s1 s'"
    from row_at_SomeD [OF Timeout(1)] Timeout changed_frame [OF c] show thesis
      by (intro moved [of tenant i e "moved_to ''OUTCOME_UNKNOWN'' True v now" ?f])
        (auto simp: update_effect_Inr stored_edges funded_def intro!: effect_moves_moved_to)
  qed
next
  case (Failure tenant i e v now s1 event_id now_cost m)
  from Failure(4) show thesis
  proof (rule release_budget_changed)
    fix r :: cost_reservation_row
    let ?f = "\<lambda>q :: cost_reservation_row. q\<lparr>cv_state := ''RELEASED'', cv_version := wrap_i32 (cv_version r + 1)\<rparr>"
    assume c: "changed tenant (ef_reservation_id e) (- cv_upper_bound r) 0 (cv_account_keys r) ?f r s1 s'"
    from row_at_SomeD [OF Failure(1)] Failure changed_frame [OF c] show thesis
      by (intro moved [of tenant i e "moved_to ''FAILED_CONFIRMED'' False v now" ?f])
        (auto simp: update_effect_Inr stored_edges funded_def intro!: effect_moves_moved_to)
  qed
next
  case (Success tenant i e v now s1 r s2 event_id now_cost used fp m)
  note r = insert_effect_receipt_Inr [OF Success(4)]
  from Success(5) show thesis
  proof (cases rule: settle_budget_cases)
    case (replay q)
    with row_at_SomeD [OF Success(1)] Success r show thesis
      by (intro moved [of tenant i e "moved_to ''SUCCEEDED'' False v now" id])
        (auto simp: update_effect_Inr stored_edges funded_def intro!: effect_moves_moved_to)
  next
    case (settle q)
    let ?f = "\<lambda>x :: cost_reservation_row. x\<lparr>cv_state := ''SETTLED'', cv_settled := Some used, cv_usage_fingerprint := fp,
               cv_version := wrap_i32 (cv_version q + 1)\<rparr>"
    from row_at_SomeD [OF Success(1)] Success r changed_frame [OF settle(4)] show thesis
      by (intro moved [of tenant i e "moved_to ''SUCCEEDED'' False v now" ?f])
        (auto simp: update_effect_Inr stored_edges funded_def intro!: effect_moves_moved_to)
  qed
qed


lemma ledger_inv_frame [simp]:
  "ledger_inv (s\<lparr>tb_effects := x\<rparr>) = ledger_inv s"
  "ledger_inv (s\<lparr>tb_effect_receipts := y\<rparr>) = ledger_inv s"
  by (simp_all add: ledger_inv_def)

lemma effect_change_ledger:
  assumes "effect_change pf w s s'" and "ledger_inv s"
  shows "ledger_inv s'"
  using assms
  by cases
    (auto simp: update_effect_Inr dest!: insert_effect_Inr(1) insert_effect_receipt_Inr
      dest: reserve_budget_inv mark_cost_unknown_inv [rotated] settle_budget_inv [rotated]
        release_budget_inv [rotated])

lemma effects_funded_created:
  assumes "effects_funded s" and "tb_effects s' = tb_effects s @ [e]"
    and "row_at effect_key (effect_key e) (tb_effects s) = None"
    and "tb_cost_reservations s' = tb_cost_reservations s @ [r]" and "res_key r = fund_key e"
    and "row_at res_key (fund_key e) (tb_cost_reservations s) = None"
    and "funded (ef_state e) (cv_state r)"
  shows "effects_funded s'"
proof -
  have "row_at fund_key (fund_key e) (tb_effects s) = None"
    using assms(1,6) by (force simp: effects_funded_def row_at_None_iff dest: row_at_SomeD)
  then show ?thesis
    using assms by (auto simp: effects_funded_def unique_key_snoc row_at_append)
qed

lemma effects_funded_moved:
  assumes inv: "effects_funded s" and row: "row_at effect_key k (tb_effects s) = Some e"
    and eff: "tb_effects s' = update_where (\<lambda>e. effect_key e = k) g (tb_effects s)"
    and g: "\<And>e. effect_key (g e) = effect_key e \<and> fund_key (g e) = fund_key e"
    and res: "tb_cost_reservations s' = update_where (\<lambda>r. res_key r = fund_key e) f (tb_cost_reservations s)"
    and f: "\<And>r. res_key (f r) = res_key r"
    and fd: "\<And>r. row_at res_key (fund_key e) (tb_cost_reservations s) = Some r \<Longrightarrow>
         funded (ef_state e) (cv_state r) \<Longrightarrow> funded (ef_state (g e)) (cv_state (f r))"
  shows "effects_funded s'"
proof -
  from inv have u: "unique_key effect_key (tb_effects s)" "unique_key fund_key (tb_effects s)"
    and old: "\<forall>e \<in> set (tb_effects s). \<exists>r. row_at res_key (fund_key e) (tb_cost_reservations s) = Some r
      \<and> funded (ef_state e) (cv_state r)" by (auto simp: effects_funded_def)
  note e = row_at_SomeD [OF row]
  have look: "row_at res_key j (tb_cost_reservations s')
      = map_option (\<lambda>r. if res_key r = fund_key e then f r else r) (row_at res_key j (tb_cost_reservations s))"
    for j unfolding res by (rule row_at_update_where) (rule f)
  have "\<exists>r. row_at res_key (fund_key x) (tb_cost_reservations s') = Some r \<and> funded (ef_state x) (cv_state r)"
    if x: "x \<in> set (tb_effects s')" for x
  proof -
    from x obtain y where y: "y \<in> set (tb_effects s)" "x = (if effect_key y = k then g y else y)"
      by (auto simp: eff set_update_where)
    from old y(1) obtain r where r: "row_at res_key (fund_key y) (tb_cost_reservations s) = Some r"
      and fr: "funded (ef_state y) (cv_state r)" by blast
    show ?thesis
    proof (cases "effect_key y = k")
      case True
      with row_at_unique [OF u(1) y(1)] row have "y = e" by simp
      with True y(2) r fr fd g row_at_SomeD [OF r] show ?thesis by (simp add: look)
    next
      case False
      with e have "y \<noteq> e" by auto
      then have "fund_key y \<noteq> fund_key e"
        using row_at_unique [OF u(2) y(1)] row_at_unique [OF u(2), of e] e by fastforce
      with row_at_SomeD [OF r] have "res_key r \<noteq> fund_key e" by metis
      with False y(2) r fr show ?thesis unfolding look by auto
    qed
  qed
  with u eff g show ?thesis by (simp add: effects_funded_def unique_key_update_where)
qed

lemma effect_txn_inv:
  assumes "uuid_text_ok pf" and "effect_table_inv s" and "effect_txn_step pf s a = Inr s'"
  shows "effect_table_inv s'"
proof -
  note ch = effect_txn_change [OF assms(3)]
  from assms(2) have inv: "ledger_inv s" "effects_funded s" by (simp_all add: effect_table_inv_def)
  from ch assms(1) have "effects_funded s'"
  proof (cases rule: effect_change_shape)
    case same
    with inv show ?thesis by simp
  next
    case (created e r)
    from effects_funded_created [OF inv(2) created(1,2,4-7)] show ?thesis .
  next
    case (moved tenant i e g f)
    from effects_funded_moved [OF inv(2) moved(1,2,3,6,7,8)] show ?thesis .
  qed
  with effect_change_ledger [OF ch inv(1)] show ?thesis by (simp add: effect_table_inv_def)
qed

interpretation effect_txns: invariant_ops "effect_txn_step pf"
    "\<lambda>s. uuid_text_ok pf \<and> effect_table_inv s" for pf
  by unfold_locales (use effect_txn_inv in blast)


lemma effect_txn_row:
  assumes "uuid_text_ok pf" and "effect_txn_step pf s a = Inr s'"
    and "row_at effect_key k (tb_effects s) = Some e"
  shows "\<exists>e'. row_at effect_key k (tb_effects s') = Some e'
    \<and> (e' = e \<or> effect_moves (proves_absence a = Some k) e e')"
  using effect_txn_change [OF assms(2)] assms(1)
proof (cases rule: effect_change_shape)
  case same
  with assms(3) show ?thesis by simp
next
  case (created x r)
  with assms(3) show ?thesis by (simp add: row_at_append)
next
  case (moved tenant i x g f)
  have l: "row_at effect_key k (tb_effects s') =
      map_option (\<lambda>e. if effect_key e = (tenant, i) then g e else e) (row_at effect_key k (tb_effects s))"
    unfolding moved(2) by (rule row_at_update_where) (use moved(3) in blast)
  show ?thesis
  proof (cases "k = (tenant, i)")
    case True
    with assms(3) row_at_SomeD [OF assms(3)] have "row_at effect_key k (tb_effects s') = Some (g e)"
      unfolding l by simp
    moreover from True moved(1) assms(3) have "x = e" by simp
    ultimately show ?thesis using moved(5) True by blast
  next
    case False
    with row_at_SomeD [OF assms(3)] assms(3) show ?thesis unfolding l by auto
  qed
qed

lemma effect_txn_idem:
  assumes "uuid_text_ok pf" and "effect_txn_step pf s a = Inr s'"
    and "row_at idem_key k (tb_effects s) = Some e"
  shows "\<exists>e'. row_at idem_key k (tb_effects s') = Some e' \<and> effect_key e' = effect_key e
    \<and> ef_fingerprint e' = ef_fingerprint e"
  using effect_txn_change [OF assms(2)] assms(1)
proof (cases rule: effect_change_shape)
  case (moved tenant i x g f)
  have "row_at idem_key k (tb_effects s') =
      map_option (\<lambda>e. if effect_key e = (tenant, i) then g e else e) (row_at idem_key k (tb_effects s))"
    unfolding moved(2) by (rule row_at_update_where) (use moved(4) in blast)
  with assms(3) moved(3,4) show ?thesis by simp
qed (use assms(3) in \<open>auto simp: row_at_append\<close>)

lemma effect_txns_row:
  assumes "uuid_text_ok pf" and "effect_table_inv s" and "row_at effect_key k (tb_effects s) = Some e"
    and "Q e" and "\<And>p e e'. effect_moves p e e' \<Longrightarrow> Q e \<Longrightarrow> Q e'"
  shows "\<exists>e'. row_at effect_key k (tb_effects (attempts (effect_txn_step pf) s ops)) = Some e' \<and> Q e'"
proof (rule effect_txns.attempts_stable [where A = UNIV])
  fix s a t
  assume "uuid_text_ok pf \<and> effect_table_inv s" and "effect_txn_step pf s a = Inr t"
    and "\<exists>e'. row_at effect_key k (tb_effects s) = Some e' \<and> Q e'"
  then show "\<exists>e'. row_at effect_key k (tb_effects t) = Some e' \<and> Q e'"
    using effect_txn_row [of pf s a t k] assms(5) by blast
qed (use assms in auto)

lemma transmissions_credit:
  assumes "uuid_text_ok pf" and "row_at effect_key k (tb_effects s) = Some e"
  shows "\<exists>e'. row_at effect_key k (tb_effects (attempts (effect_txn_step pf) s ops)) = Some e'
    \<and> transmit_credit e' \<le> transmit_credit e + int (length (filter (\<lambda>a. proves_absence a = Some k) ops))"
  using assms(2)
proof (induction ops arbitrary: s e)
  case (Cons a ops)
  have "\<exists>e1. row_at effect_key k (tb_effects (attempt (effect_txn_step pf) s a)) = Some e1
      \<and> transmit_credit e1 \<le> transmit_credit e + (if proves_absence a = Some k then 1 else 0)"
  proof (cases "effect_txn_step pf s a")
    case (Inr s1)
    with effect_txn_row [OF assms(1) Inr Cons.prems] show ?thesis
      by (auto simp: attempt_def effect_moves_def)
  qed (use Cons.prems in \<open>simp add: attempt_def\<close>)
  then obtain e1 where "row_at effect_key k (tb_effects (attempt (effect_txn_step pf) s a)) = Some e1"
    and "transmit_credit e1 \<le> transmit_credit e + (if proves_absence a = Some k then 1 else 0)" by blast
  with Cons.IH [of "attempt (effect_txn_step pf) s a" e1] show ?case by fastforce
qed simp

end
