(* ===== verification/Effect_Safety.thy ===== *)
theory Effect_Safety
  imports Effect_Commands
begin

text \<open>
  What the effect transactions guarantee together: funds follow the outcome of an effect, nothing
  is sent again without proof of absence, stored states move along the kernel's edges, proposals
  are idempotent, and an approval pays for one compensation.
\<close>

section \<open>A sample history\<close>

definition sample_artifact :: artifact_ref where
  "sample_artifact = \<lparr> ar_artifact_id = ''7'', ar_tenant_id = ''1'',
     ar_digest = ''sha256:'' @ replicate 64 (CHR ''0''), ar_schema_version = ''1'',
     ar_classification = Public \<rparr>"

definition sample_target :: resource_ref where
  "sample_target = \<lparr> rr_resource_type = ''Page'', rr_resource_id = ''9'', rr_version = 1 \<rparr>"

definition sample_command :: "string \<Rightarrow> (string \<times> json) list \<Rightarrow> authorized_command" where
  "sample_command key input = \<lparr> ac_actor = sample_actor, ac_operation = [],
     ac_idempotency_key = key, ac_fingerprint = [], ac_input = JObj input \<rparr>"

definition effects_db :: database where
  "effects_db = sample_db\<lparr>tb_connections := [\<lparr> cn_tenant = 1, cn_id = 4, cn_provider = ''web'',
       cn_external_account = ''a'', cn_scopes = [], cn_secret_ref = ''s'', cn_state = ''ACTIVE'',
       cn_contract_version = ''1.0.0'', cn_capabilities = [], cn_verified_at = None, cn_version = 1 \<rparr>],
     tb_delegations := [(sample_grant 3 None)\<lparr>dl_actions := [''page.publish''],
        dl_resources := JArr [ser_resource_ref sample_target]\<rparr>]\<rparr>"

definition sample_propose :: "string \<Rightarrow> effect_txn" where
  "sample_propose key = ProposeTx 50 60 70 5 5 5 (sample_command key
     [(''action'', JStr ''page.publish''), (''connection_id'', JStr ''4''),
      (''target'', ser_resource_ref sample_target), (''content_ref'', ser_artifact_ref sample_artifact),
      (''grant_id'', JStr ''3''), (''price_profile'', JStr ''1.0.0'')])"

definition sample_dispatch :: "int \<Rightarrow> effect_txn" where
  "sample_dispatch version = DispatchTx 6 6 6 (sample_command ''d''
     [(''effect_id'', JStr ''50''), (''expected_version'', JNum version)])"

definition sample_lookup :: "int \<Rightarrow> effect_txn" where
  "sample_lookup version = ReconcileTx 7 (sample_command ''r''
     [(''effect_id'', JStr ''50''), (''expected_version'', JNum version)])"

text \<open>Proposed, sent, timed out, looked up, proven absent and sent again.\<close>

abbreviation resent_ops :: "effect_txn list" where
  "resent_ops \<equiv> [sample_propose ''k'', sample_dispatch 1, UnknownTx 71 6 6 1 50, sample_lookup 3,
     EvidenceTx 80 72 8 8 1 50 ProvenAbsentAndReauthorized None None None, sample_dispatch 5]"

lemma effects_db_inv: "effect_table_inv effects_db"
proof -
  have "ledger_inv effects_db"
    using sample_ledger_inv by (simp add: effects_db_def ledger_inv_def)
  then show ?thesis
    by (simp add: effect_table_inv_def effects_funded_def unique_key_def effects_db_def sample_db_def)
qed

lemma sample_history_inv:
  "effect_table_inv (attempts (effect_txn_step sample_platform) effects_db ops)"
  using effect_txns.attempts_inv [of sample_platform effects_db ops] effects_db_inv sample_platform_ok
  by blast

lemma resent_history:
  "map_option (\<lambda>e. (ef_state e, ef_transmit_count e, ef_version e))
     (row_at effect_key (1, 50) (tb_effects (attempts (effect_txn_step sample_platform) effects_db resent_ops)))
   = Some (''EXECUTING'', 2, 6)"
  by code_simp

lemma sample_row:
  assumes "s = attempts (effect_txn_step sample_platform) effects_db resent_ops"
  obtains e where "row_at effect_key (1, 50) (tb_effects s) = Some e" "ef_state e = ''EXECUTING''"
    "ef_transmit_count e = 2" "e \<in> set (tb_effects s)"
  using resent_history row_at_SomeD unfolding assms [symmetric] by fastforce

lemma funded_outcome:
  assumes "funded st (cv_state r)"
  shows "st \<in> {''PREPARED'', ''AUTHORIZED'', ''EXECUTING'', ''OUTCOME_UNKNOWN'', ''RECONCILING'',
      ''MANUAL_REVIEW''} \<Longrightarrow> open_hold r = cv_upper_bound r"
    and "st = ''SUCCEEDED'' \<Longrightarrow> cv_state r = ''SETTLED''"
    and "st = ''FAILED_CONFIRMED'' \<Longrightarrow> cv_state r = ''RELEASED''"
  using assms unfolding funded_def open_hold_def by (auto split: if_splits)

section \<open>What the commands establish\<close>

lemma find_idem: "find (\<lambda>e. ef_tenant e = t \<and> ef_connection_id e = c \<and> ef_idempotency_key e = k) es
    = row_at idem_key (t, c, k) es"
  unfolding row_at_def by (rule arg_cong [where f = "\<lambda>p. find p es"]) auto

definition proposed :: "uuid \<times> uuid \<times> resource_id \<Rightarrow> database \<Rightarrow> mutation \<Rightarrow> database \<Rightarrow> bool" where
  "proposed k s m s' \<longleftrightarrow>
     (case row_at idem_key k (tb_effects s) of
        Some e \<Rightarrow> s' = s \<and> mu_effect_id m = Some (ef_id e)
      | None \<Rightarrow> \<exists>e. row_at idem_key k (tb_effects s') = Some e \<and> mu_effect_id m = Some (ef_id e))"

lemma proposed_row:
  "proposed k s m s' \<Longrightarrow> \<exists>e. row_at idem_key k (tb_effects s') = Some e \<and> mu_effect_id m = Some (ef_id e)"
  "proposed k s m s' \<Longrightarrow> row_at idem_key k (tb_effects s) = Some e \<Longrightarrow>
     s' = s \<and> mu_effect_id m = Some (ef_id e)"
  unfolding proposed_def by (auto split: option.splits)

lemma record_proposal_Inr:
  assumes "record_proposal pf s i r ev nc now key tenant conn grant run act target ref price fp = Inr (m, s')"
  shows "proposed (tenant, conn, key) s m s'"
proof (cases "row_at idem_key (tenant, conn, key) (tb_effects s)")
  case (Some e)
  with assms show ?thesis
    unfolding record_proposal_def find_idem by (auto simp: proposed_def split: if_splits)
next
  case None
  with assms obtain e s1 mr res call b where
    r: "reserve_budget pf s res ev nc tenant run call ''USD'' b price default_accounts = Inr (mr, s1)"
    and i: "insert_effect e s1 = Inr s'" "idem_key e = (tenant, conn, key)" "mu_effect_id m = Some (ef_id e)"
    unfolding record_proposal_def find_idem Let_def
    by (auto simp: rbind_Inr_iff split: prod.splits)
  from r have "tb_effects s1 = tb_effects s" by (rule reserve_budget_frame)
  with None i insert_effect_Inr(1) [OF i(1)] show ?thesis by (simp add: proposed_def row_at_append)
qed

lemma propose_effect_Inr:
  assumes "propose_effect pf s i r ev ng nc now c = Inr (m, s')"
  obtains tenant conn where "parse_uuid pf (ca_tenant_id (ac_actor c)) = Inr tenant"
    "rbind (field de_string (ac_input c) ''connection_id'') (parse_uuid pf) = Inr conn"
    "proposed (tenant, conn, ac_idempotency_key c) s m s'"
proof -
  have "\<exists>tenant conn. parse_uuid pf (ca_tenant_id (ac_actor c)) = Inr tenant
    \<and> rbind (field de_string (ac_input c) ''connection_id'') (parse_uuid pf) = Inr conn
    \<and> (\<exists>grant run act target ref price fp. record_proposal pf s i r ev nc now (ac_idempotency_key c)
       tenant conn grant run act target ref price fp = Inr (m, s'))"
    using assms unfolding propose_effect_def
    by (clarsimp simp: rbind_Inr_iff split: if_splits) blast
  then obtain tenant conn grant run act target ref price fp where
    "parse_uuid pf (ca_tenant_id (ac_actor c)) = Inr tenant"
    "rbind (field de_string (ac_input c) ''connection_id'') (parse_uuid pf) = Inr conn"
    "record_proposal pf s i r ev nc now (ac_idempotency_key c) tenant conn grant run act target ref
       price fp = Inr (m, s')" by (elim exE conjE)
  then show thesis by (intro that record_proposal_Inr)
qed

section \<open>Properties\<close>

text \<open>
  C1: the money of an effect follows its outcome. After any sequence of effect transactions every
  effect has a reservation of its own; while its outcome is open the whole bound stays held, a
  succeeded effect is settled, a failed one released, and each account of the ledger still holds
  exactly its open reservations.
\<close>

theorem funds_follow_outcome:
  assumes "uuid_text_ok pf" and "effect_table_inv s"
    and "s' = attempts (effect_txn_step pf) s ops" and "e \<in> set (tb_effects s')"
  shows "ledger_inv s' \<and> (\<exists>r. row_at res_key (ef_tenant e, ef_reservation_id e) (tb_cost_reservations s') = Some r
    \<and> (ef_state e \<in> {''PREPARED'', ''AUTHORIZED'', ''EXECUTING'', ''OUTCOME_UNKNOWN'', ''RECONCILING'',
          ''MANUAL_REVIEW''} \<longrightarrow> open_hold r = cv_upper_bound r)
    \<and> (ef_state e = ''SUCCEEDED'' \<longrightarrow> cv_state r = ''SETTLED'')
    \<and> (ef_state e = ''FAILED_CONFIRMED'' \<longrightarrow> cv_state r = ''RELEASED''))
    \<and> (\<forall>e2 \<in> set (tb_effects s'). fund_key e2 = fund_key e \<longrightarrow> e2 = e)"
proof -
  have inv: "effect_table_inv s'"
    unfolding assms(3) using effect_txns.attempts_inv [of pf s ops] assms(1,2) by blast
  then have u: "unique_key fund_key (tb_effects s')" by (simp add: effect_table_inv_def effects_funded_def)
  have same: "e2 = e" if "e2 \<in> set (tb_effects s')" and "fund_key e2 = fund_key e" for e2
    using u that(1) assms(4) that(2) by (rule unique_key_eq)
  from inv assms(4) obtain r where r: "row_at res_key (fund_key e) (tb_cost_reservations s') = Some r"
    and f: "funded (ef_state e) (cv_state r)" by (auto simp: effect_table_inv_def effects_funded_def)
  have "ledger_inv s'" using inv by (simp add: effect_table_inv_def)
  then show ?thesis
    by (intro conjI exI [of _ r] ballI impI funded_outcome [OF f] r same) assumption+
qed

theorem funds_follow_outcome_witness:
  "\<exists>e r. ef_state e = ''EXECUTING'' \<and> open_hold r = cv_upper_bound r
     \<and> row_at res_key (fund_key e) (tb_cost_reservations
         (attempts (effect_txn_step sample_platform) effects_db resent_ops)) = Some r"
proof -
  define s where "s = attempts (effect_txn_step sample_platform) effects_db resent_ops"
  from s_def obtain e where e: "ef_state e = ''EXECUTING''" "e \<in> set (tb_effects s)" by (rule sample_row)
  from funds_follow_outcome [OF sample_platform_ok effects_db_inv s_def e(2)] e(1) show ?thesis
    unfolding s_def [symmetric] by auto
qed

text \<open>
  C2: no blind resend. Over any sequence of effect transactions an effect is transmitted at most
  once while it is dispatchable, plus once for each transaction that proves its absence at the
  provider.
\<close>

theorem transmissions_need_proof:
  assumes "uuid_text_ok pf" and "row_at effect_key k (tb_effects s) = Some e"
    and "s' = attempts (effect_txn_step pf) s ops"
  shows "\<exists>e'. row_at effect_key k (tb_effects s') = Some e'
    \<and> ef_transmit_count e' \<le> ef_transmit_count e
        + (if ef_state e \<in> {''PREPARED'', ''AUTHORIZED''} then 1 else 0)
        + int (length (filter (\<lambda>a. proves_absence a = Some k) ops))"
proof -
  from transmissions_credit [OF assms(1,2), of ops] obtain e' where
    "row_at effect_key k (tb_effects s') = Some e'"
    "transmit_credit e' \<le> transmit_credit e + int (length (filter (\<lambda>a. proves_absence a = Some k) ops))"
    unfolding assms(3) by blast
  then show ?thesis unfolding transmit_credit_def by (auto split: if_splits)
qed

theorem transmissions_need_proof_witness:
  "\<exists>e'. row_at effect_key (1, 50) (tb_effects (attempts (effect_txn_step sample_platform)
       (attempts (effect_txn_step sample_platform) effects_db resent_ops)
       [sample_dispatch 6, UnknownTx 73 6 6 1 50, sample_dispatch 7])) = Some e'
     \<and> ef_transmit_count e' \<le> 2"
proof -
  define s where "s = attempts (effect_txn_step sample_platform) effects_db resent_ops"
  from s_def obtain e where e: "row_at effect_key (1, 50) (tb_effects s) = Some e"
    "ef_state e = ''EXECUTING''" "ef_transmit_count e = 2" by (rule sample_row)
  from transmissions_need_proof [OF sample_platform_ok e(1) refl,
      of "[sample_dispatch 6, UnknownTx 73 6 6 1 50, sample_dispatch 7]"] e(2,3)
  show ?thesis unfolding s_def [symmetric] by (simp add: sample_dispatch_def)
qed

text \<open>
  C24: stored effects move along the kernel's state machine. A transaction leaves the state of an
  effect or moves it along an edge of the kernel's effect machine; the one exception is the
  dispatch of a PREPARED effect, which the adapter sends without the AUTHORIZED state between.
\<close>

theorem stored_effects_follow_kernel:
  assumes "uuid_text_ok pf" and "effect_txn_step pf s a = Inr s'"
    and "row_at effect_key k (tb_effects s) = Some e" and "row_at effect_key k (tb_effects s') = Some e'"
  shows "ef_state e' = ef_state e \<or> ef_state e = ''PREPARED'' \<and> ef_state e' = ''EXECUTING''
    \<or> (\<exists>x y. machine_parse ''effect'' (ef_state e) = Inr x \<and> machine_parse ''effect'' (ef_state e') = Inr y
         \<and> can_transition_to x y)"
proof -
  from effect_txn_row [OF assms(1-3)] assms(4)
  have "e' = e \<or> stored_edge (ef_state e) (ef_state e')" by (auto simp: effect_moves_def)
  then show ?thesis unfolding stored_edge_def by (metis can_transition_to.simps(4))
qed

theorem stored_effects_follow_kernel_witness:
  "\<exists>s s' e e'. effect_txn_step sample_platform s (sample_dispatch 1) = Inr s'
     \<and> row_at effect_key (1, 50) (tb_effects s) = Some e \<and> ef_state e = ''PREPARED''
     \<and> row_at effect_key (1, 50) (tb_effects s') = Some e' \<and> ef_state e' = ''EXECUTING''
     \<and> (ef_state e' = ef_state e \<or> ef_state e = ''PREPARED'' \<and> ef_state e' = ''EXECUTING''
       \<or> (\<exists>x y. machine_parse ''effect'' (ef_state e) = Inr x \<and> machine_parse ''effect'' (ef_state e') = Inr y
            \<and> can_transition_to x y))"
proof -
  define s where "s = attempts (effect_txn_step sample_platform) effects_db [sample_propose ''k'']"
  have "map_option ef_state (row_at effect_key (1, 50) (tb_effects s)) = Some ''PREPARED''
      \<and> (case effect_txn_step sample_platform s (sample_dispatch 1) of Inl _ \<Rightarrow> False
         | Inr t \<Rightarrow> map_option ef_state (row_at effect_key (1, 50) (tb_effects t)) = Some ''EXECUTING'')"
    unfolding s_def by code_simp
  then obtain e e' s' where d: "effect_txn_step sample_platform s (sample_dispatch 1) = Inr s'"
    and e: "row_at effect_key (1, 50) (tb_effects s) = Some e" "ef_state e = ''PREPARED''"
    and e': "row_at effect_key (1, 50) (tb_effects s') = Some e'" "ef_state e' = ''EXECUTING''"
    by (auto split: sum.splits)
  from stored_effects_follow_kernel [OF sample_platform_ok d e(1) e'(1)] d e e' show ?thesis by blast
qed

text \<open>
  Proposals are idempotent. Once a proposal has created or found an effect, any later proposal
  of the tenant with the same connection and key, after whatever effect transactions, is refused or
  answers with the same effect and changes nothing.
\<close>

theorem proposal_is_idempotent:
  assumes "uuid_text_ok pf" and "effect_table_inv s"
    and "propose_effect pf s i r ev ng nc now c = Inr (m, s1)"
    and "s2 = attempts (effect_txn_step pf) s1 ops"
    and "propose_effect pf s2 i' r' ev' ng' nc' now' c' = Inr (m', s3)"
    and "parse_uuid pf (ca_tenant_id (ac_actor c')) = parse_uuid pf (ca_tenant_id (ac_actor c))"
    and "rbind (field de_string (ac_input c') ''connection_id'') (parse_uuid pf)
       = rbind (field de_string (ac_input c) ''connection_id'') (parse_uuid pf)"
    and "ac_idempotency_key c' = ac_idempotency_key c"
  shows "s3 = s2 \<and> mu_effect_id m' = mu_effect_id m"
proof -
  from assms(3) obtain tenant conn where p: "parse_uuid pf (ca_tenant_id (ac_actor c)) = Inr tenant"
      "rbind (field de_string (ac_input c) ''connection_id'') (parse_uuid pf) = Inr conn"
    and q: "proposed (tenant, conn, ac_idempotency_key c) s m s1" by (rule propose_effect_Inr)
  let ?k = "(tenant, conn, ac_idempotency_key c)"
  let ?P = "\<lambda>s. \<exists>e. row_at idem_key ?k (tb_effects s) = Some e \<and> mu_effect_id m = Some (ef_id e)"
  have "?P s1" using proposed_row(1) [OF q] .
  moreover have "effect_txn_step pf s (ProposeTx i r ev ng nc now c) = Inr s1"
    using assms(3) by (simp add: effect_txn_step_def)
  with assms(1,2) have "effect_table_inv s1" by (rule effect_txn_inv)
  moreover have "?P t" if "effect_txn_step pf u a = Inr t" and "?P u" for u a t
  proof -
    from that(2) obtain e where e: "row_at idem_key ?k (tb_effects u) = Some e" "mu_effect_id m = Some (ef_id e)"
      by blast
    from effect_txn_idem [OF assms(1) that(1) e(1)] e(2) show ?thesis by (metis prod.inject)
  qed
  ultimately have s2: "?P s2" unfolding assms(4)
    using assms(1) effect_txns.attempts_stable [where A = UNIV and P = ?P] by blast
  from assms(5) obtain t' c0 where "parse_uuid pf (ca_tenant_id (ac_actor c')) = Inr t'"
      "rbind (field de_string (ac_input c') ''connection_id'') (parse_uuid pf) = Inr c0"
      "proposed (t', c0, ac_idempotency_key c') s2 m' s3" by (rule propose_effect_Inr)
  then have q2: "proposed ?k s2 m' s3" using p assms(6-8) by simp
  from s2 obtain e where e: "row_at idem_key ?k (tb_effects s2) = Some e" "mu_effect_id m = Some (ef_id e)"
    by blast
  from proposed_row(2) [OF q2 e(1)] e(2) show ?thesis by simp
qed

theorem proposal_is_idempotent_witness:
  "\<exists>m s1 m' s2. effect_txn_run sample_platform effects_db (sample_propose ''k'') = Inr (m, s1)
     \<and> effect_txn_run sample_platform s1 (sample_propose ''k'') = Inr (m', s2)
     \<and> s2 = s1 \<and> mu_effect_id m' = mu_effect_id m"
proof -
  have "(case effect_txn_run sample_platform effects_db (sample_propose ''k'') of Inl _ \<Rightarrow> False
      | Inr (m, s1) \<Rightarrow> is_ok (effect_txn_run sample_platform s1 (sample_propose ''k'')))"
    by code_simp
  then obtain m s1 m' s2 where p: "effect_txn_run sample_platform effects_db (sample_propose ''k'') = Inr (m, s1)"
    and q: "effect_txn_run sample_platform s1 (sample_propose ''k'') = Inr (m', s2)"
    by (auto simp: is_ok_iff split: sum.splits)
  note u = sample_propose_def effect_txn_run.simps
  from proposal_is_idempotent [OF sample_platform_ok effects_db_inv p [unfolded u] _ q [unfolded u], of "[]"]
  have "s2 = s1 \<and> mu_effect_id m' = mu_effect_id m" by simp
  with p q show ?thesis by blast
qed

text \<open>
  C25: an ambiguous timeout is recorded once. After an effect was proven absent and sent again its
  reservation is still UNKNOWN, and the ledger has no second step to UNKNOWN: recording another
  ambiguous timeout of that effect is refused, whatever clock and identifiers are used.
\<close>

theorem second_timeout_is_refused:
  assumes "row_at effect_key (tenant, i) (tb_effects s) = Some e"
    and "row_at res_key (fund_key e) (tb_cost_reservations s) = Some r" and "cv_state r = ''UNKNOWN''"
  shows "\<not> is_ok (record_effect_unknown pf s event_id now now_cost tenant i)"
proof
  assume "is_ok (record_effect_unknown pf s event_id now now_cost tenant i)"
  then obtain v s1 m s2 where "update_effect tenant i (moved_to ''OUTCOME_UNKNOWN'' True v now) s = Inr s1"
    and c: "mark_cost_unknown pf s1 event_id now_cost tenant (ef_reservation_id e) = Inr (m, s2)"
    using assms(1) unfolding record_effect_unknown_def moved_to_def [symmetric]
    by (auto simp: is_ok_iff Let_def rbind_Inr_iff lookup_effect_Inr split: if_splits)
  then have "tb_cost_reservations s1 = tb_cost_reservations s" by (auto simp: update_effect_Inr)
  with assms(2) row_at_SomeD [OF assms(1)]
  have r: "row_at res_key (tenant, ef_reservation_id e) (tb_cost_reservations s1) = Some r" by simp
  from c show False
  proof (rule mark_cost_unknown_changed)
    fix q :: cost_reservation_row
    assume "cv_state q = ''RESERVED''" and "changed tenant (ef_reservation_id e) 0 0 []
      (\<lambda>x. x\<lparr>cv_state := ''UNKNOWN'', cv_version := wrap_i32 (cv_version q + 1)\<rparr>) q s1 s2"
    with r assms(3) show False by (simp add: changed_def)
  qed
qed

theorem second_timeout_is_refused_witness:
  "\<not> is_ok (record_effect_unknown sample_platform
     (attempts (effect_txn_step sample_platform) effects_db resent_ops) 90 9 9 1 50)"
proof -
  define s where "s = attempts (effect_txn_step sample_platform) effects_db resent_ops"
  have "(case row_at effect_key (1, 50) (tb_effects s) of None \<Rightarrow> False
      | Some e \<Rightarrow> map_option cv_state (row_at res_key (fund_key e) (tb_cost_reservations s)) = Some ''UNKNOWN'')"
    unfolding s_def by code_simp
  then obtain e r where "row_at effect_key (1, 50) (tb_effects s) = Some e"
    "row_at res_key (fund_key e) (tb_cost_reservations s) = Some r" "cv_state r = ''UNKNOWN''"
    by (auto split: option.splits)
  then show ?thesis unfolding s_def by (rule second_timeout_is_refused)
qed


text \<open>
  Success is recorded whole. When a success is recorded, in one transaction the effect becomes
  SUCCEEDED, its receipt names the remote object and the evidence, and its reservation is settled
  with exactly the reported usage, which lies within the reserved bound.
\<close>

theorem success_is_recorded_whole:
  assumes "effect_table_inv s"
    and "record_effect_succeeded pf s rid ev now nc tenant i remote evidence used = Inr (m, s')"
  shows "\<exists>e r. map_option ef_state (row_at effect_key (tenant, i) (tb_effects s')) = Some ''SUCCEEDED''
    \<and> row_at effect_key (tenant, i) (tb_effects s) = Some e \<and> ef_state e \<in> {''EXECUTING'', ''RECONCILING''}
    \<and> (\<exists>q \<in> set (tb_effect_receipts s'). et_effect_id q = i \<and> et_outcome q = ''SUCCEEDED''
         \<and> et_remote_id q = Some remote \<and> et_evidence_ref q = ser_artifact_ref evidence)
    \<and> row_at res_key (tenant, ef_reservation_id e) (tb_cost_reservations s') = Some r
    \<and> cv_state r = ''SETTLED'' \<and> cv_settled r = Some used \<and> 0 \<le> used \<and> used \<le> cv_upper_bound r"
proof -
  from assms(2) obtain e v s1 q s2 m' where e: "row_at effect_key (tenant, i) (tb_effects s) = Some e"
      "ef_state e \<in> {''EXECUTING'', ''RECONCILING''}"
    and u: "update_effect tenant i (moved_to ''SUCCEEDED'' False v now) s = Inr s1"
    and q: "insert_effect_receipt q s1 = Inr s2" "et_effect_id q = i" "et_outcome q = ''SUCCEEDED''"
      "et_remote_id q = Some remote" "et_evidence_ref q = ser_artifact_ref evidence"
    and c: "settle_budget pf s2 ev nc tenant (ef_reservation_id e) used (Some (ef_fingerprint e)) = Inr (m', s')"
    unfolding record_effect_succeeded_def moved_to_def [symmetric]
    by (auto simp: Let_def rbind_Inr_iff lookup_effect_Inr split: if_splits)
  have s1: "s1 = s\<lparr>tb_effects := update_where (\<lambda>e. effect_key e = (tenant, i))
      (moved_to ''SUCCEEDED'' False v now) (tb_effects s)\<rparr>" using u by (simp add: update_effect_Inr)
  have s2: "s2 = s1\<lparr>tb_effect_receipts := tb_effect_receipts s1 @ [q]\<rparr>"
    using q(1) by (rule insert_effect_receipt_Inr)
  have "row_at effect_key (tenant, i) (tb_effects s2) = Some (moved_to ''SUCCEEDED'' False v now e)"
    using e(1) row_at_SomeD [OF e(1)] unfolding s2 s1 by (simp add: row_at_update_where)
  then have st: "map_option ef_state (row_at effect_key (tenant, i) (tb_effects s2)) = Some ''SUCCEEDED''"
    by simp
  have "q \<in> set (tb_effect_receipts s2)" unfolding s2 by simp
  note q' = bexI [OF _ this, of "\<lambda>q. et_effect_id q = i \<and> et_outcome q = ''SUCCEEDED''
         \<and> et_remote_id q = Some remote \<and> et_evidence_ref q = ser_artifact_ref evidence"]
  from assms(1) e obtain r0 where r0: "row_at res_key (fund_key e) (tb_cost_reservations s) = Some r0"
    "funded (ef_state e) (cv_state r0)"
    using row_at_SomeD [OF e(1)] by (auto simp: effect_table_inv_def effects_funded_def)
  then have nset: "cv_state r0 \<noteq> ''SETTLED''" using e(2) unfolding funded_def by auto
  have r1: "row_at res_key (tenant, ef_reservation_id e) (tb_cost_reservations s2) = Some r0"
    using r0(1) row_at_SomeD [OF e(1)] unfolding s2 s1 by simp
  from c show ?thesis
  proof (cases rule: settle_budget_cases)
    case (replay r)
    with r1 nset show ?thesis by simp
  next
    case (settle r)
    from changed_row [OF settle(4)] obtain r' where
      r': "row_at res_key (tenant, ef_reservation_id e) (tb_cost_reservations s') = Some r'"
      "cv_state r' = ''SETTLED''" "cv_settled r' = Some used" "cv_upper_bound r' = cv_upper_bound r"
      by auto
    from changed_frame [OF settle(4)]
    have "tb_effects s' = tb_effects s2" "tb_effect_receipts s' = tb_effect_receipts s2" by simp_all
    with r' settle(2,3) st q' q(2-5) e show ?thesis by (intro exI [of _ e] exI [of _ r']) simp
  qed
qed

theorem success_is_recorded_whole_witness:
  "\<exists>m s' r. record_effect_succeeded sample_platform
       (attempts (effect_txn_step sample_platform) effects_db (take 2 resent_ops))
       90 91 9 9 1 50 ''post-1'' sample_artifact 12 = Inr (m, s')
     \<and> r \<in> set (tb_cost_reservations s') \<and> cv_state r = ''SETTLED'' \<and> cv_settled r = Some 12"
proof -
  define s where "s = attempts (effect_txn_step sample_platform) effects_db (take 2 resent_ops)"
  have i: "effect_table_inv s" unfolding s_def by (rule sample_history_inv)
  have "is_ok (record_effect_succeeded sample_platform s 90 91 9 9 1 50 ''post-1'' sample_artifact 12)"
    unfolding s_def by code_simp
  then obtain m s' where c: "record_effect_succeeded sample_platform s 90 91 9 9 1 50 ''post-1''
      sample_artifact 12 = Inr (m, s')" by (auto simp: is_ok_iff)
  from success_is_recorded_whole [OF i c] c show ?thesis
    unfolding s_def [symmetric] by (blast dest: row_at_SomeD)
qed

lemma compensate_effect_Inr:
  assumes "compensate_effect pf s i r ev now nc c = Inr (m, s')"
  obtains tenant orig approval e where "parse_uuid pf (ca_tenant_id (ac_actor c)) = Inr tenant"
    "rbind (field de_string (ac_input c) ''effect_id'') (parse_uuid pf) = Inr orig"
    "rbind (field de_string (ac_input c) ''approval_id'') (parse_uuid pf) = Inr approval"
    "\<not> list_ex (\<lambda>e. ef_tenant e = tenant \<and> ef_original_effect_id e = Some orig
         \<and> ef_approval_id e = Some approval) (tb_effects s)"
    "row_at effect_key (effect_key e) (tb_effects s') = Some e" "ef_tenant e = tenant"
    "ef_original_effect_id e = Some orig" "ef_approval_id e = Some approval"
proof -
  from assms obtain tenant orig approval where p: "parse_uuid pf (ca_tenant_id (ac_actor c)) = Inr tenant"
      "rbind (field de_string (ac_input c) ''effect_id'') (parse_uuid pf) = Inr orig"
      "rbind (field de_string (ac_input c) ''approval_id'') (parse_uuid pf) = Inr approval"
    and n: "\<not> list_ex (\<lambda>e. ef_tenant e = tenant \<and> ef_original_effect_id e = Some orig
         \<and> ef_approval_id e = Some approval) (tb_effects s)"
    and x: "\<exists>e mr s1 run call. reserve_budget pf s r ev nc tenant run call ''USD'' 20 ''1.0.0''
          default_accounts = Inr (mr, s1) \<and> insert_effect e s1 = Inr s' \<and> ef_tenant e = tenant
        \<and> ef_original_effect_id e = Some orig \<and> ef_approval_id e = Some approval"
    unfolding compensate_effect_def Let_def
    by (clarsimp simp: rbind_Inr_iff split: if_splits prod.splits) fastforce
  from x obtain e mr s1 run call where
    b: "reserve_budget pf s r ev nc tenant run call ''USD'' 20 ''1.0.0'' default_accounts = Inr (mr, s1)"
    and e: "insert_effect e s1 = Inr s'" "ef_tenant e = tenant"
      "ef_original_effect_id e = Some orig" "ef_approval_id e = Some approval" by blast
  have "row_at effect_key (effect_key e) (tb_effects s') = Some e"
    using insert_effect_Inr(1,2) [OF e(1)] by (simp add: row_at_append)
  with p n e show thesis by (intro that)
qed


text \<open>
  An approval pays for one compensation. After a compensation of an effect under some approval,
  whatever effect transactions follow, no second compensation of the same effect under the same
  approval succeeds.
\<close>

theorem approval_compensates_once:
  assumes "uuid_text_ok pf" and "effect_table_inv s"
    and "compensate_effect pf s i r ev now nc c = Inr (m, s1)"
    and "s2 = attempts (effect_txn_step pf) s1 ops"
    and "parse_uuid pf (ca_tenant_id (ac_actor c')) = parse_uuid pf (ca_tenant_id (ac_actor c))"
    and "rbind (field de_string (ac_input c') ''effect_id'') (parse_uuid pf)
       = rbind (field de_string (ac_input c) ''effect_id'') (parse_uuid pf)"
    and "rbind (field de_string (ac_input c') ''approval_id'') (parse_uuid pf)
       = rbind (field de_string (ac_input c) ''approval_id'') (parse_uuid pf)"
  shows "\<not> is_ok (compensate_effect pf s2 i' r' ev' now' nc' c')"
proof
  assume "is_ok (compensate_effect pf s2 i' r' ev' now' nc' c')"
  then obtain m' s3 where c': "compensate_effect pf s2 i' r' ev' now' nc' c' = Inr (m', s3)"
    by (auto simp: is_ok_iff)
  have "effect_txn_step pf s (CompensateTx i r ev now nc c) = Inr s1"
    using assms(3) by (simp add: effect_txn_step_def)
  with assms(1,2) have inv: "effect_table_inv s1" by (rule effect_txn_inv)
  from assms(3) obtain tenant orig approval e where
    p: "parse_uuid pf (ca_tenant_id (ac_actor c)) = Inr tenant"
      "rbind (field de_string (ac_input c) ''effect_id'') (parse_uuid pf) = Inr orig"
      "rbind (field de_string (ac_input c) ''approval_id'') (parse_uuid pf) = Inr approval"
    and e: "row_at effect_key (effect_key e) (tb_effects s1) = Some e"
      "ef_tenant e = tenant" "ef_original_effect_id e = Some orig" "ef_approval_id e = Some approval"
    by (rule compensate_effect_Inr)
  let ?Q = "\<lambda>e. ef_tenant e = tenant \<and> ef_original_effect_id e = Some orig \<and> ef_approval_id e = Some approval"
  have keep: "?Q e'" if "effect_moves p x e'" and "?Q x" for p x e'
    using that by (simp add: effect_moves_def)
  have "?Q e" using e(2-4) by blast
  have "\<exists>e'. row_at effect_key (effect_key e) (tb_effects s2) = Some e' \<and> ?Q e'"
    unfolding assms(4)
    by (rule effect_txns_row [where Q = ?Q, OF assms(1) inv e(1)]) (use keep \<open>?Q e\<close> in blast)+
  then obtain e2 where "row_at effect_key (effect_key e) (tb_effects s2) = Some e2" "?Q e2" by blast
  then have "list_ex ?Q (tb_effects s2)" using row_at_SomeD unfolding list_ex_iff by fast
  moreover from c' have "\<not> list_ex ?Q (tb_effects s2)"
    by (rule compensate_effect_Inr) (use p assms(5-7) in simp)
  ultimately show False by contradiction
qed

definition approved_db :: database where
  "approved_db = effects_db\<lparr>tb_approvals := [\<lparr> ap_tenant = 1, ap_id = 40, ap_run_id = 10,
     ap_action = ''page.publish.compensate'', ap_target = JNull, ap_content_digest = [],
     ap_scope_digest = [], ap_policy_version = [], ap_policy_epoch = 1, ap_max_cost = 1, ap_currency = ''USD'',
     ap_expires_at = 100, ap_created_by = 2, ap_decided_by = Some 3, ap_decided_issuer = Some ''i'',
     ap_state = ''APPROVED'', ap_decision_reason = None, ap_version = 2, ap_created_at = 0,
     ap_updated_at = 0 \<rparr>]\<rparr>"

definition sample_compensation :: "string \<Rightarrow> authorized_command" where
  "sample_compensation key = sample_command key
     [(''effect_id'', JStr ''50''), (''compensation_ref'', ser_artifact_ref sample_artifact),
      (''approval_id'', JStr ''40'')]"

theorem approval_compensates_once_witness:
  "let s = attempts (effect_txn_step sample_platform) approved_db
        [sample_propose ''k'', sample_dispatch 1, SucceededTx 90 91 9 9 1 50 ''p'' sample_artifact 12] in
   \<exists>m s1. compensate_effect sample_platform s 51 61 75 9 9 (sample_compensation ''c1'') = Inr (m, s1)
     \<and> \<not> is_ok (compensate_effect sample_platform s1 52 62 76 9 9 (sample_compensation ''c2''))"
proof -
  define s where "s = attempts (effect_txn_step sample_platform) approved_db
        [sample_propose ''k'', sample_dispatch 1, SucceededTx 90 91 9 9 1 50 ''p'' sample_artifact 12]"
  have "effect_table_inv approved_db"
    using effects_db_inv
    by (simp add: approved_db_def effect_table_inv_def effects_funded_def ledger_inv_def)
  then have i: "effect_table_inv s" unfolding s_def
    using effect_txns.attempts_inv sample_platform_ok by blast
  have "is_ok (compensate_effect sample_platform s 51 61 75 9 9 (sample_compensation ''c1''))"
    unfolding s_def by code_simp
  then obtain m s1 where c: "compensate_effect sample_platform s 51 61 75 9 9 (sample_compensation ''c1'')
      = Inr (m, s1)" by (auto simp: is_ok_iff)
  from approval_compensates_once [OF sample_platform_ok i c, of s1 "[]" "sample_compensation ''c2''"]
  have "\<not> is_ok (compensate_effect sample_platform s1 52 62 76 9 9 (sample_compensation ''c2''))"
    by (simp add: sample_compensation_def sample_command_def)
  with c show ?thesis unfolding Let_def s_def [symmetric] by blast
qed

end
