(* ===== verification/Policy.thy ===== *)
theory Policy
  imports Store "HOL-Library.List_Lexorder" "HOL-Library.Char_ord"
begin

text \<open>
  Authority of a command: the Cedar adapter (\<open>authorization-cedar/src/lib.rs\<close>), the policy snapshot
  of a member (\<open>queries.rs\<close>), the transaction that opens only under current authority
  (\<open>store.rs\<close>, \<open>begin\<close>) and the facts a command is judged by (\<open>authority.rs\<close>). The Cedar engine
  itself is third-party code and a parameter.
\<close>

section \<open>Ordered maps of the standard library\<close>

fun btree_insert :: "string \<Rightarrow> 'v \<Rightarrow> (string \<times> 'v) list \<Rightarrow> (string \<times> 'v) list" where
  "btree_insert k v [] = [(k, v)]"
| "btree_insert k v ((k', v') # m) =
     (if k = k' then (k, v) # m else if k < k' then (k, v) # (k', v') # m
      else (k', v') # btree_insert k v m)"

definition btree_from :: "(string \<times> 'v) list \<Rightarrow> (string \<times> 'v) list" where
  "btree_from kvs = foldl (\<lambda>m (k, v). btree_insert k v m) [] kvs"

lemma map_of_btree_insert [simp]: "map_of (btree_insert k v m) = (map_of m)(k \<mapsto> v)"
  by (induction k v m rule: btree_insert.induct) auto

section \<open>The Cedar adapter\<close>

type_synonym entity_ref = "string \<times> string"

text \<open>
  The functions of the engine: parsing of policies and entity type names, acceptance of entities,
  contexts and requests, and the decision with its error messages.
\<close>

record cedar =
  cd_policy_ok :: "string \<Rightarrow> bool"
  cd_type_ok :: "string \<Rightarrow> bool"
  cd_entities_ok :: "json \<Rightarrow> bool"
  cd_context_ok :: "json \<Rightarrow> bool"
  cd_request_ok :: "entity_ref \<Rightarrow> entity_ref \<Rightarrow> entity_ref \<Rightarrow> json \<Rightarrow> bool"
  cd_errors :: "string \<Rightarrow> entity_ref \<Rightarrow> entity_ref \<Rightarrow> entity_ref \<Rightarrow> json \<Rightarrow> json \<Rightarrow> string list"
  cd_allows :: "string \<Rightarrow> entity_ref \<Rightarrow> entity_ref \<Rightarrow> entity_ref \<Rightarrow> json \<Rightarrow> json \<Rightarrow> bool"

record policy_snapshot =
  sn_policy_version :: string
  sn_policy_epoch :: int
  sn_policies :: string

record trusted_principal =
  tp_principal_id :: string
  tp_tenant_id :: string
  tp_role :: string
  tp_roles :: "string list"
  tp_membership_epoch :: int
  tp_permission_epoch :: int

record trusted_resource =
  tq_entity_type :: string
  tq_resource_id :: string
  tq_tenant_id :: string
  tq_attributes :: "(string \<times> json) list"

record trusted_request =
  tr_principal :: trusted_principal
  tr_action :: string
  tr_resource :: trusted_resource
  tr_context :: "(string \<times> json) list"

record cedar_permit =
  ce_policy_version :: string
  ce_policy_epoch :: int

datatype cedar_error = CedarDenied | CedarEvaluation "string list" | TenantContextMismatch
  | InvalidPolicy | InvalidPolicyMetadata | InvalidEntity | InvalidRequest

definition snapshot_parse :: "cedar \<Rightarrow> string \<Rightarrow> int \<Rightarrow> string \<Rightarrow> cedar_error + policy_snapshot" where
  "snapshot_parse cd policy_version policy_epoch cedar_source =
     (if policy_version = [] \<or> policy_epoch \<le> 0 then Inl InvalidPolicyMetadata
      else if \<not> cd_policy_ok cd cedar_source then Inl InvalidPolicy
      else Inr \<lparr> sn_policy_version = policy_version, sn_policy_epoch = policy_epoch,
                 sn_policies = cedar_source \<rparr>)"

definition entity_uid :: "cedar \<Rightarrow> string \<Rightarrow> string \<Rightarrow> cedar_error + entity_ref" where
  "entity_uid cd entity_type i = (if cd_type_ok cd entity_type then Inr (entity_type, i) else Inl InvalidEntity)"

definition resource_attrs :: "trusted_request \<Rightarrow> (string \<times> json) list" where
  "resource_attrs input =
     btree_insert ''tenant_id'' (JStr (tq_tenant_id (tr_resource input))) (tq_attributes (tr_resource input))"

definition build_entities :: "cedar \<Rightarrow> trusted_request \<Rightarrow> cedar_error + json" where
  "build_entities cd input =
     (let p = tr_principal input;
          entities = JArr
            [JObj [(''uid'', JObj [(''type'', JStr ''User''), (''id'', JStr (tp_principal_id p))]),
                   (''attrs'', JObj
                     [(''tenant_id'', JStr (tp_tenant_id p)), (''role'', JStr (tp_role p)),
                      (''roles'', JArr (map JStr (tp_roles p))),
                      (''membership_epoch'', JNum (tp_membership_epoch p)),
                      (''permission_epoch'', JNum (tp_permission_epoch p))]),
                   (''parents'', JArr [])],
             JObj [(''uid'', JObj [(''type'', JStr (tq_entity_type (tr_resource input))),
                                   (''id'', JStr (tq_resource_id (tr_resource input)))]),
                   (''attrs'', JObj (resource_attrs input)),
                   (''parents'', JArr [])]]
      in if cd_entities_ok cd entities then Inr entities else Inl InvalidEntity)"

definition diagnostic_code :: "string \<Rightarrow> string" where
  "diagnostic_code message = ''CEDAR_EVALUATION_DIAGNOSTIC''"

definition evaluate ::
    "cedar \<Rightarrow> policy_snapshot \<Rightarrow> trusted_request \<Rightarrow> cedar_error + cedar_permit" where
  "evaluate cd snapshot input =
     (let p = tr_principal input; r = tr_resource input in
      if tp_tenant_id p \<noteq> tq_tenant_id r then Inl TenantContextMismatch
      else if tp_membership_epoch p \<le> 0 \<or> tp_permission_epoch p \<le> 0 \<or> tp_roles p = []
        \<or> \<not> list_ex (\<lambda>role. role = tp_role p) (tp_roles p)
      then Inl InvalidEntity
      else
        rbind (entity_uid cd ''User'' (tp_principal_id p)) (\<lambda>principal_uid.
        rbind (entity_uid cd ''Action'' (tr_action input)) (\<lambda>action_uid.
        rbind (entity_uid cd (tq_entity_type r) (tq_resource_id r)) (\<lambda>resource_uid.
        rbind (build_entities cd input) (\<lambda>entities.
        let context = JObj (tr_context input) in
        if \<not> cd_context_ok cd context then Inl InvalidRequest
        else if \<not> cd_request_ok cd principal_uid action_uid resource_uid context then Inl InvalidRequest
        else
          (let diagnostic_codes = map diagnostic_code
                 (cd_errors cd (sn_policies snapshot) principal_uid action_uid resource_uid context entities)
           in
           if diagnostic_codes \<noteq> [] then Inl (CedarEvaluation diagnostic_codes)
           else if cd_allows cd (sn_policies snapshot) principal_uid action_uid resource_uid context entities
           then Inr \<lparr> ce_policy_version = sn_policy_version snapshot,
                      ce_policy_epoch = sn_policy_epoch snapshot \<rparr>
           else Inl CedarDenied))))))"

section \<open>The policy a member is judged by\<close>

record read_policy =
  rd_snapshot :: policy_snapshot
  rd_principal :: trusted_principal

definition policy_request ::
    "read_policy \<Rightarrow> string \<Rightarrow> string \<Rightarrow> string \<Rightarrow> (string \<times> json) list \<Rightarrow> trusted_request" where
  "policy_request rd action kind i attributes =
     \<lparr> tr_principal = rd_principal rd, tr_action = action,
       tr_resource = \<lparr> tq_entity_type = kind, tq_resource_id = i,
                       tq_tenant_id = tp_tenant_id (rd_principal rd), tq_attributes = attributes \<rparr>,
       tr_context = [] \<rparr>"

definition permits ::
    "cedar \<Rightarrow> read_policy \<Rightarrow> string \<Rightarrow> string \<Rightarrow> string \<Rightarrow> (string \<times> json) list \<Rightarrow> bool" where
  "permits cd rd action kind i attributes \<longleftrightarrow>
     is_ok (evaluate cd (rd_snapshot rd) (policy_request rd action kind i attributes))"

abbreviation member_key :: "membership_row \<Rightarrow> uuid \<times> uuid" where
  "member_key m \<equiv> (me_tenant m, me_principal_id m)"

definition current_policy :: "database \<Rightarrow> uuid \<Rightarrow> policy_row option" where
  "current_policy s tenant = find (\<lambda>p. az_tenant p = tenant \<and> az_is_current p) (tb_policies s)"

definition member_roles :: "database \<Rightarrow> membership_row \<Rightarrow> string list" where
  "member_roles s m =
     sort (map mr_role (filter (\<lambda>r. mr_tenant r = me_tenant m \<and> mr_membership_id r = me_membership_id m)
       (tb_membership_roles s)))"

text \<open>The row both policy readers join: an active membership and the current policy.\<close>

definition policy_row_of :: "database \<Rightarrow> uuid \<Rightarrow> uuid \<Rightarrow> (membership_row \<times> policy_row) outcome" where
  "policy_row_of s tenant who =
     rbind (ok_or not_found (find (\<lambda>m. member_key m = (tenant, who) \<and> me_status m = ''ACTIVE'')
             (tb_memberships s))) (\<lambda>m.
     rbind (ok_or not_found (current_policy s tenant)) (\<lambda>p. Inr (m, p)))"

definition read_policy ::
    "cedar \<Rightarrow> platform \<Rightarrow> database \<Rightarrow> command_actor \<Rightarrow> read_policy outcome" where
  "read_policy cd pf s actor =
     rbind (parse_uuid pf (ca_tenant_id actor)) (\<lambda>tenant.
     rbind (parse_uuid pf (ca_principal_id actor)) (\<lambda>who.
     rbind (policy_row_of s tenant who) (\<lambda>(m, p).
     rbind (map_err (\<lambda>_. unavailable ''POLICY_INVALID'')
             (snapshot_parse cd (az_policy_version p) (az_policy_epoch p) (az_cedar_source p))) (\<lambda>snapshot.
     Inr \<lparr> rd_snapshot = snapshot,
           rd_principal = \<lparr> tp_principal_id = ca_principal_id actor, tp_tenant_id = ca_tenant_id actor,
             tp_role = me_role m, tp_roles = member_roles s m,
             tp_membership_epoch = ca_membership_epoch actor,
             tp_permission_epoch = ca_permission_epoch actor \<rparr> \<rparr>))))"

definition read_policy_for_principal ::
    "cedar \<Rightarrow> platform \<Rightarrow> database \<Rightarrow> uuid \<Rightarrow> uuid \<Rightarrow> read_policy outcome" where
  "read_policy_for_principal cd pf s tenant who =
     rbind (policy_row_of s tenant who) (\<lambda>(m, p).
     rbind (map_err (\<lambda>_. unavailable ''POLICY_INVALID'')
             (snapshot_parse cd (az_policy_version p) (az_policy_epoch p) (az_cedar_source p))) (\<lambda>snapshot.
     Inr \<lparr> rd_snapshot = snapshot,
           rd_principal = \<lparr> tp_principal_id = pf_uuid_show pf who,
             tp_tenant_id = pf_uuid_show pf tenant, tp_role = me_role m, tp_roles = member_roles s m,
             tp_membership_epoch = me_membership_epoch m,
             tp_permission_epoch = me_permission_epoch m \<rparr> \<rparr>))"

section \<open>Transactions of an actor\<close>

text \<open>\<open>begin\<close>: the tenant is active and the actor's claims are the current rows.\<close>

definition begin_actor :: "platform \<Rightarrow> database \<Rightarrow> command_actor \<Rightarrow> unit outcome" where
  "begin_actor pf s actor =
     rbind (parse_uuid pf (ca_tenant_id actor)) (\<lambda>tenant.
     rbind (parse_uuid pf (ca_principal_id actor)) (\<lambda>who.
     if map_option (\<lambda>t. tn_status t = ''ACTIVE'') (row_at tn_id tenant (tb_tenants s)) \<noteq> Some True
     then Inl not_found
     else
     rbind (ok_or not_found (row_at member_key (tenant, who) (tb_memberships s))) (\<lambda>m.
     if me_status m \<noteq> ''ACTIVE'' \<or> me_membership_epoch m \<noteq> ca_membership_epoch actor
        \<or> me_permission_epoch m \<noteq> ca_permission_epoch actor
     then Inl (denied ''AUTHORITY_CHANGED'')
     else
     rbind (ok_or (unavailable ''POLICY_UNAVAILABLE'') (current_policy s tenant)) (\<lambda>p.
     if az_policy_version p \<noteq> ca_policy_version actor \<or> az_policy_epoch p \<noteq> ca_policy_epoch actor
     then Inl (denied ''AUTHORITY_CHANGED'')
     else Inr ()))))"

section \<open>The facts a command is judged by\<close>

text \<open>The newest projection of a resource whose artifact is active: its version and classification.\<close>

definition latest_projection ::
    "database \<Rightarrow> uuid \<Rightarrow> string \<Rightarrow> string \<Rightarrow> (int \<times> string) option" where
  "latest_projection s tenant kind i =
     fold (\<lambda>p best.
         if rp_tenant p = tenant \<and> rp_resource_type p = kind \<and> rp_resource_id p = i then
           (case row_at artifact_key (tenant, rp_artifact_id p) (tb_artifacts s) of
              None \<Rightarrow> best
            | Some a \<Rightarrow>
                if af_state a = ''ACTIVE'' \<and> (case best of None \<Rightarrow> True | Some (v, _) \<Rightarrow> v < rp_version p)
                then Some (rp_version p, af_classification a) else best)
         else best)
       (tb_projections s) None"

definition projection_target :: "string \<Rightarrow> (string \<times> string) option" where
  "projection_target operation =
     (if operation = ''grant.revoke'' then Some (''Delegation'', ''grant_id'')
      else if operation = ''run.cancel'' then Some (''Run'', ''run_id'')
      else if operation = ''approval.decide'' then Some (''Approval'', ''proposal_id'')
      else if operation \<in> {''effect.dispatch'', ''effect.reconcile'', ''effect.compensate''}
      then Some (''EffectIntent'', ''effect_id'')
      else if operation = ''connection.revoke'' then Some (''Connection'', ''connection_id'')
      else if operation = ''notification.read'' then Some (''Notification'', ''notification_id'')
      else if operation = ''catalog.review'' then Some (''CatalogListing'', ''listing_id'')
      else None)"

definition command_facts ::
    "platform \<Rightarrow> database \<Rightarrow> uuid \<Rightarrow> authorized_command
     \<Rightarrow> (string \<times> string \<times> (string \<times> json) list) outcome" where
  "command_facts pf s tenant command =
     (if ac_operation command \<in> {''plugin.enable'', ''plugin.disable'', ''plugin.upgrade'',
          ''plugin.revoke'', ''plugin.uninstall'', ''plugin.invoke''} then
        rbind (field de_string (ac_input command) ''plugin_id'') (\<lambda>plugin.
        rbind (ok_or not_found (find (\<lambda>i. pi_tenant i = tenant \<and> pi_plugin_id i = plugin)
                (tb_installations s))) (\<lambda>row.
        Inr (''PluginInstallation'', pf_uuid_show pf (pi_id row),
             btree_from [(''plugin_id'', JStr plugin), (''version'', JNum (pi_version row)),
                         (''state'', JStr (pi_state row))])))
      else if ac_operation command \<in> {''membership.change'', ''membership.revoke''} then
        rbind (field de_string (ac_input command) ''membership_id'') (\<lambda>i.
        rbind (parse_uuid pf i) (\<lambda>membership_id.
        rbind (ok_or not_found (find (\<lambda>m. me_tenant m = tenant \<and> me_membership_id m = membership_id)
                (tb_memberships s))) (\<lambda>row.
        Inr (''Membership'', i,
             btree_from [(''version'', JNum (me_version row)), (''state'', JStr (me_status row)),
                         (''principal_id'', ser_uuid pf (me_principal_id row))]))))
      else if ac_operation command = ''artifact.finalize'' then
        rbind (field de_string (ac_input command) ''artifact_id'') (\<lambda>i.
        rbind (parse_uuid pf i) (\<lambda>artifact_id.
        rbind (ok_or not_found (find (\<lambda>a. artifact_key a = (tenant, artifact_id) \<and> af_state a \<noteq> ''PURGED'')
                (tb_artifacts s))) (\<lambda>row.
        Inr (''Artifact'', i,
             btree_from [(''version'', JNum (af_version row)),
                         (''classification'', JStr (af_classification row)),
                         (''creator_id'', ser_uuid pf (af_creator_id row))]))))
      else
        (case projection_target (ac_operation command) of
           Some (kind, field_name) \<Rightarrow>
             rbind (field de_string (ac_input command) field_name) (\<lambda>i.
             rbind (ok_or not_found (latest_projection s tenant kind i)) (\<lambda>(version, class).
             Inr (kind, i, btree_from [(''version'', JNum version), (''classification'', JStr class)])))
         | None \<Rightarrow> Inr (''Tenant'', pf_uuid_show pf tenant, [])))"

definition authorize_command ::
    "cedar \<Rightarrow> platform \<Rightarrow> database \<Rightarrow> authorized_command \<Rightarrow> unit outcome" where
  "authorize_command cd pf s command =
     rbind (parse_uuid pf (ca_tenant_id (ac_actor command))) (\<lambda>tenant.
     rbind (read_policy cd pf s (ac_actor command)) (\<lambda>policy.
     rbind (command_facts pf s tenant command) (\<lambda>(kind, i, attributes).
     if \<not> permits cd policy (ac_operation command) kind i attributes
     then Inl (denied ''AUTHZ_DENIED'') else Inr ())))"

section \<open>Facts\<close>

lemma entity_uid_Inr_iff [res_simps]:
  "entity_uid cd t i = Inr r \<longleftrightarrow> cd_type_ok cd t \<and> r = (t, i)"
  by (auto simp: entity_uid_def)

lemma snapshot_parse_Inr_iff [res_simps]:
  "snapshot_parse cd v n src = Inr sn \<longleftrightarrow> v \<noteq> [] \<and> 0 < n \<and> cd_policy_ok cd src
     \<and> sn = \<lparr> sn_policy_version = v, sn_policy_epoch = n, sn_policies = src \<rparr>"
  by (auto simp: snapshot_parse_def)

lemma evaluate_Inr:
  assumes "evaluate cd sn input = Inr p"
  obtains entities where "build_entities cd input = Inr entities"
    "tp_tenant_id (tr_principal input) = tq_tenant_id (tr_resource input)"
    "tp_role (tr_principal input) \<in> set (tp_roles (tr_principal input))"
    "cd_errors cd (sn_policies sn) (''User'', tp_principal_id (tr_principal input))
       (''Action'', tr_action input) (tq_entity_type (tr_resource input), tq_resource_id (tr_resource input))
       (JObj (tr_context input)) entities = []"
    "cd_allows cd (sn_policies sn) (''User'', tp_principal_id (tr_principal input))
       (''Action'', tr_action input) (tq_entity_type (tr_resource input), tq_resource_id (tr_resource input))
       (JObj (tr_context input)) entities"
  using assms
  by (auto simp: evaluate_def Let_def rbind_Inr_iff entity_uid_Inr_iff list_ex_iff
      split: if_splits intro!: that)

text \<open>The entity of the resource as the engine sees it.\<close>

definition entity_attribute :: "json \<Rightarrow> nat \<Rightarrow> string \<Rightarrow> json option" where
  "entity_attribute entities n name =
     (case entities of
        JArr es \<Rightarrow> if n < length es
          then (case json_get ''attrs'' (es ! n) of None \<Rightarrow> None | Some attrs \<Rightarrow> json_get name attrs)
          else None
      | _ \<Rightarrow> None)"

lemma build_entities_facts:
  assumes "build_entities cd input = Inr entities"
  shows "entity_attribute entities 1 ''tenant_id'' = Some (JStr (tq_tenant_id (tr_resource input)))"
    and "entity_attribute entities 0 ''tenant_id'' = Some (JStr (tp_tenant_id (tr_principal input)))"
    and "name \<noteq> ''tenant_id'' \<Longrightarrow> entity_attribute entities 1 name = map_of (tq_attributes (tr_resource input)) name"
  using assms
  by (auto simp: build_entities_def entity_attribute_def resource_attrs_def Let_def split: if_splits)

lemma policy_row_of_Inr:
  "policy_row_of s tenant who = Inr (m, p) \<Longrightarrow> m \<in> set (tb_memberships s) \<and> member_key m = (tenant, who)
     \<and> me_status m = ''ACTIVE'' \<and> p \<in> set (tb_policies s) \<and> az_tenant p = tenant \<and> az_is_current p"
  by (auto simp: policy_row_of_def rbind_Inr_iff ok_or_Inr_iff current_policy_def find_Some_iff)

lemma begin_actor_Inr_iff:
  "begin_actor pf s actor = Inr u \<longleftrightarrow>
     (\<exists>tenant who t m p. parse_uuid pf (ca_tenant_id actor) = Inr tenant
        \<and> parse_uuid pf (ca_principal_id actor) = Inr who
        \<and> row_at tn_id tenant (tb_tenants s) = Some t \<and> tn_status t = ''ACTIVE''
        \<and> row_at member_key (tenant, who) (tb_memberships s) = Some m \<and> me_status m = ''ACTIVE''
        \<and> me_membership_epoch m = ca_membership_epoch actor
        \<and> me_permission_epoch m = ca_permission_epoch actor
        \<and> current_policy s tenant = Some p \<and> az_policy_version p = ca_policy_version actor
        \<and> az_policy_epoch p = ca_policy_epoch actor)"
  unfolding begin_actor_def
  by (auto simp: rbind_Inr_iff ok_or_Inr_iff split: if_splits)

section \<open>Properties\<close>


definition sample_cedar :: cedar where
  "sample_cedar = \<lparr> cd_policy_ok = (\<lambda>src. src \<noteq> []), cd_type_ok = (\<lambda>t. t \<noteq> []),
     cd_entities_ok = (\<lambda>_. True), cd_context_ok = (\<lambda>_. True), cd_request_ok = (\<lambda>_ _ _ _. True),
     cd_errors = (\<lambda>_ _ _ _ _ _. []),
     cd_allows = (\<lambda>src p a r c e. entity_attribute e 0 ''role'' = Some (JStr ''OWNER'')) \<rparr>"

definition member_db :: database where
  "member_db = sample_db\<lparr>
     tb_memberships := [\<lparr> me_tenant = 1, me_principal_id = 2, me_membership_id = 12, me_role = ''OWNER'',
       me_status = ''ACTIVE'', me_membership_epoch = 1, me_permission_epoch = 1, me_version = 1 \<rparr>],
     tb_membership_roles := [\<lparr> mr_tenant = 1, mr_membership_id = 12, mr_role = ''OWNER'' \<rparr>],
     tb_policies := [\<lparr> az_tenant = 1, az_policy_version = ''1'', az_policy_epoch = 1,
       az_cedar_source = ''permit'', az_is_current = True \<rparr>]\<rparr>"

definition member_actor :: command_actor where
  "member_actor = \<lparr> ca_tenant_id = ''1'', ca_principal_id = ''2'', ca_issuer = ''i'',
     ca_membership_epoch = 1, ca_permission_epoch = 1, ca_policy_version = ''1'', ca_policy_epoch = 1 \<rparr>"

definition member_command :: "string \<Rightarrow> string \<Rightarrow> (string \<times> json) list \<Rightarrow> authorized_command" where
  "member_command operation key input = \<lparr> ac_actor = member_actor, ac_operation = operation,
     ac_idempotency_key = key, ac_fingerprint = ''sha256:'' @ replicate 64 (CHR ''0''),
     ac_input = JObj input \<rparr>"


end
