(* ===== verification/Validation.thy ===== *)
theory Validation
  imports Policy
begin

text \<open>
  Offline contract validation (\<open>crates/contract-validation/src/lib.rs\<close>): strict JSON, the profile
  a plugin's schema must fit, artifact schemas, and the catalog of wire contracts with its
  sanitised diagnostics. The JSON tokeniser and the JSON-Schema validator are third-party code and
  parameters; the decoder parameter keeps duplicate members, as the tokeniser delivers them.
\<close>

section \<open>Failures\<close>

record validation_failure =
  vf_code :: string
  vf_field :: string

type_synonym 'a validated = "validation_failure + 'a"

definition validation_new :: "string \<Rightarrow> string \<Rightarrow> validation_failure" where
  "validation_new code name = \<lparr> vf_code = code, vf_field = name \<rparr>"

section \<open>Strict JSON\<close>

text \<open>\<open>StrictVisitor\<close>: an object with a repeated member is an error at any depth.\<close>

fun unique_members :: "json \<Rightarrow> bool"
  and members_unique :: "string list \<Rightarrow> (string \<times> json) list \<Rightarrow> bool"
  and elements_unique :: "json list \<Rightarrow> bool" where
  "unique_members (JObj object) = members_unique [] object"
| "unique_members (JArr array) = elements_unique array"
| "unique_members JNull = True"
| "unique_members (JBool b) = True"
| "unique_members (JNum n) = True"
| "unique_members (JFloat f) = True"
| "unique_members (JStr s) = True"
| "members_unique seen [] = True"
| "members_unique seen ((k, child) # rest) =
     (if List.member seen k then False
      else unique_members child \<and> members_unique (k # seen) rest)"
| "elements_unique [] = True"
| "elements_unique (child # rest) = (unique_members child \<and> elements_unique rest)"

definition strict_json :: "(string \<Rightarrow> json option) \<Rightarrow> string \<Rightarrow> json validated" where
  "strict_json decode bytes =
     (case decode bytes of
        None \<Rightarrow> Inl (validation_new ''JSON_INVALID'' [])
      | Some j \<Rightarrow> if unique_members j then Inr j else Inl (validation_new ''JSON_INVALID'' []))"

section \<open>The profile of a plugin schema\<close>

definition not_fragment :: "json \<Rightarrow> bool" where
  "not_fragment j = (case j of JStr s \<Rightarrow> s = [] \<or> hd s \<noteq> CHR ''#'' | _ \<Rightarrow> True)"

definition external_reference :: "(string \<times> json) list \<Rightarrow> bool" where
  "external_reference object \<longleftrightarrow>
     (case map_of object ''$ref'' of None \<Rightarrow> False | Some r \<Rightarrow> not_fragment r)
     \<or> map_of object ''$dynamicRef'' \<noteq> None
     \<or> map_of object ''$recursiveRef'' \<noteq> None
     \<or> (case map_of object ''$id'' of None \<Rightarrow> False | Some i \<Rightarrow> not_fragment i)"

definition pattern_too_long :: "(string \<times> json) list \<Rightarrow> bool" where
  "pattern_too_long object \<longleftrightarrow>
     (case map_of object ''pattern'' of Some (JStr p) \<Rightarrow> 512 < length p | _ \<Rightarrow> False)
     \<or> (case map_of object ''patternProperties'' of
           Some (JObj patterns) \<Rightarrow> list_ex (\<lambda>(p, _). 512 < length p) patterns | _ \<Rightarrow> False)"

text \<open>The budget of nodes is threaded through the traversal; its rest is the result.\<close>

fun check_schema_profile :: "json \<Rightarrow> nat \<Rightarrow> nat \<Rightarrow> nat validated"
  and check_members :: "(string \<times> json) list \<Rightarrow> nat \<Rightarrow> nat \<Rightarrow> nat validated"
  and check_elements :: "json list \<Rightarrow> nat \<Rightarrow> nat \<Rightarrow> nat validated" where
  "check_schema_profile j depth remaining =
     (if 64 < depth \<or> remaining = 0 then Inl (validation_new ''PLUGIN_SCHEMA_LIMIT'' [])
      else
        (case j of
           JObj object \<Rightarrow>
             if external_reference object
             then Inl (validation_new ''PLUGIN_SCHEMA_REFERENCE_UNSUPPORTED'' [])
             else if pattern_too_long object then Inl (validation_new ''PLUGIN_SCHEMA_LIMIT'' [])
             else check_members object (depth + 1) (remaining - 1)
         | JArr array \<Rightarrow> check_elements array (depth + 1) (remaining - 1)
         | _ \<Rightarrow> Inr (remaining - 1)))"
| "check_members [] depth remaining = Inr remaining"
| "check_members ((k, child) # rest) depth remaining =
     (case check_schema_profile child depth remaining of
        Inl e \<Rightarrow> Inl e | Inr r \<Rightarrow> check_members rest depth r)"
| "check_elements [] depth remaining = Inr remaining"
| "check_elements (child # rest) depth remaining =
     (case check_schema_profile child depth remaining of
        Inl e \<Rightarrow> Inl e | Inr r \<Rightarrow> check_elements rest depth r)"

section \<open>Artifact schemas\<close>

record schema_tools =
  st_decode :: "string \<Rightarrow> json option"
  st_build :: "json \<Rightarrow> (json \<Rightarrow> string option) option"

text \<open>
  A compiled validator answers nothing for a valid instance and the path of its first error
  otherwise.
\<close>

type_synonym validator = "json \<Rightarrow> string option"

definition schema_compile :: "schema_tools \<Rightarrow> string \<Rightarrow> validator validated" where
  "schema_compile tools bytes =
     (if 256 * 1024 < length bytes then Inl (validation_new ''PLUGIN_SCHEMA_LIMIT'' [])
      else
      rbind (strict_json (st_decode tools) bytes) (\<lambda>j.
      if \<not> (case j of JObj _ \<Rightarrow> True | JBool _ \<Rightarrow> True | _ \<Rightarrow> False)
      then Inl (validation_new ''PLUGIN_SCHEMA_INVALID'' [])
      else
      rbind (check_schema_profile j 0 8192) (\<lambda>_.
      ok_or (validation_new ''PLUGIN_SCHEMA_INVALID'' []) (st_build tools j))))"

definition validate_bytes :: "schema_tools \<Rightarrow> validator \<Rightarrow> string \<Rightarrow> nat \<Rightarrow> unit validated" where
  "validate_bytes tools val bytes maximum =
     (if maximum < length bytes then Inl (validation_new ''PLUGIN_PAYLOAD_LIMIT'' [])
      else
      rbind (strict_json (st_decode tools) bytes) (\<lambda>j.
      if val j \<noteq> None then Inl (validation_new ''PLUGIN_PAYLOAD_INVALID'' []) else Inr ()))"

section \<open>The catalog of contracts\<close>

type_synonym schema_catalog = "(string \<times> validator) list"

text \<open>
  Every definition of the checked-in document gets a validator for the document with a local
  reference to it; the document's own identity is removed first.
\<close>

definition definition_root :: "(string \<times> json) list \<Rightarrow> string \<Rightarrow> json" where
  "definition_root root name =
     JObj (btree_insert ''$ref'' (JStr (''#/$defs/'' @ name)) (filter (\<lambda>(k, _). k \<noteq> ''$id'') root))"

definition catalog_load :: "schema_tools \<Rightarrow> (string \<times> json) list \<Rightarrow> schema_catalog validated" where
  "catalog_load tools root =
     rbind (ok_or (validation_new ''CONTRACT_CATALOG_INVALID'' [])
             (case map_of root ''$defs'' of Some (JObj defs) \<Rightarrow> Some (map fst defs) | _ \<Rightarrow> None)) (\<lambda>names.
     rfold (\<lambda>name validators.
         rbind (ok_or (validation_new ''CONTRACT_CATALOG_INVALID'' name)
                 (st_build tools (definition_root root name))) (\<lambda>v.
         Inr (btree_insert name v validators)))
       names [])"

fun nth_part :: "nat \<Rightarrow> string list \<Rightarrow> string" where
  "nth_part n [] = []"
| "nth_part 0 (x # xs) = x"
| "nth_part (Suc n) (x # xs) = nth_part n xs"

definition safe_field :: "string \<Rightarrow> string" where
  "safe_field path =
     (let safe = nth_part 1 (split_on (CHR ''/'') path) in
      if length safe \<le> 64 \<and> list_all (\<lambda>c. is_ascii_alphanumeric c \<or> c = CHR ''_'') safe then safe else [])"

definition catalog_validate :: "schema_catalog \<Rightarrow> string \<Rightarrow> json \<Rightarrow> unit validated" where
  "catalog_validate catalog name val =
     rbind (ok_or (validation_new ''CONTRACT_UNSUPPORTED'' []) (map_of catalog name)) (\<lambda>validator.
     case validator val of
       None \<Rightarrow> Inr ()
     | Some path \<Rightarrow> Inl (validation_new ''SCHEMA_INVALID'' (safe_field path)))"

definition MAX_COMMAND_BYTES :: nat where
  "MAX_COMMAND_BYTES = 1048576"

definition command_schema :: "string \<Rightarrow> string" where
  "command_schema operation =
     ''Command_'' @ map (\<lambda>c. if c = CHR ''.'' \<or> c = CHR ''-'' then CHR ''_'' else c) operation"

definition catalog_command :: "schema_tools \<Rightarrow> schema_catalog \<Rightarrow> string \<Rightarrow> string \<Rightarrow> json validated" where
  "catalog_command tools catalog operation body =
     (if \<not> is_platform_operation operation then Inl (validation_new ''OPERATION_NOT_FOUND'' [])
      else if MAX_COMMAND_BYTES < length body then Inl (validation_new ''PAYLOAD_TOO_LARGE'' [])
      else
      rbind (strict_json (st_decode tools) body) (\<lambda>val.
      rbind (catalog_validate catalog (command_schema operation) val) (\<lambda>_. Inr val)))"

section \<open>What the profile admits\<close>

text \<open>A declarative reading of the profile: the nodes of a schema, their depth and their form.\<close>

fun json_nodes :: "json \<Rightarrow> nat" and member_nodes :: "(string \<times> json) list \<Rightarrow> nat"
  and element_nodes :: "json list \<Rightarrow> nat" where
  "json_nodes (JObj object) = Suc (member_nodes object)"
| "json_nodes (JArr array) = Suc (element_nodes array)"
| "json_nodes JNull = 1"
| "json_nodes (JBool b) = 1"
| "json_nodes (JNum n) = 1"
| "json_nodes (JFloat f) = 1"
| "json_nodes (JStr s) = 1"
| "member_nodes [] = 0"
| "member_nodes ((k, j) # rest) = json_nodes j + member_nodes rest"
| "element_nodes [] = 0"
| "element_nodes (j # rest) = json_nodes j + element_nodes rest"

text \<open>Every value that occurs in a value, with its depth.\<close>

inductive occurs_at :: "nat \<Rightarrow> json \<Rightarrow> json \<Rightarrow> bool" where
  here: "occurs_at 0 j j"
| member: "(k, child) \<in> set object \<Longrightarrow> occurs_at n j child \<Longrightarrow> occurs_at (Suc n) j (JObj object)"
| element: "child \<in> set array \<Longrightarrow> occurs_at n j child \<Longrightarrow> occurs_at (Suc n) j (JArr array)"

inductive_cases occurs_at_JObj: "occurs_at n j (JObj object)"
inductive_cases occurs_at_JArr: "occurs_at n j (JArr array)"

definition local_schema :: "json \<Rightarrow> bool" where
  "local_schema j = (case j of JObj object \<Rightarrow> \<not> external_reference object \<and> \<not> pattern_too_long object | _ \<Rightarrow> True)"

definition fits_profile :: "nat \<Rightarrow> json \<Rightarrow> bool" where
  "fits_profile d j \<longleftrightarrow> (\<forall>n i. occurs_at n i j \<longrightarrow> d + n \<le> 64 \<and> local_schema i)"

lemma fits_profile_JObj:
  "fits_profile d (JObj object) \<longleftrightarrow> d \<le> 64 \<and> local_schema (JObj object)
     \<and> (\<forall>(k, child) \<in> set object. fits_profile (Suc d) child)"
proof
  assume "fits_profile d (JObj object)"
  then show "d \<le> 64 \<and> local_schema (JObj object) \<and> (\<forall>(k, child) \<in> set object. fits_profile (Suc d) child)"
    unfolding fits_profile_def by (fastforce intro: occurs_at.intros)
next
  assume "d \<le> 64 \<and> local_schema (JObj object) \<and> (\<forall>(k, child) \<in> set object. fits_profile (Suc d) child)"
  then show "fits_profile d (JObj object)"
    unfolding fits_profile_def by (fastforce elim: occurs_at_JObj)
qed

lemma fits_profile_JArr:
  "fits_profile d (JArr array) \<longleftrightarrow> d \<le> 64 \<and> (\<forall>child \<in> set array. fits_profile (Suc d) child)"
proof
  assume "fits_profile d (JArr array)"
  then show "d \<le> 64 \<and> (\<forall>child \<in> set array. fits_profile (Suc d) child)"
    unfolding fits_profile_def by (fastforce intro: occurs_at.intros)
next
  assume "d \<le> 64 \<and> (\<forall>child \<in> set array. fits_profile (Suc d) child)"
  then show "fits_profile d (JArr array)"
    unfolding fits_profile_def by (fastforce elim: occurs_at_JArr simp: local_schema_def)
qed

lemma fits_profile_leaf:
  assumes "\<And>object. j \<noteq> JObj object" and "\<And>array. j \<noteq> JArr array"
  shows "fits_profile d j \<longleftrightarrow> d \<le> 64"
proof -
  have "occurs_at n i j \<longleftrightarrow> n = 0 \<and> i = j" for n i
  proof
    assume "occurs_at n i j"
    then show "n = 0 \<and> i = j" by cases (use assms in auto)
  qed (simp add: occurs_at.here)
  with assms show ?thesis by (cases j) (auto simp: fits_profile_def local_schema_def)
qed

lemma fits_profile_leaves [simp]:
  "fits_profile d JNull \<longleftrightarrow> d \<le> 64" "fits_profile d (JBool b) \<longleftrightarrow> d \<le> 64"
  "fits_profile d (JNum n) \<longleftrightarrow> d \<le> 64" "fits_profile d (JFloat f) \<longleftrightarrow> d \<le> 64"
  "fits_profile d (JStr t) \<longleftrightarrow> d \<le> 64"
  by (simp_all add: fits_profile_leaf)

lemma check_profile_iff:
  "check_schema_profile j d n = Inr r \<longleftrightarrow> fits_profile d j \<and> json_nodes j \<le> n \<and> r = n - json_nodes j"
  "check_members ms d n = Inr r \<longleftrightarrow>
     (\<forall>(k, child) \<in> set ms. fits_profile d child) \<and> member_nodes ms \<le> n \<and> r = n - member_nodes ms"
  "check_elements js d n = Inr r \<longleftrightarrow>
     (\<forall>child \<in> set js. fits_profile d child) \<and> element_nodes js \<le> n \<and> r = n - element_nodes js"
proof (induction j and ms and js arbitrary: d n r and d n r and d n r rule: json_nodes_member_nodes_element_nodes.induct)
  case (1 object)
  then show ?case
    by (auto simp: fits_profile_JObj local_schema_def split: if_splits)
next
  case (2 array)
  then show ?case by (auto simp: fits_profile_JArr split: if_splits)
next
  case (9 k j rest)
  have "check_members ((k, j) # rest) d n = Inr r \<longleftrightarrow>
      (\<exists>r1. check_schema_profile j d n = Inr r1 \<and> check_members rest d r1 = Inr r)"
    by (simp del: check_schema_profile.simps split: sum.split)
  then show ?case using 9 by (auto simp del: check_schema_profile.simps check_members.simps)
next
  case (11 j rest)
  have "check_elements (j # rest) d n = Inr r \<longleftrightarrow>
      (\<exists>r1. check_schema_profile j d n = Inr r1 \<and> check_elements rest d r1 = Inr r)"
    by (simp del: check_schema_profile.simps split: sum.split)
  then show ?case using 11 by (auto simp del: check_schema_profile.simps check_elements.simps)
qed (auto simp del: check_schema_profile.simps simp: check_schema_profile.simps [of JNull]
    check_schema_profile.simps [of "JBool x" for x] check_schema_profile.simps [of "JNum x" for x]
    check_schema_profile.simps [of "JFloat x" for x] check_schema_profile.simps [of "JStr x" for x]
    split: if_splits)

section \<open>Properties\<close>

text \<open>
  C32: the one-pass check of a plugin schema is the declarative profile. With the budget the
  compiler starts with, the traversal accepts a schema exactly when it has at most 8192 nodes and
  every value in it sits at depth 64 or less, refers only to fragments of the same document and has
  patterns of at most 512 bytes.
\<close>

theorem schema_profile_equivalence:
  "is_ok (check_schema_profile j 0 8192) \<longleftrightarrow>
     json_nodes j \<le> 8192
     \<and> (\<forall>n i. occurs_at n i j \<longrightarrow> n \<le> 64 \<and>
          (case i of JObj object \<Rightarrow> \<not> external_reference object \<and> \<not> pattern_too_long object | _ \<Rightarrow> True))"
  by (simp add: is_ok_iff check_profile_iff(1) fits_profile_def local_schema_def conj_commute
      del: check_schema_profile.simps)

theorem schema_profile_equivalence_witness:
  "\<not> is_ok (check_schema_profile (JArr [JObj [(''$ref'', JStr ''https://example.test/s'')]]) 0 8192)
   \<and> (\<exists>n i. occurs_at n i (JArr [JObj [(''$ref'', JStr ''https://example.test/s'')]]) \<and> \<not> (n \<le> 64 \<and>
          (case i of JObj object \<Rightarrow> \<not> external_reference object \<and> \<not> pattern_too_long object | _ \<Rightarrow> True)))"
proof -
  have "\<not> is_ok (check_schema_profile (JArr [JObj [(''$ref'', JStr ''https://example.test/s'')]]) 0 8192)"
    by code_simp
  moreover have "json_nodes (JArr [JObj [(''$ref'', JStr ''https://example.test/s'')]]) \<le> 8192" by simp
  ultimately show ?thesis
    using schema_profile_equivalence [of "JArr [JObj [(''$ref'', JStr ''https://example.test/s'')]]"] by blast
qed

lemma safe_field_ok:
  "length (safe_field path) \<le> 64 \<and> list_all (\<lambda>c. is_ascii_alphanumeric c \<or> c = CHR ''_'') (safe_field path)"
  by (simp add: safe_field_def Let_def)


definition sample_tools :: schema_tools where
  "sample_tools = \<lparr> st_decode = (\<lambda>b. if b = ''{}'' then Some (JObj []) else None),
     st_build = (\<lambda>_. Some (\<lambda>_. None)) \<rparr>"


end
