(* ===== verification/Relay.thy ===== *)
theory Relay
  imports Policy Run_Commands
begin

text \<open>
  Dispatch of queued runs: the outbox of the PostgreSQL adapter (\<open>relay.rs\<close> of data-postgres) and
  the worker's relay pass (\<open>crates/worker/src/relay.rs\<close>). A pass leases pending \<open>run.start\<close>
  events, re-checks the authority of each run, asks the durable engine to start it and settles the
  event. The engine is third-party code and a parameter; every transaction reads its own clock.
\<close>

section \<open>The outbox\<close>

record outbox_dispatch_item =
  od_event_id :: uuid
  od_event_name :: string
  od_aggregate_id :: uuid
  od_aggregate_version :: int
  od_aggregate_type :: string

record dispatchable_run =
  dr_run_id :: uuid
  dr_workflow_id :: string
  dr_workflow_version :: string
  dr_plugin_id :: string
  dr_plugin_digest :: string
  dr_grant_id :: uuid
  dr_grant_fence :: int
  dr_fence :: int
  dr_temporal_workflow_id :: string

definition outbox_ok :: "outbox_row \<Rightarrow> bool" where
  "outbox_ok e \<longleftrightarrow> 0 < ob_aggregate_version e
     \<and> ob_delivery_status e \<in> {''PENDING'', ''DELIVERED'', ''DEAD_LETTER''}"

definition outbox_fits :: "outbox_row \<Rightarrow> bool" where
  "outbox_fits e \<longleftrightarrow> in_i32 (ob_delivery_attempts e)"

definition update_outbox ::
    "uuid \<Rightarrow> uuid \<Rightarrow> (outbox_row \<Rightarrow> outbox_row) \<Rightarrow> database \<Rightarrow> database outcome" where
  "update_outbox tenant i f s =
     rbind (sql (update_rows (\<lambda>e. outbox_key e = (tenant, i)) f outbox_fits outbox_ok (tb_outbox s)))
       (\<lambda>t. Inr (s\<lparr>tb_outbox := t\<rparr>))"

abbreviation seconds :: "int \<Rightarrow> timestamp" where
  "seconds n \<equiv> n * 1000000"

definition pending_event :: "timestamp \<Rightarrow> uuid \<Rightarrow> outbox_row \<Rightarrow> bool" where
  "pending_event now tenant e \<longleftrightarrow>
     ob_tenant e = tenant \<and> ob_delivery_status e = ''PENDING'' \<and> ob_available_at e \<le> now
     \<and> (case ob_lease_expires_at e of None \<Rightarrow> True | Some t \<Rightarrow> t < now)
     \<and> ob_event_name e = ''run.start'' \<and> ob_aggregate_type e = ''Run''"

definition received :: "database \<Rightarrow> uuid \<Rightarrow> uuid \<Rightarrow> bool" where
  "received s tenant i =
     list_ex (\<lambda>b. ib_tenant b = tenant \<and> ib_consumer b = ''worker-relay'' \<and> ib_event_id b = i) (tb_inbox s)"

text \<open>The body of the claim loop: an event the inbox knows is delivered, any other is leased.\<close>

definition claim_event ::
    "timestamp \<Rightarrow> uuid \<Rightarrow> int \<Rightarrow> outbox_row \<Rightarrow> database \<times> outbox_dispatch_item list
     \<Rightarrow> (database \<times> outbox_dispatch_item list) outcome" where
  "claim_event now tenant lease_seconds e = (\<lambda>(s, claimed).
     if received s tenant (ob_id e) then
       rbind (update_outbox tenant (ob_id e)
                (\<lambda>e. e\<lparr>ob_delivery_status := ''DELIVERED'', ob_lease_expires_at := None\<rparr>) s)
         (\<lambda>s'. Inr (s', claimed))
     else
       rbind (update_outbox tenant (ob_id e)
                (\<lambda>e. e\<lparr>ob_lease_expires_at := Some (now + seconds lease_seconds),
                       ob_delivery_attempts := ob_delivery_attempts e + 1\<rparr>) s)
         (\<lambda>s'. Inr (s', claimed @
            [\<lparr> od_event_id = ob_id e, od_event_name = ob_event_name e,
               od_aggregate_id = ob_aggregate_id e, od_aggregate_version = ob_aggregate_version e,
               od_aggregate_type = ob_aggregate_type e \<rparr>])))"

definition claim_batch :: "database \<Rightarrow> timestamp \<Rightarrow> uuid \<Rightarrow> int \<Rightarrow> outbox_row list" where
  "claim_batch s now tenant limit =
     take (nat limit) (sort_key ob_stream_sequence (filter (pending_event now tenant) (tb_outbox s)))"

definition claim_pending_outbox ::
    "database \<Rightarrow> timestamp \<Rightarrow> uuid \<Rightarrow> int \<Rightarrow> int \<Rightarrow> (outbox_dispatch_item list \<times> database) outcome" where
  "claim_pending_outbox s now tenant limit lease_seconds =
     rbind (begin_system s tenant) (\<lambda>_.
     rbind (sql (if limit < 0 then Inl ''2201W'' else Inr (claim_batch s now tenant limit))) (\<lambda>rows.
     rbind (rfold (claim_event now tenant lease_seconds) rows (s, [])) (\<lambda>(s', claimed).
     Inr (claimed, s'))))"

definition mark_outbox_delivered :: "database \<Rightarrow> uuid \<Rightarrow> uuid \<Rightarrow> database outcome" where
  "mark_outbox_delivered s tenant event_id =
     rbind (begin_system s tenant) (\<lambda>_.
     let s1 = (if received s tenant event_id then s
               else s\<lparr>tb_inbox := tb_inbox s @ [\<lparr> ib_tenant = tenant, ib_consumer = ''worker-relay'',
                                                    ib_event_id = event_id \<rparr>]\<rparr>)
     in update_outbox tenant event_id
          (\<lambda>e. e\<lparr>ob_delivery_status := ''DELIVERED'', ob_lease_expires_at := None\<rparr>) s1)"

text \<open>\<open>1i64 << n\<close>: the shift amount is taken modulo the width.\<close>

definition shl_one_i64 :: "int \<Rightarrow> int" where
  "shl_one_i64 n = (let k = nat (n mod 64) in if k = 63 then - 9223372036854775808 else 2 ^ k)"

definition backoff_secs :: "int \<Rightarrow> int" where
  "backoff_secs tries = min (shl_one_i64 (min tries 6)) 60"

definition mark_outbox_failed ::
    "database \<Rightarrow> timestamp \<Rightarrow> uuid \<Rightarrow> uuid \<Rightarrow> int \<Rightarrow> database outcome" where
  "mark_outbox_failed s now tenant event_id max_attempts =
     rbind (begin_system s tenant) (\<lambda>_.
     rbind (ok_or (database_failure None) (row_at outbox_key (tenant, event_id) (tb_outbox s))) (\<lambda>e.
     if max_attempts \<le> ob_delivery_attempts e then
       update_outbox tenant event_id
         (\<lambda>e. e\<lparr>ob_delivery_status := ''DEAD_LETTER'', ob_lease_expires_at := None\<rparr>) s
     else
       update_outbox tenant event_id
         (\<lambda>q. q\<lparr>ob_lease_expires_at := None,
                ob_available_at := now + seconds (backoff_secs (ob_delivery_attempts e))\<rparr>) s))"

section \<open>Authority of a queued run\<close>

definition fence_run_blocked ::
    "database \<Rightarrow> timestamp \<Rightarrow> uuid \<Rightarrow> uuid \<Rightarrow> int \<Rightarrow> string \<Rightarrow> database outcome" where
  "fence_run_blocked s now tenant run_id fence failure_code =
     update_run (\<lambda>r. run_key r = (tenant, run_id) \<and> rn_fence r = fence)
       (\<lambda>r. r\<lparr>rn_state := ''BLOCKED'', rn_dispatch_state := ''BLOCKED'', rn_fence := fence + 1,
              rn_failure_code := Some failure_code, rn_version := rn_version r + 1,
              rn_updated_at := now\<rparr>) s"

definition run_killed :: "platform \<Rightarrow> database \<Rightarrow> uuid \<Rightarrow> string \<Rightarrow> bool" where
  "run_killed pf s tenant plugin =
     list_ex (\<lambda>k. ks_tenant k = tenant \<and> ks_active k
        \<and> (ks_scope k = ''TENANT'' \<and> ks_target_id k = pf_uuid_show pf tenant
           \<or> ks_scope k = ''PLUGIN'' \<and> ks_target_id k = plugin)) (tb_kill_switches s)"

definition plugin_enabled :: "database \<Rightarrow> uuid \<Rightarrow> string \<Rightarrow> string \<Rightarrow> bool" where
  "plugin_enabled s tenant plugin digest =
     list_ex (\<lambda>i. pi_tenant i = tenant \<and> pi_plugin_id i = plugin \<and> pi_state i = ''ENABLED''
        \<and> pi_artifact_digest i = digest) (tb_installations s)"

definition membership_active :: "database \<Rightarrow> uuid \<Rightarrow> uuid \<Rightarrow> bool" where
  "membership_active s tenant who =
     list_ex (\<lambda>m. member_key m = (tenant, who) \<and> me_status m = ''ACTIVE'') (tb_memberships s)"

definition start_permitted :: "cedar \<Rightarrow> read_policy \<Rightarrow> string \<Rightarrow> string \<Rightarrow> bool" where
  "start_permitted cd requester plugin digest =
     permits cd requester ''run.start'' ''WorkflowDefinition'' (plugin @ '':'' @ digest)
       (btree_from [(''plugin_id'', JStr plugin), (''digest'', JStr digest)])"

text \<open>The checks of \<open>verify_and_claim_run\<close> in their order, answering the failure code of the first.\<close>

definition dispatch_refusal ::
    "cedar \<Rightarrow> platform \<Rightarrow> database \<Rightarrow> timestamp \<Rightarrow> uuid \<Rightarrow> run_row \<Rightarrow> string option" where
  "dispatch_refusal cd pf s now tenant r =
     (if run_killed pf s tenant (rn_plugin_id r) then Some ''KILL_SWITCH_ACTIVE''
      else if \<not> plugin_enabled s tenant (rn_plugin_id r) (rn_plugin_digest r) then Some ''PLUGIN_NOT_ENABLED''
      else if \<not> membership_active s tenant (rn_principal_id r) then Some ''MEMBERSHIP_INACTIVE''
      else case read_policy_for_principal cd pf s tenant (rn_principal_id r) of
        Inl _ \<Rightarrow> Some ''POLICY_REVOKED''
      | Inr requester \<Rightarrow>
          if \<not> start_permitted cd requester (rn_plugin_id r) (rn_plugin_digest r) then Some ''POLICY_REVOKED''
          else case row_at delegation_key (tenant, rn_grant_id r) (tb_delegations s) of
            None \<Rightarrow> Some ''GRANT_NOT_FOUND''
          | Some g \<Rightarrow>
              if dl_state g \<noteq> ''ACTIVE'' \<or> dl_expires_at g \<le> now \<or> dl_fence g \<noteq> rn_grant_fence r
              then Some ''GRANT_REVOKED_OR_EXPIRED'' else None)"

definition verify_and_claim_run ::
    "cedar \<Rightarrow> platform \<Rightarrow> database \<Rightarrow> timestamp \<Rightarrow> uuid \<Rightarrow> uuid
     \<Rightarrow> (dispatchable_run option \<times> database) outcome" where
  "verify_and_claim_run cd pf s now tenant run_id =
     rbind (begin_system s tenant) (\<lambda>_.
     case row_at run_key (tenant, run_id) (tb_runs s) of
       None \<Rightarrow> Inr (None, s)
     | Some r \<Rightarrow>
         if rn_state r \<noteq> ''QUEUED'' \<or> rn_dispatch_state r \<noteq> ''PENDING'' then Inr (None, s)
         else case dispatch_refusal cd pf s now tenant r of
           Some failure_code \<Rightarrow>
             rbind (fence_run_blocked s now tenant run_id (rn_fence r) failure_code) (\<lambda>s'. Inr (None, s'))
         | None \<Rightarrow>
             Inr (Some \<lparr> dr_run_id = run_id, dr_workflow_id = rn_workflow_id r,
                         dr_workflow_version = rn_workflow_version r, dr_plugin_id = rn_plugin_id r,
                         dr_plugin_digest = rn_plugin_digest r, dr_grant_id = rn_grant_id r,
                         dr_grant_fence = rn_grant_fence r, dr_fence = rn_fence r,
                         dr_temporal_workflow_id = rn_temporal_workflow_id r \<rparr>, s))"

section \<open>The relay pass of the worker\<close>

record relay_config =
  rg_tenants :: "uuid list"
  rg_batch_size :: int
  rg_lease_seconds :: int
  rg_max_attempts :: int

text \<open>
  The store as the relay sees it: the committed database, the number of clock readings so far and
  the starts the engine was asked for: tenant, run, tick and the database at that moment.
\<close>

record relay_world =
  rw_db :: database
  rw_ticks :: nat
  rw_starts :: "(uuid \<times> dispatchable_run \<times> nat \<times> database) list"

record relay_env =
  re_cedar :: cedar
  re_platform :: platform
  re_clock :: "nat \<Rightarrow> timestamp"
  re_start_durable_run :: "nat \<Rightarrow> dispatchable_run \<Rightarrow> uuid \<Rightarrow> string outcome"

abbreviation tick :: "relay_world \<Rightarrow> relay_world" where
  "tick w \<equiv> w\<lparr>rw_ticks := Suc (rw_ticks w)\<rparr>"

text \<open>A transaction of the store at the current tick: its error leaves the database as it was.\<close>

definition transact ::
    "relay_env \<Rightarrow> (database \<Rightarrow> timestamp \<Rightarrow> ('a \<times> database) outcome) \<Rightarrow> relay_world
     \<Rightarrow> 'a outcome \<times> relay_world" where
  "transact env f w =
     (case f (rw_db w) (re_clock env (rw_ticks w)) of
        Inl e \<Rightarrow> (Inl e, tick w)
      | Inr (x, s) \<Rightarrow> (Inr x, tick (w\<lparr>rw_db := s\<rparr>)))"

definition process_run_event ::
    "relay_env \<Rightarrow> uuid \<Rightarrow> uuid \<Rightarrow> relay_world \<Rightarrow> bool outcome \<times> relay_world" where
  "process_run_event env tenant run_id w =
     (case transact env (\<lambda>s now. verify_and_claim_run (re_cedar env) (re_platform env) s now tenant run_id) w of
        (Inl e, w1) \<Rightarrow> (Inl e, w1)
      | (Inr None, w1) \<Rightarrow> (Inr False, w1)
      | (Inr (Some run), w1) \<Rightarrow>
          let w2 = tick (w1\<lparr>rw_starts := rw_starts w1 @ [(tenant, run, rw_ticks w1, rw_db w1)]\<rparr>) in
          (case re_start_durable_run env (rw_ticks w1) run tenant of
             Inl e \<Rightarrow> (Inl e, w2)
           | Inr temporal_run_id \<Rightarrow>
               if temporal_run_id = [] then (Inl (unavailable ''DURABLE_ENGINE_UNAVAILABLE''), w2)
               else case transact env (\<lambda>s now. mark_run_started (re_platform env) s now tenant
                                          (dr_run_id run) temporal_run_id (dr_fence run)) w2 of
                 (Inl e, w3) \<Rightarrow> (Inl e, w3)
               | (Inr _, w3) \<Rightarrow> (Inr True, w3)))"

definition relay_event ::
    "relay_env \<Rightarrow> relay_config \<Rightarrow> uuid \<Rightarrow> outbox_dispatch_item \<Rightarrow> relay_world \<times> nat \<Rightarrow> relay_world \<times> nat" where
  "relay_event env config tenant event = (\<lambda>(w, dispatched).
     if od_event_name event \<noteq> ''run.start'' \<or> od_aggregate_type event \<noteq> ''Run'' then (w, dispatched)
     else
       (case process_run_event env tenant (od_aggregate_id event) w of
          (Inr started, w1) \<Rightarrow>
            (snd (transact env (\<lambda>s now. rbind (mark_outbox_delivered s tenant (od_event_id event))
                                         (\<lambda>s'. Inr ((), s'))) w1),
             if started then dispatched + 1 else dispatched)
        | (Inl e, w1) \<Rightarrow>
            (snd (transact env (\<lambda>s now. rbind (mark_outbox_failed s now tenant (od_event_id event)
                                                (rg_max_attempts config)) (\<lambda>s'. Inr ((), s'))) w1),
             dispatched)))"

definition relay_tenant ::
    "relay_env \<Rightarrow> relay_config \<Rightarrow> uuid \<Rightarrow> relay_world \<times> nat \<Rightarrow> relay_world \<times> nat" where
  "relay_tenant env config tenant = (\<lambda>(w, dispatched).
     case transact env (\<lambda>s now. claim_pending_outbox s now tenant (rg_batch_size config)
                                  (rg_lease_seconds config)) w of
       (Inl e, w1) \<Rightarrow> (w1, dispatched)
     | (Inr claimed, w1) \<Rightarrow> fold (relay_event env config tenant) claimed (w1, dispatched))"

definition relay_once :: "relay_env \<Rightarrow> relay_config \<Rightarrow> relay_world \<Rightarrow> relay_world \<times> nat" where
  "relay_once env config w = fold (relay_tenant env config) (rg_tenants config) (w, 0)"

definition run_relay_allowed :: "environment \<Rightarrow> bool" where
  "run_relay_allowed e \<longleftrightarrow> \<not> (case e of Production \<Rightarrow> True | StagingLive \<Rightarrow> True | _ \<Rightarrow> False)"

section \<open>Transactions of the relay\<close>

datatype relay_op =
    ClaimPending timestamp uuid int int
  | MarkDelivered uuid uuid
  | MarkFailed timestamp uuid uuid int
  | VerifyRun timestamp uuid uuid

fun relay_step :: "cedar \<Rightarrow> platform \<Rightarrow> database \<Rightarrow> relay_op \<Rightarrow> database outcome" where
  "relay_step cd pf s (ClaimPending now tenant limit lease) =
     rbind (claim_pending_outbox s now tenant limit lease) (\<lambda>(c, s'). Inr s')"
| "relay_step cd pf s (MarkDelivered tenant i) = mark_outbox_delivered s tenant i"
| "relay_step cd pf s (MarkFailed now tenant i n) = mark_outbox_failed s now tenant i n"
| "relay_step cd pf s (VerifyRun now tenant i) =
     rbind (verify_and_claim_run cd pf s now tenant i) (\<lambda>(d, s'). Inr s')"

lemma ball_update_where:
  "(\<forall>e \<in> set (update_where p f t). P e) \<longleftrightarrow> (\<forall>e \<in> set t. P (if p e then f e else e))"
  by (induction t) auto

lemma update_outbox_Inr_iff [res_simps]:
  "update_outbox tenant i f s = Inr s' \<longleftrightarrow>
     (\<forall>e \<in> set (tb_outbox s). outbox_key e = (tenant, i) \<longrightarrow> outbox_fits (f e) \<and> outbox_ok (f e))
     \<and> s' = s\<lparr>tb_outbox := update_where (\<lambda>e. outbox_key e = (tenant, i)) f (tb_outbox s)\<rparr>"
  by (auto simp: update_outbox_def res_simps)

lemma received_cong: "tb_inbox s = tb_inbox s' \<Longrightarrow> received s = received s'"
  by (simp add: received_def fun_eq_iff)

lemma claim_event_Inr:
  assumes "claim_event now tenant lease e (s, c) = Inr (s', c')"
  obtains
    (known) "received s tenant (ob_id e)" "c' = c"
      "s' = s\<lparr>tb_outbox := update_where (\<lambda>q. outbox_key q = (tenant, ob_id e))
         (\<lambda>q. q\<lparr>ob_delivery_status := ''DELIVERED'', ob_lease_expires_at := None\<rparr>) (tb_outbox s)\<rparr>"
  | (leased) x where "\<not> received s tenant (ob_id e)" "c' = c @ [x]" "od_event_id x = ob_id e"
      "s' = s\<lparr>tb_outbox := update_where (\<lambda>q. outbox_key q = (tenant, ob_id e))
         (\<lambda>q. q\<lparr>ob_lease_expires_at := Some (now + seconds lease),
                ob_delivery_attempts := ob_delivery_attempts q + 1\<rparr>) (tb_outbox s)\<rparr>"
  using assms by (auto simp: claim_event_def rbind_Inr_iff update_outbox_Inr_iff split: if_splits)

lemma claim_pending_outbox_Inr:
  "claim_pending_outbox s now tenant limit lease = Inr (c, s') \<longleftrightarrow>
     is_ok (begin_system s tenant) \<and> 0 \<le> limit
     \<and> rfold (claim_event now tenant lease) (claim_batch s now tenant limit) (s, []) = Inr (s', c)"
  by (auto simp: claim_pending_outbox_def rbind_Inr_iff sql_Inr_iff is_ok_iff split: if_splits)

lemma claim_batch_pending:
  "e \<in> set (claim_batch s now tenant limit) \<Longrightarrow> e \<in> set (tb_outbox s) \<and> pending_event now tenant e"
  by (auto simp: claim_batch_def dest: in_set_takeD)

lemma rfold_claim_induct [consumes 1, case_names init known leased]:
  assumes "rfold (claim_event now tenant lease) es (s0, []) = Inr (s', c')"
    and "P s0 []"
    and "\<And>s c e. e \<in> set es \<Longrightarrow> P s c \<Longrightarrow> received s tenant (ob_id e) \<Longrightarrow>
      P (s\<lparr>tb_outbox := update_where (\<lambda>q. outbox_key q = (tenant, ob_id e))
         (\<lambda>q. q\<lparr>ob_delivery_status := ''DELIVERED'', ob_lease_expires_at := None\<rparr>) (tb_outbox s)\<rparr>) c"
    and "\<And>s c e x. e \<in> set es \<Longrightarrow> P s c \<Longrightarrow> \<not> received s tenant (ob_id e) \<Longrightarrow> od_event_id x = ob_id e \<Longrightarrow>
      P (s\<lparr>tb_outbox := update_where (\<lambda>q. outbox_key q = (tenant, ob_id e))
         (\<lambda>q. q\<lparr>ob_lease_expires_at := Some (now + seconds lease),
                ob_delivery_attempts := ob_delivery_attempts q + 1\<rparr>) (tb_outbox s)\<rparr>) (c @ [x])"
  shows "P s' c'"
proof -
  have "case_prod P (s', c')"
    using assms(1)
  proof (rule rfold_invariant)
    show "case_prod P (s0, [])" using assms(2) by simp
  next
    fix e and a b :: "database \<times> outbox_dispatch_item list"
    assume "e \<in> set es" and "case_prod P a" and "claim_event now tenant lease e a = Inr b"
    then show "case_prod P b"
      using assms(3,4) by (cases a; cases b) (simp only: case_prod_conv; elim claim_event_Inr; simp only:)
  qed
  then show ?thesis by simp
qed

lemma mark_outbox_delivered_Inr:
  "mark_outbox_delivered s tenant i = Inr s' \<Longrightarrow> received s' tenant i
     \<and> (\<forall>t j. received s t j \<longrightarrow> received s' t j) \<and> tb_runs s' = tb_runs s
     \<and> tb_outbox s' = update_where (\<lambda>e. outbox_key e = (tenant, i))
         (\<lambda>e. e\<lparr>ob_delivery_status := ''DELIVERED'', ob_lease_expires_at := None\<rparr>) (tb_outbox s)"
  by (auto simp: mark_outbox_delivered_def rbind_Inr_iff update_outbox_Inr_iff Let_def received_def)

lemma mark_outbox_failed_Inr:
  assumes "mark_outbox_failed s now tenant i n = Inr s'"
  obtains e where "row_at outbox_key (tenant, i) (tb_outbox s) = Some e"
    "s' = s\<lparr>tb_outbox := update_where (\<lambda>e. outbox_key e = (tenant, i))
       (if n \<le> ob_delivery_attempts e
        then (\<lambda>q. q\<lparr>ob_delivery_status := ''DEAD_LETTER'', ob_lease_expires_at := None\<rparr>)
        else (\<lambda>q. q\<lparr>ob_lease_expires_at := None,
                    ob_available_at := now + seconds (backoff_secs (ob_delivery_attempts e))\<rparr>))
       (tb_outbox s)\<rparr>"
proof -
  from assms obtain e where e: "row_at outbox_key (tenant, i) (tb_outbox s) = Some e"
    by (auto simp: mark_outbox_failed_def rbind_Inr_iff ok_or_Inr_iff)
  show thesis
    using assms e
    by (intro that [OF e], cases "n \<le> ob_delivery_attempts e")
      (simp_all add: mark_outbox_failed_def rbind_Inr_iff update_outbox_Inr_iff)
qed

lemma verify_and_claim_run_Inr:
  assumes "verify_and_claim_run cd pf s now tenant run_id = Inr (d, s')"
  obtains (absent) "row_at run_key (tenant, run_id) (tb_runs s) = None" "d = None" "s' = s"
  | (handled) r where "row_at run_key (tenant, run_id) (tb_runs s) = Some r"
      "rn_state r \<noteq> ''QUEUED'' \<or> rn_dispatch_state r \<noteq> ''PENDING''" "d = None" "s' = s"
  | (fenced) r code where "row_at run_key (tenant, run_id) (tb_runs s) = Some r"
      "rn_state r = ''QUEUED''" "rn_dispatch_state r = ''PENDING''"
      "dispatch_refusal cd pf s now tenant r = Some code" "d = None"
      "fence_run_blocked s now tenant run_id (rn_fence r) code = Inr s'"
  | (cleared) r run where "row_at run_key (tenant, run_id) (tb_runs s) = Some r"
      "rn_state r = ''QUEUED''" "rn_dispatch_state r = ''PENDING''"
      "dispatch_refusal cd pf s now tenant r = None" "d = Some run" "s' = s"
      "dr_run_id run = run_id" "dr_fence run = rn_fence r" "dr_plugin_digest run = rn_plugin_digest r"
      "dr_temporal_workflow_id run = rn_temporal_workflow_id r"
proof (cases "row_at run_key (tenant, run_id) (tb_runs s)")
  case None
  with assms show thesis by (intro absent) (simp_all add: verify_and_claim_run_def rbind_Inr_iff)
next
  case row: (Some r)
  note v = assms [unfolded verify_and_claim_run_def rbind_Inr_iff row option.case]
  show thesis
  proof (cases "rn_state r \<noteq> ''QUEUED'' \<or> rn_dispatch_state r \<noteq> ''PENDING''")
    case True
    with v show thesis by (intro handled [OF row]) simp_all
  next
    case False
    then have q: "rn_state r = ''QUEUED''" "rn_dispatch_state r = ''PENDING''" by simp_all
    show thesis
    proof (cases "dispatch_refusal cd pf s now tenant r")
      case None
      with v q show thesis by (intro cleared [OF row q None]) auto
    next
      case (Some code)
      with v q show thesis by (intro fenced [OF row q Some]) (simp_all add: rbind_Inr_iff)
    qed
  qed
qed

lemma fence_run_blocked_Inr:
  "fence_run_blocked s now tenant run_id fence code = Inr s' \<Longrightarrow>
     s' = s\<lparr>tb_runs := update_where (\<lambda>r. run_key r = (tenant, run_id) \<and> rn_fence r = fence)
       (\<lambda>r. r\<lparr>rn_state := ''BLOCKED'', rn_dispatch_state := ''BLOCKED'', rn_fence := fence + 1,
              rn_failure_code := Some code, rn_version := rn_version r + 1,
              rn_updated_at := now\<rparr>) (tb_runs s)\<rparr>"
  by (simp add: fence_run_blocked_def update_run_Inr_iff)

lemma verify_keeps_outbox:
  "verify_and_claim_run cd pf s now tenant run_id = Inr (d, s') \<Longrightarrow>
     tb_outbox s' = tb_outbox s \<and> tb_inbox s' = tb_inbox s"
  by (erule verify_and_claim_run_Inr) (auto dest: fence_run_blocked_Inr)

section \<open>Events of the inbox\<close>

lemma claim_keeps_inbox:
  assumes "claim_pending_outbox s now tenant limit lease = Inr (c, s')"
  shows "tb_inbox s' = tb_inbox s \<and> (\<forall>x \<in> set c. \<not> received s tenant (od_event_id x))"
  using assms [unfolded claim_pending_outbox_Inr, THEN conjunct2, THEN conjunct2]
  by (induction rule: rfold_claim_induct) (auto dest: received_cong)

lemma relay_step_received:
  "relay_step cd pf s a = Inr s' \<Longrightarrow> received s t i \<Longrightarrow> received s' t i"
proof (cases a)
  case (ClaimPending now tenant limit lease)
  assume "relay_step cd pf s a = Inr s'" "received s t i"
  with ClaimPending show ?thesis
    by (auto simp: rbind_Inr_iff dest!: claim_keeps_inbox dest: received_cong)
next
  case (MarkFailed now tenant j n)
  assume "relay_step cd pf s a = Inr s'" "received s t i"
  with MarkFailed show ?thesis
    by (auto simp: received_def elim!: mark_outbox_failed_Inr)
next
  case (VerifyRun now tenant j)
  assume "relay_step cd pf s a = Inr s'" "received s t i"
  with VerifyRun show ?thesis
    by (auto simp: rbind_Inr_iff dest!: verify_keeps_outbox dest: received_cong)
qed (auto dest: mark_outbox_delivered_Inr)

interpretation relay_inbox: invariant_ops "relay_step cd pf" "\<lambda>s. received s t i" for cd pf t i
  by unfold_locales (rule relay_step_received)

section \<open>Leases\<close>

text \<open>An event no claim may take before an instant: settled, or leased past it.\<close>

definition held_until :: "timestamp \<Rightarrow> uuid \<Rightarrow> uuid \<Rightarrow> database \<Rightarrow> bool" where
  "held_until u tenant i s \<longleftrightarrow>
     (\<forall>e \<in> set (tb_outbox s). outbox_key e = (tenant, i) \<longrightarrow>
        ob_delivery_status e \<noteq> ''PENDING'' \<or> (\<exists>t. ob_lease_expires_at e = Some t \<and> u \<le> t))"

lemma held_until_not_claimed:
  assumes "held_until u tenant i s" and "now \<le> u"
    and "claim_pending_outbox s now tenant limit lease = Inr (c, s')"
  shows "i \<notin> od_event_id ` set c"
proof -
  let ?es = "claim_batch s now tenant limit"
  have "\<forall>x \<in> set c. \<exists>e \<in> set ?es. od_event_id x = ob_id e"
    using assms(3) [unfolded claim_pending_outbox_Inr, THEN conjunct2, THEN conjunct2]
    by (induction rule: rfold_claim_induct) auto
  moreover have "ob_id e \<noteq> i" if "e \<in> set ?es" for e
    using claim_batch_pending [OF that] assms(1,2)
    by (auto simp: held_until_def pending_event_def)
  ultimately show ?thesis by fastforce
qed

lemma held_until_update:
  assumes "held_until u tenant i s"
    and "\<And>e. e \<in> set (tb_outbox s) \<Longrightarrow> outbox_key e = (tenant, i) \<Longrightarrow> p e \<Longrightarrow>
      outbox_key (f e) = (tenant, i) \<Longrightarrow>
      ob_delivery_status (f e) \<noteq> ''PENDING'' \<or> (\<exists>t. ob_lease_expires_at (f e) = Some t \<and> u \<le> t)"
    and "\<And>e. outbox_key (f e) = outbox_key e"
  shows "held_until u tenant i (s\<lparr>tb_outbox := update_where p f (tb_outbox s)\<rparr>)"
  using assms by (auto simp: held_until_def set_update_where)

lemma claim_keeps_held:
  assumes "claim_pending_outbox s now t limit lease = Inr (c, s')" and "held_until u tenant i s"
    and "0 \<le> lease"
  shows "held_until u tenant i s'"
proof (cases "u < now")
  case True
  from assms(1) [unfolded claim_pending_outbox_Inr, THEN conjunct2, THEN conjunct2]
  show ?thesis
  proof (induction rule: rfold_claim_induct)
    case init
    show ?case by (rule assms(2))
  qed (rule held_until_update; use True assms(3) in \<open>auto simp: add_increasing2\<close>)+
next
  case False
  then have n: "i \<noteq> ob_id e \<or> t \<noteq> tenant" if "e \<in> set (claim_batch s now t limit)" for e
    using claim_batch_pending [OF that] assms(2) by (auto simp: held_until_def pending_event_def)
  from assms(1) [unfolded claim_pending_outbox_Inr, THEN conjunct2, THEN conjunct2]
  show ?thesis
  proof (induction rule: rfold_claim_induct)
    case init
    show ?case by (rule assms(2))
  qed (rule held_until_update; use n in fastforce)+
qed

definition lease_respecting :: "uuid \<Rightarrow> uuid \<Rightarrow> relay_op set" where
  "lease_respecting tenant i =
     {a. case a of ClaimPending now t limit lease \<Rightarrow> 0 \<le> lease
         | MarkFailed now t j n \<Rightarrow> (t, j) \<noteq> (tenant, i) | _ \<Rightarrow> True}"

lemma relay_step_held:
  assumes "relay_step cd pf s a = Inr s'" and "held_until u tenant i s" and "a \<in> lease_respecting tenant i"
  shows "held_until u tenant i s'"
proof (cases a)
  case (ClaimPending now t limit lease)
  with assms show ?thesis by (auto simp: rbind_Inr_iff lease_respecting_def intro: claim_keeps_held)
next
  case (MarkDelivered t j)
  with assms(1) have "tb_outbox s' = update_where (\<lambda>e. outbox_key e = (t, j))
      (\<lambda>e. e\<lparr>ob_delivery_status := ''DELIVERED'', ob_lease_expires_at := None\<rparr>) (tb_outbox s)"
    by (auto dest: mark_outbox_delivered_Inr)
  with assms(2) show ?thesis by (auto simp: held_until_def set_update_where)
next
  case (MarkFailed now t j n)
  with assms(1) have "mark_outbox_failed s now t j n = Inr s'" by simp
  then show ?thesis
  proof (rule mark_outbox_failed_Inr)
    fix e
    assume "s' = s\<lparr>tb_outbox := update_where (\<lambda>e. outbox_key e = (t, j))
       (if n \<le> ob_delivery_attempts e
        then (\<lambda>q. q\<lparr>ob_delivery_status := ''DEAD_LETTER'', ob_lease_expires_at := None\<rparr>)
        else (\<lambda>q. q\<lparr>ob_lease_expires_at := None,
                    ob_available_at := now + seconds (backoff_secs (ob_delivery_attempts e))\<rparr>))
       (tb_outbox s)\<rparr>"
    with MarkFailed assms(2,3) show ?thesis
      by (simp only:) (rule held_until_update; auto simp: lease_respecting_def)
  qed
next
  case (VerifyRun now t j)
  with assms(1,2) show ?thesis
    by (auto simp: rbind_Inr_iff held_until_def dest!: verify_keeps_outbox)
qed

lemma attempts_held:
  "held_until u tenant i s \<Longrightarrow> set ops \<subseteq> lease_respecting tenant i \<Longrightarrow>
     held_until u tenant i (attempts (relay_step cd pf) s ops)"
proof (induction ops arbitrary: s)
  case (Cons a ops)
  then show ?case
    by (cases "relay_step cd pf s a") (auto simp: attempt_def intro: relay_step_held)
qed simp

lemma held_until_lease:
  "held_until u tenant i (s\<lparr>tb_outbox := update_where (\<lambda>q. outbox_key q = (tenant, i))
     (\<lambda>q. q\<lparr>ob_lease_expires_at := Some u, ob_delivery_attempts := ob_delivery_attempts q + 1\<rparr>)
     (tb_outbox s)\<rparr>)"
  by (simp add: held_until_def ball_update_where) blast

lemma claimed_is_held:
  assumes "claim_pending_outbox s now tenant limit lease = Inr (c, s')" and "i \<in> od_event_id ` set c"
  shows "held_until (now + seconds lease) tenant i s'"
proof -
  let ?P = "\<lambda>s c. \<forall>i \<in> od_event_id ` set c. held_until (now + seconds lease) tenant i s"
  from assms(1) [unfolded claim_pending_outbox_Inr, THEN conjunct2, THEN conjunct2]
  have "?P s' c"
  proof (induction rule: rfold_claim_induct)
    case (known s c e)
    then show ?case by (intro ballI held_until_update) auto
  next
    case (leased s c e x)
    from leased.IH have "held_until (now + seconds lease) tenant i
        (s\<lparr>tb_outbox := update_where (\<lambda>q. outbox_key q = (tenant, ob_id e))
           (\<lambda>q. q\<lparr>ob_lease_expires_at := Some (now + seconds lease),
                  ob_delivery_attempts := ob_delivery_attempts q + 1\<rparr>) (tb_outbox s)\<rparr>)"
      if "i \<in> od_event_id ` set c" for i
      using that by (intro held_until_update) auto
    moreover note held_until_lease [of "now + seconds lease" tenant "ob_id e"]
    ultimately show ?case using leased.hyps(3) by simp
  qed simp
  with assms(2) show ?thesis by blast
qed

section \<open>Retries\<close>

lemma backoff_bounds: "0 \<le> n \<Longrightarrow> 1 \<le> backoff_secs n \<and> backoff_secs n \<le> 60"
proof -
  assume n: "0 \<le> n"
  have "min n 6 \<in> {0, 1, 2, 3, 4, 5, 6}" using n by auto
  then have "shl_one_i64 (min n 6) \<in> {1, 2, 4, 8, 16, 32, 64}"
    by (elim insertE) (simp_all add: shl_one_i64_def)
  then show ?thesis by (auto simp: backoff_secs_def)
qed

text \<open>An event that is claimed and fails, over and over: the times of each claim and failure.\<close>

fun retry_cycles ::
    "uuid \<Rightarrow> uuid \<Rightarrow> int \<Rightarrow> int \<Rightarrow> int \<Rightarrow> (timestamp \<times> timestamp) list \<Rightarrow> database \<Rightarrow> database option" where
  "retry_cycles tenant i limit lease n [] s = Some s"
| "retry_cycles tenant i limit lease n ((t, t') # ts) s =
     (case claim_pending_outbox s t tenant limit lease of
        Inl _ \<Rightarrow> None
      | Inr (c, s1) \<Rightarrow>
          if i \<notin> od_event_id ` set c then None
          else case mark_outbox_failed s1 t' tenant i n of
            Inl _ \<Rightarrow> None | Inr s2 \<Rightarrow> retry_cycles tenant i limit lease n ts s2)"

lemma claim_batch_distinct:
  assumes "unique_key outbox_key (tb_outbox s)"
  shows "distinct (map ob_id (claim_batch s now tenant limit))"
proof -
  let ?t = "filter (pending_event now tenant) (tb_outbox s)"
  have "distinct (map ob_id ?t)"
    using assms unfolding unique_key_def distinct_map
    by (auto simp: inj_on_def pending_event_def)
  then have "distinct (map ob_id (sort_key ob_stream_sequence ?t))"
    by (simp add: distinct_map)
  then show ?thesis by (simp add: claim_batch_def flip: take_map)
qed

text \<open>What a claim leaves of one row: nothing, a delivery of a known event, or one more attempt.\<close>

definition claim_row :: "database \<Rightarrow> uuid \<Rightarrow> timestamp \<Rightarrow> outbox_row \<Rightarrow> outbox_row" where
  "claim_row s tenant until e =
     (if received s tenant (ob_id e) then e\<lparr>ob_delivery_status := ''DELIVERED'', ob_lease_expires_at := None\<rparr>
      else e\<lparr>ob_lease_expires_at := Some until, ob_delivery_attempts := ob_delivery_attempts e + 1\<rparr>)"

lemma claim_row_key [simp]: "ob_tenant (claim_row s t u e) = ob_tenant e" "ob_id (claim_row s t u e) = ob_id e"
  by (simp_all add: claim_row_def)

lemma update_where_twice:
  "update_where p f (update_where q f t) = update_where (\<lambda>r. q r \<or> p r) f t"
  if "\<And>r. r \<in> set t \<Longrightarrow> q r \<Longrightarrow> \<not> p (f r)"
  using that by (induction t) auto

lemma rfold_claim_effect:
  assumes "rfold (claim_event now tenant lease) es (s, c) = Inr (s', c')" and "distinct (map ob_id es)"
    and "\<forall>e. received s tenant e = received s0 tenant e"
  shows "tb_outbox s' = update_where (\<lambda>q. ob_tenant q = tenant \<and> ob_id q \<in> ob_id ` set es)
           (claim_row s0 tenant (now + seconds lease)) (tb_outbox s)
     \<and> map od_event_id c' = map od_event_id c @ filter (\<lambda>i. \<not> received s0 tenant i) (map ob_id es)"
  using assms
proof (induction es arbitrary: s c)
  case Nil
  then show ?case by (simp add: update_where_none)
next
  case (Cons e es)
  let ?f = "claim_row s0 tenant (now + seconds lease)"
  from Cons.prems(1) obtain s1 c1 where step: "claim_event now tenant lease e (s, c) = Inr (s1, c1)"
    and rest: "rfold (claim_event now tenant lease) es (s1, c1) = Inr (s', c')"
    by (auto simp: rbind_Inr_iff)
  have s1: "tb_outbox s1 = update_where (\<lambda>q. outbox_key q = (tenant, ob_id e)) ?f (tb_outbox s)
      \<and> tb_inbox s1 = tb_inbox s
      \<and> map od_event_id c1 = map od_event_id c @ filter (\<lambda>i. \<not> received s0 tenant i) [ob_id e]"
    using step
  proof (rule claim_event_Inr)
  qed (use Cons.prems(3) in \<open>auto simp: update_where_def claim_row_def\<close>)
  then have "\<forall>e. received s1 tenant e = received s0 tenant e"
    using Cons.prems(3) received_cong [of s1 s] by simp
  with Cons.IH [OF rest] Cons.prems(2)
  have ih: "tb_outbox s' = update_where (\<lambda>q. ob_tenant q = tenant \<and> ob_id q \<in> ob_id ` set es) ?f (tb_outbox s1)
     \<and> map od_event_id c' = map od_event_id c1 @ filter (\<lambda>i. \<not> received s0 tenant i) (map ob_id es)"
    by simp
  have "update_where (\<lambda>q. ob_tenant q = tenant \<and> ob_id q \<in> ob_id ` set es) ?f
      (update_where (\<lambda>q. outbox_key q = (tenant, ob_id e)) ?f (tb_outbox s))
    = update_where (\<lambda>q. outbox_key q = (tenant, ob_id e) \<or> ob_tenant q = tenant \<and> ob_id q \<in> ob_id ` set es) ?f (tb_outbox s)"
    using Cons.prems(2) by (intro update_where_twice) auto
  also have "\<dots> = update_where (\<lambda>q. ob_tenant q = tenant \<and> ob_id q \<in> ob_id ` set (e # es)) ?f (tb_outbox s)"
    by (rule arg_cong [where f = "\<lambda>p. update_where p ?f (tb_outbox s)"]) auto
  finally show ?case using ih s1 by simp
qed

lemma claim_effect:
  assumes "claim_pending_outbox s now tenant limit lease = Inr (c, s')"
    and "unique_key outbox_key (tb_outbox s)"
  shows "tb_outbox s' = update_where (\<lambda>q. ob_tenant q = tenant \<and> ob_id q \<in> ob_id ` set (claim_batch s now tenant limit))
           (claim_row s tenant (now + seconds lease)) (tb_outbox s)"
    and "map od_event_id c = filter (\<lambda>i. \<not> received s tenant i) (map ob_id (claim_batch s now tenant limit))"
  using rfold_claim_effect [OF assms(1) [unfolded claim_pending_outbox_Inr, THEN conjunct2, THEN conjunct2]
      claim_batch_distinct [OF assms(2)], of s] by simp_all

lemma claimed_pending:
  assumes "claim_pending_outbox s now tenant limit lease = Inr (c, s')"
    and "unique_key outbox_key (tb_outbox s)" and "i \<in> od_event_id ` set c"
  shows "\<exists>e. row_at outbox_key (tenant, i) (tb_outbox s) = Some e \<and> pending_event now tenant e
    \<and> \<not> received s tenant i
    \<and> row_at outbox_key (tenant, i) (tb_outbox s') = Some (e\<lparr>ob_lease_expires_at := Some (now + seconds lease),
        ob_delivery_attempts := ob_delivery_attempts e + 1\<rparr>)"
proof -
  from assms(3) have "i \<in> set (map od_event_id c)" by simp
  then obtain e where e: "e \<in> set (claim_batch s now tenant limit)" "ob_id e = i" "\<not> received s tenant i"
    unfolding claim_effect(2) [OF assms(1,2)] by auto
  then have p: "e \<in> set (tb_outbox s)" "pending_event now tenant e" by (auto dest: claim_batch_pending)
  then have "outbox_key e = (tenant, i)" using e(2) by (simp add: pending_event_def)
  with row_at_unique [OF assms(2) p(1)] have r: "row_at outbox_key (tenant, i) (tb_outbox s) = Some e" by simp
  have "row_at outbox_key (tenant, i) (tb_outbox s') = Some (claim_row s tenant (now + seconds lease) e)"
    unfolding claim_effect(1) [OF assms(1,2)] using r e p(2)
    by (subst row_at_update_where) (auto simp: pending_event_def)
  with r p(2) e show ?thesis by (auto simp: claim_row_def)
qed

lemma claim_unique:
  "claim_pending_outbox s now tenant limit lease = Inr (c, s') \<Longrightarrow> unique_key outbox_key (tb_outbox s) \<Longrightarrow>
     unique_key outbox_key (tb_outbox s')"
  by (simp add: claim_effect(1) unique_key_update_where)

lemma failed_row:
  assumes "mark_outbox_failed s now tenant i n = Inr s'"
    and "row_at outbox_key (tenant, i) (tb_outbox s) = Some e"
  shows "row_at outbox_key (tenant, i) (tb_outbox s') = Some
      (if n \<le> ob_delivery_attempts e
       then e\<lparr>ob_delivery_status := ''DEAD_LETTER'', ob_lease_expires_at := None\<rparr>
       else e\<lparr>ob_lease_expires_at := None,
              ob_available_at := now + seconds (backoff_secs (ob_delivery_attempts e))\<rparr>)
    \<and> (unique_key outbox_key (tb_outbox s') \<longleftrightarrow> unique_key outbox_key (tb_outbox s))"
  using assms(1)
proof (rule mark_outbox_failed_Inr)
  fix q
  assume q: "row_at outbox_key (tenant, i) (tb_outbox s) = Some q"
    and s': "s' = s\<lparr>tb_outbox := update_where (\<lambda>e. outbox_key e = (tenant, i))
       (if n \<le> ob_delivery_attempts q
        then (\<lambda>r. r\<lparr>ob_delivery_status := ''DEAD_LETTER'', ob_lease_expires_at := None\<rparr>)
        else (\<lambda>r. r\<lparr>ob_lease_expires_at := None,
                    ob_available_at := now + seconds (backoff_secs (ob_delivery_attempts q))\<rparr>))
       (tb_outbox s)\<rparr>"
  from q assms(2) have "q = e" by simp
  moreover from assms(2) have "outbox_key e = (tenant, i)" by (auto dest: row_at_SomeD)
  ultimately show ?thesis
    unfolding s' using assms(2) by (simp add: row_at_update_where unique_key_update_where)
qed

lemma retry_cycle:
  assumes "retry_cycles tenant i limit lease n ((t, t') # ts) s = Some s'"
    and "unique_key outbox_key (tb_outbox s)" and "row_at outbox_key (tenant, i) (tb_outbox s) = Some e"
  obtains s2 e2 where "retry_cycles tenant i limit lease n ts s2 = Some s'"
    "unique_key outbox_key (tb_outbox s2)" "row_at outbox_key (tenant, i) (tb_outbox s2) = Some e2"
    "ob_delivery_status e = ''PENDING''" "ob_delivery_attempts e2 = ob_delivery_attempts e + 1"
    "if n \<le> ob_delivery_attempts e + 1 then ob_delivery_status e2 = ''DEAD_LETTER''
     else ob_delivery_status e2 = ''PENDING''
       \<and> ob_available_at e2 = t' + seconds (backoff_secs (ob_delivery_attempts e + 1))"
proof -
  from assms(1) obtain c s1 s2 where c: "claim_pending_outbox s t tenant limit lease = Inr (c, s1)"
    and i: "i \<in> od_event_id ` set c" and f: "mark_outbox_failed s1 t' tenant i n = Inr s2"
    and r: "retry_cycles tenant i limit lease n ts s2 = Some s'"
    by (auto split: sum.splits if_splits)
  from claimed_pending [OF c assms(2) i] assms(3)
  have p: "pending_event t tenant e" and
    s1: "row_at outbox_key (tenant, i) (tb_outbox s1) = Some (e\<lparr>ob_lease_expires_at := Some (t + seconds lease),
        ob_delivery_attempts := ob_delivery_attempts e + 1\<rparr>)" by auto
  from failed_row [OF f s1] claim_unique [OF c assms(2)] p show thesis
    by (intro that [OF r]) (auto simp: pending_event_def split: if_splits)
qed

lemma retry_cycles_row:
  assumes "retry_cycles tenant i limit lease n ts s = Some s'" and "ts \<noteq> []"
    and "unique_key outbox_key (tb_outbox s)" and "row_at outbox_key (tenant, i) (tb_outbox s) = Some e"
  shows "\<exists>e'. row_at outbox_key (tenant, i) (tb_outbox s') = Some e'
    \<and> ob_delivery_attempts e' = ob_delivery_attempts e + int (length ts)
    \<and> int (length ts) \<le> max 1 (n - ob_delivery_attempts e)
    \<and> (if n \<le> ob_delivery_attempts e' then ob_delivery_status e' = ''DEAD_LETTER''
       else ob_delivery_status e' = ''PENDING''
         \<and> ob_available_at e' = snd (last ts) + seconds (backoff_secs (ob_delivery_attempts e')))"
  using assms
proof (induction ts arbitrary: s e)
  case Nil
  then show ?case by simp
next
  case (Cons tt ts)
  obtain t t' where tt: "tt = (t, t')" by (cases tt)
  from Cons.prems(1) [unfolded tt] Cons.prems(3,4) show ?case
  proof (rule retry_cycle)
    fix s2 e2
    assume r: "retry_cycles tenant i limit lease n ts s2 = Some s'"
      and u: "unique_key outbox_key (tb_outbox s2)" and e2: "row_at outbox_key (tenant, i) (tb_outbox s2) = Some e2"
      and a: "ob_delivery_attempts e2 = ob_delivery_attempts e + 1"
      and d: "if n \<le> ob_delivery_attempts e + 1 then ob_delivery_status e2 = ''DEAD_LETTER''
        else ob_delivery_status e2 = ''PENDING''
          \<and> ob_available_at e2 = t' + seconds (backoff_secs (ob_delivery_attempts e + 1))"
    show ?case
    proof (cases "ts = []")
      case True
      with r e2 a d tt show ?thesis by (simp split: if_splits)
    next
      case False
      then obtain x ts' where "ts = x # ts'" by (cases ts) auto
      moreover obtain y y' where "x = (y, y')" by (cases x)
      ultimately have r': "retry_cycles tenant i limit lease n ((y, y') # ts') s2 = Some s'"
        using r by simp
      have "ob_delivery_status e2 = ''PENDING''" by (rule retry_cycle [OF r' u e2])
      with d have "ob_delivery_attempts e + 1 < n" by (auto split: if_splits)
      with Cons.IH [OF r False u e2] a False show ?thesis by auto
    qed
  qed
qed

section \<open>Progress of a claim\<close>

lemma sorted_filter_takeWhile:
  "sorted (map f xs) \<Longrightarrow> filter (\<lambda>y. f y \<le> (b :: 'a :: linorder)) xs = takeWhile (\<lambda>y. f y \<le> b) xs"
proof (induction xs)
  case (Cons x xs)
  then have "\<forall>y \<in> set xs. f x \<le> f y" by simp
  then have "filter (\<lambda>y. f y \<le> b) xs = []" if "\<not> f x \<le> b"
    using that by (auto simp: filter_empty_conv)
  with Cons show ?case by simp
qed simp

lemma sort_key_take:
  assumes "x \<in> set xs" and "length (filter (\<lambda>y. f y \<le> f x) xs) \<le> n"
  shows "x \<in> set (take n (sort_key f xs))"
proof -
  let ?ys = "sort_key f xs" and ?P = "\<lambda>y. f y \<le> f x"
  have w: "takeWhile ?P ?ys = filter ?P ?ys" by (simp add: sorted_filter_takeWhile)
  have "length (filter ?P ?ys) = length (filter ?P xs)" by (simp add: filter_sort)
  with assms(2) have "length (takeWhile ?P ?ys) \<le> n" by (simp add: w)
  then have "set (takeWhile ?P ?ys) \<subseteq> set (take n ?ys)"
    by (subst takeWhile_eq_take) (simp add: set_take_subset_set_take)
  moreover have "x \<in> set (takeWhile ?P ?ys)" unfolding w using assms(1) by simp
  ultimately show ?thesis by blast
qed

definition claim_fits :: "outbox_row \<Rightarrow> bool" where
  "claim_fits e \<longleftrightarrow> outbox_ok e \<and> in_i32 (ob_delivery_attempts e) \<and> in_i32 (ob_delivery_attempts e + 1)"

lemma rfold_claim_ok:
  assumes "distinct (map ob_id es)"
    and "\<forall>q \<in> set (tb_outbox s). ob_tenant q = tenant \<and> ob_id q \<in> ob_id ` set es \<longrightarrow> claim_fits q"
  shows "is_ok (rfold (claim_event now tenant lease) es (s, c))"
  using assms
proof (induction es arbitrary: s c)
  case Nil
  then show ?case by simp
next
  case (Cons e es)
  from Cons.prems(2) have fits: "\<forall>q \<in> set (tb_outbox s). outbox_key q = (tenant, ob_id e) \<longrightarrow>
      outbox_ok q \<and> in_i32 (ob_delivery_attempts q) \<and> in_i32 (ob_delivery_attempts q + 1)"
    by (auto simp: claim_fits_def)
  then have "is_ok (claim_event now tenant lease e (s, c))"
    by (cases "received s tenant (ob_id e)")
      (simp_all add: claim_event_def is_ok_iff rbind_Inr_iff update_outbox_Inr_iff outbox_fits_def outbox_ok_def)
  then obtain a where a: "claim_event now tenant lease e (s, c) = Inr a" by (auto simp: is_ok_iff)
  obtain s1 c1 where sc: "a = (s1, c1)" by (cases a)
  have "\<forall>q \<in> set (tb_outbox s1). ob_tenant q = tenant \<and> ob_id q \<in> ob_id ` set es \<longrightarrow> claim_fits q"
    using a [unfolded sc] by (rule claim_event_Inr) (use Cons.prems in \<open>auto simp: ball_update_where\<close>)
  with Cons.IH Cons.prems(1) a sc show ?case by simp
qed

section \<open>Runs the relay starts\<close>

lemma dispatch_refusal_None_iff:
  "dispatch_refusal cd pf s now tenant r = None \<longleftrightarrow>
     \<not> run_killed pf s tenant (rn_plugin_id r)
     \<and> plugin_enabled s tenant (rn_plugin_id r) (rn_plugin_digest r)
     \<and> membership_active s tenant (rn_principal_id r)
     \<and> (\<exists>requester g. read_policy_for_principal cd pf s tenant (rn_principal_id r) = Inr requester
          \<and> start_permitted cd requester (rn_plugin_id r) (rn_plugin_digest r)
          \<and> row_at delegation_key (tenant, rn_grant_id r) (tb_delegations s) = Some g
          \<and> dl_state g = ''ACTIVE'' \<and> now < dl_expires_at g \<and> dl_fence g = rn_grant_fence r)"
  by (auto simp: dispatch_refusal_def split: sum.splits option.splits if_splits)

text \<open>The engine was asked for the run under current authority and answered with this identity.\<close>

definition start_evidence :: "relay_env \<Rightarrow> relay_world \<Rightarrow> run_row \<Rightarrow> bool" where
  "start_evidence env w r' \<longleftrightarrow>
     (\<exists>(tenant, run, k, s) \<in> set (rw_starts w).
        run_key r' = (tenant, dr_run_id run)
        \<and> (\<exists>t. re_start_durable_run env k run tenant = Inr t \<and> t \<noteq> [] \<and> rn_temporal_run_id r' = Some t)
        \<and> (\<exists>r. row_at run_key (tenant, dr_run_id run) (tb_runs s) = Some r \<and> rn_state r = ''QUEUED''
             \<and> dispatch_refusal (re_cedar env) (re_platform env) s (re_clock env (k - 1)) tenant r = None))"

definition runs_evidenced :: "relay_env \<Rightarrow> relay_world \<Rightarrow> relay_world \<Rightarrow> bool" where
  "runs_evidenced env w0 w \<longleftrightarrow>
     (\<forall>r \<in> set (tb_runs (rw_db w)). rn_dispatch_state r = ''STARTED'' \<longrightarrow>
        r \<in> set (tb_runs (rw_db w0)) \<or> start_evidence env w r)"

lemma start_evidence_mono:
  "start_evidence env w r \<Longrightarrow> set (rw_starts w) \<subseteq> set (rw_starts w') \<Longrightarrow> start_evidence env w' r"
  unfolding start_evidence_def by blast

lemma runs_evidenced_step:
  assumes "runs_evidenced env w0 w" and "set (rw_starts w) \<subseteq> set (rw_starts w')"
    and "\<And>r. r \<in> set (tb_runs (rw_db w')) \<Longrightarrow> rn_dispatch_state r = ''STARTED'' \<Longrightarrow>
      r \<in> set (tb_runs (rw_db w)) \<or> start_evidence env w' r"
  shows "runs_evidenced env w0 w'"
  using assms start_evidence_mono [of env w _ w'] unfolding runs_evidenced_def by blast

lemma transact_cases:
  obtains (err) e where "f (rw_db w) (re_clock env (rw_ticks w)) = Inl e" "transact env f w = (Inl e, tick w)"
  | (ok) x s where "f (rw_db w) (re_clock env (rw_ticks w)) = Inr (x, s)"
      "transact env f w = (Inr x, tick (w\<lparr>rw_db := s\<rparr>))"
  by (cases "f (rw_db w) (re_clock env (rw_ticks w))") (auto simp: transact_def)

lemma transact_evidenced:
  assumes "runs_evidenced env w0 w" and "transact env f w = (a, w')"
    and "\<And>s now x s' r. f s now = Inr (x, s') \<Longrightarrow> r \<in> set (tb_runs s') \<Longrightarrow>
      rn_dispatch_state r = ''STARTED'' \<Longrightarrow> r \<in> set (tb_runs s)"
  shows "runs_evidenced env w0 w'"
  using assms(1)
proof (rule runs_evidenced_step)
  show "set (rw_starts w) \<subseteq> set (rw_starts w')"
    using assms(2) by (cases rule: transact_cases [of f w env]) auto
  show "r \<in> set (tb_runs (rw_db w)) \<or> start_evidence env w' r"
    if "r \<in> set (tb_runs (rw_db w'))" "rn_dispatch_state r = ''STARTED''" for r
    using assms(2,3) that by (cases rule: transact_cases [of f w env]) auto
qed

lemma claim_keeps_runs: "claim_pending_outbox s now tenant limit lease = Inr (c, s') \<Longrightarrow> tb_runs s' = tb_runs s"
  unfolding claim_pending_outbox_Inr by (elim conjE, erule rfold_claim_induct) simp_all

lemma failed_keeps_runs: "mark_outbox_failed s now tenant i n = Inr s' \<Longrightarrow> tb_runs s' = tb_runs s"
  by (erule mark_outbox_failed_Inr) simp

lemma verify_starts_nothing:
  "verify_and_claim_run cd pf s now tenant i = Inr (d, s') \<Longrightarrow> r \<in> set (tb_runs s') \<Longrightarrow>
     rn_dispatch_state r = ''STARTED'' \<Longrightarrow> r \<in> set (tb_runs s)"
  by (erule verify_and_claim_run_Inr) (auto dest!: fence_run_blocked_Inr simp: set_update_where split: if_splits)

lemma mark_run_started_new:
  assumes "mark_run_started pf s now tenant i t fence = Inr (m, s')" and "r \<in> set (tb_runs s')"
  shows "r \<in> set (tb_runs s) \<or> run_key r = (tenant, i) \<and> rn_temporal_run_id r = Some t"
  using assms(1)
  by (rule mark_run_started_Inr) (use assms(2) in \<open>auto simp: set_update_where split: if_splits\<close>)

lemma process_run_event_evidenced:
  assumes "process_run_event env tenant i w = (a, w')" and "runs_evidenced env w0 w"
  shows "runs_evidenced env w0 w'"
proof -
  let ?v = "\<lambda>s now. verify_and_claim_run (re_cedar env) (re_platform env) s now tenant i"
  obtain d w1 where v: "transact env ?v w = (d, w1)" by fastforce
  have e1: "runs_evidenced env w0 w1"
    using assms(2) v by (rule transact_evidenced) (rule verify_starts_nothing)
  consider (unclaimed) "w' = w1" | (run) run where "d = Inr (Some run)"
    using assms(1) v by (auto simp: process_run_event_def split: sum.splits option.splits)
  then show ?thesis
  proof cases
    case unclaimed
    with e1 show ?thesis by simp
  next
    case (run run)
    let ?now = "re_clock env (rw_ticks w)"
    from run v obtain s1 where c: "?v (rw_db w) ?now = Inr (Some run, s1)" and w1: "w1 = tick (w\<lparr>rw_db := s1\<rparr>)"
      by (cases rule: transact_cases [of ?v w env]) auto
    from c obtain r where r: "row_at run_key (tenant, i) (tb_runs s1) = Some r" "rn_state r = ''QUEUED''"
      "dispatch_refusal (re_cedar env) (re_platform env) s1 ?now tenant r = None" "dr_run_id run = i"
      by (rule verify_and_claim_run_Inr) auto
    define w2 where "w2 = tick (w1\<lparr>rw_starts := rw_starts w1 @ [(tenant, run, rw_ticks w1, rw_db w1)]\<rparr>)"
    have e2: "runs_evidenced env w0 w2"
      using e1 by (rule runs_evidenced_step) (auto simp: w2_def)
    consider (same) "w' = w2" | (started) t b where "re_start_durable_run env (rw_ticks w1) run tenant = Inr t"
        "t \<noteq> []" "transact env (\<lambda>s now. mark_run_started (re_platform env) s now tenant (dr_run_id run) t
           (dr_fence run)) w2 = (b, w')"
      using assms(1) v run
      by (auto simp: process_run_event_def Let_def w2_def split: sum.splits if_splits prod.splits)
    then show ?thesis
    proof cases
      case same
      with e2 show ?thesis by simp
    next
      case (started t b)
      let ?m = "\<lambda>s now. mark_run_started (re_platform env) s now tenant (dr_run_id run) t (dr_fence run)"
      have starts: "rw_starts w' = rw_starts w2" and
        new: "x \<in> set (tb_runs (rw_db w2)) \<or> run_key x = (tenant, i) \<and> rn_temporal_run_id x = Some t"
        if "x \<in> set (tb_runs (rw_db w'))" for x
        using started(3) that r(4) by (cases rule: transact_cases [of ?m w2 env]; auto dest: mark_run_started_new)+
      have ev: "start_evidence env w' x" if "run_key x = (tenant, i)" "rn_temporal_run_id x = Some t"
        "x \<in> set (tb_runs (rw_db w'))" for x
        unfolding start_evidence_def starts [OF that(3)]
        by (rule bexI [of _ "(tenant, run, rw_ticks w1, rw_db w1)"])
          (use started(1,2) r that w1 in \<open>auto simp: w2_def\<close>)
      show ?thesis
      proof (rule runs_evidenced_step [OF e2])
        show "set (rw_starts w2) \<subseteq> set (rw_starts w')"
          using started(3) by (cases rule: transact_cases [of ?m w2 env]) auto
        show "x \<in> set (tb_runs (rw_db w2)) \<or> start_evidence env w' x" if "x \<in> set (tb_runs (rw_db w'))" for x
          using new [OF that] ev that by blast
      qed
    qed
  qed
qed

lemma relay_event_evidenced:
  assumes "runs_evidenced env w0 w"
  shows "runs_evidenced env w0 (fst (relay_event env config tenant event (w, n)))"
proof -
  obtain a w1 where p: "process_run_event env tenant (od_aggregate_id event) w = (a, w1)" by fastforce
  have e: "runs_evidenced env w0 w1" using p assms by (rule process_run_event_evidenced)
  have d: "runs_evidenced env w0 (snd (transact env (\<lambda>s now. rbind (mark_outbox_delivered s tenant i)
      (\<lambda>s'. Inr ((), s'))) w1))" for i
    by (rule transact_evidenced [OF e surjective_pairing])
      (auto simp: rbind_Inr_iff dest: mark_outbox_delivered_Inr)
  have f: "runs_evidenced env w0 (snd (transact env (\<lambda>s now. rbind (mark_outbox_failed s now tenant i m)
      (\<lambda>s'. Inr ((), s'))) w1))" for i m
    by (rule transact_evidenced [OF e surjective_pairing]) (auto simp: rbind_Inr_iff dest: failed_keeps_runs)
  from assms p d f show ?thesis by (auto simp: relay_event_def split: sum.split)
qed

lemma relay_tenant_evidenced:
  assumes "runs_evidenced env w0 w"
  shows "runs_evidenced env w0 (fst (relay_tenant env config tenant (w, n)))"
proof -
  let ?c = "\<lambda>s now. claim_pending_outbox s now tenant (rg_batch_size config) (rg_lease_seconds config)"
  obtain a w1 where c: "transact env ?c w = (a, w1)" by fastforce
  have e: "runs_evidenced env w0 w1"
    using assms c by (rule transact_evidenced) (simp add: claim_keeps_runs)
  have "runs_evidenced env w0 (fst (fold (relay_event env config tenant) events a))"
    if "runs_evidenced env w0 (fst a)" for events a
    using that
  proof (induction events arbitrary: a)
    case (Cons event events)
    then show ?case using relay_event_evidenced [of env w0 "fst a" config tenant event "snd a"] by simp
  qed simp
  from this [of "(w1, n)"] e c show ?thesis by (auto simp: relay_tenant_def split: sum.split)
qed

lemma relay_once_evidenced: "runs_evidenced env w (fst (relay_once env config w))"
proof -
  have "runs_evidenced env w (fst (fold (relay_tenant env config) tenants a))"
    if "runs_evidenced env w (fst a)" for tenants a
    using that
  proof (induction tenants arbitrary: a)
    case (Cons tenant tenants)
    then show ?case using relay_tenant_evidenced [of env w "fst a" config tenant "snd a"] by simp
  qed simp
  then show ?thesis by (simp add: relay_once_def runs_evidenced_def)
qed

section \<open>Properties\<close>

text \<open>A queued run of an enabled plugin under an active grant, and its pending start event.\<close>

definition start_event :: outbox_row where
  "start_event = \<lparr> ob_tenant = 1, ob_id = 30, ob_aggregate_id = 10, ob_aggregate_version = 1,
     ob_event_name = ''run.start'', ob_artifact_refs = JArr [], ob_aggregate_type = ''Run'',
     ob_principal_id = Some 2, ob_correlation_id = None, ob_delivery_status = ''PENDING'',
     ob_delivery_attempts = 0, ob_available_at = 0, ob_lease_expires_at = None, ob_stream_sequence = 1 \<rparr>"

definition relay_db :: database where
  "relay_db = member_db\<lparr>tb_outbox := [start_event],
     tb_installations := [\<lparr> pi_tenant = 1, pi_id = 40, pi_plugin_id = ''p'', pi_artifact_digest = ''d'',
       pi_state = ''ENABLED'', pi_granted_capabilities = [], pi_revocation_epoch = 1, pi_version = 1 \<rparr>],
     tb_delegations := [\<lparr> dl_tenant = 1, dl_id = 3, dl_principal_id = ''2'', dl_principal_type = ''USER'',
       dl_issuer = ''i'', dl_creator_id = 2, dl_actions = [''run.start''], dl_resources = JArr [],
       dl_parent_grant_id = None, dl_expires_at = 900000000, dl_state = ''ACTIVE'', dl_version = 1,
       dl_fence = 1 \<rparr>]\<rparr>"

text \<open>
  C26: a settled event never starts a run again. Once an event is recorded as delivered, no later
  claim hands it to a worker, whatever claims, deliveries, failures and authority checks any
  workers run in between, and at whatever time.
\<close>

theorem delivered_event_is_never_claimed:
  assumes "mark_outbox_delivered s tenant i = Inr s1"
    and "claim_pending_outbox (attempts (relay_step cd pf) s1 ops) now tenant limit lease = Inr (c, s2)"
  shows "i \<notin> od_event_id ` set c"
proof -
  from assms(1) have "received s1 tenant i" by (simp add: mark_outbox_delivered_Inr)
  then have "received (attempts (relay_step cd pf) s1 ops) tenant i" by (rule relay_inbox.attempts_inv)
  with claim_keeps_inbox [OF assms(2)] show ?thesis by auto
qed

abbreviation delivered_db :: database where
  "delivered_db \<equiv> attempts (relay_step sample_cedar sample_platform) relay_db [MarkDelivered 1 30]"

theorem delivered_event_is_never_claimed_witness:
  "is_ok (mark_outbox_delivered relay_db 1 30)
   \<and> \<not> (\<exists>c s. claim_pending_outbox (attempts (relay_step sample_cedar sample_platform) delivered_db
        [ClaimPending 5 1 16 30, MarkFailed 6 1 30 10]) 99 1 16 30 = Inr (c, s) \<and> 30 \<in> od_event_id ` set c)"
proof
  show o: "is_ok (mark_outbox_delivered relay_db 1 30)" by code_simp
  then obtain s1 where "mark_outbox_delivered relay_db 1 30 = Inr s1" by (auto simp: is_ok_iff)
  moreover from this have "delivered_db = s1" by (simp add: attempt_def)
  ultimately show "\<not> (\<exists>c s. claim_pending_outbox (attempts (relay_step sample_cedar sample_platform) delivered_db
      [ClaimPending 5 1 16 30, MarkFailed 6 1 30 10]) 99 1 16 30 = Inr (c, s) \<and> 30 \<in> od_event_id ` set c)"
    using delivered_event_is_never_claimed [of relay_db 1 30 s1] by blast
qed

text \<open>
  A lease excludes every other worker. After a claim hands out an event, no claim gets it again
  before the lease ends, whatever the workers do meanwhile (claims with non-negative leases,
  deliveries, authority checks, failures of other events), unless its own holder reports a failure.
\<close>

theorem lease_is_exclusive:
  assumes "claim_pending_outbox s now tenant limit lease = Inr (c, s1)" and "x \<in> set c"
    and "set ops \<subseteq> lease_respecting tenant (od_event_id x)"
    and "claim_pending_outbox (attempts (relay_step cd pf) s1 ops) now' tenant limit' lease' = Inr (c', s2)"
    and "now' \<le> now + seconds lease"
  shows "od_event_id x \<notin> od_event_id ` set c'"
proof -
  have "held_until (now + seconds lease) tenant (od_event_id x) s1"
    using assms(1,2) by (intro claimed_is_held) auto
  from attempts_held [OF this assms(3)] assms(5,4) show ?thesis by (rule held_until_not_claimed)
qed

abbreviation leased_db :: database where
  "leased_db \<equiv> attempts (relay_step sample_cedar sample_platform) relay_db [ClaimPending 5 1 16 30]"

theorem lease_is_exclusive_witness:
  "(\<exists>s1. claim_pending_outbox relay_db 5 1 16 30 = Inr
      ([\<lparr> od_event_id = 30, od_event_name = ''run.start'', od_aggregate_id = 10, od_aggregate_version = 1,
          od_aggregate_type = ''Run'' \<rparr>], s1))
   \<and> \<not> (\<exists>c s. claim_pending_outbox (attempts (relay_step sample_cedar sample_platform) leased_db
        [ClaimPending 6 1 16 30, VerifyRun 7 1 10]) 30000005 1 16 30 = Inr (c, s) \<and> 30 \<in> od_event_id ` set c)"
proof -
  let ?x = "\<lparr> od_event_id = 30, od_event_name = ''run.start'', od_aggregate_id = 10, od_aggregate_version = 1,
    od_aggregate_type = ''Run'' \<rparr>"
  have "map_option fst (case claim_pending_outbox relay_db 5 1 16 30 of Inl _ \<Rightarrow> None | Inr y \<Rightarrow> Some y) = Some [?x]"
    by code_simp
  then obtain s1 where s1: "claim_pending_outbox relay_db 5 1 16 30 = Inr ([?x], s1)"
    by (auto split: sum.splits)
  then have l: "leased_db = s1" by (simp add: attempt_def)
  from lease_is_exclusive [OF s1, of ?x "[ClaimPending 6 1 16 30, VerifyRun 7 1 10]"]
  have "\<forall>c s. claim_pending_outbox (attempts (relay_step sample_cedar sample_platform) s1
      [ClaimPending 6 1 16 30, VerifyRun 7 1 10]) 30000005 1 16 30 = Inr (c, s) \<longrightarrow> 30 \<notin> od_event_id ` set c"
    by (auto simp: lease_respecting_def)
  with s1 l show ?thesis by metis
qed

text \<open>
  C28: failing dispatches end. An event that is claimed and fails again and again is claimed at most
  \<open>max_attempts\<close> times in all (or once more, if it had used them up); the last failure moves it to
  the dead letters, and every earlier one puts it off by 1 to 60 seconds.
\<close>

theorem failing_event_becomes_dead_letter:
  assumes "unique_key outbox_key (tb_outbox s)" and "row_at outbox_key (tenant, i) (tb_outbox s) = Some e"
    and "0 \<le> ob_delivery_attempts e"
    and "retry_cycles tenant i limit lease max_attempts ts s = Some s'" and "ts \<noteq> []"
  shows "int (length ts) \<le> max 1 (max_attempts - ob_delivery_attempts e)
    \<and> (\<exists>e'. row_at outbox_key (tenant, i) (tb_outbox s') = Some e'
        \<and> ob_delivery_attempts e' = ob_delivery_attempts e + int (length ts)
        \<and> (if max_attempts \<le> ob_delivery_attempts e' then ob_delivery_status e' = ''DEAD_LETTER''
           else ob_delivery_status e' = ''PENDING''
             \<and> snd (last ts) + seconds 1 \<le> ob_available_at e'
             \<and> ob_available_at e' \<le> snd (last ts) + seconds 60))"
proof -
  from retry_cycles_row [OF assms(4,5,1,2)] obtain e' where
    e': "row_at outbox_key (tenant, i) (tb_outbox s') = Some e'"
      "ob_delivery_attempts e' = ob_delivery_attempts e + int (length ts)"
      "int (length ts) \<le> max 1 (max_attempts - ob_delivery_attempts e)"
      "if max_attempts \<le> ob_delivery_attempts e' then ob_delivery_status e' = ''DEAD_LETTER''
       else ob_delivery_status e' = ''PENDING''
         \<and> ob_available_at e' = snd (last ts) + seconds (backoff_secs (ob_delivery_attempts e'))"
    by blast
  moreover from e'(2) assms(3) have "1 \<le> backoff_secs (ob_delivery_attempts e') \<and> backoff_secs (ob_delivery_attempts e') \<le> 60"
    by (intro backoff_bounds) simp
  ultimately show ?thesis by (auto split: if_splits)
qed

abbreviation two_failures :: "database option" where
  "two_failures \<equiv> retry_cycles 1 30 16 30 2 [(5, 6), (99000000, 99000001)] relay_db"

theorem failing_event_becomes_dead_letter_witness:
  "two_failures \<noteq> None
   \<and> (\<exists>e'. row_at outbox_key (1, 30) (tb_outbox (the two_failures)) = Some e' \<and> ob_delivery_status e' = ''DEAD_LETTER'')"
proof
  show t: "two_failures \<noteq> None" by code_simp
  then obtain s' where s': "two_failures = Some s'" by blast
  have u: "unique_key outbox_key (tb_outbox relay_db)" by code_simp
  have r: "row_at outbox_key (1, 30) (tb_outbox relay_db) = Some start_event" by code_simp
  from failing_event_becomes_dead_letter [OF u r _ s']
  show "\<exists>e'. row_at outbox_key (1, 30) (tb_outbox (the two_failures)) = Some e' \<and> ob_delivery_status e' = ''DEAD_LETTER''"
    unfolding s' by (auto simp: start_event_def)
qed



text \<open>
  C27: a run starts only under current authority and on the engine's word. Whatever a relay pass
  does, a run that is marked started afterwards was so before, or the engine was asked for it and
  answered with the non-empty identity the run now carries; and when it was asked, the run was
  queued, no kill switch was on, the plugin was enabled at the run's digest, the requester an
  active member whom the current policy permits the start, and the grant active, unexpired and at
  the run's fence.
\<close>

theorem started_run_has_authority_and_evidence:
  assumes "relay_once env config w = (w', n)" and "r' \<in> set (tb_runs (rw_db w'))"
    and "rn_dispatch_state r' = ''STARTED''" and "r' \<notin> set (tb_runs (rw_db w))"
  shows "\<exists>tenant run k s r t requester g.
    (tenant, run, k, s) \<in> set (rw_starts w') \<and> run_key r' = (tenant, dr_run_id run)
    \<and> re_start_durable_run env k run tenant = Inr t \<and> t \<noteq> [] \<and> rn_temporal_run_id r' = Some t
    \<and> row_at run_key (run_key r') (tb_runs s) = Some r \<and> rn_state r = ''QUEUED''
    \<and> \<not> run_killed (re_platform env) s tenant (rn_plugin_id r)
    \<and> plugin_enabled s tenant (rn_plugin_id r) (rn_plugin_digest r)
    \<and> membership_active s tenant (rn_principal_id r)
    \<and> read_policy_for_principal (re_cedar env) (re_platform env) s tenant (rn_principal_id r) = Inr requester
    \<and> start_permitted (re_cedar env) requester (rn_plugin_id r) (rn_plugin_digest r)
    \<and> row_at delegation_key (tenant, rn_grant_id r) (tb_delegations s) = Some g
    \<and> dl_state g = ''ACTIVE'' \<and> re_clock env (k - 1) < dl_expires_at g \<and> dl_fence g = rn_grant_fence r"
proof -
  have "start_evidence env w' r'"
    using relay_once_evidenced [of env w config] assms by (auto simp: runs_evidenced_def)
  then obtain tenant run k s t r requester g where
    e: "(tenant, run, k, s) \<in> set (rw_starts w')" "run_key r' = (tenant, dr_run_id run)"
      "re_start_durable_run env k run tenant = Inr t" "t \<noteq> []" "rn_temporal_run_id r' = Some t"
      "row_at run_key (tenant, dr_run_id run) (tb_runs s) = Some r" "rn_state r = ''QUEUED''"
      "\<not> run_killed (re_platform env) s tenant (rn_plugin_id r)"
      "plugin_enabled s tenant (rn_plugin_id r) (rn_plugin_digest r)"
      "membership_active s tenant (rn_principal_id r)"
      "read_policy_for_principal (re_cedar env) (re_platform env) s tenant (rn_principal_id r) = Inr requester"
      "start_permitted (re_cedar env) requester (rn_plugin_id r) (rn_plugin_digest r)"
      "row_at delegation_key (tenant, rn_grant_id r) (tb_delegations s) = Some g"
      "dl_state g = ''ACTIVE''" "re_clock env (k - 1) < dl_expires_at g" "dl_fence g = rn_grant_fence r"
    unfolding start_evidence_def dispatch_refusal_None_iff by auto
  show ?thesis
    by (intro exI [of _ tenant] exI [of _ run] exI [of _ k] exI [of _ s] exI [of _ r] exI [of _ t]
        exI [of _ requester] exI [of _ g] conjI) (simp_all only: e not_False_eq_True)
qed

definition relay_world_start :: relay_world where
  "relay_world_start = \<lparr> rw_db = relay_db, rw_ticks = 0, rw_starts = [] \<rparr>"

definition relay_env_sample :: relay_env where
  "relay_env_sample = \<lparr> re_cedar = sample_cedar, re_platform = sample_platform, re_clock = (\<lambda>k. int k + 5),
     re_start_durable_run = (\<lambda>k run tenant. Inr ''engine-1'') \<rparr>"

definition relay_config_sample :: relay_config where
  "relay_config_sample = \<lparr> rg_tenants = [1], rg_batch_size = 16, rg_lease_seconds = 30, rg_max_attempts = 10 \<rparr>"

definition relayed_run :: run_row where
  "relayed_run = (hd (tb_runs relay_db))\<lparr>rn_state := ''RUNNING'', rn_dispatch_state := ''STARTED'',
     rn_temporal_run_id := Some ''engine-1'', rn_version := 2, rn_updated_at := 8\<rparr>"

theorem started_run_has_authority_and_evidence_witness:
  "\<exists>w'. relay_once relay_env_sample relay_config_sample relay_world_start = (w', 1)
     \<and> relayed_run \<in> set (tb_runs (rw_db w'))
     \<and> (\<exists>run k s. (1, run, k, s) \<in> set (rw_starts w') \<and> dr_run_id run = 10)"
proof -
  let ?e = "relay_once relay_env_sample relay_config_sample relay_world_start"
  have "snd ?e = 1 \<and> relayed_run \<in> set (tb_runs (rw_db (fst ?e)))" by code_simp
  then obtain w' where e: "?e = (w', 1)" and r: "relayed_run \<in> set (tb_runs (rw_db w'))"
    by (metis fst_conv prod.collapse)
  have "rn_dispatch_state relayed_run = ''STARTED''" "relayed_run \<notin> set (tb_runs (rw_db relay_world_start))"
    "run_key relayed_run = (1, 10)" by code_simp+
  with started_run_has_authority_and_evidence [OF e r] e r show ?thesis by auto
qed

end
