(* ===== verification/Pipeline.thy ===== *)
theory Pipeline
  imports Relay
begin

text \<open>
  The path of every command through the adapter (\<open>store.rs\<close>): schema and fingerprint, the
  transaction under current authority, the replay of a known idempotency key, the handler, and the
  records that commit with its change - projection artifact, lineage, audit entry, outbox event and
  receipt. A handler is an argument here; the dispatch table is in the theory of the commands.
  The schema catalog (a generated file behind a third-party validator) and the object store are
  parameters. Values of \<open>Uuid::new_v4\<close> are read from the argument \<open>ids\<close>.
\<close>

section \<open>Environment\<close>

record command_env =
  ce_platform :: platform
  ce_cedar :: cedar
  ce_catalog :: "string \<Rightarrow> json \<Rightarrow> bool"
  ce_put_immutable :: "string \<Rightarrow> string \<Rightarrow> string \<Rightarrow> unit outcome"
  ce_get_bounded :: "string \<Rightarrow> nat \<Rightarrow> string outcome"

section \<open>Text helpers of the standard library\<close>

definition utf8_continuation :: "char \<Rightarrow> bool" where
  "utf8_continuation c \<longleftrightarrow> 128 \<le> byte c \<and> byte c < 192"

fun take_chars :: "nat \<Rightarrow> string \<Rightarrow> string" where
  "take_chars n [] = []"
| "take_chars n (c # s) =
     (if utf8_continuation c then c # take_chars n s
      else case n of 0 \<Rightarrow> [] | Suc m \<Rightarrow> c # take_chars m s)"

definition char_length :: "string \<Rightarrow> nat" where
  "char_length s = length (filter (\<lambda>c. \<not> utf8_continuation c) s)"

lemma strip_prefix_shorter: "strip_prefix p s = Some r \<Longrightarrow> p \<noteq> [] \<Longrightarrow> length r < length s"
  by (auto simp: strip_prefix_Some_iff)

function trim_start_matches :: "string \<Rightarrow> string \<Rightarrow> string" where
  "trim_start_matches p s =
     (if p = [] then s
      else case strip_prefix p s of None \<Rightarrow> s | Some r \<Rightarrow> trim_start_matches p r)"
  by pat_completeness auto
termination
  by (relation "measure (length \<circ> snd)") (auto dest: strip_prefix_shorter)

section \<open>Receipts\<close>

definition ser_receipt :: "platform \<Rightarrow> command_receipt \<Rightarrow> json" where
  "ser_receipt pf r =
     JObj [(''command_id'', JStr (cr_command_id r)),
           (''state'', JStr (case cr_state r of ReceiptAccepted \<Rightarrow> ''ACCEPTED'' | ReceiptSucceeded \<Rightarrow> ''SUCCEEDED'')),
           (''resource'', ser_option ser_resource_ref (cr_resource r)),
           (''run_id'', ser_option JStr (cr_run_id r)),
           (''effect_id'', ser_option JStr (cr_effect_id r)),
           (''correlation_id'', JStr (cr_correlation_id r)),
           (''accepted_at'', ser_time pf (cr_accepted_at r))]"

definition de_receipt_state :: "json \<Rightarrow> receipt_state option" where
  "de_receipt_state j =
     (case de_string j of
        None \<Rightarrow> None
      | Some s \<Rightarrow> if s = ''ACCEPTED'' then Some ReceiptAccepted
                   else if s = ''SUCCEEDED'' then Some ReceiptSucceeded else None)"

text \<open>An \<open>Option\<close> member may be missing.\<close>

definition de_opt_member :: "string \<Rightarrow> (json \<Rightarrow> 'a option) \<Rightarrow> json \<Rightarrow> 'a option option" where
  "de_opt_member name de j = (case json_get name j of None \<Rightarrow> Some None | Some v \<Rightarrow> de_option de v)"

definition de_receipt :: "platform \<Rightarrow> json \<Rightarrow> command_receipt option" where
  "de_receipt pf j =
     (if \<not> only_members [''command_id'', ''state'', ''resource'', ''run_id'', ''effect_id'',
           ''correlation_id'', ''accepted_at''] j then None
      else case (de_member ''command_id'' (de_opaque ''ResourceId'') j, de_member ''state'' de_receipt_state j,
                 de_opt_member ''resource'' de_resource_ref j,
                 de_opt_member ''run_id'' (de_opaque ''ResourceId'') j,
                 de_opt_member ''effect_id'' (de_opaque ''ResourceId'') j,
                 de_member ''correlation_id'' (de_opaque ''ResourceId'') j,
                 de_member ''accepted_at'' (de_time pf) j) of
        (Some c, Some st, Some res, Some run, Some eff, Some cor, Some at) \<Rightarrow>
          Some \<lparr> cr_command_id = c, cr_state = st, cr_resource = res, cr_run_id = run, cr_effect_id = eff,
                 cr_correlation_id = cor, cr_accepted_at = at \<rparr>
      | _ \<Rightarrow> None)"

section \<open>Artifacts of projections\<close>

text \<open>The artifact references inside a JSON value; a reference is not searched further.\<close>

fun projection_sources :: "json \<Rightarrow> artifact_ref list"
  and member_sources :: "(string \<times> json) list \<Rightarrow> artifact_ref list"
  and element_sources :: "json list \<Rightarrow> artifact_ref list" where
  "projection_sources (JObj object) =
     (case (map_of object ''artifact_id'', map_of object ''digest'', de_artifact_ref (JObj object)) of
        (Some _, Some _, Some reference) \<Rightarrow> [reference]
      | _ \<Rightarrow> member_sources object)"
| "projection_sources (JArr array) = element_sources array"
| "projection_sources JNull = []"
| "projection_sources (JBool b) = []"
| "projection_sources (JNum n) = []"
| "projection_sources (JFloat f) = []"
| "projection_sources (JStr s) = []"
| "member_sources [] = []"
| "member_sources ((k, child) # rest) = projection_sources child @ member_sources rest"
| "element_sources [] = []"
| "element_sources (child # rest) = projection_sources child @ element_sources rest"

definition BASELINE_RESOURCE_TYPES :: "string list" where
  "BASELINE_RESOURCE_TYPES = [''Run'', ''Membership'', ''Delegation'', ''EffectIntent'', ''Connection'',
     ''CostReservation'', ''PluginManifest'', ''UploadSession'', ''ConnectorAuthorization'']"

definition artifact_ok :: "artifact_row \<Rightarrow> bool" where
  "artifact_ok a \<longleftrightarrow> is_ok (digest_parse (af_digest a))
     \<and> af_classification a \<in> {''PUBLIC'', ''INTERNAL'', ''CONFIDENTIAL'', ''RESTRICTED''}
     \<and> 1 \<le> char_length (af_content_type a) \<and> char_length (af_content_type a) \<le> 128
     \<and> 1 \<le> af_size_bytes a \<and> af_size_bytes a \<le> 1073741824
     \<and> af_state a \<in> {''PENDING'', ''ACTIVE'', ''QUARANTINED'', ''TOMBSTONED'', ''PURGED''}
     \<and> 0 < af_version a"

definition tenant_known :: "database \<Rightarrow> uuid \<Rightarrow> bool" where
  "tenant_known s tenant \<longleftrightarrow> row_at tn_id tenant (tb_tenants s) \<noteq> None"

definition persist_artifact ::
    "command_env \<Rightarrow> uuid \<Rightarrow> timestamp \<Rightarrow> database \<Rightarrow> command_actor \<Rightarrow> string \<Rightarrow> string \<Rightarrow> classification
     \<Rightarrow> (artifact_ref \<times> database) outcome" where
  "persist_artifact env i now s actor bytes content_type cls =
     (let pf = ce_platform env;
          digest = digest_bytes pf bytes;
          key = ca_tenant_id actor @ ''/'' @ pf_uuid_show pf i @ ''/'' @ trim_start_matches ''sha256:'' digest;
          size = int (length bytes)
      in if \<not> (1 \<le> size \<and> size \<le> 1073741824) then Inl (invalid ''PAYLOAD_TOO_LARGE'')
      else
      rbind (ce_put_immutable env key bytes content_type) (\<lambda>_.
      rbind (parse_uuid pf (ca_tenant_id actor)) (\<lambda>tenant.
      rbind (parse_uuid pf (ca_principal_id actor)) (\<lambda>who.
      rbind (sql (insert_row artifact_ok
               (\<lambda>a a'. artifact_key a' = artifact_key a \<or> af_storage_key a' = af_storage_key a)
               (tenant_known s tenant)
               \<lparr> af_tenant = tenant, af_id = i, af_digest = digest, af_schema_version = ''1.0.0'',
                 af_classification = classification_as_str cls, af_content_type = content_type,
                 af_size_bytes = size, af_storage_key = key, af_state = ''ACTIVE'', af_creator_id = who,
                 af_legal_hold = False, af_created_at = now, af_version = 1 \<rparr> (tb_artifacts s))) (\<lambda>t.
      Inr (\<lparr> ar_artifact_id = pf_uuid_show pf i, ar_tenant_id = ca_tenant_id actor, ar_digest = digest,
             ar_schema_version = ''1.0.0'', ar_classification = cls \<rparr>,
           s\<lparr>tb_artifacts := t\<rparr>))))))"

definition load_artifact_ref ::
    "command_env \<Rightarrow> database \<Rightarrow> command_actor \<Rightarrow> artifact_ref \<Rightarrow> nat \<Rightarrow> string outcome" where
  "load_artifact_ref env s actor reference maximum =
     (let pf = ce_platform env in
      if ar_tenant_id reference \<noteq> ca_tenant_id actor then Inl not_found
      else
      rbind (parse_uuid pf (ca_tenant_id actor)) (\<lambda>tenant.
      rbind (parse_uuid pf (ar_artifact_id reference)) (\<lambda>i.
      rbind (ok_or not_found (find (\<lambda>a. artifact_key a = (tenant, i) \<and> af_state a = ''ACTIVE''
               \<and> \<not> list_ex (\<lambda>d. ts_tenant d = tenant \<and> ts_resource_type d = ''Artifact''
                             \<and> ts_resource_id d = pf_uuid_show pf i) (tb_tombstones s))
             (tb_artifacts s))) (\<lambda>row.
      if af_digest row \<noteq> ar_digest reference
         \<or> af_classification row \<noteq> classification_as_str (ar_classification reference)
         \<or> af_schema_version row \<noteq> ar_schema_version reference
      then Inl (precondition ''ARTIFACT_REFERENCE_MISMATCH'')
      else if int maximum < af_size_bytes row then Inl (invalid ''PAYLOAD_TOO_LARGE'')
      else
      rbind (ce_get_bounded env (af_storage_key row) maximum) (\<lambda>bytes.
      if int (length bytes) \<noteq> af_size_bytes row \<or> digest_bytes pf bytes \<noteq> ar_digest reference
      then Inl (artifact_integrity reference)
      else Inr bytes)))))"

section \<open>Projections\<close>

text \<open>\<open>INSERT \<dots> ON CONFLICT DO NOTHING\<close>.\<close>

definition insert_or_ignore ::
    "('r \<Rightarrow> bool) \<Rightarrow> ('r \<Rightarrow> 'r \<Rightarrow> bool) \<Rightarrow> bool \<Rightarrow> 'r \<Rightarrow> 'r list \<Rightarrow> sqlstate + 'r list" where
  "insert_or_ignore check clash refs r t =
     (if check r \<and> list_ex (clash r) t then Inr t else insert_row check clash refs r t)"

definition record_lineage :: "uuid \<Rightarrow> uuid \<Rightarrow> uuid \<Rightarrow> database \<Rightarrow> database outcome" where
  "record_lineage tenant derived source s =
     rbind (sql (insert_or_ignore (\<lambda>l. ln_source_id l \<noteq> ln_derived_id l) (\<lambda>l l'. l' = l)
              (row_at artifact_key (tenant, source) (tb_artifacts s) \<noteq> None
               \<and> row_at artifact_key (tenant, derived) (tb_artifacts s) \<noteq> None)
              \<lparr> ln_tenant = tenant, ln_source_id = source, ln_derived_id = derived \<rparr> (tb_lineage s)))
       (\<lambda>t. Inr (s\<lparr>tb_lineage := t\<rparr>))"

definition source_ids ::
    "platform \<Rightarrow> command_actor \<Rightarrow> projection_change \<Rightarrow> artifact_ref list \<Rightarrow> uuid list outcome" where
  "source_ids pf actor change sources =
     rbind (rfold (\<lambda>source ids.
         if ar_tenant_id source \<noteq> ca_tenant_id actor then Inl not_found
         else rbind (parse_uuid pf (ar_artifact_id source)) (\<lambda>i. Inr (ids @ [i])))
       sources (pc_source_artifacts change)) (\<lambda>ids. Inr (sort (remdups ids)))"

definition raise_classification ::
    "database \<Rightarrow> uuid \<Rightarrow> uuid \<Rightarrow> classification \<Rightarrow> classification outcome" where
  "raise_classification s tenant i cls =
     rbind (ok_or not_found (row_at artifact_key (tenant, i) (tb_artifacts s))) (\<lambda>a.
     rbind (ok_or (unavailable ''ARTIFACT_CLASSIFICATION_INVALID'')
             (de_classification (JStr (af_classification a)))) (\<lambda>source_class.
     Inr (max cls source_class)))"

definition first_created :: "database \<Rightarrow> timestamp \<Rightarrow> uuid \<Rightarrow> string \<Rightarrow> string \<Rightarrow> timestamp" where
  "first_created s now tenant kind i =
     (case map rp_created_at (filter (\<lambda>p. rp_tenant p = tenant \<and> rp_resource_type p = kind
             \<and> rp_resource_id p = i) (tb_projections s)) of
        [] \<Rightarrow> now | t # ts \<Rightarrow> fold min ts t)"

definition projection_ok :: "projection_row \<Rightarrow> bool" where
  "projection_ok p \<longleftrightarrow> 0 < rp_version p \<and> char_length (rp_search_label p) \<le> 512"

definition insert_projection :: "projection_row \<Rightarrow> database \<Rightarrow> database outcome" where
  "insert_projection p s =
     rbind (sql (insert_row projection_ok (\<lambda>p p'. projection_key p' = projection_key p)
              (tenant_known s (rp_tenant p)
               \<and> row_at artifact_key (rp_tenant p, rp_artifact_id p) (tb_artifacts s) \<noteq> None)
              p (tb_projections s)))
       (\<lambda>t. Inr (s\<lparr>tb_projections := t\<rparr>))"

definition write_projection ::
    "command_env \<Rightarrow> uuid \<Rightarrow> timestamp \<Rightarrow> database \<Rightarrow> command_actor \<Rightarrow> projection_change
     \<Rightarrow> (artifact_ref \<times> database) outcome" where
  "write_projection env i now s actor change =
     (let pf = ce_platform env;
          kind = rr_resource_type (pc_resource change)
      in if List.member BASELINE_RESOURCE_TYPES kind \<and> \<not> ce_catalog env kind (pc_value change)
      then Inl (unavailable ''PROJECTION_CONTRACT_INVALID'')
      else
      rbind (ok_or (invalid ''PROJECTION_INVALID'') (pf_canonical pf (pc_value change))) (\<lambda>bytes.
      let sources = projection_sources (pc_value change);
          cls = fold max (map ar_classification sources) Internal
      in
      rbind (source_ids pf actor change sources) (\<lambda>ids.
      rbind (parse_uuid pf (ca_tenant_id actor)) (\<lambda>tenant.
      rbind (rfold (raise_classification s tenant) ids cls) (\<lambda>cls'.
      rbind (persist_artifact env i now s actor bytes ''application/json'' cls') (\<lambda>(reference, s1).
      rbind (parse_uuid pf (ar_artifact_id reference)) (\<lambda>derived.
      rbind (rfold (record_lineage tenant derived) ids s1) (\<lambda>s2.
      rbind (insert_projection
               \<lparr> rp_tenant = tenant, rp_resource_type = kind,
                 rp_resource_id = rr_resource_id (pc_resource change),
                 rp_version = rr_version (pc_resource change), rp_artifact_id = derived,
                 rp_search_label = take_chars 512 (pc_label change),
                 rp_created_at = first_created s2 now tenant kind (rr_resource_id (pc_resource change)) \<rparr>
               s2) (\<lambda>s3.
      Inr (reference, s3))))))))))"

section \<open>Records of a change\<close>

definition insert_audit :: "audit_row \<Rightarrow> database \<Rightarrow> database outcome" where
  "insert_audit a s =
     rbind (sql (insert_row (\<lambda>_. True) (\<lambda>a a'. (au_tenant a', au_id a') = (au_tenant a, au_id a))
              (tenant_known s (au_tenant a)) a (tb_audit s)))
       (\<lambda>t. Inr (s\<lparr>tb_audit := t\<rparr>))"

text \<open>The identity column takes the next value of its sequence.\<close>

definition insert_outbox :: "outbox_row \<Rightarrow> database \<Rightarrow> database outcome" where
  "insert_outbox e s =
     (let n = tb_outbox_sequence s + 1 in
      rbind (sql (insert_row outbox_ok
               (\<lambda>e e'. outbox_key e' = outbox_key e
                  \<or> (ob_tenant e', ob_aggregate_id e', ob_aggregate_version e', ob_event_name e')
                    = (ob_tenant e, ob_aggregate_id e, ob_aggregate_version e, ob_event_name e))
               (tenant_known s (ob_tenant e)) (e\<lparr>ob_stream_sequence := n\<rparr>) (tb_outbox s)))
        (\<lambda>t. Inr (s\<lparr>tb_outbox := t, tb_outbox_sequence := n\<rparr>)))"

definition new_event ::
    "timestamp \<Rightarrow> uuid \<Rightarrow> uuid \<Rightarrow> uuid \<Rightarrow> int \<Rightarrow> string \<Rightarrow> json \<Rightarrow> string \<Rightarrow> uuid \<Rightarrow> uuid \<Rightarrow> outbox_row" where
  "new_event now tenant i aggregate version action refs kind who correlation =
     \<lparr> ob_tenant = tenant, ob_id = i, ob_aggregate_id = aggregate, ob_aggregate_version = version,
       ob_event_name = action, ob_artifact_refs = refs, ob_aggregate_type = kind,
       ob_principal_id = Some who, ob_correlation_id = Some correlation, ob_delivery_status = ''PENDING'',
       ob_delivery_attempts = 0, ob_available_at = now, ob_lease_expires_at = None,
       ob_stream_sequence = 0 \<rparr>"

text \<open>The three identifiers a change draws: its artifact, audit entry and event.\<close>

definition record_change ::
    "command_env \<Rightarrow> uuid \<times> uuid \<times> uuid \<Rightarrow> timestamp \<Rightarrow> database \<Rightarrow> command_actor \<Rightarrow> string
     \<Rightarrow> projection_change \<Rightarrow> uuid \<Rightarrow> (artifact_ref \<times> database) outcome" where
  "record_change env ids now s actor action change correlation =
     (case ids of (artifact_id, audit_id, event_id) \<Rightarrow>
      let pf = ce_platform env; resource = pc_resource change in
      rbind (parse_uuid pf (ca_tenant_id actor)) (\<lambda>tenant.
      rbind (parse_uuid pf (ca_principal_id actor)) (\<lambda>who.
      rbind (write_projection env artifact_id now s actor change) (\<lambda>(artifact, s1).
      rbind (parse_uuid pf (rr_resource_id resource)) (\<lambda>aggregate.
      rbind (insert_audit \<lparr> au_tenant = tenant, au_id = audit_id, au_principal_id = who, au_action = action,
               au_resource_type = rr_resource_type resource, au_resource_id = aggregate,
               au_correlation_id = correlation \<rparr> s1) (\<lambda>s2.
      rbind (insert_outbox (new_event now tenant event_id aggregate (rr_version resource) action
               (JArr [ser_artifact_ref artifact]) (rr_resource_type resource) who correlation) s2) (\<lambda>s3.
      Inr (artifact, s3))))))))"

section \<open>Execution of a command\<close>

definition schema_name :: "string \<Rightarrow> string" where
  "schema_name operation =
     ''Command_'' @ map (\<lambda>c. if c = CHR ''.'' \<or> c = CHR ''-'' then CHR ''_'' else c) operation"

definition fingerprint :: "platform \<Rightarrow> string \<Rightarrow> json \<Rightarrow> digest option" where
  "fingerprint pf operation input =
     map_option (digest_bytes pf) (pf_canonical pf (JObj [(''operation'', JStr operation), (''input'', input)]))"

text \<open>Everything before the handler: a receipt means the command is a replay.\<close>

definition admit ::
    "command_env \<Rightarrow> timestamp \<Rightarrow> database \<Rightarrow> authorized_command \<Rightarrow> command_receipt option outcome" where
  "admit env now s command =
     (let pf = ce_platform env; actor = ac_actor command in
      if \<not> ce_catalog env (schema_name (ac_operation command)) (ac_input command)
      then Inl (invalid ''SCHEMA_INVALID'')
      else
      rbind (ok_or (invalid ''SCHEMA_INVALID'') (fingerprint pf (ac_operation command) (ac_input command))) (\<lambda>fp.
      if fp \<noteq> ac_fingerprint command then Inl (invalid ''FINGERPRINT_MISMATCH'')
      else
      rbind (begin_actor pf s actor) (\<lambda>_.
      rbind (authorize_command (ce_cedar env) pf s command) (\<lambda>_.
      rbind (parse_uuid pf (ca_tenant_id actor)) (\<lambda>tenant.
      rbind (parse_uuid pf (ca_principal_id actor)) (\<lambda>who.
      case find (\<lambda>r. receipt_key r = (tenant, who, ac_operation command, ac_idempotency_key command)
                     \<and> now < cp_expires_at r) (tb_receipts s) of
        None \<Rightarrow> Inr None
      | Some previous \<Rightarrow>
          if cp_fingerprint previous \<noteq> ac_fingerprint command then Inl (conflict ''IDEMPOTENCY_CONFLICT'')
          else if \<not> ce_catalog env ''CommandReceipt'' (cp_receipt previous)
          then Inl (unavailable ''RECEIPT_INTEGRITY'')
          else rbind (ok_or (unavailable ''RECEIPT_INTEGRITY'') (de_receipt pf (cp_receipt previous)))
                 (\<lambda>r. Inr (Some r))))))))"

definition receipt_ok :: "receipt_row \<Rightarrow> bool" where
  "receipt_ok r \<longleftrightarrow> 1 \<le> char_length (cp_operation r) \<and> char_length (cp_operation r) \<le> 128
     \<and> 1 \<le> char_length (cp_idempotency_key r) \<and> char_length (cp_idempotency_key r) \<le> 128
     \<and> is_ok (digest_parse (cp_fingerprint r)) \<and> (case cp_receipt r of JObj _ \<Rightarrow> True | _ \<Rightarrow> False)"

text \<open>The upsert of the receipt: a row with the key is replaced only once it has expired.\<close>

definition store_receipt :: "timestamp \<Rightarrow> receipt_row \<Rightarrow> database \<Rightarrow> database outcome" where
  "store_receipt now r s =
     (if row_at receipt_key (receipt_key r) (tb_receipts s) \<noteq> None then
        rbind (sql (if receipt_ok r then update_rows (\<lambda>q. receipt_key q = receipt_key r \<and> cp_expires_at q \<le> now)
                      (\<lambda>_. r) (\<lambda>_. True) receipt_ok (tb_receipts s) else Inl ''23514''))
          (\<lambda>t. Inr (s\<lparr>tb_receipts := t\<rparr>))
      else
        rbind (sql (insert_row receipt_ok (\<lambda>q q'. receipt_key q' = receipt_key q) (tenant_known s (cp_tenant r)) r
                 (tb_receipts s))) (\<lambda>t. Inr (s\<lparr>tb_receipts := t\<rparr>)))"

definition change_ids :: "(nat \<Rightarrow> uuid) \<Rightarrow> nat \<Rightarrow> uuid \<times> uuid \<times> uuid" where
  "change_ids ids k = (ids (2 + 3 * k), ids (3 + 3 * k), ids (4 + 3 * k))"

definition commit_mutation ::
    "command_env \<Rightarrow> (nat \<Rightarrow> uuid) \<Rightarrow> timestamp \<Rightarrow> database \<Rightarrow> authorized_command \<Rightarrow> mutation
     \<Rightarrow> (command_receipt \<times> database) outcome" where
  "commit_mutation env ids now s command mutation =
     (let pf = ce_platform env; actor = ac_actor command; correlation = ids 1 in
      rbind (parse_uuid pf (ca_tenant_id actor)) (\<lambda>tenant.
      rbind (parse_uuid pf (ca_principal_id actor)) (\<lambda>who.
      if mu_accepted mutation \<and> mu_run_id mutation = None then Inl (unavailable ''DURABLE_RUN_REQUIRED'')
      else
      rbind (rfold (\<lambda>(k, change) s.
                rbind (record_change env (change_ids ids k) now s actor (ac_operation command) change correlation)
                  (\<lambda>(_, s'). Inr s'))
              (enumerate 0 (mu_changes mutation)) s) (\<lambda>s1.
      let receipt = \<lparr> cr_command_id = resource_id_of pf (ids 0),
            cr_state = (if mu_accepted mutation then ReceiptAccepted else ReceiptSucceeded),
            cr_resource = Some (mu_primary mutation),
            cr_run_id = map_option (resource_id_of pf) (mu_run_id mutation),
            cr_effect_id = map_option (resource_id_of pf) (mu_effect_id mutation),
            cr_correlation_id = resource_id_of pf correlation, cr_accepted_at = now \<rparr>;
          val = ser_receipt pf receipt
      in if \<not> ce_catalog env ''CommandReceipt'' val then Inl (unavailable ''RECEIPT_INTEGRITY'')
      else
      rbind (store_receipt now \<lparr> cp_tenant = tenant, cp_principal_id = who,
               cp_operation = ac_operation command, cp_idempotency_key = ac_idempotency_key command,
               cp_fingerprint = ac_fingerprint command, cp_command_id = ids 0, cp_receipt = val,
               cp_expires_at = now + 24 * seconds 3600 \<rparr> s1) (\<lambda>s2.
      Inr (receipt, s2))))))"

definition MAX_PACKAGE_BYTES :: nat where
  "MAX_PACKAGE_BYTES = 33554432"

text \<open>Containment of a package whose bytes no longer match: only proven corruption is quarantined.\<close>

definition quarantine_row ::
    "command_env \<Rightarrow> (nat \<Rightarrow> uuid) \<Rightarrow> timestamp \<Rightarrow> command_actor \<Rightarrow> uuid \<Rightarrow> artifact_row \<Rightarrow> database
     \<Rightarrow> database outcome" where
  "quarantine_row env ids now actor tenant row s =
     (let pf = ce_platform env; i = af_id row in
      rbind (ce_get_bounded env (af_storage_key row) MAX_PACKAGE_BYTES) (\<lambda>bytes.
      if digest_bytes pf bytes = af_digest row \<and> int (length bytes) = af_size_bytes row then Inr s
      else
      rbind (sql (update_rows (\<lambda>a. artifact_key a = (tenant, i))
               (\<lambda>a. a\<lparr>af_state := ''QUARANTINED'', af_version := af_version a + 1\<rparr>)
               (\<lambda>a. in_i32 (af_version a)) artifact_ok (tb_artifacts s))) (\<lambda>t.
      rbind (parse_uuid pf (ca_principal_id actor)) (\<lambda>who.
      rbind (insert_audit \<lparr> au_tenant = tenant, au_id = ids 1, au_principal_id = who,
               au_action = ''artifact.quarantine'', au_resource_type = ''Artifact'', au_resource_id = i,
               au_correlation_id = ids 0 \<rparr> (s\<lparr>tb_artifacts := t\<rparr>)) (\<lambda>s2.
      insert_outbox (new_event now tenant (ids 2) i (af_version row + 1) ''artifact.quarantine''
        (JArr []) ''Artifact'' who (ids 0)) s2)))))"

definition quarantine_corrupt_artifact ::
    "command_env \<Rightarrow> (nat \<Rightarrow> uuid) \<Rightarrow> timestamp \<Rightarrow> database \<Rightarrow> authorized_command \<Rightarrow> artifact_ref
     \<Rightarrow> database outcome" where
  "quarantine_corrupt_artifact env ids now s command reference =
     (let pf = ce_platform env; actor = ac_actor command in
      rbind (begin_actor pf s actor) (\<lambda>_.
      rbind (authorize_command (ce_cedar env) pf s command) (\<lambda>_.
      rbind (parse_uuid pf (ca_tenant_id actor)) (\<lambda>tenant.
      if ar_tenant_id reference \<noteq> ca_tenant_id actor then Inl not_found
      else
      rbind (parse_uuid pf (ar_artifact_id reference)) (\<lambda>i.
      rfold (quarantine_row env ids now actor tenant)
        (filter (\<lambda>a. artifact_key a = (tenant, i) \<and> af_digest a = ar_digest reference
             \<and> af_state a = ''ACTIVE'' \<and> af_size_bytes a \<le> int MAX_PACKAGE_BYTES) (tb_artifacts s)) s)))))"

text \<open>
  The draws of one execution: its handler reads the odd positions of \<open>ids\<close>, the pipeline the even ones.
\<close>

definition own_ids :: "(nat \<Rightarrow> uuid) \<Rightarrow> nat \<Rightarrow> uuid" where
  "own_ids ids n = ids (2 * n)"

definition handler_ids :: "(nat \<Rightarrow> uuid) \<Rightarrow> nat \<Rightarrow> uuid" where
  "handler_ids ids n = ids (2 * n + 1)"

type_synonym handler =
  "(nat \<Rightarrow> uuid) \<Rightarrow> timestamp \<Rightarrow> database \<Rightarrow> authorized_command \<Rightarrow> (mutation \<times> database) outcome"

definition execute ::
    "command_env \<Rightarrow> handler \<Rightarrow> (nat \<Rightarrow> uuid) \<Rightarrow> timestamp \<Rightarrow> database \<Rightarrow> authorized_command
     \<Rightarrow> command_receipt outcome \<times> database" where
  "execute env handle ids now s command =
     (case admit env now s command of
        Inl e \<Rightarrow> (Inl e, s)
      | Inr (Some receipt) \<Rightarrow> (Inr receipt, s)
      | Inr None \<Rightarrow>
          (case handle (handler_ids ids) now s command of
             Inl e \<Rightarrow>
               (case cf_integrity_reference e of
                  None \<Rightarrow> (Inl e, s)
                | Some reference \<Rightarrow>
                    (case quarantine_corrupt_artifact env (own_ids ids) now s command reference of
                       Inl e' \<Rightarrow> (Inl e', s)
                     | Inr s' \<Rightarrow> (Inl e, s')))
           | Inr (mutation, s1) \<Rightarrow>
               (case commit_mutation env (own_ids ids) now s1 command mutation of
                  Inl e \<Rightarrow> (Inl e, s)
                | Inr (receipt, s2) \<Rightarrow> (Inr receipt, s2))))"

section \<open>What a projection writes\<close>

lemma persist_artifact_Inr:
  assumes "persist_artifact env i now s actor bytes content_type cls = Inr (r, s')"
  obtains a tenant where "s' = s\<lparr>tb_artifacts := tb_artifacts s @ [a]\<rparr>"
    "parse_uuid (ce_platform env) (ca_tenant_id actor) = Inr tenant" "artifact_key a = (tenant, i)"
    "row_at artifact_key (tenant, i) (tb_artifacts s) = None"
    "af_classification a = classification_as_str cls" "af_state a = ''ACTIVE''"
    "af_digest a = digest_bytes (ce_platform env) bytes"
    "ar_classification r = cls" "ar_artifact_id r = pf_uuid_show (ce_platform env) i"
    "ar_tenant_id r = ca_tenant_id actor" "ar_digest r = af_digest a"
proof -
  let ?pf = "ce_platform env"
  from assms obtain tenant who where t: "parse_uuid ?pf (ca_tenant_id actor) = Inr tenant"
      "parse_uuid ?pf (ca_principal_id actor) = Inr who"
    by (auto simp: persist_artifact_def Let_def rbind_Inr_iff split: if_splits)
  define a where "a = \<lparr> af_tenant = tenant, af_id = i, af_digest = digest_bytes ?pf bytes,
      af_schema_version = ''1.0.0'', af_classification = classification_as_str cls,
      af_content_type = content_type, af_size_bytes = int (length bytes),
      af_storage_key = ca_tenant_id actor @ ''/'' @ pf_uuid_show ?pf i @ ''/'' @
        trim_start_matches ''sha256:'' (digest_bytes ?pf bytes),
      af_state = ''ACTIVE'', af_creator_id = who, af_legal_hold = False, af_created_at = now, af_version = 1 \<rparr>"
  from assms t have w: "s' = s\<lparr>tb_artifacts := tb_artifacts s @ [a]\<rparr>"
      "\<forall>a' \<in> set (tb_artifacts s). artifact_key a' \<noteq> artifact_key a"
      "ar_classification r = cls" "ar_artifact_id r = pf_uuid_show ?pf i"
      "ar_tenant_id r = ca_tenant_id actor" "ar_digest r = digest_bytes ?pf bytes"
    by (auto simp: persist_artifact_def Let_def rbind_Inr_iff sql_Inr_iff insert_row_Inr_iff a_def
        split: if_splits)
  then have "row_at artifact_key (tenant, i) (tb_artifacts s) = None"
    by (auto simp: row_at_None_iff a_def)
  with w t show thesis by (intro that [of a tenant]) (simp_all add: a_def)
qed

lemma record_lineage_Inr:
  assumes "record_lineage tenant derived source s = Inr s'"
  shows "\<exists>l. s' = s\<lparr>tb_lineage := l\<rparr> \<and> set (tb_lineage s) \<subseteq> set l
    \<and> \<lparr> ln_tenant = tenant, ln_source_id = source, ln_derived_id = derived \<rparr> \<in> set l"
proof -
  from assms obtain l where "s' = s\<lparr>tb_lineage := l\<rparr>" and
    "insert_or_ignore (\<lambda>l. ln_source_id l \<noteq> ln_derived_id l) (\<lambda>l l'. l' = l)
       (row_at artifact_key (tenant, source) (tb_artifacts s) \<noteq> None
        \<and> row_at artifact_key (tenant, derived) (tb_artifacts s) \<noteq> None)
       \<lparr> ln_tenant = tenant, ln_source_id = source, ln_derived_id = derived \<rparr> (tb_lineage s) = Inr l"
    by (auto simp: record_lineage_def rbind_Inr_iff sql_Inr_iff)
  then show ?thesis
    by (intro exI [of _ l]) (auto simp: insert_or_ignore_def insert_row_Inr_iff list_ex_iff split: if_splits)
qed

lemma rfold_lineage:
  assumes "rfold (record_lineage tenant derived) is s = Inr s'"
  shows "\<exists>l. s' = s\<lparr>tb_lineage := l\<rparr> \<and> set (tb_lineage s) \<subseteq> set l
    \<and> (\<forall>i \<in> set is. \<lparr> ln_tenant = tenant, ln_source_id = i, ln_derived_id = derived \<rparr> \<in> set l)"
  using assms
proof (induction "is" arbitrary: s)
  case Nil
  then show ?case by (intro exI [of _ "tb_lineage s"]) simp
next
  case (Cons i "is")
  then obtain s1 where "record_lineage tenant derived i s = Inr s1"
    and rest: "rfold (record_lineage tenant derived) is s1 = Inr s'"
    by (auto simp: rbind_Inr_iff)
  from record_lineage_Inr [OF this(1)] obtain l where
    "s1 = s\<lparr>tb_lineage := l\<rparr>" "set (tb_lineage s) \<subseteq> set l"
    "\<lparr> ln_tenant = tenant, ln_source_id = i, ln_derived_id = derived \<rparr> \<in> set l" by blast
  with Cons.IH [OF rest] show ?case by auto
qed

lemma raise_classification_Inr_iff:
  "raise_classification s tenant i cls = Inr cls' \<longleftrightarrow>
     (\<exists>a c. row_at artifact_key (tenant, i) (tb_artifacts s) = Some a
        \<and> de_classification (JStr (af_classification a)) = Some c \<and> cls' = max cls c)"
  by (auto simp: raise_classification_def rbind_Inr_iff ok_or_Inr_iff)

lemma rfold_raise:
  assumes "rfold (raise_classification s tenant) is cls = Inr cls'"
  shows "cls \<le> cls' \<and> (\<forall>i \<in> set is. \<exists>a c. row_at artifact_key (tenant, i) (tb_artifacts s) = Some a
    \<and> de_classification (JStr (af_classification a)) = Some c \<and> c \<le> cls')"
  using assms
proof (induction "is" arbitrary: cls)
  case Nil
  then show ?case by simp
next
  case (Cons i "is")
  then obtain a c where "row_at artifact_key (tenant, i) (tb_artifacts s) = Some a"
    "de_classification (JStr (af_classification a)) = Some c"
    and rest: "rfold (raise_classification s tenant) is (max cls c) = Inr cls'"
    by (auto simp: rbind_Inr_iff raise_classification_Inr_iff)
  with Cons.IH [OF rest] show ?case by auto
qed

lemma source_ids_Inr:
  assumes "source_ids pf actor change sources = Inr ids"
  shows "set (pc_source_artifacts change) \<subseteq> set ids
    \<and> (\<forall>src \<in> set sources. ar_tenant_id src = ca_tenant_id actor
         \<and> (\<exists>i \<in> set ids. parse_uuid pf (ar_artifact_id src) = Inr i))"
proof -
  let ?f = "\<lambda>source ids. if ar_tenant_id source \<noteq> ca_tenant_id actor then Inl not_found
         else rbind (parse_uuid pf (ar_artifact_id source)) (\<lambda>i. Inr (ids @ [i]))"
  have "set b \<subseteq> set b' \<and> (\<forall>src \<in> set xs. ar_tenant_id src = ca_tenant_id actor
         \<and> (\<exists>i \<in> set b'. parse_uuid pf (ar_artifact_id src) = Inr i))"
    if "rfold ?f xs b = Inr b'" for xs b b'
    using that
  proof (induction xs arbitrary: b)
    case (Cons x xs)
    then obtain i where "ar_tenant_id x = ca_tenant_id actor" "parse_uuid pf (ar_artifact_id x) = Inr i"
      and rest: "rfold ?f xs (b @ [i]) = Inr b'"
      by (auto simp: rbind_Inr_iff split: if_splits)
    with Cons.IH [OF rest] show ?case by auto
  qed simp
  note step = this
  from assms obtain b where b: "rfold ?f sources (pc_source_artifacts change) = Inr b" "ids = sort (remdups b)"
    by (auto simp: source_ids_def rbind_Inr_iff)
  from step [OF b(1)] b(2) show ?thesis by simp
qed

lemma fold_max_ge: "(x :: 'a :: linorder) \<le> fold max xs x \<and> (\<forall>y \<in> set xs. y \<le> fold max xs x)"
proof (induction xs arbitrary: x)
  case (Cons y xs)
  from Cons.IH [of "max y x"] show ?case by auto
qed simp

lemma insert_projection_Inr:
  "insert_projection p s = Inr s' \<Longrightarrow> s' = s\<lparr>tb_projections := tb_projections s @ [p]\<rparr> \<and> projection_ok p
     \<and> (\<forall>q \<in> set (tb_projections s). projection_key q \<noteq> projection_key p)"
  by (auto simp: insert_projection_def rbind_Inr_iff sql_Inr_iff insert_row_Inr_iff)

text \<open>A projection adds one artifact and one projection row that names it, and lineage.\<close>

lemma write_projection_Inr:
  assumes "write_projection env i now s actor change = Inr (r, s')" and "uuid_text_ok (ce_platform env)"
  obtains tenant a l p ids where
    "s' = s\<lparr>tb_artifacts := tb_artifacts s @ [a], tb_lineage := l, tb_projections := tb_projections s @ [p]\<rparr>"
    "parse_uuid (ce_platform env) (ca_tenant_id actor) = Inr tenant" "artifact_key a = (tenant, i)"
    "af_state a = ''ACTIVE''" "af_classification a = classification_as_str (ar_classification r)"
    "projection_key p = (tenant, rr_resource_type (pc_resource change), rr_resource_id (pc_resource change),
       rr_version (pc_resource change))" "rp_artifact_id p = i" "0 < rp_version p"
    "row_at projection_key (projection_key p) (tb_projections s) = None"
    "source_ids (ce_platform env) actor change (projection_sources (pc_value change)) = Inr ids"
    "rfold (raise_classification s tenant) ids
       (fold max (map ar_classification (projection_sources (pc_value change))) Internal) = Inr (ar_classification r)"
    "\<forall>j \<in> set ids. \<lparr> ln_tenant = tenant, ln_source_id = j, ln_derived_id = i \<rparr> \<in> set l"
    "set (tb_lineage s) \<subseteq> set l" "ar_artifact_id r = pf_uuid_show (ce_platform env) i"
proof -
  let ?pf = "ce_platform env"
  let ?sources = "projection_sources (pc_value change)"
  from assms(1) obtain bytes ids tenant cls s1 derived s2 where
    ids: "source_ids ?pf actor change ?sources = Inr ids"
    and t: "parse_uuid ?pf (ca_tenant_id actor) = Inr tenant"
    and cls: "rfold (raise_classification s tenant) ids (fold max (map ar_classification ?sources) Internal) = Inr cls"
    and a: "persist_artifact env i now s actor bytes ''application/json'' cls = Inr (r, s1)"
    and d: "parse_uuid ?pf (ar_artifact_id r) = Inr derived"
    and l: "rfold (record_lineage tenant derived) ids s1 = Inr s2"
    and pp: "insert_projection \<lparr> rp_tenant = tenant, rp_resource_type = rr_resource_type (pc_resource change),
         rp_resource_id = rr_resource_id (pc_resource change), rp_version = rr_version (pc_resource change),
         rp_artifact_id = derived, rp_search_label = take_chars 512 (pc_label change),
         rp_created_at = first_created s2 now tenant (rr_resource_type (pc_resource change))
           (rr_resource_id (pc_resource change)) \<rparr> s2 = Inr s'"
    unfolding write_projection_def Let_def by (auto simp: rbind_Inr_iff ok_or_Inr_iff split: if_splits)
  define p where "p = \<lparr> rp_tenant = tenant, rp_resource_type = rr_resource_type (pc_resource change),
         rp_resource_id = rr_resource_id (pc_resource change), rp_version = rr_version (pc_resource change),
         rp_artifact_id = derived, rp_search_label = take_chars 512 (pc_label change),
         rp_created_at = first_created s2 now tenant (rr_resource_type (pc_resource change))
           (rr_resource_id (pc_resource change)) \<rparr>"
  note pi = insert_projection_Inr [OF pp, folded p_def]
  have p: "s' = s2\<lparr>tb_projections := tb_projections s2 @ [p]\<rparr>" "0 < rp_version p"
      "projection_key p = (tenant, rr_resource_type (pc_resource change), rr_resource_id (pc_resource change),
         rr_version (pc_resource change))" "rp_artifact_id p = derived"
      "\<forall>p' \<in> set (tb_projections s2). projection_key p' \<noteq> projection_key p"
    using pi by (simp_all add: projection_ok_def p_def)
  from rfold_lineage [OF l] obtain ls where ls: "s2 = s1\<lparr>tb_lineage := ls\<rparr>" "set (tb_lineage s1) \<subseteq> set ls"
      "\<forall>j \<in> set ids. \<lparr> ln_tenant = tenant, ln_source_id = j, ln_derived_id = derived \<rparr> \<in> set ls" by blast
  from a show thesis
  proof (rule persist_artifact_Inr)
    fix x tenant'
    assume x: "s1 = s\<lparr>tb_artifacts := tb_artifacts s @ [x]\<rparr>"
      "parse_uuid ?pf (ca_tenant_id actor) = Inr tenant'" "artifact_key x = (tenant', i)"
      "af_classification x = classification_as_str cls" "af_state x = ''ACTIVE''"
      "ar_classification r = cls" "ar_artifact_id r = pf_uuid_show ?pf i"
    from x(2) t have tt: "tenant' = tenant" by simp
    from d x(7) assms(2) have di: "derived = i" by (simp add: parse_uuid_show)
    show thesis
    proof (rule that)
      show "s' = s\<lparr>tb_artifacts := tb_artifacts s @ [x], tb_lineage := ls, tb_projections := tb_projections s @ [p]\<rparr>"
        by (simp add: p(1) ls(1) x(1))
      show "row_at projection_key (projection_key p) (tb_projections s) = None"
        using p(5) ls(1) x(1) by (force simp: row_at_None_iff)
      show "rfold (raise_classification s tenant) ids
          (fold max (map ar_classification ?sources) Internal) = Inr (ar_classification r)"
        using cls x(6) by simp
    qed (use t x p ls ids tt di in auto)
  qed
qed

section \<open>What a committed change leaves behind\<close>

text \<open>The three rows of one change: its projection, its audit entry and its event.\<close>

definition records_change ::
    "platform \<Rightarrow> uuid \<Rightarrow> uuid \<Rightarrow> string \<Rightarrow> uuid \<Rightarrow> projection_change \<Rightarrow> projection_row \<times> audit_row \<times> outbox_row \<Rightarrow> bool" where
  "records_change pf tenant who action correlation change = (\<lambda>(p, a, e).
     projection_key p = (tenant, rr_resource_type (pc_resource change), rr_resource_id (pc_resource change),
       rr_version (pc_resource change))
     \<and> (au_tenant a, au_principal_id a, au_action a, au_resource_type a, au_correlation_id a)
       = (tenant, who, action, rr_resource_type (pc_resource change), correlation)
     \<and> (ob_tenant e, ob_principal_id e, ob_event_name e, ob_aggregate_type e, ob_aggregate_version e, ob_correlation_id e)
       = (tenant, Some who, action, rr_resource_type (pc_resource change), rr_version (pc_resource change), Some correlation)
     \<and> ob_delivery_status e = ''PENDING'' \<and> ob_delivery_attempts e = 0 \<and> ob_lease_expires_at e = None
     \<and> parse_uuid pf (rr_resource_id (pc_resource change)) = Inr (ob_aggregate_id e)
     \<and> au_resource_id a = ob_aggregate_id e)"

lemma insert_audit_Inr: "insert_audit a s = Inr s' \<Longrightarrow> s' = s\<lparr>tb_audit := tb_audit s @ [a]\<rparr>"
  by (auto simp: insert_audit_def rbind_Inr_iff sql_Inr_iff insert_row_Inr_iff)

lemma insert_outbox_Inr:
  "insert_outbox e s = Inr s' \<Longrightarrow> s' = s\<lparr>tb_outbox := tb_outbox s @ [e\<lparr>ob_stream_sequence := tb_outbox_sequence s + 1\<rparr>],
     tb_outbox_sequence := tb_outbox_sequence s + 1\<rparr>"
  by (auto simp: insert_outbox_def Let_def rbind_Inr_iff sql_Inr_iff insert_row_Inr_iff)

text \<open>A database that grew by the records of some changes and nothing else.\<close>

definition grown :: "database \<Rightarrow> (projection_row \<times> audit_row \<times> outbox_row) list \<Rightarrow> database \<Rightarrow> bool" where
  "grown s rs s' \<longleftrightarrow>
     (\<exists>arts l. s' = s\<lparr>tb_artifacts := tb_artifacts s @ arts, tb_lineage := l,
        tb_projections := tb_projections s @ map fst rs, tb_audit := tb_audit s @ map (fst \<circ> snd) rs,
        tb_outbox := tb_outbox s @ map (snd \<circ> snd) rs,
        tb_outbox_sequence := tb_outbox_sequence s + int (length rs)\<rparr>)"

lemma grown_Nil: "grown s [] s"
  unfolding grown_def by (intro exI [of _ "[]"] exI [of _ "tb_lineage s"]) simp

lemma grown_Cons: "grown s [r] s1 \<Longrightarrow> grown s1 rs s' \<Longrightarrow> grown s (r # rs) s'"
proof -
  assume "grown s [r] s1" and "grown s1 rs s'"
  then obtain arts l arts' l' where
    "s1 = s\<lparr>tb_artifacts := tb_artifacts s @ arts, tb_lineage := l,
        tb_projections := tb_projections s @ map fst [r], tb_audit := tb_audit s @ map (fst \<circ> snd) [r],
        tb_outbox := tb_outbox s @ map (snd \<circ> snd) [r],
        tb_outbox_sequence := tb_outbox_sequence s + int (length [r])\<rparr>"
    "s' = s1\<lparr>tb_artifacts := tb_artifacts s1 @ arts', tb_lineage := l',
        tb_projections := tb_projections s1 @ map fst rs, tb_audit := tb_audit s1 @ map (fst \<circ> snd) rs,
        tb_outbox := tb_outbox s1 @ map (snd \<circ> snd) rs,
        tb_outbox_sequence := tb_outbox_sequence s1 + int (length rs)\<rparr>"
    unfolding grown_def by blast
  then show ?thesis
    unfolding grown_def by (intro exI [of _ "arts @ arts'"] exI [of _ l']) simp
qed

lemma record_change_Inr:
  assumes "record_change env ids now s actor action change correlation = Inr (r, s')"
    and "uuid_text_ok (ce_platform env)"
    and "parse_uuid (ce_platform env) (ca_tenant_id actor) = Inr tenant"
    and "parse_uuid (ce_platform env) (ca_principal_id actor) = Inr who"
  shows "\<exists>x. grown s [x] s' \<and> records_change (ce_platform env) tenant who action correlation change x"
proof -
  let ?pf = "ce_platform env"
  obtain i j k where ids: "ids = (i, j, k)" by (cases ids)
  from assms(1,3,4) obtain s1 s2 aggregate where w: "write_projection env i now s actor change = Inr (r, s1)"
    and g: "parse_uuid ?pf (rr_resource_id (pc_resource change)) = Inr aggregate"
    and a: "insert_audit \<lparr> au_tenant = tenant, au_id = j, au_principal_id = who, au_action = action,
        au_resource_type = rr_resource_type (pc_resource change), au_resource_id = aggregate,
        au_correlation_id = correlation \<rparr> s1 = Inr s2"
    and e: "insert_outbox (new_event now tenant k aggregate (rr_version (pc_resource change)) action
        (JArr [ser_artifact_ref r]) (rr_resource_type (pc_resource change)) who correlation) s2 = Inr s'"
    unfolding record_change_def ids by (auto simp: Let_def rbind_Inr_iff)
  from w assms(2) show ?thesis
  proof (rule write_projection_Inr)
    fix t art l p src
    assume x: "s1 = s\<lparr>tb_artifacts := tb_artifacts s @ [art], tb_lineage := l, tb_projections := tb_projections s @ [p]\<rparr>"
      "parse_uuid ?pf (ca_tenant_id actor) = Inr t"
      "projection_key p = (t, rr_resource_type (pc_resource change), rr_resource_id (pc_resource change),
         rr_version (pc_resource change))"
    let ?a = "\<lparr> au_tenant = tenant, au_id = j, au_principal_id = who, au_action = action,
        au_resource_type = rr_resource_type (pc_resource change), au_resource_id = aggregate,
        au_correlation_id = correlation \<rparr>"
    let ?e = "new_event now tenant k aggregate (rr_version (pc_resource change)) action
        (JArr [ser_artifact_ref r]) (rr_resource_type (pc_resource change)) who correlation"
    let ?e' = "?e\<lparr>ob_stream_sequence := tb_outbox_sequence s + 1\<rparr>"
    from x(2) assms(3) have "t = tenant" by simp
    with x(3) g have "records_change ?pf tenant who action correlation change (p, ?a, ?e')"
      by (simp add: records_change_def new_event_def)
    moreover have "grown s [(p, ?a, ?e')] s'"
      unfolding grown_def insert_outbox_Inr [OF e] insert_audit_Inr [OF a] x(1)
      by (intro exI [of _ "[art]"] exI [of _ l]) simp
    ultimately show ?thesis by blast
  qed
qed

lemma rfold_record_changes:
  assumes "rfold (\<lambda>(k, change) s. rbind (record_change env (f k) now s actor action change correlation)
             (\<lambda>(_, s'). Inr s')) (enumerate n changes) s = Inr s'"
    and "uuid_text_ok (ce_platform env)"
    and "parse_uuid (ce_platform env) (ca_tenant_id actor) = Inr tenant"
    and "parse_uuid (ce_platform env) (ca_principal_id actor) = Inr who"
  shows "\<exists>rs. grown s rs s' \<and> list_all2 (records_change (ce_platform env) tenant who action correlation) changes rs"
  using assms(1)
proof (induction changes arbitrary: n s)
  case Nil
  then show ?case by (auto intro: grown_Nil)
next
  case (Cons change changes)
  then obtain r s1 where c: "record_change env (f n) now s actor action change correlation = Inr (r, s1)"
    and rest: "rfold (\<lambda>(k, change) s. rbind (record_change env (f k) now s actor action change correlation)
             (\<lambda>(_, s'). Inr s')) (enumerate (Suc n) changes) s1 = Inr s'"
    by (auto simp: rbind_Inr_iff)
  from record_change_Inr [OF c assms(2-4)] obtain x where "grown s [x] s1"
    "records_change (ce_platform env) tenant who action correlation change x" by blast
  moreover from Cons.IH [OF rest] obtain rs where "grown s1 rs s'"
    "list_all2 (records_change (ce_platform env) tenant who action correlation) changes rs" by blast
  ultimately show ?case by (intro exI [of _ "x # rs"]) (simp add: grown_Cons)
qed

lemma store_receipt_Inr:
  assumes "store_receipt now r s = Inr s'"
  shows "\<exists>t. s' = s\<lparr>tb_receipts := t\<rparr> \<and> receipt_ok r
    \<and> (\<forall>k. k \<noteq> receipt_key r \<longrightarrow> row_at receipt_key k t = row_at receipt_key k (tb_receipts s))
    \<and> (\<forall>q. row_at receipt_key (receipt_key r) (tb_receipts s) = Some q \<longrightarrow> cp_expires_at q \<le> now
        \<longrightarrow> row_at receipt_key (receipt_key r) t = Some r)
    \<and> (row_at receipt_key (receipt_key r) (tb_receipts s) = None \<longrightarrow> row_at receipt_key (receipt_key r) t = Some r)
    \<and> (unique_key receipt_key (tb_receipts s) \<longrightarrow> unique_key receipt_key t)"
proof (cases "row_at receipt_key (receipt_key r) (tb_receipts s)")
  case None
  with assms show ?thesis
    by (auto simp: store_receipt_def rbind_Inr_iff sql_Inr_iff insert_row_Inr_iff row_at_append unique_key_snoc
        split: option.splits)
next
  case (Some q)
  let ?t = "update_where (\<lambda>q. receipt_key q = receipt_key r \<and> cp_expires_at q \<le> now) (\<lambda>_. r) (tb_receipts s)"
  have row: "row_at receipt_key k (update_where (\<lambda>q. receipt_key q = receipt_key r \<and> cp_expires_at q \<le> now) (\<lambda>_. r) t)
      = map_option (\<lambda>q. if k = receipt_key r \<and> cp_expires_at q \<le> now then r else q) (row_at receipt_key k t)" for k t
    by (induction t) auto
  have "map receipt_key (update_where (\<lambda>q. receipt_key q = receipt_key r \<and> cp_expires_at q \<le> now) (\<lambda>_. r) t)
      = map receipt_key t" for t
    by (induction t) auto
  then have u: "unique_key receipt_key ?t \<longleftrightarrow> unique_key receipt_key (tb_receipts s)"
    by (simp only: unique_key_def)
  from assms Some have t: "s' = s\<lparr>tb_receipts := ?t\<rparr>" "receipt_ok r"
    by (simp_all add: store_receipt_def rbind_Inr_iff sql_Inr_iff update_rows_Inr_iff split: if_splits)
  show ?thesis
    by (rule exI [of _ ?t]) (use t u Some in \<open>simp add: row option.map_ident del: prod.inject\<close>)
qed

lemma commit_mutation_Inr:
  assumes "commit_mutation env ids now s command m = Inr (r, s')" and "uuid_text_ok (ce_platform env)"
  obtains tenant who rs s1 where
    "parse_uuid (ce_platform env) (ca_tenant_id (ac_actor command)) = Inr tenant"
    "parse_uuid (ce_platform env) (ca_principal_id (ac_actor command)) = Inr who"
    "grown s rs s1"
    "list_all2 (records_change (ce_platform env) tenant who (ac_operation command) (ids 1)) (mu_changes m) rs"
    "ce_catalog env ''CommandReceipt'' (ser_receipt (ce_platform env) r)"
    "store_receipt now \<lparr> cp_tenant = tenant, cp_principal_id = who,
               cp_operation = ac_operation command, cp_idempotency_key = ac_idempotency_key command,
               cp_fingerprint = ac_fingerprint command, cp_command_id = ids 0,
               cp_receipt = ser_receipt (ce_platform env) r,
               cp_expires_at = now + 24 * seconds 3600 \<rparr> s1 = Inr s'"
    "cr_resource r = Some (mu_primary m)" "cr_accepted_at r = now" "cr_command_id r = pf_uuid_show (ce_platform env) (ids 0)"
    "cr_correlation_id r = pf_uuid_show (ce_platform env) (ids 1)"
    "cr_run_id r = map_option (pf_uuid_show (ce_platform env)) (mu_run_id m)"
    "cr_effect_id r = map_option (pf_uuid_show (ce_platform env)) (mu_effect_id m)"
proof -
  let ?pf = "ce_platform env" and ?actor = "ac_actor command"
  from assms(1) obtain tenant who where t: "parse_uuid ?pf (ca_tenant_id ?actor) = Inr tenant"
    and w: "parse_uuid ?pf (ca_principal_id ?actor) = Inr who"
    by (auto simp: commit_mutation_def Let_def rbind_Inr_iff)
  note c = assms(1) [unfolded commit_mutation_def Let_def t w rbind_simps]
  from c obtain s1 where f: "rfold (\<lambda>(k, change) s.
                rbind (record_change env (change_ids ids k) now s ?actor (ac_operation command) change (ids 1))
                  (\<lambda>(_, s'). Inr s')) (enumerate 0 (mu_changes m)) s = Inr s1"
    by (auto simp: rbind_Inr_iff split: if_splits)
  from rfold_record_changes [OF f assms(2) t w] obtain rs where rs: "grown s rs s1"
    "list_all2 (records_change ?pf tenant who (ac_operation command) (ids 1)) (mu_changes m) rs" by blast
  from c f show thesis
    by (intro that [OF t w rs]) (auto simp: rbind_Inr_iff resource_id_of_def [abs_def] split: if_splits)
qed

section \<open>Replay of a command\<close>

text \<open>What the sources rely on: a timestamp is read back from its text.\<close>

definition time_text_ok :: "platform \<Rightarrow> bool" where
  "time_text_ok pf \<longleftrightarrow> (\<forall>t. 0 \<le> t \<longrightarrow> pf_time_parse pf (pf_time_show pf t) = Some t)"

definition receipt_readable :: "command_receipt \<Rightarrow> bool" where
  "receipt_readable r \<longleftrightarrow> opaque_ok (cr_command_id r) \<and> opaque_ok (cr_correlation_id r) \<and> 0 \<le> cr_accepted_at r
     \<and> pred_option resource_ref_ok (cr_resource r) \<and> pred_option opaque_ok (cr_run_id r)
     \<and> pred_option opaque_ok (cr_effect_id r)"

lemma de_option_ser:
  "pred_option (\<lambda>a. de (f a) = Some a \<and> f a \<noteq> JNull) x \<Longrightarrow> de_option de (ser_option f x) = Some x"
proof (cases x)
  case (Some a)
  assume "pred_option (\<lambda>a. de (f a) = Some a \<and> f a \<noteq> JNull) x"
  with Some show ?thesis by (cases "f a") (simp_all add: ser_option_def)
qed (simp add: ser_option_def)

lemma receipt_roundtrip:
  assumes "time_text_ok pf" and "receipt_readable r"
  shows "de_receipt pf (ser_receipt pf r) = Some r"
proof -
  have "de_option de_resource_ref (ser_option ser_resource_ref (cr_resource r)) = Some (cr_resource r)"
    "de_option (de_opaque ''ResourceId'') (ser_option JStr (cr_run_id r)) = Some (cr_run_id r)"
    "de_option (de_opaque ''ResourceId'') (ser_option JStr (cr_effect_id r)) = Some (cr_effect_id r)"
    using assms(2)
    by (auto simp: receipt_readable_def resource_ref_roundtrip ser_resource_ref_def [symmetric]
        intro!: de_option_ser elim!: option.pred_mono_strong)
      (simp_all add: ser_resource_ref_def)
  moreover have "de_receipt_state (JStr (case cr_state r of ReceiptAccepted \<Rightarrow> ''ACCEPTED''
      | ReceiptSucceeded \<Rightarrow> ''SUCCEEDED'')) = Some (cr_state r)"
    by (cases "cr_state r") (simp_all add: de_receipt_state_def)
  moreover have "de_time pf (ser_time pf (cr_accepted_at r)) = Some (cr_accepted_at r)"
    using assms by (simp add: de_time_def ser_time_def time_text_ok_def receipt_readable_def)
  ultimately show ?thesis
    using assms(2)
    by (simp add: de_receipt_def ser_receipt_def de_member_def de_opt_member_def receipt_readable_def)
qed

lemma quarantine_row_Inr:
  "quarantine_row env ids now actor tenant row s = Inr s' \<Longrightarrow> tb_receipts s' = tb_receipts s"
proof -
  assume q: "quarantine_row env ids now actor tenant row s = Inr s'"
  have "s' = s \<or> (\<exists>t a s2 e. insert_audit a (s\<lparr>tb_artifacts := t\<rparr>) = Inr s2 \<and> insert_outbox e s2 = Inr s')"
    using q unfolding quarantine_row_def Let_def rbind_Inr_iff by (auto simp: rbind_Inr_iff split: if_splits)
  then show ?thesis
  proof (elim disjE exE conjE)
    fix t a s2 e
    assume a: "insert_audit a (s\<lparr>tb_artifacts := t\<rparr>) = Inr s2" and e: "insert_outbox e s2 = Inr s'"
    show ?thesis unfolding insert_outbox_Inr [OF e] insert_audit_Inr [OF a] by simp
  qed simp
qed

lemma quarantine_keeps_receipts:
  assumes "quarantine_corrupt_artifact env ids now s command reference = Inr s'"
  shows "tb_receipts s' = tb_receipts s"
proof -
  from assms obtain tenant xs where "rfold (quarantine_row env ids now (ac_actor command) tenant) xs s = Inr s'"
    unfolding quarantine_corrupt_artifact_def Let_def by (auto simp: rbind_Inr_iff split: if_splits)
  then show ?thesis
    by (rule rfold_invariant) (simp_all add: quarantine_row_Inr)
qed

section \<open>Handlers that leave receipts alone\<close>

record execution =
  xe_ids :: "nat \<Rightarrow> uuid"
  xe_now :: timestamp
  xe_command :: authorized_command

definition run_executions :: "command_env \<Rightarrow> handler \<Rightarrow> execution list \<Rightarrow> database \<Rightarrow> database" where
  "run_executions env handle xs s =
     fold (\<lambda>x s. snd (execute env handle (xe_ids x) (xe_now x) s (xe_command x))) xs s"

lemma execute_cases:
  obtains (refused) e where "admit env now s c = Inl e" "execute env handle ids now s c = (Inl e, s)"
  | (replayed) r where "admit env now s c = Inr (Some r)" "execute env handle ids now s c = (Inr r, s)"
  | (failed) e where "admit env now s c = Inr None" "execute env handle ids now s c = (Inl e, s)"
  | (contained) e reference s' where "admit env now s c = Inr None"
      "quarantine_corrupt_artifact env (own_ids ids) now s c reference = Inr s'"
      "execute env handle ids now s c = (Inl e, s')"
  | (committed) m s1 r s' where "admit env now s c = Inr None" "handle (handler_ids ids) now s c = Inr (m, s1)"
      "commit_mutation env (own_ids ids) now s1 c m = Inr (r, s')" "execute env handle ids now s c = (Inr r, s')"
proof -
  consider (e) e where "admit env now s c = Inl e" | (r) r where "admit env now s c = Inr (Some r)"
    | (n) "admit env now s c = Inr None"
    by (metis option.exhaust obj_sumE)
  then show thesis
  proof cases
    case n
    show thesis
    proof (cases "handle (handler_ids ids) now s c")
      case (Inl e)
      show thesis
      proof (cases "cf_integrity_reference e")
        case None
        with n Inl show thesis by (intro failed [of e]) (simp_all add: execute_def)
      next
        case (Some reference)
        with n Inl show thesis
          by (cases "quarantine_corrupt_artifact env (own_ids ids) now s c reference")
            (auto simp: execute_def intro: failed contained)
      qed
    next
      case (Inr a)
      obtain m s1 where a: "a = (m, s1)" by (cases a)
      show thesis
      proof (cases "commit_mutation env (own_ids ids) now s1 c m")
        case (Inl e)
        with n a \<open>handle (handler_ids ids) now s c = Inr a\<close> show thesis by (intro failed [of e]) (simp_all add: execute_def)
      next
        case b: (Inr b)
        obtain r s' where "b = (r, s')" by (cases b)
        with n a b \<open>handle (handler_ids ids) now s c = Inr a\<close> show thesis by (intro committed [of m s1 r s']) (simp_all add: execute_def)
      qed
    qed
  qed (auto simp: execute_def intro: refused replayed)
qed

text \<open>A fresh admission: no live receipt has the key of the command.\<close>

lemma admit_None:
  assumes "admit env now s c = Inr None"
    and "parse_uuid (ce_platform env) (ca_tenant_id (ac_actor c)) = Inr tenant"
    and "parse_uuid (ce_platform env) (ca_principal_id (ac_actor c)) = Inr who"
    and "q \<in> set (tb_receipts s)"
  shows "receipt_key q \<noteq> (tenant, who, ac_operation c, ac_idempotency_key c) \<or> cp_expires_at q \<le> now"
proof -
  from assms(1-3) have "find (\<lambda>r. receipt_key r = (tenant, who, ac_operation c, ac_idempotency_key c)
      \<and> now < cp_expires_at r) (tb_receipts s) = None"
    by (auto simp: admit_def Let_def rbind_Inr_iff split: if_splits option.splits)
  with assms(4) show ?thesis by (auto simp: find_None_iff)
qed

lemma find_row_at:
  "row_at key k t = Some q \<Longrightarrow> P q \<Longrightarrow> find (\<lambda>r. key r = k \<and> P r) t = Some q"
  by (induction t) (auto split: if_splits)

text \<open>A command whose key has a live receipt is answered from it.\<close>

lemma admit_known:
  assumes "row_at receipt_key (tenant, who, ac_operation c, ac_idempotency_key c) (tb_receipts s) = Some q"
    and "now < cp_expires_at q"
    and "parse_uuid (ce_platform env) (ca_tenant_id (ac_actor c)) = Inr tenant"
    and "parse_uuid (ce_platform env) (ca_principal_id (ac_actor c)) = Inr who"
    and "ce_catalog env (schema_name (ac_operation c)) (ac_input c)"
    and "fingerprint (ce_platform env) (ac_operation c) (ac_input c) = Some (ac_fingerprint c)"
    and "is_ok (begin_actor (ce_platform env) s (ac_actor c))"
    and "is_ok (authorize_command (ce_cedar env) (ce_platform env) s c)"
  shows "admit env now s c =
    (if cp_fingerprint q \<noteq> ac_fingerprint c then Inl (conflict ''IDEMPOTENCY_CONFLICT'')
     else if \<not> ce_catalog env ''CommandReceipt'' (cp_receipt q) then Inl (unavailable ''RECEIPT_INTEGRITY'')
     else rbind (ok_or (unavailable ''RECEIPT_INTEGRITY'') (de_receipt (ce_platform env) (cp_receipt q)))
            (\<lambda>r. Inr (Some r)))"
proof -
  have "find (\<lambda>r. receipt_key r = (tenant, who, ac_operation c, ac_idempotency_key c) \<and> now < cp_expires_at r)
      (tb_receipts s) = Some q"
    using assms(1,2) by (rule find_row_at)
  moreover from assms(7,8) obtain u v where "begin_actor (ce_platform env) s (ac_actor c) = Inr u"
    "authorize_command (ce_cedar env) (ce_platform env) s c = Inr v" by (auto simp: is_ok_iff)
  ultimately show ?thesis
    unfolding admit_def Let_def using assms(3-6) by (simp del: prod.inject)
qed

lemma admit_Inr_checks:
  assumes "admit env now s c = Inr a"
  shows "ce_catalog env (schema_name (ac_operation c)) (ac_input c)"
    and "fingerprint (ce_platform env) (ac_operation c) (ac_input c) = Some (ac_fingerprint c)"
    and "\<exists>tenant who. parse_uuid (ce_platform env) (ca_tenant_id (ac_actor c)) = Inr tenant
      \<and> parse_uuid (ce_platform env) (ca_principal_id (ac_actor c)) = Inr who"
  using assms by (auto simp: admit_def Let_def rbind_Inr_iff ok_or_Inr_iff split: if_splits)

locale command_handlers =
  fixes handle :: handler
  assumes handle_keeps_receipts: "handle ids now s c = Inr (m, s') \<Longrightarrow> tb_receipts s' = tb_receipts s"
begin

lemma execute_keeps_receipt:
  assumes "row_at receipt_key k (tb_receipts s) = Some q" and "now < cp_expires_at q"
    and "uuid_text_ok (ce_platform env)"
  shows "row_at receipt_key k (tb_receipts (snd (execute env handle ids now s c))) = Some q"
proof (cases rule: execute_cases [of env now s c handle ids])
  case (contained e reference s')
  with assms(1) show ?thesis by (simp add: quarantine_keeps_receipts)
next
  case (committed m s1 r s')
  from committed(3) assms(3) show ?thesis
  proof (rule commit_mutation_Inr)
    fix tenant who rs s2
    let ?r = "\<lparr> cp_tenant = tenant, cp_principal_id = who, cp_operation = ac_operation c,
       cp_idempotency_key = ac_idempotency_key c, cp_fingerprint = ac_fingerprint c, cp_command_id = own_ids ids 0,
       cp_receipt = ser_receipt (ce_platform env) r, cp_expires_at = now + 24 * seconds 3600 \<rparr>"
    assume p: "parse_uuid (ce_platform env) (ca_tenant_id (ac_actor c)) = Inr tenant"
      "parse_uuid (ce_platform env) (ca_principal_id (ac_actor c)) = Inr who"
      and g: "grown s1 rs s2" and st: "store_receipt now ?r s2 = Inr s'"
    from g handle_keeps_receipts [OF committed(2)] have t: "tb_receipts s2 = tb_receipts s"
      by (auto simp: grown_def)
    have "q \<in> set (tb_receipts s)" "receipt_key q = k" using row_at_SomeD [OF assms(1)] by simp_all
    with admit_None [OF committed(1) p, of q] assms(2) have "k \<noteq> receipt_key ?r" by auto
    from store_receipt_Inr [OF st] obtain rows where "s' = s2\<lparr>tb_receipts := rows\<rparr>"
      and "\<forall>k. k \<noteq> receipt_key ?r \<longrightarrow> row_at receipt_key k rows = row_at receipt_key k (tb_receipts s2)"
      by blast
    with \<open>k \<noteq> receipt_key ?r\<close> assms(1) t committed(4) show ?thesis by (simp del: split_paired_All)
  qed
qed (use assms(1) in simp_all)

lemma run_keeps_receipt:
  assumes "row_at receipt_key k (tb_receipts s) = Some q" and "uuid_text_ok (ce_platform env)"
    and "\<forall>x \<in> set xs. xe_now x < cp_expires_at q"
  shows "row_at receipt_key k (tb_receipts (run_executions env handle xs s)) = Some q"
  using assms
proof (induction xs arbitrary: s)
  case (Cons x xs)
  from Cons.prems have "row_at receipt_key k (tb_receipts (snd (execute env handle (xe_ids x) (xe_now x) s (xe_command x)))) = Some q"
    by (intro execute_keeps_receipt) simp_all
  with Cons.IH Cons.prems(2,3) show ?case by (simp add: run_executions_def)
qed (simp add: run_executions_def)

lemma committed_receipt_row:
  assumes "execute env handle ids now s c = (Inr r, s1)" and "admit env now s c = Inr None"
    and "uuid_text_ok (ce_platform env)"
    and "parse_uuid (ce_platform env) (ca_tenant_id (ac_actor c)) = Inr tenant"
    and "parse_uuid (ce_platform env) (ca_principal_id (ac_actor c)) = Inr who"
  shows "\<exists>q. row_at receipt_key (tenant, who, ac_operation c, ac_idempotency_key c) (tb_receipts s1) = Some q
    \<and> cp_fingerprint q = ac_fingerprint c \<and> cp_receipt q = ser_receipt (ce_platform env) r
    \<and> cp_expires_at q = now + 24 * seconds 3600
    \<and> ce_catalog env ''CommandReceipt'' (cp_receipt q)
    \<and> opaque_ok (cr_command_id r) \<and> opaque_ok (cr_correlation_id r) \<and> cr_accepted_at r = now
    \<and> pred_option opaque_ok (cr_run_id r) \<and> pred_option opaque_ok (cr_effect_id r)"
proof (cases rule: execute_cases [of env now s c handle ids])
  case (committed m s2 r' s')
  from committed(4) assms(1) have rs: "r' = r" "s' = s1" by simp_all
  from committed(3) assms(3) show ?thesis
  proof (rule commit_mutation_Inr)
    fix tenant' who' rs s3
    let ?r = "\<lparr> cp_tenant = tenant', cp_principal_id = who', cp_operation = ac_operation c,
       cp_idempotency_key = ac_idempotency_key c, cp_fingerprint = ac_fingerprint c, cp_command_id = own_ids ids 0,
       cp_receipt = ser_receipt (ce_platform env) r', cp_expires_at = now + 24 * seconds 3600 \<rparr>"
    assume p: "parse_uuid (ce_platform env) (ca_tenant_id (ac_actor c)) = Inr tenant'"
      "parse_uuid (ce_platform env) (ca_principal_id (ac_actor c)) = Inr who'"
      and g: "grown s2 rs s3" and st: "store_receipt now ?r s3 = Inr s'"
      and x: "ce_catalog env ''CommandReceipt'' (ser_receipt (ce_platform env) r')"
      "cr_command_id r' = pf_uuid_show (ce_platform env) (own_ids ids 0)"
      "cr_correlation_id r' = pf_uuid_show (ce_platform env) (own_ids ids 1)" "cr_accepted_at r' = now"
      "cr_run_id r' = map_option (pf_uuid_show (ce_platform env)) (mu_run_id m)"
      "cr_effect_id r' = map_option (pf_uuid_show (ce_platform env)) (mu_effect_id m)"
    from g handle_keeps_receipts [OF committed(2)] have t: "tb_receipts s3 = tb_receipts s"
      by (auto simp: grown_def)
    have live: "cp_expires_at q \<le> now" if "row_at receipt_key (receipt_key ?r) (tb_receipts s3) = Some q" for q
      using row_at_SomeD [OF that] t admit_None [OF assms(2) p, of q] by auto
    have "row_at receipt_key (receipt_key ?r) (tb_receipts s') = Some ?r"
      using store_receipt_Inr [OF st] live
      by (cases "row_at receipt_key (receipt_key ?r) (tb_receipts s3)") auto
    moreover have "tenant' = tenant" "who' = who" using p assms(4,5) by simp_all
    ultimately show ?thesis
      using x rs assms(3) by (intro exI [of _ ?r]) (simp add: uuid_text_ok_def option.pred_map comp_def option.pred_True)
  qed
qed (use assms(1,2) in simp_all)

text \<open>Within a day, the same command is answered by the same receipt and does nothing more.\<close>

lemma replay:
  assumes "execute env handle ids now s c = (Inr r, s1)" and "admit env now s c = Inr None"
    and "uuid_text_ok (ce_platform env)" and "time_text_ok (ce_platform env)" and "0 \<le> now"
    and "pred_option resource_ref_ok (cr_resource r)"
    and "\<forall>x \<in> set xs. xe_now x < now + 24 * seconds 3600" and "now' < now + 24 * seconds 3600"
    and "is_ok (begin_actor (ce_platform env) (run_executions env handle xs s1) (ac_actor c))"
    and "is_ok (authorize_command (ce_cedar env) (ce_platform env) (run_executions env handle xs s1) c)"
  shows "execute env handle ids' now' (run_executions env handle xs s1) c = (Inr r, run_executions env handle xs s1)"
proof -
  let ?s = "run_executions env handle xs s1"
  note checks = admit_Inr_checks [OF assms(2)]
  from checks(3) obtain tenant who where p: "parse_uuid (ce_platform env) (ca_tenant_id (ac_actor c)) = Inr tenant"
    "parse_uuid (ce_platform env) (ca_principal_id (ac_actor c)) = Inr who" by blast
  from committed_receipt_row [OF assms(1,2,3) p] obtain q where
    q: "row_at receipt_key (tenant, who, ac_operation c, ac_idempotency_key c) (tb_receipts s1) = Some q"
      "cp_fingerprint q = ac_fingerprint c" "cp_receipt q = ser_receipt (ce_platform env) r"
      "cp_expires_at q = now + 24 * seconds 3600" "ce_catalog env ''CommandReceipt'' (cp_receipt q)"
    and rd: "receipt_readable r" using assms(5,6) by (auto simp: receipt_readable_def)
  from run_keeps_receipt [OF q(1) assms(3)] q(4) assms(7)
  have q': "row_at receipt_key (tenant, who, ac_operation c, ac_idempotency_key c) (tb_receipts ?s) = Some q" by simp
  from admit_known [OF q' _ p checks(1,2) assms(9,10), of now'] q assms(8)
    receipt_roundtrip [OF assms(4) rd]
  have "admit env now' ?s c = Inr (Some r)" by simp
  then show ?thesis by (simp add: execute_def)
qed

text \<open>Another command under the same key is refused.\<close>

lemma key_conflict:
  assumes "execute env handle ids now s c = (Inr r, s1)" and "admit env now s c = Inr None"
    and "uuid_text_ok (ce_platform env)"
    and "\<forall>x \<in> set xs. xe_now x < now + 24 * seconds 3600" and "now' < now + 24 * seconds 3600"
    and "ca_tenant_id (ac_actor c') = ca_tenant_id (ac_actor c)"
    and "ca_principal_id (ac_actor c') = ca_principal_id (ac_actor c)"
    and "ac_operation c' = ac_operation c" and "ac_idempotency_key c' = ac_idempotency_key c"
    and "ac_fingerprint c' \<noteq> ac_fingerprint c"
  shows "\<exists>e. execute env handle ids' now' (run_executions env handle xs s1) c' = (Inl e, run_executions env handle xs s1)"
proof -
  let ?s = "run_executions env handle xs s1"
  from admit_Inr_checks(3) [OF assms(2)] obtain tenant who where
    p: "parse_uuid (ce_platform env) (ca_tenant_id (ac_actor c)) = Inr tenant"
    "parse_uuid (ce_platform env) (ca_principal_id (ac_actor c)) = Inr who" by blast
  from committed_receipt_row [OF assms(1,2,3) p] obtain q where
    q: "row_at receipt_key (tenant, who, ac_operation c, ac_idempotency_key c) (tb_receipts s1) = Some q"
      "cp_fingerprint q = ac_fingerprint c" "cp_expires_at q = now + 24 * seconds 3600" by auto
  from run_keeps_receipt [OF q(1) assms(3)] q(3) assms(4)
  have q': "row_at receipt_key (tenant, who, ac_operation c', ac_idempotency_key c') (tb_receipts ?s) = Some q"
    using assms(8,9) by simp
  have "\<exists>e. admit env now' ?s c' = Inl e"
  proof (cases "admit env now' ?s c'")
    case (Inr a)
    note k = admit_Inr_checks [OF Inr]
    from Inr have "is_ok (begin_actor (ce_platform env) ?s (ac_actor c'))"
      "is_ok (authorize_command (ce_cedar env) (ce_platform env) ?s c')"
      by (auto simp: admit_def Let_def rbind_Inr_iff is_ok_iff split: if_splits)
    from admit_known [OF q' _ _ _ k(1,2) this, of now'] q p assms(5-7,10) show ?thesis by simp
  qed simp
  then show ?thesis by (auto simp: execute_def)
qed

end

end
