(* ===== verification/Approval_Commands.thy ===== *)
theory Approval_Commands
  imports Budget_Ledger Pipeline
begin

text \<open>
  Decisions on approval proposals (\<open>approval_commands.rs\<close>): one reviewer other than the author, one
  decision over exactly the previewed content, one winner.
\<close>

section \<open>Operation\<close>

definition approval_ok :: "approval_row \<Rightarrow> bool" where
  "approval_ok a \<longleftrightarrow> (case ap_target a of JObj _ \<Rightarrow> True | _ \<Rightarrow> False)
     \<and> is_ok (digest_parse (ap_content_digest a)) \<and> is_ok (digest_parse (ap_scope_digest a))
     \<and> 0 \<le> ap_max_cost a \<and> ap_max_cost a \<le> max_safe \<and> currency_ok (ap_currency a)
     \<and> ap_state a \<in> {''REQUESTED'', ''APPROVED'', ''REJECTED'', ''CANCELLED'', ''EXPIRED'', ''INVALIDATED''}
     \<and> 0 < ap_version a"

definition decision_state :: "string \<Rightarrow> string outcome" where
  "decision_state decision =
     (if decision = ''APPROVE'' then Inr ''APPROVED''
      else if decision = ''REJECT'' then Inr ''REJECTED''
      else if decision = ''CANCEL'' then Inr ''CANCELLED''
      else Inl (invalid ''DECISION_INVALID''))"

text \<open>The state a proposal may still move to: only a requested one accepts a decision.\<close>

definition decision_target :: "string \<Rightarrow> string \<Rightarrow> string outcome" where
  "decision_target state decision =
     (if state = ''REQUESTED'' then decision_state decision
      else if state \<in> {''APPROVED'', ''REJECTED'', ''CANCELLED''} then Inl (conflict ''DECISION_CONFLICT'')
      else if state = ''EXPIRED'' then Inl (precondition ''APPROVAL_EXPIRED'')
      else if state = ''INVALIDATED'' then Inl (precondition ''APPROVAL_STALE'')
      else Inl (unavailable ''APPROVAL_STATE_INVALID''))"

definition approval_value ::
    "platform \<Rightarrow> approval_row \<Rightarrow> string \<Rightarrow> principal_ref \<Rightarrow> string \<Rightarrow> int \<Rightarrow> timestamp \<Rightarrow> json" where
  "approval_value pf a state approved_by reason version now =
     JObj [(''proposal_id'', ser_uuid pf (ap_id a)), (''tenant_id'', ser_uuid pf (ap_tenant a)),
           (''action'', JStr (ap_action a)), (''target'', ap_target a),
           (''content_digest'', JStr (ap_content_digest a)), (''scope_digest'', JStr (ap_scope_digest a)),
           (''policy_version'', JStr (ap_policy_version a)),
           (''expires_at'', ser_time pf (ap_expires_at a)),
           (''max_cost_microunits'', JNum (ap_max_cost a)), (''currency'', JStr (ap_currency a)),
           (''state'', JStr state), (''decided_by'', ser_principal_ref approved_by),
           (''decision_reason'', JStr reason), (''version'', JNum version),
           (''created_at'', ser_time pf (ap_created_at a)), (''updated_at'', ser_time pf now),
           (''approved_by'', if state = ''APPROVED'' then ser_principal_ref approved_by else JNull)]"

definition decide_approval ::
    "platform \<Rightarrow> database \<Rightarrow> timestamp \<Rightarrow> authorized_command \<Rightarrow> (mutation \<times> database) outcome" where
  "decide_approval pf s now command =
     (let input = ac_input command; actor = ac_actor command in
      rbind (parse_uuid pf (ca_tenant_id actor)) (\<lambda>tenant.
      rbind (parse_uuid pf (ca_principal_id actor)) (\<lambda>who.
      rbind (field de_string input ''proposal_id'') (\<lambda>p.
      rbind (parse_uuid pf p) (\<lambda>proposal.
      rbind (field de_string input ''decision'') (\<lambda>decision.
      rbind (field de_i32 input ''expected_version'') (\<lambda>expected.
      rbind (field de_string input ''content_digest'') (\<lambda>content_digest.
      rbind (field de_string input ''reason'') (\<lambda>reason.
      if is_blank reason then Inl (invalid ''REASON_REQUIRED'')
      else
      rbind (ok_or not_found (row_at approval_key (tenant, proposal) (tb_approvals s))) (\<lambda>a.
      rbind (decision_target (ap_state a) decision) (\<lambda>state.
      if ap_created_by a = who then Inl (denied ''FOUR_EYES_REQUIRED'')
      else if ap_expires_at a \<le> now then Inl (precondition ''APPROVAL_EXPIRED'')
      else if ap_content_digest a \<noteq> content_digest then Inl (conflict ''REVIEW_CONFLICT'')
      else
      rbind (require_expected_version (ap_version a) expected) (\<lambda>version.
      rbind (sql (update_rows (\<lambda>a. approval_key a = (tenant, proposal) \<and> ap_state a = ''REQUESTED'')
               (\<lambda>a. a\<lparr>ap_state := state, ap_decided_by := Some who, ap_decided_issuer := Some (ca_issuer actor),
                      ap_decision_reason := Some reason, ap_version := version, ap_updated_at := now\<rparr>)
               (\<lambda>a. in_i32 (ap_version a)) approval_ok (tb_approvals s))) (\<lambda>t.
      let approved_by = \<lparr> pr_kind = User, pr_id = ca_principal_id actor, pr_issuer = ca_issuer actor \<rparr> in
      Inr ((mutation_one pf ''Approval'' proposal version (approval_value pf a state approved_by reason version now)
              (''approval '' @ decision))\<lparr>mu_run_id := Some (ap_run_id a)\<rparr>,
           s\<lparr>tb_approvals := t\<rparr>))))))))))))))"

section \<open>What a decision leaves\<close>

lemma decision_target_Inr_iff:
  "decision_target state decision = Inr x \<longleftrightarrow> state = ''REQUESTED''
     \<and> (decision = ''APPROVE'' \<and> x = ''APPROVED'' \<or> decision = ''REJECT'' \<and> x = ''REJECTED''
        \<or> decision = ''CANCEL'' \<and> x = ''CANCELLED'')"
proof (cases "state = ''REQUESTED''")
  case True
  then show ?thesis by (simp add: decision_target_def decision_state_def) blast
next
  case False
  then show ?thesis by (simp add: decision_target_def)
qed

lemma decide_approval_Inr:
  assumes "decide_approval pf s now command = Inr (m, s')"
  obtains tenant who proposal a decision x reason where
    "parse_uuid pf (ca_tenant_id (ac_actor command)) = Inr tenant"
    "parse_uuid pf (ca_principal_id (ac_actor command)) = Inr who"
    "rbind (field de_string (ac_input command) ''proposal_id'') (parse_uuid pf) = Inr proposal"
    "row_at approval_key (tenant, proposal) (tb_approvals s) = Some a" "ap_state a = ''REQUESTED''"
    "field de_string (ac_input command) ''decision'' = Inr decision" "decision_state decision = Inr x"
    "field de_string (ac_input command) ''content_digest'' = Inr (ap_content_digest a)"
    "ap_created_by a \<noteq> who" "now < ap_expires_at a"
    "s' = s\<lparr>tb_approvals := update_where (\<lambda>a. approval_key a = (tenant, proposal) \<and> ap_state a = ''REQUESTED'')
       (\<lambda>q. q\<lparr>ap_state := x, ap_decided_by := Some who, ap_decided_issuer := Some (ca_issuer (ac_actor command)),
              ap_decision_reason := Some reason, ap_version := ap_version a + 1, ap_updated_at := now\<rparr>)
       (tb_approvals s)\<rparr>" "mu_run_id m = Some (ap_run_id a)"
proof -
  from assms obtain tenant who p proposal decision expected reason a x version where
    f: "parse_uuid pf (ca_tenant_id (ac_actor command)) = Inr tenant"
    "parse_uuid pf (ca_principal_id (ac_actor command)) = Inr who"
    "field de_string (ac_input command) ''proposal_id'' = Inr p" "parse_uuid pf p = Inr proposal"
    "field de_string (ac_input command) ''decision'' = Inr decision"
    "row_at approval_key (tenant, proposal) (tb_approvals s) = Some a"
    "decision_target (ap_state a) decision = Inr x" "ap_created_by a \<noteq> who" "now < ap_expires_at a"
    "field de_string (ac_input command) ''content_digest'' = Inr (ap_content_digest a)"
    "require_expected_version (ap_version a) expected = Inr version"
    "s' = s\<lparr>tb_approvals := update_where (\<lambda>a. approval_key a = (tenant, proposal) \<and> ap_state a = ''REQUESTED'')
       (\<lambda>q. q\<lparr>ap_state := x, ap_decided_by := Some who, ap_decided_issuer := Some (ca_issuer (ac_actor command)),
              ap_decision_reason := Some reason, ap_version := version, ap_updated_at := now\<rparr>)
       (tb_approvals s)\<rparr>" "mu_run_id m = Some (ap_run_id a)"
    unfolding decide_approval_def Let_def
    by (auto simp: rbind_Inr_iff ok_or_Inr_iff sql_Inr_iff update_rows_Inr_iff not_le split: if_splits)
  from f(7) have r: "ap_state a = ''REQUESTED''" "decision_state decision = Inr x"
    by (simp_all add: decision_target_def split: if_splits)
  from f(11) have v: "version = ap_version a + 1" by (simp add: require_expected_version_Inr_iff)
  from f(3,4) have p: "rbind (field de_string (ac_input command) ''proposal_id'') (parse_uuid pf) = Inr proposal" by simp
  show thesis using f(12) [unfolded v] by (rule that [OF f(1,2) p f(6) r(1) f(5) r(2) f(10,8,9) _ f(13)])
qed

text \<open>Decisions one after another; a refused one leaves the database as it was.\<close>

text \<open>The decision touches approvals only, so the guarantees of the command pipeline hold for it.\<close>

lemma decide_approval_keeps_receipts:
  assumes "decide_approval pf s now command = Inr (m, s')"
  shows "tb_receipts s' = tb_receipts s"
  using assms by (rule decide_approval_Inr) simp

interpretation approvals: command_handlers "\<lambda>ids now s c. decide_approval pf s now c"
  by unfold_locales (rule decide_approval_keeps_receipts)

definition decide_step ::
    "platform \<Rightarrow> database \<Rightarrow> timestamp \<times> authorized_command \<Rightarrow> database outcome" where
  "decide_step pf s = (\<lambda>(now, command). rbind (decide_approval pf s now command) (\<lambda>(m, s'). Inr s'))"

text \<open>The kernel's name of a stored approval state.\<close>

definition abs_approval_state :: "string \<Rightarrow> approval_state option" where
  "abs_approval_state state =
     map_of [(''REQUESTED'', A_Pending), (''APPROVED'', A_Approved), (''REJECTED'', A_Rejected),
             (''CANCELLED'', A_Cancelled), (''EXPIRED'', A_Expired), (''INVALIDATED'', A_Stale)] state"

lemma decide_step_row:
  assumes "decide_step pf s c = Inr s'" and "row_at approval_key k (tb_approvals s) = Some a"
    and "ap_state a \<noteq> ''REQUESTED''"
  shows "row_at approval_key k (tb_approvals s') = Some a"
proof -
  obtain now command where c: "c = (now, command)" by (cases c)
  with assms(1) obtain m where "decide_approval pf s now command = Inr (m, s')"
    by (auto simp: decide_step_def rbind_Inr_iff)
  then show ?thesis
  proof (rule decide_approval_Inr)
    fix tenant who proposal x reason q
    assume s': "s' = s\<lparr>tb_approvals := update_where (\<lambda>a. approval_key a = (tenant, proposal) \<and> ap_state a = ''REQUESTED'')
       (\<lambda>r. r\<lparr>ap_state := x, ap_decided_by := Some who, ap_decided_issuer := Some (ca_issuer (ac_actor command)),
              ap_decision_reason := Some reason, ap_version := ap_version q + 1, ap_updated_at := now\<rparr>)
       (tb_approvals s)\<rparr>"
    show ?thesis unfolding s' using assms(2,3) by (simp add: row_at_update_where)
  qed
qed

lemma attempts_decided:
  "row_at approval_key k (tb_approvals s) = Some a \<Longrightarrow> ap_state a \<noteq> ''REQUESTED'' \<Longrightarrow>
     row_at approval_key k (tb_approvals (attempts (decide_step pf) s ops)) = Some a"
proof (induction ops arbitrary: s)
  case (Cons c ops)
  then show ?case
    by (cases "decide_step pf s c") (simp_all add: attempt_def decide_step_row)
qed simp

section \<open>Properties\<close>

text \<open>
  C33: one reviewer, one decision, one winner. A successful decision is made by someone other than
  the author of the proposal, before its expiry, over exactly the recorded content digest, and moves
  the proposal along an edge of the kernel's approval machine; whatever decisions anyone submits
  afterwards, at any time, the proposal keeps this outcome, decider and version.
\<close>

theorem one_decision_wins:
  assumes "decide_approval pf s now command = Inr (m, s1)"
  shows "\<exists>tenant who proposal a a' x y.
    row_at approval_key (tenant, proposal) (tb_approvals s) = Some a
    \<and> parse_uuid pf (ca_principal_id (ac_actor command)) = Inr who \<and> ap_created_by a \<noteq> who
    \<and> now < ap_expires_at a
    \<and> field de_string (ac_input command) ''content_digest'' = Inr (ap_content_digest a)
    \<and> abs_approval_state (ap_state a) = Some x \<and> abs_approval_state (ap_state a') = Some y
    \<and> can_transition_to (M_Approval x) (M_Approval y)
    \<and> ap_decided_by a' = Some who \<and> ap_version a' = ap_version a + 1
    \<and> ap_content_digest a' = ap_content_digest a \<and> ap_created_by a' = ap_created_by a
    \<and> (\<forall>ops. row_at approval_key (tenant, proposal) (tb_approvals (attempts (decide_step pf) s1 ops)) = Some a')"
  using assms
proof (rule decide_approval_Inr)
  fix tenant who proposal decision x reason and a :: approval_row
  let ?f = "\<lambda>q :: approval_row. q\<lparr>ap_state := x, ap_decided_by := Some who,
      ap_decided_issuer := Some (ca_issuer (ac_actor command)),
      ap_decision_reason := Some reason, ap_version := ap_version a + 1, ap_updated_at := now\<rparr>"
  assume w: "parse_uuid pf (ca_principal_id (ac_actor command)) = Inr who"
    and a: "row_at approval_key (tenant, proposal) (tb_approvals s) = Some a" "ap_state a = ''REQUESTED''"
    and d: "decision_state decision = Inr x"
    and o: "field de_string (ac_input command) ''content_digest'' = Inr (ap_content_digest a)"
      "ap_created_by a \<noteq> who" "now < ap_expires_at a"
    and s1: "s1 = s\<lparr>tb_approvals := update_where (\<lambda>a. approval_key a = (tenant, proposal) \<and> ap_state a = ''REQUESTED'')
       ?f (tb_approvals s)\<rparr>"
  have "approval_key a = (tenant, proposal)" using row_at_SomeD [OF a(1)] by simp
  then have r: "row_at approval_key (tenant, proposal) (tb_approvals s1) = Some (?f a)"
    unfolding s1 using a by (simp add: row_at_update_where)
  have x: "x \<in> {''APPROVED'', ''REJECTED'', ''CANCELLED''}"
    using d by (simp add: decision_state_def split: if_splits)
  then have "ap_state (?f a) \<noteq> ''REQUESTED''" by (elim insertE) simp_all
  from attempts_decided [OF r this] have k: "\<forall>ops. row_at approval_key (tenant, proposal)
      (tb_approvals (attempts (decide_step pf) s1 ops)) = Some (?f a)" by blast
  from x obtain y where y: "abs_approval_state x = Some y" "can_transition_to (M_Approval A_Pending) (M_Approval y)"
    by (elim insertE) (simp_all add: abs_approval_state_def approval_edge_def)
  have "abs_approval_state (ap_state a) = Some A_Pending" using a(2) by (simp add: abs_approval_state_def)
  with k y a(1) w o show ?thesis
    by (intro exI [of _ tenant] exI [of _ who] exI [of _ proposal] exI [of _ a] exI [of _ "?f a"]
        exI [of _ A_Pending] exI [of _ y]) simp
qed

definition proposal_db :: database where
  "proposal_db = member_db\<lparr>tb_approvals := [\<lparr> ap_tenant = 1, ap_id = 60, ap_run_id = 10, ap_action = ''send'',
     ap_target = JObj [], ap_content_digest = ''sha256:'' @ replicate 64 (CHR ''1''),
     ap_scope_digest = ''sha256:'' @ replicate 64 (CHR ''2''), ap_policy_version = ''1'', ap_policy_epoch = 1,
     ap_max_cost = 5, ap_currency = ''USD'', ap_expires_at = 1000, ap_created_by = 9, ap_decided_by = None,
     ap_decided_issuer = None, ap_state = ''REQUESTED'', ap_decision_reason = None, ap_version = 1,
     ap_created_at = 0, ap_updated_at = 0 \<rparr>]\<rparr>"

definition decide_input :: "string \<Rightarrow> (string \<times> json) list" where
  "decide_input decision = [(''proposal_id'', JStr ''60''), (''decision'', JStr decision), (''expected_version'', JNum 1),
     (''content_digest'', JStr (''sha256:'' @ replicate 64 (CHR ''1''))), (''reason'', JStr ''ok'')]"

abbreviation decided_db :: database where
  "decided_db \<equiv> attempts (decide_step sample_platform) proposal_db
     [(5, member_command ''approval.decide'' ''k'' (decide_input ''APPROVE'')),
      (6, member_command ''approval.decide'' ''l'' (decide_input ''REJECT''))]"

theorem one_decision_wins_witness:
  "is_ok (decide_approval sample_platform proposal_db 5 (member_command ''approval.decide'' ''k'' (decide_input ''APPROVE'')))
   \<and> (\<exists>a. row_at approval_key (1, 60) (tb_approvals decided_db) = Some a \<and> ap_decided_by a = Some 2 \<and> ap_version a = 2)"
proof
  let ?c = "member_command ''approval.decide'' ''k'' (decide_input ''APPROVE'')"
  show o: "is_ok (decide_approval sample_platform proposal_db 5 ?c)" by code_simp
  then obtain m s1 where d: "decide_approval sample_platform proposal_db 5 ?c = Inr (m, s1)" by (auto simp: is_ok_iff)
  have p: "row_at approval_key k (tb_approvals proposal_db) = Some a \<Longrightarrow> k = (1, 60) \<and> ap_version a = 1" for k a
    by (auto simp: proposal_db_def split: if_splits)
  have "parse_uuid sample_platform (ca_principal_id (ac_actor ?c)) = Inr 2" by code_simp
  with one_decision_wins [OF d] p have "\<exists>a. row_at approval_key (1, 60) (tb_approvals (attempts (decide_step sample_platform) s1
      [(6, member_command ''approval.decide'' ''l'' (decide_input ''REJECT''))])) = Some a
      \<and> ap_decided_by a = Some 2 \<and> ap_version a = 2"
    by fastforce
  moreover have "decided_db = attempts (decide_step sample_platform) s1
      [(6, member_command ''approval.decide'' ''l'' (decide_input ''REJECT''))]"
    using d by (simp add: attempt_def decide_step_def)
  ultimately show "\<exists>a. row_at approval_key (1, 60) (tb_approvals decided_db) = Some a \<and> ap_decided_by a = Some 2 \<and> ap_version a = 2"
    by simp
qed

end
