(* ===== verification/Administration.thy ===== *)
theory Administration
  imports Budget_Ledger Pipeline
begin

text \<open>
  Administrative commands of the PostgreSQL adapter (\<open>administration.rs\<close>): budget limits, kill
  switches, notifications, support access, provider profiles, connections, dead letters, user
  interface contributions, the plugin catalog, and the commands that only leave a projection.
  \<open>require_dispatch_enabled\<close> is in the theory of delegations, which uses it.
\<close>

section \<open>Helpers\<close>

fun de_i64 :: "json \<Rightarrow> int option" where
  "de_i64 (JNum n) = checked_i64 n"
| "de_i64 _ = None"

fun de_bool :: "json \<Rightarrow> bool option" where
  "de_bool (JBool b) = Some b"
| "de_bool _ = None"

text \<open>\<open>value["name"]\<close> and \<open>as_str\<close>.\<close>

definition json_index :: "json \<Rightarrow> string \<Rightarrow> json" where
  "json_index j name = (case json_get name j of None \<Rightarrow> JNull | Some v \<Rightarrow> v)"

definition str_or :: "string \<Rightarrow> json \<Rightarrow> string" where
  "str_or d j = (case de_string j of None \<Rightarrow> d | Some s \<Rightarrow> s)"

definition has_prefix :: "string \<Rightarrow> string \<Rightarrow> bool" where
  "has_prefix p s \<longleftrightarrow> strip_prefix p s \<noteq> None"

definition is_object :: "json \<Rightarrow> bool" where
  "is_object j = (case j of JObj _ \<Rightarrow> True | _ \<Rightarrow> False)"

section \<open>Budgets\<close>

definition setting_ok :: "budget_setting_row \<Rightarrow> bool" where
  "setting_ok b \<longleftrightarrow> currency_ok (bs_currency b) \<and> bs_period b \<in> {''RUN'', ''DAY'', ''MONTH''}
     \<and> 0 \<le> bs_limit b \<and> bs_limit b \<le> max_safe \<and> 0 < bs_version b"

abbreviation setting_key :: "budget_setting_row \<Rightarrow> uuid \<times> string \<times> string" where
  "setting_key b \<equiv> (bs_tenant b, bs_currency b, bs_period b)"

text \<open>
  The pattern \<open>{period}:{currency}:%\<close> of the account queries: the constraints of the setting leave
  no wildcard in period or currency, so it is a prefix.
\<close>

definition dimension_account :: "uuid \<Rightarrow> string \<Rightarrow> string \<Rightarrow> budget_account_row \<Rightarrow> bool" where
  "dimension_account tenant period currency a \<longleftrightarrow>
     ba_tenant a = tenant \<and> has_prefix (period @ '':'' @ currency @ '':'') (ba_key a)"

definition seed_setting ::
    "uuid \<Rightarrow> uuid \<Rightarrow> string \<Rightarrow> string \<Rightarrow> database \<Rightarrow> database outcome" where
  "seed_setting i tenant currency period s =
     (let b = \<lparr> bs_tenant = tenant, bs_id = i, bs_currency = currency, bs_period = period, bs_limit = 0,
                bs_version = 1 \<rparr>
      in if setting_ok b \<and> row_at setting_key (setting_key b) (tb_budget_settings s) \<noteq> None then Inr s
      else rbind (sql (insert_row setting_ok (\<lambda>b b'. (bs_tenant b', bs_id b') = (bs_tenant b, bs_id b)
                         \<or> setting_key b' = setting_key b) (tenant_known s tenant) b (tb_budget_settings s)))
             (\<lambda>t. Inr (s\<lparr>tb_budget_settings := t\<rparr>)))"

definition configure_budget ::
    "platform \<Rightarrow> database \<Rightarrow> uuid \<Rightarrow> authorized_command \<Rightarrow> (mutation \<times> database) outcome" where
  "configure_budget pf s new_id command =
     (let input = ac_input command in
      rbind (parse_uuid pf (ca_tenant_id (ac_actor command))) (\<lambda>tenant.
      rbind (field de_string input ''currency'') (\<lambda>currency.
      rbind (field de_string input ''period'') (\<lambda>period.
      rbind (field de_i64 input ''limit_microunits'') (\<lambda>limit.
      rbind (field de_i32 input ''expected_version'') (\<lambda>expected.
      rbind (seed_setting new_id tenant currency period s) (\<lambda>s1.
      rbind (ok_or (database_failure None)
              (row_at setting_key (tenant, currency, period) (tb_budget_settings s1))) (\<lambda>current.
      rbind (require_expected_version (bs_version current) expected) (\<lambda>version.
      if list_ex (\<lambda>a. dimension_account tenant period currency a \<and> limit < ba_held a + ba_charged a)
           (tb_budget_accounts s1)
      then Inl (precondition ''BUDGET_BELOW_COMMITMENTS'')
      else
      rbind (sql (update_rows (\<lambda>b. (bs_tenant b, bs_id b) = (tenant, bs_id current))
               (\<lambda>b. b\<lparr>bs_limit := limit, bs_version := version\<rparr>) (\<lambda>_. True) setting_ok
               (tb_budget_settings s1))) (\<lambda>settings.
      rbind (sql (update_rows (dimension_account tenant period currency) (\<lambda>a. a\<lparr>ba_limit := limit\<rparr>)
               account_fits account_ok (tb_budget_accounts s1))) (\<lambda>accounts.
      Inr (mutation_one pf ''BudgetSettings'' (bs_id current) version
             (JObj [(''budget_id'', ser_uuid pf (bs_id current)), (''tenant_id'', ser_uuid pf tenant),
                    (''currency'', JStr currency), (''period'', JStr period),
                    (''limit_microunits'', JNum limit), (''version'', JNum version)])
             (period @ '' '' @ currency),
           s1\<lparr>tb_budget_settings := settings, tb_budget_accounts := accounts\<rparr>))))))))))))"

section \<open>Kill switches\<close>

abbreviation switch_key :: "kill_switch_row \<Rightarrow> uuid \<times> string \<times> string" where
  "switch_key k \<equiv> (ks_tenant k, ks_scope k, ks_target_id k)"

definition switch_ok :: "kill_switch_row \<Rightarrow> bool" where
  "switch_ok k \<longleftrightarrow> ks_scope k \<in> {''TENANT'', ''PLUGIN'', ''CONNECTION''} \<and> 0 < ks_version k"

definition switch_target_exists :: "platform \<Rightarrow> database \<Rightarrow> uuid \<Rightarrow> string \<Rightarrow> string \<Rightarrow> bool outcome" where
  "switch_target_exists pf s tenant scope target =
     (if scope = ''TENANT'' then Inr (target = pf_uuid_show pf tenant)
      else if scope = ''PLUGIN'' then
        Inr (list_ex (\<lambda>i. pi_tenant i = tenant \<and> pi_plugin_id i = target \<and> pi_state i \<noteq> ''UNINSTALLED'')
               (tb_installations s))
      else if scope = ''CONNECTION'' then
        rbind (parse_uuid pf target) (\<lambda>i. Inr (list_ex (\<lambda>c. cn_tenant c = tenant \<and> cn_id c = i) (tb_connections s)))
      else Inr False)"

definition upsert_switch :: "kill_switch_row \<Rightarrow> database \<Rightarrow> (kill_switch_row \<times> database) outcome" where
  "upsert_switch k s =
     (case row_at switch_key (switch_key k) (tb_kill_switches s) of
        None \<Rightarrow>
          rbind (sql (insert_row switch_ok (\<lambda>k k'. (ks_tenant k', ks_id k') = (ks_tenant k, ks_id k)
                     \<or> switch_key k' = switch_key k) (tenant_known s (ks_tenant k)) k (tb_kill_switches s)))
            (\<lambda>t. Inr (k, s\<lparr>tb_kill_switches := t\<rparr>))
      | Some old \<Rightarrow>
          (let f = (\<lambda>q. q\<lparr>ks_active := ks_active k, ks_reason := ks_reason k, ks_changed_by := ks_changed_by k,
                         ks_version := ks_version q + 1\<rparr>)
           in rbind (sql (update_rows (\<lambda>q. switch_key q = switch_key k) f (\<lambda>q. in_i32 (ks_version q)) switch_ok
                      (tb_kill_switches s)))
                (\<lambda>t. Inr (f old, s\<lparr>tb_kill_switches := t\<rparr>))))"

definition set_kill_switch ::
    "platform \<Rightarrow> database \<Rightarrow> uuid \<Rightarrow> authorized_command \<Rightarrow> (mutation \<times> database) outcome" where
  "set_kill_switch pf s new_id command =
     (let input = ac_input command in
      rbind (parse_uuid pf (ca_tenant_id (ac_actor command))) (\<lambda>tenant.
      rbind (parse_uuid pf (ca_principal_id (ac_actor command))) (\<lambda>who.
      rbind (field de_string input ''scope'') (\<lambda>scope.
      rbind (field de_string input ''target_id'') (\<lambda>target.
      rbind (field de_bool input ''active'') (\<lambda>active.
      rbind (field de_string input ''reason'') (\<lambda>reason.
      if is_blank reason then Inl (invalid ''REASON_REQUIRED'')
      else
      rbind (switch_target_exists pf s tenant scope target) (\<lambda>exists.
      if \<not> exists then Inl not_found
      else
      rbind (upsert_switch \<lparr> ks_tenant = tenant, ks_id = new_id, ks_scope = scope, ks_target_id = target,
               ks_active = active, ks_reason = reason, ks_changed_by = who, ks_version = 1 \<rparr> s) (\<lambda>(row, s').
      Inr (mutation_one pf ''KillSwitch'' (ks_id row) (ks_version row)
             (JObj [(''switch_id'', ser_uuid pf (ks_id row)), (''scope'', JStr scope), (''target_id'', JStr target),
                    (''active'', JBool active), (''reason'', JStr reason), (''version'', JNum (ks_version row))])
             scope, s'))))))))))"

section \<open>Notifications and support\<close>

definition mark_notification_read ::
    "platform \<Rightarrow> database \<Rightarrow> timestamp \<Rightarrow> authorized_command \<Rightarrow> (mutation \<times> database) outcome" where
  "mark_notification_read pf s now command =
     rbind (field de_string (ac_input command) ''notification_id'') (\<lambda>n.
     rbind (parse_uuid pf n) (\<lambda>i.
     rbind (parse_uuid pf (ca_tenant_id (ac_actor command))) (\<lambda>tenant.
     rbind (parse_uuid pf (ca_principal_id (ac_actor command))) (\<lambda>who.
     let mine = (\<lambda>q. nt_tenant q = tenant \<and> nt_id q = i \<and> nt_recipient_id q = who);
         f = (\<lambda>q. q\<lparr>nt_read_at := Some (case nt_read_at q of None \<Rightarrow> now | Some t \<Rightarrow> t),
                    nt_version := nt_version q + 1\<rparr>)
     in
     rbind (sql (update_rows mine f (\<lambda>q. in_i32 (nt_version q)) (\<lambda>q. 0 < nt_version q) (tb_notifications s))) (\<lambda>t.
     rbind (ok_or not_found (find mine (tb_notifications s))) (\<lambda>old.
     let row = f old in
     Inr (mutation_one pf ''Notification'' i (nt_version row)
            (JObj [(''notification_id'', ser_uuid pf i), (''resource_type'', JStr (nt_resource_type row)),
                   (''resource_id'', JStr (nt_resource_id row)), (''subject_code'', JStr (nt_subject_code row)),
                   (''read_at'', ser_option (ser_time pf) (nt_read_at row)), (''version'', JNum (nt_version row))])
            ''Notification'', s\<lparr>tb_notifications := t\<rparr>)))))))"

definition METADATA_ACTIONS :: "string list" where
  "METADATA_ACTIONS = [''support.status.read'', ''support.health.read'', ''support.audit-metadata.read'']"

definition request_support ::
    "platform \<Rightarrow> database \<Rightarrow> timestamp \<Rightarrow> uuid \<Rightarrow> authorized_command \<Rightarrow> (mutation \<times> database) outcome" where
  "request_support pf s now new_id command =
     (let input = ac_input command in
      rbind (field (de_list de_string) input ''actions'') (\<lambda>actions.
      if actions = [] \<or> list_ex (\<lambda>a. \<not> List.member METADATA_ACTIONS a) actions
      then Inl (denied ''SUPPORT_SCOPE_DENIED'')
      else
      rbind (field (de_time pf) input ''expires_at'') (\<lambda>expires.
      if expires \<le> now \<or> now + seconds (15 * 60) < expires then Inl (invalid ''SUPPORT_EXPIRY_INVALID'')
      else
      rbind (field de_string input ''reason'') (\<lambda>reason.
      if is_blank reason then Inl (invalid ''REASON_REQUIRED'')
      else
      rbind (parse_uuid pf (ca_tenant_id (ac_actor command))) (\<lambda>tenant.
      rbind (parse_uuid pf (ca_principal_id (ac_actor command))) (\<lambda>who.
      rbind (sql (insert_row (\<lambda>g. sg_state g \<in> {''APPROVED'', ''REVOKED'', ''EXPIRED''} \<and> 0 < sg_version g)
               (\<lambda>g g'. (sg_tenant g', sg_id g') = (sg_tenant g, sg_id g)) (tenant_known s tenant)
               \<lparr> sg_tenant = tenant, sg_id = new_id, sg_requested_by = who, sg_actions = actions,
                 sg_reason = reason, sg_expires_at = expires, sg_state = ''APPROVED'', sg_version = 1 \<rparr>
               (tb_support_grants s))) (\<lambda>t.
      Inr (mutation_one pf ''SupportGrant'' new_id 1
             (JObj [(''support_grant_id'', ser_uuid pf new_id), (''actions'', JArr (map JStr actions)),
                    (''expires_at'', ser_time pf expires), (''state'', JStr ''APPROVED''), (''version'', JNum 1)])
             ''Metadata support access'', s\<lparr>tb_support_grants := t\<rparr>))))))))"

section \<open>Provider profiles\<close>

definition configure_provider ::
    "platform \<Rightarrow> database \<Rightarrow> uuid \<Rightarrow> authorized_command \<Rightarrow> (mutation \<times> database) outcome" where
  "configure_provider pf s new_id command =
     (let input = ac_input command in
      rbind (field Some input ''profile'') (\<lambda>profile.
      if json_index profile ''live_status'' \<noteq> JStr ''DISABLED'' then Inl (precondition ''LIVE_PROVIDER_DISABLED'')
      else
      rbind (field de_string input ''credential_ref'') (\<lambda>credential.
      rbind (field (de_option Some) input ''qualification_ref'') (\<lambda>qualification.
      if qualification \<noteq> None then Inl (precondition ''QUALIFICATION_REVIEW_REQUIRED'')
      else
      rbind (ok_or (invalid ''SCHEMA_INVALID'') (de_string (json_index profile ''id''))) (\<lambda>profile_id.
      rbind (parse_uuid pf (ca_tenant_id (ac_actor command))) (\<lambda>tenant.
      rbind (sql (insert_row (\<lambda>p. is_object (pv_profile p) \<and> 0 < pv_version p)
               (\<lambda>p p'. (pv_tenant p', pv_id p') = (pv_tenant p, pv_id p)
                  \<or> (pv_tenant p', pv_profile_id p') = (pv_tenant p, pv_profile_id p)) (tenant_known s tenant)
               \<lparr> pv_tenant = tenant, pv_id = new_id, pv_profile_id = profile_id, pv_profile = profile,
                 pv_credential_ref = credential, pv_version = 1 \<rparr> (tb_providers s))) (\<lambda>t.
      Inr (mutation_one pf ''ProviderProfile'' new_id 1 profile profile_id, s\<lparr>tb_providers := t\<rparr>))))))))"

text \<open>The row moves to the next version; the projection is numbered one higher.\<close>

definition compact_provider ::
    "platform \<Rightarrow> database \<Rightarrow> authorized_command \<Rightarrow> (mutation \<times> database) outcome" where
  "compact_provider pf s command =
     (let input = ac_input command in
      rbind (field de_string input ''conversation_id'') (\<lambda>conversation.
      rbind (field de_string input ''profile_id'') (\<lambda>profile_id.
      rbind (field de_i32 input ''expected_version'') (\<lambda>expected.
      rbind (parse_uuid pf (ca_tenant_id (ac_actor command))) (\<lambda>tenant.
      rbind (ok_or not_found (find (\<lambda>p. pv_tenant p = tenant \<and> pv_profile_id p = profile_id) (tb_providers s))) (\<lambda>current.
      rbind (require_expected_version (pv_version current) expected) (\<lambda>version.
      rbind (sql (update_rows (\<lambda>p. pv_tenant p = tenant \<and> pv_id p = pv_id current)
               (\<lambda>p. p\<lparr>pv_version := pv_version p + 1\<rparr>) (\<lambda>p. in_i32 (pv_version p))
               (\<lambda>p. is_object (pv_profile p) \<and> 0 < pv_version p) (tb_providers s))) (\<lambda>t.
      let new_version = wrap_i32 (version + 1) in
      Inr (mutation_one pf ''ProviderCompact'' (pv_id current) new_version
             (JObj [(''conversation_id'', JStr conversation), (''profile_id'', JStr profile_id),
                    (''version'', JNum new_version)])
             (''Compact '' @ conversation), s\<lparr>tb_providers := t\<rparr>)))))))))"

section \<open>Connections\<close>

definition hex_char :: "nat \<Rightarrow> char" where
  "hex_char d = (if d < 10 then char_of (48 + d) else char_of (87 + d))"

definition hex_pad :: "nat \<Rightarrow> nat \<Rightarrow> string" where
  "hex_pad w n = map (\<lambda>i. hex_char (n div 16 ^ (w - 1 - i) mod 16)) [0..<w]"

definition connection_ok :: "connection_row \<Rightarrow> bool" where
  "connection_ok c \<longleftrightarrow> cn_state c \<in> {''PENDING'', ''ACTIVE'', ''NEEDS_REAUTH'', ''PAUSED'', ''REVOKED''}
     \<and> 0 < cn_version c"

abbreviation connection_key :: "connection_row \<Rightarrow> uuid \<times> uuid" where
  "connection_key c \<equiv> (cn_tenant c, cn_id c)"

definition authorize_connection ::
    "platform \<Rightarrow> database \<Rightarrow> timestamp \<Rightarrow> uuid \<times> uuid \<Rightarrow> authorized_command
     \<Rightarrow> (mutation \<times> database) outcome" where
  "authorize_connection pf s now ids command =
     (let input = ac_input command; connection_id = fst ids; auth_id = snd ids in
      rbind (parse_uuid pf (ca_tenant_id (ac_actor command))) (\<lambda>tenant.
      rbind (parse_uuid pf (ca_principal_id (ac_actor command))) (\<lambda>who.
      rbind (field de_string input ''provider'') (\<lambda>provider.
      rbind (field (de_list de_string) input ''requested_scopes'') (\<lambda>scopes.
      rbind (field de_string input ''return_to'') (\<lambda>return_to.
      rbind (sql (insert_or_ignore connection_ok (\<lambda>c c'. connection_key c' = connection_key c) (tenant_known s tenant)
               \<lparr> cn_tenant = tenant, cn_id = connection_id, cn_provider = provider,
                 cn_external_account = ''synthetic/'' @ pf_uuid_show pf connection_id, cn_scopes = scopes,
                 cn_secret_ref = ''synthetic/secret'', cn_state = ''PENDING'', cn_contract_version = ''1.0.0'',
                 cn_capabilities = [], cn_verified_at = None, cn_version = 1 \<rparr> (tb_connections s))) (\<lambda>connections.
      let state_digest = ''sha256:'' @ hex_pad 64 (unat auth_id);
          auth_url = ''https://local-auth.example.test/authorize?state='' @ pf_uuid_show pf auth_id;
          expires = now + seconds 3600
      in
      rbind (sql (insert_row (\<lambda>a. cx_state a \<in> {''PENDING'', ''COMPLETED'', ''EXPIRED'', ''FAILED''})
               (\<lambda>a a'. (cx_tenant a', cx_id a') = (cx_tenant a, cx_id a) \<or> cx_state_digest a' = cx_state_digest a)
               (row_at connection_key (tenant, connection_id) connections \<noteq> None)
               \<lparr> cx_tenant = tenant, cx_id = auth_id, cx_principal_id = who, cx_connection_id = connection_id,
                 cx_state_digest = state_digest, cx_authorization_url = auth_url, cx_return_to = return_to,
                 cx_requested_scopes = scopes, cx_state = ''PENDING'', cx_expires_at = expires \<rparr>
               (tb_connector_authorizations s))) (\<lambda>auths.
      Inr (mutation_one pf ''ConnectorAuthorization'' auth_id 1
             (JObj [(''authorization_id'', ser_uuid pf auth_id), (''tenant_id'', ser_uuid pf tenant),
                    (''connection_id'', ser_uuid pf connection_id), (''authorization_url'', JStr auth_url),
                    (''return_to'', JStr return_to), (''expires_at'', ser_time pf expires),
                    (''state'', JStr ''PENDING'')])
             (''Authorize '' @ provider),
           s\<lparr>tb_connections := connections, tb_connector_authorizations := auths\<rparr>)))))))))"

text \<open>The new row version is one above the next one.\<close>

definition revoke_connection ::
    "platform \<Rightarrow> database \<Rightarrow> authorized_command \<Rightarrow> (mutation \<times> database) outcome" where
  "revoke_connection pf s command =
     (let input = ac_input command in
      rbind (parse_uuid pf (ca_tenant_id (ac_actor command))) (\<lambda>tenant.
      rbind (field de_string input ''connection_id'') (\<lambda>c.
      rbind (parse_uuid pf c) (\<lambda>connection_id.
      rbind (field de_i32 input ''expected_version'') (\<lambda>expected.
      rbind (field de_string input ''reason'') (\<lambda>reason.
      if is_blank reason then Inl (invalid ''REASON_REQUIRED'')
      else
      rbind (ok_or not_found (row_at connection_key (tenant, connection_id) (tb_connections s))) (\<lambda>current.
      rbind (require_expected_version (cn_version current) expected) (\<lambda>version.
      let new_version = wrap_i32 (version + 1) in
      rbind (sql (update_rows (\<lambda>c. connection_key c = (tenant, connection_id))
               (\<lambda>c. c\<lparr>cn_state := ''REVOKED'', cn_version := new_version\<rparr>) (\<lambda>_. True) connection_ok
               (tb_connections s))) (\<lambda>t.
      Inr (mutation_one pf ''Connection'' connection_id new_version
             (JObj [(''connection_id'', ser_uuid pf connection_id), (''tenant_id'', ser_uuid pf tenant),
                    (''provider'', JStr (cn_provider current)),
                    (''external_account'', JStr (cn_external_account current)),
                    (''scopes'', JArr (map JStr (cn_scopes current))),
                    (''secret_ref'', JStr (cn_secret_ref current)), (''state'', JStr ''REVOKED''),
                    (''contract_version'', JStr (cn_contract_version current)),
                    (''capabilities'', JArr (map JStr (cn_capabilities current))),
                    (''verified_at'', ser_option (ser_time pf) (cn_verified_at current)),
                    (''version'', JNum new_version)])
             (''Revoke '' @ pf_uuid_show pf connection_id), s\<lparr>tb_connections := t\<rparr>))))))))))"

section \<open>Commands that only leave a projection\<close>

definition create_schedule ::
    "platform \<Rightarrow> database \<Rightarrow> uuid \<Rightarrow> authorized_command \<Rightarrow> (mutation \<times> database) outcome" where
  "create_schedule pf s new_id command =
     (let input = ac_input command in
      rbind (field de_string input ''workflow_id'') (\<lambda>workflow.
      rbind (field de_string input ''cron'') (\<lambda>cron.
      rbind (field de_string input ''timezone'') (\<lambda>timezone.
      Inr (mutation_one pf ''Schedule'' new_id 1
             (JObj [(''schedule_id'', ser_uuid pf new_id), (''workflow_id'', JStr workflow), (''cron'', JStr cron),
                    (''timezone'', JStr timezone), (''version'', JNum 1)])
             (''Schedule '' @ workflow), s)))))"

definition create_export ::
    "platform \<Rightarrow> database \<Rightarrow> uuid \<Rightarrow> authorized_command \<Rightarrow> (mutation \<times> database) outcome" where
  "create_export pf s new_id command =
     (let input = ac_input command in
      rbind (field de_string input ''resource_type'') (\<lambda>kind.
      rbind (field de_string input ''format'') (\<lambda>format.
      Inr (mutation_one pf ''Export'' new_id 1
             (JObj [(''export_id'', ser_uuid pf new_id), (''resource_type'', JStr kind), (''format'', JStr format),
                    (''state'', JStr ''PENDING''), (''version'', JNum 1)])
             (''Export '' @ kind), s))))"

definition qualify_release ::
    "platform \<Rightarrow> database \<Rightarrow> uuid \<Rightarrow> authorized_command \<Rightarrow> (mutation \<times> database) outcome" where
  "qualify_release pf s new_id command =
     (let input = ac_input command in
      rbind (field de_string input ''artifact_digest'') (\<lambda>digest.
      rbind (field Some input ''evidence_ref'') (\<lambda>evidence.
      Inr (mutation_one pf ''ReleaseQualification'' new_id 1
             (JObj [(''qualification_id'', ser_uuid pf new_id), (''artifact_digest'', JStr digest),
                    (''evidence_ref'', evidence), (''state'', JStr ''QUALIFIED''), (''version'', JNum 1)])
             (''Qualify '' @ digest), s))))"

definition run_conformance ::
    "platform \<Rightarrow> database \<Rightarrow> uuid \<Rightarrow> authorized_command \<Rightarrow> (mutation \<times> database) outcome" where
  "run_conformance pf s new_id command =
     (let input = ac_input command in
      rbind (field de_string input ''artifact_digest'') (\<lambda>digest.
      rbind (field de_string input ''suite_version'') (\<lambda>suite.
      rbind (field de_string input ''profile'') (\<lambda>profile.
      Inr (mutation_one pf ''ConformanceRun'' new_id 1
             (JObj [(''run_id'', ser_uuid pf new_id), (''artifact_digest'', JStr digest),
                    (''suite_version'', JStr suite), (''profile'', JStr profile),
                    (''state'', JStr ''COMPLETED''), (''version'', JNum 1)])
             (''Conformance '' @ suite), s)))))"

section \<open>Dead letters\<close>

definition replay_deadletter ::
    "platform \<Rightarrow> database \<Rightarrow> authorized_command \<Rightarrow> (mutation \<times> database) outcome" where
  "replay_deadletter pf s command =
     (let input = ac_input command in
      rbind (field de_string input ''event_id'') (\<lambda>e.
      rbind (parse_uuid pf e) (\<lambda>event_id.
      rbind (field de_string input ''reason'') (\<lambda>reason.
      rbind (parse_uuid pf (ca_tenant_id (ac_actor command))) (\<lambda>tenant.
      let dead = (\<lambda>q. outbox_key q = (tenant, event_id) \<and> ob_delivery_status q = ''DEAD_LETTER'') in
      rbind (sql (update_rows dead (\<lambda>q. q\<lparr>ob_delivery_status := ''PENDING'', ob_lease_expires_at := None\<rparr>)
               outbox_fits outbox_ok (tb_outbox s))) (\<lambda>t.
      if \<not> list_ex dead (tb_outbox s) then Inl not_found
      else
      Inr (mutation_one pf ''DeadletterReplay'' event_id 1
             (JObj [(''event_id'', ser_uuid pf event_id), (''reason'', JStr reason), (''version'', JNum 1)])
             (''Replay '' @ pf_uuid_show pf event_id), s\<lparr>tb_outbox := t\<rparr>)))))))"

section \<open>User interface contributions\<close>

text \<open>
  \<open>ON CONFLICT \<dots> DO UPDATE\<close> needs the UPDATE privilege of the table; \<open>may_update\<close> says whether the
  runtime role has it.
\<close>

definition register_contribution ::
    "bool \<Rightarrow> uuid \<Rightarrow> string \<Rightarrow> json \<Rightarrow> database \<Rightarrow> database outcome" where
  "register_contribution may_update tenant plugin c s =
     (let r = \<lparr> ui_tenant = tenant, ui_plugin_id = plugin,
                ui_contribution_id = str_or ''default'' (json_index c ''id''), ui_contribution = c,
                ui_path = str_or ''/'' (json_index c ''path''), ui_slot = str_or ''NAVIGATION'' (json_index c ''slot'') \<rparr>;
          place = (\<lambda>q. (ui_tenant q, ui_path q, ui_slot q));
          owner = (\<lambda>q. (ui_tenant q, ui_plugin_id q, ui_contribution_id q))
      in if \<not> may_update then Inl (database_failure (Some ''42501''))
      else if \<not> is_object c then Inl (database_failure (Some ''23514''))
      else
        (case row_at place (place r) (tb_ui_contributions s) of
           Some old \<Rightarrow>
             if owner old \<noteq> owner r then Inl (conflict ''UI_CONTRIBUTION_CONFLICT'')
             else Inr (s\<lparr>tb_ui_contributions := update_where (\<lambda>q. place q = place r)
                           (\<lambda>q. q\<lparr>ui_contribution := c\<rparr>) (tb_ui_contributions s)\<rparr>)
         | None \<Rightarrow>
             rbind (sql (insert_row (\<lambda>q. is_object (ui_contribution q)) (\<lambda>q q'. owner q' = owner q) True r
                      (tb_ui_contributions s)))
               (\<lambda>t. Inr (s\<lparr>tb_ui_contributions := t\<rparr>))))"

definition register_ui ::
    "bool \<Rightarrow> platform \<Rightarrow> database \<Rightarrow> uuid \<Rightarrow> authorized_command \<Rightarrow> (mutation \<times> database) outcome" where
  "register_ui may_update pf s new_id command =
     (let input = ac_input command in
      rbind (field de_string input ''plugin_id'') (\<lambda>plugin.
      rbind (field (de_list Some) input ''contributions'') (\<lambda>contributions.
      rbind (parse_uuid pf (ca_tenant_id (ac_actor command))) (\<lambda>tenant.
      rbind (rfold (register_contribution may_update tenant plugin) contributions s) (\<lambda>s'.
      Inr (mutation_one pf ''UIRegistration'' new_id 1
             (JObj [(''plugin_id'', JStr plugin), (''contributions_count'', JNum (int (length contributions))),
                    (''version'', JNum 1)])
             (''UI '' @ plugin), s'))))))"

section \<open>Catalog\<close>

definition listing_ok :: "listing_row \<Rightarrow> bool" where
  "listing_ok l \<longleftrightarrow> ct_state l \<in> {''PENDING'', ''APPROVED'', ''REJECTED'', ''REVOKED''} \<and> 0 < ct_version l"

abbreviation listing_key :: "listing_row \<Rightarrow> uuid \<times> uuid" where
  "listing_key l \<equiv> (ct_tenant l, ct_id l)"

definition submit_catalog ::
    "platform \<Rightarrow> database \<Rightarrow> uuid \<Rightarrow> authorized_command \<Rightarrow> (mutation \<times> database) outcome" where
  "submit_catalog pf s new_id command =
     (let input = ac_input command; member = (\<lambda>m name. ok_or (invalid ''SCHEMA_INVALID'') (de_string (json_index m name))) in
      rbind (parse_uuid pf (ca_tenant_id (ac_actor command))) (\<lambda>tenant.
      rbind (field Some input ''manifest'') (\<lambda>manifest.
      rbind (field de_string input ''support_contact'') (\<lambda>contact.
      rbind (field de_string input ''description'') (\<lambda>description.
      rbind (member manifest ''publisher_id'') (\<lambda>publisher.
      rbind (member manifest ''id'') (\<lambda>plugin.
      rbind (member manifest ''artifact_digest'') (\<lambda>digest.
      rbind (parse_uuid pf (ca_principal_id (ac_actor command))) (\<lambda>who.
      rbind (sql (insert_row listing_ok
               (\<lambda>l l'. listing_key l' = listing_key l
                  \<or> (ct_tenant l', ct_plugin_id l', ct_artifact_digest l') = (ct_tenant l, ct_plugin_id l, ct_artifact_digest l))
               (tenant_known s tenant)
               \<lparr> ct_tenant = tenant, ct_id = new_id, ct_publisher_id = publisher, ct_plugin_id = plugin,
                 ct_artifact_digest = digest, ct_manifest = manifest, ct_support_contact = contact,
                 ct_description = description, ct_submitted_by = who, ct_reviewed_by = None,
                 ct_evidence_ref = None, ct_state = ''PENDING'', ct_version = 1 \<rparr> (tb_listings s))) (\<lambda>t.
      Inr (mutation_one pf ''CatalogListing'' new_id 1
             (JObj [(''listing_id'', ser_uuid pf new_id), (''tenant_id'', ser_uuid pf tenant),
                    (''publisher_id'', JStr publisher), (''plugin_id'', JStr plugin), (''artifact_digest'', JStr digest),
                    (''manifest'', manifest), (''support_contact'', JStr contact), (''description'', JStr description),
                    (''submitted_by'', JStr (ca_principal_id (ac_actor command))), (''state'', JStr ''PENDING''),
                    (''version'', JNum 1)])
             (''Submit '' @ plugin), s\<lparr>tb_listings := t\<rparr>)))))))))))"

definition review_catalog ::
    "platform \<Rightarrow> database \<Rightarrow> authorized_command \<Rightarrow> (mutation \<times> database) outcome" where
  "review_catalog pf s command =
     (let input = ac_input command in
      rbind (parse_uuid pf (ca_tenant_id (ac_actor command))) (\<lambda>tenant.
      rbind (field de_string input ''listing_id'') (\<lambda>l.
      rbind (parse_uuid pf l) (\<lambda>listing_id.
      rbind (field de_string input ''decision'') (\<lambda>decision.
      rbind (field Some input ''evidence_ref'') (\<lambda>evidence.
      rbind (field de_i32 input ''expected_version'') (\<lambda>expected.
      rbind (ok_or not_found (row_at listing_key (tenant, listing_id) (tb_listings s))) (\<lambda>current.
      rbind (require_expected_version (ct_version current) expected) (\<lambda>version.
      rbind (if decision = ''APPROVE'' then Inr ''APPROVED'' else if decision = ''REJECT'' then Inr ''REJECTED''
             else Inl (invalid ''SCHEMA_INVALID'')) (\<lambda>state.
      let new_version = wrap_i32 (version + 1) in
      rbind (parse_uuid pf (ca_principal_id (ac_actor command))) (\<lambda>who.
      rbind (sql (update_rows (\<lambda>l. listing_key l = (tenant, listing_id))
               (\<lambda>l. l\<lparr>ct_state := state, ct_reviewed_by := Some who, ct_evidence_ref := Some evidence,
                      ct_version := new_version\<rparr>) (\<lambda>_. True) listing_ok (tb_listings s))) (\<lambda>t.
      Inr (mutation_one pf ''CatalogListing'' listing_id new_version
             (JObj [(''listing_id'', ser_uuid pf listing_id), (''tenant_id'', ser_uuid pf tenant),
                    (''plugin_id'', JStr (ct_plugin_id current)), (''state'', JStr state),
                    (''reviewed_by'', JStr (ca_principal_id (ac_actor command))), (''evidence_ref'', evidence),
                    (''version'', JNum new_version)])
             (''Review '' @ pf_uuid_show pf listing_id), s\<lparr>tb_listings := t\<rparr>)))))))))))))"

section \<open>Budgets keep the ledger balanced\<close>

lemma seed_setting_Inr:
  "seed_setting i tenant currency period s = Inr s' \<Longrightarrow>
     tb_budget_accounts s' = tb_budget_accounts s \<and> tb_cost_reservations s' = tb_cost_reservations s
     \<and> tb_receipts s' = tb_receipts s"
  by (auto simp: seed_setting_def Let_def rbind_Inr_iff split: if_splits)

lemma configure_budget_Inr:
  assumes "configure_budget pf s i command = Inr (m, s')"
  obtains tenant currency period limit settings where
    "field de_string (ac_input command) ''currency'' = Inr currency"
    "field de_string (ac_input command) ''period'' = Inr period"
    "field de_i64 (ac_input command) ''limit_microunits'' = Inr limit"
    "parse_uuid pf (ca_tenant_id (ac_actor command)) = Inr tenant"
    "\<forall>a \<in> set (tb_budget_accounts s). dimension_account tenant period currency a \<longrightarrow> ba_held a + ba_charged a \<le> limit"
    "tb_budget_accounts s' = update_where (dimension_account tenant period currency) (\<lambda>a. a\<lparr>ba_limit := limit\<rparr>)
       (tb_budget_accounts s)"
    "\<forall>a \<in> set (tb_budget_accounts s). dimension_account tenant period currency a \<longrightarrow> account_ok (a\<lparr>ba_limit := limit\<rparr>)"
    "tb_cost_reservations s' = tb_cost_reservations s" "tb_receipts s' = tb_receipts s"
proof -
  let ?in = "ac_input command"
  from assms obtain tenant currency period limit expected s1 current version settings accounts where
    f: "parse_uuid pf (ca_tenant_id (ac_actor command)) = Inr tenant" "field de_string ?in ''currency'' = Inr currency"
      "field de_string ?in ''period'' = Inr period" "field de_i64 ?in ''limit_microunits'' = Inr limit"
    and s1: "seed_setting i tenant currency period s = Inr s1"
    and n: "\<not> list_ex (\<lambda>a. dimension_account tenant period currency a \<and> limit < ba_held a + ba_charged a)
         (tb_budget_accounts s1)"
    and u: "update_rows (dimension_account tenant period currency) (\<lambda>a. a\<lparr>ba_limit := limit\<rparr>)
             account_fits account_ok (tb_budget_accounts s1) = Inr accounts"
    and s': "s' = s1\<lparr>tb_budget_settings := settings, tb_budget_accounts := accounts\<rparr>"
    unfolding configure_budget_def Let_def by (auto simp: rbind_Inr_iff sql_Inr_iff split: if_splits)
  note seed = seed_setting_Inr [OF s1]
  have "\<forall>a \<in> set (tb_budget_accounts s). dimension_account tenant period currency a \<longrightarrow> ba_held a + ba_charged a \<le> limit"
    using n seed by (auto simp: list_ex_iff not_less)
  moreover from u seed have "accounts = update_where (dimension_account tenant period currency) (\<lambda>a. a\<lparr>ba_limit := limit\<rparr>)
      (tb_budget_accounts s)"
    "\<forall>a \<in> set (tb_budget_accounts s). dimension_account tenant period currency a \<longrightarrow> account_ok (a\<lparr>ba_limit := limit\<rparr>)"
    by (auto simp: update_rows_Inr_iff)
  ultimately show thesis using seed s' by (intro that [OF f(2-4,1)]) simp_all
qed

lemma limit_change_balance:
  assumes "\<And>a. account_key (f a) = account_key a \<and> ba_held (f a) = ba_held a \<and> ba_charged (f a) = ba_charged a"
  shows "held_of (update_where p f t) k = held_of t k" and "charged_of (update_where p f t) k = charged_of t k"
  using assms by (cases "row_at account_key k t"; simp add: held_of_def charged_of_def row_at_update_where)+

lemma configure_budget_inv:
  assumes "ledger_inv s" and "configure_budget pf s i command = Inr (m, s')"
  shows "ledger_inv s'"
  using assms(2)
proof (rule configure_budget_Inr)
  fix tenant currency period limit settings
  let ?p = "dimension_account tenant period currency" and ?f = "\<lambda>a :: budget_account_row. a\<lparr>ba_limit := limit\<rparr>"
  assume t: "tb_budget_accounts s' = update_where ?p ?f (tb_budget_accounts s)"
    and k: "\<forall>a \<in> set (tb_budget_accounts s). ?p a \<longrightarrow> account_ok (?f a)"
    and r: "tb_cost_reservations s' = tb_cost_reservations s"
  have keys: "account_key ` set (tb_budget_accounts s') = account_key ` set (tb_budget_accounts s)"
    unfolding t set_update_where image_image by (rule image_cong) simp_all
  have "unique_key account_key (tb_budget_accounts s')"
    using ledger_invD(1) [OF assms(1)] by (simp add: t unique_key_update_where)
  moreover have "\<forall>a \<in> set (tb_budget_accounts s'). account_ok a"
    using ledger_invD(2) [OF assms(1)] k by (simp add: t ball_update_where)
  moreover have "balanced (tb_budget_accounts s') (tb_cost_reservations s')"
    using ledger_invD(4) [OF assms(1)] by (simp add: balanced_def t r limit_change_balance)
  ultimately show ?thesis
    using assms(1) keys by (simp add: ledger_inv_def r)
qed

end
