(* ===== verification/Manifests.thy ===== *)
theory Manifests
  imports Administration Validation Kernel_Registry "HOL-Library.Monad_Syntax" "HOL-Library.Sublist"
begin

text \<open>
  Plugin manifests and workflow definitions on the wire (\<open>crates/contracts/src/wire.rs\<close>) and the
  pure checks of an installation (\<open>platform-plugins/data-postgres/src/registry_validation.rs\<close>).
  Serde's derived readers and writers are written out. Ed25519 and semantic versions are third-party
  code and parameters (\<open>trust_tools\<close>). The theorems: a manifest is read back from what is stored;
  a resolved set of manifests is closed, version-compatible and in dependency order; every cycle of
  an accepted workflow passes a bounded loop.
\<close>

section \<open>Manifests\<close>

record plugin_dependency =
  pd_plugin_id :: plugin_id
  pd_contract_range :: string
  pd_optional :: bool

record ui_contribution =
  uc_id :: string
  uc_slot :: string
  uc_path :: string
  uc_ui_contract_version :: string
  uc_trust :: string
  uc_required_action :: action

record plugin_migration =
  mg_id :: string
  mg_digest :: digest
  mg_compatibility :: string
  mg_reversible :: bool

record tool_descriptor =
  td_id :: string
  td_version :: string
  td_input_schema_ref :: artifact_ref
  td_output_schema_ref :: artifact_ref
  td_action :: action
  td_effect_class :: string
  td_connection_provider :: "string option"
  td_trust :: string

record plugin_manifest =
  pl_id :: plugin_id
  pl_version :: string
  pl_contract_version :: string
  pl_artifact_digest :: digest
  pl_publisher_id :: string
  pl_execution_class :: execution_class
  pl_requested_capabilities :: "action list"
  pl_dependencies :: "plugin_dependency list"
  pl_ui :: "ui_contribution list"
  pl_migrations :: "plugin_migration list"
  pl_license_expression :: string
  pl_sbom_digest :: digest
  pl_signature_ref :: string
  pl_handlers :: "handler_contract list"
  pl_workflows :: "artifact_ref list"
  pl_data_contracts :: "artifact_ref list"
  pl_tools :: "tool_descriptor list"

section \<open>Readers\<close>

fun de_u32 :: "json \<Rightarrow> u32 option" where
  "de_u32 (JNum n) = (if 0 \<le> n \<and> n < 4294967296 then Some (word_of_int n) else None)"
| "de_u32 _ = None"

definition de_action :: "json \<Rightarrow> action option" where
  "de_action j =
     do { s \<leftarrow> de_string j; (case action_new s of Inl _ \<Rightarrow> None | Inr a \<Rightarrow> Some a) }"

text \<open>A missing member of type \<open>Option\<close> reads as \<open>None\<close>; unknown members are refused.\<close>

definition de_plugin_dependency :: "json \<Rightarrow> plugin_dependency option" where
  "de_plugin_dependency j =
     (if \<not> only_members [''plugin_id'', ''contract_range'', ''optional''] j then None
      else do {
        i \<leftarrow> de_member ''plugin_id'' (de_opaque ''PluginId'') j;
        r \<leftarrow> de_member ''contract_range'' de_string j;
        b \<leftarrow> de_member ''optional'' de_bool j;
        Some \<lparr> pd_plugin_id = i, pd_contract_range = r, pd_optional = b \<rparr> })"

definition de_ui_contribution :: "json \<Rightarrow> ui_contribution option" where
  "de_ui_contribution j =
     (if \<not> only_members [''id'', ''slot'', ''path'', ''ui_contract_version'', ''trust'', ''required_action''] j then None
      else do {
        i \<leftarrow> de_member ''id'' de_string j;
        slot \<leftarrow> de_member ''slot'' de_string j;
        path \<leftarrow> de_member ''path'' de_string j;
        v \<leftarrow> de_member ''ui_contract_version'' de_string j;
        t \<leftarrow> de_member ''trust'' de_string j;
        a \<leftarrow> de_member ''required_action'' de_action j;
        Some \<lparr> uc_id = i, uc_slot = slot, uc_path = path, uc_ui_contract_version = v, uc_trust = t,
               uc_required_action = a \<rparr> })"

definition de_plugin_migration :: "json \<Rightarrow> plugin_migration option" where
  "de_plugin_migration j =
     (if \<not> only_members [''id'', ''digest'', ''compatibility'', ''reversible''] j then None
      else do {
        i \<leftarrow> de_member ''id'' de_string j;
        d \<leftarrow> de_member ''digest'' de_digest j;
        c \<leftarrow> de_member ''compatibility'' de_string j;
        b \<leftarrow> de_member ''reversible'' de_bool j;
        Some \<lparr> mg_id = i, mg_digest = d, mg_compatibility = c, mg_reversible = b \<rparr> })"

definition de_handler_contract :: "json \<Rightarrow> handler_contract option" where
  "de_handler_contract j =
     (if \<not> only_members [''id'', ''input_schema_ref'', ''output_schema_ref'', ''effects'', ''required_capabilities'',
           ''max_execution_seconds''] j then None
      else do {
        i \<leftarrow> de_member ''id'' de_string j;
        a \<leftarrow> de_member ''input_schema_ref'' de_artifact_ref j;
        b \<leftarrow> de_member ''output_schema_ref'' de_artifact_ref j;
        e \<leftarrow> de_member ''effects'' de_string j;
        c \<leftarrow> de_member ''required_capabilities'' (de_list de_action) j;
        m \<leftarrow> de_member ''max_execution_seconds'' de_u32 j;
        Some \<lparr> hc_id = i, hc_input_schema_ref = a, hc_output_schema_ref = b, hc_effects = e,
               hc_required_capabilities = c, hc_max_execution_seconds = m \<rparr> })"

definition de_tool_descriptor :: "json \<Rightarrow> tool_descriptor option" where
  "de_tool_descriptor j =
     (if \<not> only_members [''id'', ''version'', ''input_schema_ref'', ''output_schema_ref'', ''action'', ''effect_class'',
           ''connection_provider'', ''trust''] j then None
      else do {
        i \<leftarrow> de_member ''id'' de_string j;
        v \<leftarrow> de_member ''version'' de_string j;
        a \<leftarrow> de_member ''input_schema_ref'' de_artifact_ref j;
        b \<leftarrow> de_member ''output_schema_ref'' de_artifact_ref j;
        c \<leftarrow> de_member ''action'' de_action j;
        e \<leftarrow> de_member ''effect_class'' de_string j;
        p \<leftarrow> de_opt_member ''connection_provider'' de_string j;
        t \<leftarrow> de_member ''trust'' de_string j;
        Some \<lparr> td_id = i, td_version = v, td_input_schema_ref = a, td_output_schema_ref = b, td_action = c,
               td_effect_class = e, td_connection_provider = p, td_trust = t \<rparr> })"

definition de_execution_class :: "json \<Rightarrow> execution_class option" where
  "de_execution_class j =
     do { s \<leftarrow> de_string j;
          (if s = ''TRUSTED_NATIVE'' then Some TrustedNative
           else if s = ''WASM_COMPONENT'' then Some WasmComponent
           else if s = ''REMOTE_WORKER'' then Some RemoteWorker else None) }"

definition manifest_members :: "string list" where
  "manifest_members = [''id'', ''version'', ''contract_version'', ''artifact_digest'', ''publisher_id'',
     ''execution_class'', ''requested_capabilities'', ''dependencies'', ''ui'', ''migrations'',
     ''license_expression'', ''sbom_digest'', ''signature_ref'', ''handlers'', ''workflows'', ''data_contracts'',
     ''tools'']"

definition de_plugin_manifest :: "json \<Rightarrow> plugin_manifest option" where
  "de_plugin_manifest j =
     (if \<not> only_members manifest_members j then None
      else do {
        i \<leftarrow> de_member ''id'' (de_opaque ''PluginId'') j;
        version \<leftarrow> de_member ''version'' de_string j;
        contract_version \<leftarrow> de_member ''contract_version'' de_string j;
        artifact_digest \<leftarrow> de_member ''artifact_digest'' de_digest j;
        publisher_id \<leftarrow> de_member ''publisher_id'' de_string j;
        execution_class \<leftarrow> de_member ''execution_class'' de_execution_class j;
        requested \<leftarrow> de_member ''requested_capabilities'' (de_list de_action) j;
        dependencies \<leftarrow> de_member ''dependencies'' (de_list de_plugin_dependency) j;
        ui \<leftarrow> de_member ''ui'' (de_list de_ui_contribution) j;
        migrations \<leftarrow> de_member ''migrations'' (de_list de_plugin_migration) j;
        license \<leftarrow> de_member ''license_expression'' de_string j;
        sbom \<leftarrow> de_member ''sbom_digest'' de_digest j;
        signature_ref \<leftarrow> de_member ''signature_ref'' de_string j;
        handlers \<leftarrow> de_member ''handlers'' (de_list de_handler_contract) j;
        workflows \<leftarrow> de_member ''workflows'' (de_list de_artifact_ref) j;
        data_contracts \<leftarrow> de_member ''data_contracts'' (de_list de_artifact_ref) j;
        tools \<leftarrow> de_member ''tools'' (de_list de_tool_descriptor) j;
        Some \<lparr> pl_id = i, pl_version = version, pl_contract_version = contract_version,
               pl_artifact_digest = artifact_digest, pl_publisher_id = publisher_id,
               pl_execution_class = execution_class, pl_requested_capabilities = requested,
               pl_dependencies = dependencies, pl_ui = ui, pl_migrations = migrations,
               pl_license_expression = license, pl_sbom_digest = sbom, pl_signature_ref = signature_ref,
               pl_handlers = handlers, pl_workflows = workflows, pl_data_contracts = data_contracts,
               pl_tools = tools \<rparr> })"

definition de_workflow_node :: "json \<Rightarrow> workflow_node option" where
  "de_workflow_node j =
     (if \<not> only_members [''id'', ''kind'', ''handler_id'', ''input_schema_ref'', ''output_schema_ref'',
           ''max_attempts'', ''timeout_seconds'', ''max_iterations'', ''on_failure''] j then None
      else do {
        i \<leftarrow> de_member ''id'' de_string j;
        k \<leftarrow> de_member ''kind'' de_string j;
        h \<leftarrow> de_opt_member ''handler_id'' de_string j;
        a \<leftarrow> de_member ''input_schema_ref'' de_artifact_ref j;
        b \<leftarrow> de_member ''output_schema_ref'' de_artifact_ref j;
        m \<leftarrow> de_member ''max_attempts'' de_u32 j;
        t \<leftarrow> de_member ''timeout_seconds'' de_u32 j;
        n \<leftarrow> de_member ''max_iterations'' de_u32 j;
        f \<leftarrow> de_member ''on_failure'' de_string j;
        Some \<lparr> wn_id = i, wn_kind = k, wn_handler_id = h, wn_input_schema_ref = a, wn_output_schema_ref = b,
               wn_max_attempts = m, wn_timeout_seconds = t, wn_max_iterations = n, wn_on_failure = f \<rparr> })"

definition de_workflow_edge :: "json \<Rightarrow> workflow_edge option" where
  "de_workflow_edge j =
     (if \<not> only_members [''from'', ''to'', ''condition''] j then None
      else do {
        a \<leftarrow> de_member ''from'' de_string j;
        b \<leftarrow> de_member ''to'' de_string j;
        c \<leftarrow> de_member ''condition'' de_string j;
        Some \<lparr> we_from = a, we_to = b, we_condition = c \<rparr> })"

definition de_workflow_definition :: "json \<Rightarrow> workflow_definition option" where
  "de_workflow_definition j =
     (if \<not> only_members [''id'', ''version'', ''input_schema_ref'', ''output_schema_ref'', ''entry_node'', ''nodes'',
           ''edges'', ''max_total_steps'', ''max_model_turns'', ''required_actions'', ''digest''] j then None
      else do {
        i \<leftarrow> de_member ''id'' de_string j;
        v \<leftarrow> de_member ''version'' de_string j;
        a \<leftarrow> de_member ''input_schema_ref'' de_artifact_ref j;
        b \<leftarrow> de_member ''output_schema_ref'' de_artifact_ref j;
        e \<leftarrow> de_member ''entry_node'' de_string j;
        ns \<leftarrow> de_member ''nodes'' (de_list de_workflow_node) j;
        es \<leftarrow> de_member ''edges'' (de_list de_workflow_edge) j;
        m \<leftarrow> de_member ''max_total_steps'' de_u32 j;
        t \<leftarrow> de_member ''max_model_turns'' de_u32 j;
        r \<leftarrow> de_member ''required_actions'' (de_list de_action) j;
        d \<leftarrow> de_member ''digest'' de_digest j;
        Some \<lparr> wd_id = i, wd_version = v, wd_input_schema_ref = a, wd_output_schema_ref = b, wd_entry_node = e,
               wd_nodes = ns, wd_edges = es, wd_max_total_steps = m, wd_max_model_turns = t,
               wd_required_actions = r, wd_digest = d \<rparr> })"

section \<open>Writers\<close>

abbreviation ser_strings :: "string list \<Rightarrow> json" where
  "ser_strings xs \<equiv> JArr (map JStr xs)"

abbreviation ser_u32 :: "u32 \<Rightarrow> json" where
  "ser_u32 n \<equiv> JNum (uint n)"

definition ser_plugin_dependency :: "plugin_dependency \<Rightarrow> json" where
  "ser_plugin_dependency d =
     JObj [(''plugin_id'', JStr (pd_plugin_id d)), (''contract_range'', JStr (pd_contract_range d)),
           (''optional'', JBool (pd_optional d))]"

definition ser_ui_contribution :: "ui_contribution \<Rightarrow> json" where
  "ser_ui_contribution u =
     JObj [(''id'', JStr (uc_id u)), (''slot'', JStr (uc_slot u)), (''path'', JStr (uc_path u)),
           (''ui_contract_version'', JStr (uc_ui_contract_version u)), (''trust'', JStr (uc_trust u)),
           (''required_action'', JStr (uc_required_action u))]"

definition ser_plugin_migration :: "plugin_migration \<Rightarrow> json" where
  "ser_plugin_migration m =
     JObj [(''id'', JStr (mg_id m)), (''digest'', JStr (mg_digest m)), (''compatibility'', JStr (mg_compatibility m)),
           (''reversible'', JBool (mg_reversible m))]"

definition ser_handler_contract :: "handler_contract \<Rightarrow> json" where
  "ser_handler_contract h =
     JObj [(''id'', JStr (hc_id h)), (''input_schema_ref'', ser_artifact_ref (hc_input_schema_ref h)),
           (''output_schema_ref'', ser_artifact_ref (hc_output_schema_ref h)), (''effects'', JStr (hc_effects h)),
           (''required_capabilities'', ser_strings (hc_required_capabilities h)),
           (''max_execution_seconds'', ser_u32 (hc_max_execution_seconds h))]"

definition ser_tool_descriptor :: "tool_descriptor \<Rightarrow> json" where
  "ser_tool_descriptor t =
     JObj [(''id'', JStr (td_id t)), (''version'', JStr (td_version t)),
           (''input_schema_ref'', ser_artifact_ref (td_input_schema_ref t)),
           (''output_schema_ref'', ser_artifact_ref (td_output_schema_ref t)), (''action'', JStr (td_action t)),
           (''effect_class'', JStr (td_effect_class t)),
           (''connection_provider'', ser_option JStr (td_connection_provider t)), (''trust'', JStr (td_trust t))]"

definition execution_class_as_str :: "execution_class \<Rightarrow> string" where
  "execution_class_as_str c =
     (case c of TrustedNative \<Rightarrow> ''TRUSTED_NATIVE'' | WasmComponent \<Rightarrow> ''WASM_COMPONENT''
              | RemoteWorker \<Rightarrow> ''REMOTE_WORKER'')"

definition ser_plugin_manifest :: "plugin_manifest \<Rightarrow> json" where
  "ser_plugin_manifest m =
     JObj [(''id'', JStr (pl_id m)), (''version'', JStr (pl_version m)),
           (''contract_version'', JStr (pl_contract_version m)), (''artifact_digest'', JStr (pl_artifact_digest m)),
           (''publisher_id'', JStr (pl_publisher_id m)),
           (''execution_class'', JStr (execution_class_as_str (pl_execution_class m))),
           (''requested_capabilities'', ser_strings (pl_requested_capabilities m)),
           (''dependencies'', JArr (map ser_plugin_dependency (pl_dependencies m))),
           (''ui'', JArr (map ser_ui_contribution (pl_ui m))),
           (''migrations'', JArr (map ser_plugin_migration (pl_migrations m))),
           (''license_expression'', JStr (pl_license_expression m)), (''sbom_digest'', JStr (pl_sbom_digest m)),
           (''signature_ref'', JStr (pl_signature_ref m)),
           (''handlers'', JArr (map ser_handler_contract (pl_handlers m))),
           (''workflows'', JArr (map ser_artifact_ref (pl_workflows m))),
           (''data_contracts'', JArr (map ser_artifact_ref (pl_data_contracts m))),
           (''tools'', JArr (map ser_tool_descriptor (pl_tools m)))]"

definition ser_workflow_node :: "workflow_node \<Rightarrow> json" where
  "ser_workflow_node n =
     JObj [(''id'', JStr (wn_id n)), (''kind'', JStr (wn_kind n)), (''handler_id'', ser_option JStr (wn_handler_id n)),
           (''input_schema_ref'', ser_artifact_ref (wn_input_schema_ref n)),
           (''output_schema_ref'', ser_artifact_ref (wn_output_schema_ref n)),
           (''max_attempts'', ser_u32 (wn_max_attempts n)), (''timeout_seconds'', ser_u32 (wn_timeout_seconds n)),
           (''max_iterations'', ser_u32 (wn_max_iterations n)), (''on_failure'', JStr (wn_on_failure n))]"

definition ser_workflow_edge :: "workflow_edge \<Rightarrow> json" where
  "ser_workflow_edge e =
     JObj [(''from'', JStr (we_from e)), (''to'', JStr (we_to e)), (''condition'', JStr (we_condition e))]"

definition ser_workflow_definition :: "workflow_definition \<Rightarrow> json" where
  "ser_workflow_definition w =
     JObj [(''id'', JStr (wd_id w)), (''version'', JStr (wd_version w)),
           (''input_schema_ref'', ser_artifact_ref (wd_input_schema_ref w)),
           (''output_schema_ref'', ser_artifact_ref (wd_output_schema_ref w)),
           (''entry_node'', JStr (wd_entry_node w)), (''nodes'', JArr (map ser_workflow_node (wd_nodes w))),
           (''edges'', JArr (map ser_workflow_edge (wd_edges w))),
           (''max_total_steps'', ser_u32 (wd_max_total_steps w)),
           (''max_model_turns'', ser_u32 (wd_max_model_turns w)),
           (''required_actions'', ser_strings (wd_required_actions w)), (''digest'', JStr (wd_digest w))]"

section \<open>Reading back\<close>

definition action_ok :: "action \<Rightarrow> bool" where
  "action_ok a \<longleftrightarrow> action_new a = Inr a"

lemma de_action_iff: "de_action (JStr a) = Some b \<longleftrightarrow> action_new a = Inr b"
  by (auto simp: de_action_def split: sum.splits)

lemma de_list_map:
  "(\<And>x. x \<in> set xs \<Longrightarrow> de (ser x) = Some x) \<Longrightarrow> de_list de (JArr (map ser xs)) = Some xs"
  by (induction xs) auto

lemma de_opt_member_ser [simp]:
  "json_get name j = Some (ser_option JStr x) \<Longrightarrow> de_opt_member name de_string j = Some x"
  by (cases x) (simp_all add: de_opt_member_def ser_option_def)

lemma de_u32_ser [simp]: "de_u32 (ser_u32 n) = Some n"
  using uint_bounded [of n] uint_ge_0 [of n] by simp

definition handler_readable :: "handler_contract \<Rightarrow> bool" where
  "handler_readable h \<longleftrightarrow> artifact_ref_ok (hc_input_schema_ref h) \<and> artifact_ref_ok (hc_output_schema_ref h)
     \<and> list_all action_ok (hc_required_capabilities h)"

definition tool_readable :: "tool_descriptor \<Rightarrow> bool" where
  "tool_readable t \<longleftrightarrow> artifact_ref_ok (td_input_schema_ref t) \<and> artifact_ref_ok (td_output_schema_ref t)
     \<and> action_ok (td_action t)"

definition manifest_readable :: "plugin_manifest \<Rightarrow> bool" where
  "manifest_readable m \<longleftrightarrow> opaque_ok (pl_id m) \<and> is_ok (digest_parse (pl_artifact_digest m))
     \<and> is_ok (digest_parse (pl_sbom_digest m)) \<and> list_all action_ok (pl_requested_capabilities m)
     \<and> list_all (\<lambda>d. opaque_ok (pd_plugin_id d)) (pl_dependencies m)
     \<and> list_all (\<lambda>u. action_ok (uc_required_action u)) (pl_ui m)
     \<and> list_all (\<lambda>g. is_ok (digest_parse (mg_digest g))) (pl_migrations m)
     \<and> list_all handler_readable (pl_handlers m) \<and> list_all artifact_ref_ok (pl_workflows m)
     \<and> list_all artifact_ref_ok (pl_data_contracts m) \<and> list_all tool_readable (pl_tools m)"

lemma de_action_ok [simp]: "action_ok a \<Longrightarrow> de_action (JStr a) = Some a"
  by (simp add: de_action_iff action_ok_def)

lemma de_digest_ok [simp]: "is_ok (digest_parse d) \<Longrightarrow> de_digest (JStr d) = Some d"
  by (simp add: digest_parse_Inr_same [THEN iffD2])

lemma plugin_dependency_roundtrip:
  "opaque_ok (pd_plugin_id d) \<Longrightarrow> de_plugin_dependency (ser_plugin_dependency d) = Some d"
  by (simp add: de_plugin_dependency_def ser_plugin_dependency_def de_member_def list_all_iff)

lemma ui_contribution_roundtrip:
  "action_ok (uc_required_action u) \<Longrightarrow> de_ui_contribution (ser_ui_contribution u) = Some u"
  by (simp add: de_ui_contribution_def ser_ui_contribution_def de_member_def list_all_iff)

lemma plugin_migration_roundtrip:
  "is_ok (digest_parse (mg_digest g)) \<Longrightarrow> de_plugin_migration (ser_plugin_migration g) = Some g"
  by (simp add: de_plugin_migration_def ser_plugin_migration_def de_member_def list_all_iff
      del: de_digest_JStr)

lemma actions_roundtrip: "list_all action_ok xs \<Longrightarrow> de_list de_action (ser_strings xs) = Some xs"
  by (rule de_list_map) (simp add: list_all_iff)

lemma handler_contract_roundtrip:
  "handler_readable h \<Longrightarrow> de_handler_contract (ser_handler_contract h) = Some h"
  by (simp add: de_handler_contract_def ser_handler_contract_def handler_readable_def de_member_def
      artifact_ref_roundtrip actions_roundtrip del: de_u32.simps de_list.simps)

lemma tool_descriptor_roundtrip:
  "tool_readable t \<Longrightarrow> de_tool_descriptor (ser_tool_descriptor t) = Some t"
  by (simp add: de_tool_descriptor_def ser_tool_descriptor_def tool_readable_def de_member_def
      artifact_ref_roundtrip)

lemma execution_class_roundtrip [simp]: "de_execution_class (JStr (execution_class_as_str c)) = Some c"
  by (cases c) (simp_all add: de_execution_class_def execution_class_as_str_def)

lemmas list_roundtrips =
  de_list_map [of _ de_plugin_dependency ser_plugin_dependency, OF plugin_dependency_roundtrip]
  de_list_map [of _ de_ui_contribution ser_ui_contribution, OF ui_contribution_roundtrip]
  de_list_map [of _ de_plugin_migration ser_plugin_migration, OF plugin_migration_roundtrip]
  de_list_map [of _ de_handler_contract ser_handler_contract, OF handler_contract_roundtrip]
  de_list_map [of _ de_tool_descriptor ser_tool_descriptor, OF tool_descriptor_roundtrip]
  de_list_map [of _ de_artifact_ref ser_artifact_ref, OF artifact_ref_roundtrip]

lemma manifest_roundtrip:
  assumes "manifest_readable m"
  shows "de_plugin_manifest (ser_plugin_manifest m) = Some m"
proof -
  note parts = assms [unfolded manifest_readable_def list_all_iff]
  from parts show ?thesis
    by (simp add: de_plugin_manifest_def ser_plugin_manifest_def manifest_members_def de_member_def
        list_roundtrips actions_roundtrip list_all_iff del: de_list.simps de_digest_JStr)
qed

section \<open>Installation checks\<close>

text \<open>Ed25519 and semantic versions, as the sources call them.\<close>

record trust_tools =
  tt_key_ok :: "string \<Rightarrow> bool"
  tt_signature_ok :: "string \<Rightarrow> bool"
  tt_verify_strict :: "string \<Rightarrow> string \<Rightarrow> string \<Rightarrow> bool"
  tt_version_ok :: "string \<Rightarrow> bool"
  tt_version_le :: "string \<Rightarrow> string \<Rightarrow> bool"
  tt_range_ok :: "string \<Rightarrow> bool"
  tt_matches :: "string \<Rightarrow> string \<Rightarrow> bool"

definition manifest_invalid :: command_failure where
  "manifest_invalid = invalid ''MANIFEST_INVALID''"

definition signature_invalid :: command_failure where
  "signature_invalid = precondition ''SIGNATURE_INVALID''"

definition workflow_invalid :: command_failure where
  "workflow_invalid = precondition ''WORKFLOW_INVALID''"

record locked_plugin =
  lp_plugin_id :: plugin_id
  lp_artifact_digest :: digest
  lp_contract_version :: string

record plugin_lock =
  lk_schema_version :: string
  lk_product_id :: plugin_id
  lk_plugins :: "locked_plugin list"

fun remove_member :: "string \<Rightarrow> json \<Rightarrow> json" where
  "remove_member k (JObj members) = JObj (filter (\<lambda>(k', _). k' \<noteq> k) members)"
| "remove_member k j = j"

definition manifest_digest :: "platform \<Rightarrow> plugin_manifest \<Rightarrow> digest outcome" where
  "manifest_digest pf manifest =
     rbind (ok_or manifest_invalid (pf_canonical pf (remove_member ''signature_ref'' (ser_plugin_manifest manifest))))
       (\<lambda>bytes. Inr (digest_bytes pf bytes))"

definition manifest_signing_message :: "platform \<Rightarrow> plugin_manifest \<Rightarrow> string outcome" where
  "manifest_signing_message pf manifest =
     rbind (manifest_digest pf manifest) (\<lambda>digest.
     ok_or manifest_invalid (pf_canonical pf
       (JObj [(''purpose'', JStr ''masonwing.plugin-manifest.v1''),
              (''publisher_id'', JStr (pl_publisher_id manifest)),
              (''artifact_digest'', JStr (pl_artifact_digest manifest)),
              (''manifest_digest'', JStr digest)])))"

definition verify_signature ::
    "platform \<Rightarrow> trust_tools \<Rightarrow> plugin_manifest \<Rightarrow> string \<Rightarrow> string \<Rightarrow> unit outcome" where
  "verify_signature pf tt manifest key signature =
     (if length key \<noteq> 32 then Inl signature_invalid
      else if \<not> tt_key_ok tt key then Inl signature_invalid
      else if \<not> tt_signature_ok tt signature then Inl signature_invalid
      else
      rbind (manifest_signing_message pf manifest) (\<lambda>message.
      if tt_verify_strict tt key message signature then Inr () else Inl signature_invalid))"

definition check_handler ::
    "string list \<Rightarrow> tenant_id \<Rightarrow> handler_contract \<Rightarrow> string list \<Rightarrow> string list outcome" where
  "check_handler requested tenant handler handlers =
     (if List.member handlers (hc_id handler)
         \<or> list_ex (\<lambda>a. \<not> List.member requested a) (hc_required_capabilities handler)
      then Inl (precondition ''EXTENSION_SCOPE_DENIED'')
      else if ar_tenant_id (hc_input_schema_ref handler) \<noteq> tenant
         \<or> ar_tenant_id (hc_output_schema_ref handler) \<noteq> tenant
      then Inl not_found
      else Inr (hc_id handler # handlers))"

definition check_tool ::
    "string list \<Rightarrow> tenant_id \<Rightarrow> tool_descriptor \<Rightarrow> string list \<Rightarrow> string list outcome" where
  "check_tool requested tenant tool tools =
     (if List.member tools (td_id tool) \<or> \<not> List.member requested (td_action tool)
      then Inl (precondition ''EXTENSION_SCOPE_DENIED'')
      else if ar_tenant_id (td_input_schema_ref tool) \<noteq> tenant \<or> ar_tenant_id (td_output_schema_ref tool) \<noteq> tenant
      then Inl not_found
      else Inr (td_id tool # tools))"

text \<open>The two sets a contribution is entered in are carried as lists.\<close>

definition check_ui ::
    "string list \<Rightarrow> string \<Rightarrow> ui_contribution \<Rightarrow> string list \<times> (string \<times> string) list
     \<Rightarrow> (string list \<times> (string \<times> string) list) outcome" where
  "check_ui known path_prefix ui seen =
     (if List.member (fst seen) (uc_id ui)
         \<or> List.member (snd seen) (uc_path ui, uc_slot ui)
         \<or> strip_prefix path_prefix (uc_path ui) = None
         \<or> 1024 < length (uc_path ui)
         \<or> list_ex (\<lambda>b. byte b \<le> 32 \<or> byte b = 92 \<or> List.member ''%?#'' b) (uc_path ui)
         \<or> list_ex (\<lambda>part. part = ''.'' \<or> part = ''..'') (split_on (CHR ''/'') (uc_path ui))
         \<or> sublist ''//'' (uc_path ui)
         \<or> \<not> List.member known (uc_required_action ui)
         \<or> uc_ui_contract_version ui \<noteq> ''1.0.0''
      then Inl (precondition ''EXTENSION_SCOPE_DENIED'')
      else Inr (uc_id ui # fst seen, (uc_path ui, uc_slot ui) # snd seen))"

definition validate_manifest ::
    "schema_catalog validated \<Rightarrow> plugin_manifest \<Rightarrow> tenant_id \<Rightarrow> string list \<Rightarrow> unit outcome" where
  "validate_manifest shared manifest tenant known =
     rbind (map_err (\<lambda>_. unavailable ''CONTRACT_CATALOG_INVALID'') shared) (\<lambda>catalog.
     rbind (map_err (\<lambda>_. manifest_invalid)
             (catalog_validate catalog ''PluginManifest'' (ser_plugin_manifest manifest))) (\<lambda>_.
     if pl_contract_version manifest \<noteq> ''1.0.0'' then Inl (precondition ''CONTRACT_UNSUPPORTED'')
     else let requested = pl_requested_capabilities manifest in
     if \<not> distinct requested then Inl manifest_invalid
     else if list_ex (\<lambda>a. \<not> List.member known a) requested then Inl (precondition ''CONFIG_UNSUPPORTED'')
     else
     rbind (rfold (check_handler requested tenant) (pl_handlers manifest) []) (\<lambda>_.
     rbind (rfold (check_tool requested tenant) (pl_tools manifest) []) (\<lambda>_.
     if list_ex (\<lambda>a. ar_tenant_id a \<noteq> tenant) (pl_workflows manifest @ pl_data_contracts manifest)
     then Inl not_found
     else
     rbind (rfold (check_ui known (''/plugins/'' @ pl_id manifest @ ''/'')) (pl_ui manifest) ([], [])) (\<lambda>_.
     Inr ())))))"

section \<open>Resolution of a set of manifests\<close>

text \<open>A \<open>BTreeMap<PluginId, PluginManifest>\<close>: an association list in the order of its keys.\<close>

type_synonym manifests = "(plugin_id \<times> plugin_manifest) list"

definition manifest_edge ::
    "trust_tools \<Rightarrow> manifests \<Rightarrow> plugin_dependency \<Rightarrow> plugin_id list \<times> plugin_id list
     \<Rightarrow> (plugin_id list \<times> plugin_id list) outcome" where
  "manifest_edge tt manifests dependency acc =
     (let i = pd_plugin_id dependency; seen = i # fst acc in
      if List.member (fst acc) i then Inl manifest_invalid
      else if \<not> tt_range_ok tt (pd_contract_range dependency) then Inl manifest_invalid
      else case map_of manifests i of
        None \<Rightarrow> if pd_optional dependency then Inr (seen, snd acc)
                 else Inl (precondition ''DEPENDENCY_UNSATISFIED'')
      | Some target \<Rightarrow>
          if \<not> tt_version_ok tt (pl_contract_version target) then Inl manifest_invalid
          else if \<not> tt_matches tt (pd_contract_range dependency) (pl_contract_version target)
          then Inl (precondition ''DEPENDENCY_UNSATISFIED'')
          else Inr (seen, snd acc @ [i]))"

definition manifest_edges :: "trust_tools \<Rightarrow> manifests \<Rightarrow> plugin_manifest \<Rightarrow> plugin_id list outcome" where
  "manifest_edges tt manifests manifest =
     rbind (rfold (manifest_edge tt manifests) (pl_dependencies manifest) ([], [])) (\<lambda>acc. Inr (snd acc))"

definition manifest_graph :: "trust_tools \<Rightarrow> manifests \<Rightarrow> dependency_graph outcome" where
  "manifest_graph tt manifests =
     rfold (\<lambda>(i, manifest) graph.
         rbind (manifest_edges tt manifests manifest) (\<lambda>edges. Inr (graph_insert graph i edges)))
       manifests []"

definition registry_failure :: "registry_error \<Rightarrow> command_failure" where
  "registry_failure e =
     (case e of DependencyCycle path \<Rightarrow> precondition ''DEPENDENCY_CYCLE''
              | DependencyUnsatisfied p \<Rightarrow> precondition ''DEPENDENCY_UNSATISFIED'')"

definition append_new :: "plugin_id list \<Rightarrow> plugin_id list \<Rightarrow> plugin_id list" where
  "append_new plan ordered =
     foldl (\<lambda>ordered resolved. if List.member ordered resolved then ordered else ordered @ [resolved]) ordered plan"

definition resolve_manifests :: "trust_tools \<Rightarrow> manifests \<Rightarrow> plugin_id list outcome" where
  "resolve_manifests tt manifests =
     (if 512 < length manifests then Inl (precondition ''REGISTRY_CAPACITY'')
      else
      rbind (manifest_graph tt manifests) (\<lambda>graph.
      rfold (\<lambda>i ordered.
          rbind (map_err registry_failure (resolve graph i)) (\<lambda>plan. Inr (append_new plan ordered)))
        (map fst manifests) []))"

definition validate_lock :: "plugin_lock \<Rightarrow> string \<Rightarrow> unit outcome" where
  "validate_lock lock product =
     (if lk_schema_version lock \<noteq> ''1.0.0'' \<or> lk_product_id lock \<noteq> product
         \<or> lk_plugins lock = [] \<or> 100 < length (lk_plugins lock)
      then Inl (invalid ''PLUGIN_LOCK_INVALID'')
      else if \<not> distinct (map lp_plugin_id (lk_plugins lock))
         \<or> list_ex (\<lambda>p. lp_contract_version p \<noteq> ''1.0.0'') (lk_plugins lock)
      then Inl (invalid ''PLUGIN_LOCK_INVALID'')
      else Inr ())"

section \<open>Workflow definitions\<close>

definition check_node :: "workflow_definition \<Rightarrow> plugin_manifest \<Rightarrow> workflow_node \<Rightarrow> unit outcome" where
  "check_node d manifest n =
     (case wn_handler_id n of
        Some h \<Rightarrow>
          rbind (ok_or workflow_invalid (find (\<lambda>c. hc_id c = h) (pl_handlers manifest))) (\<lambda>handler.
          if wn_input_schema_ref n \<noteq> hc_input_schema_ref handler
             \<or> wn_output_schema_ref n \<noteq> hc_output_schema_ref handler
             \<or> wn_timeout_seconds n > hc_max_execution_seconds handler
             \<or> list_ex (\<lambda>a. \<not> List.member (wd_required_actions d) a) (hc_required_capabilities handler)
          then Inl workflow_invalid else Inr ())
      | None \<Rightarrow>
          if wn_kind n = ''DETERMINISTIC'' \<or> wn_kind n = ''ACTIVITY'' then Inl workflow_invalid else Inr ())"

text \<open>\<open>unbounded\<close>: the graph of the nodes that are not bounded loops.\<close>

definition unbounded_next :: "(string \<times> workflow_node) list \<Rightarrow> workflow_definition \<Rightarrow> string \<Rightarrow> plugin_id list outcome" where
  "unbounded_next nodes d i =
     rfold (\<lambda>n next. rbind (map_err (\<lambda>_. workflow_invalid) (opaque_id_new ''PluginId'' (wn_id n)))
                       (\<lambda>p. Inr (next @ [p])))
       (filter (\<lambda>n. wn_kind n \<noteq> ''BOUNDED_LOOP'')
          (List.map_filter (\<lambda>e. map_of nodes (we_to e)) (filter (\<lambda>e. we_from e = i) (wd_edges d))))
       []"

definition unbounded_insert ::
    "(string \<times> workflow_node) list \<Rightarrow> workflow_definition \<Rightarrow> workflow_node \<Rightarrow> dependency_graph
     \<Rightarrow> dependency_graph outcome" where
  "unbounded_insert nodes d n graph =
     (if wn_kind n = ''BOUNDED_LOOP'' then Inr graph
      else
      rbind (unbounded_next nodes d (wn_id n)) (\<lambda>next.
      rbind (map_err (\<lambda>_. workflow_invalid) (opaque_id_new ''PluginId'' (wn_id n))) (\<lambda>p.
      Inr (graph_insert graph p next))))"

definition check_edge ::
    "(string \<times> workflow_node) list \<Rightarrow> workflow_edge \<Rightarrow> (string \<times> string) list
     \<Rightarrow> (string \<times> string) list outcome" where
  "check_edge nodes e edges =
     (if map_of nodes (we_from e) = None \<or> map_of nodes (we_to e) = None
         \<or> List.member edges (we_from e, we_condition e)
      then Inl workflow_invalid else Inr ((we_from e, we_condition e) # edges))"

definition check_resolves :: "dependency_graph \<Rightarrow> workflow_node \<Rightarrow> unit outcome" where
  "check_resolves graph n =
     (if wn_kind n = ''BOUNDED_LOOP'' then Inr ()
      else
      rbind (map_err (\<lambda>_. workflow_invalid) (opaque_id_new ''PluginId'' (wn_id n))) (\<lambda>p.
      if is_ok (resolve graph p) then Inr () else Inl workflow_invalid))"

definition validate_workflow ::
    "platform \<Rightarrow> schema_catalog validated \<Rightarrow> workflow_definition \<Rightarrow> plugin_manifest \<Rightarrow> unit outcome" where
  "validate_workflow pf shared d manifest =
     (let val = ser_workflow_definition d; nodes = btree_from (map (\<lambda>n. (wn_id n, n)) (wd_nodes d)) in
     rbind (map_err (\<lambda>_. unavailable ''CONTRACT_CATALOG_INVALID'') shared) (\<lambda>catalog.
     rbind (map_err (\<lambda>_. workflow_invalid) (catalog_validate catalog ''WorkflowDefinition'' val)) (\<lambda>_.
     rbind (ok_or workflow_invalid (pf_canonical pf (remove_member ''digest'' val))) (\<lambda>bytes.
     if digest_bytes pf bytes \<noteq> wd_digest d then Inl workflow_invalid
     else if length nodes \<noteq> length (wd_nodes d) \<or> map_of nodes (wd_entry_node d) = None then Inl workflow_invalid
     else if list_ex (\<lambda>a. \<not> List.member (pl_requested_capabilities manifest) a) (wd_required_actions d)
     then Inl workflow_invalid
     else
     rbind (rfold (\<lambda>n _. check_node d manifest n) (wd_nodes d) ()) (\<lambda>_.
     rbind (rfold (unbounded_insert nodes d) (wd_nodes d) []) (\<lambda>graph.
     rbind (rfold (check_edge nodes) (wd_edges d) []) (\<lambda>_.
     rfold (\<lambda>n _. check_resolves graph n) (wd_nodes d) ())))))))"

section \<open>Accepted workflows\<close>

lemma map_of_btree_from: "map_of (btree_from kvs) = map_of (rev kvs)"
  by (induction kvs rule: rev_induct) (auto simp: btree_from_def)

lemma node_of_map: "map_of (btree_from (map (\<lambda>n. (wn_id n, n)) ns)) a = Some n \<Longrightarrow> n \<in> set ns \<and> wn_id n = a"
  by (auto simp: map_of_btree_from dest: map_of_SomeD)

lemma rfold_unit_iff: "rfold (\<lambda>x _. f x) xs () = Inr () \<longleftrightarrow> (\<forall>x \<in> set xs. f x = Inr ())"
  by (induction xs) (auto simp: rbind_Inr_iff)

lemma unbounded_next_Inr:
  assumes "unbounded_next nodes d i = Inr next" and "e \<in> set (wd_edges d)" and "we_from e = i"
    and "map_of nodes (we_to e) = Some n" and "wn_kind n \<noteq> ''BOUNDED_LOOP''"
  shows "wn_id n \<in> set next"
proof -
  have push: "rfold (\<lambda>n next. rbind (map_err (\<lambda>_. workflow_invalid) (opaque_id_new ''PluginId'' (wn_id n)))
      (\<lambda>p. Inr (next @ [p]))) ns acc = Inr r \<Longrightarrow> r = acc @ map wn_id ns" for ns acc r
    by (induction ns arbitrary: acc) (fastforce simp: rbind_Inr_iff map_err_Inr_iff opaque_new_Inr)+
  from push [OF assms(1) [unfolded unbounded_next_def]] assms(2-) show ?thesis
    by (force simp: List.map_filter_def)
qed

lemma unbounded_graph:
  "rfold (unbounded_insert nodes d) ns [] = Inr g \<Longrightarrow>
     (\<forall>n \<in> set ns. wn_kind n \<noteq> ''BOUNDED_LOOP'' \<longrightarrow>
        (\<exists>next. unbounded_next nodes d (wn_id n) = Inr next \<and> map_of g (wn_id n) = Some next))"
proof (induction ns arbitrary: g rule: rev_induct)
  case Nil
  then show ?case by simp
next
  case (snoc n ns)
  from snoc.prems obtain g0 where g0: "rfold (unbounded_insert nodes d) ns [] = Inr g0"
    and g: "unbounded_insert nodes d n g0 = Inr g"
    by (auto simp: rfold_append rbind_Inr_iff)
  from snoc.IH [OF g0] g show ?case
    by (auto simp: unbounded_insert_def rbind_Inr_iff map_err_Inr_iff opaque_new_Inr graph_insert_def
        update_conv split: if_split_asm)
qed

lemma edges_checked:
  "rfold (check_edge nodes) es acc = Inr r \<Longrightarrow> e \<in> set es \<Longrightarrow>
     map_of nodes (we_from e) \<noteq> None \<and> map_of nodes (we_to e) \<noteq> None"
  by (induction es arbitrary: acc) (auto simp: rbind_Inr_iff check_edge_def split: if_split_asm)

lemma validate_workflow_Inr:
  assumes "validate_workflow pf shared d manifest = Inr ()"
  obtains nodes g r where "nodes = btree_from (map (\<lambda>n. (wn_id n, n)) (wd_nodes d))"
    and "rfold (unbounded_insert nodes d) (wd_nodes d) [] = Inr g"
    and "rfold (check_edge nodes) (wd_edges d) [] = Inr r"
    and "\<forall>n \<in> set (wd_nodes d). check_node d manifest n = Inr () \<and> check_resolves g n = Inr ()"
    and "set (wd_required_actions d) \<subseteq> set (pl_requested_capabilities manifest)"
  using assms unfolding validate_workflow_def Let_def
  by (simp only: rbind_Inr_iff rfold_unit_iff split: if_split_asm) (auto simp: list_ex_iff rfold_unit_iff)

lemma unbounded_cycle_refused:
  assumes "rfold (unbounded_insert nodes d) (wd_nodes d) [] = Inr g"
    and "rfold (check_edge nodes) (wd_edges d) [] = Inr r"
    and "nodes = btree_from (map (\<lambda>n. (wn_id n, n)) (wd_nodes d))"
    and "\<forall>n \<in> set (wd_nodes d). wn_id n \<in> A \<longrightarrow> wn_kind n \<noteq> ''BOUNDED_LOOP''"
    and "e \<in> set (wd_edges d)" and "we_from e \<in> A" and "we_to e \<in> A"
  shows "depends g (we_from e) (we_to e)"
proof -
  from edges_checked [OF assms(2,5)] obtain n m where
    "map_of nodes (we_from e) = Some n" and m: "map_of nodes (we_to e) = Some m" by auto
  with assms(3) have n: "n \<in> set (wd_nodes d)" "wn_id n = we_from e"
    and m': "m \<in> set (wd_nodes d)" "wn_id m = we_to e" by (auto dest: node_of_map)
  from n m' assms(4,6,7) have k: "wn_kind n \<noteq> ''BOUNDED_LOOP''" "wn_kind m \<noteq> ''BOUNDED_LOOP''" by auto
  from unbounded_graph [OF assms(1)] n k obtain nx where
    "unbounded_next nodes d (we_from e) = Inr nx" and g: "map_of g (we_from e) = Some nx" by fastforce
  from unbounded_next_Inr [OF this(1) assms(5) refl m k(2)] m' g show ?thesis by (auto simp: depends_def)
qed

text \<open>
  C34: every cycle of an accepted workflow is bounded. A closed path along the edges of a definition
  that passed validation goes through a node of kind \<open>BOUNDED_LOOP\<close>, whose iterations are limited.
\<close>

theorem workflow_cycles_are_bounded:
  assumes "validate_workflow pf shared d manifest = Inr ()"
    and "2 \<le> length path" and "hd path = last path"
    and "successively (\<lambda>a b. \<exists>e \<in> set (wd_edges d). we_from e = a \<and> we_to e = b) path"
  shows "\<exists>n \<in> set (wd_nodes d). wn_id n \<in> set path \<and> wn_kind n = ''BOUNDED_LOOP''"
proof (rule ccontr)
  assume none: "\<not> (\<exists>n \<in> set (wd_nodes d). wn_id n \<in> set path \<and> wn_kind n = ''BOUNDED_LOOP'')"
  from assms(1) obtain nodes g r where v: "rfold (unbounded_insert nodes d) (wd_nodes d) [] = Inr g"
    "rfold (check_edge nodes) (wd_edges d) [] = Inr r"
    "nodes = btree_from (map (\<lambda>n. (wn_id n, n)) (wd_nodes d))"
    and res: "\<forall>n \<in> set (wd_nodes d). check_node d manifest n = Inr () \<and> check_resolves g n = Inr ()"
    by (rule validate_workflow_Inr) blast
  have dep: "a \<in> set path \<Longrightarrow> b \<in> set path \<Longrightarrow> \<exists>e \<in> set (wd_edges d). we_from e = a \<and> we_to e = b
      \<Longrightarrow> depends g a b" for a b
    using unbounded_cycle_refused [OF v, of "set path"] none by blast
  have "successively (depends g) path"
    by (rule successively_mono [OF assms(4)]) (use dep in blast)
  with assms(2,3) have c: "cycle_path g path" by (simp add: cycle_path_def)
  from assms(2) obtain a b rest where path: "path = a # b # rest"
    by (metis One_nat_def Suc_1 Suc_le_length_iff)
  with assms(4) obtain e where "e \<in> set (wd_edges d)" "we_from e = a" by auto
  with edges_checked [OF v(2)] obtain n where "map_of nodes a = Some n" by fastforce
  with v(3) have n: "n \<in> set (wd_nodes d)" "wn_id n = a" by (auto dest: node_of_map)
  with none path have "wn_kind n \<noteq> ''BOUNDED_LOOP''" by auto
  with n res obtain plan where plan: "resolve g a = Inr plan"
    by (auto simp: check_resolves_def rbind_Inr_iff map_err_Inr_iff opaque_new_Inr is_ok_iff split: if_split_asm)
  from resolve_ok [OF plan] have "a \<in> set plan" by (metis last_in_set)
  from topological_acyclic [OF resolve_ok(2,1) [OF plan] this] cycle_path_tranclp [OF c] path
  show False by simp
qed

section \<open>Resolved manifests\<close>

definition dependency_met :: "trust_tools \<Rightarrow> manifests \<Rightarrow> plugin_id set \<Rightarrow> plugin_dependency \<Rightarrow> bool" where
  "dependency_met tt manifests earlier d \<longleftrightarrow>
     (case map_of manifests (pd_plugin_id d) of
        None \<Rightarrow> pd_optional d
      | Some target \<Rightarrow> tt_matches tt (pd_contract_range d) (pl_contract_version target)
          \<and> pd_plugin_id d \<in> earlier)"

lemma dependency_met_mono: "dependency_met tt ms A d \<Longrightarrow> A \<subseteq> B \<Longrightarrow> dependency_met tt ms B d"
  by (auto simp: dependency_met_def split: option.splits)

lemma manifest_edge_Inr:
  assumes "manifest_edge tt ms d acc = Inr acc'"
  shows "dependency_met tt ms (set (snd acc')) d \<and> set (snd acc) \<subseteq> set (snd acc')"
  using assms unfolding manifest_edge_def Let_def dependency_met_def
  by (cases "map_of ms (pd_plugin_id d)") (auto split: if_split_asm)

lemma manifest_edges_fold:
  "rfold (manifest_edge tt ms) ds acc = Inr acc' \<Longrightarrow>
     (\<forall>d \<in> set ds. dependency_met tt ms (set (snd acc')) d) \<and> set (snd acc) \<subseteq> set (snd acc')"
proof (induction ds arbitrary: acc)
  case (Cons d ds)
  then obtain acc1 where a1: "manifest_edge tt ms d acc = Inr acc1"
    and a2: "rfold (manifest_edge tt ms) ds acc1 = Inr acc'" by (auto simp: rbind_Inr_iff)
  from manifest_edge_Inr [OF a1] Cons.IH [OF a2] show ?case by (auto intro: dependency_met_mono)
qed simp

lemma manifest_graph_edges:
  assumes "manifest_graph tt ms = Inr g" and "distinct (map fst ms)"
  shows "\<forall>(i, m) \<in> set ms. \<exists>es. map_of g i = Some es \<and> manifest_edges tt ms m = Inr es"
    and "dom (map_of g) = fst ` set ms"
proof -
  have "rfold (\<lambda>(i, manifest) graph.
         rbind (manifest_edges tt ms manifest) (\<lambda>edges. Inr (graph_insert graph i edges))) xs [] = Inr g \<Longrightarrow>
      distinct (map fst xs) \<Longrightarrow> (\<forall>(i, m) \<in> set xs. \<exists>es. map_of g i = Some es \<and> manifest_edges tt ms m = Inr es)
        \<and> dom (map_of g) = fst ` set xs" for xs g
  proof (induction xs arbitrary: g rule: rev_induct)
    case (snoc x xs)
    then obtain g0 es where "rfold (\<lambda>(i, manifest) graph.
         rbind (manifest_edges tt ms manifest) (\<lambda>edges. Inr (graph_insert graph i edges))) xs [] = Inr g0"
      and g: "manifest_edges tt ms (snd x) = Inr es" "g = graph_insert g0 (fst x) es"
      by (auto simp: rfold_append rbind_Inr_iff split: prod.splits)
    with snoc show ?case by (fastforce simp: graph_insert_def update_conv)
  qed simp
  with assms show "\<forall>(i, m) \<in> set ms. \<exists>es. map_of g i = Some es \<and> manifest_edges tt ms m = Inr es"
    and "dom (map_of g) = fst ` set ms" unfolding manifest_graph_def by auto
qed

lemma append_new_snoc:
  "append_new (plan @ [p]) ordered =
     (let xs = append_new plan ordered in if p \<in> set xs then xs else xs @ [p])"
  by (simp add: append_new_def Let_def)

lemma append_new_topological:
  assumes "topological g ordered" and "distinct ordered" and "topological g plan"
  shows "topological g (append_new plan ordered) \<and> distinct (append_new plan ordered)
    \<and> set (append_new plan ordered) = set ordered \<union> set plan"
  using assms(3)
proof (induction plan rule: rev_induct)
  case Nil
  with assms show ?case by (simp add: append_new_def)
next
  case (snoc p plan)
  then show ?case by (auto simp: append_new_snoc Let_def topological_snoc)
qed

lemma resolve_fold:
  "rfold (\<lambda>i ordered. rbind (map_err registry_failure (resolve g i)) (\<lambda>plan. Inr (append_new plan ordered)))
     is xs = Inr ys \<Longrightarrow> topological g xs \<Longrightarrow> distinct xs \<Longrightarrow>
   topological g ys \<and> distinct ys \<and> set is \<union> set xs \<subseteq> set ys"
proof (induction "is" arbitrary: xs)
  case (Cons i "is")
  then obtain plan where plan: "resolve g i = Inr plan"
    and f: "rfold (\<lambda>i ordered. rbind (map_err registry_failure (resolve g i))
      (\<lambda>plan. Inr (append_new plan ordered))) is (append_new plan xs) = Inr ys"
    by (auto simp: rbind_Inr_iff map_err_Inr_iff)
  note r = resolve_ok [OF plan]
  note a = append_new_topological [OF Cons.prems(2,3) r(2)]
  from r have "i \<in> set plan" by (metis last_in_set)
  with Cons.IH [OF f] a show ?case by auto
qed simp

text \<open>
  C35: a resolved set of manifests is closed and in order. Every plugin of the set is listed once;
  each declared dependency that the set contains has a contract version in the declared range and
  comes earlier in the list; one that it does not contain is optional.
\<close>

theorem resolved_manifests_are_closed:
  assumes "resolve_manifests tt ms = Inr ordered" and "distinct (map fst ms)"
  shows "distinct ordered \<and> set ordered = fst ` set ms
    \<and> (\<forall>i < length ordered. \<exists>m. map_of ms (ordered ! i) = Some m
        \<and> (\<forall>d \<in> set (pl_dependencies m). dependency_met tt ms (set (take i ordered)) d))"
proof -
  from assms(1) obtain g where g: "manifest_graph tt ms = Inr g"
    and f: "rfold (\<lambda>i ordered. rbind (map_err registry_failure (resolve g i))
      (\<lambda>plan. Inr (append_new plan ordered))) (map fst ms) [] = Inr ordered"
    by (auto simp: resolve_manifests_def rbind_Inr_iff split: if_split_asm)
  note e = manifest_graph_edges [OF g assms(2)]
  from resolve_fold [OF f] have t: "topological g ordered" and d: "distinct ordered"
    and sub: "fst ` set ms \<subseteq> set ordered" by simp_all
  have at: "\<exists>m. map_of ms (ordered ! i) = Some m
      \<and> (\<forall>d \<in> set (pl_dependencies m). dependency_met tt ms (set (take i ordered)) d)"
    if i: "i < length ordered" for i
  proof -
    from t i obtain ds where ds: "map_of g (ordered ! i) = Some ds" "set ds \<subseteq> set (take i ordered)"
      unfolding topological_def by blast
    with e(2) have "ordered ! i \<in> fst ` set ms" by blast
    with assms(2) obtain m where m: "(ordered ! i, m) \<in> set ms" "map_of ms (ordered ! i) = Some m" by auto
    with e(1) ds(1) have "manifest_edges tt ms m = Inr ds" by fastforce
    then have "\<forall>d \<in> set (pl_dependencies m). dependency_met tt ms (set ds) d"
      by (auto simp: manifest_edges_def rbind_Inr_iff dest: manifest_edges_fold)
    with m(2) ds(2) show ?thesis by (blast intro: dependency_met_mono)
  qed
  have "set ordered \<subseteq> fst ` set ms"
    using at by (auto simp: in_set_conv_nth) (metis map_of_SomeD fst_conv image_eqI)
  with d sub at show ?thesis by blast
qed

section \<open>What a reader admits\<close>

lemma de_action_ok_value: "de_action j = Some a \<Longrightarrow> action_ok a"
proof -
  assume "de_action j = Some a"
  then obtain s where "action_new s = Inr a"
    by (cases "action_new (the (de_string j))") (auto simp: de_action_def Option.bind_eq_Some_conv)
  then show "action_ok a" by (auto simp: action_ok_def action_new_def rbind_Inr_iff)
qed

lemma de_digest_value: "de_digest j = Some d \<Longrightarrow> is_ok (digest_parse d)"
  by (simp add: de_digest_Some_iff)

lemma de_list_all:
  "de_list de j = Some xs \<Longrightarrow> (\<And>j x. de j = Some x \<Longrightarrow> P x) \<Longrightarrow> list_all P xs"
proof (cases j)
  case (JArr js)
  then show "de_list de j = Some xs \<Longrightarrow> (\<And>j x. de j = Some x \<Longrightarrow> P x) \<Longrightarrow> list_all P xs"
    by (induction js arbitrary: xs j) (auto simp: Option.bind_eq_Some_conv split: option.splits)
qed simp_all

lemma de_member_value: "de_member name de j = Some x \<Longrightarrow> (\<And>j x. de j = Some x \<Longrightarrow> P x) \<Longrightarrow> P x"
  by (auto simp: de_member_def split: option.splits)

lemmas de_member_values =
  de_member_value [where P = action_ok, OF _ de_action_ok_value]
  de_member_value [where P = "\<lambda>d. is_ok (digest_parse d)", OF _ de_digest_value]
  de_member_value [where P = artifact_ref_ok, OF _ de_artifact_ref_ok]
  de_member_value [where P = opaque_ok, OF _ de_opaque_Some_iff [THEN iffD1, THEN conjunct2]]

lemma de_actions_ok: "de_member name (de_list de_action) j = Some xs \<Longrightarrow> list_all action_ok xs"
  by (rule de_member_value) (auto elim: de_list_all [OF _ de_action_ok_value])

lemma de_handler_readable: "de_handler_contract j = Some h \<Longrightarrow> handler_readable h"
  unfolding de_handler_contract_def handler_readable_def
  by (auto simp: Option.bind_eq_Some_conv dest: de_member_values de_actions_ok split: if_split_asm)

lemma de_tool_readable: "de_tool_descriptor j = Some t \<Longrightarrow> tool_readable t"
  unfolding de_tool_descriptor_def tool_readable_def
  by (auto simp: Option.bind_eq_Some_conv dest: de_member_values split: if_split_asm)

lemma de_part_ok:
  "de_plugin_dependency j = Some d \<Longrightarrow> opaque_ok (pd_plugin_id d)"
  "de_ui_contribution j = Some u \<Longrightarrow> action_ok (uc_required_action u)"
  "de_plugin_migration j = Some g \<Longrightarrow> is_ok (digest_parse (mg_digest g))"
  unfolding de_plugin_dependency_def de_ui_contribution_def de_plugin_migration_def
  by (auto simp: Option.bind_eq_Some_conv dest: de_member_values split: if_split_asm)

lemma de_parts_ok: "de_member name (de_list de) j = Some xs \<Longrightarrow> (\<And>j x. de j = Some x \<Longrightarrow> P x) \<Longrightarrow> list_all P xs"
  by (rule de_member_value, assumption) (auto elim: de_list_all)

lemma de_manifest_readable: "de_plugin_manifest j = Some m \<Longrightarrow> manifest_readable m"
  unfolding de_plugin_manifest_def manifest_readable_def
  by (auto simp: Option.bind_eq_Some_conv
      intro: de_member_values de_actions_ok
        de_parts_ok [OF _ de_part_ok(1)] de_parts_ok [OF _ de_part_ok(2)] de_parts_ok [OF _ de_part_ok(3)]
        de_parts_ok [OF _ de_handler_readable] de_parts_ok [OF _ de_tool_readable] de_parts_ok [OF _ de_artifact_ref_ok]
      split: if_split_asm)

text \<open>
  C36: a manifest that is read is well formed and survives being stored. Every identifier, action,
  digest and artifact reference in it is one its type admits, and reading what is written for it
  gives the manifest back.
\<close>

theorem manifest_read_is_typed:
  assumes "de_plugin_manifest j = Some m"
  shows "manifest_readable m \<and> de_plugin_manifest (ser_plugin_manifest m) = Some m"
  using de_manifest_readable [OF assms] manifest_roundtrip by blast

definition sample_manifest :: "plugin_id \<Rightarrow> plugin_dependency list \<Rightarrow> plugin_manifest" where
  "sample_manifest i ds =
     \<lparr> pl_id = i, pl_version = ''1.0.0'', pl_contract_version = ''1.0.0'',
       pl_artifact_digest = ''sha256:'' @ replicate 64 (CHR ''0''), pl_publisher_id = ''p'',
       pl_execution_class = WasmComponent, pl_requested_capabilities = [''run.start''], pl_dependencies = ds,
       pl_ui = [], pl_migrations = [], pl_license_expression = ''MIT'',
       pl_sbom_digest = ''sha256:'' @ replicate 64 (CHR ''0''), pl_signature_ref = ''s'', pl_handlers = [],
       pl_workflows = [], pl_data_contracts = [], pl_tools = [] \<rparr>"

definition sample_dependency :: "plugin_id \<Rightarrow> plugin_dependency" where
  "sample_dependency i = \<lparr> pd_plugin_id = i, pd_contract_range = ''^1'', pd_optional = False \<rparr>"

definition sample_trust :: trust_tools where
  "sample_trust =
     \<lparr> tt_key_ok = (\<lambda>k. True), tt_signature_ok = (\<lambda>s. True), tt_verify_strict = (\<lambda>k m s. s = m @ k),
       tt_version_ok = (\<lambda>v. v \<noteq> []), tt_version_le = (\<lambda>a b. a \<le> b), tt_range_ok = (\<lambda>r. take 1 r = ''^''),
       tt_matches = (\<lambda>r v. take 1 (drop 1 r) = take 1 v) \<rparr>"

theorem manifest_read_is_typed_witness:
  "de_plugin_manifest (ser_plugin_manifest (sample_manifest ''a'' [sample_dependency ''b'']))
     = Some (sample_manifest ''a'' [sample_dependency ''b''])
   \<and> manifest_readable (sample_manifest ''a'' [sample_dependency ''b''])"
proof
  show r: "de_plugin_manifest (ser_plugin_manifest (sample_manifest ''a'' [sample_dependency ''b'']))
     = Some (sample_manifest ''a'' [sample_dependency ''b''])" by code_simp
  from manifest_read_is_typed [OF r] show "manifest_readable (sample_manifest ''a'' [sample_dependency ''b''])" ..
qed

theorem resolved_manifests_are_closed_witness:
  "resolve_manifests sample_trust
       [(''a'', sample_manifest ''a'' [sample_dependency ''b'']), (''b'', sample_manifest ''b'' [])]
     = Inr [''b'', ''a'']
   \<and> dependency_met sample_trust
       [(''a'', sample_manifest ''a'' [sample_dependency ''b'']), (''b'', sample_manifest ''b'' [])]
       {''b''} (sample_dependency ''b'')"
  (is "resolve_manifests _ ?ms = _ \<and> _")
proof
  show r: "resolve_manifests sample_trust ?ms = Inr [''b'', ''a'']" by code_simp
  have "distinct (map fst ?ms)" by simp
  from conjunct2 [OF conjunct2 [OF resolved_manifests_are_closed [OF r this]], THEN spec, of 1]
  have "\<exists>m. map_of ?ms ([''b'', ''a''] ! 1) = Some m
      \<and> (\<forall>d \<in> set (pl_dependencies m). dependency_met sample_trust ?ms (set (take 1 [''b'', ''a''])) d)"
    by simp
  then show "dependency_met sample_trust ?ms {''b''} (sample_dependency ''b'')"
    by (simp add: sample_manifest_def)
qed

definition looping_workflow :: workflow_definition where
  "looping_workflow = (sample_workflow 9)\<lparr>
     wd_nodes := [sample_node ''a'' ''BOUNDED_LOOP'', sample_node ''b'' ''MODEL''],
     wd_edges := [\<lparr> we_from = ''a'', we_to = ''b'', we_condition = ''SUCCESS'' \<rparr>,
                  \<lparr> we_from = ''b'', we_to = ''a'', we_condition = ''SUCCESS'' \<rparr>],
     wd_digest := ''sha256:'' @ replicate 64 (CHR ''0'') \<rparr>"

theorem workflow_cycles_are_bounded_witness:
  "validate_workflow sample_platform (Inr [(''WorkflowDefinition'', \<lambda>_. None)]) looping_workflow
      (sample_manifest ''p'' []) = Inr ()
   \<and> (\<exists>n \<in> set (wd_nodes looping_workflow). wn_id n \<in> set [''a'', ''b'', ''a''] \<and> wn_kind n = ''BOUNDED_LOOP'')"
proof
  show v: "validate_workflow sample_platform (Inr [(''WorkflowDefinition'', \<lambda>_. None)]) looping_workflow
      (sample_manifest ''p'' []) = Inr ()" by code_simp
  show "\<exists>n \<in> set (wd_nodes looping_workflow). wn_id n \<in> set [''a'', ''b'', ''a''] \<and> wn_kind n = ''BOUNDED_LOOP''"
    by (rule workflow_cycles_are_bounded [OF v]) (simp_all add: looping_workflow_def)
qed

end
