(* ===== verification/Registry.thy ===== *)
theory Registry
  imports Manifests Delegation
begin

text \<open>
  The plugin registry of the PostgreSQL adapter (\<open>registry.rs\<close>): installation, enabling, draining,
  upgrade, revocation and removal of plugins, and the composition of a product from an exact lock.
  The theorems: a revoked build never leaves the state \<open>REVOKED\<close> or \<open>UNINSTALLED\<close> again whatever
  commands follow; the capabilities of an installation stay within what its signed manifest
  requested; an upgrade never adds a capability and never touches a run.
\<close>

section \<open>Environment\<close>

record registry_env =
  rg_env :: command_env
  rg_trust :: trust_tools
  rg_schema :: schema_tools
  rg_shared :: "schema_catalog validated"
  rg_known :: "string list"
  rg_native :: "(string \<times> string) list"

abbreviation rg_pf :: "registry_env \<Rightarrow> platform" where
  "rg_pf re \<equiv> ce_platform (rg_env re)"

definition MAX_PACKAGE_BYTES :: nat where
  "MAX_PACKAGE_BYTES = 32 * 1024 * 1024"

definition illegal :: command_failure where
  "illegal = conflict ''ILLEGAL_TRANSITION''"

section \<open>Constraints of the tables\<close>

definition installation_states :: "string set" where
  "installation_states =
     {''INSTALLED_DISABLED'', ''ENABLED'', ''DRAINING'', ''DISABLED'', ''REVOKED'', ''UNINSTALLED''}"

definition installation_ok :: "installation_row \<Rightarrow> bool" where
  "installation_ok i \<longleftrightarrow> pi_state i \<in> installation_states \<and> 0 < pi_revocation_epoch i \<and> 0 < pi_version i"

definition installation_fits :: "installation_row \<Rightarrow> bool" where
  "installation_fits i \<longleftrightarrow> in_i64 (pi_revocation_epoch i) \<and> in_i32 (pi_version i)"

abbreviation installation_key :: "installation_row \<Rightarrow> uuid \<times> uuid" where
  "installation_key i \<equiv> (pi_tenant i, pi_id i)"

abbreviation plugin_key :: "installation_row \<Rightarrow> uuid \<times> string" where
  "plugin_key i \<equiv> (pi_tenant i, pi_plugin_id i)"

abbreviation version_key :: "plugin_version_row \<Rightarrow> uuid \<times> string \<times> string" where
  "version_key v \<equiv> (pn_tenant v, pn_plugin_id v, pn_artifact_digest v)"

abbreviation build_key :: "installation_row \<Rightarrow> uuid \<times> string \<times> string" where
  "build_key i \<equiv> (pi_tenant i, pi_plugin_id i, pi_artifact_digest i)"

abbreviation revocation_key :: "plugin_revocation_row \<Rightarrow> uuid \<times> string \<times> string" where
  "revocation_key r \<equiv> (px_tenant r, px_plugin_id r, px_artifact_digest r)"

definition update_installation ::
    "uuid \<Rightarrow> uuid \<Rightarrow> (installation_row \<Rightarrow> installation_row) \<Rightarrow> database \<Rightarrow> database outcome" where
  "update_installation tenant i f s =
     rbind (sql (update_rows (\<lambda>r. installation_key r = (tenant, i)) f installation_fits installation_ok
              (tb_installations s))) (\<lambda>t. Inr (s\<lparr>tb_installations := t\<rparr>))"

section \<open>Reads\<close>

definition current_installation ::
    "registry_env \<Rightarrow> database \<Rightarrow> authorized_command \<Rightarrow> installation_row outcome" where
  "current_installation re s command =
     rbind (field de_string (ac_input command) ''plugin_id'') (\<lambda>plugin.
     rbind (parse_uuid (rg_pf re) (ca_tenant_id (ac_actor command))) (\<lambda>tenant.
     ok_or not_found (row_at plugin_key (tenant, plugin) (tb_installations s))))"

definition checked_version :: "authorized_command \<Rightarrow> installation_row \<Rightarrow> int outcome" where
  "checked_version command row =
     rbind (field de_i32 (ac_input command) ''expected_version'') (require_expected_version (pi_version row))"

definition require_reason :: "authorized_command \<Rightarrow> string outcome" where
  "require_reason command =
     rbind (field de_string (ac_input command) ''reason'') (\<lambda>reason.
     if is_blank reason then Inl (invalid ''REASON_REQUIRED'') else Inr reason)"

definition stored_manifest :: "database \<Rightarrow> uuid \<Rightarrow> string \<Rightarrow> string \<Rightarrow> plugin_manifest outcome" where
  "stored_manifest s tenant plugin digest =
     rbind (ok_or not_found (row_at version_key (tenant, plugin, digest) (tb_plugin_versions s))) (\<lambda>v.
     ok_or manifest_invalid (de_plugin_manifest (pn_manifest v)))"

text \<open>
  The join of an installation with its version row; the key of \<open>plugin_versions\<close> is primary, so
  the join has at most one row.
\<close>

definition installed_version :: "database \<Rightarrow> installation_row \<Rightarrow> plugin_version_row option" where
  "installed_version s i = row_at version_key (build_key i) (tb_plugin_versions s)"

definition selected_manifests :: "database \<Rightarrow> uuid \<Rightarrow> manifests outcome" where
  "selected_manifests s tenant =
     rfold (\<lambda>j m.
         rbind (ok_or manifest_invalid (de_plugin_manifest j)) (\<lambda>manifest.
         Inr (btree_insert (pl_id manifest) manifest m)))
       (take 513 (List.map_filter (\<lambda>i. map_option pn_manifest (installed_version s i))
          (sort_key pi_plugin_id (filter (\<lambda>i. pi_tenant i = tenant
             \<and> pi_state i \<noteq> ''UNINSTALLED'' \<and> pi_state i \<noteq> ''REVOKED'') (tb_installations s)))))
       []"

definition has_active_plugin_runs :: "database \<Rightarrow> uuid \<Rightarrow> string \<Rightarrow> bool" where
  "has_active_plugin_runs s tenant plugin \<longleftrightarrow>
     list_ex (\<lambda>r. rn_tenant r = tenant \<and> rn_plugin_id r = plugin
        \<and> \<not> List.member [''SUCCEEDED'', ''FAILED'', ''CANCELLED''] (rn_state r)) (tb_runs s)"

definition installation_projection :: "registry_env \<Rightarrow> database \<Rightarrow> uuid \<Rightarrow> uuid \<Rightarrow> mutation outcome" where
  "installation_projection re s tenant i =
     rbind (ok_or (database_failure None) (row_at installation_key (tenant, i) (tb_installations s))) (\<lambda>row.
     Inr (mutation_one (rg_pf re) ''PluginInstallation'' i (pi_version row)
       (JObj [(''installation_id'', ser_uuid (rg_pf re) i), (''plugin_id'', JStr (pi_plugin_id row)),
              (''artifact_digest'', JStr (pi_artifact_digest row)), (''state'', JStr (pi_state row)),
              (''granted_capabilities'', ser_strings (pi_granted_capabilities row)),
              (''revocation_epoch'', JNum (pi_revocation_epoch row)), (''version'', JNum (pi_version row))])
       (pi_plugin_id row)))"

definition manifest_projection :: "registry_env \<Rightarrow> uuid \<Rightarrow> plugin_manifest \<Rightarrow> projection_change" where
  "manifest_projection re i manifest =
     \<lparr> pc_resource = resource_ref_of (rg_pf re) ''PluginManifest'' i 1,
       pc_value = ser_plugin_manifest manifest, pc_label = pl_id manifest @ '' '' @ pl_version manifest,
       pc_source_artifacts = [] \<rparr>"

definition run_projection :: "registry_env \<Rightarrow> run_row \<Rightarrow> projection_change" where
  "run_projection re row =
     \<lparr> pc_resource = resource_ref_of (rg_pf re) ''Run'' (rn_id row) (rn_version row),
       pc_value = run_value (rg_pf re) row (rn_state row) (rn_version row) (rn_updated_at row),
       pc_label = rn_workflow_id row, pc_source_artifacts = [] \<rparr>"

abbreviation with_changes :: "mutation \<Rightarrow> projection_change list \<Rightarrow> mutation" where
  "with_changes m cs \<equiv> m\<lparr>mu_changes := mu_changes m @ cs\<rparr>"

section \<open>Trust\<close>

text \<open>\<open>ORDER BY created_at, id LIMIT 1\<close> as two stable sorts.\<close>

definition find_package :: "platform \<Rightarrow> database \<Rightarrow> uuid \<Rightarrow> digest \<Rightarrow> artifact_row option" where
  "find_package pf s tenant digest =
     (case sort_key af_created_at (sort_key af_id (filter (\<lambda>a. af_tenant a = tenant \<and> af_digest a = digest
            \<and> af_state a = ''ACTIVE''
            \<and> \<not> list_ex (\<lambda>d. ts_tenant d = tenant \<and> ts_resource_type d = ''Artifact''
                          \<and> ts_resource_id d = pf_uuid_show pf (af_id a)) (tb_tombstones s))
          (tb_artifacts s))) of
       [] \<Rightarrow> None | row # _ \<Rightarrow> Some row)"

definition package_artifact ::
    "registry_env \<Rightarrow> database \<Rightarrow> command_actor \<Rightarrow> digest \<Rightarrow> nat \<Rightarrow> artifact_ref outcome" where
  "package_artifact re s actor digest maximum =
     rbind (parse_uuid (rg_pf re) (ca_tenant_id actor)) (\<lambda>tenant.
     rbind (ok_or not_found (find_package (rg_pf re) s tenant digest)) (\<lambda>row.
     rbind (map_err (\<lambda>_. manifest_invalid) (opaque_id_new ''ArtifactId'' (pf_uuid_show (rg_pf re) (af_id row)))) (\<lambda>i.
     rbind (ok_or manifest_invalid (de_classification (JStr (af_classification row)))) (\<lambda>cls.
     let reference = \<lparr> ar_artifact_id = i, ar_tenant_id = ca_tenant_id actor, ar_digest = digest,
                       ar_schema_version = af_schema_version row, ar_classification = cls \<rparr> in
     rbind (load_artifact_ref (rg_env re) s actor reference maximum) (\<lambda>_. Inr reference)))))"

definition plugin_revoked :: "database \<Rightarrow> uuid \<Rightarrow> string \<Rightarrow> string \<Rightarrow> bool" where
  "plugin_revoked s tenant plugin digest \<longleftrightarrow>
     row_at revocation_key (tenant, plugin, digest) (tb_plugin_revocations s) \<noteq> None"

text \<open>The join of a signature with its publisher's key, unless the key is revoked.\<close>

definition trusted_signature :: "database \<Rightarrow> uuid \<Rightarrow> string \<Rightarrow> (signature_row \<times> publisher_key_row) option" where
  "trusted_signature s tenant signature_ref =
     do { sig \<leftarrow> row_at (\<lambda>g. (sn_tenant g, sn_id g)) (tenant, signature_ref) (tb_signatures s);
          k \<leftarrow> row_at (\<lambda>k. (pk_tenant k, pk_publisher_id k, pk_key_id k))
                 (tenant, sn_publisher_id sig, sn_key_id sig) (tb_publisher_keys s);
          (if pk_revoked_at k = None then Some (sig, k) else None) }"

definition verify_publisher_and_package ::
    "registry_env \<Rightarrow> database \<Rightarrow> command_actor \<Rightarrow> plugin_manifest \<Rightarrow> unit outcome" where
  "verify_publisher_and_package re s actor manifest =
     rbind (parse_uuid (rg_pf re) (ca_tenant_id actor)) (\<lambda>tenant.
     if plugin_revoked s tenant (pl_id manifest) (pl_artifact_digest manifest)
     then Inl (precondition ''PLUGIN_REVOKED'')
     else
     rbind (ok_or (precondition ''PUBLISHER_UNTRUSTED'')
             (trusted_signature s tenant (pl_signature_ref manifest))) (\<lambda>(sig, k).
     if sn_publisher_id sig \<noteq> pl_publisher_id manifest \<or> sn_artifact_digest sig \<noteq> pl_artifact_digest manifest
     then Inl (precondition ''SIGNATURE_INVALID'')
     else
     rbind (manifest_digest (rg_pf re) manifest) (\<lambda>digest.
     if sn_manifest_digest sig \<noteq> digest then Inl (precondition ''SIGNATURE_INVALID'')
     else
     rbind (verify_signature (rg_pf re) (rg_trust re) manifest (pk_public_key k) (sn_signature sig)) (\<lambda>_.
     if pl_execution_class manifest = TrustedNative
        \<and> \<not> List.member (rg_native re) (pl_id manifest, pl_artifact_digest manifest)
     then Inl (precondition ''NATIVE_PLUGIN_NOT_ALLOWLISTED'')
     else
     rbind (package_artifact re s actor (pl_artifact_digest manifest) MAX_PACKAGE_BYTES) (\<lambda>_.
     rbind (package_artifact re s actor (pl_sbom_digest manifest) MAX_COMMAND_BYTES) (\<lambda>_. Inr ()))))))"

section \<open>Checks of an installation\<close>

definition require_enabled_dependency ::
    "registry_env \<Rightarrow> database \<Rightarrow> uuid \<Rightarrow> plugin_dependency \<Rightarrow> unit outcome" where
  "require_enabled_dependency re s tenant dependency =
     (case row_at plugin_key (tenant, pd_plugin_id dependency)
             (filter (\<lambda>i. installed_version s i \<noteq> None) (tb_installations s)) of
        None \<Rightarrow> if pd_optional dependency then Inr () else Inl (precondition ''DEPENDENCY_UNSATISFIED'')
      | Some i \<Rightarrow>
          if pi_state i \<noteq> ''ENABLED'' then Inl (precondition ''DEPENDENCY_NOT_ENABLED'')
          else
          let version = pn_contract_version (the (installed_version s i)) in
          if \<not> tt_version_ok (rg_trust re) version then Inl manifest_invalid
          else if \<not> tt_range_ok (rg_trust re) (pd_contract_range dependency) then Inl manifest_invalid
          else if \<not> tt_matches (rg_trust re) (pd_contract_range dependency) version
          then Inl (precondition ''DEPENDENCY_UNSATISFIED'')
          else Inr ())"

definition require_enabled_dependencies ::
    "registry_env \<Rightarrow> database \<Rightarrow> uuid \<Rightarrow> plugin_manifest \<Rightarrow> unit outcome" where
  "require_enabled_dependencies re s tenant manifest =
     rfold (\<lambda>d _. require_enabled_dependency re s tenant d) (pl_dependencies manifest) ()"

definition schema_references :: "plugin_manifest \<Rightarrow> artifact_ref list" where
  "schema_references manifest =
     concat (map (\<lambda>h. [hc_input_schema_ref h, hc_output_schema_ref h]) (pl_handlers manifest))
     @ concat (map (\<lambda>t. [td_input_schema_ref t, td_output_schema_ref t]) (pl_tools manifest))
     @ pl_data_contracts manifest"

definition collect_reference ::
    "artifact_ref \<Rightarrow> (string \<times> artifact_ref) list \<Rightarrow> (string \<times> artifact_ref) list outcome" where
  "collect_reference reference m =
     (case map_of m (ar_artifact_id reference) of
        Some previous \<Rightarrow>
          if previous \<noteq> reference then Inl (precondition ''ARTIFACT_REFERENCE_MISMATCH'')
          else Inr (btree_insert (ar_artifact_id reference) reference m)
      | None \<Rightarrow> Inr (btree_insert (ar_artifact_id reference) reference m))"

definition require_schema :: "registry_env \<Rightarrow> database \<Rightarrow> command_actor \<Rightarrow> artifact_ref \<Rightarrow> unit outcome" where
  "require_schema re s actor reference =
     rbind (load_artifact_ref (rg_env re) s actor reference MAX_COMMAND_BYTES) (\<lambda>bytes.
     rbind (map_err (\<lambda>_. precondition ''PLUGIN_SCHEMA_INVALID'') (schema_compile (rg_schema re) bytes)) (\<lambda>_.
     Inr ()))"

definition workflow_references :: "workflow_definition \<Rightarrow> artifact_ref list" where
  "workflow_references d =
     [wd_input_schema_ref d, wd_output_schema_ref d]
     @ concat (map (\<lambda>n. [wn_input_schema_ref n, wn_output_schema_ref n]) (wd_nodes d))"

definition verify_workflow ::
    "registry_env \<Rightarrow> database \<Rightarrow> command_actor \<Rightarrow> plugin_manifest \<Rightarrow> artifact_ref \<Rightarrow> workflow_definition list
     \<Rightarrow> workflow_definition list outcome" where
  "verify_workflow re s actor manifest reference workflows =
     rbind (load_artifact_ref (rg_env re) s actor reference MAX_COMMAND_BYTES) (\<lambda>bytes.
     rbind (map_err (\<lambda>_. workflow_invalid) (strict_json (st_decode (rg_schema re)) bytes)) (\<lambda>val.
     rbind (ok_or workflow_invalid (de_workflow_definition val)) (\<lambda>d.
     rbind (validate_workflow (rg_pf re) (rg_shared re) d manifest) (\<lambda>_.
     if List.member (map (\<lambda>w. (wd_id w, wd_version w)) workflows) (wd_id d, wd_version d)
     then Inl workflow_invalid
     else
     rbind (rfold (\<lambda>r _. require_schema re s actor r) (workflow_references d) ()) (\<lambda>_.
     Inr (workflows @ [d]))))))"

definition verify_installation ::
    "registry_env \<Rightarrow> database \<Rightarrow> command_actor \<Rightarrow> plugin_manifest \<Rightarrow> workflow_definition list outcome" where
  "verify_installation re s actor manifest =
     rbind (validate_manifest (rg_shared re) manifest (ca_tenant_id actor) (rg_known re)) (\<lambda>_.
     rbind (parse_uuid (rg_pf re) (ca_tenant_id actor)) (\<lambda>tenant.
     rbind (selected_manifests s tenant) (\<lambda>selected.
     rbind (resolve_manifests (rg_trust re) (btree_insert (pl_id manifest) manifest selected)) (\<lambda>_.
     if pl_migrations manifest \<noteq> [] then Inl (precondition ''PLUGIN_MIGRATION_UNQUALIFIED'')
     else
     rbind (verify_publisher_and_package re s actor manifest) (\<lambda>_.
     rbind (rfold collect_reference (schema_references manifest) []) (\<lambda>references.
     rbind (rfold (\<lambda>(_, r) _. require_schema re s actor r) references ()) (\<lambda>_.
     rfold (verify_workflow re s actor manifest) (pl_workflows manifest) [])))))))"

section \<open>Writes\<close>

definition insert_plugin_version :: "plugin_version_row \<Rightarrow> database \<Rightarrow> database outcome" where
  "insert_plugin_version v s =
     rbind (sql (insert_row (\<lambda>v. is_ok (digest_parse (pn_artifact_digest v)))
              (\<lambda>v v'. version_key v' = version_key v \<or> (pn_tenant v' = pn_tenant v \<and> pn_plugin_id v' = pn_plugin_id v
                        \<and> pn_plugin_version v' = pn_plugin_version v))
              (tenant_known s (pn_tenant v)
               \<and> row_at (\<lambda>g. (sn_tenant g, sn_id g)) (pn_tenant v, pn_signature_id v) (tb_signatures s) \<noteq> None)
              v (tb_plugin_versions s))) (\<lambda>t. Inr (s\<lparr>tb_plugin_versions := t\<rparr>))"

definition insert_workflow :: "workflow_row \<Rightarrow> database \<Rightarrow> database outcome" where
  "insert_workflow w s =
     rbind (sql (insert_row (\<lambda>w. True)
              (\<lambda>w w'. wd_tenant w' = wd_tenant w \<and> wd_workflow_id w' = wd_workflow_id w
                 \<and> wd_workflow_version w' = wd_workflow_version w \<and> wd_plugin_digest w' = wd_plugin_digest w)
              (row_at version_key (wd_tenant w, wd_plugin_id w, wd_plugin_digest w) (tb_plugin_versions s) \<noteq> None)
              w (tb_workflow_definitions s))) (\<lambda>t. Inr (s\<lparr>tb_workflow_definitions := t\<rparr>))"

definition version_row :: "uuid \<Rightarrow> plugin_manifest \<Rightarrow> plugin_version_row" where
  "version_row tenant manifest =
     \<lparr> pn_tenant = tenant, pn_plugin_id = pl_id manifest, pn_artifact_digest = pl_artifact_digest manifest,
       pn_manifest = ser_plugin_manifest manifest, pn_contract_version = pl_contract_version manifest,
       pn_plugin_version = pl_version manifest, pn_signature_id = pl_signature_ref manifest \<rparr>"

definition definition_row :: "timestamp \<Rightarrow> uuid \<Rightarrow> plugin_manifest \<Rightarrow> workflow_definition \<Rightarrow> workflow_row" where
  "definition_row now tenant manifest d =
     \<lparr> wd_tenant = tenant, wd_workflow_id = wd_id d, wd_workflow_version = wd_version d,
       wd_plugin_id = pl_id manifest, wd_plugin_digest = pl_artifact_digest manifest,
       wd_definition = ser_workflow_definition d, wd_created_at = now \<rparr>"

definition save_plugin_version ::
    "timestamp \<Rightarrow> uuid \<Rightarrow> plugin_manifest \<Rightarrow> workflow_definition list \<Rightarrow> database \<Rightarrow> database outcome" where
  "save_plugin_version now tenant manifest workflows s =
     rbind (insert_plugin_version (version_row tenant manifest) s) (\<lambda>s'.
     rfold (\<lambda>d. insert_workflow (definition_row now tenant manifest d)) workflows s')"

definition insert_installation :: "installation_row \<Rightarrow> database \<Rightarrow> database outcome" where
  "insert_installation i s =
     rbind (sql (insert_row installation_ok
              (\<lambda>i i'. installation_key i' = installation_key i \<or> plugin_key i' = plugin_key i)
              (tenant_known s (pi_tenant i) \<and> row_at version_key (build_key i) (tb_plugin_versions s) \<noteq> None)
              i (tb_installations s))) (\<lambda>t. Inr (s\<lparr>tb_installations := t\<rparr>))"

definition installed_row :: "uuid \<Rightarrow> uuid \<Rightarrow> plugin_manifest \<Rightarrow> installation_row" where
  "installed_row tenant i manifest =
     \<lparr> pi_tenant = tenant, pi_id = i, pi_plugin_id = pl_id manifest,
       pi_artifact_digest = pl_artifact_digest manifest, pi_state = ''INSTALLED_DISABLED'',
       pi_granted_capabilities = [], pi_revocation_epoch = 1, pi_version = 1 \<rparr>"

section \<open>Commands\<close>

definition install_plugin ::
    "registry_env \<Rightarrow> (nat \<Rightarrow> uuid) \<Rightarrow> timestamp \<Rightarrow> database \<Rightarrow> authorized_command
     \<Rightarrow> (mutation \<times> database) outcome" where
  "install_plugin re ids now s command =
     rbind (field de_plugin_manifest (ac_input command) ''manifest'') (\<lambda>manifest.
     rbind (verify_installation re s (ac_actor command) manifest) (\<lambda>workflows.
     rbind (parse_uuid (rg_pf re) (ca_tenant_id (ac_actor command))) (\<lambda>tenant.
     rbind (save_plugin_version now tenant manifest workflows s) (\<lambda>s1.
     rbind (insert_installation (installed_row tenant (ids 0) manifest) s1) (\<lambda>s2.
     rbind (installation_projection re s2 tenant (ids 0)) (\<lambda>result.
     Inr (with_changes result [manifest_projection re (ids 1) manifest], s2)))))))"

definition capability_allowed :: "registry_env \<Rightarrow> read_policy \<Rightarrow> uuid \<Rightarrow> plugin_manifest \<Rightarrow> string \<Rightarrow> bool" where
  "capability_allowed re policy tenant manifest grant \<longleftrightarrow>
     List.member (pl_requested_capabilities manifest) grant
     \<and> permits (ce_cedar (rg_env re)) policy grant ''Tenant'' (pf_uuid_show (rg_pf re) tenant) []"

definition enable_plugin ::
    "registry_env \<Rightarrow> (nat \<Rightarrow> uuid) \<Rightarrow> timestamp \<Rightarrow> database \<Rightarrow> authorized_command
     \<Rightarrow> (mutation \<times> database) outcome" where
  "enable_plugin re ids now s command =
     rbind (current_installation re s command) (\<lambda>current.
     rbind (parse_uuid (rg_pf re) (ca_tenant_id (ac_actor command))) (\<lambda>tenant.
     rbind (checked_version command current) (\<lambda>next.
     if \<not> List.member [''INSTALLED_DISABLED'', ''DISABLED''] (pi_state current) then Inl illegal
     else
     rbind (field de_string (ac_input command) ''artifact_digest'') (\<lambda>digest.
     if pi_artifact_digest current \<noteq> digest then Inl (conflict ''PLUGIN_DIGEST_MISMATCH'')
     else
     rbind (field de_string (ac_input command) ''plugin_id'') (\<lambda>plugin.
     rbind (stored_manifest s tenant plugin digest) (\<lambda>manifest.
     rbind (verify_publisher_and_package re s (ac_actor command) manifest) (\<lambda>_.
     rbind (require_enabled_dependencies re s tenant manifest) (\<lambda>_.
     rbind (require_dispatch_enabled (rg_pf re) s (ac_actor command) (Some (pl_id manifest)) None) (\<lambda>_.
     rbind (field (de_list de_string) (ac_input command) ''grants'') (\<lambda>grants.
     rbind (read_policy (ce_cedar (rg_env re)) (rg_pf re) s (ac_actor command)) (\<lambda>policy.
     if \<not> distinct grants \<or> list_ex (\<lambda>g. \<not> capability_allowed re policy tenant manifest g) grants
     then Inl (denied ''CAPABILITY_DENIED'')
     else
     rbind (update_installation tenant (pi_id current)
              (\<lambda>i. i\<lparr>pi_state := ''ENABLED'', pi_granted_capabilities := grants, pi_version := next\<rparr>) s) (\<lambda>s'.
     rbind (installation_projection re s' tenant (pi_id current)) (\<lambda>result.
     Inr (result, s'))))))))))))))"

text \<open>The two updates of \<open>disable_plugin\<close>: draining first, and disabled once no run is active.\<close>

definition drain_installation ::
    "registry_env \<Rightarrow> uuid \<Rightarrow> installation_row \<Rightarrow> bool \<Rightarrow> int \<Rightarrow> database
     \<Rightarrow> (projection_change list \<times> int \<times> database) outcome" where
  "drain_installation re tenant current active next s =
     (if pi_state current = ''ENABLED'' then
        rbind (update_installation tenant (pi_id current) (\<lambda>i. i\<lparr>pi_state := ''DRAINING'', pi_version := next\<rparr>) s) (\<lambda>s'.
        rbind (installation_projection re s' tenant (pi_id current)) (\<lambda>result.
        if active then Inr (mu_changes result, next, s')
        else rbind (ok_or illegal (checked_i32 (next + 1))) (\<lambda>n. Inr (mu_changes result, n, s'))))
      else Inr ([], next, s))"

definition finish_disable ::
    "registry_env \<Rightarrow> uuid \<Rightarrow> installation_row \<Rightarrow> bool \<Rightarrow> projection_change list \<times> int \<times> database
     \<Rightarrow> (mutation \<times> database) outcome" where
  "finish_disable re tenant current active drained =
     (case drained of (changes, next, s) \<Rightarrow>
        if active then
          rbind (installation_projection re s tenant (pi_id current)) (\<lambda>result.
          Inr (result\<lparr>mu_changes := changes\<rparr>, s))
        else
          rbind (update_installation tenant (pi_id current)
                   (\<lambda>i. i\<lparr>pi_state := ''DISABLED'', pi_version := next\<rparr>) s) (\<lambda>s'.
          rbind (installation_projection re s' tenant (pi_id current)) (\<lambda>result.
          Inr (result\<lparr>mu_changes := changes @ mu_changes result\<rparr>, s'))))"

definition disable_plugin ::
    "registry_env \<Rightarrow> (nat \<Rightarrow> uuid) \<Rightarrow> timestamp \<Rightarrow> database \<Rightarrow> authorized_command
     \<Rightarrow> (mutation \<times> database) outcome" where
  "disable_plugin re ids now s command =
     rbind (require_reason command) (\<lambda>_.
     rbind (current_installation re s command) (\<lambda>current.
     rbind (parse_uuid (rg_pf re) (ca_tenant_id (ac_actor command))) (\<lambda>tenant.
     rbind (checked_version command current) (\<lambda>next.
     let state = pi_state current; active = has_active_plugin_runs s tenant (pi_plugin_id current) in
     if \<not> List.member [''ENABLED'', ''DRAINING''] state \<or> (state = ''DRAINING'' \<and> active) then Inl illegal
     else
     rbind (drain_installation re tenant current active next s) (finish_disable re tenant current active)))))"

definition upgrade_plugin ::
    "registry_env \<Rightarrow> (nat \<Rightarrow> uuid) \<Rightarrow> timestamp \<Rightarrow> database \<Rightarrow> authorized_command
     \<Rightarrow> (mutation \<times> database) outcome" where
  "upgrade_plugin re ids now s command =
     rbind (current_installation re s command) (\<lambda>current.
     rbind (checked_version command current) (\<lambda>next.
     rbind (parse_uuid (rg_pf re) (ca_tenant_id (ac_actor command))) (\<lambda>tenant.
     rbind (field de_plugin_manifest (ac_input command) ''new_manifest'') (\<lambda>manifest.
     if pl_id manifest \<noteq> pi_plugin_id current then Inl manifest_invalid
     else if \<not> List.member [''ENABLED'', ''DISABLED'', ''INSTALLED_DISABLED''] (pi_state current) then Inl illegal
     else
     rbind (stored_manifest s tenant (pi_plugin_id current) (pi_artifact_digest current)) (\<lambda>old.
     if \<not> tt_version_ok (rg_trust re) (pl_version manifest) \<or> \<not> tt_version_ok (rg_trust re) (pl_version old)
     then Inl manifest_invalid
     else if tt_version_le (rg_trust re) (pl_version manifest) (pl_version old)
     then Inl (precondition ''ROLLBACK_UNSAFE'')
     else
     rbind (verify_installation re s (ac_actor command) manifest) (\<lambda>workflows.
     rbind (if pi_state current = ''ENABLED'' then require_enabled_dependencies re s tenant manifest else Inr ()) (\<lambda>_.
     let grants = filter (List.member (pl_requested_capabilities manifest)) (pi_granted_capabilities current) in
     rbind (save_plugin_version now tenant manifest workflows s) (\<lambda>s1.
     rbind (update_installation tenant (pi_id current)
              (\<lambda>i. i\<lparr>pi_artifact_digest := pl_artifact_digest manifest, pi_granted_capabilities := grants,
                      pi_version := next\<rparr>) s1) (\<lambda>s2.
     rbind (installation_projection re s2 tenant (pi_id current)) (\<lambda>result.
     Inr (with_changes result [manifest_projection re (ids 0) manifest], s2)))))))))))"

text \<open>Expressions of an \<open>UPDATE\<close> read the old row.\<close>

definition revoked_installation :: "string \<Rightarrow> int \<Rightarrow> installation_row \<Rightarrow> installation_row" where
  "revoked_installation digest next i =
     i\<lparr>pi_state := (if pi_artifact_digest i = digest \<and> pi_state i \<noteq> ''UNINSTALLED'' then ''REVOKED'' else pi_state i),
       pi_granted_capabilities := (if pi_artifact_digest i = digest then [] else pi_granted_capabilities i),
       pi_revocation_epoch := pi_revocation_epoch i + 1, pi_version := next\<rparr>"

definition pinned_run :: "uuid \<Rightarrow> string \<Rightarrow> string \<Rightarrow> run_row \<Rightarrow> bool" where
  "pinned_run tenant plugin digest r \<longleftrightarrow> rn_tenant r = tenant \<and> rn_plugin_id r = plugin \<and> rn_plugin_digest r = digest
     \<and> \<not> List.member [''SUCCEEDED'', ''FAILED'', ''CANCELLED''] (rn_state r)"

definition blocked_run :: "timestamp \<Rightarrow> run_row \<Rightarrow> run_row" where
  "blocked_run now r =
     r\<lparr>rn_state := (if rn_state r = ''RUNNING'' then ''BLOCKED'' else rn_state r), rn_dispatch_state := ''BLOCKED'',
       rn_failure_code := Some ''PLUGIN_REVOKED'', rn_fence := rn_fence r + 1, rn_version := rn_version r + 1,
       rn_updated_at := now\<rparr>"

definition insert_revocation :: "plugin_revocation_row \<Rightarrow> database \<Rightarrow> database outcome" where
  "insert_revocation r s =
     rbind (sql (insert_row (\<lambda>r. True) (\<lambda>r r'. revocation_key r' = revocation_key r)
              (row_at version_key (revocation_key r) (tb_plugin_versions s) \<noteq> None) r (tb_plugin_revocations s)))
       (\<lambda>t. Inr (s\<lparr>tb_plugin_revocations := t\<rparr>))"

definition revoke_plugin ::
    "registry_env \<Rightarrow> (nat \<Rightarrow> uuid) \<Rightarrow> timestamp \<Rightarrow> database \<Rightarrow> authorized_command
     \<Rightarrow> (mutation \<times> database) outcome" where
  "revoke_plugin re ids now s command =
     rbind (require_reason command) (\<lambda>reason.
     rbind (current_installation re s command) (\<lambda>current.
     rbind (parse_uuid (rg_pf re) (ca_tenant_id (ac_actor command))) (\<lambda>tenant.
     rbind (field de_string (ac_input command) ''plugin_id'') (\<lambda>plugin.
     rbind (field de_string (ac_input command) ''artifact_digest'') (\<lambda>digest.
     rbind (stored_manifest s tenant plugin digest) (\<lambda>_.
     rbind (parse_uuid (rg_pf re) (ca_principal_id (ac_actor command))) (\<lambda>who.
     rbind (insert_revocation
       \<lparr> px_tenant = tenant, px_plugin_id = plugin, px_artifact_digest = digest, px_reason = reason,
         px_revoked_by = who \<rparr> s) (\<lambda>s1.
     rbind (ok_or illegal (checked_i32 (pi_version current + 1))) (\<lambda>next.
     rbind (update_installation tenant (pi_id current) (revoked_installation digest next) s1) (\<lambda>s2.
     rbind (installation_projection re s2 tenant (pi_id current)) (\<lambda>result.
     rbind (update_run (pinned_run tenant plugin digest) (blocked_run now) s2) (\<lambda>s3.
     Inr (with_changes result (map (\<lambda>r. run_projection re (blocked_run now r))
            (filter (pinned_run tenant plugin digest) (tb_runs s2))), s3)))))))))))))"

definition uninstall_plugin ::
    "registry_env \<Rightarrow> (nat \<Rightarrow> uuid) \<Rightarrow> timestamp \<Rightarrow> database \<Rightarrow> authorized_command
     \<Rightarrow> (mutation \<times> database) outcome" where
  "uninstall_plugin re ids now s command =
     rbind (current_installation re s command) (\<lambda>current.
     rbind (checked_version command current) (\<lambda>next.
     if \<not> List.member [''INSTALLED_DISABLED'', ''DISABLED''] (pi_state current) then Inl illegal
     else
     rbind (field de_string (ac_input command) ''data_policy'') (\<lambda>data_policy.
     if data_policy \<noteq> ''RETAIN'' then Inl (precondition ''EXPORT_REQUIRED'')
     else
     rbind (parse_uuid (rg_pf re) (ca_tenant_id (ac_actor command))) (\<lambda>tenant.
     if has_active_plugin_runs s tenant (pi_plugin_id current) then Inl (precondition ''PLUGIN_HAS_ACTIVE_RUNS'')
     else
     rbind (selected_manifests s tenant) (\<lambda>selected.
     rbind (map_err (\<lambda>_. manifest_invalid) (opaque_id_new ''PluginId'' (pi_plugin_id current))) (\<lambda>plugin.
     rbind (resolve_manifests (rg_trust re) (filter (\<lambda>(k, _). k \<noteq> plugin) selected)) (\<lambda>_.
     rbind (update_installation tenant (pi_id current)
              (\<lambda>i. i\<lparr>pi_state := ''UNINSTALLED'', pi_granted_capabilities := [],
                      pi_revocation_epoch := pi_revocation_epoch i + 1, pi_version := next\<rparr>) s) (\<lambda>s'.
     rbind (installation_projection re s' tenant (pi_id current)) (\<lambda>result.
     Inr (result, s'))))))))))"

section \<open>Products\<close>

definition de_locked_plugin :: "json \<Rightarrow> locked_plugin option" where
  "de_locked_plugin j =
     (if \<not> only_members [''plugin_id'', ''artifact_digest'', ''contract_version''] j then None
      else do {
        i \<leftarrow> de_member ''plugin_id'' (de_opaque ''PluginId'') j;
        d \<leftarrow> de_member ''artifact_digest'' de_digest j;
        v \<leftarrow> de_member ''contract_version'' de_string j;
        Some \<lparr> lp_plugin_id = i, lp_artifact_digest = d, lp_contract_version = v \<rparr> })"

definition de_plugin_lock :: "json \<Rightarrow> plugin_lock option" where
  "de_plugin_lock j =
     (if \<not> only_members [''schema_version'', ''product_id'', ''plugins''] j then None
      else do {
        v \<leftarrow> de_member ''schema_version'' de_string j;
        p \<leftarrow> de_member ''product_id'' (de_opaque ''PluginId'') j;
        ps \<leftarrow> de_member ''plugins'' (de_list de_locked_plugin) j;
        Some \<lparr> lk_schema_version = v, lk_product_id = p, lk_plugins = ps \<rparr> })"

definition select_pinned ::
    "registry_env \<Rightarrow> database \<Rightarrow> command_actor \<Rightarrow> uuid \<Rightarrow> locked_plugin \<Rightarrow> manifests \<Rightarrow> manifests outcome" where
  "select_pinned re s actor tenant pinned selected =
     rbind (ok_or not_found (row_at plugin_key (tenant, lp_plugin_id pinned) (tb_installations s))) (\<lambda>row.
     if pi_state row \<noteq> ''ENABLED'' then Inl (precondition ''PLUGIN_NOT_ENABLED'')
     else if pi_artifact_digest row \<noteq> lp_artifact_digest pinned then Inl (conflict ''PLUGIN_LOCK_MISMATCH'')
     else
     rbind (stored_manifest s tenant (lp_plugin_id pinned) (lp_artifact_digest pinned)) (\<lambda>manifest.
     if pl_contract_version manifest \<noteq> lp_contract_version pinned then Inl (precondition ''CONTRACT_UNSUPPORTED'')
     else
     rbind (verify_publisher_and_package re s actor manifest) (\<lambda>_.
     Inr (btree_insert (pl_id manifest) manifest selected))))"

definition insert_composition :: "composition_row \<Rightarrow> database \<Rightarrow> database outcome" where
  "insert_composition c s =
     rbind (sql (insert_row (\<lambda>c. 0 < pm_version c)
              (\<lambda>c c'. pm_tenant c' = pm_tenant c \<and> (pm_id c' = pm_id c \<or> pm_product_id c' = pm_product_id c))
              (tenant_known s (pm_tenant c)
               \<and> row_at artifact_key (pm_tenant c, pm_lock_artifact_id c) (tb_artifacts s) \<noteq> None)
              c (tb_compositions s))) (\<lambda>t. Inr (s\<lparr>tb_compositions := t\<rparr>))"

definition compose_product ::
    "registry_env \<Rightarrow> (nat \<Rightarrow> uuid) \<Rightarrow> timestamp \<Rightarrow> database \<Rightarrow> authorized_command
     \<Rightarrow> (mutation \<times> database) outcome" where
  "compose_product re ids now s command =
     rbind (field de_string (ac_input command) ''product_id'') (\<lambda>product.
     rbind (field de_artifact_ref (ac_input command) ''plugin_lock_ref'') (\<lambda>reference.
     rbind (load_artifact_ref (rg_env re) s (ac_actor command) reference MAX_COMMAND_BYTES) (\<lambda>bytes.
     rbind (map_err (\<lambda>_. invalid ''PLUGIN_LOCK_INVALID'') (strict_json (st_decode (rg_schema re)) bytes)) (\<lambda>j.
     rbind (ok_or (invalid ''PLUGIN_LOCK_INVALID'') (de_plugin_lock j)) (\<lambda>lock.
     rbind (validate_lock lock product) (\<lambda>_.
     rbind (parse_uuid (rg_pf re) (ca_tenant_id (ac_actor command))) (\<lambda>tenant.
     rbind (rfold (select_pinned re s (ac_actor command) tenant) (lk_plugins lock) []) (\<lambda>selected.
     rbind (resolve_manifests (rg_trust re) selected) (\<lambda>enabled.
     rbind (parse_uuid (rg_pf re) (ar_artifact_id reference)) (\<lambda>lock_artifact.
     rbind (insert_composition
       \<lparr> pm_tenant = tenant, pm_id = ids 0, pm_product_id = product, pm_lock_artifact_id = lock_artifact,
         pm_lock_digest = ar_digest reference, pm_enabled_plugins = enabled, pm_version = 1 \<rparr> s) (\<lambda>s'.
     Inr (mutation_one (rg_pf re) ''ProductComposition'' (ids 0) 1
            (JObj [(''composition_id'', ser_uuid (rg_pf re) (ids 0)), (''product_id'', JStr product),
                   (''plugin_lock_ref'', ser_artifact_ref reference), (''enabled_plugins'', ser_strings enabled),
                   (''version'', JNum 1)]) product, s'))))))))))))"

section \<open>What each command does to the registry\<close>

lemma field_manifest_readable: "field de_plugin_manifest j name = Inr m \<Longrightarrow> manifest_readable m"
  by (auto simp: field_def rbind_Inr_iff ok_or_Inr_iff dest: de_manifest_readable)

lemma update_installation_Inr:
  "update_installation tenant i f s = Inr s' \<Longrightarrow>
     s' = s\<lparr>tb_installations := update_where (\<lambda>r. installation_key r = (tenant, i)) f (tb_installations s)\<rparr>"
  by (simp only: update_installation_def rbind_Inr_iff sql_Inr_iff update_rows_Inr_iff) auto

lemma insert_workflow_Inr:
  "insert_workflow w s = Inr s' \<Longrightarrow> \<exists>t. s' = s\<lparr>tb_workflow_definitions := t\<rparr>"
  by (auto simp: insert_workflow_def rbind_Inr_iff)

lemma save_plugin_version_Inr:
  assumes "save_plugin_version now tenant m ws s = Inr s'"
  obtains t where "s' = s\<lparr>tb_plugin_versions := tb_plugin_versions s @ [version_row tenant m], tb_workflow_definitions := t\<rparr>"
    and "version_key (version_row tenant m) \<notin> version_key ` set (tb_plugin_versions s)"
proof -
  from assms obtain s1 where i: "insert_plugin_version (version_row tenant m) s = Inr s1"
    and f: "rfold (\<lambda>d. insert_workflow (definition_row now tenant m d)) ws s1 = Inr s'"
    by (auto simp: save_plugin_version_def rbind_Inr_iff)
  from f have "\<exists>t. s' = s1\<lparr>tb_workflow_definitions := t\<rparr>"
  proof (rule rfold_invariant)
    show "\<exists>t. s1 = s1\<lparr>tb_workflow_definitions := t\<rparr>" by (rule exI [of _ "tb_workflow_definitions s1"]) simp
  qed (auto dest!: insert_workflow_Inr)
  moreover from i have "s1 = s\<lparr>tb_plugin_versions := tb_plugin_versions s @ [version_row tenant m]\<rparr>"
      "version_key (version_row tenant m) \<notin> version_key ` set (tb_plugin_versions s)"
    by (auto simp: insert_plugin_version_def rbind_Inr_iff sql_Inr_iff insert_row_Inr_iff)
  ultimately show ?thesis using that by auto
qed

lemma verify_installation_not_revoked:
  assumes "verify_installation re s actor m = Inr ws" and "parse_uuid (rg_pf re) (ca_tenant_id actor) = Inr tenant"
  shows "\<not> plugin_revoked s tenant (pl_id m) (pl_artifact_digest m)"
proof -
  from assms(1) have "verify_publisher_and_package re s actor m = Inr ()"
    unfolding verify_installation_def by (simp only: rbind_Inr_iff split: if_split_asm) auto
  with assms(2) show ?thesis
    unfolding verify_publisher_and_package_def by (auto split: if_split_asm)
qed

text \<open>
  The commands as changes of three tables. Every one is a change of the installation found by the
  plugin named in the input, together with the rows it adds.
\<close>

definition adds_version :: "database \<Rightarrow> uuid \<Rightarrow> plugin_manifest \<Rightarrow> database \<Rightarrow> bool" where
  "adds_version s tenant m s' \<longleftrightarrow>
     (\<exists>t. s' = s\<lparr>tb_plugin_versions := tb_plugin_versions s @ [version_row tenant m], tb_workflow_definitions := t\<rparr>)
     \<and> version_key (version_row tenant m) \<notin> version_key ` set (tb_plugin_versions s)"

abbreviation changes_installation ::
    "database \<Rightarrow> installation_row \<Rightarrow> (installation_row \<Rightarrow> installation_row) \<Rightarrow> database" where
  "changes_installation s current f \<equiv>
     s\<lparr>tb_installations := update_where (\<lambda>r. installation_key r = installation_key current) f (tb_installations s)\<rparr>"

lemma current_installation_Inr:
  assumes "current_installation re s c = Inr i" and "parse_uuid (rg_pf re) (ca_tenant_id (ac_actor c)) = Inr tenant"
    and "field de_string (ac_input c) ''plugin_id'' = Inr plugin"
  shows "i \<in> set (tb_installations s)" and "pi_tenant i = tenant" and "pi_plugin_id i = plugin"
  using assms unfolding current_installation_def
  by (auto simp: rbind_Inr_iff ok_or_Inr_iff dest: row_at_SomeD)

lemma current_installation_fields:
  assumes "current_installation re s c = Inr i"
  shows "\<exists>tenant plugin. parse_uuid (rg_pf re) (ca_tenant_id (ac_actor c)) = Inr tenant
    \<and> field de_string (ac_input c) ''plugin_id'' = Inr plugin
    \<and> i \<in> set (tb_installations s) \<and> pi_tenant i = tenant \<and> pi_plugin_id i = plugin"
  using assms unfolding current_installation_def
  by (auto simp: rbind_Inr_iff ok_or_Inr_iff dest: row_at_SomeD)

lemma install_plugin_Inr:
  assumes "install_plugin re ids now s c = Inr (mu, s')"
  obtains tenant m s1 i where "manifest_readable m" and "adds_version s tenant m s1"
    and "s' = s1\<lparr>tb_installations := tb_installations s @ [installed_row tenant i m]\<rparr>"
    and "\<not> plugin_revoked s tenant (pl_id m) (pl_artifact_digest m)"
    and "plugin_key (installed_row tenant i m) \<notin> plugin_key ` set (tb_installations s)"
    and "installation_key (installed_row tenant i m) \<notin> installation_key ` set (tb_installations s)"
proof -
  from assms obtain m ws tenant s1 where m: "field de_plugin_manifest (ac_input c) ''manifest'' = Inr m"
    and ws: "verify_installation re s (ac_actor c) m = Inr ws"
    and tenant: "parse_uuid (rg_pf re) (ca_tenant_id (ac_actor c)) = Inr tenant"
    and s1: "save_plugin_version now tenant m ws s = Inr s1"
    and ins: "insert_installation (installed_row tenant (ids 0) m) s1 = Inr s'"
    by (auto simp: install_plugin_def rbind_Inr_iff)
  from s1 have a: "adds_version s tenant m s1"
    by (rule save_plugin_version_Inr) (auto simp: adds_version_def)
  then have t: "tb_installations s1 = tb_installations s" by (auto simp: adds_version_def)
  from ins have "s' = s1\<lparr>tb_installations := tb_installations s @ [installed_row tenant (ids 0) m]\<rparr>"
      "plugin_key (installed_row tenant (ids 0) m) \<notin> plugin_key ` set (tb_installations s)"
      "installation_key (installed_row tenant (ids 0) m) \<notin> installation_key ` set (tb_installations s)"
    by (auto simp: insert_installation_def rbind_Inr_iff sql_Inr_iff insert_row_Inr_iff t)
  with field_manifest_readable [OF m] a verify_installation_not_revoked [OF ws tenant] show ?thesis
    by (intro that)
qed

lemma enable_plugin_Inr:
  assumes "enable_plugin re ids now s c = Inr (mu, s')"
  obtains current m grants v where "current \<in> set (tb_installations s)"
    and "pi_state current = ''INSTALLED_DISABLED'' \<or> pi_state current = ''DISABLED''"
    and "stored_manifest s (pi_tenant current) (pi_plugin_id current) (pi_artifact_digest current) = Inr m"
    and "set grants \<subseteq> set (pl_requested_capabilities m)"
    and "s' = changes_installation s current
      (\<lambda>i. i\<lparr>pi_state := ''ENABLED'', pi_granted_capabilities := grants, pi_version := v\<rparr>)"
proof -
  from assms obtain current tenant v plugin m grants policy where
      cur: "current_installation re s c = Inr current"
    and tenant: "parse_uuid (rg_pf re) (ca_tenant_id (ac_actor c)) = Inr tenant"
    and st: "pi_state current = ''INSTALLED_DISABLED'' \<or> pi_state current = ''DISABLED''"
    and plugin: "field de_string (ac_input c) ''plugin_id'' = Inr plugin"
    and m: "stored_manifest s tenant plugin (pi_artifact_digest current) = Inr m"
    and g: "\<not> list_ex (\<lambda>g. \<not> capability_allowed re policy tenant m g) grants"
    and up: "update_installation tenant (pi_id current)
      (\<lambda>i. i\<lparr>pi_state := ''ENABLED'', pi_granted_capabilities := grants, pi_version := v\<rparr>) s = Inr s'"
    unfolding enable_plugin_def
    by (simp only: rbind_Inr_iff if_False if_True split: if_split_asm) auto
  note k = current_installation_Inr [OF cur tenant plugin]
  from g have "set grants \<subseteq> set (pl_requested_capabilities m)"
    by (auto simp: list_ex_iff capability_allowed_def)
  with k m st update_installation_Inr [OF up] show ?thesis by (intro that [of current m grants v]) auto
qed

lemma drain_installation_Inr:
  assumes "drain_installation re (pi_tenant current) current active v s = Inr (cs, v', s')"
  shows "if pi_state current = ''ENABLED''
    then s' = changes_installation s current (\<lambda>i. i\<lparr>pi_state := ''DRAINING'', pi_version := v\<rparr>) else s' = s"
proof (cases "pi_state current = ''ENABLED''")
  case True
  with assms have "update_installation (pi_tenant current) (pi_id current)
      (\<lambda>i. i\<lparr>pi_state := ''DRAINING'', pi_version := v\<rparr>) s = Inr s'"
    by (auto simp: drain_installation_def rbind_Inr_iff split: if_split_asm)
  from update_installation_Inr [OF this] True show ?thesis by simp
next
  case False
  with assms show ?thesis by (simp add: drain_installation_def)
qed

text \<open>A change of state and version only, to a state that is neither enabled nor revoked nor removed.\<close>

lemma disable_plugin_Inr:
  assumes "disable_plugin re ids now s c = Inr (mu, s')"
  obtains current st v where "current \<in> set (tb_installations s)"
    and "pi_state current = ''ENABLED'' \<or> pi_state current = ''DRAINING''"
    and "st = ''DRAINING'' \<or> st = ''DISABLED''"
    and "s' = changes_installation s current (\<lambda>i. i\<lparr>pi_state := st, pi_version := v\<rparr>)"
proof -
  let ?active = "\<lambda>i. has_active_plugin_runs s (pi_tenant i) (pi_plugin_id i)"
  from assms obtain current tenant v cs v' s1 where
      cur: "current_installation re s c = Inr current"
    and tenant: "parse_uuid (rg_pf re) (ca_tenant_id (ac_actor c)) = Inr tenant"
    and st: "pi_state current = ''ENABLED'' \<or> pi_state current = ''DRAINING''"
      "pi_state current = ''DRAINING'' \<longrightarrow> \<not> has_active_plugin_runs s tenant (pi_plugin_id current)"
    and d: "drain_installation re tenant current (has_active_plugin_runs s tenant (pi_plugin_id current)) v s
      = Inr (cs, v', s1)"
    and f: "finish_disable re tenant current (has_active_plugin_runs s tenant (pi_plugin_id current)) (cs, v', s1)
      = Inr (mu, s')"
    unfolding disable_plugin_def Let_def
    by (simp only: rbind_Inr_iff split: if_split_asm) auto
  from f have r: "if has_active_plugin_runs s tenant (pi_plugin_id current) then s' = s1
      else update_installation tenant (pi_id current) (\<lambda>i. i\<lparr>pi_state := ''DISABLED'', pi_version := v'\<rparr>) s1 = Inr s'"
    by (auto simp: finish_disable_def rbind_Inr_iff)
  from current_installation_fields [OF cur] tenant have k: "current \<in> set (tb_installations s)" "pi_tenant current = tenant"
    by auto
  note d' = d [folded k(2)]
  show ?thesis
  proof (cases "?active current")
    case True
    with st k have e: "pi_state current = ''ENABLED''" by auto
    with drain_installation_Inr [OF d']
    have "s1 = changes_installation s current (\<lambda>i. i\<lparr>pi_state := ''DRAINING'', pi_version := v\<rparr>)"
      by (simp only: if_True)
    with True r k e show ?thesis by (intro that [of current "''DRAINING''" v]) auto
  next
    case False
    with r k have s': "s' = changes_installation s1 current (\<lambda>i. i\<lparr>pi_state := ''DISABLED'', pi_version := v'\<rparr>)"
      using update_installation_Inr [of tenant "pi_id current" _ s1 s'] by simp
    have "s' = changes_installation s current
        (\<lambda>i. i\<lparr>pi_state := ''DISABLED'', pi_version := v'\<rparr>)"
    proof (cases "pi_state current = ''ENABLED''")
      case True
      with drain_installation_Inr [OF d'] s' show ?thesis by (simp add: update_where_def)
    next
      case False
      with drain_installation_Inr [OF d'] s' show ?thesis by simp
    qed
    with k st(1) show ?thesis by (intro that [of current "''DISABLED''" v']) auto
  qed
qed

lemma upgrade_plugin_Inr:
  assumes "upgrade_plugin re ids now s c = Inr (mu, s')"
  obtains current m old s1 v where "current \<in> set (tb_installations s)" and "manifest_readable m"
    and "stored_manifest s (pi_tenant current) (pi_plugin_id current) (pi_artifact_digest current) = Inr old"
    and "\<not> tt_version_le (rg_trust re) (pl_version m) (pl_version old)"
    and "adds_version s (pi_tenant current) m s1" and "pl_id m = pi_plugin_id current"
    and "\<not> plugin_revoked s (pi_tenant current) (pl_id m) (pl_artifact_digest m)"
    and "s' = changes_installation s1 current
      (\<lambda>i. i\<lparr>pi_artifact_digest := pl_artifact_digest m, pi_granted_capabilities :=
               filter (List.member (pl_requested_capabilities m)) (pi_granted_capabilities current), pi_version := v\<rparr>)"
proof -
  from assms obtain current v tenant m old ws s1 where
      cur: "current_installation re s c = Inr current"
    and tenant: "parse_uuid (rg_pf re) (ca_tenant_id (ac_actor c)) = Inr tenant"
    and m: "field de_plugin_manifest (ac_input c) ''new_manifest'' = Inr m" "pl_id m = pi_plugin_id current"
    and old: "stored_manifest s tenant (pi_plugin_id current) (pi_artifact_digest current) = Inr old"
      "\<not> tt_version_le (rg_trust re) (pl_version m) (pl_version old)"
    and ws: "verify_installation re s (ac_actor c) m = Inr ws"
    and s1: "save_plugin_version now tenant m ws s = Inr s1"
    and up: "update_installation tenant (pi_id current)
      (\<lambda>i. i\<lparr>pi_artifact_digest := pl_artifact_digest m, pi_granted_capabilities :=
               filter (List.member (pl_requested_capabilities m)) (pi_granted_capabilities current), pi_version := v\<rparr>) s1
      = Inr s'"
    unfolding upgrade_plugin_def Let_def
    by (simp only: rbind_Inr_iff split: if_split_asm) auto
  from current_installation_fields [OF cur] tenant have k: "current \<in> set (tb_installations s)" "pi_tenant current = tenant"
    by auto
  from s1 have "adds_version s tenant m s1"
    by (rule save_plugin_version_Inr) (auto simp: adds_version_def)
  with k field_manifest_readable [OF m(1)] m(2) old verify_installation_not_revoked [OF ws tenant] update_installation_Inr [OF up]
  show ?thesis by (intro that [of current m old s1 v]) auto
qed

lemma revoke_plugin_Inr:
  assumes "revoke_plugin re ids now s c = Inr (mu, s')"
  obtains current r v t where "current \<in> set (tb_installations s)"
    and "(px_tenant r, px_plugin_id r) = plugin_key current"
    and "s' = (changes_installation s current (revoked_installation (px_artifact_digest r) v))
      \<lparr>tb_plugin_revocations := tb_plugin_revocations s @ [r], tb_runs := t\<rparr>"
    and "t = update_where (pinned_run (px_tenant r) (px_plugin_id r) (px_artifact_digest r)) (blocked_run now) (tb_runs s)"
proof -
  from assms obtain reason current tenant plugin digest who s1 v s2 where
      cur: "current_installation re s c = Inr current"
    and tenant: "parse_uuid (rg_pf re) (ca_tenant_id (ac_actor c)) = Inr tenant"
    and plugin: "field de_string (ac_input c) ''plugin_id'' = Inr plugin"
    and ins: "insert_revocation \<lparr> px_tenant = tenant, px_plugin_id = plugin, px_artifact_digest = digest,
      px_reason = reason, px_revoked_by = who \<rparr> s = Inr s1"
    and up: "update_installation tenant (pi_id current) (revoked_installation digest v) s1 = Inr s2"
    and runs: "update_run (pinned_run tenant plugin digest) (blocked_run now) s2 = Inr s'"
    by (auto simp: revoke_plugin_def rbind_Inr_iff)
  note k = current_installation_Inr [OF cur tenant plugin]
  from ins have "s1 = s\<lparr>tb_plugin_revocations := tb_plugin_revocations s @
      [\<lparr> px_tenant = tenant, px_plugin_id = plugin, px_artifact_digest = digest, px_reason = reason,
         px_revoked_by = who \<rparr>]\<rparr>"
    by (auto simp: insert_revocation_def rbind_Inr_iff sql_Inr_iff insert_row_Inr_iff)
  with k update_installation_Inr [OF up] runs show ?thesis
    by (intro that [where current = current and v = v and r = "\<lparr> px_tenant = tenant, px_plugin_id = plugin,
      px_artifact_digest = digest, px_reason = reason, px_revoked_by = who \<rparr>"]) (auto simp: update_run_Inr_iff)
qed

lemma uninstall_plugin_Inr:
  assumes "uninstall_plugin re ids now s c = Inr (mu, s')"
  obtains current v where "current \<in> set (tb_installations s)"
    and "s' = changes_installation s current (\<lambda>i. i\<lparr>pi_state := ''UNINSTALLED'', pi_granted_capabilities := [],
      pi_revocation_epoch := pi_revocation_epoch i + 1, pi_version := v\<rparr>)"
proof -
  from assms obtain current v tenant where
      cur: "current_installation re s c = Inr current"
    and tenant: "parse_uuid (rg_pf re) (ca_tenant_id (ac_actor c)) = Inr tenant"
    and up: "update_installation tenant (pi_id current) (\<lambda>i. i\<lparr>pi_state := ''UNINSTALLED'',
      pi_granted_capabilities := [], pi_revocation_epoch := pi_revocation_epoch i + 1, pi_version := v\<rparr>) s = Inr s'"
    unfolding uninstall_plugin_def
    by (simp only: rbind_Inr_iff split: if_split_asm) auto
  from current_installation_fields [OF cur] tenant update_installation_Inr [OF up] show ?thesis
    by (intro that [of current v]) auto
qed

lemma compose_product_Inr:
  assumes "compose_product re ids now s c = Inr (mu, s')"
  shows "\<exists>t. s' = s\<lparr>tb_compositions := t\<rparr>"
  using assms by (auto simp: compose_product_def insert_composition_def rbind_Inr_iff)

section \<open>Sequences of commands\<close>

datatype registry_op =
    Install_Plugin "nat \<Rightarrow> uuid" timestamp authorized_command
  | Enable_Plugin "nat \<Rightarrow> uuid" timestamp authorized_command
  | Disable_Plugin "nat \<Rightarrow> uuid" timestamp authorized_command
  | Upgrade_Plugin "nat \<Rightarrow> uuid" timestamp authorized_command
  | Revoke_Plugin "nat \<Rightarrow> uuid" timestamp authorized_command
  | Uninstall_Plugin "nat \<Rightarrow> uuid" timestamp authorized_command
  | Compose_Product "nat \<Rightarrow> uuid" timestamp authorized_command

fun registry_run :: "registry_env \<Rightarrow> database \<Rightarrow> registry_op \<Rightarrow> (mutation \<times> database) outcome" where
  "registry_run re s (Install_Plugin ids now c) = install_plugin re ids now s c"
| "registry_run re s (Enable_Plugin ids now c) = enable_plugin re ids now s c"
| "registry_run re s (Disable_Plugin ids now c) = disable_plugin re ids now s c"
| "registry_run re s (Upgrade_Plugin ids now c) = upgrade_plugin re ids now s c"
| "registry_run re s (Revoke_Plugin ids now c) = revoke_plugin re ids now s c"
| "registry_run re s (Uninstall_Plugin ids now c) = uninstall_plugin re ids now s c"
| "registry_run re s (Compose_Product ids now c) = compose_product re ids now s c"

definition registry_step :: "registry_env \<Rightarrow> database \<Rightarrow> registry_op \<Rightarrow> database outcome" where
  "registry_step re s op = rbind (registry_run re s op) (\<lambda>(m, s'). Inr s')"

definition retired :: "installation_row \<Rightarrow> bool" where
  "retired i \<longleftrightarrow> pi_state i = ''REVOKED'' \<or> pi_state i = ''UNINSTALLED''"

definition capabilities_requested :: "database \<Rightarrow> installation_row \<Rightarrow> bool" where
  "capabilities_requested s i \<longleftrightarrow>
     pi_granted_capabilities i = []
     \<or> (\<exists>m. stored_manifest s (pi_tenant i) (pi_plugin_id i) (pi_artifact_digest i) = Inr m
          \<and> set (pi_granted_capabilities i) \<subseteq> set (pl_requested_capabilities m))"

definition installation_sound :: "database \<Rightarrow> installation_row \<Rightarrow> bool" where
  "installation_sound s i \<longleftrightarrow>
     (plugin_revoked s (pi_tenant i) (pi_plugin_id i) (pi_artifact_digest i) \<longrightarrow> retired i)
     \<and> capabilities_requested s i"

definition registry_inv :: "database \<Rightarrow> bool" where
  "registry_inv s \<longleftrightarrow> unique_key installation_key (tb_installations s) \<and> unique_key plugin_key (tb_installations s)
     \<and> (\<forall>i \<in> set (tb_installations s). installation_sound s i)"

lemma stored_manifest_cong:
  "tb_plugin_versions s' = tb_plugin_versions s \<Longrightarrow> stored_manifest s' = stored_manifest s"
  by (simp add: stored_manifest_def fun_eq_iff)

lemma installation_sound_cong:
  "tb_plugin_versions s' = tb_plugin_versions s \<Longrightarrow> tb_plugin_revocations s' = tb_plugin_revocations s \<Longrightarrow>
     installation_sound s' i = installation_sound s i"
  by (simp add: installation_sound_def capabilities_requested_def plugin_revoked_def stored_manifest_def)

text \<open>A version row that is added is read back, and hides none that was there.\<close>

lemma adds_version_stored:
  assumes "adds_version s tenant m s1"
  shows "stored_manifest s t p d = Inr x \<Longrightarrow> stored_manifest s1 t p d = Inr x"
    and "manifest_readable m \<Longrightarrow> stored_manifest s1 tenant (pl_id m) (pl_artifact_digest m) = Inr m"
    and "tb_plugin_revocations s1 = tb_plugin_revocations s" and "tb_installations s1 = tb_installations s"
    and "tb_runs s1 = tb_runs s"
proof -
  from assms obtain w where s1: "s1 = s\<lparr>tb_plugin_versions := tb_plugin_versions s @ [version_row tenant m],
      tb_workflow_definitions := w\<rparr>"
    and fresh: "version_key (version_row tenant m) \<notin> version_key ` set (tb_plugin_versions s)"
    by (auto simp: adds_version_def)
  show "stored_manifest s t p d = Inr x \<Longrightarrow> stored_manifest s1 t p d = Inr x"
    by (auto simp: s1 stored_manifest_def rbind_Inr_iff ok_or_Inr_iff row_at_append split: option.splits)
  from fresh have "row_at version_key (tenant, pl_id m, pl_artifact_digest m) (tb_plugin_versions s) = None"
    by (simp add: row_at_None_iff version_row_def)
  then show "manifest_readable m \<Longrightarrow> stored_manifest s1 tenant (pl_id m) (pl_artifact_digest m) = Inr m"
    by (simp add: s1 stored_manifest_def row_at_append version_row_def manifest_roundtrip)
qed (use assms in \<open>auto simp: adds_version_def\<close>)

lemma adds_version_sound:
  "adds_version s tenant m s1 \<Longrightarrow> installation_sound s i \<Longrightarrow> installation_sound s1 i"
  using adds_version_stored(1,3) [of s tenant m s1]
  by (auto simp: installation_sound_def capabilities_requested_def plugin_revoked_def)

text \<open>The rows of a changed table: the changed row and the others.\<close>

lemma changed_rows_sound:
  assumes "registry_inv s" and "current \<in> set (tb_installations s)"
    and "\<And>i. plugin_key (f i) = plugin_key i" "\<And>i. installation_key (f i) = installation_key i"
    and "tb_installations s' = update_where (\<lambda>r. installation_key r = installation_key current) f (tb_installations s)"
    and "installation_sound s' (f current)"
    and "\<And>i. i \<in> set (tb_installations s) \<Longrightarrow> plugin_key i \<noteq> plugin_key current \<Longrightarrow> installation_sound s i
      \<Longrightarrow> installation_sound s' i"
  shows "registry_inv s'"
proof -
  from assms(1) have u: "unique_key installation_key (tb_installations s)" "unique_key plugin_key (tb_installations s)"
    and ok: "\<forall>i \<in> set (tb_installations s). installation_sound s i" by (simp_all add: registry_inv_def)
  have "installation_sound s' i" if i: "i \<in> set (tb_installations s')" for i
  proof -
    from i assms(5) obtain r where r: "r \<in> set (tb_installations s)"
      and ri: "i = (if installation_key r = installation_key current then f r else r)"
      by (auto simp: set_update_where)
    show ?thesis
    proof (cases "installation_key r = installation_key current")
      case True
      from unique_key_eq [OF u(1) r assms(2) True] ri assms(6) show ?thesis by simp
    next
      case False
      then have "plugin_key r \<noteq> plugin_key current" using unique_key_eq [OF u(2) r assms(2)] by auto
      with assms(7) r ok False ri show ?thesis by (simp del: prod.inject)
    qed
  qed
  moreover from u assms(3-5) have "unique_key installation_key (tb_installations s')" "unique_key plugin_key (tb_installations s')"
    by (simp_all add: unique_key_update_where del: prod.inject)
  ultimately show ?thesis by (simp add: registry_inv_def)
qed

lemma install_keeps_inv:
  assumes "install_plugin re ids now s c = Inr (mu, s')" and "registry_inv s"
  shows "registry_inv s'"
  using assms(1)
proof (rule install_plugin_Inr)
  fix tenant m s1 i
  let ?i = "installed_row tenant i m"
  assume m: "manifest_readable m" and a: "adds_version s tenant m s1"
    and s': "s' = s1\<lparr>tb_installations := tb_installations s @ [?i]\<rparr>"
    and nr: "\<not> plugin_revoked s tenant (pl_id m) (pl_artifact_digest m)"
    and fresh: "plugin_key ?i \<notin> plugin_key ` set (tb_installations s)"
      "installation_key ?i \<notin> installation_key ` set (tb_installations s)"
  have c: "installation_sound s' x = installation_sound s1 x" for x
    by (rule installation_sound_cong) (simp_all add: s')
  have "installation_sound s1 ?i"
    using nr adds_version_stored(3) [OF a]
    by (simp add: installation_sound_def capabilities_requested_def plugin_revoked_def installed_row_def)
  with assms(2) c adds_version_sound [OF a] fresh show ?thesis
    by (auto simp: registry_inv_def s' unique_key_snoc row_at_None_iff)
qed

lemma enable_keeps_inv:
  assumes "enable_plugin re ids now s c = Inr (mu, s')" and "registry_inv s"
  shows "registry_inv s'"
  using assms(1)
proof (rule enable_plugin_Inr)
  fix current m grants v
  assume cur: "current \<in> set (tb_installations s)"
    and st: "pi_state current = ''INSTALLED_DISABLED'' \<or> pi_state current = ''DISABLED''"
    and m: "stored_manifest s (pi_tenant current) (pi_plugin_id current) (pi_artifact_digest current) = Inr m"
      "set grants \<subseteq> set (pl_requested_capabilities m)"
    and s': "s' = changes_installation s current
      (\<lambda>i. i\<lparr>pi_state := ''ENABLED'', pi_granted_capabilities := grants, pi_version := v\<rparr>)"
  have c: "installation_sound s' x = installation_sound s x" for x
    by (rule installation_sound_cong) (simp_all add: s')
  from assms(2) cur st have "\<not> plugin_revoked s (pi_tenant current) (pi_plugin_id current) (pi_artifact_digest current)"
    by (auto simp: registry_inv_def installation_sound_def retired_def)
  with m have "installation_sound s (current\<lparr>pi_state := ''ENABLED'', pi_granted_capabilities := grants, pi_version := v\<rparr>)"
    by (simp add: installation_sound_def capabilities_requested_def)
  with c show ?thesis
    by (intro changed_rows_sound [OF assms(2) cur, where f =
          "\<lambda>i. i\<lparr>pi_state := ''ENABLED'', pi_granted_capabilities := grants, pi_version := v\<rparr>"])
      (simp_all add: s')
qed

lemma disable_keeps_inv:
  assumes "disable_plugin re ids now s c = Inr (mu, s')" and "registry_inv s"
  shows "registry_inv s'"
  using assms(1)
proof (rule disable_plugin_Inr)
  fix current st v
  assume cur: "current \<in> set (tb_installations s)"
    and old: "pi_state current = ''ENABLED'' \<or> pi_state current = ''DRAINING''"
    and s': "s' = changes_installation s current (\<lambda>i. i\<lparr>pi_state := st, pi_version := v\<rparr>)"
  have c: "installation_sound s' x = installation_sound s x" for x
    by (rule installation_sound_cong) (simp_all add: s')
  from assms(2) cur old have "installation_sound s (current\<lparr>pi_state := st, pi_version := v\<rparr>)"
    by (auto simp: registry_inv_def installation_sound_def retired_def capabilities_requested_def)
  with c show ?thesis
    by (intro changed_rows_sound [OF assms(2) cur, where f = "\<lambda>i. i\<lparr>pi_state := st, pi_version := v\<rparr>"])
      (simp_all add: s')
qed

lemma upgrade_keeps_inv:
  assumes "upgrade_plugin re ids now s c = Inr (mu, s')" and "registry_inv s"
  shows "registry_inv s'"
  using assms(1)
proof (rule upgrade_plugin_Inr)
  fix current :: installation_row and m :: plugin_manifest and s1 :: database and v :: int
  let ?f = "\<lambda>i :: installation_row. i\<lparr>pi_artifact_digest := pl_artifact_digest m, pi_granted_capabilities :=
      filter (List.member (pl_requested_capabilities m)) (pi_granted_capabilities current), pi_version := v\<rparr>"
  assume cur: "current \<in> set (tb_installations s)" and m: "manifest_readable m"
    and a: "adds_version s (pi_tenant current) m s1" and i: "pl_id m = pi_plugin_id current"
    and nr: "\<not> plugin_revoked s (pi_tenant current) (pl_id m) (pl_artifact_digest m)"
    and s': "s' = changes_installation s1 current ?f"
  have c: "installation_sound s' x = installation_sound s1 x" for x
    by (rule installation_sound_cong) (simp_all add: s')
  note st = adds_version_stored [OF a]
  from st(2) [OF m] nr i st(3) have "installation_sound s1 (?f current)"
    by (auto simp: installation_sound_def capabilities_requested_def plugin_revoked_def)
  with c adds_version_sound [OF a] st(4) show ?thesis
    by (intro changed_rows_sound [OF assms(2) cur, where f = ?f]) (simp_all add: s')
qed

lemma revoke_keeps_inv:
  assumes "revoke_plugin re ids now s c = Inr (mu, s')" and "registry_inv s"
  shows "registry_inv s'"
  using assms(1)
proof (rule revoke_plugin_Inr)
  fix current r v t
  assume cur: "current \<in> set (tb_installations s)"
    and k: "(px_tenant r, px_plugin_id r) = plugin_key current"
    and s': "s' = (changes_installation s current (revoked_installation (px_artifact_digest r) v))
      \<lparr>tb_plugin_revocations := tb_plugin_revocations s @ [r], tb_runs := t\<rparr>"
  have m: "stored_manifest s' = stored_manifest s" by (rule stored_manifest_cong) (simp add: s')
  have rv: "plugin_revoked s' t p d \<longleftrightarrow> plugin_revoked s t p d \<or> (t, p, d) = revocation_key r" for t p d
    by (auto simp: plugin_revoked_def s' row_at_append split: option.splits)
  from assms(2) cur have ok: "installation_sound s current" by (simp add: registry_inv_def)
  from ok k have "installation_sound s' (revoked_installation (px_artifact_digest r) v current)"
    by (auto simp: installation_sound_def capabilities_requested_def retired_def revoked_installation_def rv m)
  moreover have "installation_sound s i \<Longrightarrow> plugin_key i \<noteq> plugin_key current \<Longrightarrow> installation_sound s' i" for i
    using k by (auto simp: installation_sound_def capabilities_requested_def rv m)
  ultimately show ?thesis
    by (intro changed_rows_sound [OF assms(2) cur, where f = "revoked_installation (px_artifact_digest r) v"])
      (simp_all add: s' revoked_installation_def)
qed

lemma uninstall_keeps_inv:
  assumes "uninstall_plugin re ids now s c = Inr (mu, s')" and "registry_inv s"
  shows "registry_inv s'"
  using assms(1)
proof (rule uninstall_plugin_Inr)
  fix current :: installation_row and v :: int
  let ?f = "\<lambda>i :: installation_row. i\<lparr>pi_state := ''UNINSTALLED'', pi_granted_capabilities := [],
      pi_revocation_epoch := pi_revocation_epoch i + 1, pi_version := v\<rparr>"
  assume cur: "current \<in> set (tb_installations s)" and s': "s' = changes_installation s current ?f"
  have c: "installation_sound s' x = installation_sound s x" for x
    by (rule installation_sound_cong) (simp_all add: s')
  have "installation_sound s (?f current)"
    by (simp add: installation_sound_def capabilities_requested_def retired_def)
  with c show ?thesis
    by (intro changed_rows_sound [OF assms(2) cur, where f = ?f]) (simp_all add: s')
qed

lemma registry_step_inv:
  assumes "registry_inv s" and "registry_step re s op = Inr s'"
  shows "registry_inv s'"
proof -
  from assms(2) obtain mu where r: "registry_run re s op = Inr (mu, s')"
    by (auto simp: registry_step_def rbind_Inr_iff)
  show ?thesis
  proof (cases op)
    case (Compose_Product ids now c)
    with r obtain t where "s' = s\<lparr>tb_compositions := t\<rparr>" by (auto dest: compose_product_Inr)
    with assms(1) installation_sound_cong [of s' s] show ?thesis by (simp add: registry_inv_def)
  qed (use r assms(1) in \<open>auto intro: install_keeps_inv enable_keeps_inv disable_keeps_inv upgrade_keeps_inv
        revoke_keeps_inv uninstall_keeps_inv\<close>)
qed

interpretation registry_ops: invariant_ops "registry_step re" registry_inv
  by unfold_locales (rule registry_step_inv)

section \<open>Properties\<close>

lemma registry_step_revocations:
  assumes "registry_step re s op = Inr s'"
  shows "\<exists>rs. tb_plugin_revocations s' = tb_plugin_revocations s @ rs"
proof -
  from assms obtain mu where r: "registry_run re s op = Inr (mu, s')"
    by (auto simp: registry_step_def rbind_Inr_iff)
  then show ?thesis
  proof (cases op)
    case (Install_Plugin ids now c)
    with r have "install_plugin re ids now s c = Inr (mu, s')" by simp
    then show ?thesis by (rule install_plugin_Inr) (simp add: adds_version_stored(3))
  next
    case (Enable_Plugin ids now c)
    with r have "enable_plugin re ids now s c = Inr (mu, s')" by simp
    then show ?thesis by (rule enable_plugin_Inr) simp
  next
    case (Disable_Plugin ids now c)
    with r have "disable_plugin re ids now s c = Inr (mu, s')" by simp
    then show ?thesis by (rule disable_plugin_Inr) simp
  next
    case (Upgrade_Plugin ids now c)
    with r have "upgrade_plugin re ids now s c = Inr (mu, s')" by simp
    then show ?thesis by (rule upgrade_plugin_Inr) (simp add: adds_version_stored(3))
  next
    case (Revoke_Plugin ids now c)
    with r have "revoke_plugin re ids now s c = Inr (mu, s')" by simp
    then show ?thesis by (rule revoke_plugin_Inr) simp
  next
    case (Uninstall_Plugin ids now c)
    with r have "uninstall_plugin re ids now s c = Inr (mu, s')" by simp
    then show ?thesis by (rule uninstall_plugin_Inr) simp
  next
    case (Compose_Product ids now c)
    with r have "compose_product re ids now s c = Inr (mu, s')" by simp
    from compose_product_Inr [OF this] show ?thesis by auto
  qed
qed

lemma registry_step_keeps_revoked:
  assumes "registry_step re s op = Inr s'" and "plugin_revoked s t p d"
  shows "plugin_revoked s' t p d"
  using registry_step_revocations [OF assms(1)] assms(2)
  by (auto simp: plugin_revoked_def row_at_append split: option.splits)

lemma registry_keeps_revoked:
  assumes "registry_inv s" and "plugin_revoked s t p d"
  shows "plugin_revoked (attempts (registry_step re) s ops) t p d"
  by (rule registry_ops.attempts_stable [where A = UNIV and P = "\<lambda>s. plugin_revoked s t p d"])
    (use assms registry_step_keeps_revoked in auto)

text \<open>
  C6: a revoked build stays out. Once a build of a plugin has been revoked, no sequence of registry
  commands - installations, upgrades, enabling, whatever they name - leaves it in a state other than
  \<open>REVOKED\<close> or \<open>UNINSTALLED\<close>.
\<close>

theorem revoked_build_stays_out:
  assumes "registry_inv s" and "plugin_revoked s tenant plugin digest"
    and "i \<in> set (tb_installations (attempts (registry_step re) s ops))"
    and "build_key i = (tenant, plugin, digest)"
  shows "pi_state i = ''REVOKED'' \<or> pi_state i = ''UNINSTALLED''"
proof -
  let ?t = "attempts (registry_step re) s ops"
  from registry_ops.attempts_inv [OF assms(1)] assms(3) have "installation_sound ?t i"
    by (simp add: registry_inv_def)
  with registry_keeps_revoked [OF assms(1,2), of re ops] assms(4) show ?thesis
    by (auto simp: installation_sound_def retired_def)
qed

text \<open>
  C14: an installation never holds a capability its signed manifest did not request. This holds
  after any sequence of registry commands, for the manifest stored for the installed build.
\<close>

theorem capabilities_stay_within_manifest:
  assumes "registry_inv s" and "i \<in> set (tb_installations (attempts (registry_step re) s ops))"
    and "capability \<in> set (pi_granted_capabilities i)"
  shows "\<exists>m. stored_manifest (attempts (registry_step re) s ops) (pi_tenant i) (pi_plugin_id i) (pi_artifact_digest i)
    = Inr m \<and> capability \<in> set (pl_requested_capabilities m)"
proof -
  from registry_ops.attempts_inv [OF assms(1)] assms(2)
  have "installation_sound (attempts (registry_step re) s ops) i" by (simp add: registry_inv_def)
  with assms(3) show ?thesis by (auto simp: installation_sound_def capabilities_requested_def)
qed

text \<open>
  An upgrade moves forward and never broadens. It installs a build of a higher version than the
  stored one, leaves every other installation as it is, gives the upgraded one no capability it did
  not hold, keeps its state, and touches no run.
\<close>

theorem upgrade_never_broadens:
  assumes "upgrade_plugin re ids now s c = Inr (mu, s')" and "unique_key installation_key (tb_installations s)"
  shows "tb_runs s' = tb_runs s
    \<and> (\<exists>current \<in> set (tb_installations s). \<exists>upgraded new old.
        tb_installations s' = update_where (\<lambda>r. r = current) (\<lambda>_. upgraded) (tb_installations s)
        \<and> pi_state upgraded = pi_state current
        \<and> set (pi_granted_capabilities upgraded) \<subseteq> set (pi_granted_capabilities current)
        \<and> stored_manifest s (pi_tenant current) (pi_plugin_id current) (pi_artifact_digest current) = Inr old
        \<and> stored_manifest s' (pi_tenant upgraded) (pi_plugin_id upgraded) (pi_artifact_digest upgraded) = Inr new
        \<and> \<not> tt_version_le (rg_trust re) (pl_version new) (pl_version old))"
  using assms(1)
proof (rule upgrade_plugin_Inr)
  fix current :: installation_row and m old :: plugin_manifest and s1 :: database and v :: int
  let ?f = "\<lambda>i :: installation_row. i\<lparr>pi_artifact_digest := pl_artifact_digest m, pi_granted_capabilities :=
      filter (List.member (pl_requested_capabilities m)) (pi_granted_capabilities current), pi_version := v\<rparr>"
  assume cur: "current \<in> set (tb_installations s)" and m: "manifest_readable m"
    and old: "stored_manifest s (pi_tenant current) (pi_plugin_id current) (pi_artifact_digest current) = Inr old"
    and up: "\<not> tt_version_le (rg_trust re) (pl_version m) (pl_version old)"
    and a: "adds_version s (pi_tenant current) m s1" and i: "pl_id m = pi_plugin_id current"
    and s': "s' = changes_installation s1 current ?f"
  note st = adds_version_stored [OF a]
  have "installation_key r = installation_key current \<longleftrightarrow> r = current" if "r \<in> set (tb_installations s)" for r
    using unique_key_eq [OF assms(2) that cur] by auto
  then have t: "tb_installations s' = update_where (\<lambda>r. r = current) (\<lambda>_. ?f current) (tb_installations s)"
    unfolding s' by (auto simp: st(4) update_where_def)
  have "stored_manifest s' = stored_manifest s1" by (rule stored_manifest_cong) (simp add: s')
  with st(2) [OF m] i have new: "stored_manifest s' (pi_tenant (?f current)) (pi_plugin_id (?f current))
      (pi_artifact_digest (?f current)) = Inr m" by simp
  have "tb_runs s' = tb_runs s" by (simp add: s' st(5))
  moreover have "set (pi_granted_capabilities (?f current)) \<subseteq> set (pi_granted_capabilities current)"
    "pi_state (?f current) = pi_state current" by auto
  ultimately show ?thesis using cur t old new up by blast
qed

section \<open>A sample registry\<close>

definition zero_digest :: digest where
  "zero_digest = ''sha256:'' @ replicate 64 (CHR ''0'')"

definition one_digest :: digest where
  "one_digest = ''sha256:'' @ replicate 64 (CHR ''1'')"

definition registry_sample :: registry_env where
  "registry_sample =
     \<lparr> rg_env = \<lparr> ce_platform = sample_platform\<lparr>pf_canonical := \<lambda>_. Some ''{}'',
                    pf_sha256_hex := \<lambda>b. replicate 64 (if b = ''{}'' then CHR ''0'' else CHR ''1'')\<rparr>, ce_cedar = sample_cedar,
                  ce_catalog = \<lambda>_ _. True, ce_put_immutable = \<lambda>_ _ _. Inr (), ce_get_bounded = \<lambda>key _. Inr (if key = ''j'' then ''[]'' else ''{}'') \<rparr>,
       rg_trust = sample_trust, rg_schema = \<lparr> st_decode = \<lambda>_. Some (JObj []), st_build = \<lambda>_. Some (\<lambda>_. None) \<rparr>,
       rg_shared = Inr [(''PluginManifest'', \<lambda>_. None)], rg_known = [''run.start''], rg_native = [] \<rparr>"

definition package_row :: "uuid \<Rightarrow> digest \<Rightarrow> string \<Rightarrow> artifact_row" where
  "package_row i digest key =
     \<lparr> af_tenant = 1, af_id = i, af_digest = digest, af_schema_version = ''1'', af_classification = ''PUBLIC'',
       af_content_type = ''x'', af_size_bytes = 2, af_storage_key = key, af_state = ''ACTIVE'', af_creator_id = 2,
       af_legal_hold = False, af_created_at = 0, af_version = 1 \<rparr>"

text \<open>A publisher's key, two signatures and two packages of two bytes; nothing is installed.\<close>

definition registry_db :: database where
  "registry_db = member_db\<lparr>
     tb_publisher_keys := [\<lparr> pk_tenant = 1, pk_publisher_id = ''p'', pk_key_id = ''k'',
       pk_public_key = replicate 32 (CHR ''k''), pk_revoked_at = None \<rparr>],
     tb_signatures := [\<lparr> sn_tenant = 1, sn_id = ''s'', sn_publisher_id = ''p'', sn_key_id = ''k'',
       sn_artifact_digest = zero_digest, sn_manifest_digest = zero_digest,
       sn_signature = ''{}'' @ replicate 32 (CHR ''k'') \<rparr>,
       \<lparr> sn_tenant = 1, sn_id = ''t'', sn_publisher_id = ''p'', sn_key_id = ''k'',
       sn_artifact_digest = one_digest, sn_manifest_digest = zero_digest,
       sn_signature = ''{}'' @ replicate 32 (CHR ''k'') \<rparr>],
     tb_artifacts := [package_row 20 zero_digest ''k'', package_row 21 one_digest ''j'']\<rparr>"

definition enable_sample :: "int \<Rightarrow> authorized_command" where
  "enable_sample v = member_command ''plugin.enable'' ''k'' [(''plugin_id'', JStr ''a''), (''expected_version'', JNum v),
     (''artifact_digest'', JStr zero_digest), (''grants'', JArr [JStr ''run.start''])]"

definition revoke_sample :: authorized_command where
  "revoke_sample = member_command ''plugin.revoke'' ''k'' [(''plugin_id'', JStr ''a''), (''reason'', JStr ''r''),
     (''artifact_digest'', JStr zero_digest)]"

definition upgrade_sample :: authorized_command where
  "upgrade_sample = member_command ''plugin.upgrade'' ''k'' [(''plugin_id'', JStr ''a''), (''expected_version'', JNum 2),
     (''new_manifest'', ser_plugin_manifest ((sample_manifest ''a'' [])\<lparr>pl_version := ''2.0.0'',
        pl_artifact_digest := one_digest, pl_signature_ref := ''t'', pl_requested_capabilities := []\<rparr>))]"

definition enabled_db :: database where
  "enabled_db = registry_db\<lparr>
     tb_plugin_versions := [version_row 1 (sample_manifest ''a'' [])],
     tb_installations := [(installed_row 1 40 (sample_manifest ''a'' []))\<lparr>pi_state := ''ENABLED'',
       pi_granted_capabilities := [''run.start''], pi_version := 2\<rparr>]\<rparr>"

lemma enabled_stored: "stored_manifest enabled_db 1 ''a'' zero_digest = Inr (sample_manifest ''a'' [])"
  by code_simp

lemma enabled_db_inv: "registry_inv enabled_db"
proof -
  have "\<not> plugin_revoked enabled_db 1 ''a'' zero_digest" by code_simp
  with enabled_stored show ?thesis
    by (simp add: registry_inv_def unique_key_def installation_sound_def capabilities_requested_def installed_row_def
        sample_manifest_def zero_digest_def enabled_db_def)
qed

definition revoked_db :: database where
  "revoked_db = attempt (registry_step registry_sample) enabled_db (Revoke_Plugin (\<lambda>n. 0) 7 revoke_sample)"

lemma revoked_db_inv: "registry_inv revoked_db"
  unfolding revoked_db_def by (rule registry_ops.attempt_inv [OF enabled_db_inv])

theorem revoked_build_stays_out_witness:
  "plugin_revoked revoked_db 1 ''a'' zero_digest
   \<and> \<not> (\<exists>i. i \<in> set (tb_installations (attempts (registry_step registry_sample) revoked_db
             [Enable_Plugin (\<lambda>n. 0) 8 (enable_sample 3), Upgrade_Plugin (\<lambda>n. 50) 9 upgrade_sample]))
          \<and> build_key i = (1, ''a'', zero_digest) \<and> pi_state i = ''ENABLED'')"
proof
  show r: "plugin_revoked revoked_db 1 ''a'' zero_digest" by code_simp
  show "\<not> (\<exists>i. i \<in> set (tb_installations (attempts (registry_step registry_sample) revoked_db
             [Enable_Plugin (\<lambda>n. 0) 8 (enable_sample 3), Upgrade_Plugin (\<lambda>n. 50) 9 upgrade_sample]))
          \<and> build_key i = (1, ''a'', zero_digest) \<and> pi_state i = ''ENABLED'')"
    using revoked_build_stays_out [OF revoked_db_inv r] by fastforce
qed

theorem capabilities_stay_within_manifest_witness:
  "map pi_granted_capabilities (tb_installations enabled_db) = [[''run.start'']]
   \<and> (\<exists>i m. i \<in> set (tb_installations enabled_db)
        \<and> stored_manifest enabled_db (pi_tenant i) (pi_plugin_id i) (pi_artifact_digest i) = Inr m
        \<and> ''run.start'' \<in> set (pl_requested_capabilities m))"
proof
  show g: "map pi_granted_capabilities (tb_installations enabled_db) = [[''run.start'']]" by code_simp
  then obtain i where "i \<in> set (tb_installations enabled_db)" "''run.start'' \<in> set (pi_granted_capabilities i)" by force
  with capabilities_stay_within_manifest [OF enabled_db_inv, where ops = "[]"]
  show "\<exists>i m. i \<in> set (tb_installations enabled_db)
        \<and> stored_manifest enabled_db (pi_tenant i) (pi_plugin_id i) (pi_artifact_digest i) = Inr m
        \<and> ''run.start'' \<in> set (pl_requested_capabilities m)" by (simp; blast)
qed

text \<open>An object that fits a bound fits a larger one.\<close>

lemma load_artifact_ref_mono:
  assumes "load_artifact_ref env s actor r m = Inr b" and "m \<le> n"
    and "\<And>key. ce_get_bounded env key n = ce_get_bounded env key m"
  shows "load_artifact_ref env s actor r n = Inr b"
  using assms unfolding load_artifact_ref_def Let_def by (auto simp: rbind_Inr_iff ok_or_Inr_iff split: if_split_asm)

lemma package_artifact_mono:
  assumes "package_artifact re s actor d m = Inr r" and "m \<le> n"
    and "\<And>key. ce_get_bounded (rg_env re) key n = ce_get_bounded (rg_env re) key m"
  shows "package_artifact re s actor d n = Inr r"
  using assms(1) load_artifact_ref_mono [OF _ assms(2,3)] unfolding package_artifact_def Let_def
  by (auto simp: rbind_Inr_iff)

abbreviation upgrade_manifest :: plugin_manifest where
  "upgrade_manifest \<equiv> (sample_manifest ''a'' [])\<lparr>pl_version := ''2.0.0'',
     pl_artifact_digest := one_digest, pl_signature_ref := ''t'', pl_requested_capabilities := []\<rparr>"

lemma sample_packages:
  "is_ok (package_artifact registry_sample enabled_db member_actor one_digest MAX_PACKAGE_BYTES)"
  "is_ok (package_artifact registry_sample enabled_db member_actor zero_digest MAX_COMMAND_BYTES)"
proof -
  have b: "ce_get_bounded (rg_env registry_sample) key n = ce_get_bounded (rg_env registry_sample) key 9" for key n
    by (simp add: registry_sample_def)
  have le: "9 \<le> MAX_PACKAGE_BYTES" "9 \<le> MAX_COMMAND_BYTES"
    unfolding MAX_PACKAGE_BYTES_def MAX_COMMAND_BYTES_def by simp_all
  have "is_ok (package_artifact registry_sample enabled_db member_actor one_digest 9)"
    "is_ok (package_artifact registry_sample enabled_db member_actor zero_digest 9)" by code_simp+
  then obtain r q where r: "package_artifact registry_sample enabled_db member_actor one_digest 9 = Inr r"
    and q: "package_artifact registry_sample enabled_db member_actor zero_digest 9 = Inr q"
    unfolding is_ok_iff by blast
  from package_artifact_mono [OF r le(1) b] package_artifact_mono [OF q le(2) b]
  show "is_ok (package_artifact registry_sample enabled_db member_actor one_digest MAX_PACKAGE_BYTES)"
    "is_ok (package_artifact registry_sample enabled_db member_actor zero_digest MAX_COMMAND_BYTES)" by simp_all
qed

lemma sample_verified:
  "verify_publisher_and_package registry_sample enabled_db member_actor upgrade_manifest = Inr ()"
proof -
  have "trusted_signature enabled_db 1 ''t'' = Some (tb_signatures enabled_db ! 1, hd (tb_publisher_keys enabled_db))"
    and "verify_signature (rg_pf registry_sample) (rg_trust registry_sample) upgrade_manifest
      (pk_public_key (hd (tb_publisher_keys enabled_db))) (sn_signature (tb_signatures enabled_db ! 1)) = Inr ()"
    and "manifest_digest (rg_pf registry_sample) upgrade_manifest = Inr zero_digest"
    and "parse_uuid (rg_pf registry_sample) (ca_tenant_id member_actor) = Inr 1"
    and "\<not> plugin_revoked enabled_db 1 ''a'' one_digest"
    and "sn_publisher_id (tb_signatures enabled_db ! 1) = ''p''"
    and "sn_artifact_digest (tb_signatures enabled_db ! 1) = one_digest"
    and "sn_manifest_digest (tb_signatures enabled_db ! 1) = zero_digest" by code_simp+
  with sample_packages show ?thesis
    by (auto simp: verify_publisher_and_package_def is_ok_iff sample_manifest_def zero_digest_def)
qed

lemma sample_upgrade_verified:
  "verify_installation registry_sample enabled_db member_actor upgrade_manifest = Inr []"
proof -
  have "validate_manifest (rg_shared registry_sample) upgrade_manifest (ca_tenant_id member_actor) (rg_known registry_sample)
      = Inr ()"
    and "parse_uuid (rg_pf registry_sample) (ca_tenant_id member_actor) = Inr 1"
    and "selected_manifests enabled_db 1 = Inr [(''a'', sample_manifest ''a'' [])]"
    and "resolve_manifests (rg_trust registry_sample) (btree_insert (pl_id upgrade_manifest) upgrade_manifest
      [(''a'', sample_manifest ''a'' [])]) = Inr [''a'']"
    and "schema_references upgrade_manifest = []" and "pl_workflows upgrade_manifest = []"
    and "pl_migrations upgrade_manifest = []" by code_simp+
  with sample_verified show ?thesis by (simp add: verify_installation_def)
qed

theorem upgrade_never_broadens_witness:
  "\<exists>mu s'. upgrade_plugin registry_sample (\<lambda>n. 60) 9 enabled_db upgrade_sample = Inr (mu, s')
     \<and> tb_runs s' = tb_runs enabled_db \<and> map pi_granted_capabilities (tb_installations s') = [[]]"
proof -
  have steps: "current_installation registry_sample enabled_db upgrade_sample = Inr (hd (tb_installations enabled_db))"
    "checked_version upgrade_sample (hd (tb_installations enabled_db)) = Inr 3"
    "parse_uuid (rg_pf registry_sample) (ca_tenant_id member_actor) = Inr 1"
    "field de_plugin_manifest (ac_input upgrade_sample) ''new_manifest'' = Inr upgrade_manifest"
    "require_enabled_dependencies registry_sample enabled_db 1 upgrade_manifest = Inr ()" by code_simp+
  have facts: "ac_actor upgrade_sample = member_actor" "pl_id upgrade_manifest = ''a''"
    "pl_version upgrade_manifest = ''2.0.0''" "pl_version (sample_manifest ''a'' []) = ''1.0.0''"
    "pi_plugin_id (hd (tb_installations enabled_db)) = ''a''" "pi_state (hd (tb_installations enabled_db)) = ''ENABLED''"
    "pi_artifact_digest (hd (tb_installations enabled_db)) = zero_digest" "pi_id (hd (tb_installations enabled_db)) = 40"
    "tt_version_ok (rg_trust registry_sample) ''2.0.0''" "tt_version_ok (rg_trust registry_sample) ''1.0.0''"
    "\<not> tt_version_le (rg_trust registry_sample) ''2.0.0'' ''1.0.0''" by code_simp+
  let ?grants = "filter (List.member (pl_requested_capabilities upgrade_manifest))
    (pi_granted_capabilities (hd (tb_installations enabled_db)))"
  let ?rest = "\<lambda>s1. rbind (update_installation 1 40 (\<lambda>i. i\<lparr>pi_artifact_digest := pl_artifact_digest upgrade_manifest,
      pi_granted_capabilities := ?grants, pi_version := 3\<rparr>) s1) (\<lambda>s2.
     rbind (installation_projection registry_sample s2 1 40) (\<lambda>result.
     Inr (with_changes result [manifest_projection registry_sample 60 upgrade_manifest], s2)))"
  have "upgrade_plugin registry_sample (\<lambda>n. 60) 9 enabled_db upgrade_sample
      = rbind (save_plugin_version 9 1 upgrade_manifest [] enabled_db) ?rest"
    unfolding upgrade_plugin_def Let_def
    by (simp only: steps facts enabled_stored sample_upgrade_verified rbind_simps if_True if_False
        not_True_eq_False not_False_eq_True disj_not1 simp_thms List.member_iff) simp
  moreover have "case rbind (save_plugin_version 9 1 upgrade_manifest [] enabled_db) ?rest of
      Inl e \<Rightarrow> False | Inr (mu, s') \<Rightarrow> map pi_granted_capabilities (tb_installations s') = [[]]" by code_simp
  ultimately obtain mu s' where u: "upgrade_plugin registry_sample (\<lambda>n. 60) 9 enabled_db upgrade_sample = Inr (mu, s')"
    and g: "map pi_granted_capabilities (tb_installations s') = [[]]"
    by (auto split: sum.splits)
  from enabled_db_inv have "unique_key installation_key (tb_installations enabled_db)" by (simp add: registry_inv_def)
  from upgrade_never_broadens [OF u this] have "tb_runs s' = tb_runs enabled_db" ..
  with u g show ?thesis by (intro exI conjI)
qed

end
