(* ===== verification/Admission.thy ===== *)
theory Admission
  imports Registry
begin

text \<open>
  What a caller may set in motion: the admission of a run (\<open>run_commands.rs\<close>, \<open>start_run\<close>) and the
  creation of a grant (\<open>delegation.rs\<close>, \<open>create_grant\<close>), with the artifact metadata they read
  (\<open>queries.rs\<close>). The theorems: grants only narrow along their ancestry, so that revocation always
  ends; an admitted run stays within every scope that was checked.
\<close>

section \<open>Artifact metadata\<close>

record stored_artifact =
  sa_reference :: artifact_ref
  sa_content_type :: string
  sa_size_bytes :: int
  sa_created_at :: timestamp
  sa_state :: string

definition artifact_reference :: "platform \<Rightarrow> command_actor \<Rightarrow> artifact_row \<Rightarrow> artifact_ref outcome" where
  "artifact_reference pf actor row =
     rbind (ok_or (unavailable ''ARTIFACT_METADATA_INVALID'') (de_classification (JStr (af_classification row)))) (\<lambda>cls.
     rbind (map_err (\<lambda>_. unavailable ''ARTIFACT_METADATA_INVALID'') (digest_parse (af_digest row))) (\<lambda>digest.
     Inr \<lparr> ar_artifact_id = pf_uuid_show pf (af_id row), ar_tenant_id = ca_tenant_id actor, ar_digest = digest,
           ar_schema_version = af_schema_version row, ar_classification = cls \<rparr>))"

definition artifact_metadata_in ::
    "command_env \<Rightarrow> database \<Rightarrow> command_actor \<Rightarrow> string \<Rightarrow> stored_artifact outcome" where
  "artifact_metadata_in env s actor text =
     (let pf = ce_platform env in
      rbind (parse_uuid pf (ca_tenant_id actor)) (\<lambda>tenant.
      rbind (parse_uuid pf text) (\<lambda>i.
      rbind (ok_or not_found (find (\<lambda>a. artifact_key a = (tenant, i) \<and> af_state a = ''ACTIVE''
               \<and> \<not> list_ex (\<lambda>d. ts_tenant d = tenant \<and> ts_resource_type d = ''Artifact''
                             \<and> ts_resource_id d = pf_uuid_show pf i) (tb_tombstones s))
             (tb_artifacts s))) (\<lambda>row.
      rbind (read_policy (ce_cedar env) pf s actor) (\<lambda>policy.
      if \<not> permits (ce_cedar env) policy ''artifact.read'' ''Artifact'' text
             (btree_from [(''classification'', JStr (af_classification row)),
                          (''creator_id'', JStr (pf_uuid_show pf (af_creator_id row)))])
      then Inl not_found
      else
      rbind (artifact_reference pf actor row) (\<lambda>reference.
      Inr \<lparr> sa_reference = reference, sa_content_type = af_content_type row, sa_size_bytes = af_size_bytes row,
            sa_created_at = af_created_at row, sa_state = af_state row \<rparr>))))))"

definition artifact_metadata :: "command_env \<Rightarrow> database \<Rightarrow> command_actor \<Rightarrow> string \<Rightarrow> stored_artifact outcome" where
  "artifact_metadata env s actor text =
     rbind (begin_actor (ce_platform env) s actor) (\<lambda>_. artifact_metadata_in env s actor text)"

definition artifact_content ::
    "command_env \<Rightarrow> database \<Rightarrow> command_actor \<Rightarrow> string \<Rightarrow> nat \<Rightarrow> (stored_artifact \<times> string) outcome" where
  "artifact_content env s actor text maximum =
     rbind (begin_actor (ce_platform env) s actor) (\<lambda>_.
     rbind (artifact_metadata_in env s actor text) (\<lambda>metadata.
     rbind (load_artifact_ref env s actor (sa_reference metadata) maximum) (\<lambda>bytes.
     Inr (metadata, bytes))))"

section \<open>Grants\<close>

text \<open>The current version and classification of a resource a grant is to cover.\<close>

definition grant_resource ::
    "command_env \<Rightarrow> database \<Rightarrow> command_actor \<Rightarrow> uuid \<Rightarrow> resource_ref \<Rightarrow> (int \<times> string) outcome" where
  "grant_resource env s actor tenant resource =
     (if rr_resource_type resource = ''Artifact'' then
        rbind (artifact_metadata_in env s actor (rr_resource_id resource)) (\<lambda>_.
        rbind (parse_uuid (ce_platform env) (rr_resource_id resource)) (\<lambda>i.
        rbind (ok_or not_found (find (\<lambda>a. artifact_key a = (tenant, i) \<and> af_state a = ''ACTIVE'') (tb_artifacts s)))
          (\<lambda>a. Inr (af_version a, af_classification a))))
      else ok_or not_found (latest_projection s tenant (rr_resource_type resource) (rr_resource_id resource)))"

definition check_grant_resource ::
    "command_env \<Rightarrow> database \<Rightarrow> command_actor \<Rightarrow> uuid \<Rightarrow> read_policy \<Rightarrow> string list \<Rightarrow> resource_ref \<Rightarrow> unit outcome" where
  "check_grant_resource env s actor tenant policy actions resource =
     rbind (grant_resource env s actor tenant resource) (\<lambda>(version, cls).
     if version \<noteq> rr_version resource then Inl (conflict ''STALE_VERSION'')
     else if list_ex (\<lambda>a. \<not> permits (ce_cedar env) policy a (rr_resource_type resource) (rr_resource_id resource)
            (btree_from [(''version'', JNum (rr_version resource)), (''classification'', JStr cls)])) actions
     then Inl (denied ''GRANT_SCOPE_DENIED'')
     else Inr ())"

definition check_parent ::
    "command_env \<Rightarrow> database \<Rightarrow> timestamp \<Rightarrow> command_actor \<Rightarrow> string list \<Rightarrow> resource_ref list \<Rightarrow> timestamp
     \<Rightarrow> string option \<Rightarrow> uuid option outcome" where
  "check_parent env s now actor actions resources expires parent =
     (case parent of
        None \<Rightarrow> Inr None
      | Some text \<Rightarrow>
          rbind (parse_uuid (ce_platform env) text) (\<lambda>i.
          rbind (require_active_grant (ce_platform env) s now actor i None None) (\<lambda>row.
          if ag_expires_at row < expires \<or> list_ex (\<lambda>a. \<not> List.member (ag_actions row) a) actions
             \<or> list_ex (\<lambda>r. \<not> List.member (ag_resources row) r) resources
          then Inl (denied ''GRANT_SCOPE_DENIED'')
          else Inr (Some i))))"

definition insert_delegation :: "delegation_row \<Rightarrow> database \<Rightarrow> database outcome" where
  "insert_delegation d s =
     rbind (sql (insert_row delegation_ok (\<lambda>d d'. delegation_key d' = delegation_key d)
              (tenant_known s (dl_tenant d)
               \<and> (case dl_parent_grant_id d of None \<Rightarrow> True
                  | Some p \<Rightarrow> row_at delegation_key (dl_tenant d, p) (tb_delegations s) \<noteq> None))
              d (tb_delegations s))) (\<lambda>t. Inr (s\<lparr>tb_delegations := t\<rparr>))"

definition new_grant ::
    "uuid \<Rightarrow> uuid \<Rightarrow> uuid \<Rightarrow> principal_ref \<Rightarrow> string list \<Rightarrow> resource_ref list \<Rightarrow> uuid option \<Rightarrow> timestamp \<Rightarrow> delegation_row" where
  "new_grant tenant i who delegate actions resources parent expires =
     \<lparr> dl_tenant = tenant, dl_id = i, dl_principal_id = pr_id delegate,
       dl_principal_type = principal_kind_as_str (pr_kind delegate), dl_issuer = pr_issuer delegate,
       dl_creator_id = who, dl_actions = actions, dl_resources = JArr (map ser_resource_ref resources),
       dl_parent_grant_id = parent, dl_expires_at = expires, dl_state = ''ACTIVE'', dl_version = 1, dl_fence = 1 \<rparr>"

text \<open>\<open>BTreeSet\<close> of the resources' fields: its size is that of the list when nothing repeats.\<close>

definition create_grant ::
    "command_env \<Rightarrow> (nat \<Rightarrow> uuid) \<Rightarrow> timestamp \<Rightarrow> database \<Rightarrow> authorized_command \<Rightarrow> (mutation \<times> database) outcome" where
  "create_grant env ids now s command =
     (let pf = ce_platform env; actor = ac_actor command; input = ac_input command in
     rbind (parse_uuid pf (ca_tenant_id actor)) (\<lambda>tenant.
     rbind (field de_principal_ref input ''delegate'') (\<lambda>delegate.
     rbind (field (de_list de_string) input ''actions'') (\<lambda>named.
     rbind (field (de_list de_resource_ref) input ''resources'') (\<lambda>resources.
     rbind (field (de_time pf) input ''expires_at'') (\<lambda>expires.
     rbind (field (de_option de_string) input ''parent_grant_id'') (\<lambda>parent.
     if expires \<le> now then Inl (invalid ''GRANT_EXPIRED'')
     else if named = [] \<or> resources = [] then Inl (denied ''GRANT_SCOPE_EMPTY'')
     else if pr_kind delegate = Support then Inl (denied ''SUPPORT_SCOPE_DENIED'')
     else let actions = remdups_adj (sort named) in
     if \<not> distinct resources then Inl (invalid ''GRANT_DUPLICATE_RESOURCE'')
     else
     rbind (read_policy (ce_cedar env) pf s actor) (\<lambda>policy.
     rbind (rfold (\<lambda>r _. check_grant_resource env s actor tenant policy actions r) resources ()) (\<lambda>_.
     rbind (check_parent env s now actor actions resources expires parent) (\<lambda>parent_id.
     rbind (parse_uuid pf (ca_principal_id actor)) (\<lambda>who.
     rbind (insert_delegation (new_grant tenant (ids 0) who delegate actions resources parent_id expires) s) (\<lambda>s'.
     Inr (mutation_one pf ''Delegation'' (ids 0) 1
            (JObj [(''grant_id'', ser_uuid pf (ids 0)), (''tenant_id'', ser_uuid pf tenant),
                   (''principal'', ser_principal_ref delegate), (''actions'', ser_strings actions),
                   (''resources'', JArr (map ser_resource_ref resources)), (''expires_at'', ser_time pf expires),
                   (''parent_grant_id'', ser_option JStr parent), (''state'', JStr ''ACTIVE''), (''version'', JNum 1)])
            (''Grant to '' @ pr_id delegate), s')))))))))))))"

section \<open>Runs\<close>

definition MAX_RUN_INPUT_BYTES :: nat where
  "MAX_RUN_INPUT_BYTES = 4 * 1024 * 1024"

definition MAX_WORKFLOW_SCHEMA_BYTES :: nat where
  "MAX_WORKFLOW_SCHEMA_BYTES = 256 * 1024"

text \<open>
  \<open>ORDER BY created_at DESC LIMIT 1\<close>; among rows of the same time, which SQL leaves open, the one
  inserted last.
\<close>

definition newest_definition :: "database \<Rightarrow> uuid \<Rightarrow> string \<Rightarrow> string \<Rightarrow> workflow_row option" where
  "newest_definition s tenant workflow version =
     (case rev (sort_key wd_created_at (filter (\<lambda>w. wd_tenant w = tenant \<and> wd_workflow_id w = workflow
            \<and> wd_workflow_version w = version) (tb_workflow_definitions s))) of
        [] \<Rightarrow> None | w # _ \<Rightarrow> Some w)"

definition require_enabled_state :: "string \<Rightarrow> unit outcome" where
  "require_enabled_state state =
     (if state = ''ENABLED'' then Inr ()
      else if state = ''DRAINING'' then Inl (precondition ''PLUGIN_DRAINING'')
      else if state = ''REVOKED'' then Inl (precondition ''PLUGIN_REVOKED'')
      else Inl (precondition ''PLUGIN_NOT_ENABLED''))"

definition insert_run :: "run_row \<Rightarrow> database \<Rightarrow> database outcome" where
  "insert_run r s =
     rbind (sql (insert_row run_ok
              (\<lambda>r r'. run_key r' = run_key r \<or> rn_temporal_workflow_id r' = rn_temporal_workflow_id r)
              (row_at delegation_key (rn_tenant r, rn_grant_id r) (tb_delegations s) \<noteq> None
               \<and> row_at version_key (rn_tenant r, rn_plugin_id r, rn_plugin_digest r) (tb_plugin_versions s) \<noteq> None)
              r (tb_runs s))) (\<lambda>t. Inr (s\<lparr>tb_runs := t\<rparr>))"

definition queued_run ::
    "platform \<Rightarrow> timestamp \<Rightarrow> uuid \<Rightarrow> uuid \<Rightarrow> uuid \<Rightarrow> workflow_row \<Rightarrow> active_grant \<Rightarrow> artifact_ref \<Rightarrow> run_row" where
  "queued_run pf now tenant i who w grant input_ref =
     \<lparr> rn_tenant = tenant, rn_id = i, rn_principal_id = who, rn_workflow_id = wd_workflow_id w,
       rn_workflow_version = wd_workflow_version w, rn_plugin_id = wd_plugin_id w,
       rn_plugin_digest = wd_plugin_digest w, rn_grant_id = ag_id grant, rn_grant_fence = ag_fence grant,
       rn_input_ref = ser_artifact_ref input_ref, rn_state = ''QUEUED'', rn_fence = 1, rn_version = 1,
       rn_temporal_workflow_id = pf_uuid_show pf i, rn_temporal_run_id = None, rn_dispatch_state = ''PENDING'',
       rn_failure_code = None, rn_created_at = now, rn_updated_at = now \<rparr>"

text \<open>The input of a run: current metadata, and bytes that satisfy the workflow's input schema.\<close>

definition check_run_input ::
    "registry_env \<Rightarrow> database \<Rightarrow> command_actor \<Rightarrow> workflow_definition \<Rightarrow> artifact_ref \<Rightarrow> unit outcome" where
  "check_run_input re s actor d input_ref =
     rbind (artifact_metadata_in (rg_env re) s actor (ar_artifact_id input_ref)) (\<lambda>metadata.
     if sa_reference metadata \<noteq> input_ref then Inl (precondition ''ARTIFACT_REFERENCE_MISMATCH'')
     else
     rbind (load_artifact_ref (rg_env re) s actor (wd_input_schema_ref d) MAX_WORKFLOW_SCHEMA_BYTES) (\<lambda>schema_bytes.
     rbind (map_err (\<lambda>_. precondition ''WORKFLOW_SCHEMA_INVALID'') (schema_compile (rg_schema re) schema_bytes)) (\<lambda>schema.
     rbind (load_artifact_ref (rg_env re) s actor input_ref MAX_RUN_INPUT_BYTES) (\<lambda>bytes.
     map_err (\<lambda>_. invalid ''WORKFLOW_INPUT_INVALID'') (validate_bytes (rg_schema re) schema bytes MAX_RUN_INPUT_BYTES)))))"

definition start_run ::
    "registry_env \<Rightarrow> (nat \<Rightarrow> uuid) \<Rightarrow> timestamp \<Rightarrow> database \<Rightarrow> authorized_command
     \<Rightarrow> (mutation \<times> database) outcome" where
  "start_run re ids now s command =
     (let pf = rg_pf re; actor = ac_actor command; input = ac_input command in
     rbind (parse_uuid pf (ca_tenant_id actor)) (\<lambda>tenant.
     rbind (parse_uuid pf (ca_principal_id actor)) (\<lambda>who.
     rbind (field de_string input ''workflow_id'') (\<lambda>workflow_id.
     rbind (field de_string input ''workflow_version'') (\<lambda>workflow_version.
     rbind (field de_artifact_ref input ''input_ref'') (\<lambda>input_ref.
     if ar_tenant_id input_ref \<noteq> ca_tenant_id actor then Inl not_found
     else
     rbind (field de_string input ''grant_id'') (\<lambda>grant_text.
     rbind (parse_uuid pf grant_text) (\<lambda>grant_id.
     rbind (ok_or not_found (newest_definition s tenant workflow_id workflow_version)) (\<lambda>w.
     rbind (stored ''RUN_INTEGRITY'' de_workflow_definition (wd_definition w)) (\<lambda>d.
     rbind (ok_or not_found (row_at plugin_key (tenant, wd_plugin_id w) (tb_installations s))) (\<lambda>installation.
     rbind (require_enabled_state (pi_state installation)) (\<lambda>_.
     if pi_artifact_digest installation \<noteq> wd_plugin_digest w then Inl (precondition ''PLUGIN_NOT_ENABLED'')
     else
     rbind (require_dispatch_enabled pf s actor (Some (wd_plugin_id w)) None) (\<lambda>_.
     rbind (require_active_grant pf s now actor grant_id (Some ''run.start'') None) (\<lambda>grant.
     rbind (check_run_input re s actor d input_ref) (\<lambda>_.
     let run = queued_run pf now tenant (ids 0) who w grant input_ref in
     rbind (insert_run run s) (\<lambda>s'.
     rbind (parse_uuid pf (ar_artifact_id input_ref)) (\<lambda>input_id.
     Inr ((with_source_artifact
             (mutation_one pf ''Run'' (ids 0) 1 (run_value pf run ''QUEUED'' 1 now) workflow_id) input_id)
            \<lparr>mu_run_id := Some (ids 0), mu_accepted := True\<rparr>, s'))))))))))))))))))"

section \<open>Grants only narrow\<close>

definition narrower :: "delegation_row \<Rightarrow> delegation_row \<Rightarrow> bool" where
  "narrower d q \<longleftrightarrow> set (dl_actions d) \<subseteq> set (dl_actions q) \<and> dl_expires_at d \<le> dl_expires_at q
     \<and> (\<exists>rs qs. de_list de_resource_ref (dl_resources d) = Some rs \<and> de_list de_resource_ref (dl_resources q) = Some qs
          \<and> set rs \<subseteq> set qs)"

lemma narrower_trans: "narrower a b \<Longrightarrow> narrower b c \<Longrightarrow> narrower a c"
  unfolding narrower_def by fastforce

text \<open>A derived grant stands after its parent in the table and is narrower.\<close>

definition derived_at :: "delegation_row list \<Rightarrow> nat \<Rightarrow> bool" where
  "derived_at t j \<longleftrightarrow> (\<forall>p. dl_parent_grant_id (t ! j) = Some p \<longrightarrow>
     (\<exists>k < j. delegation_key (t ! k) = (dl_tenant (t ! j), p) \<and> narrower (t ! j) (t ! k)))"

definition grants_inv :: "database \<Rightarrow> bool" where
  "grants_inv s \<longleftrightarrow> unique_key delegation_key (tb_delegations s)
     \<and> (\<forall>j < length (tb_delegations s). derived_at (tb_delegations s) j)"

lemma require_active_grant_Inr:
  assumes "require_active_grant pf s now actor i act resource = Inr g"
    and "parse_uuid pf (ca_tenant_id actor) = Inr tenant"
  obtains d where "d \<in> set (tb_delegations s)" and "delegation_key d = (tenant, i)" and "dl_state d = ''ACTIVE''"
    and "now < dl_expires_at d" and "ag_id g = i" and "ag_actions g = dl_actions d" and "ag_expires_at g = dl_expires_at d"
    and "ag_fence g = dl_fence d" and "de_list de_resource_ref (dl_resources d) = Some (ag_resources g)"
    and "act \<noteq> None \<Longrightarrow> the act \<in> set (dl_actions d)"
    and "resource \<noteq> None \<Longrightarrow> the resource \<in> set (ag_resources g)"
proof -
  let ?rows = "ancestry (tb_delegations s) tenant [] i"
  from assms obtain d where f: "find (\<lambda>d. dl_id d = i) ?rows = Some d"
    and ok: "\<not> list_ex (\<lambda>d. dl_state d \<noteq> ''ACTIVE'' \<or> dl_expires_at d \<le> now) ?rows"
    and g: "ag_id g = i" "ag_actions g = dl_actions d" "ag_expires_at g = dl_expires_at d" "ag_fence g = dl_fence d"
      "de_list de_resource_ref (dl_resources d) = Some (ag_resources g)"
      "act \<noteq> None \<longrightarrow> the act \<in> set (dl_actions d)" "resource \<noteq> None \<longrightarrow> the resource \<in> set (ag_resources g)"
    by (auto simp: require_active_grant_def rbind_Inr_iff ok_or_Inr_iff Let_def stored_def
        split: if_splits option.splits)
  from f have d: "d \<in> set ?rows" "dl_id d = i" by (auto simp: find_Some_iff)
  with ok have "dl_state d = ''ACTIVE''" "now < dl_expires_at d" by (auto simp: list_ex_iff)
  with d g ancestry_tenant [OF d(1)] show ?thesis by (intro that) auto
qed

lemma de_list_ok: "de_list de j = Some xs \<Longrightarrow> (\<And>j x. de j = Some x \<Longrightarrow> P x) \<Longrightarrow> x \<in> set xs \<Longrightarrow> P x"
  using de_list_all [of de j xs P] by (auto simp: list_all_iff)

lemma check_parent_Inr:
  assumes "check_parent env s now actor actions resources expires parent = Inr (Some i)"
    and "parse_uuid (ce_platform env) (ca_tenant_id actor) = Inr tenant"
  obtains q qs where "q \<in> set (tb_delegations s)" and "delegation_key q = (tenant, i)"
    and "set actions \<subseteq> set (dl_actions q)" and "expires \<le> dl_expires_at q"
    and "de_list de_resource_ref (dl_resources q) = Some qs" and "set resources \<subseteq> set qs"
proof -
  from assms(1) obtain g where g: "require_active_grant (ce_platform env) s now actor i None None = Inr g"
    and c: "\<not> ag_expires_at g < expires" "set actions \<subseteq> set (ag_actions g)" "set resources \<subseteq> set (ag_resources g)"
    by (auto simp: check_parent_def rbind_Inr_iff list_ex_iff split: option.splits if_splits)
  from g assms(2) show ?thesis
    by (rule require_active_grant_Inr) (use c in \<open>auto intro!: that\<close>)
qed

lemma create_grant_Inr:
  assumes "create_grant env ids now s c = Inr (m, s')"
  obtains d where "s' = s\<lparr>tb_delegations := tb_delegations s @ [d]\<rparr>"
    and "delegation_key d \<notin> delegation_key ` set (tb_delegations s)"
    and "\<And>p. dl_parent_grant_id d = Some p \<Longrightarrow>
      \<exists>q \<in> set (tb_delegations s). delegation_key q = (dl_tenant d, p) \<and> narrower d q"
    and "dl_state d = ''ACTIVE''" and "now < dl_expires_at d"
proof -
  let ?pf = "ce_platform env" and ?actor = "ac_actor c" and ?input = "ac_input c"
  from assms obtain tenant delegate named resources expires parent parent_id who where
      tenant: "parse_uuid ?pf (ca_tenant_id ?actor) = Inr tenant"
    and resources: "field (de_list de_resource_ref) ?input ''resources'' = Inr resources"
    and live: "\<not> expires \<le> now"
    and parent: "check_parent env s now ?actor (remdups_adj (sort named)) resources expires parent = Inr parent_id"
    and ins: "insert_delegation (new_grant tenant (ids 0) who delegate (remdups_adj (sort named)) resources parent_id expires) s
      = Inr s'"
    unfolding create_grant_def Let_def
    by (simp only: rbind_Inr_iff split: if_split_asm) auto
  define d where "d = new_grant tenant (ids 0) who delegate (remdups_adj (sort named)) resources parent_id expires"
  from resources have "resource_ref_ok r" if "r \<in> set resources" for r
    using de_list_ok [OF _ de_resource_ref_ok that] by (auto simp: field_def rbind_Inr_iff ok_or_Inr_iff)
  then have stored_back: "de_list de_resource_ref (dl_resources d) = Some resources"
    unfolding d_def new_grant_def by (simp add: de_list_map resource_ref_roundtrip del: de_list.simps)
  have narrow: "\<exists>q \<in> set (tb_delegations s). delegation_key q = (dl_tenant d, p) \<and> narrower d q"
    if p: "dl_parent_grant_id d = Some p" for p
  proof -
    from parent p have "check_parent env s now ?actor (remdups_adj (sort named)) resources expires parent = Inr (Some p)"
      by (simp add: d_def new_grant_def)
    from this tenant show ?thesis
    proof (rule check_parent_Inr)
      fix q qs
      assume q: "q \<in> set (tb_delegations s)" "delegation_key q = (tenant, p)"
        "set (remdups_adj (sort named)) \<subseteq> set (dl_actions q)" "expires \<le> dl_expires_at q"
        "de_list de_resource_ref (dl_resources q) = Some qs" "set resources \<subseteq> set qs"
      then have "narrower d q" using stored_back by (auto simp: narrower_def d_def new_grant_def simp del: de_list.simps)
      moreover have "dl_tenant d = tenant" by (simp add: d_def new_grant_def)
      ultimately show ?thesis using q(1,2) by blast
    qed
  qed
  from ins [folded d_def] have "s' = s\<lparr>tb_delegations := tb_delegations s @ [d]\<rparr>"
      "delegation_key d \<notin> delegation_key ` set (tb_delegations s)"
    by (auto simp: insert_delegation_def rbind_Inr_iff sql_Inr_iff insert_row_Inr_iff)
  with narrow live show ?thesis by (intro that [of d]) (auto simp: d_def new_grant_def)
qed

datatype grant_op =
    Create_Grant "nat \<Rightarrow> uuid" timestamp authorized_command
  | Revoke_Grant authorized_command

fun grant_run :: "command_env \<Rightarrow> database \<Rightarrow> grant_op \<Rightarrow> (mutation \<times> database) outcome" where
  "grant_run env s (Create_Grant ids now c) = create_grant env ids now s c"
| "grant_run env s (Revoke_Grant c) = revoke_grant (ce_platform env) s c"

definition grant_step :: "command_env \<Rightarrow> database \<Rightarrow> grant_op \<Rightarrow> database outcome" where
  "grant_step env s op = rbind (grant_run env s op) (\<lambda>(m, s'). Inr s')"

lemma create_keeps_grants_inv:
  assumes "create_grant env ids now s c = Inr (m, s')" and "grants_inv s"
  shows "grants_inv s'"
  using assms(1)
proof (rule create_grant_Inr)
  fix d
  let ?t = "tb_delegations s"
  assume s': "s' = s\<lparr>tb_delegations := ?t @ [d]\<rparr>" and fresh: "delegation_key d \<notin> delegation_key ` set ?t"
    and p: "\<And>p. dl_parent_grant_id d = Some p \<Longrightarrow> \<exists>q \<in> set ?t. delegation_key q = (dl_tenant d, p) \<and> narrower d q"
  have old: "derived_at (?t @ [d]) j" if j: "j < length ?t" for j
    unfolding derived_at_def
  proof (intro allI impI)
    fix q assume "dl_parent_grant_id ((?t @ [d]) ! j) = Some q"
    with j assms(2) obtain k where "k < j" "delegation_key (?t ! k) = (dl_tenant (?t ! j), q)" "narrower (?t ! j) (?t ! k)"
      unfolding grants_inv_def derived_at_def by (auto simp: nth_append)
    with j show "\<exists>k < j. delegation_key ((?t @ [d]) ! k) = (dl_tenant ((?t @ [d]) ! j), q)
        \<and> narrower ((?t @ [d]) ! j) ((?t @ [d]) ! k)"
      by (intro exI [of _ k]) (simp add: nth_append)
  qed
  have new: "derived_at (?t @ [d]) (length ?t)"
    unfolding derived_at_def
  proof (intro allI impI)
    fix q assume "dl_parent_grant_id ((?t @ [d]) ! length ?t) = Some q"
    with p [of q] obtain r where r: "r \<in> set ?t" "delegation_key r = (dl_tenant d, q)" "narrower d r" by auto
    then obtain k where "k < length ?t" "?t ! k = r" by (auto simp: in_set_conv_nth)
    with r show "\<exists>k < length ?t. delegation_key ((?t @ [d]) ! k) = (dl_tenant ((?t @ [d]) ! length ?t), q)
        \<and> narrower ((?t @ [d]) ! length ?t) ((?t @ [d]) ! k)"
      by (intro exI [of _ k]) (simp add: nth_append)
  qed
  from assms(2) fresh have "unique_key delegation_key (?t @ [d])"
    by (simp add: grants_inv_def unique_key_snoc row_at_None_iff)
  with old new show ?thesis by (auto simp: grants_inv_def s' less_Suc_eq)
qed

lemma narrower_revoked:
  "narrower (if a then revoked_row d else d) (if b then revoked_row q else q) \<longleftrightarrow> narrower d q"
  by (simp add: narrower_def revoked_row_def)

lemma revoke_keeps_grants_inv:
  assumes "revoke_grant pf s c = Inr (m, s')" and "grants_inv s"
  shows "grants_inv s'"
  using assms(1)
proof (rule revoke_grant_Inr)
  fix tenant ids
  let ?hit = "\<lambda>d. dl_tenant d = tenant \<and> dl_id d \<in> set ids \<and> dl_state d = ''ACTIVE''"
  let ?t = "tb_delegations s"
  assume s': "s' = s\<lparr>tb_delegations := update_where ?hit revoked_row ?t\<rparr>"
  have nth: "update_where ?hit revoked_row ?t ! j = (if ?hit (?t ! j) then revoked_row (?t ! j) else ?t ! j)"
    if "j < length ?t" for j using that by (simp add: update_where_def)
  have "derived_at (update_where ?hit revoked_row ?t) j" if j: "j < length ?t" for j
    unfolding derived_at_def
  proof (intro allI impI)
    fix p assume "dl_parent_grant_id (update_where ?hit revoked_row ?t ! j) = Some p"
    with j have "dl_parent_grant_id (?t ! j) = Some p" by (simp add: nth split: if_split_asm)
    with assms(2) j obtain k where k: "k < j" "delegation_key (?t ! k) = (dl_tenant (?t ! j), p)" "narrower (?t ! j) (?t ! k)"
      unfolding grants_inv_def derived_at_def by blast
    with j show "\<exists>k < j. delegation_key (update_where ?hit revoked_row ?t ! k)
        = (dl_tenant (update_where ?hit revoked_row ?t ! j), p)
        \<and> narrower (update_where ?hit revoked_row ?t ! j) (update_where ?hit revoked_row ?t ! k)"
      by (intro exI [of _ k]) (simp add: nth narrower_revoked)
  qed
  with assms(2) show ?thesis by (simp add: grants_inv_def s' unique_key_update_where)
qed

lemma grant_step_inv: "grants_inv s \<Longrightarrow> grant_step env s op = Inr s' \<Longrightarrow> grants_inv s'"
  by (cases op) (auto simp: grant_step_def rbind_Inr_iff intro: create_keeps_grants_inv revoke_keeps_grants_inv)

interpretation grant_ops: invariant_ops "grant_step env" grants_inv
  by unfold_locales (rule grant_step_inv)

lemma parent_narrower:
  assumes "grants_inv s" and "d \<in> set (tb_delegations s)" and "dl_parent_grant_id d = Some p"
    and "row_at delegation_key (dl_tenant d, p) (tb_delegations s) = Some q"
  shows "narrower d q"
proof -
  from assms(2) obtain j where j: "j < length (tb_delegations s)" "tb_delegations s ! j = d" by (auto simp: in_set_conv_nth)
  with assms(1,3) obtain k where k: "k < j" "delegation_key (tb_delegations s ! k) = (dl_tenant d, p)"
    "narrower d (tb_delegations s ! k)" unfolding grants_inv_def derived_at_def by blast
  from assms(1) k(1) j(1) have "row_at delegation_key (delegation_key (tb_delegations s ! k)) (tb_delegations s)
      = Some (tb_delegations s ! k)"
    by (intro row_at_unique) (auto simp: grants_inv_def)
  with k assms(4) show ?thesis by simp
qed

lemma ancestry_narrows:
  assumes "grants_inv s"
  shows "row_at delegation_key (tenant, i) (tb_delegations s) = Some d \<Longrightarrow>
     q \<in> set (ancestry (tb_delegations s) tenant path i) \<Longrightarrow> q = d \<or> narrower d q"
proof (induction "tb_delegations s" tenant path i arbitrary: d rule: ancestry.induct)
  case (1 tenant path i)
  from "1.prems"(2) have new: "i \<notin> set path"
    and "q = d \<or> (\<exists>p. dl_parent_grant_id d = Some p \<and> q \<in> set (ancestry (tb_delegations s) tenant (path @ [i]) p))"
    by (subst (asm) ancestry.simps, auto simp: "1.prems"(1) split: if_split_asm option.splits)+
  then show ?case
  proof (elim disjE exE conjE)
    fix p assume p: "dl_parent_grant_id d = Some p" and q: "q \<in> set (ancestry (tb_delegations s) tenant (path @ [i]) p)"
    have d: "d \<in> set (tb_delegations s)" "dl_tenant d = tenant" using row_at_SomeD [OF "1.prems"(1)] by auto
    from q obtain r where r: "row_at delegation_key (tenant, p) (tb_delegations s) = Some r"
      by (cases "row_at delegation_key (tenant, p) (tb_delegations s)") (simp_all add: ancestry.simps [of _ tenant _ p] split: if_split_asm)
    from "1.hyps" [OF new "1.prems"(1) p r q] parent_narrower [OF assms d(1) p, of r] r d(2)
    show ?thesis by (auto intro: narrower_trans)
  qed simp
qed

text \<open>Every level of descendants lies strictly later in the table than the one before.\<close>

definition stands_after :: "database \<Rightarrow> uuid \<Rightarrow> nat \<Rightarrow> uuid \<Rightarrow> bool" where
  "stands_after s tenant n i \<longleftrightarrow>
     (\<exists>k. n \<le> k \<and> k < length (tb_delegations s) \<and> delegation_key (tb_delegations s ! k) = (tenant, i))"

lemma children_later:
  assumes "grants_inv s" and "\<forall>p \<in> set level. stands_after s tenant n p"
    and "i \<in> set (grant_children (tb_delegations s) tenant level)"
  shows "stands_after s tenant (Suc n) i"
proof -
  let ?t = "tb_delegations s"
  from assms(3) obtain d p where d: "d \<in> set ?t" "dl_tenant d = tenant" "dl_id d = i"
    and "dl_parent_grant_id d = Some p" "p \<in> set level"
    by (auto simp: grant_children_def split: option.splits)
  then obtain j where j: "j < length ?t" "dl_tenant (?t ! j) = tenant" "dl_id (?t ! j) = i"
    and p: "dl_parent_grant_id (?t ! j) = Some p" "p \<in> set level"
    by (metis in_set_conv_nth)
  from assms(1) j p(1) obtain k where k: "k < j" "delegation_key (?t ! k) = (tenant, p)"
    unfolding grants_inv_def derived_at_def by blast
  from assms(2) p(2) obtain l where l: "n \<le> l" "l < length ?t" "delegation_key (?t ! l) = (tenant, p)"
    by (auto simp: stands_after_def)
  have "map delegation_key ?t ! k = map delegation_key ?t ! l" using k l j(1) by simp
  moreover have "distinct (map delegation_key ?t)" using assms(1) by (simp add: grants_inv_def unique_key_def)
  ultimately have "k = l" using k(1) l(2) j(1) by (auto simp: nth_eq_iff_index_eq simp del: nth_map)
  with j k(1) l(1) show ?thesis unfolding stands_after_def by (intro exI [of _ j]) auto
qed

lemma descendant_levels_end:
  assumes "grants_inv s"
  shows "length (tb_delegations s) \<le> m + n \<Longrightarrow> \<forall>p \<in> set level. stands_after s tenant m p \<Longrightarrow>
    descendant_levels n (tb_delegations s) tenant level \<noteq> None"
proof (induction n arbitrary: m level)
  case 0
  then show ?case by (cases level) (auto simp: stands_after_def)
next
  case (Suc n)
  have "descendant_levels n (tb_delegations s) tenant (grant_children (tb_delegations s) tenant level) \<noteq> None"
    using Suc.prems children_later [OF assms Suc.prems(2)] by (intro Suc.IH [of "Suc m"]) auto
  then show ?case by simp
qed

section \<open>Properties of grants\<close>

text \<open>
  C7: grants only narrow. After any sequence of creations and revocations, a grant holds no action,
  no resource and no lifetime that any grant in its ancestry lacks.
\<close>

theorem grants_only_narrow:
  assumes "grants_inv s" and "s' = attempts (grant_step env) s ops"
    and "row_at delegation_key (tenant, i) (tb_delegations s') = Some d"
    and "q \<in> set (ancestry (tb_delegations s') tenant [] i)"
  shows "set (dl_actions d) \<subseteq> set (dl_actions q) \<and> dl_expires_at d \<le> dl_expires_at q
    \<and> (\<forall>rs qs r. de_list de_resource_ref (dl_resources d) = Some rs \<longrightarrow>
         de_list de_resource_ref (dl_resources q) = Some qs \<longrightarrow> r \<in> set rs \<longrightarrow> r \<in> set qs)"
proof -
  from grant_ops.attempts_inv [OF assms(1)] assms(2) have "grants_inv s'" by simp
  from ancestry_narrows [OF this assms(3,4)] show ?thesis by (auto simp: narrower_def)
qed

text \<open>
  C37: an active grant can always be revoked. On a table built by these commands the recursive query
  over its descendants ends; so a well-formed revocation of an active grant at its current version
  succeeds, as long as no counter of the table is exhausted.
\<close>

theorem revocation_completes:
  assumes "grants_inv s" and "s' = attempts (grant_step env) s ops"
    and "row_at delegation_key (tenant, i) (tb_delegations s') = Some d" and "dl_state d = ''ACTIVE''"
    and "\<forall>x \<in> set (tb_delegations s'). delegation_ok x \<and> delegation_fits (revoked_row x)"
    and "parse_uuid pf (ca_tenant_id (ac_actor c)) = Inr tenant" and "pf_uuid_parse pf text = Some i"
    and "ac_input c = JObj [(''grant_id'', JStr text), (''expected_version'', JNum (dl_version d)), (''reason'', JStr reason)]"
    and "\<not> is_blank reason"
  shows "is_ok (revoke_grant pf s' c)"
proof -
  let ?t = "tb_delegations s'"
  from grant_ops.attempts_inv [OF assms(1)] assms(2) have inv: "grants_inv s'" by simp
  have d: "d \<in> set ?t" "delegation_key d = (tenant, i)" using row_at_SomeD [OF assms(3)] by simp_all
  then have "stands_after s' tenant 0 i" by (auto simp: stands_after_def in_set_conv_nth)
  then have "descendant_levels (Suc (length ?t)) ?t tenant [i] \<noteq> None"
    by (intro descendant_levels_end [OF inv, of 0]) simp_all
  then obtain ids where ids: "descendant_levels (Suc (length ?t)) ?t tenant [i] = Some ids" by blast
  from assms(5) d(1) have ok: "delegation_ok d" "delegation_fits (revoked_row d)" by auto
  then have v: "in_i32 (dl_version d)" "in_i32 (dl_version d + 1)" 
    by (auto simp: delegation_ok_def delegation_fits_def revoked_row_def in_i32_def)
  have fits: "\<not> list_ex (\<lambda>x. P x \<and> \<not> delegation_fits (revoked_row x)) ?t"
    "\<not> list_ex (\<lambda>x. P x \<and> \<not> delegation_ok (revoked_row x)) ?t" for P
    using assms(5) by (auto simp: list_ex_iff delegation_ok_def revoked_row_def)
  show ?thesis
    using ids v fits assms(3,4,6,7,9)
    by (simp add: revoke_grant_def assms(8) field_def parse_uuid_def require_expected_version_def checked_i32_def
        update_rows_def Let_def del: descendant_levels.simps)
qed

lemma grants_db_inv: "grants_inv grants_db"
proof -
  have "derived_at (tb_delegations grants_db) j" if "j < 4" for j
  proof -
    from that consider "j = 0" | "j = 1" | "j = 2" | "j = 3" by linarith
    then show ?thesis
    proof cases
      case 2
      then show ?thesis by (auto simp: derived_at_def grants_db_def sample_grant_def narrower_def)
    next
      case 3
      then show ?thesis
        by (auto simp: derived_at_def grants_db_def sample_grant_def narrower_def intro!: exI [of _ "Suc 0"])
    qed (simp_all add: derived_at_def grants_db_def sample_grant_def)
  qed
  moreover have "length (tb_delegations grants_db) = 4" by (simp add: grants_db_def)
  moreover have "unique_key delegation_key (tb_delegations grants_db)"
    by (simp add: unique_key_def grants_db_def sample_grant_def)
  ultimately show ?thesis by (simp add: grants_inv_def)
qed

definition grant_env :: command_env where
  "grant_env = rg_env registry_sample"

theorem grants_only_narrow_witness:
  "row_at delegation_key (1, 6) (tb_delegations (attempts (grant_step grant_env) grants_db [Revoke_Grant sample_revoke]))
     \<noteq> None
   \<and> set (dl_actions (sample_grant 6 (Some 4))) \<subseteq> set (dl_actions (sample_grant 3 None))"
proof -
  let ?s = "attempts (grant_step grant_env) grants_db []"
  have r: "row_at delegation_key (1, 6) (tb_delegations ?s) = Some (sample_grant 6 (Some 4))"
    by (simp add: grants_db_def sample_grant_def)
  have "sample_grant 3 None \<in> set (ancestry (tb_delegations ?s) 1 [] 6)"
    by (simp add: ancestry.simps grants_db_def sample_grant_def)
  from grants_only_narrow [OF grants_db_inv refl r this]
  have "set (dl_actions (sample_grant 6 (Some 4))) \<subseteq> set (dl_actions (sample_grant 3 None))" by simp
  moreover have "row_at delegation_key (1, 6)
      (tb_delegations (attempts (grant_step grant_env) grants_db [Revoke_Grant sample_revoke])) \<noteq> None" by code_simp
  ultimately show ?thesis by blast
qed

theorem revocation_completes_witness: "is_ok (revoke_grant sample_platform grants_db sample_revoke)"
proof -
  have "is_ok (revoke_grant sample_platform (attempts (grant_step grant_env) grants_db []) sample_revoke)"
  proof (rule revocation_completes [OF grants_db_inv refl])
    show "row_at delegation_key (1, 3) (tb_delegations (attempts (grant_step grant_env) grants_db [])) = Some (sample_grant 3 None)"
      by (simp add: grants_db_def sample_grant_def)
    show "dl_state (sample_grant 3 None) = ''ACTIVE''" by (simp add: sample_grant_def)
    show "\<forall>x \<in> set (tb_delegations (attempts (grant_step grant_env) grants_db [])).
        delegation_ok x \<and> delegation_fits (revoked_row x)"
      by (simp add: grants_db_def sample_grant_def delegation_ok_def delegation_fits_def revoked_row_def in_i32_def in_i64_def)
    show "parse_uuid sample_platform (ca_tenant_id (ac_actor sample_revoke)) = Inr 1" by code_simp
    show "pf_uuid_parse sample_platform ''3'' = Some 3" by code_simp
    show "ac_input sample_revoke = JObj [(''grant_id'', JStr ''3''), (''expected_version'', JNum (dl_version (sample_grant 3 None))),
        (''reason'', JStr ''left'')]" by (simp add: sample_revoke_def sample_grant_def)
    show "\<not> is_blank ''left''" by code_simp
  qed
  then show ?thesis by simp
qed

section \<open>Admitted runs\<close>

lemma require_enabled_state_Inr [res_simps]: "require_enabled_state st = Inr u \<longleftrightarrow> st = ''ENABLED''"
  by (simp add: require_enabled_state_def)

lemma newest_definition_Some:
  assumes "newest_definition s tenant workflow version = Some w"
  shows "w \<in> set (tb_workflow_definitions s)" and "wd_tenant w = tenant" and "wd_workflow_id w = workflow"
    and "wd_workflow_version w = version"
proof -
  let ?rows = "rev (sort_key wd_created_at (filter (\<lambda>w. wd_tenant w = tenant \<and> wd_workflow_id w = workflow
            \<and> wd_workflow_version w = version) (tb_workflow_definitions s)))"
  from assms have "w \<in> set ?rows" unfolding newest_definition_def by (cases ?rows) simp_all
  then show "w \<in> set (tb_workflow_definitions s)" and "wd_tenant w = tenant" and "wd_workflow_id w = workflow"
    and "wd_workflow_version w = version" by auto
qed

lemma start_run_Inr:
  assumes "start_run re ids now s c = Inr (m, s')"
  obtains tenant who w d i grant_id g input_ref where
      "parse_uuid (rg_pf re) (ca_tenant_id (ac_actor c)) = Inr tenant"
    and "w \<in> set (tb_workflow_definitions s)" and "wd_tenant w = tenant"
    and "de_workflow_definition (wd_definition w) = Some d"
    and "row_at plugin_key (tenant, wd_plugin_id w) (tb_installations s) = Some i"
    and "pi_state i = ''ENABLED''" and "pi_artifact_digest i = wd_plugin_digest w"
    and "require_dispatch_enabled (rg_pf re) s (ac_actor c) (Some (wd_plugin_id w)) None = Inr ()"
    and "require_active_grant (rg_pf re) s now (ac_actor c) grant_id (Some ''run.start'') None = Inr g"
    and "check_run_input re s (ac_actor c) d input_ref = Inr ()"
    and "s' = s\<lparr>tb_runs := tb_runs s @ [queued_run (rg_pf re) now tenant (ids 0) who w g input_ref]\<rparr>"
    and "mu_run_id m = Some (ids 0)" and "mu_accepted m"
proof -
  let ?pf = "rg_pf re" and ?actor = "ac_actor c" and ?input = "ac_input c"
  from assms obtain tenant who workflow version input_ref grant_id w d i g where
      tenant: "parse_uuid ?pf (ca_tenant_id ?actor) = Inr tenant"
    and w: "newest_definition s tenant workflow version = Some w"
    and rest: "de_workflow_definition (wd_definition w) = Some d"
      "row_at plugin_key (tenant, wd_plugin_id w) (tb_installations s) = Some i"
      "pi_state i = ''ENABLED''" "pi_artifact_digest i = wd_plugin_digest w"
      "require_dispatch_enabled ?pf s ?actor (Some (wd_plugin_id w)) None = Inr ()"
      "require_active_grant ?pf s now ?actor grant_id (Some ''run.start'') None = Inr g"
      "check_run_input re s ?actor d input_ref = Inr ()"
    and ins: "insert_run (queued_run ?pf now tenant (ids 0) who w g input_ref) s = Inr s'"
    and m: "mu_run_id m = Some (ids 0)" "mu_accepted m"
    unfolding start_run_def Let_def
    by (simp only: rbind_Inr_iff ok_or_Inr_iff stored_def require_enabled_state_Inr split: if_split_asm) auto
  from ins have "s' = s\<lparr>tb_runs := tb_runs s @ [queued_run ?pf now tenant (ids 0) who w g input_ref]\<rparr>"
    by (auto simp: insert_run_def rbind_Inr_iff sql_Inr_iff insert_row_Inr_iff)
  with tenant rest newest_definition_Some [OF w] m show ?thesis by (intro that)
qed

text \<open>
  C15: a run is admitted only under current authority. An accepted start adds exactly one run, queued
  and not yet dispatched, pinned to the enabled build of its workflow's plugin, which is not a revoked
  build; its grant is active, unexpired and names \<open>run.start\<close>, and the run carries the fence the grant has.
\<close>

theorem run_admission_is_checked:
  assumes "start_run re ids now s c = Inr (m, s')" and "registry_inv s"
  shows "\<exists>run i g. s' = s\<lparr>tb_runs := tb_runs s @ [run]\<rparr>
    \<and> mu_run_id m = Some (rn_id run) \<and> mu_accepted m
    \<and> rn_state run = ''QUEUED'' \<and> rn_dispatch_state run = ''PENDING'' \<and> rn_version run = 1
    \<and> i \<in> set (tb_installations s) \<and> build_key i = (rn_tenant run, rn_plugin_id run, rn_plugin_digest run)
    \<and> pi_state i = ''ENABLED'' \<and> \<not> plugin_revoked s (rn_tenant run) (rn_plugin_id run) (rn_plugin_digest run)
    \<and> g \<in> set (tb_delegations s) \<and> delegation_key g = (rn_tenant run, rn_grant_id run)
    \<and> dl_state g = ''ACTIVE'' \<and> now < dl_expires_at g \<and> ''run.start'' \<in> set (dl_actions g)
    \<and> rn_grant_fence run = dl_fence g"
  using assms(1)
proof (rule start_run_Inr)
  fix tenant who w d i grant_id g input_ref
  let ?run = "queued_run (rg_pf re) now tenant (ids 0) who w g input_ref"
  assume tenant: "parse_uuid (rg_pf re) (ca_tenant_id (ac_actor c)) = Inr tenant"
    and i: "row_at plugin_key (tenant, wd_plugin_id w) (tb_installations s) = Some i" "pi_state i = ''ENABLED''"
      "pi_artifact_digest i = wd_plugin_digest w"
    and grant: "require_active_grant (rg_pf re) s now (ac_actor c) grant_id (Some ''run.start'') None = Inr g"
    and s': "s' = s\<lparr>tb_runs := tb_runs s @ [?run]\<rparr>" and m: "mu_run_id m = Some (ids 0)" "mu_accepted m"
  have mem: "i \<in> set (tb_installations s)" "plugin_key i = (tenant, wd_plugin_id w)" using row_at_SomeD [OF i(1)] by simp_all
  with assms(2) have "installation_sound s i" by (simp add: registry_inv_def)
  with i mem have nr: "\<not> plugin_revoked s tenant (wd_plugin_id w) (wd_plugin_digest w)"
    by (auto simp: installation_sound_def retired_def)
  from grant tenant show ?thesis
  proof (rule require_active_grant_Inr)
    fix q
    assume q: "q \<in> set (tb_delegations s)" "delegation_key q = (tenant, grant_id)" "dl_state q = ''ACTIVE''"
      "now < dl_expires_at q" "ag_id g = grant_id" "ag_fence g = dl_fence q"
      "Some ''run.start'' \<noteq> None \<Longrightarrow> the (Some ''run.start'') \<in> set (dl_actions q)"
    with mem i nr s' m show ?thesis
      by (intro exI [of _ ?run] exI [of _ i] exI [of _ q]) (simp add: queued_run_def)
  qed
qed

section \<open>A sample admission\<close>

definition package_ref :: artifact_ref where
  "package_ref = \<lparr> ar_artifact_id = ''20'', ar_tenant_id = ''1'', ar_digest = zero_digest, ar_schema_version = ''1'',
     ar_classification = Public \<rparr>"

definition admitted_workflow :: workflow_definition where
  "admitted_workflow = (sample_workflow 9)\<lparr>wd_nodes := [], wd_edges := [], wd_input_schema_ref := package_ref,
     wd_output_schema_ref := package_ref, wd_digest := zero_digest\<rparr>"

definition admission_db :: database where
  "admission_db = enabled_db\<lparr>
     tb_workflow_definitions := [definition_row 5 1 (sample_manifest ''a'' []) admitted_workflow],
     tb_delegations := [sample_grant 3 None]\<rparr>"

definition start_sample :: authorized_command where
  "start_sample = member_command ''run.start'' ''k'' [(''workflow_id'', JStr ''w''), (''workflow_version'', JStr ''1''),
     (''input_ref'', ser_artifact_ref package_ref), (''grant_id'', JStr ''3'')]"

lemma admission_db_inv: "registry_inv admission_db"
  using enabled_db_inv installation_sound_cong [of admission_db enabled_db]
  by (simp add: registry_inv_def admission_db_def)

lemma sample_load:
  assumes "9 \<le> n"
  shows "load_artifact_ref (rg_env registry_sample) admission_db member_actor package_ref n = Inr ''{}''"
proof -
  have "load_artifact_ref (rg_env registry_sample) admission_db member_actor package_ref 9 = Inr ''{}''" by code_simp
  from load_artifact_ref_mono [OF this assms] show ?thesis by (simp add: registry_sample_def)
qed

lemma sample_schema: "\<exists>v. schema_compile (rg_schema registry_sample) ''{}'' = Inr v \<and> v = (\<lambda>_. None)"
  by (simp add: schema_compile_def registry_sample_def strict_json_def external_reference_def pattern_too_long_def)

lemma sample_run_input: "check_run_input registry_sample admission_db member_actor admitted_workflow package_ref = Inr ()"
proof -
  have "map_sum (\<lambda>e. ()) sa_reference (artifact_metadata_in (rg_env registry_sample) admission_db member_actor ''20'') = Inr package_ref"
    by code_simp
  then obtain md where md: "artifact_metadata_in (rg_env registry_sample) admission_db member_actor ''20'' = Inr md"
    "sa_reference md = package_ref"
    by (cases "artifact_metadata_in (rg_env registry_sample) admission_db member_actor ''20''") simp_all
  have le: "9 \<le> MAX_WORKFLOW_SCHEMA_BYTES" "9 \<le> MAX_RUN_INPUT_BYTES" "2 \<le> MAX_RUN_INPUT_BYTES"
    unfolding MAX_WORKFLOW_SCHEMA_BYTES_def MAX_RUN_INPUT_BYTES_def by simp_all
  have "validate_bytes (rg_schema registry_sample) (\<lambda>_. None) ''{}'' MAX_RUN_INPUT_BYTES = Inr ()"
    using le(3) by (simp add: validate_bytes_def registry_sample_def strict_json_def)
  moreover have "ar_artifact_id package_ref = ''20''" "wd_input_schema_ref admitted_workflow = package_ref"
    by (simp_all add: package_ref_def admitted_workflow_def)
  ultimately show ?thesis
    using md sample_load [OF le(1)] sample_load [OF le(2)] sample_schema by (auto simp: check_run_input_def)
qed

theorem run_admission_is_checked_witness:
  "\<exists>m s' run. start_run registry_sample (\<lambda>n. 77) 9 admission_db start_sample = Inr (m, s')
     \<and> s' = admission_db\<lparr>tb_runs := tb_runs admission_db @ [run]\<rparr> \<and> rn_state run = ''QUEUED''"
proof -
  let ?w = "definition_row 5 1 (sample_manifest ''a'' []) admitted_workflow"
  let ?g = "\<lparr> ag_id = 3, ag_actions = [''run.start''], ag_resources = [], ag_expires_at = 100, ag_fence = 1 \<rparr>"
  have steps: "parse_uuid (rg_pf registry_sample) (ca_tenant_id member_actor) = Inr 1"
    "parse_uuid (rg_pf registry_sample) (ca_principal_id member_actor) = Inr 2"
    "field de_string (ac_input start_sample) ''workflow_id'' = Inr ''w''"
    "field de_string (ac_input start_sample) ''workflow_version'' = Inr ''1''"
    "field de_artifact_ref (ac_input start_sample) ''input_ref'' = Inr package_ref"
    "field de_string (ac_input start_sample) ''grant_id'' = Inr ''3''"
    "parse_uuid (rg_pf registry_sample) ''3'' = Inr 3" "parse_uuid (rg_pf registry_sample) ''20'' = Inr 20"
    "newest_definition admission_db 1 ''w'' ''1'' = Some ?w"
    "stored ''RUN_INTEGRITY'' de_workflow_definition (wd_definition ?w) = Inr admitted_workflow"
    "row_at plugin_key (1, ''a'') (tb_installations admission_db) = Some (hd (tb_installations enabled_db))"
    "require_dispatch_enabled (rg_pf registry_sample) admission_db member_actor (Some ''a'') None = Inr ()"
    "require_active_grant (rg_pf registry_sample) admission_db 9 member_actor 3 (Some ''run.start'') None = Inr ?g"
    "ac_actor start_sample = member_actor" "ar_tenant_id package_ref = ca_tenant_id member_actor"
    "wd_plugin_id ?w = ''a''" "pi_state (hd (tb_installations enabled_db)) = ''ENABLED''"
    "pi_artifact_digest (hd (tb_installations enabled_db)) = wd_plugin_digest ?w"
    "ar_artifact_id package_ref = ''20''" by code_simp+
  have "is_ok (insert_run (queued_run (rg_pf registry_sample) 9 1 77 2 ?w ?g package_ref) admission_db)" by code_simp
  then have "is_ok (start_run registry_sample (\<lambda>n. 77) 9 admission_db start_sample)"
    unfolding start_run_def Let_def
    by (auto simp: steps sample_run_input require_enabled_state_def is_ok_iff simp del: ok_or_Inr_iff)
  then obtain m s' where s: "start_run registry_sample (\<lambda>n. 77) 9 admission_db start_sample = Inr (m, s')"
    by (auto simp: is_ok_iff)
  from run_admission_is_checked [OF s admission_db_inv] s show ?thesis by blast
qed

end
