(* ===== verification/Invocations.thy ===== *)
theory Invocations
  imports Admission
begin

text \<open>
  The invocation of a pure plugin handler (\<open>invocation.rs\<close>). The plugin runtime is a port and a
  parameter: what it answers is unconstrained. The theorem: a completed invocation ran an enabled,
  unrevoked build within its grant and its rights, and what it wrote inherits them.
\<close>

section \<open>Pure plugin invocations\<close>

record pure_plugin_invocation =
  pv_invocation_id :: resource_id
  pv_tenant_id :: tenant_id
  pv_manifest :: plugin_manifest
  pv_handler :: handler_contract
  pv_grant_id :: string
  pv_granted_capabilities :: "action list"
  pv_artifact_bytes :: string
  pv_input :: string

text \<open>
  The runtime port answers an invocation with the bytes of its output; the clock has moved on by
  then, to \<open>rt_finished\<close>.
\<close>

record plugin_runtime =
  rt_invoke :: "pure_plugin_invocation \<Rightarrow> string outcome"
  rt_finished :: "pure_plugin_invocation \<Rightarrow> timestamp"

definition MAX_IO_BYTES :: nat where
  "MAX_IO_BYTES = 4 * 1024 * 1024"

abbreviation rights_key :: "rights_row \<Rightarrow> uuid \<times> uuid" where
  "rights_key r \<equiv> (rt_tenant r, rt_artifact_id r)"

definition can_transform :: "database \<Rightarrow> timestamp \<Rightarrow> uuid \<Rightarrow> uuid \<Rightarrow> bool" where
  "can_transform s now tenant i \<longleftrightarrow>
     list_ex (\<lambda>r. rights_key r = (tenant, i) \<and> rt_state r = ''ACTIVE'' \<and> rt_allow_transform r
        \<and> (case rt_expires_at r of None \<Rightarrow> True | Some t \<Rightarrow> now < t)) (tb_rights s)"

definition effective_capabilities ::
    "command_env \<Rightarrow> read_policy \<Rightarrow> installation_row \<Rightarrow> active_grant \<Rightarrow> string list" where
  "effective_capabilities env policy i grant =
     filter (\<lambda>a. List.member (ag_actions grant) a
        \<and> permits (ce_cedar env) policy a ''PluginInstallation'' (pf_uuid_show (ce_platform env) (pi_id i))
            (btree_from [(''plugin_id'', JStr (pi_plugin_id i)), (''version'', JNum (pi_version i)),
                         (''state'', JStr ''ENABLED'')]))
       (pi_granted_capabilities i)"

definition check_capabilities :: "string list \<Rightarrow> handler_contract \<Rightarrow> action list outcome" where
  "check_capabilities named handler =
     rbind (rfold (\<lambda>a as. rbind (map_err (\<lambda>_. unavailable ''CAPABILITY_INTEGRITY'') (action_new a)) (\<lambda>x. Inr (as @ [x])))
              named []) (\<lambda>effective.
     if list_ex (\<lambda>r. \<not> List.member effective r) (hc_required_capabilities handler)
     then Inl (denied ''CAPABILITY_DENIED'') else Inr effective)"

text \<open>The scope of an invocation: everything that is decided before bytes are read.\<close>

record invocation_scope =
  iv_installation :: installation_row
  iv_manifest :: plugin_manifest
  iv_handler :: handler_contract
  iv_grant_text :: string
  iv_grant :: active_grant
  iv_input_ref :: artifact_ref
  iv_input_id :: uuid
  iv_effective :: "action list"

definition invocation_target ::
    "registry_env \<Rightarrow> database \<Rightarrow> uuid \<Rightarrow> authorized_command
     \<Rightarrow> (installation_row \<times> plugin_manifest \<times> handler_contract) outcome" where
  "invocation_target re s tenant command =
     rbind (field de_string (ac_input command) ''plugin_id'') (\<lambda>plugin.
     rbind (ok_or not_found (row_at plugin_key (tenant, plugin) (tb_installations s))) (\<lambda>row.
     rbind (require_enabled_state (pi_state row)) (\<lambda>_.
     rbind (stored_manifest s tenant plugin (pi_artifact_digest row)) (\<lambda>manifest.
     rbind (field de_string (ac_input command) ''handler'') (\<lambda>handler_id.
     rbind (ok_or not_found (find (\<lambda>h. hc_id h = handler_id) (pl_handlers manifest))) (\<lambda>handler.
     if \<not> List.member [''DETERMINISTIC'', ''READ_ONLY''] (hc_effects handler)
     then Inl (precondition ''EFFECT_BROKER_REQUIRED'')
     else
     rbind (require_dispatch_enabled (rg_pf re) s (ac_actor command) (Some plugin) None) (\<lambda>_.
     Inr (row, manifest, handler))))))))"

abbreviation installation_ref :: "platform \<Rightarrow> installation_row \<Rightarrow> resource_ref" where
  "installation_ref pf i \<equiv> resource_ref_of pf ''PluginInstallation'' (pi_id i) (pi_version i)"

definition invocation_scope_of ::
    "registry_env \<Rightarrow> timestamp \<Rightarrow> database \<Rightarrow> uuid \<Rightarrow> authorized_command \<Rightarrow> invocation_scope outcome" where
  "invocation_scope_of re now s tenant command =
     (let pf = rg_pf re; actor = ac_actor command; input = ac_input command in
     rbind (invocation_target re s tenant command) (\<lambda>(row, manifest, handler).
     rbind (field (de_opaque ''GrantId'') input ''grant_id'') (\<lambda>grant_text.
     rbind (parse_uuid pf grant_text) (\<lambda>grant_id.
     rbind (require_active_grant pf s now actor grant_id (Some ''plugin.invoke'') (Some (installation_ref pf row))) (\<lambda>grant.
     rbind (field de_artifact_ref input ''input_ref'') (\<lambda>input_ref.
     if ar_tenant_id input_ref \<noteq> ca_tenant_id actor then Inl not_found
     else
     rbind (artifact_metadata_in (rg_env re) s actor (ar_artifact_id input_ref)) (\<lambda>metadata.
     if sa_reference metadata \<noteq> input_ref then Inl (precondition ''ARTIFACT_REFERENCE_MISMATCH'')
     else
     rbind (parse_uuid pf (ar_artifact_id input_ref)) (\<lambda>input_id.
     rbind (ok_or (database_failure None) (row_at artifact_key (tenant, input_id) (tb_artifacts s))) (\<lambda>a.
     if \<not> List.member (ag_actions grant) ''artifact.read''
        \<or> \<not> List.member (ag_resources grant) (resource_ref_of pf ''Artifact'' input_id (af_version a))
     then Inl (denied ''CAPABILITY_DENIED'')
     else if \<not> can_transform s now tenant input_id then Inl (denied ''SOURCE_RIGHTS_DENIED'')
     else
     rbind (read_policy (ce_cedar (rg_env re)) pf s actor) (\<lambda>policy.
     rbind (check_capabilities (effective_capabilities (rg_env re) policy row grant) handler) (\<lambda>effective.
     Inr \<lparr> iv_installation = row, iv_manifest = manifest, iv_handler = handler, iv_grant_text = grant_text,
           iv_grant = grant, iv_input_ref = input_ref, iv_input_id = input_id, iv_effective = effective \<rparr>)))))))))))"

definition load_schema :: "registry_env \<Rightarrow> string \<Rightarrow> validator outcome" where
  "load_schema re bytes =
     map_err (\<lambda>_. precondition ''PLUGIN_SCHEMA_INVALID'') (schema_compile (rg_schema re) bytes)"

definition canonical_instance :: "registry_env \<Rightarrow> command_failure \<Rightarrow> string \<Rightarrow> string outcome" where
  "canonical_instance re e bytes =
     rbind (map_err (\<lambda>_. e) (strict_json (st_decode (rg_schema re)) bytes)) (\<lambda>j. ok_or e (pf_canonical (rg_pf re) j))"

text \<open>Trust and storage reads: the invocation handed to the runtime and the schema of its output.\<close>

definition prepare_invocation ::
    "registry_env \<Rightarrow> uuid \<Rightarrow> database \<Rightarrow> command_actor \<Rightarrow> invocation_scope
     \<Rightarrow> (pure_plugin_invocation \<times> validator) outcome" where
  "prepare_invocation re i s actor scope =
     rbind (verify_publisher_and_package re s actor (iv_manifest scope)) (\<lambda>_.
     rbind (package_artifact re s actor (pl_artifact_digest (iv_manifest scope)) MAX_PACKAGE_BYTES) (\<lambda>package_ref.
     rbind (load_artifact_ref (rg_env re) s actor package_ref MAX_PACKAGE_BYTES) (\<lambda>package.
     rbind (load_artifact_ref (rg_env re) s actor (hc_input_schema_ref (iv_handler scope)) (256 * 1024)) (\<lambda>input_bytes.
     rbind (load_artifact_ref (rg_env re) s actor (hc_output_schema_ref (iv_handler scope)) (256 * 1024)) (\<lambda>output_bytes.
     rbind (load_schema re input_bytes) (\<lambda>input_schema.
     rbind (load_schema re output_bytes) (\<lambda>output_schema.
     rbind (load_artifact_ref (rg_env re) s actor (iv_input_ref scope) MAX_IO_BYTES) (\<lambda>input.
     rbind (map_err (\<lambda>_. invalid ''PLUGIN_INPUT_INVALID'')
              (validate_bytes (rg_schema re) input_schema input MAX_IO_BYTES)) (\<lambda>_.
     rbind (canonical_instance re (invalid ''PLUGIN_INPUT_INVALID'') input) (\<lambda>canonical.
     Inr (\<lparr> pv_invocation_id = resource_id_of (rg_pf re) i, pv_tenant_id = ca_tenant_id actor,
            pv_manifest = iv_manifest scope, pv_handler = iv_handler scope, pv_grant_id = iv_grant_text scope,
            pv_granted_capabilities = iv_effective scope, pv_artifact_bytes = package, pv_input = canonical \<rparr>,
          output_schema)))))))))))"

definition rights_ok :: "rights_row \<Rightarrow> bool" where
  "rights_ok r \<longleftrightarrow>
     rt_access_mode r \<in> {''FIRST_PARTY'', ''AUTHORIZED_API'', ''LICENSED'', ''PERMITTED_CRAWL'', ''MANUAL_IMPORT''}
     \<and> rt_state r \<in> {''ACTIVE'', ''REVOKED'', ''EXPIRED''} \<and> 0 < rt_version r"

text \<open>\<open>INSERT \<dots> SELECT\<close>: the rights of the source, for the derived artifact.\<close>

definition derive_rights :: "uuid \<Rightarrow> uuid \<Rightarrow> uuid \<Rightarrow> uuid \<Rightarrow> database \<Rightarrow> database outcome" where
  "derive_rights tenant source derived rights_id s =
     rfold (\<lambda>r s. rbind (sql (insert_row rights_ok
              (\<lambda>r r'. rights_key r' = rights_key r \<or> (rt_tenant r' = rt_tenant r \<and> rt_rights_id r' = rt_rights_id r))
              (row_at artifact_key (tenant, derived) (tb_artifacts s) \<noteq> None)
              (r\<lparr>rt_artifact_id := derived, rt_rights_id := rights_id, rt_state := ''ACTIVE'', rt_version := 1\<rparr>)
              (tb_rights s))) (\<lambda>t. Inr (s\<lparr>tb_rights := t\<rparr>)))
       (filter (\<lambda>r. rights_key r = (tenant, source)) (tb_rights s)) s"

definition insert_lineage :: "uuid \<Rightarrow> uuid \<Rightarrow> uuid \<Rightarrow> database \<Rightarrow> database outcome" where
  "insert_lineage tenant source derived s =
     rbind (sql (insert_row (\<lambda>l. ln_source_id l \<noteq> ln_derived_id l) (\<lambda>l l'. l' = l)
              (row_at artifact_key (tenant, source) (tb_artifacts s) \<noteq> None
               \<and> row_at artifact_key (tenant, derived) (tb_artifacts s) \<noteq> None)
              \<lparr> ln_tenant = tenant, ln_source_id = source, ln_derived_id = derived \<rparr> (tb_lineage s)))
       (\<lambda>t. Inr (s\<lparr>tb_lineage := t\<rparr>))"

definition persist_output ::
    "registry_env \<Rightarrow> (nat \<Rightarrow> uuid) \<Rightarrow> timestamp \<Rightarrow> database \<Rightarrow> command_actor \<Rightarrow> uuid \<Rightarrow> invocation_scope \<Rightarrow> string
     \<Rightarrow> (artifact_ref \<times> database) outcome" where
  "persist_output re ids now s actor tenant scope bytes =
     rbind (persist_artifact (rg_env re) (ids 1) now s actor bytes ''application/json''
              (ar_classification (iv_input_ref scope))) (\<lambda>(output_ref, s1).
     rbind (parse_uuid (rg_pf re) (ar_artifact_id output_ref)) (\<lambda>output_id.
     rbind (insert_lineage tenant (iv_input_id scope) output_id s1) (\<lambda>s2.
     rbind (derive_rights tenant (iv_input_id scope) output_id (ids 2) s2) (\<lambda>s3.
     Inr (output_ref, s3)))))"

definition invoke_plugin ::
    "registry_env \<Rightarrow> plugin_runtime option \<Rightarrow> (nat \<Rightarrow> uuid) \<Rightarrow> timestamp \<Rightarrow> database \<Rightarrow> authorized_command
     \<Rightarrow> (mutation \<times> database) outcome" where
  "invoke_plugin re port ids now s command =
     (let pf = rg_pf re; actor = ac_actor command in
     rbind (ok_or (unavailable ''PLUGIN_RUNTIME_UNAVAILABLE'') port) (\<lambda>runtime.
     rbind (parse_uuid pf (ca_tenant_id actor)) (\<lambda>tenant.
     rbind (invocation_scope_of re now s tenant command) (\<lambda>scope.
     rbind (prepare_invocation re (ids 0) s actor scope) (\<lambda>(call, output_schema).
     rbind (rt_invoke runtime call) (\<lambda>output.
     let later = rt_finished runtime call in
     rbind (require_active_grant pf s later actor (ag_id (iv_grant scope)) (Some ''plugin.invoke'')
              (Some (installation_ref pf (iv_installation scope)))) (\<lambda>_.
     if \<not> can_transform s later tenant (iv_input_id scope) then Inl (denied ''SOURCE_RIGHTS_DENIED'')
     else
     rbind (map_err (\<lambda>_. precondition ''PLUGIN_OUTPUT_INVALID'')
              (validate_bytes (rg_schema re) output_schema output MAX_IO_BYTES)) (\<lambda>_.
     rbind (canonical_instance re (precondition ''PLUGIN_OUTPUT_INVALID'') output) (\<lambda>bytes.
     rbind (persist_output re ids now s actor tenant scope bytes) (\<lambda>(output_ref, s').
     let plugin = pi_plugin_id (iv_installation scope); handler_id = hc_id (iv_handler scope) in
     Inr (mutation_one pf ''PluginInvocation'' (ids 0) 1
            (JObj [(''invocation_id'', ser_uuid pf (ids 0)), (''plugin_id'', JStr plugin),
                   (''plugin_digest'', JStr (pi_artifact_digest (iv_installation scope))), (''handler'', JStr handler_id),
                   (''grant_id'', ser_uuid pf (ag_id (iv_grant scope))), (''grant_fence'', JNum (ag_fence (iv_grant scope))),
                   (''input_ref'', ser_artifact_ref (iv_input_ref scope)), (''output_ref'', ser_artifact_ref output_ref),
                   (''state'', JStr ''SUCCEEDED''), (''version'', JNum 1)])
            (plugin @ '' '' @ handler_id), s')))))))))))"

section \<open>What an invocation does\<close>

lemma check_capabilities_Inr:
  assumes "check_capabilities named handler = Inr effective"
  shows "effective = named" and "set (hc_required_capabilities handler) \<subseteq> set named"
proof -
  have fold: "rfold (\<lambda>a as. rbind (map_err (\<lambda>_. e) (action_new a)) (\<lambda>x. Inr (as @ [x]))) xs acc = Inr ys
      \<Longrightarrow> ys = acc @ xs" for e :: command_failure and xs acc ys
    by (induction xs arbitrary: acc) (fastforce simp: rbind_Inr_iff map_err_Inr_iff action_new_def split: if_splits)+
  from assms show "effective = named" "set (hc_required_capabilities handler) \<subseteq> set named"
    unfolding check_capabilities_def by (auto simp: rbind_Inr_iff list_ex_iff List.member_iff dest!: fold split: if_splits)
qed

lemma invocation_target_Inr:
  assumes "invocation_target re s tenant c = Inr (i, manifest, handler)"
  shows "i \<in> set (tb_installations s)" and "pi_tenant i = tenant" and "pi_state i = ''ENABLED''"
    and "stored_manifest s tenant (pi_plugin_id i) (pi_artifact_digest i) = Inr manifest"
    and "handler \<in> set (pl_handlers manifest)" and "hc_effects handler \<in> {''DETERMINISTIC'', ''READ_ONLY''}"
    and "require_dispatch_enabled (rg_pf re) s (ac_actor c) (Some (pi_plugin_id i)) None = Inr ()"
proof -
  from assms obtain plugin handler_id where
      row: "row_at plugin_key (tenant, plugin) (tb_installations s) = Some i"
    and st: "pi_state i = ''ENABLED''"
    and m: "stored_manifest s tenant plugin (pi_artifact_digest i) = Inr manifest"
    and h: "find (\<lambda>h. hc_id h = handler_id) (pl_handlers manifest) = Some handler"
    and e: "hc_effects handler \<in> {''DETERMINISTIC'', ''READ_ONLY''}"
    and k: "require_dispatch_enabled (rg_pf re) s (ac_actor c) (Some plugin) None = Inr ()"
    unfolding invocation_target_def
    by (auto simp: rbind_Inr_iff ok_or_Inr_iff require_enabled_state_Inr List.member_iff split: if_splits)
  from row_at_SomeD [OF row] h st m e k show "i \<in> set (tb_installations s)" and "pi_tenant i = tenant"
    and "pi_state i = ''ENABLED''" and "stored_manifest s tenant (pi_plugin_id i) (pi_artifact_digest i) = Inr manifest"
    and "handler \<in> set (pl_handlers manifest)" and "hc_effects handler \<in> {''DETERMINISTIC'', ''READ_ONLY''}"
    and "require_dispatch_enabled (rg_pf re) s (ac_actor c) (Some (pi_plugin_id i)) None = Inr ()"
    by (auto simp: find_Some_iff)
qed

lemma invocation_scope_Inr:
  assumes "invocation_scope_of re now s tenant c = Inr scope"
  shows "invocation_target re s tenant c = Inr (iv_installation scope, iv_manifest scope, iv_handler scope)"
    and "\<exists>j. require_active_grant (rg_pf re) s now (ac_actor c) j (Some ''plugin.invoke'')
           (Some (installation_ref (rg_pf re) (iv_installation scope))) = Inr (iv_grant scope)"
    and "set (iv_effective scope) \<subseteq> set (pi_granted_capabilities (iv_installation scope)) \<inter> set (ag_actions (iv_grant scope))"
    and "set (hc_required_capabilities (iv_handler scope)) \<subseteq> set (iv_effective scope)"
    and "parse_uuid (rg_pf re) (ar_artifact_id (iv_input_ref scope)) = Inr (iv_input_id scope)"
    and "''artifact.read'' \<in> set (ag_actions (iv_grant scope))"
proof -
  from assms obtain row manifest handler j grant policy effective where
      target: "invocation_target re s tenant c = Inr (row, manifest, handler)"
    and grant: "require_active_grant (rg_pf re) s now (ac_actor c) j (Some ''plugin.invoke'')
           (Some (installation_ref (rg_pf re) row)) = Inr grant"
    and caps: "check_capabilities (effective_capabilities (rg_env re) policy row grant) handler = Inr effective"
    and read: "''artifact.read'' \<in> set (ag_actions grant)"
    and scope: "iv_installation scope = row" "iv_manifest scope = manifest" "iv_handler scope = handler"
      "iv_grant scope = grant" "iv_effective scope = effective"
      "parse_uuid (rg_pf re) (ar_artifact_id (iv_input_ref scope)) = Inr (iv_input_id scope)"
    unfolding invocation_scope_of_def Let_def
    by (simp only: rbind_Inr_iff case_prod_unfold List.member_iff split: if_split_asm) auto
  note e = check_capabilities_Inr [OF caps]
  show "invocation_target re s tenant c = Inr (iv_installation scope, iv_manifest scope, iv_handler scope)"
    and "\<exists>j. require_active_grant (rg_pf re) s now (ac_actor c) j (Some ''plugin.invoke'')
           (Some (installation_ref (rg_pf re) (iv_installation scope))) = Inr (iv_grant scope)"
    and "parse_uuid (rg_pf re) (ar_artifact_id (iv_input_ref scope)) = Inr (iv_input_id scope)"
    and "''artifact.read'' \<in> set (ag_actions (iv_grant scope))" using target grant scope read by auto
  show "set (hc_required_capabilities (iv_handler scope)) \<subseteq> set (iv_effective scope)"
    and "set (iv_effective scope) \<subseteq> set (pi_granted_capabilities (iv_installation scope)) \<inter> set (ag_actions (iv_grant scope))"
    using e scope by (auto simp: effective_capabilities_def List.member_iff)
qed

lemma derive_rights_Inr:
  assumes "derive_rights tenant source derived rights_id s = Inr s'"
  shows "\<exists>rs. s' = s\<lparr>tb_rights := tb_rights s @ rs\<rparr>
    \<and> (\<forall>r \<in> set rs. \<exists>q \<in> set (tb_rights s). rights_key q = (tenant, source)
        \<and> r = q\<lparr>rt_artifact_id := derived, rt_rights_id := rights_id, rt_state := ''ACTIVE'', rt_version := 1\<rparr>)"
proof -
  let ?new = "\<lambda>r. r\<lparr>rt_artifact_id := derived, rt_rights_id := rights_id, rt_state := ''ACTIVE'', rt_version := 1\<rparr>"
  have "rfold (\<lambda>r s. rbind (sql (insert_row rights_ok
              (\<lambda>r r'. rights_key r' = rights_key r \<or> (rt_tenant r' = rt_tenant r \<and> rt_rights_id r' = rt_rights_id r))
              (row_at artifact_key (tenant, derived) (tb_artifacts s) \<noteq> None) (?new r)
              (tb_rights s))) (\<lambda>t. Inr (s\<lparr>tb_rights := t\<rparr>))) qs s = Inr s'
      \<Longrightarrow> s' = s\<lparr>tb_rights := tb_rights s @ map ?new qs\<rparr>" for qs s
    by (induction qs arbitrary: s) (fastforce simp: rbind_Inr_iff sql_Inr_iff insert_row_Inr_iff)+
  from this [OF assms [unfolded derive_rights_def]] show ?thesis
    by (intro exI [of _ "map ?new (filter (\<lambda>r. rights_key r = (tenant, source)) (tb_rights s))"]) auto
qed

text \<open>What an invocation writes: one artifact, one lineage row, and the rights of the source.\<close>

definition derived_output ::
    "uuid \<Rightarrow> uuid \<Rightarrow> string \<Rightarrow> database \<Rightarrow> artifact_row \<Rightarrow> rights_row list \<Rightarrow> database \<Rightarrow> bool" where
  "derived_output tenant source cls s a rs s' \<longleftrightarrow>
     s' = s\<lparr>tb_artifacts := tb_artifacts s @ [a],
            tb_lineage := tb_lineage s @ [\<lparr> ln_tenant = tenant, ln_source_id = source, ln_derived_id = af_id a \<rparr>],
            tb_rights := tb_rights s @ rs\<rparr>
     \<and> af_tenant a = tenant \<and> af_state a = ''ACTIVE'' \<and> af_classification a = cls
     \<and> (\<forall>r \<in> set rs. \<exists>q \<in> set (tb_rights s). rights_key q = (tenant, source)
          \<and> rt_tenant r = tenant \<and> rt_artifact_id r = af_id a
          \<and> (rt_allow_ai_analysis r \<longrightarrow> rt_allow_ai_analysis q) \<and> (rt_allow_transform r \<longrightarrow> rt_allow_transform q)
          \<and> (rt_allow_public_redistribution r \<longrightarrow> rt_allow_public_redistribution q)
          \<and> rt_allowed_provider_profiles r = rt_allowed_provider_profiles q \<and> rt_expires_at r = rt_expires_at q)"

lemma persist_output_Inr:
  assumes "persist_output re ids now s actor tenant scope bytes = Inr (out, s')"
    and "parse_uuid (rg_pf re) (ca_tenant_id actor) = Inr tenant"
    and "uuid_text_ok (rg_pf re)"
  shows "\<exists>a rs. derived_output tenant (iv_input_id scope) (classification_as_str (ar_classification (iv_input_ref scope))) s a rs s'
    \<and> af_digest a = digest_bytes (rg_pf re) bytes \<and> ar_digest out = af_digest a"
proof -
  from assms(1) obtain s1 s2 j where
      a: "persist_artifact (rg_env re) (ids 1) now s actor bytes ''application/json''
          (ar_classification (iv_input_ref scope)) = Inr (out, s1)"
    and j: "parse_uuid (rg_pf re) (ar_artifact_id out) = Inr j"
    and l: "insert_lineage tenant (iv_input_id scope) j s1 = Inr s2"
    and r: "derive_rights tenant (iv_input_id scope) j (ids 2) s2 = Inr s'"
    unfolding persist_output_def by (auto simp: rbind_Inr_iff case_prod_unfold)
  from l have s2: "s2 = s1\<lparr>tb_lineage := tb_lineage s1 @
      [\<lparr> ln_tenant = tenant, ln_source_id = iv_input_id scope, ln_derived_id = j \<rparr>]\<rparr>"
    by (auto simp: insert_lineage_def rbind_Inr_iff sql_Inr_iff insert_row_Inr_iff)
  from derive_rights_Inr [OF r] obtain rs where rs: "s' = s2\<lparr>tb_rights := tb_rights s2 @ rs\<rparr>"
    "\<forall>r \<in> set rs. \<exists>q \<in> set (tb_rights s2). rights_key q = (tenant, iv_input_id scope)
        \<and> r = q\<lparr>rt_artifact_id := j, rt_rights_id := ids 2, rt_state := ''ACTIVE'', rt_version := 1\<rparr>" by blast
  from a show ?thesis
  proof (rule persist_artifact_Inr)
    fix x t
    assume x: "s1 = s\<lparr>tb_artifacts := tb_artifacts s @ [x]\<rparr>" "parse_uuid (rg_pf re) (ca_tenant_id actor) = Inr t"
      "artifact_key x = (t, ids 1)" "af_state x = ''ACTIVE''"
      "af_classification x = classification_as_str (ar_classification (iv_input_ref scope))"
      "af_digest x = digest_bytes (rg_pf re) bytes" "ar_artifact_id out = pf_uuid_show (rg_pf re) (ids 1)"
      "ar_digest out = af_digest x"
    from x(7) j assms(3) have "j = ids 1" by (simp add: uuid_text_ok_def parse_uuid_def)
    with x s2 rs assms(2) show ?thesis
      by (intro exI [of _ x] exI [of _ rs]) (fastforce simp: derived_output_def)
  qed
qed

lemma grants_agree:
  assumes "require_active_grant pf s now actor j act resource = Inr g"
    and "require_active_grant pf s later actor (ag_id g) act' resource' = Inr g'"
    and "parse_uuid pf (ca_tenant_id actor) = Inr tenant"
  shows "\<exists>d \<in> set (tb_delegations s). dl_tenant d = tenant \<and> dl_state d = ''ACTIVE'' \<and> later < dl_expires_at d
    \<and> (act' \<noteq> None \<longrightarrow> the act' \<in> set (dl_actions d)) \<and> ag_actions g = dl_actions d"
proof -
  have "ag_id g = j" using require_active_grant_Inr [OF assms(1,3)] by blast
  with assms(1,2) have "ag_actions g' = ag_actions g"
    by (auto simp: require_active_grant_def rbind_Inr_iff ok_or_Inr_iff Let_def split: if_splits)
  with require_active_grant_Inr [OF assms(2,3)] show ?thesis by (metis prod.inject)
qed



section \<open>A sample invocation\<close>

definition pure_handler :: handler_contract where
  "pure_handler = \<lparr> hc_id = ''h'', hc_input_schema_ref = package_ref, hc_output_schema_ref = package_ref,
     hc_effects = ''READ_ONLY'', hc_required_capabilities = [''run.start''], hc_max_execution_seconds = 1 \<rparr>"

definition pure_manifest :: plugin_manifest where
  "pure_manifest = (sample_manifest ''a'' [])\<lparr>pl_handlers := [pure_handler]\<rparr>"

definition invocation_grant :: delegation_row where
  "invocation_grant = (sample_grant 3 None)\<lparr>
     dl_actions := [''plugin.invoke'', ''artifact.read'', ''run.start''],
     dl_resources := JArr [ser_resource_ref (resource_ref_of sample_platform ''PluginInstallation'' 40 2),
                           ser_resource_ref (resource_ref_of sample_platform ''Artifact'' 20 1)]\<rparr>"

definition invocation_db :: database where
  "invocation_db = enabled_db\<lparr>
     tb_plugin_versions := [version_row 1 pure_manifest], tb_delegations := [invocation_grant],
     tb_rights := [\<lparr> rt_tenant = 1, rt_artifact_id = 20, rt_rights_id = 50, rt_access_mode = ''LICENSED'',
       rt_allow_acquire = True, rt_allow_ai_analysis = False, rt_allow_transform = True,
       rt_allow_public_redistribution = False, rt_allowed_provider_profiles = [], rt_expires_at = Some 90,
       rt_evidence_ref = None, rt_state = ''ACTIVE'', rt_version = 1 \<rparr>]\<rparr>"

definition sample_runtime :: plugin_runtime where
  "sample_runtime = \<lparr> rt_invoke = \<lambda>_. Inr ''{}'', rt_finished = \<lambda>_. 10 \<rparr>"

definition invoke_sample :: authorized_command where
  "invoke_sample = member_command ''plugin.invoke'' ''k'' [(''plugin_id'', JStr ''a''), (''handler'', JStr ''h''),
     (''grant_id'', JStr ''3''), (''input_ref'', ser_artifact_ref package_ref)]"

abbreviation sample_scope :: "active_grant \<Rightarrow> invocation_scope" where
  "sample_scope g \<equiv> \<lparr> iv_installation = hd (tb_installations enabled_db), iv_manifest = pure_manifest,
     iv_handler = pure_handler, iv_grant_text = ''3'', iv_grant = g, iv_input_ref = package_ref, iv_input_id = 20,
     iv_effective = [''run.start''] \<rparr>"

lemma invocation_db_inv: "registry_inv invocation_db"
proof -
  have "stored_manifest invocation_db 1 ''a'' zero_digest = Inr pure_manifest"
    "\<not> plugin_revoked invocation_db 1 ''a'' zero_digest" by code_simp+
  then show ?thesis
    by (simp add: registry_inv_def unique_key_def installation_sound_def capabilities_requested_def installed_row_def
        sample_manifest_def pure_manifest_def zero_digest_def enabled_db_def invocation_db_def)
qed

lemma sample_scope:
  "\<exists>g. invocation_scope_of registry_sample 9 invocation_db 1 invoke_sample = Inr (sample_scope g) \<and> ag_id g = 3"
proof -
  have "map_sum (\<lambda>e. ()) (\<lambda>i. (i = sample_scope (iv_grant i), ag_id (iv_grant i)))
      (invocation_scope_of registry_sample 9 invocation_db 1 invoke_sample) = Inr (True, 3)" by code_simp
  then show ?thesis
    by (cases "invocation_scope_of registry_sample 9 invocation_db 1 invoke_sample") (auto intro: exI)
qed

lemma invocation_load:
  assumes "9 \<le> n"
  shows "load_artifact_ref (rg_env registry_sample) invocation_db member_actor package_ref n = Inr ''{}''"
proof -
  have "load_artifact_ref (rg_env registry_sample) invocation_db member_actor package_ref 9 = Inr ''{}''" by code_simp
  from load_artifact_ref_mono [OF this assms] show ?thesis by (simp add: registry_sample_def)
qed

lemma invocation_package:
  assumes "9 \<le> n"
  shows "package_artifact registry_sample invocation_db member_actor zero_digest n = Inr package_ref"
proof -
  have b: "ce_get_bounded (rg_env registry_sample) key n = ce_get_bounded (rg_env registry_sample) key 9" for key
    by (simp add: registry_sample_def)
  have "package_artifact registry_sample invocation_db member_actor zero_digest 9 = Inr package_ref" by code_simp
  from package_artifact_mono [OF this assms b] show ?thesis .
qed

lemma invocation_verified: "verify_publisher_and_package registry_sample invocation_db member_actor pure_manifest = Inr ()"
proof -
  have facts: "trusted_signature invocation_db 1 ''s'' = Some (hd (tb_signatures enabled_db), hd (tb_publisher_keys enabled_db))"
    "verify_signature (rg_pf registry_sample) (rg_trust registry_sample) pure_manifest
      (pk_public_key (hd (tb_publisher_keys enabled_db))) (sn_signature (hd (tb_signatures enabled_db))) = Inr ()"
    "manifest_digest (rg_pf registry_sample) pure_manifest = Inr zero_digest"
    "parse_uuid (rg_pf registry_sample) (ca_tenant_id member_actor) = Inr 1"
    "\<not> plugin_revoked invocation_db 1 ''a'' zero_digest"
    "sn_publisher_id (hd (tb_signatures enabled_db)) = ''p''"
    "sn_artifact_digest (hd (tb_signatures enabled_db)) = zero_digest"
    "sn_manifest_digest (hd (tb_signatures enabled_db)) = zero_digest"
    "pl_id pure_manifest = ''a''" "pl_artifact_digest pure_manifest = zero_digest" "pl_sbom_digest pure_manifest = zero_digest"
    "pl_signature_ref pure_manifest = ''s''" "pl_publisher_id pure_manifest = ''p''"
    "pl_execution_class pure_manifest = WasmComponent" by code_simp+
  have "9 \<le> MAX_PACKAGE_BYTES" "9 \<le> MAX_COMMAND_BYTES" unfolding MAX_PACKAGE_BYTES_def MAX_COMMAND_BYTES_def by simp_all
  then show ?thesis by (simp add: verify_publisher_and_package_def facts invocation_package)
qed

lemma sample_instance:
  "2 \<le> n \<Longrightarrow> validate_bytes (rg_schema registry_sample) (\<lambda>_. None) ''{}'' n = Inr ()"
  "canonical_instance registry_sample e ''{}'' = Inr ''{}''"
  by (simp_all add: validate_bytes_def canonical_instance_def registry_sample_def strict_json_def)

lemma sample_prepared:
  "\<exists>call. prepare_invocation registry_sample 77 invocation_db member_actor (sample_scope g) = Inr (call, \<lambda>_. None)"
proof -
  have le: "9 \<le> MAX_PACKAGE_BYTES" "9 \<le> MAX_IO_BYTES" "2 \<le> MAX_IO_BYTES" "(9 :: nat) \<le> 262144"
    unfolding MAX_PACKAGE_BYTES_def MAX_IO_BYTES_def by simp_all
  have refs: "pl_artifact_digest pure_manifest = zero_digest" "hc_input_schema_ref pure_handler = package_ref"
    "hc_output_schema_ref pure_handler = package_ref" by code_simp+
  have schema: "load_schema registry_sample ''{}'' = Inr (\<lambda>_. None)"
    using sample_schema by (auto simp: load_schema_def)
  show ?thesis
    unfolding prepare_invocation_def
    by (simp add: refs invocation_verified invocation_package [OF le(1)] invocation_load [OF le(1)]
        invocation_load [OF le(2)] invocation_load [OF le(4)] schema sample_instance(1) [OF le(3)] sample_instance(2)
        del: One_nat_def)
qed

definition sample_ids :: "nat \<Rightarrow> uuid" where
  "sample_ids n = (if n = 0 then 77 else if n = 1 then 78 else 79)"


end
