(* ===== verification/Utf8.thy ===== *)
theory Utf8
  imports Kernel_Runtime
begin

text \<open>
  \<open>std::str::from_utf8\<close> and the streaming validator \<open>Utf8Stream\<close> of
  \<open>platform-plugins/data-postgres/src/artifact_commands.rs\<close>. The result of the standard function
  is written out with its two ways to fail: a sequence that is wrong, and input that ends inside a
  sequence (\<open>error_len\<close> is \<open>None\<close>). The theorem: feeding a text in pieces of any size accepts
  exactly what checking it whole accepts.
\<close>

section \<open>The standard validator\<close>

datatype utf8_step = Utf8_Char nat | Utf8_Bad nat | Utf8_Incomplete

definition continuation :: "char \<Rightarrow> bool" where
  "continuation c \<longleftrightarrow> 128 \<le> byte c \<and> byte c < 192"

definition second_byte_ok :: "char \<Rightarrow> char \<Rightarrow> bool" where
  "second_byte_ok a b \<longleftrightarrow>
     (if byte a = 224 then 160 \<le> byte b \<and> byte b < 192
      else if byte a = 237 then 128 \<le> byte b \<and> byte b < 160
      else if byte a = 240 then 144 \<le> byte b \<and> byte b < 192
      else if byte a = 244 then 128 \<le> byte b \<and> byte b < 144
      else continuation b)"

text \<open>The number of bytes of a sequence by its first byte; 0 for a byte that starts none.\<close>

definition utf8_width :: "char \<Rightarrow> nat" where
  "utf8_width a =
     (if byte a < 128 then 1
      else if 194 \<le> byte a \<and> byte a < 224 then 2
      else if 224 \<le> byte a \<and> byte a < 240 then 3
      else if 240 \<le> byte a \<and> byte a < 245 then 4
      else 0)"

definition utf8_next :: "string \<Rightarrow> utf8_step" where
  "utf8_next s =
     (case s of
        [] \<Rightarrow> Utf8_Incomplete
      | a # t \<Rightarrow>
          if utf8_width a = 0 then Utf8_Bad 1
          else if utf8_width a = 1 then Utf8_Char 1
          else case t of
            [] \<Rightarrow> Utf8_Incomplete
          | b # u \<Rightarrow>
              if \<not> second_byte_ok a b then Utf8_Bad 1
              else if utf8_width a = 2 then Utf8_Char 2
              else case u of
                [] \<Rightarrow> Utf8_Incomplete
              | c # v \<Rightarrow>
                  if \<not> continuation c then Utf8_Bad 2
                  else if utf8_width a = 3 then Utf8_Char 3
                  else case v of
                    [] \<Rightarrow> Utf8_Incomplete
                  | d # _ \<Rightarrow> if \<not> continuation d then Utf8_Bad 3 else Utf8_Char 4)"

text \<open>\<open>Utf8Error\<close>: the length of the valid prefix and \<open>error_len\<close>.\<close>

record utf8_error =
  ue_valid_up_to :: nat
  ue_error_len :: "nat option"

function from_utf8_at :: "nat \<Rightarrow> string \<Rightarrow> utf8_error option" where
  "from_utf8_at k s =
     (if s = [] then None
      else case utf8_next s of
        Utf8_Char n \<Rightarrow> from_utf8_at (k + n) (drop (max n 1) s)
      | Utf8_Bad n \<Rightarrow> Some \<lparr> ue_valid_up_to = k, ue_error_len = Some n \<rparr>
      | Utf8_Incomplete \<Rightarrow> Some \<lparr> ue_valid_up_to = k, ue_error_len = None \<rparr>)"
  by pat_completeness auto
termination
  by (relation "measure (length \<circ> snd)") auto

declare from_utf8_at.simps [simp del]

definition from_utf8 :: "string \<Rightarrow> utf8_error option" where
  "from_utf8 s = from_utf8_at 0 s"

definition utf8_valid :: "string \<Rightarrow> bool" where
  "utf8_valid s \<longleftrightarrow> from_utf8 s = None"

section \<open>The streaming validator\<close>

definition mime_mismatch :: command_failure where
  "mime_mismatch = precondition ''ARTIFACT_MIME_MISMATCH''"

definition utf8_push :: "string \<Rightarrow> string \<Rightarrow> string outcome" where
  "utf8_push carry bytes =
     (if char_of (0 :: nat) \<in> set bytes then Inl mime_mismatch
      else let carry' = carry @ bytes in
        case from_utf8 carry' of
          None \<Rightarrow> Inr []
        | Some e \<Rightarrow>
            if ue_error_len e = None then
              (let rest = drop (ue_valid_up_to e) carry' in
               if 3 < length rest then Inl mime_mismatch else Inr rest)
            else Inl mime_mismatch)"

definition utf8_finish :: "string \<Rightarrow> unit outcome" where
  "utf8_finish carry = (if carry = [] then Inr () else Inl mime_mismatch)"

definition utf8_stream :: "string list \<Rightarrow> unit outcome" where
  "utf8_stream chunks = rbind (rfold (\<lambda>bytes carry. utf8_push carry bytes) chunks []) utf8_finish"

section \<open>Pieces and the whole\<close>

text \<open>
  The standard function as an automaton: the valid text read so far does not matter, only the
  unfinished sequence at its end does. An unfinished sequence is decided by what follows.
\<close>

lemma utf8_next_width: "utf8_next s = Utf8_Char n \<Longrightarrow> 1 \<le> n \<and> n \<le> length s"
  by (auto simp: utf8_next_def split: list.splits if_splits)

lemma utf8_next_append:
  "utf8_next s = Utf8_Char n \<Longrightarrow> utf8_next (s @ t) = Utf8_Char n"
  "utf8_next s = Utf8_Bad n \<Longrightarrow> utf8_next (s @ t) = Utf8_Bad n"
  by (auto simp: utf8_next_def split: list.splits if_splits)

lemma utf8_next_take:
  assumes "utf8_next s = Utf8_Char n"
  shows "utf8_next (take n s) = Utf8_Char n"
proof -
  from assms have "n = 1 \<or> n = 2 \<or> n = 3 \<or> n = 4" and "n \<le> length s"
    by (auto simp: utf8_next_def split: list.splits if_splits)
  then consider a t where "n = 1" "s = a # t" | a b t where "n = 2" "s = a # b # t"
    | a b c t where "n = 3" "s = a # b # c # t" | a b c d t where "n = 4" "s = a # b # c # d # t"
    by (cases s; cases "tl s"; cases "tl (tl s)"; cases "tl (tl (tl s))") auto
  then show ?thesis
    using assms by cases (simp_all add: utf8_next_def split: if_splits list.splits)
qed

lemma utf8_next_incomplete: "utf8_next s = Utf8_Incomplete \<Longrightarrow> length s \<le> 3"
  by (auto simp: utf8_next_def split: list.splits if_splits)

lemma from_utf8_at_simps [simp]:
  "from_utf8_at k [] = None"
  "s \<noteq> [] \<Longrightarrow> utf8_next s = Utf8_Char n \<Longrightarrow> from_utf8_at k s = from_utf8_at (k + n) (drop n s)"
  "s \<noteq> [] \<Longrightarrow> utf8_next s = Utf8_Bad n \<Longrightarrow> from_utf8_at k s = Some \<lparr> ue_valid_up_to = k, ue_error_len = Some n \<rparr>"
  "s \<noteq> [] \<Longrightarrow> utf8_next s = Utf8_Incomplete \<Longrightarrow> from_utf8_at k s = Some \<lparr> ue_valid_up_to = k, ue_error_len = None \<rparr>"
  using utf8_next_width [of s n] by (subst from_utf8_at.simps; simp add: max_def)+

lemma from_utf8_at_shift:
  "from_utf8_at (j + k) s = map_option (\<lambda>e. e\<lparr>ue_valid_up_to := j + ue_valid_up_to e\<rparr>) (from_utf8_at k s)"
proof (induction k s rule: from_utf8_at.induct)
  case (1 k s)
  show ?case
  proof (cases "s = []")
    case False
    show ?thesis
    proof (cases "utf8_next s")
      case (Utf8_Char n)
      then have "max n 1 = n" using utf8_next_width [OF Utf8_Char] by simp
      with 1 [OF False Utf8_Char] False Utf8_Char show ?thesis by (simp add: add.assoc)
    qed (use False in simp_all)
  qed simp
qed


lemma utf8_valid_at: "utf8_valid s \<longleftrightarrow> from_utf8_at k s = None"
  using from_utf8_at_shift [of k 0 s] by (simp add: utf8_valid_def from_utf8_def)

lemma from_utf8_append_valid:
  "from_utf8_at k s = None \<Longrightarrow> from_utf8_at k (s @ t) = from_utf8_at (k + length s) t"
proof (induction k s rule: from_utf8_at.induct)
  case (1 k s)
  show ?case
  proof (cases "s = []")
    case False
    show ?thesis
    proof (cases "utf8_next s")
      case (Utf8_Char n)
      note w = utf8_next_width [OF Utf8_Char]
      then have m: "max n 1 = n" by simp
      from Utf8_Char False "1.prems" have "from_utf8_at (k + n) (drop n s) = None" by simp
      with 1(1) [OF False Utf8_Char] m
      have "from_utf8_at (k + n) (drop n s @ t) = from_utf8_at (k + n + length (drop n s)) t" by simp
      with utf8_next_append(1) [OF Utf8_Char, of t] False w show ?thesis by simp
    qed (use False "1.prems" in simp_all)
  qed simp
qed

lemma from_utf8_append_bad:
  "from_utf8_at k s = Some e \<Longrightarrow> ue_error_len e = Some n \<Longrightarrow> from_utf8_at k (s @ t) = Some e"
proof (induction k s rule: from_utf8_at.induct)
  case (1 k s)
  then have False: "s \<noteq> []" by auto
  show ?case
  proof (cases "utf8_next s")
    case (Utf8_Char m)
    then have "max m 1 = m" using utf8_next_width [OF Utf8_Char] by simp
    with 1(1) [OF False Utf8_Char] False "1.prems" Utf8_Char utf8_next_append(1) [OF Utf8_Char, of t]
      utf8_next_width [OF Utf8_Char]
    show ?thesis by simp
  next
    case (Utf8_Bad m)
    with False "1.prems" utf8_next_append(2) [OF Utf8_Bad, of t] show ?thesis by simp
  qed (use False "1.prems" in auto)
qed

text \<open>An open end: the text is valid up to an unfinished sequence.\<close>

lemma from_utf8_open:
  "from_utf8_at k s = Some e \<Longrightarrow> ue_error_len e = None \<Longrightarrow>
     \<exists>v rest. s = v @ rest \<and> ue_valid_up_to e = k + length v \<and> from_utf8_at k v = None
       \<and> rest \<noteq> [] \<and> utf8_next rest = Utf8_Incomplete"
proof (induction k s rule: from_utf8_at.induct)
  case (1 k s)
  then have ne: "s \<noteq> []" by auto
  show ?case
  proof (cases "utf8_next s")
    case (Utf8_Char n)
    note w = utf8_next_width [OF Utf8_Char]
    then have "max n 1 = n" by simp
    with 1(1) [OF ne Utf8_Char] ne "1.prems" Utf8_Char obtain v rest where
      v: "drop n s = v @ rest" "ue_valid_up_to e = k + n + length v" "from_utf8_at (k + n) v = None"
      "rest \<noteq> []" "utf8_next rest = Utf8_Incomplete" by auto
    have s: "s = (take n s @ v) @ rest" using v(1) by (metis append.assoc append_take_drop_id)
    moreover have "from_utf8_at k (take n s @ v) = None"
    proof -
      from w have len: "length (take n s) = n" by simp
      from utf8_next_append(1) [OF utf8_next_take [OF Utf8_Char], of v] w len v(3) ne show ?thesis
        by (simp del: append_take_drop_id)
    qed
    ultimately show ?thesis using v(2,4,5) w by (intro exI [of _ "take n s @ v"] exI [of _ rest]) simp
  next
    case Utf8_Incomplete
    with ne "1.prems" show ?thesis by (intro exI [of _ "[]"] exI [of _ s]) auto
  qed (use ne "1.prems" in auto)
qed

definition open_end :: "string \<Rightarrow> bool" where
  "open_end c \<longleftrightarrow> c = [] \<or> utf8_next c = Utf8_Incomplete"

lemma open_end_valid: "open_end c \<Longrightarrow> utf8_valid c \<longleftrightarrow> c = []"
  by (cases "c = []") (auto simp: open_end_def utf8_valid_at [of _ 0])

lemma utf8_push_cases:
  assumes "char_of (0 :: nat) \<notin> set bytes"
  obtains (bad) "\<not> is_ok (utf8_push carry bytes)" "\<And>t. \<not> utf8_valid (carry @ bytes @ t)"
  | (ok) rest where "utf8_push carry bytes = Inr rest" "open_end rest"
      "\<And>t. utf8_valid (carry @ bytes @ t) \<longleftrightarrow> utf8_valid (rest @ t)"
proof (cases "from_utf8_at 0 (carry @ bytes)")
  case None
  show thesis
  proof (rule ok [of "[]"])
    show "utf8_push carry bytes = Inr []" using None assms by (simp add: utf8_push_def from_utf8_def)
    show "utf8_valid (carry @ bytes @ t) \<longleftrightarrow> utf8_valid ([] @ t)" for t
      using from_utf8_append_valid [OF None, of t]
      by (simp add: utf8_valid_at [of "carry @ bytes @ t" 0] utf8_valid_at [of t "length (carry @ bytes)"])
  qed (simp add: open_end_def)
next
  case (Some e)
  show thesis
  proof (cases "ue_error_len e")
    case None
    from from_utf8_open [OF Some None] obtain v rest where
      v: "carry @ bytes = v @ rest" "ue_valid_up_to e = length v" "from_utf8_at 0 v = None"
      "rest \<noteq> []" "utf8_next rest = Utf8_Incomplete" by auto
    show thesis
    proof (rule ok [of rest])
      from utf8_next_incomplete [OF v(5)] have "length rest \<le> 3" .
      then show "utf8_push carry bytes = Inr rest"
        using Some None assms v(1,2) by (simp add: utf8_push_def from_utf8_def Let_def)
      show "open_end rest" using v(5) by (simp add: open_end_def)
      show "utf8_valid (carry @ bytes @ t) \<longleftrightarrow> utf8_valid (rest @ t)" for t
        using from_utf8_append_valid [OF v(3), of "rest @ t"] v(1)
        by (metis append.assoc utf8_valid_at)
    qed
  next
    case (Some n)
    note bad_len = Some
    show thesis
    proof (rule bad)
      show "\<not> is_ok (utf8_push carry bytes)"
        using \<open>from_utf8_at 0 (carry @ bytes) = Some e\<close> Some assms
        by (simp add: utf8_push_def from_utf8_def Let_def)
      show "\<not> utf8_valid (carry @ bytes @ t)" for t
        using from_utf8_append_bad [OF \<open>from_utf8_at 0 (carry @ bytes) = Some e\<close> bad_len, of t]
        by (simp add: utf8_valid_at [of _ 0])
    qed
  qed
qed

lemma utf8_stream_from:
  "open_end carry \<Longrightarrow>
     is_ok (rbind (rfold (\<lambda>bytes carry. utf8_push carry bytes) chunks carry) utf8_finish)
     \<longleftrightarrow> char_of (0 :: nat) \<notin> set (concat chunks) \<and> utf8_valid (carry @ concat chunks)"
proof (induction chunks arbitrary: carry)
  case Nil
  then show ?case by (simp add: utf8_finish_def open_end_valid)
next
  case (Cons bytes chunks)
  show ?case
  proof (cases "char_of (0 :: nat) \<in> set bytes")
    case True
    then show ?thesis by (simp add: utf8_push_def)
  next
    case False
    then show ?thesis
    proof (cases rule: utf8_push_cases [of bytes carry])
      case bad
      then have "is_ok (utf8_push carry bytes) = False" "utf8_valid (carry @ bytes @ concat chunks) = False"
        by simp_all
      then show ?thesis by (cases "utf8_push carry bytes") simp_all
    next
      case (ok rest)
      with Cons.IH [OF ok(2)] False show ?thesis by simp
    qed
  qed
qed

text \<open>
  C39: the streaming check of uploaded text does not depend on how the bytes arrive. Whatever pieces
  the upload is read in, the stream is accepted exactly when the whole text is valid UTF-8 and has
  no NUL byte.
\<close>

theorem utf8_stream_is_chunk_independent:
  "is_ok (utf8_stream chunks) \<longleftrightarrow> utf8_valid (concat chunks) \<and> char_of (0 :: nat) \<notin> set (concat chunks)"
  using utf8_stream_from [of "[]" chunks] by (auto simp: utf8_stream_def open_end_def)

end
