(* ===== verification/Membership.thy ===== *)
theory Membership
  imports Administration Utf8
begin

text \<open>
  Memberships, invitations and the proposals of the identity component
  (\<open>platform-plugins/data-postgres/src/identity_commands.rs\<close>, tables of
  \<open>infra/migrations/0005_identity_commands.sql\<close>). HMAC-SHA256, base64 and the range of
  \<open>DateTime::from_timestamp\<close> are third-party code and parameters of the invitation token. The first part holds the operations, the second what they
  keep: a tenant never loses its last owner, nobody hands out a role they lack, an invitation is
  used once.
\<close>

section \<open>Invitation tokens\<close>

record token_codec =
  tc_hmac :: "string \<Rightarrow> string \<Rightarrow> string"
  tc_encode :: "string \<Rightarrow> string"
  tc_decode :: "string \<Rightarrow> string option"
  tc_in_range :: "int \<Rightarrow> bool"

definition INVITE_TOKEN_VERSION :: string where
  "INVITE_TOKEN_VERSION = ''mwiv1''"

definition INVITE_TTL :: timestamp where
  "INVITE_TTL = seconds 3600"

definition MAX_POLICY_BYTES :: nat where
  "MAX_POLICY_BYTES = 1048576"

definition ALLOWED_ROLES :: "string list" where
  "ALLOWED_ROLES = [''OWNER'', ''EDITOR'', ''REVIEWER'', ''PUBLISHER'', ''VIEWER'', ''SERVICE'', ''SUPPORT'']"

definition invite_key_from_bytes :: "string \<Rightarrow> string outcome" where
  "invite_key_from_bytes bytes =
     (if \<not> (32 \<le> length bytes \<and> length bytes \<le> 128) then Inl (invalid ''INVITE_TOKEN_KEY_INVALID'')
      else Inr bytes)"

text \<open>Big-endian bytes: \<open>Uuid::as_bytes\<close> and \<open>i64::to_be_bytes\<close>.\<close>

definition be_bytes :: "nat \<Rightarrow> int \<Rightarrow> string" where
  "be_bytes w n = map (\<lambda>i. char_of (nat (n div 256 ^ (w - 1 - i) mod 256))) [0..<w]"

definition uuid_bytes :: "uuid \<Rightarrow> string" where
  "uuid_bytes u = be_bytes 16 (uint u)"

definition i64_bytes :: "int \<Rightarrow> string" where
  "i64_bytes n = be_bytes 8 (n mod 18446744073709551616)"

definition invite_mac :: "token_codec \<Rightarrow> string \<Rightarrow> uuid \<Rightarrow> uuid \<Rightarrow> int \<Rightarrow> string" where
  "invite_mac tc key invite_id tenant_id expires_unix =
     tc_hmac tc key (INVITE_TOKEN_VERSION @ [char_of (0 :: nat)] @ uuid_bytes invite_id @ uuid_bytes tenant_id
       @ i64_bytes expires_unix)"

text \<open>\<open>DateTime::timestamp\<close>: whole seconds, rounded down.\<close>

definition unix_seconds :: "timestamp \<Rightarrow> int" where
  "unix_seconds t = t div 1000000"

definition show_int :: "int \<Rightarrow> string" where
  "show_int n = (if n < 0 then CHR ''-'' # decimal (nat (- n)) else decimal (nat n))"

definition derive_token :: "platform \<Rightarrow> token_codec \<Rightarrow> string \<Rightarrow> uuid \<Rightarrow> uuid \<Rightarrow> timestamp \<Rightarrow> string" where
  "derive_token pf tc key invite_id tenant_id expires_at =
     (let expires_unix = unix_seconds expires_at in
      INVITE_TOKEN_VERSION @ ''.'' @ pf_uuid_show pf invite_id @ ''.'' @ pf_uuid_show pf tenant_id @ ''.'' @
      show_int expires_unix @ ''.'' @ tc_encode tc (invite_mac tc key invite_id tenant_id expires_unix))"

fun has_whitespace :: "string \<Rightarrow> bool" where
  "has_whitespace [] = False"
| "has_whitespace (c # s) \<longleftrightarrow> ws_prefix (c # s) \<noteq> 0 \<or> has_whitespace s"

text \<open>\<open>str::parse::<i64>\<close>: an optional sign, then digits, in range.\<close>

definition parse_i64 :: "string \<Rightarrow> int option" where
  "parse_i64 s =
     (let (neg, digits) = (case s of [] \<Rightarrow> (False, [])
         | c # t \<Rightarrow> if c = CHR ''-'' then (True, t) else if c = CHR ''+'' then (False, t) else (False, s)) in
      if digits = [] \<or> \<not> list_all is_ascii_digit digits then None
      else checked_i64 (if neg then - int (decimal_value digits) else int (decimal_value digits)))"

record invite_claims =
  ix_invite_id :: uuid
  ix_tenant_id :: uuid
  ix_expires_at :: timestamp

definition verify_token :: "platform \<Rightarrow> token_codec \<Rightarrow> string \<Rightarrow> string \<Rightarrow> invite_claims outcome" where
  "verify_token pf tc key raw =
     (let bad = denied ''INVITE_TOKEN_INVALID'' in
      if 256 < length raw \<or> has_whitespace raw then Inl bad
      else case split_on (CHR ''.'') raw of
        [v, i, t, e, g] \<Rightarrow>
          if v \<noteq> INVITE_TOKEN_VERSION then Inl bad
          else
          rbind (ok_or bad (pf_uuid_parse pf i)) (\<lambda>invite_id.
          rbind (ok_or bad (pf_uuid_parse pf t)) (\<lambda>tenant_id.
          rbind (ok_or bad (parse_i64 e)) (\<lambda>expires_unix.
          rbind (ok_or bad (tc_decode tc g)) (\<lambda>signature.
          if signature \<noteq> invite_mac tc key invite_id tenant_id expires_unix then Inl bad
          else if \<not> tc_in_range tc expires_unix then Inl bad
          else Inr \<lparr> ix_invite_id = invite_id, ix_tenant_id = tenant_id,
                     ix_expires_at = expires_unix * 1000000 \<rparr>))))
      | _ \<Rightarrow> Inl bad)"

section \<open>Roles and addresses\<close>

definition normalize_roles :: "string list \<Rightarrow> string list outcome" where
  "normalize_roles roles =
     (let bad = invalid ''MEMBERSHIP_ROLES_INVALID'' in
      if roles = [] \<or> 10 < length roles then Inl bad
      else if list_ex (\<lambda>role. role \<notin> set ALLOWED_ROLES) roles then Inl bad
      else let normal = remdups_adj (sort roles) in
        if length normal \<noteq> length roles then Inl bad else Inr normal)"

definition canonical_primary_role :: "string list \<Rightarrow> string outcome" where
  "canonical_primary_role roles =
     (case roles of [] \<Rightarrow> Inl (invalid ''MEMBERSHIP_ROLES_INVALID'') | role # _ \<Rightarrow> Inr role)"

definition to_ascii_lowercase :: "string \<Rightarrow> string" where
  "to_ascii_lowercase s =
     map (\<lambda>c. if 65 \<le> byte c \<and> byte c \<le> 90 then char_of (byte c + 32) else c) s"

definition normalize_email :: "string \<Rightarrow> string outcome" where
  "normalize_email email =
     (let normalized = to_ascii_lowercase (trim email) in
      if \<not> (3 \<le> length normalized \<and> length normalized \<le> 320) \<or> has_whitespace normalized
         \<or> CHR ''@'' \<notin> set normalized
      then Inl (invalid ''INVITE_EMAIL_INVALID'') else Inr normalized)"

definition membership_projection_value ::
    "platform \<Rightarrow> uuid \<Rightarrow> uuid \<Rightarrow> uuid \<Rightarrow> string list \<Rightarrow> string \<Rightarrow> int \<Rightarrow> json" where
  "membership_projection_value pf membership_id tenant_id principal_id roles state version =
     JObj [(''membership_id'', ser_uuid pf membership_id), (''tenant_id'', ser_uuid pf tenant_id),
           (''principal_id'', ser_uuid pf principal_id), (''roles'', JArr (map JStr roles)),
           (''state'', JStr state), (''version'', JNum version)]"

section \<open>Queries\<close>

abbreviation membership_key :: "membership_row \<Rightarrow> uuid \<times> uuid" where
  "membership_key m \<equiv> (me_tenant m, me_membership_id m)"

abbreviation role_key :: "membership_role_row \<Rightarrow> uuid \<times> uuid \<times> string" where
  "role_key r \<equiv> (mr_tenant r, mr_membership_id r, mr_role r)"

definition has_role_row :: "database \<Rightarrow> uuid \<Rightarrow> uuid \<Rightarrow> string \<Rightarrow> bool" where
  "has_role_row s tenant membership_id role =
     list_ex (\<lambda>r. role_key r = (tenant, membership_id, role)) (tb_membership_roles s)"

definition actor_membership_roles :: "platform \<Rightarrow> database \<Rightarrow> command_actor \<Rightarrow> string list outcome" where
  "actor_membership_roles pf s actor =
     rbind (parse_uuid pf (ca_tenant_id actor)) (\<lambda>tenant.
     rbind (parse_uuid pf (ca_principal_id actor)) (\<lambda>who.
     let roles = sort (concat (map (\<lambda>m. map mr_role (filter (\<lambda>r. mr_tenant r = me_tenant m
                        \<and> mr_membership_id r = me_membership_id m) (tb_membership_roles s)))
                   (filter (\<lambda>m. me_tenant m = tenant \<and> me_principal_id m = who \<and> me_status m = ''ACTIVE'')
                     (tb_memberships s))))
     in if roles = [] then Inl (denied ''AUTHORITY_CHANGED'') else Inr roles))"

definition require_assignable_roles ::
    "platform \<Rightarrow> database \<Rightarrow> command_actor \<Rightarrow> string list \<Rightarrow> unit outcome" where
  "require_assignable_roles pf s actor requested =
     rbind (actor_membership_roles pf s actor) (\<lambda>actor_roles.
     if ''OWNER'' \<in> set actor_roles then Inr ()
     else if ''OWNER'' \<in> set requested \<or> list_ex (\<lambda>role. role \<notin> set actor_roles) requested
     then Inl (denied ''MEMBERSHIP_ROLE_ESCALATION'') else Inr ())"

definition require_actor_can_manage_owner ::
    "platform \<Rightarrow> database \<Rightarrow> command_actor \<Rightarrow> bool \<Rightarrow> unit outcome" where
  "require_actor_can_manage_owner pf s actor target_is_owner =
     (if \<not> target_is_owner then Inr ()
      else rbind (actor_membership_roles pf s actor) (\<lambda>roles.
        if ''OWNER'' \<notin> set roles then Inl (denied ''MEMBERSHIP_OWNER_MANAGEMENT_DENIED'') else Inr ()))"

definition membership_roles :: "database \<Rightarrow> uuid \<Rightarrow> uuid \<Rightarrow> string list outcome" where
  "membership_roles s tenant membership_id =
     (let roles = sort (map mr_role (filter (\<lambda>r. mr_tenant r = tenant \<and> mr_membership_id r = membership_id)
                    (tb_membership_roles s)))
      in if roles = [] then Inl (unavailable ''MEMBERSHIP_ROLE_INTEGRITY'') else Inr roles)"

text \<open>The owners of a tenant: active memberships with the role.\<close>

definition owners :: "database \<Rightarrow> uuid \<Rightarrow> membership_row list" where
  "owners s tenant = filter (\<lambda>m. me_tenant m = tenant \<and> me_status m = ''ACTIVE''
     \<and> has_role_row s (me_tenant m) (me_membership_id m) ''OWNER'') (tb_memberships s)"

definition ensure_not_last_owner :: "database \<Rightarrow> uuid \<Rightarrow> unit outcome" where
  "ensure_not_last_owner s tenant =
     (if length (owners s tenant) \<le> 1 then Inl (conflict ''LAST_OWNER'') else Inr ())"

section \<open>Statements\<close>

definition membership_ok :: "membership_row \<Rightarrow> bool" where
  "membership_ok m \<longleftrightarrow> me_role m \<in> set ALLOWED_ROLES \<and> me_status m \<in> {''INVITED'', ''ACTIVE'', ''REVOKED''}
     \<and> 0 < me_membership_epoch m \<and> 0 < me_permission_epoch m \<and> 0 < me_version m"

definition membership_fits :: "membership_row \<Rightarrow> bool" where
  "membership_fits m \<longleftrightarrow> in_i64 (me_membership_epoch m) \<and> in_i64 (me_permission_epoch m) \<and> in_i32 (me_version m)"

text \<open>
  The trigger \<open>memberships_bump_authority_epochs\<close> of \<open>0002_identity_runtime.sql\<close>: a changed role
  or status always gets new epochs.
\<close>

definition bump_membership_epochs :: "membership_row \<Rightarrow> membership_row \<Rightarrow> membership_row" where
  "bump_membership_epochs old new =
     (if me_role new \<noteq> me_role old \<or> me_status new \<noteq> me_status old
      then new\<lparr>me_membership_epoch := max (me_membership_epoch new) (me_membership_epoch old + 1),
               me_permission_epoch := max (me_permission_epoch new) (me_permission_epoch old + 1)\<rparr>
      else new)"

definition update_membership ::
    "uuid \<times> uuid \<Rightarrow> (membership_row \<Rightarrow> membership_row) \<Rightarrow> database \<Rightarrow> database outcome" where
  "update_membership k f s =
     rbind (sql (update_rows (\<lambda>m. membership_key m = k) (\<lambda>m. bump_membership_epochs m (f m))
              membership_fits membership_ok (tb_memberships s)))
       (\<lambda>t. Inr (s\<lparr>tb_memberships := t\<rparr>))"

definition insert_role :: "uuid \<Rightarrow> uuid \<Rightarrow> string \<Rightarrow> database \<Rightarrow> database outcome" where
  "insert_role tenant membership_id role s =
     rbind (sql (insert_row (\<lambda>r. mr_role r \<in> set ALLOWED_ROLES) (\<lambda>r r'. role_key r' = role_key r)
              (row_at membership_key (tenant, membership_id) (tb_memberships s) \<noteq> None)
              \<lparr> mr_tenant = tenant, mr_membership_id = membership_id, mr_role = role \<rparr>
              (tb_membership_roles s)))
       (\<lambda>t. Inr (s\<lparr>tb_membership_roles := t\<rparr>))"

definition insert_roles :: "uuid \<Rightarrow> uuid \<Rightarrow> string list \<Rightarrow> database \<Rightarrow> database outcome" where
  "insert_roles tenant membership_id roles s = rfold (insert_role tenant membership_id) roles s"

definition delete_roles :: "uuid \<Rightarrow> uuid \<Rightarrow> database \<Rightarrow> database" where
  "delete_roles tenant membership_id s =
     s\<lparr>tb_membership_roles := filter (\<lambda>r. \<not> (mr_tenant r = tenant \<and> mr_membership_id r = membership_id))
         (tb_membership_roles s)\<rparr>"

section \<open>Invitations\<close>

abbreviation invite_row_key :: "invite_row \<Rightarrow> uuid \<times> uuid" where
  "invite_row_key i \<equiv> (mi_tenant i, mi_invite_id i)"

definition invite_ok :: "invite_row \<Rightarrow> bool" where
  "invite_ok i \<longleftrightarrow> 3 \<le> char_length (mi_email i) \<and> char_length (mi_email i) \<le> 320
     \<and> 1 \<le> length (mi_roles i) \<and> length (mi_roles i) \<le> 10 \<and> set (mi_roles i) \<subseteq> set ALLOWED_ROLES
     \<and> is_ok (digest_parse (mi_token_digest i)) \<and> 0 < mi_version i \<and> mi_created_at i < mi_expires_at i
     \<and> ((mi_consumed_at i = None \<and> mi_consumed_by i = None \<and> mi_membership_id i = None)
        \<or> (mi_consumed_at i \<noteq> None \<and> mi_consumed_by i \<noteq> None \<and> mi_membership_id i \<noteq> None))"

text \<open>The trigger \<open>membership_invites_integrity\<close>: what an update may never change.\<close>

definition invite_update_ok :: "invite_row \<Rightarrow> invite_row \<Rightarrow> bool" where
  "invite_update_ok old new \<longleftrightarrow>
     (mi_tenant new, mi_invite_id new, mi_email new, mi_roles new, mi_expires_at new, mi_token_digest new,
      mi_created_by new, mi_created_at new)
     = (mi_tenant old, mi_invite_id old, mi_email old, mi_roles old, mi_expires_at old, mi_token_digest old,
      mi_created_by old, mi_created_at old)
     \<and> (mi_secret_retrieved_at old = None \<or> mi_secret_retrieved_at new = mi_secret_retrieved_at old)
     \<and> (mi_consumed_at old = None \<or> (mi_consumed_at new, mi_consumed_by new, mi_membership_id new)
          = (mi_consumed_at old, mi_consumed_by old, mi_membership_id old))
     \<and> mi_version old \<le> mi_version new \<and> mi_version new \<le> mi_version old + 1"

text \<open>A raised exception of a trigger is SQLSTATE P0001.\<close>

definition update_invite ::
    "uuid \<times> uuid \<Rightarrow> (invite_row \<Rightarrow> invite_row) \<Rightarrow> database \<Rightarrow> database outcome" where
  "update_invite k f s =
     rbind (sql (if list_ex (\<lambda>i. invite_row_key i = k \<and> \<not> invite_update_ok i (f i)) (tb_invites s) then Inl ''P0001''
                 else update_rows (\<lambda>i. invite_row_key i = k) f (\<lambda>i. in_i32 (mi_version i)) invite_ok (tb_invites s)))
       (\<lambda>t. Inr (s\<lparr>tb_invites := t\<rparr>))"

definition insert_invite :: "invite_row \<Rightarrow> database \<Rightarrow> database outcome" where
  "insert_invite i s =
     rbind (sql (insert_row invite_ok
              (\<lambda>i i'. invite_row_key i' = invite_row_key i \<or> mi_token_digest i' = mi_token_digest i)
              (tenant_known s (mi_tenant i)) i (tb_invites s)))
       (\<lambda>t. Inr (s\<lparr>tb_invites := t\<rparr>))"

text \<open>The database's \<open>now()\<close> default of \<open>created_at\<close> is the transaction's time.\<close>

definition invite_membership ::
    "platform \<Rightarrow> token_codec \<Rightarrow> string \<Rightarrow> uuid \<Rightarrow> timestamp \<Rightarrow> database \<Rightarrow> authorized_command
     \<Rightarrow> (mutation \<times> database) outcome" where
  "invite_membership pf tc key invite_id now s command =
     (let input = ac_input command; actor = ac_actor command in
      rbind (parse_uuid pf (ca_tenant_id actor)) (\<lambda>tenant.
      rbind (parse_uuid pf (ca_principal_id actor)) (\<lambda>who.
      rbind (rbind (field de_string input ''email'') normalize_email) (\<lambda>email.
      rbind (rbind (field (de_list de_string) input ''roles'') normalize_roles) (\<lambda>roles.
      rbind (require_assignable_roles pf s actor roles) (\<lambda>_.
      rbind (field (de_time pf) input ''expires_at'') (\<lambda>e.
      if \<not> tc_in_range tc (unix_seconds e) then Inl (invalid ''INVITE_EXPIRY_INVALID'')
      else let expires_at = unix_seconds e * 1000000 in
      if expires_at \<le> now \<or> now + INVITE_TTL < expires_at then Inl (invalid ''INVITE_EXPIRY_INVALID'')
      else let token = derive_token pf tc key invite_id tenant expires_at in
      rbind (insert_invite
               \<lparr> mi_tenant = tenant, mi_invite_id = invite_id, mi_email = email, mi_roles = roles,
                 mi_expires_at = expires_at, mi_token_digest = digest_bytes pf token, mi_created_by = who,
                 mi_secret_retrieved_at = None, mi_consumed_at = None, mi_consumed_by = None,
                 mi_membership_id = None, mi_version = 1, mi_created_at = now \<rparr> s) (\<lambda>s1.
      Inr (mutation_one pf ''MembershipInvitation'' invite_id 1
             (JObj [(''invite_id'', ser_uuid pf invite_id), (''tenant_id'', ser_uuid pf tenant),
                    (''email'', JStr email), (''roles'', JArr (map JStr roles)),
                    (''expires_at'', ser_time pf expires_at), (''state'', JStr ''PENDING''), (''version'', JNum 1)])
             ''Membership invitation'', s1)))))))))"

text \<open>The one-time retrieval of the bearer secret; it runs in a transaction of its own.\<close>

definition retrieve_membership_invite_secret ::
    "platform \<Rightarrow> token_codec \<Rightarrow> string \<Rightarrow> uuid \<times> uuid \<Rightarrow> timestamp \<Rightarrow> database \<Rightarrow> command_actor \<Rightarrow> uuid
     \<Rightarrow> (string \<times> database) outcome" where
  "retrieve_membership_invite_secret pf tc key ids now s actor invite_id =
     rbind (parse_uuid pf (ca_tenant_id actor)) (\<lambda>tenant.
     rbind (parse_uuid pf (ca_principal_id actor)) (\<lambda>who.
     rbind (begin_actor pf s actor) (\<lambda>_.
     rbind (ok_or not_found (row_at invite_row_key (tenant, invite_id) (tb_invites s))) (\<lambda>i.
     if mi_expires_at i \<le> now then Inl (failure_new ''INVITE_EXPIRED'' Expired)
     else if mi_consumed_at i \<noteq> None then Inl (conflict ''INVITE_ALREADY_USED'')
     else if mi_secret_retrieved_at i \<noteq> None then Inl (conflict ''INVITE_SECRET_ALREADY_RETRIEVED'')
     else
     rbind (actor_membership_roles pf s actor) (\<lambda>roles.
     if ''OWNER'' \<notin> set roles \<and> (''EDITOR'' \<notin> set roles \<or> mi_created_by i \<noteq> who)
     then Inl (denied ''MEMBERSHIP_INVITE_SECRET_DENIED'')
     else let token = derive_token pf tc key invite_id tenant (mi_expires_at i) in
     if mi_token_digest i \<noteq> digest_bytes pf token then Inl (unavailable ''INVITE_INTEGRITY'')
     else
     rbind (update_invite (tenant, invite_id) (\<lambda>i. i\<lparr>mi_secret_retrieved_at := Some now\<rparr>) s) (\<lambda>s1.
     rbind (insert_audit \<lparr> au_tenant = tenant, au_id = fst ids, au_principal_id = who,
              au_action = ''membership.invite.secret.retrieve'', au_resource_type = ''MembershipInvitation'',
              au_resource_id = invite_id, au_correlation_id = snd ids \<rparr> s1) (\<lambda>s2.
     Inr (token, s2))))))))"

section \<open>Acceptance\<close>

record verified_identity =
  vi_principal_id :: uuid
  vi_issuer :: string
  vi_subject :: string

record accept_command =
  bc_expected_tenant_id :: uuid
  bc_identity :: verified_identity
  bc_idempotency_key :: resource_id
  bc_fingerprint :: digest
  bc_input :: json

definition accept_receipt ::
    "command_env \<Rightarrow> timestamp \<Rightarrow> database \<Rightarrow> uuid \<Rightarrow> accept_command \<Rightarrow> command_receipt option outcome" where
  "accept_receipt env now s tenant command =
     (let who = vi_principal_id (bc_identity command) in
      case find (\<lambda>r. receipt_key r = (tenant, who, ''membership.accept'', bc_idempotency_key command)
                  \<and> now < cp_expires_at r) (tb_receipts s) of
        None \<Rightarrow> Inr None
      | Some previous \<Rightarrow>
          if cp_fingerprint previous \<noteq> bc_fingerprint command then Inl (conflict ''IDEMPOTENCY_CONFLICT'')
          else if \<not> list_ex (\<lambda>m. me_tenant m = tenant \<and> me_principal_id m = who \<and> me_status m = ''ACTIVE'')
                      (tb_memberships s)
          then Inl (denied ''AUTHORITY_CHANGED'')
          else if \<not> ce_catalog env ''CommandReceipt'' (cp_receipt previous)
          then Inl (unavailable ''RECEIPT_INTEGRITY'')
          else rbind (ok_or (unavailable ''RECEIPT_INTEGRITY'') (de_receipt (ce_platform env) (cp_receipt previous)))
                 (\<lambda>r. Inr (Some r)))"

definition verified_email :: "database \<Rightarrow> verified_identity \<Rightarrow> string outcome" where
  "verified_email s who =
     rbind (ok_or (denied ''INVITE_IDENTITY_MISMATCH'')
              (find (\<lambda>q. (oi_principal_id q, oi_issuer q, oi_subject q)
                       = (vi_principal_id who, vi_issuer who, vi_subject who)) (tb_identities s))) (\<lambda>q.
     rbind (ok_or (denied ''INVITE_EMAIL_NOT_VERIFIED'')
              (if oi_email_verified q then oi_email q else None)) normalize_email)"

definition insert_membership :: "membership_row \<Rightarrow> database \<Rightarrow> database outcome" where
  "insert_membership m s =
     rbind (sql (insert_row membership_ok
              (\<lambda>m m'. member_key m' = member_key m \<or> membership_key m' = membership_key m)
              (tenant_known s (me_tenant m)) m (tb_memberships s)))
       (\<lambda>t. Inr (s\<lparr>tb_memberships := t\<rparr>))"

text \<open>The invitation that a token names, after every check of the acceptance.\<close>

definition open_invite ::
    "platform \<Rightarrow> timestamp \<Rightarrow> database \<Rightarrow> invite_claims \<Rightarrow> string \<Rightarrow> string \<Rightarrow> invite_row outcome" where
  "open_invite pf now s claims raw_token email =
     (if ix_expires_at claims \<le> now then Inl (failure_new ''INVITE_EXPIRED'' Expired)
      else
      rbind (ok_or not_found (row_at invite_row_key (ix_tenant_id claims, ix_invite_id claims) (tb_invites s))) (\<lambda>i.
      if unix_seconds (mi_expires_at i) \<noteq> unix_seconds (ix_expires_at claims) \<or> mi_expires_at i \<le> now
      then Inl (failure_new ''INVITE_EXPIRED'' Expired)
      else if mi_consumed_at i \<noteq> None then Inl (conflict ''INVITE_ALREADY_USED'')
      else if mi_token_digest i \<noteq> digest_bytes pf raw_token then Inl (denied ''INVITE_TOKEN_INVALID'')
      else if mi_email i \<noteq> email then Inl (denied ''INVITE_EMAIL_MISMATCH'')
      else Inr i))"

definition join_tenant ::
    "uuid \<Rightarrow> timestamp \<Rightarrow> database \<Rightarrow> invite_row \<Rightarrow> uuid \<Rightarrow> string list \<Rightarrow> database outcome" where
  "join_tenant membership_id now s i who roles =
     (let tenant = mi_tenant i in
      if list_ex (\<lambda>m. me_tenant m = tenant \<and> me_principal_id m = who) (tb_memberships s)
      then Inl (conflict ''MEMBERSHIP_EXISTS'')
      else
      rbind (canonical_primary_role roles) (\<lambda>primary_role.
      rbind (insert_membership \<lparr> me_tenant = tenant, me_principal_id = who, me_membership_id = membership_id,
               me_role = primary_role, me_status = ''ACTIVE'', me_membership_epoch = 1,
               me_permission_epoch = 1, me_version = 1 \<rparr> s) (\<lambda>s1.
      rbind (insert_roles tenant membership_id roles s1) (\<lambda>s2.
      update_invite (invite_row_key i) (\<lambda>i. i\<lparr>mi_consumed_at := Some now, mi_consumed_by := Some who,
          mi_membership_id := Some membership_id, mi_version := mi_version i + 1\<rparr>) s2))))"

definition accept_mutation ::
    "platform \<Rightarrow> invite_row \<Rightarrow> uuid \<Rightarrow> uuid \<Rightarrow> string \<Rightarrow> string list \<Rightarrow> mutation" where
  "accept_mutation pf i membership_id who email roles =
     (let tenant = mi_tenant i; resource = resource_ref_of pf ''Membership'' membership_id 1 in
      \<lparr> mu_primary = resource,
        mu_changes =
          [\<lparr> pc_resource = resource,
             pc_value = membership_projection_value pf membership_id tenant who roles ''ACTIVE'' 1,
             pc_label = ''Membership'', pc_source_artifacts = [] \<rparr>,
           \<lparr> pc_resource = resource_ref_of pf ''MembershipInvitation'' (mi_invite_id i) 2,
             pc_value = JObj [(''invite_id'', ser_uuid pf (mi_invite_id i)), (''tenant_id'', ser_uuid pf tenant),
               (''email'', JStr email), (''roles'', JArr (map JStr roles)),
               (''expires_at'', ser_time pf (mi_expires_at i)), (''state'', JStr ''CONSUMED''),
               (''membership_id'', ser_uuid pf membership_id), (''version'', JNum 2)],
             pc_label = ''Consumed membership invitation'', pc_source_artifacts = [] \<rparr>],
        mu_run_id = None, mu_effect_id = None, mu_accepted = False \<rparr>)"

text \<open>The receipt is inserted, not upserted as in the command pipeline.\<close>

definition finalize_bootstrap_accept ::
    "command_env \<Rightarrow> (nat \<Rightarrow> uuid) \<Rightarrow> timestamp \<Rightarrow> database \<Rightarrow> command_actor \<Rightarrow> accept_command \<Rightarrow> mutation
     \<Rightarrow> uuid \<Rightarrow> uuid \<Rightarrow> (command_receipt \<times> database) outcome" where
  "finalize_bootstrap_accept env ids now s actor command mutation tenant who =
     (let pf = ce_platform env; correlation = ids 1 in
      rbind (rfold (\<lambda>(k, change) s.
                rbind (record_change env (change_ids ids k) now s actor ''membership.accept'' change correlation)
                  (\<lambda>(_, s'). Inr s'))
              (enumerate 0 (mu_changes mutation)) s) (\<lambda>s1.
      let receipt = \<lparr> cr_command_id = resource_id_of pf (ids 0), cr_state = ReceiptSucceeded,
            cr_resource = Some (mu_primary mutation), cr_run_id = None, cr_effect_id = None,
            cr_correlation_id = resource_id_of pf correlation, cr_accepted_at = now \<rparr>;
          val = ser_receipt pf receipt
      in if \<not> ce_catalog env ''CommandReceipt'' val then Inl (unavailable ''RECEIPT_INTEGRITY'')
      else
      rbind (sql (insert_row receipt_ok (\<lambda>q q'. receipt_key q' = receipt_key q) (tenant_known s tenant)
               \<lparr> cp_tenant = tenant, cp_principal_id = who, cp_operation = ''membership.accept'',
                 cp_idempotency_key = bc_idempotency_key command, cp_fingerprint = bc_fingerprint command,
                 cp_command_id = ids 0, cp_receipt = val, cp_expires_at = now + 24 * seconds 3600 \<rparr>
               (tb_receipts s1))) (\<lambda>t.
      Inr (receipt, s1\<lparr>tb_receipts := t\<rparr>))))"

definition accept_actor :: "platform \<Rightarrow> database \<Rightarrow> uuid \<Rightarrow> verified_identity \<Rightarrow> command_actor outcome" where
  "accept_actor pf s tenant who =
     rbind (ok_or (unavailable ''POLICY_UNAVAILABLE'') (current_policy s tenant)) (\<lambda>p.
     rbind (map_err (\<lambda>_. unavailable ''IDENTITY_INTEGRITY'') (opaque_id_new ''TenantId'' (pf_uuid_show pf tenant)))
       (\<lambda>tenant_id.
     rbind (map_err (\<lambda>_. unavailable ''IDENTITY_INTEGRITY'')
             (opaque_id_new ''PrincipalId'' (pf_uuid_show pf (vi_principal_id who)))) (\<lambda>principal_id.
     Inr \<lparr> ca_tenant_id = tenant_id, ca_principal_id = principal_id, ca_issuer = vi_issuer who,
           ca_membership_epoch = 1, ca_permission_epoch = 1, ca_policy_version = az_policy_version p,
           ca_policy_epoch = az_policy_epoch p \<rparr>)))"

definition accept_fresh ::
    "command_env \<Rightarrow> (nat \<Rightarrow> uuid) \<Rightarrow> timestamp \<Rightarrow> database \<Rightarrow> accept_command \<Rightarrow> invite_claims \<Rightarrow> string
     \<Rightarrow> string \<Rightarrow> (command_receipt \<times> database) outcome" where
  "accept_fresh env ids now s command claims raw_token email =
     (let pf = ce_platform env; who = bc_identity command; tenant = ix_tenant_id claims;
          membership_id = handler_ids ids 0 in
      rbind (open_invite pf now s claims raw_token email) (\<lambda>i.
      rbind (normalize_roles (mi_roles i)) (\<lambda>roles.
      rbind (join_tenant membership_id now s i (vi_principal_id who) roles) (\<lambda>s1.
      rbind (accept_actor pf s1 tenant who) (\<lambda>actor.
      finalize_bootstrap_accept env (own_ids ids) now s1 actor command
        (accept_mutation pf i membership_id (vi_principal_id who) email roles)
        tenant (vi_principal_id who))))))"

definition execute_membership_accept_bootstrap ::
    "command_env \<Rightarrow> token_codec \<Rightarrow> string \<Rightarrow> (nat \<Rightarrow> uuid) \<Rightarrow> timestamp \<Rightarrow> database \<Rightarrow> accept_command
     \<Rightarrow> (command_receipt \<times> database) outcome" where
  "execute_membership_accept_bootstrap env tc key ids now s command =
     (let pf = ce_platform env; who = bc_identity command; input = bc_input command in
      if \<not> ce_catalog env ''Command_membership_accept'' input then Inl (invalid ''SCHEMA_INVALID'')
      else
      rbind (ok_or (invalid ''SCHEMA_INVALID'') (fingerprint pf ''membership.accept'' input)) (\<lambda>f.
      if f \<noteq> bc_fingerprint command then Inl (invalid ''FINGERPRINT_MISMATCH'')
      else
      rbind (field de_string input ''invite_token'') (\<lambda>raw_token.
      rbind (verify_token pf tc key raw_token) (\<lambda>claims.
      let tenant = ix_tenant_id claims in
      if tenant \<noteq> bc_expected_tenant_id command then Inl (denied ''TENANT_CONTEXT_MISMATCH'')
      else if map_option (\<lambda>t. tn_status t = ''ACTIVE'') (row_at tn_id tenant (tb_tenants s)) \<noteq> Some True
      then Inl not_found
      else
      rbind (verified_email s who) (\<lambda>email.
      rbind (accept_receipt env now s tenant command) (\<lambda>known.
      case known of
        Some receipt \<Rightarrow> Inr (receipt, s)
      | None \<Rightarrow> accept_fresh env ids now s command claims raw_token email))))))"

section \<open>Change and revocation\<close>

definition change_membership ::
    "platform \<Rightarrow> database \<Rightarrow> authorized_command \<Rightarrow> (mutation \<times> database) outcome" where
  "change_membership pf s command =
     (let input = ac_input command; actor = ac_actor command in
      rbind (parse_uuid pf (ca_tenant_id actor)) (\<lambda>tenant.
      rbind (rbind (field de_string input ''membership_id'') (parse_uuid pf)) (\<lambda>membership_id.
      rbind (field de_i32 input ''expected_version'') (\<lambda>expected.
      rbind (rbind (field (de_list de_string) input ''roles'') normalize_roles) (\<lambda>roles.
      rbind (require_assignable_roles pf s actor roles) (\<lambda>_.
      rbind (ok_or not_found (row_at membership_key (tenant, membership_id) (tb_memberships s))) (\<lambda>m.
      if me_status m \<noteq> ''ACTIVE'' then Inl (conflict ''ILLEGAL_TRANSITION'')
      else
      rbind (require_expected_version (me_version m) expected) (\<lambda>version.
      let had_owner = has_role_row s tenant membership_id ''OWNER'' in
      rbind (require_actor_can_manage_owner pf s actor had_owner) (\<lambda>_.
      rbind (if had_owner \<and> ''OWNER'' \<notin> set roles then ensure_not_last_owner s tenant else Inr ()) (\<lambda>_.
      rbind (insert_roles tenant membership_id roles (delete_roles tenant membership_id s)) (\<lambda>s1.
      rbind (canonical_primary_role roles) (\<lambda>primary_role.
      rbind (update_membership (tenant, membership_id) (\<lambda>m. m\<lparr>me_role := primary_role, me_version := version,
               me_membership_epoch := me_membership_epoch m + 1,
               me_permission_epoch := me_permission_epoch m + 1\<rparr>) s1) (\<lambda>s2.
      Inr (mutation_one pf ''Membership'' membership_id version
             (membership_projection_value pf membership_id tenant (me_principal_id m) roles ''ACTIVE'' version)
             ''Membership'', s2))))))))))))))"

definition revoke_membership ::
    "platform \<Rightarrow> database \<Rightarrow> authorized_command \<Rightarrow> (mutation \<times> database) outcome" where
  "revoke_membership pf s command =
     (let input = ac_input command; actor = ac_actor command in
      rbind (parse_uuid pf (ca_tenant_id actor)) (\<lambda>tenant.
      rbind (rbind (field de_string input ''membership_id'') (parse_uuid pf)) (\<lambda>membership_id.
      rbind (field de_i32 input ''expected_version'') (\<lambda>expected.
      rbind (ok_or not_found (row_at membership_key (tenant, membership_id) (tb_memberships s))) (\<lambda>m.
      if me_status m \<noteq> ''ACTIVE'' then Inl (conflict ''ILLEGAL_TRANSITION'')
      else
      rbind (require_expected_version (me_version m) expected) (\<lambda>version.
      let target_is_owner = has_role_row s tenant membership_id ''OWNER'' in
      rbind (require_actor_can_manage_owner pf s actor target_is_owner) (\<lambda>_.
      rbind (if target_is_owner then ensure_not_last_owner s tenant else Inr ()) (\<lambda>_.
      rbind (membership_roles s tenant membership_id) (\<lambda>roles.
      rbind (update_membership (tenant, membership_id) (\<lambda>m. m\<lparr>me_status := ''REVOKED'', me_version := version,
               me_membership_epoch := me_membership_epoch m + 1,
               me_permission_epoch := me_permission_epoch m + 1\<rparr>) s) (\<lambda>s1.
      Inr (mutation_one pf ''Membership'' membership_id version
             (membership_projection_value pf membership_id tenant (me_principal_id m) roles ''REVOKED'' version)
             ''Revoked membership'', s1)))))))))))"

section \<open>Policies and identity configuration\<close>

definition evaluate_policy ::
    "cedar \<Rightarrow> platform \<Rightarrow> uuid \<Rightarrow> database \<Rightarrow> authorized_command \<Rightarrow> (mutation \<times> database) outcome" where
  "evaluate_policy cd pf i s command =
     (let input = ac_input command; actor = ac_actor command in
      rbind (parse_uuid pf (ca_tenant_id actor)) (\<lambda>tenant.
      rbind (field de_string input ''action'') (\<lambda>action.
      rbind (field de_resource_ref input ''resource'') (\<lambda>resource.
      rbind (ok_or not_found (latest_projection s tenant (rr_resource_type resource) (rr_resource_id resource)))
        (\<lambda>(current_version, cls).
      if current_version \<noteq> rr_version resource then Inl (conflict ''STALE_VERSION'')
      else
      rbind (read_policy cd pf s actor) (\<lambda>policy.
      let allowed = permits cd policy action (rr_resource_type resource) (rr_resource_id resource)
            (btree_from [(''version'', JNum current_version), (''classification'', JStr cls)]) in
      Inr (mutation_one pf ''PolicyDecision'' i 1
             (JObj [(''decision_id'', ser_uuid pf i), (''action'', JStr action),
                    (''resource'', ser_resource_ref resource),
                    (''decision'', JStr (if allowed then ''ALLOW'' else ''DENY'')),
                    (''policy_version'', JStr (ca_policy_version actor)),
                    (''policy_epoch'', JNum (ca_policy_epoch actor)), (''version'', JNum 1)])
             ''Policy evaluation'', s)))))))"

text \<open>The CHECK \<open>^[0-9]+\.[0-9]+\.[0-9]+$\<close>.\<close>

definition plain_version :: "string \<Rightarrow> bool" where
  "plain_version v \<longleftrightarrow>
     (case split_on (CHR ''.'') v of
        [a, b, c] \<Rightarrow> list_all (\<lambda>part. part \<noteq> [] \<and> list_all is_ascii_digit part) [a, b, c]
      | _ \<Rightarrow> False)"

definition policy_proposal_ok :: "policy_proposal_row \<Rightarrow> bool" where
  "policy_proposal_ok p \<longleftrightarrow> is_object (pp_policy_ref p) \<and> is_object (pp_review_ref p)
     \<and> is_ok (digest_parse (pp_policy_digest p))
     \<and> 1 \<le> char_length (pp_cedar_source p) \<and> char_length (pp_cedar_source p) \<le> 1048576
     \<and> plain_version (pp_base_policy_version p) \<and> 0 < pp_base_policy_epoch p
     \<and> pp_state p \<in> {''PENDING'', ''APPROVED'', ''REJECTED'', ''SUPERSEDED''} \<and> 0 < pp_version p"

definition propose_policy ::
    "command_env \<Rightarrow> uuid \<Rightarrow> database \<Rightarrow> authorized_command \<Rightarrow> (mutation \<times> database) outcome" where
  "propose_policy env i s command =
     (let pf = ce_platform env; input = ac_input command; actor = ac_actor command in
      rbind (parse_uuid pf (ca_tenant_id actor)) (\<lambda>tenant.
      rbind (parse_uuid pf (ca_principal_id actor)) (\<lambda>who.
      rbind (field de_artifact_ref input ''policy_ref'') (\<lambda>policy_ref.
      rbind (field de_artifact_ref input ''review_ref'') (\<lambda>review_ref.
      rbind (field de_i32 input ''expected_version'') (\<lambda>expected.
      rbind (load_artifact_ref env s actor policy_ref MAX_POLICY_BYTES) (\<lambda>source.
      rbind (load_artifact_ref env s actor review_ref MAX_POLICY_BYTES) (\<lambda>_.
      if \<not> utf8_valid source \<or> is_blank source then Inl (invalid ''POLICY_SOURCE_INVALID'')
      else
      rbind (map_err (\<lambda>_. invalid ''POLICY_SOURCE_INVALID'') (snapshot_parse (ce_cedar env) ''0.0.0'' 1 source)) (\<lambda>_.
      rbind (sql (insert_or_ignore (\<lambda>p. 0 < ps_version p) (\<lambda>p p'. ps_tenant p' = ps_tenant p)
               (tenant_known s tenant) \<lparr> ps_tenant = tenant, ps_version = 1 \<rparr> (tb_policy_state s))) (\<lambda>t.
      rbind (ok_or (database_failure None) (row_at ps_tenant tenant t)) (\<lambda>current.
      rbind (require_expected_version (ps_version current) expected) (\<lambda>version.
      rbind (sql (update_rows (\<lambda>p. ps_tenant p = tenant) (\<lambda>p. p\<lparr>ps_version := version\<rparr>)
               (\<lambda>p. in_i32 (ps_version p)) (\<lambda>p. 0 < ps_version p) t)) (\<lambda>t'.
      rbind (ok_or (unavailable ''POLICY_UNAVAILABLE'') (current_policy s tenant)) (\<lambda>p.
      rbind (sql (insert_row policy_proposal_ok (\<lambda>q q'. (pp_tenant q', pp_id q') = (pp_tenant q, pp_id q))
               (tenant_known s tenant)
               \<lparr> pp_tenant = tenant, pp_id = i, pp_policy_ref = ser_artifact_ref policy_ref,
                 pp_review_ref = ser_artifact_ref review_ref, pp_policy_digest = ar_digest policy_ref,
                 pp_cedar_source = source, pp_base_policy_version = az_policy_version p,
                 pp_base_policy_epoch = az_policy_epoch p, pp_state = ''PENDING'', pp_created_by = who,
                 pp_version = version \<rparr> (tb_policy_proposals s))) (\<lambda>t''.
      Inr (mutation_one pf ''PolicyProposal'' i version
             (JObj [(''proposal_id'', ser_uuid pf i), (''policy_ref'', ser_artifact_ref policy_ref),
                    (''review_ref'', ser_artifact_ref review_ref), (''state'', JStr ''PENDING''),
                    (''base_policy_version'', JStr (ca_policy_version actor)),
                    (''base_policy_epoch'', JNum (ca_policy_epoch actor)), (''version'', JNum version)])
             ''Pending policy proposal'',
           s\<lparr>tb_policy_state := t', tb_policy_proposals := t''\<rparr>))))))))))))))))"

definition identity_proposal_ok :: "identity_proposal_row \<Rightarrow> bool" where
  "identity_proposal_ok p \<longleftrightarrow>
     1 \<le> char_length (ic_issuer p) \<and> char_length (ic_issuer p) \<le> 2048
     \<and> 1 \<le> char_length (ic_client_id p) \<and> char_length (ic_client_id p) \<le> 128
     \<and> 1 \<le> char_length (ic_client_secret_ref p) \<and> char_length (ic_client_secret_ref p) \<le> 128
     \<and> length (ic_allowed_redirect_uris p) \<le> 10
     \<and> ic_state p \<in> {''PENDING'', ''APPROVED'', ''REJECTED'', ''SUPERSEDED''}
     \<and> ic_runtime_state p \<in> {''UNQUALIFIED'', ''QUALIFIED''} \<and> 0 < ic_version p"

definition configure_identity ::
    "platform \<Rightarrow> uuid \<Rightarrow> database \<Rightarrow> authorized_command \<Rightarrow> (mutation \<times> database) outcome" where
  "configure_identity pf i s command =
     (let input = ac_input command; actor = ac_actor command in
      rbind (parse_uuid pf (ca_tenant_id actor)) (\<lambda>tenant.
      rbind (parse_uuid pf (ca_principal_id actor)) (\<lambda>who.
      rbind (field de_string input ''issuer'') (\<lambda>issuer.
      rbind (field de_string input ''client_id'') (\<lambda>client_id.
      rbind (field de_string input ''client_secret_ref'') (\<lambda>client_secret_ref.
      rbind (field (de_list de_string) input ''allowed_redirect_uris'') (\<lambda>uris.
      let redirect_uris = remdups_adj (sort uris) in
      if is_blank issuer \<or> is_blank client_id \<or> is_blank client_secret_ref
      then Inl (invalid ''IDENTITY_CONFIGURATION_INVALID'')
      else
      rbind (sql (insert_row identity_proposal_ok (\<lambda>q q'. (ic_tenant q', ic_id q') = (ic_tenant q, ic_id q))
               (tenant_known s tenant)
               \<lparr> ic_tenant = tenant, ic_id = i, ic_issuer = issuer, ic_client_id = client_id,
                 ic_client_secret_ref = client_secret_ref, ic_allowed_redirect_uris = redirect_uris,
                 ic_state = ''PENDING'', ic_runtime_state = ''UNQUALIFIED'', ic_created_by = who,
                 ic_version = 1 \<rparr> (tb_identity_proposals s))) (\<lambda>t.
      Inr (mutation_one pf ''IdentityConfigurationProposal'' i 1
             (JObj [(''proposal_id'', ser_uuid pf i), (''issuer'', JStr issuer), (''client_id'', JStr client_id),
                    (''client_secret_ref'', JStr client_secret_ref),
                    (''allowed_redirect_uris'', JArr (map JStr redirect_uris)), (''state'', JStr ''PENDING''),
                    (''runtime_state'', JStr ''UNQUALIFIED''), (''version'', JNum 1)])
             ''Pending identity configuration'',
           s\<lparr>tb_identity_proposals := t\<rparr>)))))))))"

section \<open>What a token says\<close>

text \<open>What is relied on of base64, HMAC-SHA256 and the text of UUIDs.\<close>

definition plain_char :: "char \<Rightarrow> bool" where
  "plain_char c \<longleftrightarrow> is_ascii_alphanumeric c \<or> c = CHR ''-'' \<or> c = CHR ''_''"

definition token_text_ok :: "platform \<Rightarrow> token_codec \<Rightarrow> bool" where
  "token_text_ok pf tc \<longleftrightarrow>
     (\<forall>u. pf_uuid_parse pf (pf_uuid_show pf u) = Some u \<and> list_all plain_char (pf_uuid_show pf u)
        \<and> length (pf_uuid_show pf u) \<le> 40)
     \<and> (\<forall>x. tc_decode tc (tc_encode tc x) = Some x \<and> list_all plain_char (tc_encode tc x)
        \<and> length (tc_encode tc x) \<le> 2 * length x)
     \<and> (\<forall>k x. length (tc_hmac tc k x) = 32)"

lemma plain_char_facts: "plain_char c \<Longrightarrow> c \<noteq> CHR ''.'' \<and> 33 \<le> byte c \<and> byte c < 128"
  by (auto simp: plain_char_def is_ascii_alphanumeric_def is_ascii_digit_def)

lemma no_whitespace: "list_all (\<lambda>c. 33 \<le> byte c \<and> byte c < 128) s \<Longrightarrow> \<not> has_whitespace s"
  by (induction s) (auto split: list.splits)

lemma split_on_plain: "d \<notin> set p \<Longrightarrow> split_on d p = [p]"
  by (induction p) auto

lemma split_on_part: "d \<notin> set p \<Longrightarrow> split_on d (p @ d # s) = p # split_on d s"
  by (induction p) auto

lemma parse_i64_show: "in_i64 n \<Longrightarrow> parse_i64 (show_int n) = Some n"
proof -
  assume n: "in_i64 n"
  obtain c t where d: "decimal (nat n) = c # t" by (cases "decimal (nat n)") (auto simp: decimal_nonempty)
  then have "is_ascii_digit c" using decimal_digits [of "nat n"] by simp
  then have "c \<noteq> CHR ''-'' \<and> c \<noteq> CHR ''+''" by (auto simp: is_ascii_digit_def)
  moreover have "list_all is_ascii_digit (c # t)" "decimal_value (c # t) = nat n"
    using decimal_digits [of "nat n"] decimal_value_decimal [of "nat n"] d by simp_all
  ultimately show ?thesis
    using n d by (cases "n < 0") (simp_all add: parse_i64_def show_int_def checked_i64_def decimal_digits
        decimal_value_decimal decimal_nonempty)
qed

lemma show_int_plain: "list_all plain_char (show_int n)"
  using decimal_digits by (auto simp: show_int_def plain_char_def is_ascii_alphanumeric_def list_all_iff)

lemma show_int_length: "in_i64 n \<Longrightarrow> length (show_int n) \<le> 20"
proof -
  assume "in_i64 n"
  then have "nat n < 10 ^ Suc 18" "nat (- n) < 10 ^ Suc 18" by (auto simp: in_i64_def)
  from decimal_length [OF this(1)] decimal_length [OF this(2)] show ?thesis by (simp add: show_int_def)
qed

lemma derived_parts:
  assumes "token_text_ok pf tc"
  shows "split_on (CHR ''.'') (derive_token pf tc key i t e) =
    [INVITE_TOKEN_VERSION, pf_uuid_show pf i, pf_uuid_show pf t, show_int (unix_seconds e),
     tc_encode tc (invite_mac tc key i t (unix_seconds e))]"
proof -
  have dot: "CHR ''.'' \<notin> set s" if "list_all plain_char s" for s
    using that plain_char_facts by (auto simp: list_all_iff)
  have "list_all plain_char INVITE_TOKEN_VERSION"
    by (simp add: INVITE_TOKEN_VERSION_def plain_char_def is_ascii_alphanumeric_def is_ascii_digit_def)
  then have "CHR ''.'' \<notin> set INVITE_TOKEN_VERSION" "CHR ''.'' \<notin> set (pf_uuid_show pf u)"
    "CHR ''.'' \<notin> set (show_int n)" "CHR ''.'' \<notin> set (tc_encode tc x)" for u n x
    using assms dot show_int_plain by (simp_all add: token_text_ok_def)
  then show ?thesis
    by (simp add: derive_token_def Let_def split_on_part split_on_plain)
qed

lemma derived_clean:
  assumes "token_text_ok pf tc" and "in_i64 (unix_seconds e)"
  shows "length (derive_token pf tc key i t e) \<le> 256" and "\<not> has_whitespace (derive_token pf tc key i t e)"
proof -
  let ?m = "invite_mac tc key i t (unix_seconds e)"
  have "length ?m = 32" using assms(1) by (simp add: token_text_ok_def invite_mac_def)
  moreover have "length (tc_encode tc ?m) \<le> 2 * length ?m" using assms(1) by (simp only: token_text_ok_def)
  moreover have "length (pf_uuid_show pf i) \<le> 40" "length (pf_uuid_show pf t) \<le> 40"
    and pl: "list_all plain_char (pf_uuid_show pf i)" "list_all plain_char (pf_uuid_show pf t)"
      "list_all plain_char (tc_encode tc ?m)"
    using assms(1) by (simp_all add: token_text_ok_def)
  ultimately show "length (derive_token pf tc key i t e) \<le> 256"
    using show_int_length [OF assms(2)] by (simp add: derive_token_def Let_def INVITE_TOKEN_VERSION_def)
  have "list_all (\<lambda>c. 33 \<le> byte c \<and> byte c < 128) (derive_token pf tc key i t e)"
    using pl show_int_plain [of "unix_seconds e"] plain_char_facts
    by (auto simp: derive_token_def Let_def INVITE_TOKEN_VERSION_def list_all_iff)
  then show "\<not> has_whitespace (derive_token pf tc key i t e)" by (rule no_whitespace)
qed

lemma verify_token_Inr:
  assumes "verify_token pf tc key raw = Inr claims"
  shows "\<exists>g e. raw \<noteq> [] \<and> tc_decode tc g = Some (invite_mac tc key (ix_invite_id claims) (ix_tenant_id claims) e)
    \<and> ix_expires_at claims = e * 1000000 \<and> length raw \<le> 256"
  using assms by (auto simp: verify_token_def Let_def rbind_Inr_iff ok_or_Inr_iff split: list.splits if_splits)

lemma verify_derived:
  assumes "token_text_ok pf tc" and "in_i64 (unix_seconds e)" and "tc_in_range tc (unix_seconds e)"
  shows "verify_token pf tc key (derive_token pf tc key i t e) =
      Inr \<lparr> ix_invite_id = i, ix_tenant_id = t, ix_expires_at = unix_seconds e * 1000000 \<rparr>"
  using derived_clean [OF assms(1,2)] assms
  by (simp add: verify_token_def derived_parts parse_i64_show Let_def token_text_ok_def not_less [symmetric])


section \<open>What the membership operations change\<close>

lemma insert_role_Inr:
  "insert_role tenant i role s = Inr s' \<Longrightarrow> s' = s\<lparr>tb_membership_roles := tb_membership_roles s @
     [\<lparr> mr_tenant = tenant, mr_membership_id = i, mr_role = role \<rparr>]\<rparr>"
  by (auto simp: insert_role_def rbind_Inr_iff sql_Inr_iff insert_row_Inr_iff)

lemma insert_roles_Inr:
  "insert_roles tenant i roles s = Inr s' \<Longrightarrow> s' = s\<lparr>tb_membership_roles := tb_membership_roles s @
     map (\<lambda>role. \<lparr> mr_tenant = tenant, mr_membership_id = i, mr_role = role \<rparr>) roles\<rparr>"
proof (induction roles arbitrary: s)
  case (Cons role roles)
  then obtain s1 where s1: "insert_role tenant i role s = Inr s1" "insert_roles tenant i roles s1 = Inr s'"
    by (auto simp: insert_roles_def rbind_Inr_iff)
  from insert_role_Inr [OF s1(1)] Cons.IH [OF s1(2)] show ?case by simp
qed (simp add: insert_roles_def)

lemma update_membership_Inr:
  "update_membership k f s = Inr s' \<Longrightarrow>
     s' = s\<lparr>tb_memberships := update_where (\<lambda>m. membership_key m = k) (\<lambda>m. bump_membership_epochs m (f m)) (tb_memberships s)\<rparr>"
  by (auto simp: update_membership_def rbind_Inr_iff sql_Inr_iff update_rows_Inr_iff)

lemma bump_simps [simp]:
  "me_tenant (bump_membership_epochs m n) = me_tenant n" "me_principal_id (bump_membership_epochs m n) = me_principal_id n"
  "me_membership_id (bump_membership_epochs m n) = me_membership_id n" "me_status (bump_membership_epochs m n) = me_status n"
  "me_role (bump_membership_epochs m n) = me_role n" "me_version (bump_membership_epochs m n) = me_version n"
  by (simp_all add: bump_membership_epochs_def)

lemma normalize_roles_Inr:
  "normalize_roles roles = Inr r \<Longrightarrow> r \<noteq> [] \<and> set r = set roles \<and> set r \<subseteq> set ALLOWED_ROLES"
  by (auto simp: normalize_roles_def Let_def list_ex_iff split: if_splits)

lemma change_membership_Inr:
  assumes "change_membership pf s command = Inr (m, s')"
  obtains tenant i row roles version primary who_roles where
    "parse_uuid pf (ca_tenant_id (ac_actor command)) = Inr tenant"
    "row_at membership_key (tenant, i) (tb_memberships s) = Some row" "me_status row = ''ACTIVE''"
    "actor_membership_roles pf s (ac_actor command) = Inr who_roles"
    "''OWNER'' \<in> set who_roles \<or> set roles \<subseteq> set who_roles \<and> ''OWNER'' \<notin> set roles
       \<and> \<not> has_role_row s tenant i ''OWNER''"
    "has_role_row s tenant i ''OWNER'' \<Longrightarrow> ''OWNER'' \<notin> set roles \<Longrightarrow> 1 < length (owners s tenant)"
    "roles \<noteq> []" "set roles \<subseteq> set ALLOWED_ROLES"
    "s' = s\<lparr>tb_membership_roles := filter (\<lambda>r. \<not> (mr_tenant r = tenant \<and> mr_membership_id r = i)) (tb_membership_roles s)
            @ map (\<lambda>role. \<lparr> mr_tenant = tenant, mr_membership_id = i, mr_role = role \<rparr>) roles,
          tb_memberships := update_where (\<lambda>m. membership_key m = (tenant, i))
            (\<lambda>m. bump_membership_epochs m (m\<lparr>me_role := primary, me_version := version,
               me_membership_epoch := me_membership_epoch m + 1,
               me_permission_epoch := me_permission_epoch m + 1\<rparr>)) (tb_memberships s)\<rparr>"
proof -
  from assms obtain tenant i roles0 roles row version primary s1 where
    t: "parse_uuid pf (ca_tenant_id (ac_actor command)) = Inr tenant"
    and n: "normalize_roles roles0 = Inr roles"
    and a: "require_assignable_roles pf s (ac_actor command) roles = Inr ()"
    and r: "row_at membership_key (tenant, i) (tb_memberships s) = Some row" "me_status row = ''ACTIVE''"
    and o: "require_actor_can_manage_owner pf s (ac_actor command) (has_role_row s tenant i ''OWNER'') = Inr ()"
    and l: "(if has_role_row s tenant i ''OWNER'' \<and> ''OWNER'' \<notin> set roles then ensure_not_last_owner s tenant
             else Inr ()) = Inr ()"
    and s1: "insert_roles tenant i roles (delete_roles tenant i s) = Inr s1"
    and s': "update_membership (tenant, i) (\<lambda>m. m\<lparr>me_role := primary, me_version := version,
               me_membership_epoch := me_membership_epoch m + 1,
               me_permission_epoch := me_permission_epoch m + 1\<rparr>) s1 = Inr s'"
    unfolding change_membership_def Let_def
    by (simp only: rbind_Inr_iff ok_or_Inr_iff if_False if_True split: if_split_asm) (auto split: if_splits)
  from a obtain who_roles where w: "actor_membership_roles pf s (ac_actor command) = Inr who_roles"
    "''OWNER'' \<in> set who_roles \<or> ''OWNER'' \<notin> set roles \<and> set roles \<subseteq> set who_roles"
    by (auto simp: require_assignable_roles_def rbind_Inr_iff list_ex_iff split: if_splits)
  with o have own: "''OWNER'' \<in> set who_roles \<or> \<not> has_role_row s tenant i ''OWNER''"
    by (auto simp: require_actor_can_manage_owner_def rbind_Inr_iff split: if_splits)
  show thesis
  proof (rule that [OF t r w(1)])
    show "''OWNER'' \<in> set who_roles \<or> set roles \<subseteq> set who_roles \<and> ''OWNER'' \<notin> set roles
       \<and> \<not> has_role_row s tenant i ''OWNER''" using w(2) own by blast
    show "has_role_row s tenant i ''OWNER'' \<Longrightarrow> ''OWNER'' \<notin> set roles \<Longrightarrow> 1 < length (owners s tenant)"
      using l by (simp add: ensure_not_last_owner_def split: if_splits)
    from insert_roles_Inr [OF s1] update_membership_Inr [OF s']
    show "s' = s\<lparr>tb_membership_roles := filter (\<lambda>r. \<not> (mr_tenant r = tenant \<and> mr_membership_id r = i)) (tb_membership_roles s)
            @ map (\<lambda>role. \<lparr> mr_tenant = tenant, mr_membership_id = i, mr_role = role \<rparr>) roles,
          tb_memberships := update_where (\<lambda>m. membership_key m = (tenant, i))
            (\<lambda>m. bump_membership_epochs m (m\<lparr>me_role := primary, me_version := version,
               me_membership_epoch := me_membership_epoch m + 1,
               me_permission_epoch := me_permission_epoch m + 1\<rparr>)) (tb_memberships s)\<rparr>"
      by (simp add: delete_roles_def)
  qed (use normalize_roles_Inr [OF n] in blast)+
qed

lemma revoke_membership_Inr:
  assumes "revoke_membership pf s command = Inr (m, s')"
  obtains tenant i row version where
    "parse_uuid pf (ca_tenant_id (ac_actor command)) = Inr tenant"
    "row_at membership_key (tenant, i) (tb_memberships s) = Some row" "me_status row = ''ACTIVE''"
    "has_role_row s tenant i ''OWNER'' \<Longrightarrow> 1 < length (owners s tenant)
       \<and> (\<exists>who_roles. actor_membership_roles pf s (ac_actor command) = Inr who_roles \<and> ''OWNER'' \<in> set who_roles)"
    "s' = s\<lparr>tb_memberships := update_where (\<lambda>m. membership_key m = (tenant, i))
            (\<lambda>m. bump_membership_epochs m (m\<lparr>me_status := ''REVOKED'', me_version := version,
               me_membership_epoch := me_membership_epoch m + 1,
               me_permission_epoch := me_permission_epoch m + 1\<rparr>)) (tb_memberships s)\<rparr>"
proof -
  from assms obtain tenant i row version where
    t: "parse_uuid pf (ca_tenant_id (ac_actor command)) = Inr tenant"
    and r: "row_at membership_key (tenant, i) (tb_memberships s) = Some row" "me_status row = ''ACTIVE''"
    and o: "require_actor_can_manage_owner pf s (ac_actor command) (has_role_row s tenant i ''OWNER'') = Inr ()"
    and l: "(if has_role_row s tenant i ''OWNER'' then ensure_not_last_owner s tenant else Inr ()) = Inr ()"
    and s': "update_membership (tenant, i) (\<lambda>m. m\<lparr>me_status := ''REVOKED'', me_version := version,
               me_membership_epoch := me_membership_epoch m + 1,
               me_permission_epoch := me_permission_epoch m + 1\<rparr>) s = Inr s'"
    unfolding revoke_membership_def Let_def
    by (simp only: rbind_Inr_iff ok_or_Inr_iff if_False if_True split: if_split_asm) (auto split: if_splits)
  show thesis
    using that [OF t r _ update_membership_Inr [OF s']] o l
    by (auto simp: require_actor_can_manage_owner_def ensure_not_last_owner_def rbind_Inr_iff split: if_splits)
qed

section \<open>Owners\<close>

lemma mem_owners_iff:
  "m \<in> set (owners s tenant) \<longleftrightarrow> m \<in> set (tb_memberships s) \<and> me_tenant m = tenant \<and> me_status m = ''ACTIVE''
     \<and> has_role_row s (me_tenant m) (me_membership_id m) ''OWNER''"
  by (auto simp: owners_def)

text \<open>An update of one membership that leaves the other rows and their roles alone.\<close>

definition touches_only :: "uuid \<times> uuid \<Rightarrow> database \<Rightarrow> database \<Rightarrow> bool" where
  "touches_only k s s' \<longleftrightarrow>
     (\<forall>m \<in> set (tb_memberships s). membership_key m \<noteq> k \<longrightarrow> m \<in> set (tb_memberships s'))
     \<and> (\<forall>tenant i role. (tenant, i) \<noteq> k \<longrightarrow> has_role_row s' tenant i role = has_role_row s tenant i role)"

lemma owner_untouched:
  "touches_only k s s' \<Longrightarrow> m \<in> set (owners s tenant) \<Longrightarrow> membership_key m \<noteq> k \<Longrightarrow> m \<in> set (owners s' tenant)"
  by (auto simp: mem_owners_iff touches_only_def)

lemma second_owner:
  assumes "unique_key membership_key (tb_memberships s)" and "1 < length (owners s tenant)"
  shows "\<exists>m \<in> set (owners s tenant). membership_key m \<noteq> k"
proof (rule ccontr)
  assume "\<not> ?thesis"
  then have "\<forall>m \<in> set (owners s tenant). membership_key m = k" by blast
  moreover have "distinct (map membership_key (owners s tenant))"
    using assms(1) unfolding owners_def unique_key_def by (rule distinct_map_filter)
  ultimately have "length (owners s tenant) \<le> 1"
    by (cases "owners s tenant"; cases "tl (owners s tenant)") auto
  with assms(2) show False by simp
qed

lemma update_touches_only:
  "tb_memberships s' = update_where (\<lambda>m. membership_key m = k) f (tb_memberships s) \<Longrightarrow>
     (\<And>tenant i role. (tenant, i) \<noteq> k \<Longrightarrow> has_role_row s' tenant i role = has_role_row s tenant i role) \<Longrightarrow>
     touches_only k s s'"
  by (auto simp: touches_only_def set_update_where)

lemma change_keeps_owner:
  assumes "change_membership pf s command = Inr (m, s')" and "unique_key membership_key (tb_memberships s)"
    and "owners s tenant \<noteq> []"
  shows "owners s' tenant \<noteq> []"
  using assms(1)
proof (rule change_membership_Inr)
  fix t i row roles version primary
  assume row: "row_at membership_key (t, i) (tb_memberships s) = Some row" "me_status row = ''ACTIVE''"
    and last: "has_role_row s t i ''OWNER'' \<Longrightarrow> ''OWNER'' \<notin> set roles \<Longrightarrow> 1 < length (owners s t)"
    and s': "s' = s\<lparr>tb_membership_roles := filter (\<lambda>r. \<not> (mr_tenant r = t \<and> mr_membership_id r = i)) (tb_membership_roles s)
            @ map (\<lambda>role. \<lparr> mr_tenant = t, mr_membership_id = i, mr_role = role \<rparr>) roles,
          tb_memberships := update_where (\<lambda>m. membership_key m = (t, i))
            (\<lambda>m. bump_membership_epochs m (m\<lparr>me_role := primary, me_version := version,
               me_membership_epoch := me_membership_epoch m + 1,
               me_permission_epoch := me_permission_epoch m + 1\<rparr>)) (tb_memberships s)\<rparr>"
  have other: "touches_only (t, i) s s'"
    by (rule update_touches_only) (auto simp: s' has_role_row_def list_ex_iff)
  show ?thesis
  proof (cases "\<exists>m \<in> set (owners s tenant). membership_key m \<noteq> (t, i)")
    case True
    with owner_untouched [OF other] show ?thesis by (metis empty_iff empty_set)
  next
    case False
    from assms(3) obtain m where m: "m \<in> set (owners s tenant)" by (cases "owners s tenant") auto
    with False have k: "membership_key m = (t, i)" by blast
    with m have tenant: "tenant = t" and o: "has_role_row s t i ''OWNER''" by (auto simp: mem_owners_iff)
    have "''OWNER'' \<in> set roles"
      using last [OF o] second_owner [OF assms(2), of t "(t, i)"] False tenant by blast
    then have "has_role_row s' t i ''OWNER''" by (force simp: s' has_role_row_def list_ex_iff)
    with row_at_SomeD [OF row(1)] row(2) tenant
    have "bump_membership_epochs row (row\<lparr>me_role := primary, me_version := version,
        me_membership_epoch := me_membership_epoch row + 1,
        me_permission_epoch := me_permission_epoch row + 1\<rparr>) \<in> set (owners s' tenant)"
      by (auto simp: mem_owners_iff s' set_update_where)
    then show ?thesis by auto
  qed
qed

lemma revoke_keeps_owner:
  assumes "revoke_membership pf s command = Inr (m, s')" and "unique_key membership_key (tb_memberships s)"
    and "owners s tenant \<noteq> []"
  shows "owners s' tenant \<noteq> []"
  using assms(1)
proof (rule revoke_membership_Inr)
  fix t i row version
  assume last: "has_role_row s t i ''OWNER'' \<Longrightarrow> 1 < length (owners s t)
       \<and> (\<exists>who_roles. actor_membership_roles pf s (ac_actor command) = Inr who_roles \<and> ''OWNER'' \<in> set who_roles)"
    and s': "s' = s\<lparr>tb_memberships := update_where (\<lambda>m. membership_key m = (t, i))
            (\<lambda>m. bump_membership_epochs m (m\<lparr>me_status := ''REVOKED'', me_version := version,
               me_membership_epoch := me_membership_epoch m + 1,
               me_permission_epoch := me_permission_epoch m + 1\<rparr>)) (tb_memberships s)\<rparr>"
  have other: "touches_only (t, i) s s'"
    by (rule update_touches_only) (auto simp: s' has_role_row_def)
  have "\<exists>m \<in> set (owners s tenant). membership_key m \<noteq> (t, i)"
  proof (cases "tenant = t \<and> has_role_row s t i ''OWNER''")
    case True
    with last second_owner [OF assms(2), of t "(t, i)"] show ?thesis by blast
  next
    case False
    from assms(3) obtain m where "m \<in> set (owners s tenant)" by (cases "owners s tenant") auto
    with False show ?thesis by (intro bexI [of _ m]) (auto simp: mem_owners_iff)
  qed
  with owner_untouched [OF other] show ?thesis by (metis empty_iff empty_set)
qed

lemma join_tenant_Inr:
  assumes "join_tenant membership_id now s i who roles = Inr s'"
  obtains primary where "roles = primary # tl roles"
    "\<forall>m \<in> set (tb_memberships s). member_key m \<noteq> (mi_tenant i, who) \<and> membership_key m \<noteq> (mi_tenant i, membership_id)"
    "s' = s\<lparr>tb_memberships := tb_memberships s @ [\<lparr> me_tenant = mi_tenant i, me_principal_id = who,
          me_membership_id = membership_id, me_role = primary, me_status = ''ACTIVE'', me_membership_epoch = 1,
          me_permission_epoch = 1, me_version = 1 \<rparr>],
        tb_membership_roles := tb_membership_roles s @
          map (\<lambda>role. \<lparr> mr_tenant = mi_tenant i, mr_membership_id = membership_id, mr_role = role \<rparr>) roles,
        tb_invites := update_where (\<lambda>q. invite_row_key q = invite_row_key i)
          (\<lambda>q. q\<lparr>mi_consumed_at := Some now, mi_consumed_by := Some who,
             mi_membership_id := Some membership_id, mi_version := mi_version q + 1\<rparr>) (tb_invites s)\<rparr>"
proof -
  from assms obtain primary s1 s2 where
    p: "canonical_primary_role roles = Inr primary"
    and s1: "insert_membership \<lparr> me_tenant = mi_tenant i, me_principal_id = who,
          me_membership_id = membership_id, me_role = primary, me_status = ''ACTIVE'', me_membership_epoch = 1,
          me_permission_epoch = 1, me_version = 1 \<rparr> s = Inr s1"
    and s2: "insert_roles (mi_tenant i) membership_id roles s1 = Inr s2"
    and s': "update_invite (invite_row_key i) (\<lambda>i. i\<lparr>mi_consumed_at := Some now, mi_consumed_by := Some who,
          mi_membership_id := Some membership_id, mi_version := mi_version i + 1\<rparr>) s2 = Inr s'"
    by (auto simp: join_tenant_def Let_def rbind_Inr_iff split: if_splits)
  from p have "roles = primary # tl roles" by (cases roles) (auto simp: canonical_primary_role_def)
  moreover from s1 have "s1 = s\<lparr>tb_memberships := tb_memberships s @ [\<lparr> me_tenant = mi_tenant i, me_principal_id = who,
          me_membership_id = membership_id, me_role = primary, me_status = ''ACTIVE'', me_membership_epoch = 1,
          me_permission_epoch = 1, me_version = 1 \<rparr>]\<rparr>"
    "\<forall>m \<in> set (tb_memberships s). member_key m \<noteq> (mi_tenant i, who) \<and> membership_key m \<noteq> (mi_tenant i, membership_id)"
    by (auto simp: insert_membership_def rbind_Inr_iff sql_Inr_iff insert_row_Inr_iff)
  moreover from s' have "s' = s2\<lparr>tb_invites := update_where (\<lambda>q. invite_row_key q = invite_row_key i)
          (\<lambda>q. q\<lparr>mi_consumed_at := Some now, mi_consumed_by := Some who,
             mi_membership_id := Some membership_id, mi_version := mi_version q + 1\<rparr>) (tb_invites s2)\<rparr>"
    by (auto simp: update_invite_def rbind_Inr_iff sql_Inr_iff update_rows_Inr_iff split: if_splits)
  ultimately show thesis using insert_roles_Inr [OF s2] by (intro that) simp_all
qed

section \<open>Sequences of membership operations\<close>

datatype membership_op =
    InviteMember uuid timestamp authorized_command
  | RetrieveSecret "uuid \<times> uuid" timestamp command_actor uuid
  | AcceptInvite "nat \<Rightarrow> uuid" timestamp accept_command
  | ChangeMember authorized_command
  | RevokeMember authorized_command

fun membership_step ::
    "command_env \<Rightarrow> token_codec \<Rightarrow> string \<Rightarrow> database \<Rightarrow> membership_op \<Rightarrow> database outcome" where
  "membership_step env tc key s (InviteMember i now c) =
     rbind (invite_membership (ce_platform env) tc key i now s c) (\<lambda>(_, s'). Inr s')"
| "membership_step env tc key s (RetrieveSecret ids now actor i) =
     rbind (retrieve_membership_invite_secret (ce_platform env) tc key ids now s actor i) (\<lambda>(_, s'). Inr s')"
| "membership_step env tc key s (AcceptInvite ids now c) =
     rbind (execute_membership_accept_bootstrap env tc key ids now s c) (\<lambda>(_, s'). Inr s')"
| "membership_step env tc key s (ChangeMember c) =
     rbind (change_membership (ce_platform env) s c) (\<lambda>(_, s'). Inr s')"
| "membership_step env tc key s (RevokeMember c) =
     rbind (revoke_membership (ce_platform env) s c) (\<lambda>(_, s'). Inr s')"

lemma update_invite_Inr:
  "update_invite k f s = Inr s' \<Longrightarrow> s' = s\<lparr>tb_invites := update_where (\<lambda>i. invite_row_key i = k) f (tb_invites s)\<rparr>"
  by (auto simp: update_invite_def rbind_Inr_iff sql_Inr_iff update_rows_Inr_iff split: if_splits)

lemma invite_membership_Inr:
  assumes "invite_membership pf tc key i now s c = Inr (m, s')"
  obtains tenant roles row where "parse_uuid pf (ca_tenant_id (ac_actor c)) = Inr tenant"
    "require_assignable_roles pf s (ac_actor c) roles = Inr ()" "invite_row_key row = (tenant, i)"
    "mi_roles row = roles" "mi_consumed_at row = None" "\<forall>q \<in> set (tb_invites s). invite_row_key q \<noteq> (tenant, i)"
    "s' = s\<lparr>tb_invites := tb_invites s @ [row]\<rparr>"
proof -
  from assms obtain tenant who email roles e where
    t: "parse_uuid pf (ca_tenant_id (ac_actor c)) = Inr tenant"
    and a: "require_assignable_roles pf s (ac_actor c) roles = Inr ()"
    and ins: "insert_invite \<lparr> mi_tenant = tenant, mi_invite_id = i, mi_email = email, mi_roles = roles,
                 mi_expires_at = e, mi_token_digest = digest_bytes pf (derive_token pf tc key i tenant e),
                 mi_created_by = who, mi_secret_retrieved_at = None, mi_consumed_at = None, mi_consumed_by = None,
                 mi_membership_id = None, mi_version = 1, mi_created_at = now \<rparr> s = Inr s'"
    unfolding invite_membership_def Let_def
    by (simp only: rbind_Inr_iff if_False if_True split: if_split_asm) auto
  from ins show thesis
    by (intro that [OF t a, of "last (tb_invites s')"])
      (auto simp: insert_invite_def rbind_Inr_iff sql_Inr_iff insert_row_Inr_iff)
qed

lemma retrieve_secret_Inr:
  assumes "retrieve_membership_invite_secret pf tc key ids now s actor i = Inr (token, s')"
  obtains tenant row a where "row_at invite_row_key (tenant, i) (tb_invites s) = Some row"
    "mi_consumed_at row = None" "mi_secret_retrieved_at row = None" "now < mi_expires_at row"
    "s' = s\<lparr>tb_invites := update_where (\<lambda>q. invite_row_key q = (tenant, i)) (\<lambda>q. q\<lparr>mi_secret_retrieved_at := Some now\<rparr>) (tb_invites s),
            tb_audit := tb_audit s @ [a]\<rparr>"
proof -
  from assms obtain tenant row a s1 where
    r: "row_at invite_row_key (tenant, i) (tb_invites s) = Some row"
    "mi_consumed_at row = None" "mi_secret_retrieved_at row = None" "now < mi_expires_at row"
    and s1: "update_invite (tenant, i) (\<lambda>i. i\<lparr>mi_secret_retrieved_at := Some now\<rparr>) s = Inr s1"
    and s': "insert_audit a s1 = Inr s'"
    unfolding retrieve_membership_invite_secret_def Let_def
    by (simp only: rbind_Inr_iff ok_or_Inr_iff if_False if_True split: if_split_asm) (auto split: if_splits)
  from update_invite_Inr [OF s1] insert_audit_Inr [OF s'] show thesis by (intro that [OF r]) simp
qed

lemma finalize_accept_frame:
  assumes "finalize_bootstrap_accept env ids now s actor command m tenant who = Inr (r, s')"
    and "uuid_text_ok (ce_platform env)"
    and "parse_uuid (ce_platform env) (ca_tenant_id actor) = Inr tenant"
    and "parse_uuid (ce_platform env) (ca_principal_id actor) = Inr who"
  shows "tb_memberships s' = tb_memberships s" and "tb_membership_roles s' = tb_membership_roles s"
    and "tb_invites s' = tb_invites s"
proof -
  from assms(1) obtain s1 t where
    f: "rfold (\<lambda>(k, change) s. rbind (record_change env (change_ids ids k) now s actor ''membership.accept'' change (ids 1))
             (\<lambda>(_, s'). Inr s')) (enumerate 0 (mu_changes m)) s = Inr s1"
    and s': "s' = s1\<lparr>tb_receipts := t\<rparr>"
    by (auto simp: finalize_bootstrap_accept_def Let_def rbind_Inr_iff split: if_splits)
  from rfold_record_changes [OF f assms(2-4)] obtain rs where "grown s rs s1" by blast
  then show "tb_memberships s' = tb_memberships s" "tb_membership_roles s' = tb_membership_roles s"
    "tb_invites s' = tb_invites s" by (auto simp: grown_def s')
qed

lemma accept_actor_Inr:
  assumes "accept_actor pf s tenant who = Inr actor" and "uuid_text_ok pf"
  shows "parse_uuid pf (ca_tenant_id actor) = Inr tenant"
    and "parse_uuid pf (ca_principal_id actor) = Inr (vi_principal_id who)"
  using assms parse_uuid_show [OF assms(2)]
  by (auto simp: accept_actor_def rbind_Inr_iff map_err_Inr_iff opaque_id_new_def)

lemma accept_Inr:
  assumes "execute_membership_accept_bootstrap env tc key ids now s c = Inr (r, s')"
    and "uuid_text_ok (ce_platform env)"
  obtains (replayed) "s' = s"
  | (joined) raw claims email i roles s1 where
      "field de_string (bc_input c) ''invite_token'' = Inr raw"
      "verify_token (ce_platform env) tc key raw = Inr claims" "ix_tenant_id claims = bc_expected_tenant_id c"
      "verified_email s (bc_identity c) = Inr email"
      "open_invite (ce_platform env) now s claims raw email = Inr i" "normalize_roles (mi_roles i) = Inr roles"
      "join_tenant (handler_ids ids 0) now s i (vi_principal_id (bc_identity c)) roles = Inr s1"
      "tb_memberships s' = tb_memberships s1" "tb_membership_roles s' = tb_membership_roles s1"
      "tb_invites s' = tb_invites s1"
proof -
  let ?pf = "ce_platform env" and ?who = "bc_identity c"
  from assms(1) obtain raw claims email known where
    j: "field de_string (bc_input c) ''invite_token'' = Inr raw"
    "verify_token ?pf tc key raw = Inr claims" "ix_tenant_id claims = bc_expected_tenant_id c"
    "verified_email s ?who = Inr email"
    and rest: "(case known of Some receipt \<Rightarrow> Inr (receipt, s)
      | None \<Rightarrow> accept_fresh env ids now s c claims raw email) = Inr (r, s')"
    unfolding execute_membership_accept_bootstrap_def Let_def
    by (simp only: rbind_Inr_iff ok_or_Inr_iff if_False if_True split: if_split_asm) auto
  show thesis
  proof (cases known)
    case (Some receipt)
    with rest replayed show thesis by simp
  next
    case None
    with rest obtain i roles s1 actor where
      k: "open_invite ?pf now s claims raw email = Inr i" "normalize_roles (mi_roles i) = Inr roles"
      "join_tenant (handler_ids ids 0) now s i (vi_principal_id ?who) roles = Inr s1"
      and act: "accept_actor ?pf s1 (ix_tenant_id claims) ?who = Inr actor"
      and f: "finalize_bootstrap_accept env (own_ids ids) now s1 actor c
            (accept_mutation ?pf i (handler_ids ids 0) (vi_principal_id ?who) email roles)
            (ix_tenant_id claims) (vi_principal_id ?who) = Inr (r, s')"
      by (auto simp: accept_fresh_def Let_def rbind_Inr_iff)
    show thesis
      by (rule joined [OF j k finalize_accept_frame [OF f assms(2) accept_actor_Inr [OF act assms(2)]]])
  qed
qed

definition members_inv :: "command_env \<Rightarrow> database \<Rightarrow> bool" where
  "members_inv env s \<longleftrightarrow> uuid_text_ok (ce_platform env) \<and> unique_key membership_key (tb_memberships s)"

text \<open>What a step may do to the tables of memberships.\<close>

lemma membership_step_cases:
  assumes "membership_step env tc key s op = Inr s'" and "uuid_text_ok (ce_platform env)"
  obtains (same) "tb_memberships s' = tb_memberships s" "tb_membership_roles s' = tb_membership_roles s"
  | (joined) i now who membership_id roles s1 where "join_tenant membership_id now s i who roles = Inr s1"
      "tb_memberships s' = tb_memberships s1" "tb_membership_roles s' = tb_membership_roles s1"
  | (changed) c m where "change_membership (ce_platform env) s c = Inr (m, s')"
  | (revoked) c m where "revoke_membership (ce_platform env) s c = Inr (m, s')"
proof (cases op)
  case (InviteMember i now c)
  with assms(1) obtain m where "invite_membership (ce_platform env) tc key i now s c = Inr (m, s')"
    by (auto simp: rbind_Inr_iff)
  then show thesis by (rule invite_membership_Inr) (rule same; simp)
next
  case (RetrieveSecret ids now actor i)
  with assms(1) obtain t where "retrieve_membership_invite_secret (ce_platform env) tc key ids now s actor i = Inr (t, s')"
    by (auto simp: rbind_Inr_iff)
  then show thesis by (rule retrieve_secret_Inr) (rule same; simp)
next
  case (AcceptInvite ids now c)
  with assms(1) obtain r where "execute_membership_accept_bootstrap env tc key ids now s c = Inr (r, s')"
    by (auto simp: rbind_Inr_iff)
  from this assms(2) show thesis
  proof (cases rule: accept_Inr)
    case replayed
    then show thesis by (intro same) simp_all
  next
    case joined
    then show thesis by (intro that(2)) blast+
  qed
next
  case (ChangeMember c)
  with assms(1) show thesis by (auto simp: rbind_Inr_iff intro: changed)
next
  case (RevokeMember c)
  with assms(1) show thesis by (auto simp: rbind_Inr_iff intro: revoked)
qed

lemma owners_cong:
  "tb_memberships s' = tb_memberships s \<Longrightarrow> tb_membership_roles s' = tb_membership_roles s \<Longrightarrow> owners s' t = owners s t"
  by (simp add: owners_def has_role_row_def)

lemma join_grows_owners:
  assumes "join_tenant membership_id now s i who roles = Inr s'"
  shows "set (owners s t) \<subseteq> set (owners s' t)"
  using assms by (rule join_tenant_Inr) (auto simp: mem_owners_iff has_role_row_def)

lemma membership_step_unique:
  assumes "members_inv env s" and "membership_step env tc key s op = Inr s'"
  shows "members_inv env s'"
proof -
  from assms(1) have u: "unique_key membership_key (tb_memberships s)" and ok: "uuid_text_ok (ce_platform env)"
    by (simp_all add: members_inv_def)
  from assms(2) ok have "unique_key membership_key (tb_memberships s')"
  proof (cases rule: membership_step_cases)
    case same
    with u show ?thesis by simp
  next
    case (joined i now who membership_id roles s1)
    from joined(1) show ?thesis
      by (rule join_tenant_Inr) (use joined(2) u in \<open>auto simp: unique_key_snoc row_at_None_iff\<close>)
  next
    case (changed c m)
    then show ?thesis
      by (rule change_membership_Inr) (simp add: unique_key_update_where u)
  next
    case (revoked c m)
    then show ?thesis
      by (rule revoke_membership_Inr) (simp add: unique_key_update_where u)
  qed
  with ok show ?thesis by (simp add: members_inv_def)
qed

interpretation membership_ops: invariant_ops "membership_step env tc key" "members_inv env"
  by unfold_locales (rule membership_step_unique)

lemma membership_step_owner:
  assumes "members_inv env s" and "membership_step env tc key s op = Inr s'" and "owners s tenant \<noteq> []"
  shows "owners s' tenant \<noteq> []"
proof -
  from assms(1) have u: "unique_key membership_key (tb_memberships s)" and ok: "uuid_text_ok (ce_platform env)"
    by (simp_all add: members_inv_def)
  from assms(2) ok show ?thesis
  proof (cases rule: membership_step_cases)
    case same
    with assms(3) show ?thesis by (simp add: owners_cong [OF same])
  next
    case (joined i now who membership_id roles s1)
    with join_grows_owners [OF joined(1), of tenant] assms(3) show ?thesis
      by (auto simp: owners_cong [OF joined(2,3)])
  next
    case (changed c m)
    from change_keeps_owner [OF changed u assms(3)] show ?thesis .
  next
    case (revoked c m)
    from revoke_keeps_owner [OF revoked u assms(3)] show ?thesis .
  qed
qed

text \<open>
  C8: a tenant never loses its last owner. From a database in which membership handles are unique,
  whatever invitations, retrievals, acceptances, role changes and revocations are attempted by
  anybody and in any order, a tenant that has an active owner still has one.
\<close>

theorem last_owner_remains:
  assumes "uuid_text_ok (ce_platform env)" and "unique_key membership_key (tb_memberships s)"
    and "owners s tenant \<noteq> []"
  shows "owners (attempts (membership_step env tc key) s ops) tenant \<noteq> []"
proof (rule membership_ops.attempts_stable [where A = UNIV and P = "\<lambda>s. owners s tenant \<noteq> []"])
  show "members_inv env s" using assms(1,2) by (simp add: members_inv_def)
qed (use assms(3) membership_step_owner in auto)

text \<open>The roles an actor may give: any for an owner, otherwise those it has itself, never ownership.\<close>

definition may_assign :: "platform \<Rightarrow> database \<Rightarrow> command_actor \<Rightarrow> string \<Rightarrow> bool" where
  "may_assign pf s actor role \<longleftrightarrow>
     (\<exists>own. actor_membership_roles pf s actor = Inr own
        \<and> (''OWNER'' \<in> set own \<or> role \<in> set own \<and> role \<noteq> ''OWNER''))"

lemma require_assignable_may:
  "require_assignable_roles pf s actor roles = Inr u \<Longrightarrow> role \<in> set roles \<Longrightarrow> may_assign pf s actor role"
  by (auto simp: require_assignable_roles_def may_assign_def rbind_Inr_iff list_ex_iff split: if_splits)

text \<open>
  C16: nobody gives away a role they do not have. A role change, a revocation or an invitation that
  succeeds adds only roles (to a membership or to an invitation) that its author may assign, inside
  the author's tenant; and the membership of an owner is changed by an owner only.
\<close>

theorem roles_are_never_escalated:
  assumes "change_membership pf s c = Inr (m, s') \<or> revoke_membership pf s c = Inr (m, s')
      \<or> invite_membership pf tc key i now s c = Inr (m, s')"
  shows "(\<forall>t j role. has_role_row s' t j role \<and> \<not> has_role_row s t j role \<longrightarrow>
        may_assign pf s (ac_actor c) role \<and> parse_uuid pf (ca_tenant_id (ac_actor c)) = Inr t)
    \<and> (\<forall>q role. q \<in> set (tb_invites s') \<and> q \<notin> set (tb_invites s) \<and> role \<in> set (mi_roles q) \<longrightarrow>
        may_assign pf s (ac_actor c) role \<and> parse_uuid pf (ca_tenant_id (ac_actor c)) = Inr (mi_tenant q))
    \<and> (\<forall>t q. q \<in> set (owners s t) \<and> q \<notin> set (owners s' t) \<longrightarrow> may_assign pf s (ac_actor c) ''OWNER'')"
proof -
  consider (change) "change_membership pf s c = Inr (m, s')" | (revoke) "revoke_membership pf s c = Inr (m, s')"
    | (invite) "invite_membership pf tc key i now s c = Inr (m, s')" using assms by blast
  then show ?thesis
  proof cases
    case change
    then show ?thesis
    proof (rule change_membership_Inr)
      fix t i row roles version primary own
      assume t: "parse_uuid pf (ca_tenant_id (ac_actor c)) = Inr t"
        and own: "actor_membership_roles pf s (ac_actor c) = Inr own"
          "''OWNER'' \<in> set own \<or> set roles \<subseteq> set own \<and> ''OWNER'' \<notin> set roles \<and> \<not> has_role_row s t i ''OWNER''"
        and s': "s' = s\<lparr>tb_membership_roles := filter (\<lambda>r. \<not> (mr_tenant r = t \<and> mr_membership_id r = i)) (tb_membership_roles s)
            @ map (\<lambda>role. \<lparr> mr_tenant = t, mr_membership_id = i, mr_role = role \<rparr>) roles,
          tb_memberships := update_where (\<lambda>m. membership_key m = (t, i))
            (\<lambda>m. bump_membership_epochs m (m\<lparr>me_role := primary, me_version := version,
               me_membership_epoch := me_membership_epoch m + 1,
               me_permission_epoch := me_permission_epoch m + 1\<rparr>)) (tb_memberships s)\<rparr>"
      have other: "touches_only (t, i) s s'"
        by (rule update_touches_only) (auto simp: s' has_role_row_def list_ex_iff)
      have new: "t' = t \<and> role \<in> set roles" if "has_role_row s' t' j role" "\<not> has_role_row s t' j role" for t' j role
        using that by (auto simp: s' has_role_row_def list_ex_iff)
      have may: "may_assign pf s (ac_actor c) role" if "role \<in> set roles" for role
        using that own by (auto simp: may_assign_def)
      have "may_assign pf s (ac_actor c) ''OWNER''" if "q \<in> set (owners s t')" "q \<notin> set (owners s' t')" for t' q
      proof -
        from owner_untouched [OF other that(1)] that(2) have "membership_key q = (t, i)" by blast
        with that(1) have "has_role_row s t i ''OWNER''" by (auto simp: mem_owners_iff)
        with own show ?thesis by (auto simp: may_assign_def)
      qed
      moreover have "tb_invites s' = tb_invites s" by (simp add: s')
      ultimately show ?thesis using new may t by (intro conjI allI impI) (blast | simp)+
    qed
  next
    case revoke
    then show ?thesis
    proof (rule revoke_membership_Inr)
      fix t i row version
      assume last: "has_role_row s t i ''OWNER'' \<Longrightarrow> 1 < length (owners s t)
           \<and> (\<exists>own. actor_membership_roles pf s (ac_actor c) = Inr own \<and> ''OWNER'' \<in> set own)"
        and s': "s' = s\<lparr>tb_memberships := update_where (\<lambda>m. membership_key m = (t, i))
            (\<lambda>m. bump_membership_epochs m (m\<lparr>me_status := ''REVOKED'', me_version := version,
               me_membership_epoch := me_membership_epoch m + 1,
               me_permission_epoch := me_permission_epoch m + 1\<rparr>)) (tb_memberships s)\<rparr>"
      have other: "touches_only (t, i) s s'"
        by (rule update_touches_only) (auto simp: s' has_role_row_def)
      have "may_assign pf s (ac_actor c) ''OWNER''" if "q \<in> set (owners s t')" "q \<notin> set (owners s' t')" for t' q
      proof -
        from owner_untouched [OF other that(1)] that(2) have "membership_key q = (t, i)" by blast
        with that(1) have "has_role_row s t i ''OWNER''" by (auto simp: mem_owners_iff)
        with last show ?thesis by (auto simp: may_assign_def)
      qed
      moreover have "has_role_row s' t j role = has_role_row s t j role" "tb_invites s' = tb_invites s" for t j role
        by (simp_all add: s' has_role_row_def)
      ultimately show ?thesis by (intro conjI allI impI) (blast | simp)+
    qed
  next
    case invite
    then show ?thesis
    proof (rule invite_membership_Inr)
      fix tenant roles row
      assume t: "parse_uuid pf (ca_tenant_id (ac_actor c)) = Inr tenant"
        and a: "require_assignable_roles pf s (ac_actor c) roles = Inr ()"
        and r: "invite_row_key row = (tenant, i)" "mi_roles row = roles"
        and s': "s' = s\<lparr>tb_invites := tb_invites s @ [row]\<rparr>"
      have "has_role_row s' t j role = has_role_row s t j role" "owners s' t = owners s t" for t j role
        by (simp_all add: s' has_role_row_def owners_def)
      moreover have "q = row" if "q \<in> set (tb_invites s')" "q \<notin> set (tb_invites s)" for q
        using that by (auto simp: s')
      ultimately show ?thesis
        using require_assignable_may [OF a] t r by (intro conjI allI impI) (blast | fastforce)+
    qed
  qed
qed

section \<open>An invitation is used once\<close>

lemma row_at_other_key:
  assumes "k' \<noteq> k" and "\<And>r. key (f r) = key r"
  shows "row_at key k (update_where (\<lambda>r. key r = k') f t) = row_at key k t"
  using assms by (induction t) auto

lemma open_invite_Inr:
  assumes "open_invite pf now s claims raw email = Inr i"
  shows "row_at invite_row_key (ix_tenant_id claims, ix_invite_id claims) (tb_invites s) = Some i"
    and "mi_consumed_at i = None" and "now < mi_expires_at i" and "mi_email i = email"
    and "mi_token_digest i = digest_bytes pf raw" and "invite_row_key i = (ix_tenant_id claims, ix_invite_id claims)"
  using assms by (auto simp: open_invite_def rbind_Inr_iff ok_or_Inr_iff split: if_splits dest: row_at_SomeD)

lemma consumed_invite_stays:
  assumes "members_inv env s" and "membership_step env tc key s op = Inr s'"
    and "row_at invite_row_key k (tb_invites s) = Some q" and "mi_consumed_at q \<noteq> None"
  shows "row_at invite_row_key k (tb_invites s') = Some q"
proof (cases op)
  case (InviteMember i now c)
  with assms(2) obtain m where "invite_membership (ce_platform env) tc key i now s c = Inr (m, s')"
    by (auto simp: rbind_Inr_iff)
  then show ?thesis by (rule invite_membership_Inr) (simp add: row_at_append assms(3))
next
  case (RetrieveSecret ids now actor i)
  with assms(2) obtain t where "retrieve_membership_invite_secret (ce_platform env) tc key ids now s actor i = Inr (t, s')"
    by (auto simp: rbind_Inr_iff)
  then show ?thesis
  proof (rule retrieve_secret_Inr)
    fix tenant row a
    assume r: "row_at invite_row_key (tenant, i) (tb_invites s) = Some row" "mi_consumed_at row = None"
      and s': "s' = s\<lparr>tb_invites := update_where (\<lambda>q. invite_row_key q = (tenant, i)) (\<lambda>q. q\<lparr>mi_secret_retrieved_at := Some now\<rparr>) (tb_invites s),
            tb_audit := tb_audit s @ [a]\<rparr>"
    from r assms(3,4) have "(tenant, i) \<noteq> k" by (cases "(tenant, i) = k") simp_all
    from row_at_other_key [OF this, of invite_row_key "\<lambda>q. q\<lparr>mi_secret_retrieved_at := Some now\<rparr>" "tb_invites s"] assms(3)
    show ?thesis by (simp add: s')
  qed
next
  case (AcceptInvite ids now c)
  with assms(2) obtain r where "execute_membership_accept_bootstrap env tc key ids now s c = Inr (r, s')"
    by (auto simp: rbind_Inr_iff)
  moreover from assms(1) have "uuid_text_ok (ce_platform env)" by (simp add: members_inv_def)
  ultimately show ?thesis
  proof (cases rule: accept_Inr)
    case replayed
    with assms(3) show ?thesis by simp
  next
    case (joined raw claims email i roles s1)
    note oi = open_invite_Inr [OF joined(5)]
    from oi(1,2,6) assms(3,4) have ne: "invite_row_key i \<noteq> k" by (cases "invite_row_key i = k") simp_all
    from joined(7) show ?thesis
    proof (rule join_tenant_Inr)
      fix primary
      let ?f = "\<lambda>q. q\<lparr>mi_consumed_at := Some now, mi_consumed_by := Some (vi_principal_id (bc_identity c)),
             mi_membership_id := Some (handler_ids ids 0), mi_version := mi_version q + 1\<rparr>"
      assume s1: "s1 = s\<lparr>tb_memberships := tb_memberships s @ [\<lparr> me_tenant = mi_tenant i, me_principal_id = vi_principal_id (bc_identity c),
          me_membership_id = handler_ids ids 0, me_role = primary, me_status = ''ACTIVE'', me_membership_epoch = 1,
          me_permission_epoch = 1, me_version = 1 \<rparr>],
        tb_membership_roles := tb_membership_roles s @
          map (\<lambda>role. \<lparr> mr_tenant = mi_tenant i, mr_membership_id = handler_ids ids 0, mr_role = role \<rparr>) roles,
        tb_invites := update_where (\<lambda>q. invite_row_key q = invite_row_key i) ?f (tb_invites s)\<rparr>"
      from row_at_other_key [OF ne, of invite_row_key ?f "tb_invites s"] assms(3) joined(10)
      show ?thesis by (simp add: s1)
    qed
  qed
next
  case (ChangeMember c)
  with assms(2) obtain m where "change_membership (ce_platform env) s c = Inr (m, s')" by (auto simp: rbind_Inr_iff)
  then show ?thesis by (rule change_membership_Inr) (simp add: assms(3))
next
  case (RevokeMember c)
  with assms(2) obtain m where "revoke_membership (ce_platform env) s c = Inr (m, s')" by (auto simp: rbind_Inr_iff)
  then show ?thesis by (rule revoke_membership_Inr) (simp add: assms(3))
qed

text \<open>
  C17: an invitation admits one person, the one it names. When an acceptance changes anything, the
  token it presented is the unexpired, unused invitation's own, the identity's verified address is
  the invited one, and the new active membership has exactly the invited roles. After that, whatever
  membership operations follow, no acceptance of the same invitation changes anything.
\<close>

theorem invitation_admits_once:
  assumes "execute_membership_accept_bootstrap env tc key ids now s c = Inr (r, s1)" and "s1 \<noteq> s"
    and "uuid_text_ok (ce_platform env)" and "unique_key membership_key (tb_memberships s)"
  shows "\<exists>raw claims i m.
    field de_string (bc_input c) ''invite_token'' = Inr raw \<and> verify_token (ce_platform env) tc key raw = Inr claims
    \<and> row_at invite_row_key (ix_tenant_id claims, ix_invite_id claims) (tb_invites s) = Some i
    \<and> mi_consumed_at i = None \<and> now < mi_expires_at i
    \<and> mi_token_digest i = digest_bytes (ce_platform env) raw \<and> verified_email s (bc_identity c) = Inr (mi_email i)
    \<and> m \<in> set (tb_memberships s1) \<and> m \<notin> set (tb_memberships s) \<and> me_status m = ''ACTIVE''
    \<and> member_key m = (ix_tenant_id claims, vi_principal_id (bc_identity c))
    \<and> (\<forall>role. has_role_row s1 (me_tenant m) (me_membership_id m) role \<longleftrightarrow>
         role \<in> set (mi_roles i) \<or> has_role_row s (me_tenant m) (me_membership_id m) role)
    \<and> (\<forall>ops ids' now' c' raw' r' s2.
         field de_string (bc_input c') ''invite_token'' = Inr raw'
         \<and> verify_token (ce_platform env) tc key raw' = Inr claims
         \<and> execute_membership_accept_bootstrap env tc key ids' now' (attempts (membership_step env tc key) s1 ops) c'
             = Inr (r', s2)
         \<longrightarrow> s2 = attempts (membership_step env tc key) s1 ops)"
  using assms(1,3)
proof (cases rule: accept_Inr)
  case replayed
  with assms(2) show ?thesis by simp
next
  case (joined raw claims email i roles s0)
  note oi = open_invite_Inr [OF joined(5)]
  let ?k = "(ix_tenant_id claims, ix_invite_id claims)" and ?who = "vi_principal_id (bc_identity c)"
  from joined(7) show ?thesis
  proof (rule join_tenant_Inr)
    fix primary
    let ?m = "\<lparr> me_tenant = mi_tenant i, me_principal_id = ?who, me_membership_id = handler_ids ids 0,
      me_role = primary, me_status = ''ACTIVE'', me_membership_epoch = 1, me_permission_epoch = 1, me_version = 1 \<rparr>"
    let ?f = "\<lambda>q. q\<lparr>mi_consumed_at := Some now, mi_consumed_by := Some ?who,
             mi_membership_id := Some (handler_ids ids 0), mi_version := mi_version q + 1\<rparr>"
    assume new: "\<forall>m \<in> set (tb_memberships s). member_key m \<noteq> (mi_tenant i, ?who)
        \<and> membership_key m \<noteq> (mi_tenant i, handler_ids ids 0)"
      and s0: "s0 = s\<lparr>tb_memberships := tb_memberships s @ [?m],
        tb_membership_roles := tb_membership_roles s @
          map (\<lambda>role. \<lparr> mr_tenant = mi_tenant i, mr_membership_id = handler_ids ids 0, mr_role = role \<rparr>) roles,
        tb_invites := update_where (\<lambda>q. invite_row_key q = invite_row_key i) ?f (tb_invites s)\<rparr>"
    have used: "row_at invite_row_key ?k (tb_invites s1) = Some (?f i)"
      using row_at_update_where [of invite_row_key ?f ?k "\<lambda>q. invite_row_key q = invite_row_key i" "tb_invites s"] oi(1,6) joined(10)
      by (simp add: s0)
    have inv: "members_inv env s1"
      using assms(3,4) new joined(8) by (simp add: members_inv_def s0 unique_key_snoc row_at_None_iff) force
    have later: "row_at invite_row_key ?k (tb_invites (attempts (membership_step env tc key) s1 ops)) = Some (?f i)"
      for ops
      by (rule membership_ops.attempts_stable [where A = UNIV and P = "\<lambda>t. row_at invite_row_key ?k (tb_invites t) = Some (?f i)"])
        (use consumed_invite_stays inv used in auto)
    have dead: "s2 = t" if "field de_string (bc_input c') ''invite_token'' = Inr raw'"
        "verify_token (ce_platform env) tc key raw' = Inr claims"
        "execute_membership_accept_bootstrap env tc key ids' now' t c' = Inr (r', s2)"
        "row_at invite_row_key ?k (tb_invites t) = Some (?f i)" for ids' now' c' raw' r' s2 t
      using that(3) assms(3)
    proof (cases rule: accept_Inr)
      case (joined raw'' claims' email' i' roles' s3)
      with that(1,2) have "claims' = claims" by simp
      with open_invite_Inr(1,2) [OF joined(5)] that(4) show ?thesis by auto
    qed
    have roles: "has_role_row s1 (mi_tenant i) (handler_ids ids 0) role \<longleftrightarrow>
        role \<in> set (mi_roles i) \<or> has_role_row s (mi_tenant i) (handler_ids ids 0) role" for role
      using normalize_roles_Inr [OF joined(6)] joined(9) by (auto simp: has_role_row_def list_ex_iff s0) force
    have "?m \<in> set (tb_memberships s1)" "?m \<notin> set (tb_memberships s)"
      using joined(8) new by (auto simp: s0)
    then show ?thesis
      using joined(1,2,4) oi roles dead [OF _ _ _ later]
      by (intro exI [of _ raw] exI [of _ claims] exI [of _ i] exI [of _ ?m]) (auto simp del: split_paired_All)
  qed
qed

section \<open>A sample tenant\<close>

fun hex_decode :: "string \<Rightarrow> string option" where
  "hex_decode [] = Some []"
| "hex_decode [_] = None"
| "hex_decode (a # b # s) = map_option (Cons (char_of (16 * (byte a - 97) + (byte b - 97)))) (hex_decode s)"

definition hex_encode :: "string \<Rightarrow> string" where
  "hex_encode s = concat (map (\<lambda>c. [char_of (97 + byte c div 16), char_of (97 + byte c mod 16)]) s)"

definition sample_codec :: token_codec where
  "sample_codec = \<lparr> tc_hmac = \<lambda>_ _. replicate 32 (CHR ''k''), tc_encode = hex_encode,
     tc_decode = hex_decode, tc_in_range = \<lambda>_. True \<rparr>"

lemma hex_chars:
  "byte (char_of (97 + byte c div 16)) = 97 + byte c div 16" "byte (char_of (97 + byte c mod 16)) = 97 + byte c mod 16"
  "byte c div 16 < 16"
proof -
  have "byte c < 16 * 16" using of_char_mod_256 [of c, where 'a = nat] by linarith
  then show "byte c div 16 < 16" by (rule less_mult_imp_div_less)
  then show "byte (char_of (97 + byte c div 16)) = 97 + byte c div 16"
    "byte (char_of (97 + byte c mod 16)) = 97 + byte c mod 16" by simp_all
qed

lemma hex_roundtrip: "hex_decode (hex_encode s) = Some s"
proof -
  have "char_of (16 * (byte (char_of (97 + byte c div 16)) - 97) + (byte (char_of (97 + byte c mod 16)) - 97)) = c" for c
    unfolding hex_chars by simp
  then show ?thesis by (induction s) (simp_all add: hex_encode_def del: of_char_of)
qed

lemma hex_plain: "list_all plain_char (hex_encode s)"
proof -
  have "plain_char (char_of (97 + byte c div 16))" "plain_char (char_of (97 + byte c mod 16))" for c
    using hex_chars [of c] mod_less_divisor [of 16 "byte c"]
    by (simp_all add: plain_char_def is_ascii_alphanumeric_def del: mod_less_divisor)
  then show ?thesis by (induction s) (simp_all add: hex_encode_def)
qed

lemma sample_token_ok: "token_text_ok sample_platform sample_codec"
proof -
  have "length (hex_encode x) = 2 * length x" for x by (induction x) (simp_all add: hex_encode_def)
  moreover have "list_all plain_char (decimal n)" for n
    using decimal_digits [of n] by (auto simp: list_all_iff plain_char_def is_ascii_alphanumeric_def)
  moreover have "length (decimal (unat u)) \<le> 40" for u :: uuid
  proof -
    have "unat u < 2 ^ 128" using unsigned_less [of u] by simp
    also have "(2 :: nat) ^ 128 \<le> 10 ^ Suc 38" by simp
    finally show ?thesis using decimal_length [of "unat u" 38] by simp
  qed
  ultimately show ?thesis
    using hex_roundtrip hex_plain sample_platform_ok
    by (simp add: token_text_ok_def sample_codec_def uuid_text_ok_def) (simp add: sample_platform_def)
qed


definition sample_env :: command_env where
  "sample_env = \<lparr> ce_platform = sample_platform\<lparr>pf_canonical := \<lambda>_. Some ''{}''\<rparr>, ce_cedar = sample_cedar,
     ce_catalog = \<lambda>_ _. True, ce_put_immutable = \<lambda>_ _ _. Inr (), ce_get_bounded = \<lambda>_ _. Inr ''{}'' \<rparr>"

lemma sample_env_ok: "uuid_text_ok (ce_platform sample_env)"
  using sample_platform_ok by (simp add: sample_env_def uuid_text_ok_def)

definition invited_db :: database where
  "invited_db = member_db\<lparr>tb_invites := [\<lparr> mi_tenant = 1, mi_invite_id = 70, mi_email = ''a@b.c'',
       mi_roles = [''EDITOR''], mi_expires_at = 1000000,
       mi_token_digest = ''sha256:'' @ replicate 64 (CHR ''0''), mi_created_by = 2, mi_secret_retrieved_at = None,
       mi_consumed_at = None, mi_consumed_by = None, mi_membership_id = None, mi_version = 1, mi_created_at = 0 \<rparr>],
     tb_identities := [\<lparr> oi_principal_id = 3, oi_issuer = ''i'', oi_subject = ''s'', oi_email = Some '' A@b.C '',
       oi_email_verified = True \<rparr>]\<rparr>"

definition accept_env :: command_env where
  "accept_env = sample_env\<lparr>ce_platform := (ce_platform sample_env)\<lparr>pf_time_show := \<lambda>_. ''t''\<rparr>\<rparr>"

definition accept_sample :: accept_command where
  "accept_sample = \<lparr> bc_expected_tenant_id = 1,
     bc_identity = \<lparr> vi_principal_id = 3, vi_issuer = ''i'', vi_subject = ''s'' \<rparr>, bc_idempotency_key = ''k'',
     bc_fingerprint = ''sha256:'' @ replicate 64 (CHR ''0''),
     bc_input = JObj [(''invite_token'', JStr (derive_token (ce_platform accept_env) sample_codec ''k'' 70 1 1000000))] \<rparr>"

definition change_input :: "string \<Rightarrow> string list \<Rightarrow> (string \<times> json) list" where
  "change_input i roles = [(''membership_id'', JStr i), (''expected_version'', JNum 1), (''roles'', JArr (map JStr roles))]"

theorem last_owner_remains_witness:
  "owners invited_db 1 \<noteq> []
   \<and> owners (attempts (membership_step sample_env sample_codec ''k'') invited_db
       [ChangeMember (member_command ''membership.change'' ''a'' (change_input ''12'' [''VIEWER''])),
        RevokeMember (member_command ''membership.revoke'' ''b'' (change_input ''12'' []))]) 1 \<noteq> []"
proof
  show o: "owners invited_db 1 \<noteq> []" by code_simp
  have "unique_key membership_key (tb_memberships invited_db)" by code_simp
  from last_owner_remains [OF sample_env_ok this o]
  show "owners (attempts (membership_step sample_env sample_codec ''k'') invited_db
       [ChangeMember (member_command ''membership.change'' ''a'' (change_input ''12'' [''VIEWER''])),
        RevokeMember (member_command ''membership.revoke'' ''b'' (change_input ''12'' []))]) 1 \<noteq> []" .
qed

abbreviation promoted :: "(mutation \<times> database) outcome" where
  "promoted \<equiv> change_membership sample_platform invited_db
     (member_command ''membership.change'' ''a'' (change_input ''12'' [''OWNER'', ''EDITOR'']))"

theorem roles_are_never_escalated_witness:
  "is_ok promoted
   \<and> has_role_row (case promoted of Inr (_, s') \<Rightarrow> s' | Inl _ \<Rightarrow> invited_db) 1 12 ''EDITOR''
   \<and> may_assign sample_platform invited_db member_actor ''EDITOR''"
proof -
  have o: "is_ok promoted" by code_simp
  then obtain m s' where p: "promoted = Inr (m, s')" by (auto simp: is_ok_iff)
  have h: "has_role_row (case promoted of Inr (_, s') \<Rightarrow> s' | Inl _ \<Rightarrow> invited_db) 1 12 ''EDITOR''"
    "\<not> has_role_row invited_db 1 12 ''EDITOR''" by code_simp+
  have "ac_actor (member_command op k input) = member_actor" for op k input by (simp add: member_command_def)
  with roles_are_never_escalated [of sample_platform invited_db _ m s'] p h
  have "may_assign sample_platform invited_db member_actor ''EDITOR''" by fastforce
  with o h show ?thesis by blast
qed

abbreviation accepted :: "(command_receipt \<times> database) outcome" where
  "accepted \<equiv> execute_membership_accept_bootstrap accept_env sample_codec ''k'' (\<lambda>n. of_nat n + 100) 5 invited_db accept_sample"

lemma accept_fresh_sample:
  "case accept_fresh accept_env (\<lambda>n. of_nat n + 100) 5 invited_db \<lparr> bc_expected_tenant_id = 1,
     bc_identity = \<lparr> vi_principal_id = 3, vi_issuer = ''i'', vi_subject = ''s'' \<rparr>, bc_idempotency_key = ''k'',
     bc_fingerprint = ''sha256:'' @ replicate 64 (CHR ''0''), bc_input = inp \<rparr>
     \<lparr> ix_invite_id = 70, ix_tenant_id = 1, ix_expires_at = 1000000 \<rparr> raw ''a@b.c'' of
     Inr (r, s1) \<Rightarrow> length (tb_memberships s1) = 2 | Inl _ \<Rightarrow> False"
  by code_simp

lemma accept_sample_facts:
  "verify_token (ce_platform accept_env) sample_codec ''k'' (derive_token (ce_platform accept_env) sample_codec ''k'' 70 1 1000000)
     = Inr \<lparr> ix_invite_id = 70, ix_tenant_id = 1, ix_expires_at = 1000000 \<rparr>"
  "field de_string (bc_input accept_sample) ''invite_token'' =
     Inr (derive_token (ce_platform accept_env) sample_codec ''k'' 70 1 1000000)"
  "fingerprint (ce_platform accept_env) operation input = Some (''sha256:'' @ replicate 64 (CHR ''0''))"
  "verified_email invited_db (bc_identity accept_sample) = Inr ''a@b.c''"
  "accept_receipt accept_env 5 invited_db 1 accept_sample = Inr None"
  "row_at tn_id 1 (tb_tenants invited_db) = Some \<lparr> tn_id = 1, tn_status = ''ACTIVE'' \<rparr>"
proof -
  have "token_text_ok (ce_platform accept_env) sample_codec"
    using sample_token_ok by (simp add: token_text_ok_def accept_env_def sample_env_def)
  from verify_derived [OF this, of 1000000 "''k''" 70 1]
  show "verify_token (ce_platform accept_env) sample_codec ''k'' (derive_token (ce_platform accept_env) sample_codec ''k'' 70 1 1000000)
     = Inr \<lparr> ix_invite_id = 70, ix_tenant_id = 1, ix_expires_at = 1000000 \<rparr>"
    by (simp add: unix_seconds_def in_i64_def sample_codec_def)
  show "field de_string (bc_input accept_sample) ''invite_token'' =
     Inr (derive_token (ce_platform accept_env) sample_codec ''k'' 70 1 1000000)"
    by (simp add: accept_sample_def field_def)
  show "verified_email invited_db (bc_identity accept_sample) = Inr ''a@b.c''"
    unfolding accept_sample_def accept_command.simps by code_simp
  show "accept_receipt accept_env 5 invited_db 1 accept_sample = Inr None"
    by (simp add: accept_receipt_def invited_db_def member_db_def sample_db_def)
qed (simp_all add: fingerprint_def accept_env_def sample_env_def sample_platform_def digest_bytes_def
    invited_db_def member_db_def sample_db_def)

lemma accepted_grows:
  obtains r s1 where "accepted = Inr (r, s1)" and "length (tb_memberships s1) = 2"
proof -
  from accept_fresh_sample [of "bc_input accept_sample" "derive_token (ce_platform accept_env) sample_codec ''k'' 70 1 1000000"]
  obtain r s1 where "accept_fresh accept_env (\<lambda>n. of_nat n + 100) 5 invited_db accept_sample
     \<lparr> ix_invite_id = 70, ix_tenant_id = 1, ix_expires_at = 1000000 \<rparr>
     (derive_token (ce_platform accept_env) sample_codec ''k'' 70 1 1000000) ''a@b.c'' = Inr (r, s1)"
     "length (tb_memberships s1) = 2"
    by (auto simp: accept_sample_def split: sum.splits)
  moreover have "ce_catalog accept_env = (\<lambda>_ _. True)" "bc_expected_tenant_id accept_sample = 1"
    "bc_fingerprint accept_sample = ''sha256:'' @ replicate 64 (CHR ''0'')"
    by (simp_all add: accept_env_def sample_env_def accept_sample_def)
  ultimately show thesis
    by (intro that [of r s1])
      (simp_all add: execute_membership_accept_bootstrap_def accept_sample_facts Let_def)
qed

theorem invitation_admits_once_witness:
  "\<exists>s1 m. (\<exists>r. accepted = Inr (r, s1)) \<and> m \<in> set (tb_memberships s1) \<and> m \<notin> set (tb_memberships invited_db)
     \<and> member_key m = (1, 3) \<and> me_status m = ''ACTIVE''"
proof -
  obtain r s1 where a: "accepted = Inr (r, s1)" and len: "length (tb_memberships s1) = 2" by (rule accepted_grows)
  have "length (tb_memberships invited_db) = 1" and u: "unique_key membership_key (tb_memberships invited_db)"
    by code_simp+
  with len have ne: "s1 \<noteq> invited_db" by auto
  have ok: "uuid_text_ok (ce_platform accept_env)"
    using sample_env_ok by (simp add: accept_env_def uuid_text_ok_def)
  have "vi_principal_id (bc_identity accept_sample) = 3" by (simp add: accept_sample_def)
  with invitation_admits_once [OF a ne ok u] a accept_sample_facts(1,2) show ?thesis by fastforce
qed

end
