(* ===== verification/Artifacts.thy ===== *)
theory Artifacts
  imports Invocations Membership
begin

text \<open>
  The life of an artifact (\<open>artifact_commands.rs\<close>): an upload is begun, its bytes are spooled,
  checked and stored under a lease, and it is finalized; a deletion follows the lineage; a download
  is checked before it is handed out. The object store, the malware scanner and the decoders of
  images and JSON are ports or third-party code and parameters. A byte stream is its bytes and
  whether it ends in an error; the spool file on the local disk is its content, and \<open>tl_spool\<close> says
  whether the disk can be written. Deadlines are arguments: \<open>late\<close> is true when one passes.

  The theorems: the spool holds exactly the announced bytes; what becomes active was verified,
  whatever uploads, crashes and deletions are interleaved; deleted content stays out of reach; a
  download hands out the bytes its reference names.
\<close>

section \<open>Ports\<close>

datatype scan_verdict = ScanClean | ScanQuarantined string

record byte_stream =
  bs_bytes :: string
  bs_broken :: bool

record transfer_tools =
  tl_spool :: bool
  tl_image_ok :: "string \<Rightarrow> string \<Rightarrow> bool"
  tl_json_ok :: "string \<Rightarrow> bool"
  tl_scan_reader :: "string \<Rightarrow> int \<Rightarrow> scan_verdict outcome"
  tl_put_reader :: "string \<Rightarrow> string \<Rightarrow> int \<Rightarrow> string \<Rightarrow> unit outcome"
  tl_open_reader :: "string \<Rightarrow> int \<Rightarrow> (int \<times> byte_stream) outcome"

definition MAX_ARTIFACT_BYTES :: int where
  "MAX_ARTIFACT_BYTES = 1024 * 1024 * 1024"

definition UPLOAD_TTL_SECONDS :: int where
  "UPLOAD_TTL_SECONDS = 300"

section \<open>Checks of the bytes\<close>

definition spool_failure :: command_failure where
  "spool_failure = unavailable ''ARTIFACT_SPOOL_UNAVAILABLE''"

text \<open>The copy loop with its buffer of 64 KiB: what is left of the stream, and the spool file.\<close>

function spool_loop :: "nat \<Rightarrow> string \<Rightarrow> string \<Rightarrow> (string \<times> string) outcome" where
  "spool_loop remaining input file =
     (if remaining = 0 then Inr (input, file)
      else let count = min remaining (64 * 1024) in
        if length input < count then Inl (invalid ''ARTIFACT_STREAM_TRUNCATED'')
        else spool_loop (remaining - count) (drop count input) (file @ take count input))"
  by pat_completeness auto
termination
  by (relation "measure fst") auto

declare spool_loop.simps [simp del]

definition spool_exact ::
    "platform \<Rightarrow> transfer_tools \<Rightarrow> byte_stream \<Rightarrow> int \<Rightarrow> (string \<times> digest) outcome" where
  "spool_exact pf tools reader len =
     (if \<not> (1 \<le> len \<and> len \<le> MAX_ARTIFACT_BYTES) then Inl (invalid ''ARTIFACT_SIZE_INVALID'')
      else if \<not> tl_spool tools then Inl spool_failure
      else
      rbind (spool_loop (nat len) (bs_bytes reader) []) (\<lambda>(rest, file).
      if rest = [] \<and> bs_broken reader then Inl (invalid ''ARTIFACT_STREAM_INVALID'')
      else if rest \<noteq> [] then Inl (invalid ''ARTIFACT_SIZE_MISMATCH'')
      else
      rbind (map_err (\<lambda>_. unavailable ''DIGEST_FAILURE'') (digest_sha256 (pf_sha256_hex pf file))) (\<lambda>digest.
      Inr (file, digest))))"

definition validate_declared_mime :: "string \<Rightarrow> unit outcome" where
  "validate_declared_mime content_type =
     (if \<not> List.member [''application/octet-stream'', ''application/json'', ''text/plain'', ''text/csv'',
          ''application/pdf'', ''image/png'', ''image/jpeg'', ''application/wasm''] content_type
      then Inl (invalid ''ARTIFACT_MIME_UNSUPPORTED'') else Inr ())"

abbreviation bytes_of :: "nat list \<Rightarrow> string" where
  "bytes_of ns \<equiv> map char_of ns"

definition starts_with :: "string \<Rightarrow> string \<Rightarrow> bool" where
  "starts_with s p \<longleftrightarrow> take (length p) s = p"

definition ends_with :: "string \<Rightarrow> string \<Rightarrow> bool" where
  "ends_with s p \<longleftrightarrow> length p \<le> length s \<and> drop (length s - length p) s = p"

definition trim_ascii_end :: "string \<Rightarrow> string" where
  "trim_ascii_end s = rev (dropWhile (\<lambda>c. List.member [9, 10, 12, 13, 32 :: nat] (byte c)) (rev s))"

text \<open>\<open>windows(n).any(|slice| slice == marker)\<close>.\<close>

fun has_window :: "string \<Rightarrow> string \<Rightarrow> bool" where
  "has_window marker [] \<longleftrightarrow> marker = []"
| "has_window marker (c # s) \<longleftrightarrow> starts_with (c # s) marker \<or> has_window marker s"

definition active_markers :: "string list" where
  "active_markers = [''<script'', ''<!doctype html'', ''<html'', ''<?php'']"

definition mime_recognized :: "string \<Rightarrow> string \<Rightarrow> string \<Rightarrow> bool" where
  "mime_recognized content_type front tail =
     (if content_type = ''image/png''
      then starts_with front (bytes_of [137, 80, 78, 71, 13, 10, 26, 10])
        \<and> ends_with tail (bytes_of [0, 0, 0, 0, 73, 69, 78, 68, 174, 66, 96, 130])
      else if content_type = ''image/jpeg''
      then starts_with front (bytes_of [255, 216, 255]) \<and> ends_with tail (bytes_of [255, 217])
      else if content_type = ''application/pdf''
      then starts_with front ''%PDF-'' \<and> ends_with (trim_ascii_end tail) ''%%EOF''
      else if content_type = ''application/wasm''
      then starts_with front (bytes_of [0, 97, 115, 109]) \<and> 8 \<le> length front
      else if List.member [''application/json'', ''text/plain'', ''text/csv''] content_type
      then char_of (0 :: nat) \<notin> set front
      else content_type = ''application/octet-stream'')"

definition validate_mime_boundaries :: "string \<Rightarrow> string \<Rightarrow> string \<Rightarrow> unit outcome" where
  "validate_mime_boundaries content_type front tail =
     (if \<not> mime_recognized content_type front tail then Inl (precondition ''ARTIFACT_MIME_MISMATCH'')
      else if List.member [''image/png'', ''image/jpeg'', ''application/pdf''] content_type
        \<and> list_ex (\<lambda>bytes. list_ex (\<lambda>marker. has_window marker (to_ascii_lowercase bytes)) active_markers) [front, tail]
      then Inl (precondition ''ARTIFACT_POLYGLOT'')
      else Inr ())"

text \<open>The reads of the text check, 64 KiB at a time.\<close>

function chunks :: "nat \<Rightarrow> string \<Rightarrow> string list" where
  "chunks n s = (if s = [] then [] else take (max 1 n) s # chunks n (drop (max 1 n) s))"
  by pat_completeness auto
termination
  by (relation "measure (length \<circ> snd)") auto

declare chunks.simps [simp del]

definition validate_file_mime :: "transfer_tools \<Rightarrow> string \<Rightarrow> string \<Rightarrow> unit outcome" where
  "validate_file_mime tools file content_type =
     rbind (validate_declared_mime content_type) (\<lambda>_.
     rbind (validate_mime_boundaries content_type (take 8192 file) (drop (length file - 1024) file)) (\<lambda>_.
     if content_type = ''image/png'' \<or> content_type = ''image/jpeg''
     then (if tl_image_ok tools content_type file then Inr () else Inl (precondition ''ARTIFACT_MIME_MISMATCH''))
     else if content_type = ''application/json''
     then (if tl_json_ok tools file then Inr () else Inl (precondition ''ARTIFACT_JSON_INVALID''))
     else if content_type = ''text/plain'' \<or> content_type = ''text/csv''
     then utf8_stream (chunks (64 * 1024) file)
     else Inr ()))"

section \<open>Uploads\<close>

abbreviation upload_key :: "upload_row \<Rightarrow> uuid \<times> uuid" where
  "upload_key u \<equiv> (up_tenant u, up_id u)"

definition upload_ok :: "upload_row \<Rightarrow> bool" where
  "upload_ok u \<longleftrightarrow> up_state u \<in> {''OPEN'', ''UPLOADED'', ''FINALIZED'', ''EXPIRED'', ''FAILED''} \<and> 0 < up_version u"

definition upload_json ::
    "platform \<Rightarrow> uuid \<Rightarrow> uuid \<Rightarrow> uuid \<Rightarrow> int \<Rightarrow> string \<Rightarrow> string \<Rightarrow> timestamp \<Rightarrow> string \<Rightarrow> json" where
  "upload_json pf upload tenant artifact len digest content_type expires state =
     JObj [(''upload_id'', ser_uuid pf upload), (''tenant_id'', ser_uuid pf tenant), (''artifact_id'', ser_uuid pf artifact),
           (''upload_path'', JStr (''/v1/tenants/'' @ pf_uuid_show pf tenant @ ''/uploads/'' @ pf_uuid_show pf upload)),
           (''expected_size_bytes'', JNum len), (''expected_digest'', JStr digest), (''content_type'', JStr content_type),
           (''expires_at'', ser_time pf expires), (''state'', JStr state)]"

definition insert_artifact :: "artifact_row \<Rightarrow> database \<Rightarrow> database outcome" where
  "insert_artifact a s =
     rbind (sql (insert_row artifact_ok
              (\<lambda>a a'. artifact_key a' = artifact_key a \<or> af_storage_key a' = af_storage_key a)
              (tenant_known s (af_tenant a)) a (tb_artifacts s)))
       (\<lambda>t. Inr (s\<lparr>tb_artifacts := t\<rparr>))"

definition insert_upload :: "upload_row \<Rightarrow> database \<Rightarrow> database outcome" where
  "insert_upload u s =
     rbind (sql (insert_row upload_ok
              (\<lambda>u u'. upload_key u' = upload_key u \<or> (up_tenant u', up_artifact_id u') = (up_tenant u, up_artifact_id u))
              (row_at artifact_key (up_tenant u, up_artifact_id u) (tb_artifacts s) \<noteq> None) u (tb_uploads s)))
       (\<lambda>t. Inr (s\<lparr>tb_uploads := t\<rparr>))"

definition pending_artifact ::
    "platform \<Rightarrow> timestamp \<Rightarrow> uuid \<Rightarrow> uuid \<Rightarrow> uuid \<Rightarrow> digest \<Rightarrow> classification \<Rightarrow> string \<Rightarrow> int \<Rightarrow> artifact_row" where
  "pending_artifact pf now tenant artifact who digest cls content_type len =
     \<lparr> af_tenant = tenant, af_id = artifact, af_digest = digest, af_schema_version = ''1.0.0'',
       af_classification = classification_as_str cls, af_content_type = content_type, af_size_bytes = len,
       af_storage_key = ''pending/'' @ pf_uuid_show pf tenant @ ''/'' @ pf_uuid_show pf artifact,
       af_state = ''PENDING'', af_creator_id = who, af_legal_hold = False, af_created_at = now, af_version = 1 \<rparr>"

definition open_upload :: "uuid \<Rightarrow> uuid \<Rightarrow> uuid \<Rightarrow> uuid \<Rightarrow> timestamp \<Rightarrow> upload_row" where
  "open_upload tenant upload artifact who expires =
     \<lparr> up_tenant = tenant, up_id = upload, up_artifact_id = artifact, up_principal_id = who, up_expires_at = expires,
       up_state = ''OPEN'', up_observed_digest = None, up_observed_size_bytes = None, up_lease_id = None,
       up_lease_expires_at = None, up_scan_code = None, up_scanned_at = None, up_version = 1 \<rparr>"

definition begin_artifact ::
    "platform \<Rightarrow> (nat \<Rightarrow> uuid) \<Rightarrow> timestamp \<Rightarrow> database \<Rightarrow> authorized_command \<Rightarrow> (mutation \<times> database) outcome" where
  "begin_artifact pf ids now s command =
     (let input = ac_input command in
     rbind (parse_uuid pf (ca_tenant_id (ac_actor command))) (\<lambda>tenant.
     rbind (parse_uuid pf (ca_principal_id (ac_actor command))) (\<lambda>who.
     rbind (field de_classification input ''classification'') (\<lambda>cls.
     rbind (field de_string input ''content_type'') (\<lambda>content_type.
     rbind (field de_i64 input ''size_bytes'') (\<lambda>len.
     rbind (field de_digest input ''expected_digest'') (\<lambda>digest.
     rbind (validate_declared_mime content_type) (\<lambda>_.
     let open_count = length (filter (\<lambda>u. up_tenant u = tenant \<and> up_principal_id u = who \<and> up_state u = ''OPEN''
                        \<and> now < up_expires_at u) (tb_uploads s)) in
     if 20 \<le> open_count then Inl (failure_new ''UPLOAD_QUEUE_FULL'' Exhausted)
     else
     let artifact = ids 0; upload = ids 1; expires = now + seconds UPLOAD_TTL_SECONDS in
     rbind (insert_artifact (pending_artifact pf now tenant artifact who digest cls content_type len) s) (\<lambda>s1.
     rbind (insert_upload (open_upload tenant upload artifact who expires) s1) (\<lambda>s2.
     Inr (with_source_artifact
            (mutation_one pf ''UploadSession'' upload 1
               (upload_json pf upload tenant artifact len digest content_type expires ''OPEN'') ''Pending file upload'')
            artifact, s2)))))))))))"

text \<open>
  A PUT is three steps: the claim of a lease, the transfer outside of any transaction, and the
  settlement of its result. What the claim read is kept in an attempt.
\<close>

record upload_attempt =
  ua_tenant :: uuid
  ua_upload :: uuid
  ua_principal :: uuid
  ua_lease :: uuid
  ua_artifact :: uuid
  ua_size :: int
  ua_digest :: string
  ua_content_type :: string

definition own_upload :: "database \<Rightarrow> uuid \<Rightarrow> uuid \<Rightarrow> uuid \<Rightarrow> (upload_row \<times> artifact_row) option" where
  "own_upload s tenant upload who =
     (case find (\<lambda>u. upload_key u = (tenant, upload) \<and> up_principal_id u = who) (tb_uploads s) of
        None \<Rightarrow> None
      | Some u \<Rightarrow> map_option (Pair u) (row_at artifact_key (tenant, up_artifact_id u) (tb_artifacts s)))"

definition update_upload :: "uuid \<Rightarrow> uuid \<Rightarrow> (upload_row \<Rightarrow> upload_row) \<Rightarrow> database \<Rightarrow> database outcome" where
  "update_upload tenant upload f s =
     rbind (sql (update_rows (\<lambda>u. upload_key u = (tenant, upload)) f (\<lambda>u. in_i32 (up_version u)) upload_ok (tb_uploads s)))
       (\<lambda>t. Inr (s\<lparr>tb_uploads := t\<rparr>))"

definition claim_upload ::
    "platform \<Rightarrow> uuid \<Rightarrow> timestamp \<Rightarrow> database \<Rightarrow> command_actor \<Rightarrow> string \<Rightarrow> int option
     \<Rightarrow> (upload_attempt \<times> database) outcome" where
  "claim_upload pf lease now s actor upload_id content_length =
     rbind (parse_uuid pf upload_id) (\<lambda>upload.
     rbind (parse_uuid pf (ca_tenant_id actor)) (\<lambda>tenant.
     rbind (parse_uuid pf (ca_principal_id actor)) (\<lambda>who.
     rbind (begin_actor pf s actor) (\<lambda>_.
     rbind (ok_or not_found (own_upload s tenant upload who)) (\<lambda>(u, a).
     if up_expires_at u \<le> now then Inl (failure_new ''UPLOAD_EXPIRED'' Expired)
     else if up_state u \<noteq> ''OPEN'' \<or> af_state a \<noteq> ''PENDING'' then Inl (conflict ''IMMUTABLE_UPLOAD'')
     else if (case up_lease_expires_at u of None \<Rightarrow> False | Some end_time \<Rightarrow> now < end_time)
     then Inl (conflict ''UPLOAD_IN_PROGRESS'')
     else if \<not> (1 \<le> af_size_bytes a \<and> af_size_bytes a \<le> MAX_ARTIFACT_BYTES)
        \<or> (case content_length of None \<Rightarrow> False | Some n \<Rightarrow> n \<noteq> af_size_bytes a)
     then Inl (invalid ''ARTIFACT_SIZE_MISMATCH'')
     else
     rbind (update_upload tenant upload
              (\<lambda>u. u\<lparr>up_lease_id := Some lease, up_lease_expires_at := Some (now + seconds 40)\<rparr>) s) (\<lambda>s1.
     Inr (\<lparr> ua_tenant = tenant, ua_upload = upload, ua_principal = who, ua_lease = lease, ua_artifact = af_id a,
            ua_size = af_size_bytes a, ua_digest = af_digest a, ua_content_type = af_content_type a \<rparr>, s1)))))))"

definition staged_key :: "platform \<Rightarrow> upload_attempt \<Rightarrow> digest \<Rightarrow> string" where
  "staged_key pf at digest =
     ''uploads/'' @ pf_uuid_show pf (ua_tenant at) @ ''/'' @ pf_uuid_show pf (ua_artifact at) @ ''/''
       @ pf_uuid_show pf (ua_lease at) @ ''/'' @ trim_start_matches ''sha256:'' digest"

definition transfer_upload ::
    "platform \<Rightarrow> transfer_tools \<Rightarrow> upload_attempt \<Rightarrow> byte_stream \<Rightarrow> bool \<Rightarrow> (string \<times> digest) outcome" where
  "transfer_upload pf tools at reader late =
     (if late then Inl (unavailable ''UPLOAD_TIMEOUT'')
      else
      rbind (spool_exact pf tools reader (ua_size at)) (\<lambda>(file, actual_digest).
      if actual_digest \<noteq> ua_digest at then Inl (precondition ''ARTIFACT_DIGEST_MISMATCH'')
      else
      rbind (validate_file_mime tools file (ua_content_type at)) (\<lambda>_.
      rbind (tl_scan_reader tools file (ua_size at)) (\<lambda>verdict.
      case verdict of
        ScanQuarantined _ \<Rightarrow> Inl (precondition ''ARTIFACT_QUARANTINED'')
      | ScanClean \<Rightarrow>
          rbind (tl_put_reader tools (staged_key pf at actual_digest) file (ua_size at) (ua_content_type at)) (\<lambda>_.
          Inr (staged_key pf at actual_digest, actual_digest))))))"

definition update_artifacts ::
    "(artifact_row \<Rightarrow> bool) \<Rightarrow> (artifact_row \<Rightarrow> artifact_row) \<Rightarrow> database \<Rightarrow> database outcome" where
  "update_artifacts p f s =
     rbind (sql (update_rows p f (\<lambda>a. in_i32 (af_version a)) artifact_ok (tb_artifacts s)))
       (\<lambda>t. Inr (s\<lparr>tb_artifacts := t\<rparr>))"

definition quarantining :: "string \<Rightarrow> bool" where
  "quarantining code \<longleftrightarrow> List.member [''ARTIFACT_DIGEST_MISMATCH'', ''ARTIFACT_QUARANTINED'', ''ARTIFACT_MIME_MISMATCH'',
     ''ARTIFACT_POLYGLOT'', ''ARTIFACT_JSON_INVALID''] code"

text \<open>The new state, the scan code and the failure to report, with what the artifact row becomes.\<close>

definition settle_result ::
    "timestamp \<Rightarrow> upload_attempt \<Rightarrow> upload_row \<Rightarrow> (string \<times> digest) outcome \<Rightarrow> database
     \<Rightarrow> (string \<times> string \<times> command_failure option \<times> database) outcome" where
  "settle_result now at u result s =
     (case result of
        Inr (key, digest) \<Rightarrow>
          if up_expires_at u \<le> now
          then Inr (''EXPIRED'', ''UPLOAD_EXPIRED'', Some (failure_new ''UPLOAD_EXPIRED'' Expired), s)
          else
          rbind (if list_ex (\<lambda>a. artifact_key a \<noteq> (ua_tenant at, ua_artifact at) \<and> af_storage_key a = key) (tb_artifacts s)
                   \<and> list_ex (\<lambda>a. artifact_key a = (ua_tenant at, ua_artifact at) \<and> af_state a = ''PENDING'') (tb_artifacts s)
                 then Inl (database_failure (Some ''23505''))
                 else update_artifacts (\<lambda>a. artifact_key a = (ua_tenant at, ua_artifact at) \<and> af_state a = ''PENDING'')
                        (\<lambda>a. a\<lparr>af_storage_key := key\<rparr>) s) (\<lambda>s1.
          rbind (update_upload (ua_tenant at) (ua_upload at)
                   (\<lambda>u. u\<lparr>up_observed_digest := Some digest, up_observed_size_bytes := Some (ua_size at),
                         up_scanned_at := Some now\<rparr>) s1) (\<lambda>s2.
          Inr (''UPLOADED'', ''CLEAN'', None, s2)))
      | Inl error \<Rightarrow>
          if quarantining (cf_code error)
          then rbind (update_artifacts (\<lambda>a. artifact_key a = (ua_tenant at, ua_artifact at))
                        (\<lambda>a. a\<lparr>af_state := ''QUARANTINED'', af_version := af_version a + 1\<rparr>) s) (\<lambda>s1.
                 Inr (''FAILED'', cf_code error, Some error, s1))
          else Inr (''OPEN'', cf_code error, Some error, s))"

definition lease_live :: "timestamp \<Rightarrow> upload_attempt \<Rightarrow> upload_row \<Rightarrow> bool" where
  "lease_live now at u \<longleftrightarrow> up_lease_id u = Some (ua_lease at) \<and> up_state u = ''OPEN''
     \<and> (case up_lease_expires_at u of None \<Rightarrow> False | Some until \<Rightarrow> now < until)"

definition settle_upload ::
    "command_env \<Rightarrow> (nat \<Rightarrow> uuid) \<Rightarrow> timestamp \<Rightarrow> database \<Rightarrow> command_actor \<Rightarrow> upload_attempt \<Rightarrow> (string \<times> digest) outcome
     \<Rightarrow> (command_failure option \<times> database) outcome" where
  "settle_upload env ids now s actor at result =
     (let pf = ce_platform env; tenant = ua_tenant at; upload = ua_upload at in
     rbind (begin_actor pf s actor) (\<lambda>_.
     rbind (ok_or not_found (own_upload s tenant upload (ua_principal at))) (\<lambda>(u, a).
     if \<not> lease_live now at u then Inl (conflict ''UPLOAD_LEASE_STALE'')
     else
     rbind (settle_result now at u result s) (\<lambda>(state, scan_code, failure, s1).
     rbind (ok_or (precondition ''VERSION_EXHAUSTED'') (checked_i32 (up_version u + 1))) (\<lambda>version.
     rbind (update_upload tenant upload
              (\<lambda>u. u\<lparr>up_state := state, up_scan_code := Some scan_code, up_lease_id := None, up_lease_expires_at := None,
                    up_version := version\<rparr>) s1) (\<lambda>s2.
     rbind (record_change env (ids 1, ids 2, ids 3) now s2 actor ''artifact.upload''
              \<lparr> pc_resource = resource_ref_of pf ''UploadSession'' upload version,
                pc_value = upload_json pf upload tenant (ua_artifact at) (ua_size at) (ua_digest at) (ua_content_type at)
                  (up_expires_at u) state,
                pc_label = ''File upload '' @ state, pc_source_artifacts = [ua_artifact at] \<rparr> (ids 0)) (\<lambda>(_, s3).
     Inr (failure, s3))))))))"

text \<open>
  The whole PUT. \<open>others\<close> is what other transactions do between its claim and its settlement; a
  settled failure is committed and reported.
\<close>

definition put_upload ::
    "command_env \<Rightarrow> transfer_tools \<Rightarrow> (nat \<Rightarrow> uuid) \<Rightarrow> timestamp \<Rightarrow> timestamp \<Rightarrow> (database \<Rightarrow> database) \<Rightarrow> bool \<Rightarrow> bool
     \<Rightarrow> database \<Rightarrow> command_actor \<Rightarrow> string \<Rightarrow> byte_stream \<Rightarrow> int option \<Rightarrow> unit outcome \<times> database" where
  "put_upload env tools ids now later others permit late s actor upload_id reader content_length =
     (let pf = ce_platform env in
      if \<not> permit then (Inl (failure_new ''UPLOAD_CAPACITY_FULL'' Exhausted), s)
      else case claim_upload pf (ids 0) now s actor upload_id content_length of
        Inl e \<Rightarrow> (Inl e, s)
      | Inr (at, s1) \<Rightarrow>
          (case settle_upload env (\<lambda>n. ids (Suc n)) later (others s1) actor at (transfer_upload pf tools at reader late) of
             Inl e \<Rightarrow> (Inl e, others s1)
           | Inr (None, s2) \<Rightarrow> (Inr (), s2)
           | Inr (Some e, s2) \<Rightarrow> (Inl e, s2)))"

definition insert_rights :: "rights_row \<Rightarrow> database \<Rightarrow> database outcome" where
  "insert_rights r s =
     rbind (sql (insert_row rights_ok
              (\<lambda>r r'. rights_key r' = rights_key r \<or> (rt_tenant r' = rt_tenant r \<and> rt_rights_id r' = rt_rights_id r))
              (row_at artifact_key (rights_key r) (tb_artifacts s) \<noteq> None) r (tb_rights s)))
       (\<lambda>t. Inr (s\<lparr>tb_rights := t\<rparr>))"

definition import_rights :: "uuid \<Rightarrow> uuid \<Rightarrow> uuid \<Rightarrow> rights_row" where
  "import_rights tenant artifact i =
     \<lparr> rt_tenant = tenant, rt_artifact_id = artifact, rt_rights_id = i, rt_access_mode = ''MANUAL_IMPORT'',
       rt_allow_acquire = True, rt_allow_ai_analysis = False, rt_allow_transform = True,
       rt_allow_public_redistribution = False, rt_allowed_provider_profiles = [], rt_expires_at = None,
       rt_evidence_ref = None, rt_state = ''ACTIVE'', rt_version = 1 \<rparr>"

definition finalize_artifact ::
    "platform \<Rightarrow> (nat \<Rightarrow> uuid) \<Rightarrow> database \<Rightarrow> authorized_command \<Rightarrow> (mutation \<times> database) outcome" where
  "finalize_artifact pf ids s command =
     (let input = ac_input command in
     rbind (parse_uuid pf (ca_tenant_id (ac_actor command))) (\<lambda>tenant.
     rbind (field de_string input ''artifact_id'') (\<lambda>artifact_text.
     rbind (parse_uuid pf artifact_text) (\<lambda>artifact.
     rbind (field de_digest input ''observed_digest'') (\<lambda>observed.
     rbind (parse_uuid pf (ca_principal_id (ac_actor command))) (\<lambda>who.
     rbind (ok_or not_found (find (\<lambda>u. up_tenant u = tenant \<and> up_artifact_id u = artifact \<and> up_principal_id u = who)
              (tb_uploads s))) (\<lambda>u.
     rbind (ok_or not_found (row_at artifact_key (tenant, artifact) (tb_artifacts s))) (\<lambda>a.
     if up_state u \<noteq> ''UPLOADED'' \<or> af_state a \<noteq> ''PENDING'' \<or> up_scan_code u \<noteq> Some ''CLEAN''
     then Inl (precondition ''ARTIFACT_NOT_VERIFIED'')
     else if af_digest a \<noteq> observed \<or> up_observed_digest u \<noteq> Some (af_digest a)
        \<or> up_observed_size_bytes u \<noteq> Some (af_size_bytes a)
     then Inl (precondition ''ARTIFACT_DIGEST_MISMATCH'')
     else
     rbind (ok_or (precondition ''VERSION_EXHAUSTED'') (checked_i32 (up_version u + 1))) (\<lambda>version.
     rbind (update_artifacts (\<lambda>a. artifact_key a = (tenant, artifact))
              (\<lambda>a. a\<lparr>af_state := ''ACTIVE'', af_version := af_version a + 1\<rparr>) s) (\<lambda>s1.
     rbind (update_upload tenant (up_id u) (\<lambda>u. u\<lparr>up_state := ''FINALIZED'', up_version := version\<rparr>) s1) (\<lambda>s2.
     rbind (insert_rights (import_rights tenant artifact (ids 0)) s2) (\<lambda>s3.
     Inr (with_source_artifact
            (mutation_one pf ''UploadSession'' (up_id u) version
               (upload_json pf (up_id u) tenant artifact (af_size_bytes a) (af_digest a) (af_content_type a)
                  (up_expires_at u) ''FINALIZED'') ''Verified file upload'') artifact, s3)))))))))))))"

section \<open>Deletion\<close>

definition derived_from :: "lineage_row list \<Rightarrow> uuid \<Rightarrow> uuid list \<Rightarrow> uuid list" where
  "derived_from t tenant ids = map ln_derived_id (filter (\<lambda>l. ln_tenant l = tenant \<and> List.member ids (ln_source_id l)) t)"

text \<open>
  \<open>WITH RECURSIVE \<dots> UNION\<close>: each round joins the rows of the last one and keeps those that are new,
  so that the query ends on any lineage, cyclic or not.
\<close>

function affected :: "lineage_row list \<Rightarrow> uuid \<Rightarrow> uuid list \<Rightarrow> uuid list \<Rightarrow> uuid list" where
  "affected t tenant seen level =
     (if level = [] then seen
      else let fresh = remdups (filter (\<lambda>i. \<not> List.member seen i) (derived_from t tenant level))
        in affected t tenant (seen @ fresh) fresh)"
  by pat_completeness auto
termination
proof (relation "measures [\<lambda>(t, tenant, seen, level). card (ln_derived_id ` set t - set seen), \<lambda>(t, tenant, seen, level). length level]")
  fix t :: "lineage_row list" and tenant and seen level fresh :: "uuid list"
  assume l: "level \<noteq> []" and f: "fresh = remdups (filter (\<lambda>i. \<not> List.member seen i) (derived_from t tenant level))"
  show "((t, tenant, seen @ fresh, fresh), (t, tenant, seen, level)) \<in>
    measures [\<lambda>(t, tenant, seen, level). card (ln_derived_id ` set t - set seen), \<lambda>(t, tenant, seen, level). length level]"
  proof (cases "fresh = []")
    case False
    then obtain x where x: "x \<in> set fresh" by (meson list.set_sel(1))
    with f have "x \<in> ln_derived_id ` set t" "x \<notin> set seen" by (auto simp: derived_from_def List.member_iff)
    with x have "ln_derived_id ` set t - set (seen @ fresh) \<subset> ln_derived_id ` set t - set seen" by auto
    then show ?thesis by (simp add: psubset_card_mono)
  qed (use l in simp)
qed simp

declare affected.simps [simp del]

definition insert_tombstone :: "platform \<Rightarrow> uuid \<Rightarrow> uuid \<Rightarrow> database \<Rightarrow> database outcome" where
  "insert_tombstone pf tenant artifact s =
     rbind (sql (insert_or_ignore (\<lambda>_. True) (\<lambda>d d'. d' = d) (tenant_known s tenant)
              \<lparr> ts_tenant = tenant, ts_resource_type = ''Artifact'', ts_resource_id = pf_uuid_show pf artifact \<rparr>
              (tb_tombstones s)))
       (\<lambda>t. Inr (s\<lparr>tb_tombstones := t\<rparr>))"

definition revoke_rights :: "uuid \<Rightarrow> uuid list \<Rightarrow> database \<Rightarrow> database outcome" where
  "revoke_rights tenant artifacts s =
     rbind (sql (update_rows (\<lambda>r. rt_tenant r = tenant \<and> List.member artifacts (rt_artifact_id r) \<and> rt_state r = ''ACTIVE'')
              (\<lambda>r. r\<lparr>rt_state := ''REVOKED'', rt_version := rt_version r + 1\<rparr>) (\<lambda>r. in_i32 (rt_version r)) rights_ok
              (tb_rights s)))
       (\<lambda>t. Inr (s\<lparr>tb_rights := t\<rparr>))"

definition external_copy :: "platform \<Rightarrow> database \<Rightarrow> uuid \<Rightarrow> uuid list \<Rightarrow> bool" where
  "external_copy pf s tenant artifacts \<longleftrightarrow>
     list_ex (\<lambda>e. ef_tenant e = tenant
        \<and> list_ex (\<lambda>i. json_get ''artifact_id'' (ef_content_ref e) = Some (ser_uuid pf i)) artifacts
        \<and> List.member [''EXECUTING'', ''SUCCEEDED'', ''OUTCOME_UNKNOWN'', ''RECONCILING'', ''MANUAL_REVIEW''] (ef_state e))
       (tb_effects s)"

definition insert_deletion_request :: "deletion_request_row \<Rightarrow> database \<Rightarrow> database outcome" where
  "insert_deletion_request q s =
     rbind (sql (insert_row
              (\<lambda>q. dq_state q \<in> {''TOMBSTONED'', ''PENDING_EXTERNAL'', ''PURGE_PENDING'', ''PURGED''} \<and> 0 < dq_version q)
              (\<lambda>q q'. (dq_tenant q', dq_id q') = (dq_tenant q, dq_id q)) (tenant_known s (dq_tenant q)) q
              (tb_deletion_requests s)))
       (\<lambda>t. Inr (s\<lparr>tb_deletion_requests := t\<rparr>))"

definition deletion_state :: "platform \<Rightarrow> database \<Rightarrow> uuid \<Rightarrow> uuid list \<Rightarrow> string" where
  "deletion_state pf s tenant artifacts =
     (if external_copy pf s tenant artifacts then ''PENDING_EXTERNAL'' else ''PURGE_PENDING'')"

definition deletion_row ::
    "platform \<Rightarrow> uuid \<Rightarrow> uuid \<Rightarrow> uuid \<Rightarrow> string \<Rightarrow> uuid list \<Rightarrow> uuid \<Rightarrow> string \<Rightarrow> deletion_request_row" where
  "deletion_row pf tenant request i state artifacts who reason =
     \<lparr> dq_tenant = tenant, dq_id = request, dq_resource_type = ''Artifact'', dq_resource_id = pf_uuid_show pf i,
       dq_state = state, dq_affected_artifact_ids = artifacts, dq_requested_by = who, dq_reason = reason, dq_version = 1 \<rparr>"

text \<open>The rows a deletion writes, once it is decided.\<close>

definition tombstone_artifacts :: "platform \<Rightarrow> uuid \<Rightarrow> uuid list \<Rightarrow> database \<Rightarrow> database outcome" where
  "tombstone_artifacts pf tenant artifacts s =
     rbind (rfold (insert_tombstone pf tenant) artifacts s) (\<lambda>s1.
     rbind (update_artifacts (\<lambda>a. af_tenant a = tenant \<and> List.member artifacts (af_id a) \<and> af_state a \<noteq> ''PURGED'')
              (\<lambda>a. a\<lparr>af_state := ''TOMBSTONED'', af_version := af_version a + 1\<rparr>) s1)
       (revoke_rights tenant artifacts))"

definition request_deletion ::
    "command_env \<Rightarrow> (nat \<Rightarrow> uuid) \<Rightarrow> database \<Rightarrow> authorized_command \<Rightarrow> (mutation \<times> database) outcome" where
  "request_deletion env ids s command =
     (let pf = ce_platform env; input = ac_input command; actor = ac_actor command in
     rbind (field de_resource_ref input ''resource'') (\<lambda>target.
     rbind (field de_string input ''reason'') (\<lambda>reason.
     rbind (field de_string input ''confirmation'') (\<lambda>confirmation.
     if is_blank reason \<or> confirmation \<noteq> ''DELETE '' @ rr_resource_id target
     then Inl (precondition ''DELETION_CONFIRMATION_REQUIRED'')
     else
     rbind (parse_uuid pf (ca_tenant_id actor)) (\<lambda>tenant.
     if rr_resource_type target \<noteq> ''Artifact'' then Inl (precondition ''DELETION_RESOURCE_UNSUPPORTED'')
     else
     rbind (parse_uuid pf (rr_resource_id target)) (\<lambda>i.
     rbind (ok_or not_found (row_at artifact_key (tenant, i) (tb_artifacts s))) (\<lambda>row.
     if af_version row \<noteq> rr_version target then Inl (conflict ''STALE_VERSION'')
     else if af_legal_hold row then Inl (precondition ''LEGAL_HOLD_ACTIVE'')
     else
     let artifacts = sort (affected (tb_lineage s) tenant [i] [i]) in
     if list_ex (\<lambda>a. af_tenant a = tenant \<and> List.member artifacts (af_id a) \<and> af_legal_hold a) (tb_artifacts s)
     then Inl (precondition ''LEGAL_HOLD_ACTIVE'')
     else
     rbind (read_policy (ce_cedar env) pf s actor) (\<lambda>policy.
     if \<not> permits (ce_cedar env) policy ''deletion.request'' ''Artifact'' (rr_resource_id target)
            (btree_from [(''version'', JNum (rr_version target))])
     then Inl (denied ''DELETION_DENIED'')
     else
     rbind (parse_uuid pf (ca_principal_id actor)) (\<lambda>who.
     rbind (tombstone_artifacts pf tenant artifacts s) (\<lambda>s1.
     let state = deletion_state pf s tenant artifacts; request = ids 0 in
     rbind (insert_deletion_request (deletion_row pf tenant request i state artifacts who reason) s1) (\<lambda>s2.
     Inr (mutation_one pf ''DeletionRequest'' request 1
            (JObj [(''request_id'', ser_uuid pf request), (''resource'', ser_resource_ref target), (''state'', JStr state),
                   (''affected_artifact_ids'', JArr (map (ser_uuid pf) artifacts)),
                   (''physical_purge_complete'', JBool False), (''external_copy_removal_complete'', JBool False),
                   (''version'', JNum 1)])
            ''File deletion request'', s2))))))))))))"

section \<open>Downloads\<close>

record verified_artifact_download =
  vd_metadata :: stored_artifact
  vd_file :: string

text \<open>
  Metadata is read before and after the transfer, each time in its own transaction: \<open>s\<close> is the
  database of the first two reads and \<open>s'\<close> that of the last.
\<close>

definition verified_artifact_download ::
    "command_env \<Rightarrow> transfer_tools \<Rightarrow> bool \<Rightarrow> bool \<Rightarrow> database \<Rightarrow> database \<Rightarrow> command_actor \<Rightarrow> string
     \<Rightarrow> verified_artifact_download outcome" where
  "verified_artifact_download env tools permit late s s' actor text =
     (let pf = ce_platform env in
     if \<not> permit then Inl (failure_new ''ARTIFACT_TRANSFER_CAPACITY_FULL'' Exhausted)
     else
     rbind (artifact_metadata env s actor text) (\<lambda>metadata.
     rbind (begin_actor pf s actor) (\<lambda>_.
     rbind (parse_uuid pf (ca_tenant_id actor)) (\<lambda>tenant.
     rbind (parse_uuid pf text) (\<lambda>i.
     rbind (ok_or not_found (find (\<lambda>a. artifact_key a = (tenant, i) \<and> af_state a = ''ACTIVE'') (tb_artifacts s))) (\<lambda>a.
     if late then Inl (unavailable ''ARTIFACT_DOWNLOAD_TIMEOUT'')
     else
     rbind (tl_open_reader tools (af_storage_key a) (sa_size_bytes metadata)) (\<lambda>(size_bytes, reader).
     if size_bytes \<noteq> sa_size_bytes metadata then Inl (precondition ''ARTIFACT_INTEGRITY'')
     else
     rbind (spool_exact pf tools reader size_bytes) (\<lambda>(file, digest).
     if digest \<noteq> ar_digest (sa_reference metadata) then Inl (precondition ''ARTIFACT_INTEGRITY'')
     else
     rbind (artifact_metadata env s' actor text) (\<lambda>current.
     if sa_reference current \<noteq> sa_reference metadata then Inl (precondition ''ARTIFACT_INTEGRITY'')
     else Inr \<lparr> vd_metadata = current, vd_file = file \<rparr>)))))))))"

section \<open>The spool\<close>

lemma spool_loop_eq:
  "spool_loop n input content =
     (if n \<le> length input then Inr (drop n input, content @ take n input) else Inl (invalid ''ARTIFACT_STREAM_TRUNCATED''))"
proof (induction n input content rule: spool_loop.induct)
  case (1 n input content)
  show ?case
  proof (cases "n = 0 \<or> length input < min n (64 * 1024)")
    case True
    then show ?thesis by (subst spool_loop.simps) (auto simp: Let_def)
  next
    case False
    let ?c = "min n (64 * 1024)"
    have c: "take ?c input @ take (n - ?c) (drop ?c input) = take n input" "drop (n - ?c) (drop ?c input) = drop n input"
      by (simp_all add: take_add [symmetric])
    from False have nf: "n \<noteq> 0" "\<not> length input < ?c" by simp_all
    have "spool_loop n input content = spool_loop (n - ?c) (drop ?c input) (content @ take ?c input)"
      by (subst spool_loop.simps) (simp only: Let_def nf if_False)
    also have "\<dots> = (if n - ?c \<le> length (drop ?c input) then Inr (drop (n - ?c) (drop ?c input),
        (content @ take ?c input) @ take (n - ?c) (drop ?c input)) else Inl (invalid ''ARTIFACT_STREAM_TRUNCATED''))"
      using False by (intro 1) auto
    also have "n - ?c \<le> length (drop ?c input) \<longleftrightarrow> n \<le> length input" using False by auto
    finally show ?thesis by (simp only: append_assoc c)
  qed
qed

lemma spool_exact_Inr_iff:
  "spool_exact pf tools reader len = Inr (content, digest) \<longleftrightarrow>
     1 \<le> len \<and> len \<le> MAX_ARTIFACT_BYTES \<and> tl_spool tools \<and> \<not> bs_broken reader
     \<and> content = bs_bytes reader \<and> int (length content) = len \<and> digest_sha256 (pf_sha256_hex pf content) = Inr digest"
proof (cases "1 \<le> len \<and> len \<le> MAX_ARTIFACT_BYTES \<and> tl_spool tools")
  case True
  then have loop: "spool_exact pf tools reader len =
      (if length (bs_bytes reader) < nat len then Inl (invalid ''ARTIFACT_STREAM_TRUNCATED'')
       else if length (bs_bytes reader) = nat len \<and> bs_broken reader then Inl (invalid ''ARTIFACT_STREAM_INVALID'')
       else if length (bs_bytes reader) \<noteq> nat len then Inl (invalid ''ARTIFACT_SIZE_MISMATCH'')
       else rbind (map_err (\<lambda>_. unavailable ''DIGEST_FAILURE'') (digest_sha256 (pf_sha256_hex pf (bs_bytes reader))))
         (\<lambda>digest. Inr (bs_bytes reader, digest)))"
    unfolding spool_exact_def spool_loop_eq by simp
  from True have "length (bs_bytes reader) = nat len \<longleftrightarrow> int (length (bs_bytes reader)) = len" by linarith
  with True show ?thesis unfolding loop by (auto simp: rbind_Inr_iff map_err_Inr_iff)
qed (auto simp: spool_exact_def)

text \<open>
  The spool is exact. A stream is spooled exactly when it ends without an error after the
  announced number of bytes, which is positive and within the limit; the file is then the stream, and
  the digest that of the file. The loop over a buffer of 64 KiB always ends.
\<close>

theorem spool_is_exact:
  "spool_exact pf tools reader len = Inr (content, digest) \<longleftrightarrow>
     1 \<le> len \<and> len \<le> MAX_ARTIFACT_BYTES \<and> tl_spool tools \<and> \<not> bs_broken reader
     \<and> content = bs_bytes reader \<and> int (length content) = len \<and> digest_sha256 (pf_sha256_hex pf content) = Inr digest"
  by (rule spool_exact_Inr_iff)

lemma digest_sha256_bytes: "digest_sha256 (pf_sha256_hex pf b) = Inr d \<Longrightarrow> d = digest_bytes pf b"
  by (auto simp: digest_sha256_def digest_bytes_def split: if_splits)

section \<open>What becomes active was verified\<close>

definition verified_bytes :: "platform \<Rightarrow> transfer_tools \<Rightarrow> artifact_row \<Rightarrow> string \<Rightarrow> bool" where
  "verified_bytes pf tools a bytes \<longleftrightarrow>
     int (length bytes) = af_size_bytes a \<and> digest_bytes pf bytes = af_digest a
     \<and> validate_file_mime tools bytes (af_content_type a) = Inr ()
     \<and> tl_scan_reader tools bytes (af_size_bytes a) = Inr ScanClean
     \<and> tl_put_reader tools (af_storage_key a) bytes (af_size_bytes a) (af_content_type a) = Inr ()"

lemma transfer_upload_Inr:
  assumes "transfer_upload pf tools at reader late = Inr (key, digest)"
  shows "digest = ua_digest at" and "key = staged_key pf at digest"
    and "\<exists>bytes. int (length bytes) = ua_size at \<and> digest_bytes pf bytes = ua_digest at
      \<and> validate_file_mime tools bytes (ua_content_type at) = Inr ()
      \<and> tl_scan_reader tools bytes (ua_size at) = Inr ScanClean
      \<and> tl_put_reader tools key bytes (ua_size at) (ua_content_type at) = Inr ()"
proof -
  from assms obtain content actual verdict where sp: "spool_exact pf tools reader (ua_size at) = Inr (content, actual)"
    and d: "actual = ua_digest at" and mime: "validate_file_mime tools content (ua_content_type at) = Inr ()"
    and scan: "tl_scan_reader tools content (ua_size at) = Inr verdict"
    and rest: "(case verdict of ScanQuarantined _ \<Rightarrow> Inl (precondition ''ARTIFACT_QUARANTINED'')
      | ScanClean \<Rightarrow> rbind (tl_put_reader tools (staged_key pf at actual) content (ua_size at) (ua_content_type at))
          (\<lambda>_. Inr (staged_key pf at actual, actual))) = Inr (key, digest)"
    unfolding transfer_upload_def by (auto simp: rbind_Inr_iff split: if_split_asm)
  have clean: "verdict = ScanClean" using rest by (cases verdict) simp_all
  with rest have r: "digest = ua_digest at" "key = staged_key pf at digest"
    "tl_put_reader tools key content (ua_size at) (ua_content_type at) = Inr ()"
    unfolding d by (auto simp: rbind_Inr_iff)
  from r(1,2) show "digest = ua_digest at" and "key = staged_key pf at digest" .
  from sp d have f: "int (length content) = ua_size at" "digest_bytes pf content = ua_digest at"
    by (auto simp: spool_exact_Inr_iff dest: digest_sha256_bytes)
  with r mime scan clean show "\<exists>bytes. int (length bytes) = ua_size at \<and> digest_bytes pf bytes = ua_digest at
      \<and> validate_file_mime tools bytes (ua_content_type at) = Inr ()
      \<and> tl_scan_reader tools bytes (ua_size at) = Inr ScanClean
      \<and> tl_put_reader tools key bytes (ua_size at) (ua_content_type at) = Inr ()" by blast
qed


text \<open>
  The system of uploads: the database and the attempts in flight. A crash of a transfer is an
  attempt that is never settled.
\<close>

type_synonym upload_system = "database \<times> upload_attempt list"

datatype artifact_op =
    Begin_Artifact "nat \<Rightarrow> uuid" timestamp authorized_command
  | Claim_Upload uuid timestamp command_actor string "int option"
  | Settle_Upload "nat \<Rightarrow> uuid" timestamp command_actor upload_attempt byte_stream bool
  | Finalize_Artifact "nat \<Rightarrow> uuid" authorized_command
  | Request_Deletion "nat \<Rightarrow> uuid" authorized_command

fun artifact_step :: "command_env \<Rightarrow> transfer_tools \<Rightarrow> upload_system \<Rightarrow> artifact_op \<Rightarrow> upload_system outcome" where
  "artifact_step env tools (s, ats) (Begin_Artifact ids now c) =
     rbind (begin_artifact (ce_platform env) ids now s c) (\<lambda>(m, s'). Inr (s', ats))"
| "artifact_step env tools (s, ats) (Claim_Upload lease now actor text len) =
     rbind (claim_upload (ce_platform env) lease now s actor text len) (\<lambda>(at, s'). Inr (s', at # ats))"
| "artifact_step env tools (s, ats) (Settle_Upload ids now actor at reader late) =
     (if at \<notin> set ats then Inl not_found
      else rbind (settle_upload env ids now s actor at (transfer_upload (ce_platform env) tools at reader late))
        (\<lambda>(failure, s'). Inr (s', remove1 at ats)))"
| "artifact_step env tools (s, ats) (Finalize_Artifact ids c) =
     rbind (finalize_artifact (ce_platform env) ids s c) (\<lambda>(m, s'). Inr (s', ats))"
| "artifact_step env tools (s, ats) (Request_Deletion ids c) =
     rbind (request_deletion env ids s c) (\<lambda>(m, s'). Inr (s', ats))"

abbreviation upload_target :: "upload_row \<Rightarrow> uuid \<times> uuid" where
  "upload_target u \<equiv> (up_tenant u, up_artifact_id u)"

definition pair_sound :: "platform \<Rightarrow> transfer_tools \<Rightarrow> upload_row \<Rightarrow> artifact_row \<Rightarrow> bool" where
  "pair_sound pf tools u a \<longleftrightarrow>
     (up_state u \<in> {''UPLOADED'', ''FINALIZED''} \<and> af_state a \<in> {''PENDING'', ''ACTIVE''} \<longrightarrow> (\<exists>b. verified_bytes pf tools a b))
     \<and> (af_state a = ''ACTIVE'' \<longrightarrow> up_state u \<in> {''UPLOADED'', ''FINALIZED''})"

definition attempt_sound :: "artifact_row list \<Rightarrow> upload_row list \<Rightarrow> upload_attempt \<Rightarrow> bool" where
  "attempt_sound arts ups at \<longleftrightarrow>
     (\<forall>a \<in> set arts. artifact_key a = (ua_tenant at, ua_artifact at) \<longrightarrow>
        af_size_bytes a = ua_size at \<and> af_digest a = ua_digest at \<and> af_content_type a = ua_content_type at)
     \<and> (\<exists>u \<in> set ups. upload_key u = (ua_tenant at, ua_upload at) \<and> up_artifact_id u = ua_artifact at)"

definition tables_sound ::
    "platform \<Rightarrow> transfer_tools \<Rightarrow> artifact_row list \<Rightarrow> upload_row list \<Rightarrow> upload_attempt list \<Rightarrow> bool" where
  "tables_sound pf tools arts ups ats \<longleftrightarrow>
     unique_key artifact_key arts \<and> unique_key upload_key ups \<and> unique_key upload_target ups
     \<and> (\<forall>u \<in> set ups. upload_target u \<in> artifact_key ` set arts)
     \<and> (\<forall>u \<in> set ups. \<forall>a \<in> set arts. artifact_key a = upload_target u \<longrightarrow> pair_sound pf tools u a)
     \<and> (\<forall>at \<in> set ats. attempt_sound arts ups at)"

definition uploads_inv :: "command_env \<Rightarrow> transfer_tools \<Rightarrow> upload_system \<Rightarrow> bool" where
  "uploads_inv env tools z \<longleftrightarrow> uuid_text_ok (ce_platform env)
     \<and> tables_sound (ce_platform env) tools (tb_artifacts (fst z)) (tb_uploads (fst z)) (snd z)"

text \<open>The three ways the tables change: rows are rewritten in place, an artifact or an upload is added.\<close>

definition keeps_artifact :: "(artifact_row \<Rightarrow> artifact_row) \<Rightarrow> bool" where
  "keeps_artifact f \<longleftrightarrow> (\<forall>a. artifact_key (f a) = artifact_key a \<and> af_size_bytes (f a) = af_size_bytes a
     \<and> af_digest (f a) = af_digest a \<and> af_content_type (f a) = af_content_type a)"

definition keeps_upload :: "(upload_row \<Rightarrow> upload_row) \<Rightarrow> bool" where
  "keeps_upload g \<longleftrightarrow> (\<forall>u. upload_key (g u) = upload_key u \<and> up_artifact_id (g u) = up_artifact_id u)"

lemma tables_rewritten:
  assumes "tables_sound pf tools arts ups ats" and "keeps_artifact f" and "keeps_upload g"
    and "\<And>u a. u \<in> set ups \<Longrightarrow> a \<in> set arts \<Longrightarrow> artifact_key a = upload_target u \<Longrightarrow> pair_sound pf tools u a
      \<Longrightarrow> pair_sound pf tools (if q u then g u else u) (if p a then f a else a)"
  shows "tables_sound pf tools (update_where p f arts) (update_where q g ups) ats"
proof -
  define F where "F = (\<lambda>a. if p a then f a else a)"
  define G where "G = (\<lambda>u. if q u then g u else u)"
  have f: "af_tenant (F a) = af_tenant a" "af_id (F a) = af_id a" "af_size_bytes (F a) = af_size_bytes a" "af_digest (F a) = af_digest a"
    "af_content_type (F a) = af_content_type a" for a
    using assms(2) by (simp_all add: keeps_artifact_def F_def)
  have g: "up_tenant (G u) = up_tenant u" "up_id (G u) = up_id u" "up_artifact_id (G u) = up_artifact_id u" for u
    using assms(3) by (simp_all add: keeps_upload_def G_def)
  have arts: "set (update_where p f arts) = F ` set arts" and ups: "set (update_where q g ups) = G ` set ups"
    by (simp_all add: set_update_where F_def G_def)
  note t = assms(1) [unfolded tables_sound_def]
  have "unique_key artifact_key (update_where p f arts)" "unique_key upload_key (update_where q g ups)"
    "unique_key upload_target (update_where q g ups)"
    using assms(1-3) by (simp_all add: unique_key_update_where keeps_artifact_def keeps_upload_def tables_sound_def)
  moreover have "artifact_key ` F ` set arts = artifact_key ` set arts" by (simp only: image_image f)
  then have "\<forall>u \<in> set (update_where q g ups). upload_target u \<in> artifact_key ` set (update_where p f arts)"
    using t unfolding arts ups by (simp only: g ball_simps) blast
  moreover have "pair_sound pf tools (G u) (F a)" if "u \<in> set ups" "a \<in> set arts" "artifact_key a = upload_target u" for u a
    using t that assms(4) [OF that] unfolding F_def G_def by blast
  then have "\<forall>u \<in> set (update_where q g ups). \<forall>a \<in> set (update_where p f arts).
      artifact_key a = upload_target u \<longrightarrow> pair_sound pf tools u a"
    unfolding arts ups by (simp only: f g ball_simps) blast
  moreover have "attempt_sound (update_where p f arts) (update_where q g ups) at" if "at \<in> set ats" for at
  proof -
    from t that have "attempt_sound arts ups at" by blast
    then show ?thesis unfolding attempt_sound_def arts ups by (simp only: f g ball_simps bex_simps) blast
  qed
  ultimately show ?thesis by (simp add: tables_sound_def)
qed

lemma tables_artifact_added:
  assumes "tables_sound pf tools arts ups ats" and "artifact_key a \<notin> artifact_key ` set arts"
  shows "tables_sound pf tools (arts @ [a]) ups ats"
proof -
  have u: "artifact_key a \<noteq> upload_target u" if "u \<in> set ups" for u
    using assms that unfolding tables_sound_def by (metis (no_types, lifting))
  have "attempt_sound (arts @ [a]) ups at" if "at \<in> set ats" for at
  proof -
    from that assms(1) obtain u where "attempt_sound arts ups at" "u \<in> set ups"
      "upload_target u = (ua_tenant at, ua_artifact at)" by (auto simp: tables_sound_def attempt_sound_def)
    with u [of u] show ?thesis by (auto simp: attempt_sound_def)
  qed
  moreover have "unique_key artifact_key (arts @ [a])"
    using assms by (simp add: tables_sound_def unique_key_snoc row_at_None_iff)
  ultimately show ?thesis using assms(1) u unfolding tables_sound_def by (auto simp del: prod.inject)
qed

lemma tables_upload_added:
  assumes "tables_sound pf tools arts ups ats" and "upload_key u \<notin> upload_key ` set ups"
    and "upload_target u \<notin> upload_target ` set ups" and "upload_target u \<in> artifact_key ` set arts"
    and "\<And>a. a \<in> set arts \<Longrightarrow> artifact_key a = upload_target u \<Longrightarrow> pair_sound pf tools u a"
  shows "tables_sound pf tools arts (ups @ [u]) ats"
  using assms unfolding tables_sound_def attempt_sound_def
  by (auto simp: unique_key_snoc row_at_None_iff simp del: prod.inject)


lemma update_artifacts_Inr: "update_artifacts p f s = Inr s' \<Longrightarrow> s' = s\<lparr>tb_artifacts := update_where p f (tb_artifacts s)\<rparr>"
  by (auto simp: update_artifacts_def rbind_Inr_iff sql_Inr_iff update_rows_Inr_iff)

lemma update_upload_Inr:
  "update_upload tenant upload f s = Inr s' \<Longrightarrow>
     s' = s\<lparr>tb_uploads := update_where (\<lambda>u. upload_key u = (tenant, upload)) f (tb_uploads s)\<rparr>"
  by (auto simp: update_upload_def rbind_Inr_iff sql_Inr_iff update_rows_Inr_iff)

lemma insert_artifact_Inr:
  "insert_artifact a s = Inr s' \<Longrightarrow> s' = s\<lparr>tb_artifacts := tb_artifacts s @ [a]\<rparr> \<and> artifact_key a \<notin> artifact_key ` set (tb_artifacts s)"
  by (auto simp: insert_artifact_def rbind_Inr_iff sql_Inr_iff insert_row_Inr_iff)

lemma insert_upload_Inr:
  "insert_upload u s = Inr s' \<Longrightarrow> s' = s\<lparr>tb_uploads := tb_uploads s @ [u]\<rparr> \<and> upload_key u \<notin> upload_key ` set (tb_uploads s)
     \<and> upload_target u \<notin> upload_target ` set (tb_uploads s) \<and> upload_target u \<in> artifact_key ` set (tb_artifacts s)"
  by (auto simp: insert_upload_def rbind_Inr_iff sql_Inr_iff insert_row_Inr_iff row_at_None_iff)

text \<open>The tables the records of a change leave to the commands of this theory.\<close>

definition adds_artifact :: "database \<Rightarrow> database \<Rightarrow> bool" where
  "adds_artifact s s' \<longleftrightarrow> (\<exists>a. tb_artifacts s' = tb_artifacts s @ [a] \<and> artifact_key a \<notin> artifact_key ` set (tb_artifacts s))
     \<and> tb_uploads s' = tb_uploads s \<and> tb_tombstones s' = tb_tombstones s"

lemma record_change_adds:
  assumes "record_change env ids now s actor action change correlation = Inr (r, s')"
    and "uuid_text_ok (ce_platform env)"
  shows "adds_artifact s s'"
proof -
  obtain i j k where ids: "ids = (i, j, k)" by (cases ids)
  from assms obtain tenant who s1 s2 aggregate where w: "write_projection env i now s actor change = Inr (r, s1)"
    and a: "insert_audit \<lparr> au_tenant = tenant, au_id = j, au_principal_id = who, au_action = action,
        au_resource_type = rr_resource_type (pc_resource change), au_resource_id = aggregate,
        au_correlation_id = correlation \<rparr> s1 = Inr s2"
    and e: "insert_outbox (new_event now tenant k aggregate (rr_version (pc_resource change)) action
        (JArr [ser_artifact_ref r]) (rr_resource_type (pc_resource change)) who correlation) s2 = Inr s'"
    unfolding record_change_def ids by (auto simp: Let_def rbind_Inr_iff)
  from w obtain bytes cls s0 where p: "persist_artifact env i now s actor bytes ''application/json'' cls = Inr (r, s0)"
    unfolding write_projection_def Let_def by (auto simp: rbind_Inr_iff ok_or_Inr_iff split: if_splits)
  have rest: "tb_artifacts s' = tb_artifacts s1" "tb_uploads s' = tb_uploads s1" "tb_tombstones s' = tb_tombstones s1"
    using a e by (auto simp: insert_audit_def insert_outbox_def Let_def rbind_Inr_iff sql_Inr_iff)
  from w assms(2) show ?thesis
  proof (rule write_projection_Inr)
    fix t x l q src
    assume x: "s1 = s\<lparr>tb_artifacts := tb_artifacts s @ [x], tb_lineage := l, tb_projections := tb_projections s @ [q]\<rparr>"
      "parse_uuid (ce_platform env) (ca_tenant_id actor) = Inr t" "artifact_key x = (t, i)"
    from p have "row_at artifact_key (t, i) (tb_artifacts s) = None" by (rule persist_artifact_Inr) (use x(2) in simp)
    with x rest show ?thesis by (auto simp: adds_artifact_def row_at_None_iff simp del: prod.inject)
  qed
qed

lemma adds_artifact_sound:
  "adds_artifact s s' \<Longrightarrow> tables_sound pf tools (tb_artifacts s) (tb_uploads s) ats
     \<Longrightarrow> tables_sound pf tools (tb_artifacts s') (tb_uploads s') ats"
  by (auto simp: adds_artifact_def intro: tables_artifact_added)

lemma begin_artifact_sound:
  assumes "begin_artifact pf ids now s c = Inr (m, s')" and "tables_sound pf tools (tb_artifacts s) (tb_uploads s) ats"
  shows "tables_sound pf tools (tb_artifacts s') (tb_uploads s') ats" and "tb_tombstones s' = tb_tombstones s"
proof -
  from assms(1) obtain tenant who cls ct len digest s1 where
      a: "insert_artifact (pending_artifact pf now tenant (ids 0) who digest cls ct len) s = Inr s1"
    and u: "insert_upload (open_upload tenant (ids 1) (ids 0) who (now + seconds UPLOAD_TTL_SECONDS)) s1 = Inr s'"
    unfolding begin_artifact_def Let_def by (simp only: rbind_Inr_iff split: if_split_asm) auto
  note ai = insert_artifact_Inr [OF a] and ui = insert_upload_Inr [OF u]
  show "tb_tombstones s' = tb_tombstones s" using ai ui by simp
  from assms(2) ai have t1: "tables_sound pf tools (tb_artifacts s1) (tb_uploads s1) ats"
    by (auto intro: tables_artifact_added)
  have pair: "pair_sound pf tools (open_upload tenant (ids 1) (ids 0) who (now + seconds UPLOAD_TTL_SECONDS)) x"
    if "x \<in> set (tb_artifacts s1)" "artifact_key x = (tenant, ids 0)" for x
  proof -
    let ?a = "pending_artifact pf now tenant (ids 0) who digest cls ct len"
    have "artifact_key ?a = (tenant, ids 0)" by (simp add: pending_artifact_def)
    with that ai have "x = ?a" by (auto simp: image_iff)
    then show ?thesis by (simp add: pair_sound_def open_upload_def pending_artifact_def)
  qed
  have "upload_target (open_upload tenant (ids 1) (ids 0) who (now + seconds UPLOAD_TTL_SECONDS)) = (tenant, ids 0)"
    by (simp add: open_upload_def)
  then show "tables_sound pf tools (tb_artifacts s') (tb_uploads s') ats"
    using tables_upload_added [OF t1] ui pair by simp
qed

lemma own_upload_Some:
  "own_upload s tenant upload who = Some (u, a) \<Longrightarrow> u \<in> set (tb_uploads s) \<and> upload_key u = (tenant, upload)
     \<and> a \<in> set (tb_artifacts s) \<and> artifact_key a = (tenant, up_artifact_id u)"
  by (auto simp: own_upload_def find_Some_iff dest!: row_at_SomeD split: option.splits)

lemma claim_upload_sound:
  assumes "claim_upload pf lease now s actor text len = Inr (at, s')"
    and "tables_sound pf tools (tb_artifacts s) (tb_uploads s) ats"
  shows "tables_sound pf tools (tb_artifacts s') (tb_uploads s') (at # ats)" and "tb_tombstones s' = tb_tombstones s"
proof -
  from assms(1) obtain tenant upload who u a where o: "own_upload s tenant upload who = Some (u, a)"
    and up: "update_upload tenant upload
        (\<lambda>u. u\<lparr>up_lease_id := Some lease, up_lease_expires_at := Some (now + seconds 40)\<rparr>) s = Inr s'"
    and at: "at = \<lparr> ua_tenant = tenant, ua_upload = upload, ua_principal = who, ua_lease = lease, ua_artifact = af_id a,
            ua_size = af_size_bytes a, ua_digest = af_digest a, ua_content_type = af_content_type a \<rparr>"
    unfolding claim_upload_def by (auto simp: rbind_Inr_iff ok_or_Inr_iff split: if_split_asm)
  note s' = update_upload_Inr [OF up] and own = own_upload_Some [OF o]
  from s' show "tb_tombstones s' = tb_tombstones s" by simp
  have "attempt_sound (tb_artifacts s) (tb_uploads s) at"
    using own assms(2) unique_key_eq [where key = artifact_key and t = "tb_artifacts s" and b = a]
    by (auto simp: attempt_sound_def at tables_sound_def)
  with assms(2) have t: "tables_sound pf tools (tb_artifacts s) (tb_uploads s) (at # ats)" by (simp add: tables_sound_def)
  have "tables_sound pf tools (update_where (\<lambda>_. False) id (tb_artifacts s))
      (update_where (\<lambda>u. upload_key u = (tenant, upload))
        (\<lambda>u. u\<lparr>up_lease_id := Some lease, up_lease_expires_at := Some (now + seconds 40)\<rparr>) (tb_uploads s)) (at # ats)"
    by (rule tables_rewritten [OF t]) (auto simp: keeps_artifact_def keeps_upload_def pair_sound_def)
  then show "tables_sound pf tools (tb_artifacts s') (tb_uploads s') (at # ats)" by (simp add: s' update_where_none)
qed


lemma settle_result_Inr:
  assumes "settle_result now at u result s = Inr (state, code, failure, s1)"
  obtains (stored) key digest where "result = Inr (key, digest)" and "state = ''UPLOADED''"
      and "s1 = s\<lparr>tb_artifacts := update_where (\<lambda>a. artifact_key a = (ua_tenant at, ua_artifact at) \<and> af_state a = ''PENDING'')
             (\<lambda>a. a\<lparr>af_storage_key := key\<rparr>) (tb_artifacts s),
           tb_uploads := update_where (\<lambda>u. upload_key u = (ua_tenant at, ua_upload at))
             (\<lambda>u. u\<lparr>up_observed_digest := Some digest, up_observed_size_bytes := Some (ua_size at), up_scanned_at := Some now\<rparr>)
             (tb_uploads s)\<rparr>"
    | (refused) "state \<notin> {''UPLOADED'', ''FINALIZED''}" and "s1 = s"
    | (quarantined) "state \<notin> {''UPLOADED'', ''FINALIZED''}"
      and "s1 = s\<lparr>tb_artifacts := update_where (\<lambda>a. artifact_key a = (ua_tenant at, ua_artifact at))
             (\<lambda>a. a\<lparr>af_state := ''QUARANTINED'', af_version := af_version a + 1\<rparr>) (tb_artifacts s)\<rparr>"
proof (cases result)
  case (Inl error)
  show ?thesis
  proof (cases "quarantining (cf_code error)")
    case True
    with assms Inl have u: "update_artifacts (\<lambda>a. artifact_key a = (ua_tenant at, ua_artifact at))
        (\<lambda>a. a\<lparr>af_state := ''QUARANTINED'', af_version := af_version a + 1\<rparr>) s = Inr s1" and st: "state = ''FAILED''"
      unfolding settle_result_def by (simp_all add: rbind_Inr_iff)
    show ?thesis by (rule that(3) [OF _ update_artifacts_Inr [OF u]]) (simp add: st)
  next
    case False
    with assms Inl have "state = ''OPEN''" "s1 = s" by (simp_all add: settle_result_def)
    then show ?thesis by (intro that(2)) simp_all
  qed
next
  case (Inr r)
  obtain key digest where r: "r = (key, digest)" by (cases r)
  show ?thesis
  proof (cases "up_expires_at u \<le> now")
    case True
    with assms Inr r have "state = ''EXPIRED''" "s1 = s" by (simp_all add: settle_result_def)
    then show ?thesis by (intro that(2)) simp_all
  next
    case False
    with assms Inr r obtain s0 where st: "state = ''UPLOADED''"
      and a: "update_artifacts (\<lambda>a. artifact_key a = (ua_tenant at, ua_artifact at) \<and> af_state a = ''PENDING'')
             (\<lambda>a. a\<lparr>af_storage_key := key\<rparr>) s = Inr s0"
      and u: "update_upload (ua_tenant at) (ua_upload at)
             (\<lambda>u. u\<lparr>up_observed_digest := Some digest, up_observed_size_bytes := Some (ua_size at), up_scanned_at := Some now\<rparr>) s0
             = Inr s1"
      unfolding settle_result_def by (auto simp: rbind_Inr_iff split: if_split_asm)
    from update_artifacts_Inr [OF a] update_upload_Inr [OF u] Inr r st show ?thesis
      by (intro that(1) [of key digest]) simp_all
  qed
qed

text \<open>An attempt's upload and artifact belong together.\<close>

lemma attempt_pair:
  assumes "tables_sound pf tools arts ups ats" and "at \<in> set ats" and "u \<in> set ups"
  shows "upload_key u = (ua_tenant at, ua_upload at) \<longleftrightarrow> upload_target u = (ua_tenant at, ua_artifact at)"
proof -
  from assms(1,2) obtain v where v: "v \<in> set ups" "upload_key v = (ua_tenant at, ua_upload at)"
    "upload_target v = (ua_tenant at, ua_artifact at)" by (auto simp: tables_sound_def attempt_sound_def)
  from assms(1) have "unique_key upload_key ups" "unique_key upload_target ups" by (simp_all add: tables_sound_def)
  then have "upload_key u = upload_key v \<longleftrightarrow> u = v" "upload_target u = upload_target v \<longleftrightarrow> u = v"
    using unique_key_eq [OF _ assms(3) v(1)] by blast+
  then show ?thesis unfolding v(2) [symmetric] v(3) [symmetric] by (simp only:)
qed

lemma stored_attempt_sound:
  assumes "tables_sound pf tools arts ups ats" and "at \<in> set ats"
    and "\<forall>u \<in> set ups. upload_key u = (ua_tenant at, ua_upload at) \<longrightarrow> up_state u = ''OPEN''"
    and "transfer_upload pf tools at reader late = Inr (key, digest)"
    and "keeps_upload g" and "\<And>u. up_state (g u) = ''UPLOADED''"
  shows "tables_sound pf tools
    (update_where (\<lambda>a. artifact_key a = (ua_tenant at, ua_artifact at) \<and> af_state a = ''PENDING'') (\<lambda>a. a\<lparr>af_storage_key := key\<rparr>) arts)
    (update_where (\<lambda>u. upload_key u = (ua_tenant at, ua_upload at)) g ups) ats"
proof (rule tables_rewritten [OF assms(1)])
  fix u a
  assume u: "u \<in> set ups" and a: "a \<in> set arts" and k: "artifact_key a = upload_target u" and p: "pair_sound pf tools u a"
  let ?a = "if artifact_key a = (ua_tenant at, ua_artifact at) \<and> af_state a = ''PENDING'' then a\<lparr>af_storage_key := key\<rparr> else a"
  show "pair_sound pf tools (if upload_key u = (ua_tenant at, ua_upload at) then g u else u) ?a"
  proof (cases "upload_key u = (ua_tenant at, ua_upload at)")
    case True
    with attempt_pair [OF assms(1,2) u] k have ka: "artifact_key a = (ua_tenant at, ua_artifact at)" by simp
    from True assms(3) u p have na: "af_state a \<noteq> ''ACTIVE''" by (auto simp: pair_sound_def)
    from assms(1,2) a ka have eq: "af_size_bytes a = ua_size at" "af_digest a = ua_digest at" "af_content_type a = ua_content_type at"
      by (auto simp: tables_sound_def attempt_sound_def)
    have "\<exists>b. verified_bytes pf tools (a\<lparr>af_storage_key := key\<rparr>) b"
      using transfer_upload_Inr(3) [OF assms(4)] eq by (auto simp: verified_bytes_def)
    with na ka True assms(6) show ?thesis by (auto simp: pair_sound_def)
  next
    case False
    with attempt_pair [OF assms(1,2) u] k have "artifact_key a \<noteq> (ua_tenant at, ua_artifact at)" by simp
    with False p show ?thesis by auto
  qed
qed (simp_all add: keeps_artifact_def assms(5))

lemma refused_attempt_sound:
  assumes "tables_sound pf tools arts ups ats" and "at \<in> set ats"
    and "\<forall>u \<in> set ups. upload_key u = (ua_tenant at, ua_upload at) \<longrightarrow> up_state u = ''OPEN''"
    and "keeps_upload g" and "\<And>u. up_state (g u) \<notin> {''UPLOADED'', ''FINALIZED''}" and "\<forall>a. p a \<longrightarrow> artifact_key a = (ua_tenant at, ua_artifact at)"
  shows "tables_sound pf tools
    (update_where p (\<lambda>a. a\<lparr>af_state := ''QUARANTINED'', af_version := af_version a + 1\<rparr>) arts)
    (update_where (\<lambda>u. upload_key u = (ua_tenant at, ua_upload at)) g ups) ats"
proof (rule tables_rewritten [OF assms(1)])
  fix u a
  assume u: "u \<in> set ups" and a: "a \<in> set arts" and k: "artifact_key a = upload_target u" and q: "pair_sound pf tools u a"
  show "pair_sound pf tools (if upload_key u = (ua_tenant at, ua_upload at) then g u else u)
     (if p a then a\<lparr>af_state := ''QUARANTINED'', af_version := af_version a + 1\<rparr> else a)"
    using q assms(3,5) u by (cases "upload_key u = (ua_tenant at, ua_upload at)") (auto simp: pair_sound_def simp del: prod.inject)
qed (simp_all add: keeps_artifact_def assms(4))

lemma update_where_compose:
  "(\<And>r. p (f r) = p r) \<Longrightarrow> update_where p g (update_where p f t) = update_where p (g \<circ> f) t"
  by (induction t) auto

lemma settle_upload_sound:
  assumes "settle_upload env ids now s actor at (transfer_upload (ce_platform env) tools at reader late) = Inr (failure, s')"
    and t: "tables_sound (ce_platform env) tools (tb_artifacts s) (tb_uploads s) ats" and "at \<in> set ats"
    and "uuid_text_ok (ce_platform env)"
  shows "tables_sound (ce_platform env) tools (tb_artifacts s') (tb_uploads s') ats" and "tb_tombstones s' = tb_tombstones s"
proof -
  let ?pf = "ce_platform env" and ?key = "\<lambda>u. upload_key u = (ua_tenant at, ua_upload at)"
  from assms(1) obtain u a state code s1 version s2 change correlation r ids' where
      o: "own_upload s (ua_tenant at) (ua_upload at) (ua_principal at) = Some (u, a)" and live: "lease_live now at u"
    and res: "settle_result now at u (transfer_upload ?pf tools at reader late) s = Inr (state, code, failure, s1)"
    and up: "update_upload (ua_tenant at) (ua_upload at) (\<lambda>u. u\<lparr>up_state := state, up_scan_code := Some code,
        up_lease_id := None, up_lease_expires_at := None, up_version := version\<rparr>) s1 = Inr s2"
    and rc: "record_change env ids' now s2 actor ''artifact.upload'' change correlation = Inr (r, s')"
    unfolding settle_upload_def Let_def by (auto simp: rbind_Inr_iff ok_or_Inr_iff split: if_split_asm)
  let ?g = "\<lambda>u. u\<lparr>up_state := state, up_scan_code := Some code, up_lease_id := None, up_lease_expires_at := None, up_version := version\<rparr>"
  note own = own_upload_Some [OF o] and s2 = update_upload_Inr [OF up]
  note add = record_change_adds [OF rc assms(4)]
  have opn: "\<forall>v \<in> set (tb_uploads s). ?key v \<longrightarrow> up_state v = ''OPEN''"
  proof (intro ballI impI)
    fix v assume "v \<in> set (tb_uploads s)" "?key v"
    with own t have "v = u" using unique_key_eq [where key = upload_key and t = "tb_uploads s"] by (simp add: tables_sound_def)
    with live show "up_state v = ''OPEN''" by (simp add: lease_live_def)
  qed
  have kg: "keeps_upload ?g" by (simp add: keeps_upload_def)
  from res have "tables_sound ?pf tools (tb_artifacts s2) (tb_uploads s2) ats \<and> tb_tombstones s2 = tb_tombstones s"
  proof (cases rule: settle_result_Inr)
    case (stored key digest)
    let ?h = "\<lambda>u. u\<lparr>up_observed_digest := Some digest, up_observed_size_bytes := Some (ua_size at), up_scanned_at := Some now\<rparr>"
    have tw: "update_where ?key ?g (update_where ?key ?h (tb_uploads s)) = update_where ?key (?g \<circ> ?h) (tb_uploads s)"
      by (rule update_where_compose) simp
    have ups: "tb_uploads s2 = update_where ?key ?g (update_where ?key ?h (tb_uploads s))"
      and arts: "tb_artifacts s2 = update_where (\<lambda>a. artifact_key a = (ua_tenant at, ua_artifact at) \<and> af_state a = ''PENDING'')
        (\<lambda>a. a\<lparr>af_storage_key := key\<rparr>) (tb_artifacts s)"
      and tomb: "tb_tombstones s2 = tb_tombstones s" by (simp_all add: s2 stored(3))
    have "keeps_upload (?g \<circ> ?h)" "\<And>u. up_state ((?g \<circ> ?h) u) = ''UPLOADED''"
      using stored(2) by (simp_all add: keeps_upload_def)
    from stored_attempt_sound [OF t assms(3) opn stored(1) this] tomb show ?thesis unfolding ups arts tw by blast
  next
    case refused
    then have "\<And>u. up_state (?g u) \<notin> {''UPLOADED'', ''FINALIZED''}" by simp
    from refused_attempt_sound [OF t assms(3) opn kg this, of "\<lambda>_. False"] show ?thesis
      unfolding s2 refused(2) by (simp add: update_where_none)
  next
    case quarantined
    then have "\<And>u. up_state (?g u) \<notin> {''UPLOADED'', ''FINALIZED''}" by simp
    from refused_attempt_sound [OF t assms(3) opn kg this, of "\<lambda>a. artifact_key a = (ua_tenant at, ua_artifact at)"]
    show ?thesis unfolding s2 quarantined(2) by simp
  qed
  with add adds_artifact_sound [OF add] show "tables_sound ?pf tools (tb_artifacts s') (tb_uploads s') ats"
    and "tb_tombstones s' = tb_tombstones s" by (simp_all add: adds_artifact_def)
qed


lemma insert_rights_Inr: "insert_rights r s = Inr s' \<Longrightarrow> s' = s\<lparr>tb_rights := tb_rights s @ [r]\<rparr>"
  by (auto simp: insert_rights_def rbind_Inr_iff sql_Inr_iff insert_row_Inr_iff)

lemma finalize_artifact_Inr:
  assumes "finalize_artifact pf ids s c = Inr (m, s')"
  obtains tenant artifact u a version where "u \<in> set (tb_uploads s)" and "upload_target u = (tenant, artifact)"
    and "a \<in> set (tb_artifacts s)" and "artifact_key a = (tenant, artifact)" and "up_state u = ''UPLOADED''" and "af_state a = ''PENDING''"
    and "s' = s\<lparr>tb_artifacts := update_where (\<lambda>a. artifact_key a = (tenant, artifact))
              (\<lambda>a. a\<lparr>af_state := ''ACTIVE'', af_version := af_version a + 1\<rparr>) (tb_artifacts s),
            tb_uploads := update_where (\<lambda>v. upload_key v = (tenant, up_id u))
              (\<lambda>u. u\<lparr>up_state := ''FINALIZED'', up_version := version\<rparr>) (tb_uploads s),
            tb_rights := tb_rights s @ [import_rights tenant artifact (ids 0)]\<rparr>"
proof -
  from assms obtain tenant artifact who u a version s1 s2 where
      u: "find (\<lambda>u. up_tenant u = tenant \<and> up_artifact_id u = artifact \<and> up_principal_id u = who) (tb_uploads s) = Some u"
    and a: "row_at artifact_key (tenant, artifact) (tb_artifacts s) = Some a"
    and st: "up_state u = ''UPLOADED''" "af_state a = ''PENDING''"
    and w: "update_artifacts (\<lambda>a. artifact_key a = (tenant, artifact))
              (\<lambda>a. a\<lparr>af_state := ''ACTIVE'', af_version := af_version a + 1\<rparr>) s = Inr s1"
      "update_upload tenant (up_id u) (\<lambda>u. u\<lparr>up_state := ''FINALIZED'', up_version := version\<rparr>) s1 = Inr s2"
      "insert_rights (import_rights tenant artifact (ids 0)) s2 = Inr s'"
    unfolding finalize_artifact_def Let_def
    by (simp only: rbind_Inr_iff ok_or_Inr_iff split: if_split_asm) auto
  from update_artifacts_Inr [OF w(1)] update_upload_Inr [OF w(2)] insert_rights_Inr [OF w(3)]
  have "s' = s\<lparr>tb_artifacts := update_where (\<lambda>a. artifact_key a = (tenant, artifact))
              (\<lambda>a. a\<lparr>af_state := ''ACTIVE'', af_version := af_version a + 1\<rparr>) (tb_artifacts s),
            tb_uploads := update_where (\<lambda>v. upload_key v = (tenant, up_id u))
              (\<lambda>u. u\<lparr>up_state := ''FINALIZED'', up_version := version\<rparr>) (tb_uploads s),
            tb_rights := tb_rights s @ [import_rights tenant artifact (ids 0)]\<rparr>" by simp
  moreover have "u \<in> set (tb_uploads s)" "upload_target u = (tenant, artifact)" using u by (auto simp: find_Some_iff)
  ultimately show ?thesis using row_at_SomeD [OF a] st by (intro that [of u tenant artifact a version]) simp_all
qed

lemma finalize_artifact_sound:
  assumes "finalize_artifact pf ids s c = Inr (m, s')" and t: "tables_sound pf tools (tb_artifacts s) (tb_uploads s) ats"
  shows "tables_sound pf tools (tb_artifacts s') (tb_uploads s') ats" and "tb_tombstones s' = tb_tombstones s"
proof -
  from assms(1) obtain tenant artifact u a version where u: "u \<in> set (tb_uploads s)" "upload_target u = (tenant, artifact)"
    and a: "a \<in> set (tb_artifacts s)" "artifact_key a = (tenant, artifact)" and st: "up_state u = ''UPLOADED''" "af_state a = ''PENDING''"
    and s': "s' = s\<lparr>tb_artifacts := update_where (\<lambda>a. artifact_key a = (tenant, artifact))
              (\<lambda>a. a\<lparr>af_state := ''ACTIVE'', af_version := af_version a + 1\<rparr>) (tb_artifacts s),
            tb_uploads := update_where (\<lambda>v. upload_key v = (tenant, up_id u))
              (\<lambda>u. u\<lparr>up_state := ''FINALIZED'', up_version := version\<rparr>) (tb_uploads s),
            tb_rights := tb_rights s @ [import_rights tenant artifact (ids 0)]\<rparr>"
    by (rule finalize_artifact_Inr)
  show "tb_tombstones s' = tb_tombstones s" by (simp add: s')
  from t have uniq: "unique_key upload_key (tb_uploads s)" "unique_key upload_target (tb_uploads s)" "unique_key artifact_key (tb_artifacts s)"
    by (simp_all add: tables_sound_def)
  have ku: "upload_key v = (tenant, up_id u) \<longleftrightarrow> v = u" "upload_target v = (tenant, artifact) \<longleftrightarrow> v = u"
    if "v \<in> set (tb_uploads s)" for v
    using unique_key_eq [OF uniq(1) that u(1)] unique_key_eq [OF uniq(2) that u(1)] u(2) by auto
  have "tables_sound pf tools (update_where (\<lambda>a. artifact_key a = (tenant, artifact))
              (\<lambda>a. a\<lparr>af_state := ''ACTIVE'', af_version := af_version a + 1\<rparr>) (tb_artifacts s))
      (update_where (\<lambda>v. upload_key v = (tenant, up_id u))
              (\<lambda>u. u\<lparr>up_state := ''FINALIZED'', up_version := version\<rparr>) (tb_uploads s)) ats"
  proof (rule tables_rewritten [OF t])
    fix v x assume v: "v \<in> set (tb_uploads s)" and x: "x \<in> set (tb_artifacts s)" and k: "artifact_key x = upload_target v"
      and p: "pair_sound pf tools v x"
    have xa: "x = a" if "v = u" using unique_key_eq [OF uniq(3) x a(1)] that u a k by simp
    show "pair_sound pf tools (if upload_key v = (tenant, up_id u) then v\<lparr>up_state := ''FINALIZED'', up_version := version\<rparr> else v)
       (if artifact_key x = (tenant, artifact) then x\<lparr>af_state := ''ACTIVE'', af_version := af_version x + 1\<rparr> else x)"
      using p xa st unfolding k ku [OF v] by (auto simp: pair_sound_def verified_bytes_def)
  qed (simp_all add: keeps_artifact_def keeps_upload_def)
  then show "tables_sound pf tools (tb_artifacts s') (tb_uploads s') ats" by (simp add: s')
qed

lemma insert_or_ignore_Inr:
  "insert_or_ignore check (\<lambda>d d'. d' = d) refs r t = Inr t' \<Longrightarrow> set t' = insert r (set t)"
  by (auto simp: insert_or_ignore_def insert_row_Inr_iff list_ex_iff split: if_split_asm)

lemma insert_tombstone_Inr:
  assumes "insert_tombstone pf tenant i s = Inr s'"
  shows "\<exists>t. s' = s\<lparr>tb_tombstones := t\<rparr> \<and> set t = insert \<lparr> ts_tenant = tenant, ts_resource_type = ''Artifact'', ts_resource_id = pf_uuid_show pf i \<rparr>
    (set (tb_tombstones s))"
proof -
  let ?d = "\<lparr> ts_tenant = tenant, ts_resource_type = ''Artifact'', ts_resource_id = pf_uuid_show pf i \<rparr>"
  from assms obtain t where
    "insert_or_ignore (\<lambda>_. True) (\<lambda>d d'. d' = d) (tenant_known s tenant) ?d (tb_tombstones s) = Inr t"
    and s': "s' = s\<lparr>tb_tombstones := t\<rparr>" unfolding insert_tombstone_def rbind_Inr_iff sql_Inr_iff by blast
  from insert_or_ignore_Inr [OF this(1)] s' show ?thesis by (intro exI [of _ t]) simp
qed

lemma tombstones_Inr:
  "rfold (insert_tombstone pf tenant) ids s = Inr s' \<Longrightarrow>
     \<exists>t. s' = s\<lparr>tb_tombstones := t\<rparr> \<and> set t = set (tb_tombstones s)
       \<union> (\<lambda>i. \<lparr> ts_tenant = tenant, ts_resource_type = ''Artifact'', ts_resource_id = pf_uuid_show pf i \<rparr>) ` set ids"
proof (induction ids arbitrary: s)
  case Nil
  then show ?case by (intro exI [of _ "tb_tombstones s"]) simp
next
  case (Cons i ids)
  then obtain s1 where i: "insert_tombstone pf tenant i s = Inr s1" and "rfold (insert_tombstone pf tenant) ids s1 = Inr s'"
    by (auto simp: rbind_Inr_iff)
  from insert_tombstone_Inr [OF i] Cons.IH [OF this(2)] obtain t t' where "s1 = s\<lparr>tb_tombstones := t\<rparr>"
    "set t = insert \<lparr> ts_tenant = tenant, ts_resource_type = ''Artifact'', ts_resource_id = pf_uuid_show pf i \<rparr> (set (tb_tombstones s))"
    "s' = s1\<lparr>tb_tombstones := t'\<rparr>" "set t' = set (tb_tombstones s1)
       \<union> (\<lambda>i. \<lparr> ts_tenant = tenant, ts_resource_type = ''Artifact'', ts_resource_id = pf_uuid_show pf i \<rparr>) ` set ids" by blast
  then show ?case by (intro exI [of _ t']) simp
qed

lemma tombstone_artifacts_Inr:
  assumes "tombstone_artifacts pf tenant ids s = Inr s'"
  obtains t where "set t = set (tb_tombstones s)
       \<union> (\<lambda>i. \<lparr> ts_tenant = tenant, ts_resource_type = ''Artifact'', ts_resource_id = pf_uuid_show pf i \<rparr>) ` set ids"
    and "s' = s\<lparr>tb_tombstones := t,
        tb_artifacts := update_where (\<lambda>a. af_tenant a = tenant \<and> List.member ids (af_id a) \<and> af_state a \<noteq> ''PURGED'')
          (\<lambda>a. a\<lparr>af_state := ''TOMBSTONED'', af_version := af_version a + 1\<rparr>) (tb_artifacts s),
        tb_rights := update_where (\<lambda>r. rt_tenant r = tenant \<and> List.member ids (rt_artifact_id r) \<and> rt_state r = ''ACTIVE'')
          (\<lambda>r. r\<lparr>rt_state := ''REVOKED'', rt_version := rt_version r + 1\<rparr>) (tb_rights s)\<rparr>"
proof -
  from assms obtain s1 s2 where w: "rfold (insert_tombstone pf tenant) ids s = Inr s1"
      "update_artifacts (\<lambda>a. af_tenant a = tenant \<and> List.member ids (af_id a) \<and> af_state a \<noteq> ''PURGED'')
          (\<lambda>a. a\<lparr>af_state := ''TOMBSTONED'', af_version := af_version a + 1\<rparr>) s1 = Inr s2"
      "revoke_rights tenant ids s2 = Inr s'"
    unfolding tombstone_artifacts_def by (auto simp: rbind_Inr_iff)
  from w(3) have r: "s' = s2\<lparr>tb_rights := update_where (\<lambda>r. rt_tenant r = tenant \<and> List.member ids (rt_artifact_id r) \<and> rt_state r = ''ACTIVE'')
          (\<lambda>r. r\<lparr>rt_state := ''REVOKED'', rt_version := rt_version r + 1\<rparr>) (tb_rights s2)\<rparr>"
    by (auto simp: revoke_rights_def rbind_Inr_iff sql_Inr_iff update_rows_Inr_iff)
  from tombstones_Inr [OF w(1)] obtain t where t: "s1 = s\<lparr>tb_tombstones := t\<rparr>" "set t = set (tb_tombstones s)
       \<union> (\<lambda>i. \<lparr> ts_tenant = tenant, ts_resource_type = ''Artifact'', ts_resource_id = pf_uuid_show pf i \<rparr>) ` set ids" by blast
  show ?thesis by (rule that [OF t(2)]) (simp add: r update_artifacts_Inr [OF w(2)] t(1))
qed


section \<open>Deletion follows the lineage\<close>

definition lineage_rel :: "lineage_row list \<Rightarrow> uuid \<Rightarrow> (uuid \<times> uuid) set" where
  "lineage_rel t tenant = {(ln_source_id l, ln_derived_id l) | l. l \<in> set t \<and> ln_tenant l = tenant}"

lemma derived_from_iff: "j \<in> set (derived_from t tenant ids) \<longleftrightarrow> (\<exists>i \<in> set ids. (i, j) \<in> lineage_rel t tenant)"
  by (auto simp: derived_from_def lineage_rel_def List.member_iff)

text \<open>Every round keeps what it has, adds only descendants, and closes the rows it has joined.\<close>

lemma affected_sound:
  "(\<forall>j \<in> set seen \<union> set level. (i, j) \<in> (lineage_rel t tenant)\<^sup>*) \<Longrightarrow> j \<in> set (affected t tenant seen level)
     \<Longrightarrow> (i, j) \<in> (lineage_rel t tenant)\<^sup>*"
proof (induction t tenant seen level rule: affected.induct)
  case (1 t tenant seen level)
  show ?case
  proof (cases "level = []")
    case True
    with 1(2,3) show ?thesis by (simp add: affected.simps)
  next
    case False
    let ?fresh = "remdups (filter (\<lambda>i. \<not> List.member seen i) (derived_from t tenant level))"
    from False 1(3) have "j \<in> set (affected t tenant (seen @ ?fresh) ?fresh)" by (subst (asm) affected.simps) (simp add: Let_def)
    moreover have "\<forall>j \<in> set (seen @ ?fresh) \<union> set ?fresh. (i, j) \<in> (lineage_rel t tenant)\<^sup>*"
      using 1(2) by (auto simp: derived_from_iff intro: rtrancl_into_rtrancl)
    ultimately show ?thesis using 1(1) [OF False refl] by blast
  qed
qed

lemma affected_closed:
  "set level \<subseteq> set seen \<Longrightarrow> (\<forall>i \<in> set seen - set level. \<forall>j. (i, j) \<in> lineage_rel t tenant \<longrightarrow> j \<in> set seen)
     \<Longrightarrow> set seen \<subseteq> set (affected t tenant seen level)
       \<and> (\<forall>i \<in> set (affected t tenant seen level). \<forall>j. (i, j) \<in> lineage_rel t tenant \<longrightarrow> j \<in> set (affected t tenant seen level))"
proof (induction t tenant seen level rule: affected.induct)
  case (1 t tenant seen level)
  show ?case
  proof (cases "level = []")
    case True
    with 1(3) show ?thesis by (simp add: affected.simps)
  next
    case False
    let ?fresh = "remdups (filter (\<lambda>i. \<not> List.member seen i) (derived_from t tenant level))"
    have eq: "affected t tenant seen level = affected t tenant (seen @ ?fresh) ?fresh"
      using False by (subst affected.simps) (simp add: Let_def)
    have "\<forall>i \<in> set (seen @ ?fresh) - set ?fresh. \<forall>j. (i, j) \<in> lineage_rel t tenant \<longrightarrow> j \<in> set (seen @ ?fresh)"
      using 1(3) by (auto simp: derived_from_iff List.member_iff)
    with 1(1) [OF False refl] show ?thesis unfolding eq by auto
  qed
qed

lemma affected_eq: "set (affected t tenant [i] [i]) = {j. (i, j) \<in> (lineage_rel t tenant)\<^sup>*}"
proof
  show "set (affected t tenant [i] [i]) \<subseteq> {j. (i, j) \<in> (lineage_rel t tenant)\<^sup>*}"
    using affected_sound [of "[i]" "[i]" i t tenant] by auto
  note c = affected_closed [of "[i]" "[i]" t tenant]
  have "j \<in> set (affected t tenant [i] [i])" if "(i, j) \<in> (lineage_rel t tenant)\<^sup>*" for j
    using that by induction (use c in auto)
  then show "{j. (i, j) \<in> (lineage_rel t tenant)\<^sup>*} \<subseteq> set (affected t tenant [i] [i])" by blast
qed

lemma request_deletion_Inr:
  assumes "request_deletion env ids s c = Inr (m, s')"
  obtains tenant target i s1 q where "parse_uuid (ce_platform env) (ca_tenant_id (ac_actor c)) = Inr tenant"
    and "field de_resource_ref (ac_input c) ''resource'' = Inr target" and "parse_uuid (ce_platform env) (rr_resource_id target) = Inr i"
    and "\<forall>a \<in> set (tb_artifacts s). af_tenant a = tenant \<and> (i, af_id a) \<in> (lineage_rel (tb_lineage s) tenant)\<^sup>* \<longrightarrow> \<not> af_legal_hold a"
    and "tombstone_artifacts (ce_platform env) tenant (sort (affected (tb_lineage s) tenant [i] [i])) s = Inr s1"
    and "s' = s1\<lparr>tb_deletion_requests := q\<rparr>"
proof -
  from assms obtain tenant target i s1 st who reason where r: "parse_uuid (ce_platform env) (ca_tenant_id (ac_actor c)) = Inr tenant"
      "field de_resource_ref (ac_input c) ''resource'' = Inr target" "parse_uuid (ce_platform env) (rr_resource_id target) = Inr i"
      "\<not> list_ex (\<lambda>a. af_tenant a = tenant \<and> List.member (sort (affected (tb_lineage s) tenant [i] [i])) (af_id a) \<and> af_legal_hold a)
         (tb_artifacts s)"
      "tombstone_artifacts (ce_platform env) tenant (sort (affected (tb_lineage s) tenant [i] [i])) s = Inr s1"
      "insert_deletion_request (deletion_row (ce_platform env) tenant (ids 0) i st (sort (affected (tb_lineage s) tenant [i] [i])) who reason) s1 = Inr s'"
    unfolding request_deletion_def Let_def
    by (simp only: rbind_Inr_iff split: if_split_asm) auto
  from r(6) obtain q where "s' = s1\<lparr>tb_deletion_requests := q\<rparr>"
    by (auto simp: insert_deletion_request_def rbind_Inr_iff)
  moreover from r(4) have "\<forall>a \<in> set (tb_artifacts s). af_tenant a = tenant \<and> (i, af_id a) \<in> (lineage_rel (tb_lineage s) tenant)\<^sup>* \<longrightarrow> \<not> af_legal_hold a"
    by (auto simp: list_ex_iff List.member_iff affected_eq)
  ultimately show ?thesis using r by (intro that)
qed


lemma request_deletion_sound:
  assumes "request_deletion env ids s c = Inr (m, s')" and t: "tables_sound pf tools (tb_artifacts s) (tb_uploads s) ats"
  shows "tables_sound pf tools (tb_artifacts s') (tb_uploads s') ats" and "set (tb_tombstones s) \<subseteq> set (tb_tombstones s')"
proof -
  from assms(1) obtain tenant i s1 q where
      w: "tombstone_artifacts (ce_platform env) tenant (sort (affected (tb_lineage s) tenant [i] [i])) s = Inr s1"
    and s': "s' = s1\<lparr>tb_deletion_requests := q\<rparr>" by (rule request_deletion_Inr)
  let ?p = "\<lambda>a :: artifact_row. af_tenant a = tenant \<and> List.member (sort (affected (tb_lineage s) tenant [i] [i])) (af_id a) \<and> af_state a \<noteq> ''PURGED''"
  let ?f = "\<lambda>a :: artifact_row. a\<lparr>af_state := ''TOMBSTONED'', af_version := af_version a + 1\<rparr>"
  have "tables_sound pf tools (update_where ?p ?f (tb_artifacts s)) (update_where (\<lambda>_. False) id (tb_uploads s)) ats"
    by (rule tables_rewritten [OF t]) (auto simp: keeps_artifact_def keeps_upload_def pair_sound_def)
  then have "tables_sound pf tools (update_where ?p ?f (tb_artifacts s)) (tb_uploads s) ats" by (simp add: update_where_none)
  moreover have "tb_artifacts s' = update_where ?p ?f (tb_artifacts s)" "tb_uploads s' = tb_uploads s"
    "set (tb_tombstones s) \<subseteq> set (tb_tombstones s')"
    using w by (rule tombstone_artifacts_Inr; auto simp: s')+
  ultimately show "tables_sound pf tools (tb_artifacts s') (tb_uploads s') ats" and "set (tb_tombstones s) \<subseteq> set (tb_tombstones s')"
    by simp_all
qed

lemma artifact_step_sound:
  assumes "artifact_step env tools z op = Inr z'" and "uploads_inv env tools z"
  shows "uploads_inv env tools z'" and "set (tb_tombstones (fst z)) \<subseteq> set (tb_tombstones (fst z'))"
proof -
  obtain s ats where z: "z = (s, ats)" by (cases z)
  have pf: "uuid_text_ok (ce_platform env)" and t: "tables_sound (ce_platform env) tools (tb_artifacts s) (tb_uploads s) ats"
    using assms(2) by (simp_all add: uploads_inv_def z)
  have "uploads_inv env tools z' \<and> set (tb_tombstones (fst z)) \<subseteq> set (tb_tombstones (fst z'))"
  proof (cases op)
    case (Begin_Artifact ids now c)
    with assms(1) z obtain m s' where b: "begin_artifact (ce_platform env) ids now s c = Inr (m, s')" and "z' = (s', ats)"
      by (auto simp: rbind_Inr_iff)
    with begin_artifact_sound [OF b t] pf show ?thesis by (simp add: uploads_inv_def z)
  next
    case (Claim_Upload lease now actor upload_id len)
    with assms(1) z obtain at s' where b: "claim_upload (ce_platform env) lease now s actor upload_id len = Inr (at, s')" and "z' = (s', at # ats)"
      by (auto simp: rbind_Inr_iff)
    with claim_upload_sound [OF b t] pf show ?thesis by (simp add: uploads_inv_def z)
  next
    case (Settle_Upload ids now actor at reader late)
    with assms(1) z obtain failure s' where at: "at \<in> set ats" and z': "z' = (s', remove1 at ats)"
      and b: "settle_upload env ids now s actor at (transfer_upload (ce_platform env) tools at reader late) = Inr (failure, s')"
      by (auto simp: rbind_Inr_iff split: if_split_asm)
    have "tables_sound (ce_platform env) tools (tb_artifacts s') (tb_uploads s') (remove1 at ats)"
      using settle_upload_sound(1) [OF b t at pf] set_remove1_subset [of at ats] by (auto simp: tables_sound_def)
    with settle_upload_sound(2) [OF b t at pf] pf z' show ?thesis by (simp add: uploads_inv_def z)
  next
    case (Finalize_Artifact ids c)
    with assms(1) z obtain m s' where b: "finalize_artifact (ce_platform env) ids s c = Inr (m, s')" and "z' = (s', ats)"
      by (auto simp: rbind_Inr_iff)
    with finalize_artifact_sound [OF b t] pf show ?thesis by (simp add: uploads_inv_def z)
  next
    case (Request_Deletion ids c)
    with assms(1) z obtain m s' where b: "request_deletion env ids s c = Inr (m, s')" and "z' = (s', ats)"
      by (auto simp: rbind_Inr_iff)
    with request_deletion_sound [OF b t] pf show ?thesis by (simp add: uploads_inv_def z)
  qed
  then show "uploads_inv env tools z'" and "set (tb_tombstones (fst z)) \<subseteq> set (tb_tombstones (fst z'))" by simp_all
qed

lemma artifact_step_keeps_tombstone:
  "artifact_step env tools z op = Inr z' \<Longrightarrow> uploads_inv env tools z \<Longrightarrow> d \<in> set (tb_tombstones (fst z))
     \<Longrightarrow> d \<in> set (tb_tombstones (fst z'))"
  using artifact_step_sound(2) by blast

interpretation artifact_ops: invariant_ops "artifact_step env tools" "uploads_inv env tools"
  by unfold_locales (rule artifact_step_sound(1))

text \<open>
  C5: only verified content becomes active. Whatever uploads are begun, claimed, transferred from any
  stream, settled late or never, finalized and deleted, and in whatever order: an uploaded artifact
  that is active has at its storage key bytes that the object store accepted, of the declared size,
  digest and type, and that the scanner found clean.
\<close>

theorem active_uploads_are_verified:
  assumes "uploads_inv env tools z" and "z' = attempts (artifact_step env tools) z ops"
    and "u \<in> set (tb_uploads (fst z'))" and "a \<in> set (tb_artifacts (fst z'))"
    and "artifact_key a = (up_tenant u, up_artifact_id u)" and "af_state a = ''ACTIVE''"
  shows "up_state u \<in> {''UPLOADED'', ''FINALIZED''} \<and>
    (\<exists>bytes. int (length bytes) = af_size_bytes a \<and> digest_bytes (ce_platform env) bytes = af_digest a
      \<and> validate_file_mime tools bytes (af_content_type a) = Inr ()
      \<and> tl_scan_reader tools bytes (af_size_bytes a) = Inr ScanClean
      \<and> tl_put_reader tools (af_storage_key a) bytes (af_size_bytes a) (af_content_type a) = Inr ())"
proof -
  from artifact_ops.attempts_inv [OF assms(1)] assms(2) have "uploads_inv env tools z'" by simp
  with assms(3-5) have "pair_sound (ce_platform env) tools u a" by (simp add: uploads_inv_def tables_sound_def)
  with assms(6) show ?thesis by (auto simp: pair_sound_def verified_bytes_def)
qed

text \<open>What a tombstone keeps out of reach.\<close>

lemma tombstone_blocks:
  assumes "\<lparr> ts_tenant = tenant, ts_resource_type = ''Artifact'', ts_resource_id = pf_uuid_show (ce_platform env) i \<rparr> \<in> set (tb_tombstones s)"
    and "parse_uuid (ce_platform env) (ca_tenant_id actor) = Inr tenant" and "parse_uuid (ce_platform env) text = Inr i"
  shows "\<not> is_ok (artifact_metadata_in env s actor text)"
    and "ar_artifact_id r = text \<Longrightarrow> \<not> is_ok (load_artifact_ref env s actor r n)"
proof -
  have f: "find (\<lambda>a. artifact_key a = (tenant, i) \<and> af_state a = ''ACTIVE''
      \<and> \<not> list_ex (\<lambda>d. ts_tenant d = tenant \<and> ts_resource_type d = ''Artifact'' \<and> ts_resource_id d = pf_uuid_show (ce_platform env) i)
          (tb_tombstones s)) (tb_artifacts s) = None"
  proof -
    have "list_ex (\<lambda>d. ts_tenant d = tenant \<and> ts_resource_type d = ''Artifact'' \<and> ts_resource_id d = pf_uuid_show (ce_platform env) i)
        (tb_tombstones s)" unfolding list_ex_iff by (rule bexI [OF _ assms(1)]) simp
    then show ?thesis by (simp add: find_None_iff)
  qed
  show "\<not> is_ok (artifact_metadata_in env s actor text)"
    using assms(2,3) f by (simp add: artifact_metadata_in_def Let_def is_ok_iff)
  show "\<not> is_ok (load_artifact_ref env s actor r n)" if "ar_artifact_id r = text"
    using assms(2,3) f that by (simp add: load_artifact_ref_def Let_def is_ok_iff)
qed

lemma tombstoned_rows:
  assumes "j \<in> set ids"
  shows "a \<in> set (update_where (\<lambda>a. af_tenant a = tenant \<and> List.member ids (af_id a) \<and> af_state a \<noteq> ''PURGED'')
          (\<lambda>a. a\<lparr>af_state := ''TOMBSTONED'', af_version := af_version a + 1\<rparr>) arts)
      \<Longrightarrow> artifact_key a = (tenant, j) \<Longrightarrow> af_state a = ''TOMBSTONED'' \<or> af_state a = ''PURGED''"
    and "r \<in> set (update_where (\<lambda>r. rt_tenant r = tenant \<and> List.member ids (rt_artifact_id r) \<and> rt_state r = ''ACTIVE'')
          (\<lambda>r. r\<lparr>rt_state := ''REVOKED'', rt_version := rt_version r + 1\<rparr>) rights)
      \<Longrightarrow> rights_key r = (tenant, j) \<Longrightarrow> rt_state r \<noteq> ''ACTIVE''"
proof -
  assume "a \<in> set (update_where (\<lambda>a. af_tenant a = tenant \<and> List.member ids (af_id a) \<and> af_state a \<noteq> ''PURGED'')
          (\<lambda>a. a\<lparr>af_state := ''TOMBSTONED'', af_version := af_version a + 1\<rparr>) arts)" and k: "artifact_key a = (tenant, j)"
  then obtain b where "a = (if af_tenant b = tenant \<and> List.member ids (af_id b) \<and> af_state b \<noteq> ''PURGED''
      then b\<lparr>af_state := ''TOMBSTONED'', af_version := af_version b + 1\<rparr> else b)" unfolding set_update_where by blast
  with k assms show "af_state a = ''TOMBSTONED'' \<or> af_state a = ''PURGED''" by (simp add: List.member_iff split: if_split_asm)
next
  assume "r \<in> set (update_where (\<lambda>r. rt_tenant r = tenant \<and> List.member ids (rt_artifact_id r) \<and> rt_state r = ''ACTIVE'')
          (\<lambda>r. r\<lparr>rt_state := ''REVOKED'', rt_version := rt_version r + 1\<rparr>) rights)" and k: "rights_key r = (tenant, j)"
  then obtain q where "r = (if rt_tenant q = tenant \<and> List.member ids (rt_artifact_id q) \<and> rt_state q = ''ACTIVE''
      then q\<lparr>rt_state := ''REVOKED'', rt_version := rt_version q + 1\<rparr> else q)" unfolding set_update_where by blast
  with k assms show "rt_state r \<noteq> ''ACTIVE''" by (simp add: List.member_iff split: if_split_asm)
qed

text \<open>
  C12: deletion reaches every copy, for good. A successful request tombstones the artifact and
  everything derived from it, over any number of steps; none of it is under legal hold, none of it
  keeps active rights. Whatever uploads and deletions follow, no reader of the tenant gets metadata
  or bytes of any of it again.
\<close>

theorem deletion_reaches_every_copy:
  assumes "request_deletion env ids s c = Inr (m, s')"
    and "parse_uuid (ce_platform env) (ca_tenant_id (ac_actor c)) = Inr tenant"
    and "field de_resource_ref (ac_input c) ''resource'' = Inr target" and "parse_uuid (ce_platform env) (rr_resource_id target) = Inr i"
    and "(i, j) \<in> (lineage_rel (tb_lineage s) tenant)\<^sup>*" and "uploads_inv env tools (s, ats)"
  shows "(\<forall>a \<in> set (tb_artifacts s). artifact_key a = (tenant, j) \<longrightarrow> \<not> af_legal_hold a)
    \<and> (\<forall>a \<in> set (tb_artifacts s'). artifact_key a = (tenant, j) \<longrightarrow> af_state a = ''TOMBSTONED'' \<or> af_state a = ''PURGED'')
    \<and> (\<forall>r \<in> set (tb_rights s'). rights_key r = (tenant, j) \<longrightarrow> rt_state r \<noteq> ''ACTIVE'')
    \<and> (\<forall>ops actor r text n. parse_uuid (ce_platform env) (ca_tenant_id actor) = Inr tenant
        \<and> parse_uuid (ce_platform env) text = Inr j \<and> ar_artifact_id r = text \<longrightarrow>
          \<not> is_ok (artifact_metadata_in env (fst (attempts (artifact_step env tools) (s', ats) ops)) actor text)
          \<and> \<not> is_ok (load_artifact_ref env (fst (attempts (artifact_step env tools) (s', ats) ops)) actor r n))"
proof -
  let ?pf = "ce_platform env" and ?ids = "sort (affected (tb_lineage s) tenant [i] [i])"
  let ?d = "\<lparr> ts_tenant = tenant, ts_resource_type = ''Artifact'', ts_resource_id = pf_uuid_show ?pf j \<rparr>"
  from assms(1) obtain tenant' target' i' s1 q where x: "parse_uuid ?pf (ca_tenant_id (ac_actor c)) = Inr tenant'"
      "field de_resource_ref (ac_input c) ''resource'' = Inr target'" "parse_uuid ?pf (rr_resource_id target') = Inr i'"
    and hold: "\<forall>a \<in> set (tb_artifacts s). af_tenant a = tenant' \<and> (i', af_id a) \<in> (lineage_rel (tb_lineage s) tenant')\<^sup>* \<longrightarrow> \<not> af_legal_hold a"
    and w: "tombstone_artifacts ?pf tenant' (sort (affected (tb_lineage s) tenant' [i'] [i'])) s = Inr s1"
    and s': "s' = s1\<lparr>tb_deletion_requests := q\<rparr>" by (rule request_deletion_Inr)
  from x assms(2-4) have e: "tenant' = tenant" "i' = i" by simp_all
  have j: "j \<in> set ?ids" using assms(5) by (simp add: affected_eq)
  from w obtain t where t: "set t = set (tb_tombstones s)
       \<union> (\<lambda>i. \<lparr> ts_tenant = tenant, ts_resource_type = ''Artifact'', ts_resource_id = pf_uuid_show ?pf i \<rparr>) ` set ?ids"
    and s1: "s1 = s\<lparr>tb_tombstones := t,
        tb_artifacts := update_where (\<lambda>a. af_tenant a = tenant \<and> List.member ?ids (af_id a) \<and> af_state a \<noteq> ''PURGED'')
          (\<lambda>a. a\<lparr>af_state := ''TOMBSTONED'', af_version := af_version a + 1\<rparr>) (tb_artifacts s),
        tb_rights := update_where (\<lambda>r. rt_tenant r = tenant \<and> List.member ?ids (rt_artifact_id r) \<and> rt_state r = ''ACTIVE'')
          (\<lambda>r. r\<lparr>rt_state := ''REVOKED'', rt_version := rt_version r + 1\<rparr>) (tb_rights s)\<rparr>"
    unfolding e by (rule tombstone_artifacts_Inr)
  have arts: "tb_artifacts s' = update_where (\<lambda>a. af_tenant a = tenant \<and> List.member ?ids (af_id a) \<and> af_state a \<noteq> ''PURGED'')
          (\<lambda>a. a\<lparr>af_state := ''TOMBSTONED'', af_version := af_version a + 1\<rparr>) (tb_artifacts s)"
    and rights: "tb_rights s' = update_where (\<lambda>r. rt_tenant r = tenant \<and> List.member ?ids (rt_artifact_id r) \<and> rt_state r = ''ACTIVE'')
          (\<lambda>r. r\<lparr>rt_state := ''REVOKED'', rt_version := rt_version r + 1\<rparr>) (tb_rights s)" by (simp_all add: s' s1)
  have stable: "?d \<in> set (tb_tombstones (fst (attempts (artifact_step env tools) (s', ats) ops)))" for ops
  proof (rule artifact_ops.attempts_stable [where A = UNIV and P = "\<lambda>z. ?d \<in> set (tb_tombstones (fst z))"])
    show "uploads_inv env tools (s', ats)"
      using request_deletion_sound [OF assms(1)] assms(6) by (simp add: uploads_inv_def)
    show "?d \<in> set (tb_tombstones (fst (s', ats)))" using j by (simp add: s' s1 t)
  qed (blast intro: artifact_step_keeps_tombstone | simp)+
  have "\<forall>a \<in> set (tb_artifacts s). artifact_key a = (tenant, j) \<longrightarrow> \<not> af_legal_hold a" using hold assms(5) e by auto
  moreover have "\<forall>a \<in> set (tb_artifacts s'). artifact_key a = (tenant, j) \<longrightarrow> af_state a = ''TOMBSTONED'' \<or> af_state a = ''PURGED''"
    using tombstoned_rows(1) [OF j] unfolding arts by blast
  moreover have "\<forall>r \<in> set (tb_rights s'). rights_key r = (tenant, j) \<longrightarrow> rt_state r \<noteq> ''ACTIVE''"
    using tombstoned_rows(2) [OF j] unfolding rights by blast
  ultimately show ?thesis using tombstone_blocks [OF stable] by blast
qed


text \<open>
  A download hands out what its reference names. The file of a successful download has the
  digest of the reference and the size that was recorded, the reference is the artifact's before and
  after the transfer, and the caller may read it at both times.
\<close>

theorem download_is_verified:
  assumes "verified_artifact_download env tools permit late s s' actor artifact_id = Inr d"
  shows "digest_bytes (ce_platform env) (vd_file d) = ar_digest (sa_reference (vd_metadata d))
    \<and> artifact_metadata env s' actor artifact_id = Inr (vd_metadata d)
    \<and> (\<exists>before. artifact_metadata env s actor artifact_id = Inr before
        \<and> sa_reference before = sa_reference (vd_metadata d) \<and> int (length (vd_file d)) = sa_size_bytes before)"
proof -
  from assms obtain metadata reader digest where m: "artifact_metadata env s actor artifact_id = Inr metadata"
    and sp: "spool_exact (ce_platform env) tools reader (sa_size_bytes metadata) = Inr (vd_file d, digest)"
    and d: "digest = ar_digest (sa_reference metadata)"
    and c: "artifact_metadata env s' actor artifact_id = Inr (vd_metadata d)" "sa_reference (vd_metadata d) = sa_reference metadata"
    unfolding verified_artifact_download_def Let_def
    by (auto simp: rbind_Inr_iff split: if_split_asm)
  from sp have "digest_bytes (ce_platform env) (vd_file d) = digest" "int (length (vd_file d)) = sa_size_bytes metadata"
    by (auto simp: spool_exact_Inr_iff dest: digest_sha256_bytes)
  with m d c show ?thesis by auto
qed

section \<open>A sample upload, deletion and download\<close>

definition upload_tools :: transfer_tools where
  "upload_tools = \<lparr> tl_spool = True, tl_image_ok = \<lambda>_ _. False, tl_json_ok = \<lambda>_. True,
     tl_scan_reader = \<lambda>_ _. Inr ScanClean, tl_put_reader = \<lambda>_ _ _ _. Inr (),
     tl_open_reader = \<lambda>_ n. Inr (n, \<lparr> bs_bytes = ''{}'', bs_broken = False \<rparr>) \<rparr>"

definition upload_env :: command_env where
  "upload_env = (rg_env registry_sample)\<lparr>ce_platform := (rg_pf registry_sample)\<lparr>pf_time_show := \<lambda>_. ''t''\<rparr>\<rparr>"

definition upload_ops :: "artifact_op list" where
  "upload_ops =
     [Begin_Artifact (\<lambda>n. if n = 0 then 77 else 78) 9 (member_command ''artifact.begin'' ''k''
        [(''classification'', JStr ''INTERNAL''), (''content_type'', JStr ''application/octet-stream''),
         (''size_bytes'', JNum 1), (''expected_digest'', JStr one_digest)]),
      Claim_Upload 5 9 member_actor ''78'' None]"

definition claimed :: upload_system where
  "claimed = attempts (artifact_step upload_env upload_tools) (registry_db, []) upload_ops"

definition sample_attempt :: upload_attempt where
  "sample_attempt = \<lparr> ua_tenant = 1, ua_upload = 78, ua_principal = 2, ua_lease = 5, ua_artifact = 77, ua_size = 1,
     ua_digest = one_digest, ua_content_type = ''application/octet-stream'' \<rparr>"

definition finalize_sample :: authorized_command where
  "finalize_sample = member_command ''artifact.finalize'' ''k''
     [(''artifact_id'', JStr ''77''), (''observed_digest'', JStr one_digest)]"

lemma registry_uploads_inv: "uploads_inv upload_env tools (registry_db, [])"
proof -
  have "uuid_text_ok (ce_platform upload_env)"
    using sample_platform_ok by (simp add: upload_env_def registry_sample_def uuid_text_ok_def)
  moreover have "tb_uploads registry_db = []" "unique_key artifact_key (tb_artifacts registry_db)" by code_simp+
  ultimately show ?thesis by (simp add: uploads_inv_def tables_sound_def unique_key_def)
qed

lemma sample_transfer:
  "transfer_upload (ce_platform upload_env) upload_tools sample_attempt \<lparr> bs_bytes = ''a'', bs_broken = False \<rparr> False
     = Inr (staged_key (ce_platform upload_env) sample_attempt one_digest, one_digest)"
proof -
  have "digest_sha256 (pf_sha256_hex (ce_platform upload_env) ''a'') = Inr one_digest" by code_simp
  then have "spool_exact (ce_platform upload_env) upload_tools \<lparr> bs_bytes = ''a'', bs_broken = False \<rparr> 1 = Inr (''a'', one_digest)"
    by (simp add: spool_exact_Inr_iff MAX_ARTIFACT_BYTES_def upload_tools_def)
  moreover have "validate_file_mime upload_tools ''a'' ''application/octet-stream'' = Inr ()"
    by (simp add: validate_file_mime_def validate_declared_mime_def validate_mime_boundaries_def mime_recognized_def List.member_iff)
  ultimately show ?thesis by (simp add: transfer_upload_def sample_attempt_def upload_tools_def)
qed

theorem active_uploads_are_verified_witness:
  "\<exists>u a bytes. u \<in> set (tb_uploads (fst (attempts (artifact_step upload_env upload_tools) claimed
        [Settle_Upload (\<lambda>n. 90) 10 member_actor sample_attempt \<lparr> bs_bytes = ''a'', bs_broken = False \<rparr> False,
         Finalize_Artifact (\<lambda>n. 91) finalize_sample])))
     \<and> af_state a = ''ACTIVE'' \<and> artifact_key a = (up_tenant u, up_artifact_id u)
     \<and> digest_bytes (ce_platform upload_env) bytes = af_digest a"
proof -
  let ?settled = "settle_upload upload_env (\<lambda>n. 90) 10 (fst claimed) member_actor sample_attempt
      (Inr (staged_key (ce_platform upload_env) sample_attempt one_digest, one_digest))"
  let ?ops = "[Settle_Upload (\<lambda>n. 90) 10 member_actor sample_attempt \<lparr> bs_bytes = ''a'', bs_broken = False \<rparr> False,
         Finalize_Artifact (\<lambda>n. 91) finalize_sample]"
  have at: "snd claimed = [sample_attempt]" by code_simp
  have "case ?settled of Inl e \<Rightarrow> False | Inr (f, s3) \<Rightarrow>
      (case finalize_artifact (ce_platform upload_env) (\<lambda>n. 91) s3 finalize_sample of Inl e \<Rightarrow> False | Inr (m, s4) \<Rightarrow>
         list_ex (\<lambda>u. list_ex (\<lambda>a. artifact_key a = upload_target u \<and> af_state a = ''ACTIVE'') (tb_artifacts s4)) (tb_uploads s4))"
    by code_simp
  note run = this
  then obtain f s3 where s3: "?settled = Inr (f, s3)" by (cases ?settled) auto
  with run obtain m s4 where s4: "finalize_artifact (ce_platform upload_env) (\<lambda>n. 91) s3 finalize_sample = Inr (m, s4)"
    by (cases "finalize_artifact (ce_platform upload_env) (\<lambda>n. 91) s3 finalize_sample") auto
  from run s3 s4 obtain u a where ua: "u \<in> set (tb_uploads s4)" "a \<in> set (tb_artifacts s4)" "artifact_key a = upload_target u"
    "af_state a = ''ACTIVE''" by (auto simp: list_ex_iff)
  have z: "attempts (artifact_step upload_env upload_tools) claimed ?ops = (s4, [])"
  proof -
    from at obtain s2 where c: "claimed = (s2, [sample_attempt])" by (metis prod.collapse)
    note s3' = s3 [unfolded c fst_conv]
    have "artifact_step upload_env upload_tools (s2, [sample_attempt]) (?ops ! 0) = Inr (s3, [])"
      by (simp add: sample_transfer s3')
    with s4 show ?thesis unfolding c by (simp add: attempt_def)
  qed
  have "uploads_inv upload_env upload_tools claimed"
    unfolding claimed_def by (rule artifact_ops.attempts_inv [OF registry_uploads_inv])
  from active_uploads_are_verified [OF this refl, where ops = ?ops and u = u and a = a] z ua show ?thesis by auto
qed


definition lineage_db :: database where
  "lineage_db = registry_db\<lparr>tb_lineage := [\<lparr> ln_tenant = 1, ln_source_id = 20, ln_derived_id = 21 \<rparr>]\<rparr>"

definition deletion_sample :: authorized_command where
  "deletion_sample = member_command ''deletion.request'' ''k''
     [(''resource'', ser_resource_ref (resource_ref_of sample_platform ''Artifact'' 20 1)), (''reason'', JStr ''r''),
      (''confirmation'', JStr ''DELETE 20'')]"

theorem deletion_reaches_every_copy_witness:
  "\<exists>m s'. request_deletion upload_env (\<lambda>n. 60) lineage_db deletion_sample = Inr (m, s')
     \<and> \<not> is_ok (artifact_metadata_in upload_env s' member_actor ''21'')"
proof -
  let ?target = "resource_ref_of sample_platform ''Artifact'' 20 1"
  have "is_ok (request_deletion upload_env (\<lambda>n. 60) lineage_db deletion_sample)" by code_simp
  then obtain m s' where s': "request_deletion upload_env (\<lambda>n. 60) lineage_db deletion_sample = Inr (m, s')" by (auto simp: is_ok_iff)
  have e: "parse_uuid (ce_platform upload_env) (ca_tenant_id (ac_actor deletion_sample)) = Inr 1"
    "field de_resource_ref (ac_input deletion_sample) ''resource'' = Inr ?target"
    "parse_uuid (ce_platform upload_env) (rr_resource_id ?target) = Inr 20"
    "parse_uuid (ce_platform upload_env) (ca_tenant_id member_actor) = Inr 1"
    "parse_uuid (ce_platform upload_env) ''21'' = Inr 21" by code_simp+
  have "(20, 21) \<in> lineage_rel (tb_lineage lineage_db) 1" by (auto simp: lineage_rel_def lineage_db_def)
  then have l: "(20, 21) \<in> (lineage_rel (tb_lineage lineage_db) 1)\<^sup>*" by blast
  have inv: "uploads_inv upload_env upload_tools (lineage_db, [])"
    using registry_uploads_inv by (simp add: uploads_inv_def lineage_db_def)
  have "\<forall>ops actor r text n. parse_uuid (ce_platform upload_env) (ca_tenant_id actor) = Inr 1
        \<and> parse_uuid (ce_platform upload_env) text = Inr 21 \<and> ar_artifact_id r = text \<longrightarrow>
          \<not> is_ok (artifact_metadata_in upload_env (fst (attempts (artifact_step upload_env upload_tools) (s', []) ops)) actor text)
          \<and> \<not> is_ok (load_artifact_ref upload_env (fst (attempts (artifact_step upload_env upload_tools) (s', []) ops)) actor r n)"
    using deletion_reaches_every_copy [OF s' e(1-3) l inv] by (elim conjE)
  from this [THEN spec, of "[]", THEN spec, of member_actor, THEN spec, of "package_ref\<lparr>ar_artifact_id := ''21''\<rparr>",
      THEN spec, of "''21''"] e(4,5) have "\<not> is_ok (artifact_metadata_in upload_env s' member_actor ''21'')" by simp
  with s' show ?thesis by blast
qed

theorem download_is_verified_witness:
  "\<exists>d. verified_artifact_download upload_env upload_tools True False registry_db registry_db member_actor ''20'' = Inr d
     \<and> digest_bytes (ce_platform upload_env) (vd_file d) = ar_digest (sa_reference (vd_metadata d))"
proof -
  have "map_sum (\<lambda>_. ()) (\<lambda>m. (ar_digest (sa_reference m), sa_size_bytes m)) (artifact_metadata upload_env registry_db member_actor ''20'')
      = Inr (zero_digest, 2)" by code_simp
  then obtain md where md: "artifact_metadata upload_env registry_db member_actor ''20'' = Inr md"
      "ar_digest (sa_reference md) = zero_digest" "sa_size_bytes md = 2"
    by (cases "artifact_metadata upload_env registry_db member_actor ''20''") auto
  have st: "begin_actor (ce_platform upload_env) registry_db member_actor = Inr ()"
    "parse_uuid (ce_platform upload_env) (ca_tenant_id member_actor) = Inr 1" "parse_uuid (ce_platform upload_env) ''20'' = Inr 20"
    "find (\<lambda>a. artifact_key a = (1, 20) \<and> af_state a = ''ACTIVE'') (tb_artifacts registry_db) = Some (hd (tb_artifacts registry_db))"
    by code_simp+
  have "digest_sha256 (pf_sha256_hex (ce_platform upload_env) ''{}'') = Inr zero_digest" by code_simp
  then have "spool_exact (ce_platform upload_env) upload_tools \<lparr> bs_bytes = ''{}'', bs_broken = False \<rparr> 2 = Inr (''{}'', zero_digest)"
    by (simp add: spool_exact_Inr_iff MAX_ARTIFACT_BYTES_def upload_tools_def)
  with md st have d: "verified_artifact_download upload_env upload_tools True False registry_db registry_db member_actor ''20''
      = Inr \<lparr> vd_metadata = md, vd_file = ''{}'' \<rparr>"
    by (simp add: verified_artifact_download_def upload_tools_def)
  from download_is_verified [OF d] d show ?thesis by blast
qed

end
