(* ===== verification/Commands.thy ===== *)
theory Commands
  imports Artifacts Approval_Commands Run_Commands Effect_Commands
begin

text \<open>
  The dispatch table of the adapter (\<open>commands.rs\<close>) and the composition of the pipeline with it: every
  operation of the catalogue by the handler of its component. The theorems hold for all of them: a
  command is carried out at most once under its idempotency key, and what is committed is recorded.
\<close>

section \<open>The dispatch table\<close>

text \<open>
  What the store is built with: the registry's environment (with the platform, policy engine, catalog
  and object store in it), the optional plugin runtime, the codec and the optional key of invitations,
  and whether the role may update UI contributions. A handler that reads the clock more than once gets
  the k-th reading from \<open>cs_clock\<close>.
\<close>

record command_store =
  cs_registry :: registry_env
  cs_runtime :: "plugin_runtime option"
  cs_codec :: token_codec
  cs_invite_key :: "string option"
  cs_ui_update :: bool
  cs_clock :: "timestamp \<Rightarrow> nat \<Rightarrow> timestamp"

abbreviation cs_env :: "command_store \<Rightarrow> command_env" where
  "cs_env st \<equiv> rg_env (cs_registry st)"

definition plugin_command :: "command_store \<Rightarrow> string \<Rightarrow> handler option" where
  "plugin_command st operation = map_of
     [(''product.compose'', compose_product (cs_registry st)),
      (''plugin.install'', install_plugin (cs_registry st)),
      (''plugin.enable'', enable_plugin (cs_registry st)),
      (''plugin.disable'', disable_plugin (cs_registry st)),
      (''plugin.upgrade'', upgrade_plugin (cs_registry st)),
      (''plugin.revoke'', revoke_plugin (cs_registry st)),
      (''plugin.uninstall'', uninstall_plugin (cs_registry st)),
      (''plugin.invoke'', invoke_plugin (cs_registry st) (cs_runtime st)),
      (''run.start'', start_run (cs_registry st)),
      (''run.cancel'', \<lambda>ids now s. cancel_run (ce_platform (cs_env st)) s now)] operation"

definition effect_command :: "command_store \<Rightarrow> string \<Rightarrow> handler option" where
  "effect_command st operation = (let pf = ce_platform (cs_env st) in map_of
     [(''approval.decide'', \<lambda>ids now s. decide_approval pf s now),
      (''budget.configure'', \<lambda>ids now s. configure_budget pf s (ids 0)),
      (''effect.propose'', \<lambda>ids now s. propose_effect pf s (ids 0) (ids 1) (ids 2)
         (cs_clock st now 0) (cs_clock st now 1) (cs_clock st now 2)),
      (''effect.dispatch'', \<lambda>ids now s. dispatch_effect pf s (cs_clock st now 0) (cs_clock st now 1) (cs_clock st now 2)),
      (''effect.reconcile'', \<lambda>ids now s. reconcile_effect pf s now),
      (''effect.compensate'', \<lambda>ids now s. compensate_effect pf s (ids 0) (ids 1) (ids 2) (cs_clock st now 0) (cs_clock st now 1))]
     operation)"

definition administration_command :: "command_store \<Rightarrow> string \<Rightarrow> handler option" where
  "administration_command st operation = (let pf = ce_platform (cs_env st) in map_of
     [(''provider.compact'', \<lambda>ids now s. compact_provider pf s),
      (''connection.authorize'', \<lambda>ids now s. authorize_connection pf s now (ids 0, ids 1)),
      (''connection.revoke'', \<lambda>ids now s. revoke_connection pf s),
      (''release.qualify'', \<lambda>ids now s. qualify_release pf s (ids 0)),
      (''catalog.submit'', \<lambda>ids now s. submit_catalog pf s (ids 0)),
      (''catalog.review'', \<lambda>ids now s. review_catalog pf s),
      (''conformance.run'', \<lambda>ids now s. run_conformance pf s (ids 0)),
      (''schedule.create'', \<lambda>ids now s. create_schedule pf s (ids 0)),
      (''deadletter.replay'', \<lambda>ids now s. replay_deadletter pf s),
      (''ui.register'', \<lambda>ids now s. register_ui (cs_ui_update st) pf s (ids 0)),
      (''export.create'', \<lambda>ids now s. create_export pf s (ids 0)),
      (''kill-switch.set'', \<lambda>ids now s. set_kill_switch pf s (ids 0)),
      (''notification.read'', \<lambda>ids now s. mark_notification_read pf s now),
      (''support.request'', \<lambda>ids now s. request_support pf s now (ids 0)),
      (''provider.configure'', \<lambda>ids now s. configure_provider pf s (ids 0))] operation)"

definition access_command :: "command_store \<Rightarrow> string \<Rightarrow> handler option" where
  "access_command st operation = (let env = cs_env st; pf = ce_platform env in map_of
     [(''grant.create'', create_grant env),
      (''grant.revoke'', \<lambda>ids now s. revoke_grant pf s),
      (''artifact.begin'', begin_artifact pf),
      (''artifact.finalize'', \<lambda>ids now s. finalize_artifact pf ids s),
      (''deletion.request'', \<lambda>ids now s. request_deletion env ids s),
      (''membership.invite'', \<lambda>ids now s c.
         rbind (ok_or (unavailable ''INVITE_KEY_UNAVAILABLE'') (cs_invite_key st)) (\<lambda>key.
         invite_membership pf (cs_codec st) key (ids 0) now s c)),
      (''membership.change'', \<lambda>ids now s. change_membership pf s),
      (''membership.revoke'', \<lambda>ids now s. revoke_membership pf s),
      (''policy.evaluate'', \<lambda>ids now s. evaluate_policy (ce_cedar env) pf (ids 0) s),
      (''policy.propose'', \<lambda>ids now s. propose_policy env (ids 0) s),
      (''identity.configure'', \<lambda>ids now s. configure_identity pf (ids 0) s)] operation)"

text \<open>The match on the operation's name, in the four groups of the file.\<close>

definition command_handler :: "command_store \<Rightarrow> string \<Rightarrow> handler option" where
  "command_handler st operation =
     (case plugin_command st operation of Some h \<Rightarrow> Some h | None \<Rightarrow>
      case effect_command st operation of Some h \<Rightarrow> Some h | None \<Rightarrow>
      case administration_command st operation of Some h \<Rightarrow> Some h | None \<Rightarrow> access_command st operation)"

definition dispatch :: "command_store \<Rightarrow> handler" where
  "dispatch st ids now s command =
     (case command_handler st (ac_operation command) of
        None \<Rightarrow> Inl (unavailable ''COMMAND_HANDLER_UNAVAILABLE'')
      | Some handle \<Rightarrow> handle ids now s command)"

section \<open>Handlers keep the receipts\<close>

text \<open>
  A frame rule for the result of an operation: whatever it returns has these receipts. \<open>p\<close> picks the
  database out of what is returned.
\<close>

definition keeps :: "('a \<Rightarrow> database) \<Rightarrow> receipt_row list \<Rightarrow> 'a outcome \<Rightarrow> bool" where
  "keeps p rs m \<longleftrightarrow> (\<forall>x. m = Inr x \<longrightarrow> tb_receipts (p x) = rs)"

named_theorems keeps_rules "the frames of the operations"

lemma keeps_returned [keeps_rules]: "keeps p rs (Inl e)" "tb_receipts s = rs \<Longrightarrow> keeps id rs (Inr s)"
    "tb_receipts s = rs \<Longrightarrow> keeps snd rs (Inr (x, s))" "tb_receipts s = rs \<Longrightarrow> keeps (snd \<circ> snd) rs (Inr (x, y, s))"
  by (simp_all add: keeps_def)

text \<open>A step that changes the database, alone or with a result, keeps the receipts; any other step is skipped.\<close>

lemma keeps_bound:
  "keeps id rs m \<Longrightarrow> (\<And>s. tb_receipts s = rs \<Longrightarrow> keeps p rs (f s)) \<Longrightarrow> keeps p rs (rbind m f)"
  "keeps snd rs m' \<Longrightarrow> (\<And>x s. tb_receipts s = rs \<Longrightarrow> keeps p rs (f' (x, s))) \<Longrightarrow> keeps p rs (rbind m' f')"
  "keeps (snd \<circ> snd) rs n \<Longrightarrow> (\<And>x y s. tb_receipts s = rs \<Longrightarrow> keeps p rs (g (x, y, s))) \<Longrightarrow> keeps p rs (rbind n g)"
  by (auto simp: keeps_def rbind_Inr_iff)

lemma keeps_skipped: "(\<And>x. keeps p rs (f x)) \<Longrightarrow> keeps p rs (rbind m f)"
  by (auto simp: keeps_def rbind_Inr_iff)

lemma keeps_branch:
  "(b \<Longrightarrow> keeps p rs m) \<Longrightarrow> (\<not> b \<Longrightarrow> keeps p rs n) \<Longrightarrow> keeps p rs (if b then m else n)"
  "keeps p rs m \<Longrightarrow> (\<And>x. keeps p rs (f x)) \<Longrightarrow> keeps p rs (case o' of None \<Rightarrow> m | Some x \<Rightarrow> f x)"
  "(\<And>a b. x = (a, b) \<Longrightarrow> keeps p rs (g a b)) \<Longrightarrow> keeps p rs (case x of (a, b) \<Rightarrow> g a b)"
  by (auto split: option.split prod.split)

lemma keeps_fold:
  "tb_receipts s = rs \<Longrightarrow> (\<And>x s. tb_receipts s = rs \<Longrightarrow> keeps id rs (g x s)) \<Longrightarrow> keeps id rs (rfold g xs s)"
proof (induction xs arbitrary: s)
  case (Cons x xs)
  have "keeps id rs (rbind (g x s) (rfold g xs))"
    using Cons.prems Cons.IH [OF _ Cons.prems(2)] by (intro keeps_bound(1))
  then show ?case by (simp only: rfold.simps)
qed (simp add: keeps_def)

lemma keeps_rows [keeps_rules]:
  assumes "tb_receipts s = rs"
  shows "keeps id rs (insert_cost_event s a0 a1 a2 a3 a4 a5 a6 a7)"
    and "keeps id rs (move_account b0 b1 b2 b3 s)"
    and "keeps id rs (update_reservation c0 c1 c2 s)"
    and "keeps id rs (hold_account d0 d1 d2 d3 s)"
    and "keeps id rs (update_run e0 e1 s)"
    and "keeps id rs (update_effect f0 f1 f2 s)"
    and "keeps id rs (insert_effect g0 s)"
    and "keeps id rs (insert_effect_receipt h0 s)"
    and "keeps id rs (update_installation i0 i1 i2 s)"
    and "keeps id rs (insert_plugin_version j0 s)"
    and "keeps id rs (insert_workflow k0 s)"
    and "keeps id rs (insert_installation l0 s)"
    and "keeps id rs (insert_revocation m0 s)"
    and "keeps id rs (insert_composition n0 s)"
    and "keeps id rs (insert_lineage o0 o1 o2 s)"
    and "keeps id rs (derive_rights p0 p1 p2 p3 s)"
    and "keeps id rs (insert_run q0 s)"
    and "keeps id rs (insert_delegation r0 s)"
    and "keeps id rs (update_membership ss0 ss1 s)"
    and "keeps id rs (insert_role t0 t1 t2 s)"
    and "keeps id rs (insert_invite u0 s)"
    and "keeps id rs (seed_setting v0 v1 v2 v3 s)"
    and "keeps snd rs (upsert_switch w0 s)"
    and "keeps id rs (register_contribution x0 x1 x2 x3 s)"
    and "keeps id rs (insert_artifact y0 s)"
    and "keeps id rs (insert_upload z0 s)"
    and "keeps id rs (update_upload aa0 aa1 aa2 s)"
    and "keeps id rs (update_artifacts ba0 ba1 s)"
    and "keeps id rs (insert_rights ca0 s)"
    and "keeps id rs (insert_tombstone da0 da1 da2 s)"
    and "keeps id rs (revoke_rights ea0 ea1 s)"
    and "keeps id rs (insert_deletion_request fa0 s)"
    and "keeps snd rs (persist_artifact ga0 ga1 ga2 s ga3 ga4 ga5 ga6)"
  using assms
  unfolding insert_cost_event_def move_account_def update_reservation_def hold_account_def update_run_def
    update_effect_def insert_effect_def insert_effect_receipt_def update_installation_def insert_plugin_version_def
    insert_workflow_def insert_installation_def insert_revocation_def insert_composition_def insert_lineage_def
    derive_rights_def insert_run_def insert_delegation_def update_membership_def insert_role_def insert_invite_def
    seed_setting_def upsert_switch_def register_contribution_def insert_artifact_def insert_upload_def
    update_upload_def update_artifacts_def insert_rights_def insert_tombstone_def revoke_rights_def
    insert_deletion_request_def persist_artifact_def Let_def
  by - (rule keeps_rules | rule keeps_bound | rule keeps_fold | rule keeps_branch | rule keeps_skipped | simp; fail)+

lemma keeps_steps [keeps_rules]:
  assumes "tb_receipts s = rs"
  shows "keeps snd rs (reserve_budget a0 s a1 a2 a3 a4 a5 a6 a7 a8 a9 a10)"
    and "keeps snd rs (settle_budget b0 s b1 b2 b3 b4 b5 b6)"
    and "keeps snd rs (mark_cost_unknown c0 s c1 c2 c3 c4)"
    and "keeps snd rs (release_budget d0 s d1 d2 d3 d4)"
    and "keeps id rs (save_plugin_version e0 e1 e2 e3 s)"
    and "keeps (snd \<circ> snd) rs (drain_installation f0 f1 f2 f3 f4 s)"
    and "keeps snd rs (finish_disable g0 g1 g2 g3 (g4, g5, s))"
    and "keeps id rs (insert_roles h0 h1 h2 s)"
    and "keeps id rs (tombstone_artifacts i0 i1 i2 s)"
    and "keeps snd rs (persist_output j0 j1 j2 s j3 j4 j5 j6)"
  using assms
  unfolding reserve_budget_def settle_budget_def mark_cost_unknown_def release_budget_def save_plugin_version_def
    drain_installation_def finish_disable_def insert_roles_def tombstone_artifacts_def persist_output_def Let_def
  by - (rule keeps_rules | rule keeps_bound | rule keeps_fold | rule keeps_branch | rule keeps_skipped | simp; fail)+

lemma keeps_proposal [keeps_rules]:
  assumes "tb_receipts s = rs"
  shows "keeps snd rs (record_proposal a0 s a1 a2 a3 a4 a5 a6 a7 a8 a9 a10 a11 a12 a13 a14 a15)"
  using assms
  unfolding record_proposal_def Let_def
  by - (rule keeps_rules | rule keeps_bound | rule keeps_fold | rule keeps_branch | rule keeps_skipped | simp; fail)+

lemma keeps_plugin_commands [keeps_rules]:
  assumes "tb_receipts s = rs"
  shows "keeps snd rs (compose_product a0 a1 a2 s a3)"
    and "keeps snd rs (install_plugin b0 b1 b2 s b3)"
    and "keeps snd rs (enable_plugin c0 c1 c2 s c3)"
    and "keeps snd rs (disable_plugin d0 d1 d2 s d3)"
    and "keeps snd rs (upgrade_plugin e0 e1 e2 s e3)"
    and "keeps snd rs (revoke_plugin f0 f1 f2 s f3)"
    and "keeps snd rs (uninstall_plugin g0 g1 g2 s g3)"
    and "keeps snd rs (invoke_plugin h0 h1 h2 h3 s h4)"
    and "keeps snd rs (start_run i0 i1 i2 s i3)"
    and "keeps snd rs (cancel_run j0 s j1 j2)"
  using assms
  unfolding compose_product_def install_plugin_def enable_plugin_def disable_plugin_def upgrade_plugin_def
    revoke_plugin_def uninstall_plugin_def invoke_plugin_def start_run_def cancel_run_def Let_def
  by - (rule keeps_rules | rule keeps_bound | rule keeps_fold | rule keeps_branch | rule keeps_skipped | simp; fail)+

lemma keeps_effect_commands [keeps_rules]:
  assumes "tb_receipts s = rs"
  shows "keeps snd rs (decide_approval a0 s a1 a2)"
    and "keeps snd rs (configure_budget b0 s b1 b2)"
    and "keeps snd rs (propose_effect c0 s c1 c2 c3 c4 c5 c6 c7)"
    and "keeps snd rs (dispatch_effect d0 s d1 d2 d3 d4)"
    and "keeps snd rs (reconcile_effect e0 s e1 e2)"
    and "keeps snd rs (compensate_effect f0 s f1 f2 f3 f4 f5 f6)"
  using assms
  unfolding decide_approval_def configure_budget_def propose_effect_def dispatch_effect_def reconcile_effect_def
    compensate_effect_def Let_def
  by - (rule keeps_rules | rule keeps_bound | rule keeps_fold | rule keeps_branch | rule keeps_skipped | simp; fail)+

lemma keeps_administration [keeps_rules]:
  assumes "tb_receipts s = rs"
  shows "keeps snd rs (compact_provider a0 s a1)"
    and "keeps snd rs (authorize_connection b0 s b1 b2 b3)"
    and "keeps snd rs (revoke_connection c0 s c1)"
    and "keeps snd rs (qualify_release d0 s d1 d2)"
    and "keeps snd rs (submit_catalog e0 s e1 e2)"
    and "keeps snd rs (review_catalog f0 s f1)"
    and "keeps snd rs (run_conformance g0 s g1 g2)"
    and "keeps snd rs (create_schedule h0 s h1 h2)"
    and "keeps snd rs (replay_deadletter i0 s i1)"
    and "keeps snd rs (register_ui j0 j1 s j2 j3)"
    and "keeps snd rs (create_export k0 s k1 k2)"
    and "keeps snd rs (set_kill_switch l0 s l1 l2)"
    and "keeps snd rs (mark_notification_read m0 s m1 m2)"
    and "keeps snd rs (request_support n0 s n1 n2 n3)"
    and "keeps snd rs (configure_provider o0 s o1 o2)"
  using assms
  unfolding compact_provider_def authorize_connection_def revoke_connection_def qualify_release_def submit_catalog_def
    review_catalog_def run_conformance_def create_schedule_def replay_deadletter_def register_ui_def create_export_def
    set_kill_switch_def mark_notification_read_def request_support_def configure_provider_def Let_def
  by - (rule keeps_rules | rule keeps_bound | rule keeps_fold | rule keeps_branch | rule keeps_skipped | simp; fail)+

lemma keeps_access_commands [keeps_rules]:
  assumes "tb_receipts s = rs"
  shows "keeps snd rs (create_grant a0 a1 a2 s a3)"
    and "keeps snd rs (revoke_grant b0 s b1)"
    and "keeps snd rs (begin_artifact c0 c1 c2 s c3)"
    and "keeps snd rs (finalize_artifact d0 d1 s d2)"
    and "keeps snd rs (request_deletion e0 e1 s e2)"
    and "keeps snd rs (invite_membership f0 f1 f2 f3 f4 s f5)"
    and "keeps snd rs (change_membership g0 s g1)"
    and "keeps snd rs (revoke_membership h0 s h1)"
    and "keeps snd rs (evaluate_policy i0 i1 i2 s i3)"
    and "keeps snd rs (propose_policy j0 j1 s j2)"
    and "keeps snd rs (configure_identity k0 k1 s k2)"
  using assms
  unfolding create_grant_def revoke_grant_def begin_artifact_def finalize_artifact_def request_deletion_def
    invite_membership_def change_membership_def revoke_membership_def evaluate_policy_def propose_policy_def
    configure_identity_def delete_roles_def Let_def
  by - (rule keeps_rules | rule keeps_bound | rule keeps_fold | rule keeps_branch | rule keeps_skipped | simp; fail)+

lemma handlers_keep:
  assumes "tb_receipts s = rs"
  shows "plugin_command st op = Some h \<Longrightarrow> keeps snd rs (h ids now s c)"
    and "effect_command st op = Some h \<Longrightarrow> keeps snd rs (h ids now s c)"
    and "administration_command st op = Some h \<Longrightarrow> keeps snd rs (h ids now s c)"
    and "access_command st op = Some h \<Longrightarrow> keeps snd rs (h ids now s c)"
  using assms
  unfolding plugin_command_def effect_command_def administration_command_def access_command_def Let_def
  by (auto split: if_split_asm intro: keeps_rules keeps_skipped)

lemma dispatch_keeps_receipts:
  assumes "dispatch st ids now s c = Inr (m, s')"
  shows "tb_receipts s' = tb_receipts s"
proof -
  have "keeps snd (tb_receipts s) (dispatch st ids now s c)"
    unfolding dispatch_def command_handler_def
    by (auto split: option.split intro: keeps_rules handlers_keep)
  with assms show ?thesis by (simp add: keeps_def)
qed

interpretation commands: command_handlers "dispatch st"
  by unfold_locales (rule dispatch_keeps_receipts)

text \<open>Every operation of the table has a handler, and no other has.\<close>

definition dispatched_operations :: "string list" where
  "dispatched_operations =
     [''product.compose'', ''plugin.install'', ''plugin.enable'', ''plugin.disable'', ''plugin.upgrade'', ''plugin.revoke'',
      ''plugin.uninstall'', ''plugin.invoke'', ''run.start'', ''run.cancel'', ''approval.decide'', ''budget.configure'',
      ''effect.propose'', ''effect.dispatch'', ''effect.reconcile'', ''effect.compensate'', ''provider.compact'',
      ''connection.authorize'', ''connection.revoke'', ''release.qualify'', ''catalog.submit'', ''catalog.review'',
      ''conformance.run'', ''schedule.create'', ''deadletter.replay'', ''ui.register'', ''export.create'', ''kill-switch.set'',
      ''notification.read'', ''support.request'', ''provider.configure'', ''grant.create'', ''grant.revoke'', ''artifact.begin'',
      ''artifact.finalize'', ''deletion.request'', ''membership.invite'', ''membership.change'', ''membership.revoke'',
      ''policy.evaluate'', ''policy.propose'', ''identity.configure'']"

lemma command_handler_known: "command_handler st operation \<noteq> None \<longleftrightarrow> operation \<in> set dispatched_operations"
  unfolding command_handler_def plugin_command_def effect_command_def administration_command_def access_command_def
    dispatched_operations_def Let_def
  by (auto split: option.split simp: map_of_eq_None_iff)

section \<open>Properties of every command\<close>

text \<open>
  C3: a command takes effect once. When a command of any operation has committed, then for a day and
  whatever commands are executed in between, the same command under the same key is answered by the
  same receipt, and a different command under that key is refused; neither changes the database.
\<close>

theorem command_takes_effect_once:
  assumes "execute (cs_env st) (dispatch st) ids now s c = (Inr r, s1)" and "admit (cs_env st) now s c = Inr None"
    and "uuid_text_ok (ce_platform (cs_env st))" and "time_text_ok (ce_platform (cs_env st))" and "0 \<le> now"
    and "pred_option resource_ref_ok (cr_resource r)"
    and "\<forall>x \<in> set xs. xe_now x < now + 24 * seconds 3600" and "now' < now + 24 * seconds 3600"
    and "s2 = run_executions (cs_env st) (dispatch st) xs s1"
  shows "(is_ok (begin_actor (ce_platform (cs_env st)) s2 (ac_actor c))
      \<and> is_ok (authorize_command (ce_cedar (cs_env st)) (ce_platform (cs_env st)) s2 c) \<longrightarrow>
        execute (cs_env st) (dispatch st) ids' now' s2 c = (Inr r, s2))
    \<and> (\<forall>c'. ca_tenant_id (ac_actor c') = ca_tenant_id (ac_actor c) \<and> ca_principal_id (ac_actor c') = ca_principal_id (ac_actor c)
        \<and> ac_operation c' = ac_operation c \<and> ac_idempotency_key c' = ac_idempotency_key c
        \<and> ac_fingerprint c' \<noteq> ac_fingerprint c \<longrightarrow>
        (\<exists>e. execute (cs_env st) (dispatch st) ids' now' s2 c' = (Inl e, s2)))"
  using commands.replay [OF assms(1-8)] commands.key_conflict [OF assms(1-3,7,8)] unfolding assms(9) by blast

text \<open>
  C9: a command is atomic and leaves a full record. An execution that reports an error leaves the
  database as it was, unless it found a corrupt artifact, which it then quarantines. One that reports
  a receipt either answers a replay and changes nothing, or commits what the handler of its operation
  wrote together with a projection, an audit entry and a pending event for each change, and the receipt.
\<close>

theorem command_is_atomic_and_recorded:
  assumes "execute (cs_env st) (dispatch st) ids now s c = (result, s')" and "uuid_text_ok (ce_platform (cs_env st))"
  shows "case result of
      Inl e \<Rightarrow> s' = s \<or> (\<exists>reference. quarantine_corrupt_artifact (cs_env st) (own_ids ids) now s c reference = Inr s')
    | Inr r \<Rightarrow> s' = s \<and> admit (cs_env st) now s c = Inr (Some r)
        \<or> (\<exists>m s1 s2 rs rows tenant who.
            ac_operation c \<in> set dispatched_operations \<and> dispatch st (handler_ids ids) now s c = Inr (m, s1)
            \<and> grown s1 rs s2 \<and> list_all2 (records_change (ce_platform (cs_env st)) tenant who (ac_operation c) (own_ids ids 1)) (mu_changes m) rs
            \<and> s' = s2\<lparr>tb_receipts := rows\<rparr> \<and> tb_receipts s2 = tb_receipts s
            \<and> (\<exists>q. row_at receipt_key (tenant, who, ac_operation c, ac_idempotency_key c) rows = Some q
                \<and> cp_receipt q = ser_receipt (ce_platform (cs_env st)) r)
            \<and> cr_resource r = Some (mu_primary m))"
proof (cases rule: execute_cases [of "cs_env st" now s c "dispatch st" ids])
  case (committed m s1 r s2)
  from committed(1) obtain tenant who where p: "parse_uuid (ce_platform (cs_env st)) (ca_tenant_id (ac_actor c)) = Inr tenant"
    "parse_uuid (ce_platform (cs_env st)) (ca_principal_id (ac_actor c)) = Inr who" using admit_Inr_checks(3) by blast
  have op: "ac_operation c \<in> set dispatched_operations"
    using committed(2) command_handler_known [of st "ac_operation c"] by (auto simp: dispatch_def split: option.splits)
  from commands.committed_receipt_row [OF committed(4,1) assms(2) p] obtain q where
    q: "row_at receipt_key (tenant, who, ac_operation c, ac_idempotency_key c) (tb_receipts s2) = Some q"
      "cp_receipt q = ser_receipt (ce_platform (cs_env st)) r" by blast
  from committed(3) assms(2) show ?thesis
  proof (rule commit_mutation_Inr)
    fix tenant' who' rs s3
    assume x: "parse_uuid (ce_platform (cs_env st)) (ca_tenant_id (ac_actor c)) = Inr tenant'"
      "parse_uuid (ce_platform (cs_env st)) (ca_principal_id (ac_actor c)) = Inr who'"
      and g: "grown s1 rs s3"
      and l: "list_all2 (records_change (ce_platform (cs_env st)) tenant' who' (ac_operation c) (own_ids ids 1)) (mu_changes m) rs"
      and st: "store_receipt now \<lparr> cp_tenant = tenant', cp_principal_id = who',
               cp_operation = ac_operation c, cp_idempotency_key = ac_idempotency_key c,
               cp_fingerprint = ac_fingerprint c, cp_command_id = own_ids ids 0,
               cp_receipt = ser_receipt (ce_platform (cs_env st)) r,
               cp_expires_at = now + 24 * seconds 3600 \<rparr> s3 = Inr s2" and cr: "cr_resource r = Some (mu_primary m)"
    from x p have e: "tenant' = tenant" "who' = who" by simp_all
    from store_receipt_Inr [OF st] obtain rows where s2: "s2 = s3\<lparr>tb_receipts := rows\<rparr>" by blast
    from g dispatch_keeps_receipts [OF committed(2)] have "tb_receipts s3 = tb_receipts s" by (auto simp: grown_def)
    moreover from q s2 have "row_at receipt_key (tenant, who, ac_operation c, ac_idempotency_key c) rows = Some q" by simp
    moreover have "result = Inr r" "s' = s2" using committed(4) assms(1) by simp_all
    ultimately show ?thesis using op committed(2) g l s2 q(2) cr unfolding e by auto
  qed
qed (use assms(1) in \<open>auto split: sum.splits\<close>)


section \<open>A sample command\<close>

definition sample_store :: command_store where
  "sample_store = \<lparr> cs_registry = registry_sample, cs_runtime = None, cs_codec = sample_codec, cs_invite_key = None,
     cs_ui_update = False, cs_clock = \<lambda>now _. now \<rparr>"

definition stop_command :: authorized_command where
  "stop_command = member_command ''kill-switch.set'' ''k'' [(''scope'', JStr ''TENANT''), (''target_id'', JStr ''1''),
     (''active'', JBool True), (''reason'', JStr ''r'')]"

definition stopped :: "command_receipt outcome \<times> database" where
  "stopped = execute (cs_env sample_store) (dispatch sample_store) (\<lambda>n. 100 + of_nat n) 9 registry_db stop_command"

lemma sample_store_ok: "uuid_text_ok (ce_platform (cs_env sample_store))" "time_text_ok (ce_platform (cs_env sample_store))"
  using sample_platform_ok
  by (simp_all add: sample_store_def registry_sample_def uuid_text_ok_def time_text_ok_def sample_platform_def
      decimal_digits decimal_value_decimal)

lemma stopped_ok: "\<exists>r s1. stopped = (Inr r, s1) \<and> pred_option resource_ref_ok (cr_resource r)"
proof -
  obtain x s1 where s: "stopped = (x, s1)" by (cases stopped)
  have "case fst stopped of Inl e \<Rightarrow> False | Inr r \<Rightarrow> (case cr_resource r of None \<Rightarrow> True | Some q \<Rightarrow> resource_ref_ok q)" by code_simp
  then show ?thesis unfolding s fst_conv by (auto split: sum.splits option.splits)
qed

theorem command_takes_effect_once_witness:
  "\<exists>r s1. stopped = (Inr r, s1)
     \<and> execute (cs_env sample_store) (dispatch sample_store) (\<lambda>n. 500 + of_nat n) 20 s1 stop_command = (Inr r, s1)"
proof -
  from stopped_ok obtain r s1 where s: "stopped = (Inr r, s1)" "pred_option resource_ref_ok (cr_resource r)" by blast
  have a: "admit (cs_env sample_store) 9 registry_db stop_command = Inr None" by code_simp
  have "is_ok (begin_actor (ce_platform (cs_env sample_store)) (snd stopped) (ac_actor stop_command))"
    "is_ok (authorize_command (ce_cedar (cs_env sample_store)) (ce_platform (cs_env sample_store)) (snd stopped) stop_command)"
    by code_simp+
  note k = this [unfolded s(1) snd_conv]
  have "execute (cs_env sample_store) (dispatch sample_store) (\<lambda>n. 500 + of_nat n) 20 s1 stop_command = (Inr r, s1)"
    using command_takes_effect_once [OF s(1) [unfolded stopped_def] a sample_store_ok _ s(2), of "[]" 20 s1] k
    by (simp add: run_executions_def)
  with s show ?thesis by blast
qed

theorem command_is_atomic_and_recorded_witness:
  "\<exists>r s1. stopped = (Inr r, s1) \<and> tb_audit s1 \<noteq> [] \<and> tb_outbox s1 \<noteq> [] \<and> ac_operation stop_command \<in> set dispatched_operations"
proof -
  from stopped_ok obtain r s1 where s: "stopped = (Inr r, s1)" by blast
  from s have e: "execute (cs_env sample_store) (dispatch sample_store) (\<lambda>n. 100 + of_nat n) 9 registry_db stop_command = (Inr r, s1)"
    by (simp add: stopped_def)
  have "admit (cs_env sample_store) 9 registry_db stop_command = Inr None" by code_simp
  with command_is_atomic_and_recorded [OF e sample_store_ok(1)] have op: "ac_operation stop_command \<in> set dispatched_operations" by auto
  have "tb_audit (snd stopped) \<noteq> []" "tb_outbox (snd stopped) \<noteq> []" by code_simp+
  from this [unfolded s snd_conv] s op show ?thesis by blast
qed

end
