(* ===== verification/Sdk.thy ===== *)
theory Sdk
  imports Manifests
begin

text \<open>
  The plugin SDK, \<open>crates/sdk/src/lib.rs\<close>: what a domain plugin sees of the host (an invocation
  context with the granted capabilities, the typed input and output, a broker that only takes
  proposals), the checks of a packaged plugin, the contract version rule and the finite-state helper,
  which is a second instance of the locale \<open>versioned_machine\<close> of the kernel.
\<close>

section \<open>Errors and contract versions\<close>

datatype sdk_error =
    Sdk_NotImplemented string "string list"
  | Sdk_UnsupportedOperation string
  | Sdk_HostCapabilityUnavailable string
  | Sdk_ContractIncompatible string string
  | Sdk_PluginIdentityMismatch
  | Sdk_InputSchemaMismatch
  | Sdk_OutputSchemaMismatch
  | Sdk_CapabilityDenied string
  | Sdk_InvalidPayload string
  | Sdk_InvalidInvocation string
  | Sdk_InvalidPackage string

definition SUPPORTED_CONTRACT_RANGE :: string where
  "SUPPORTED_CONTRACT_RANGE = ''>=1.0.0,<2.0.0''"

definition version_part :: "string list \<Rightarrow> nat \<Rightarrow> u64 option" where
  "version_part parts i = (if i < length parts then parse_u64 (parts ! i) else None)"

definition ensure_contract_compatible :: "string \<Rightarrow> sdk_error + unit" where
  "ensure_contract_compatible required =
     (let parts = split_on (CHR ''.'') required;
          major = version_part parts 0; minor = version_part parts 1; patch = version_part parts 2 in
      if 3 < length parts \<or> minor = None \<or> patch = None
      then Inl (Sdk_ContractIncompatible required SUPPORTED_CONTRACT_RANGE)
      else if major \<noteq> Some 1 then Inl (Sdk_ContractIncompatible required SUPPORTED_CONTRACT_RANGE)
      else Inr ())"

definition sha256_digest :: "platform \<Rightarrow> string \<Rightarrow> digest" where
  "sha256_digest pf bytes = ''sha256:'' @ pf_sha256_hex pf bytes"

section \<open>Packages\<close>

record plugin_descriptor =
  ds_id :: string
  ds_contract_version :: string
  ds_feature_namespaces :: "string list"
  ds_operations :: "string list"
  ds_trace_ids :: "string list"

record packaged_artifact =
  pa_reference :: artifact_ref
  pa_bytes :: string

definition packaged_artifact_validate :: "platform \<Rightarrow> packaged_artifact \<Rightarrow> sdk_error + unit" where
  "packaged_artifact_validate pf a =
     (if sha256_digest pf (pa_bytes a) \<noteq> ar_digest (pa_reference a)
      then Inl (Sdk_InvalidPackage ''supporting_artifact_digest'') else Inr ())"

record packaged_plugin_fixture =
  fx_plugin_id :: plugin_id
  fx_version :: string
  fx_contract_version :: string
  fx_publisher_id :: string
  fx_execution_class :: execution_class
  fx_artifact_bytes :: string
  fx_artifact_digest :: digest
  fx_handlers :: "handler_contract list"
  fx_workflows :: "artifact_ref list"
  fx_supporting_artifacts :: "packaged_artifact list"

text \<open>The loop over the handlers carries the identifiers seen so far.\<close>

definition validate_handler :: "handler_contract \<Rightarrow> string set \<Rightarrow> sdk_error + string set" where
  "validate_handler h seen =
     (if is_blank (hc_id h) \<or> hc_id h \<in> seen \<or> hc_max_execution_seconds h = 0
         \<or> ar_tenant_id (hc_input_schema_ref h) \<noteq> ar_tenant_id (hc_output_schema_ref h)
         \<or> \<not> List.member [''READ_ONLY'', ''PROPOSES_EFFECT'', ''DETERMINISTIC''] (hc_effects h)
      then Inl (Sdk_InvalidPackage ''handler_contract'') else Inr (insert (hc_id h) seen))"

definition fixture_validate :: "platform \<Rightarrow> packaged_plugin_fixture \<Rightarrow> sdk_error + unit" where
  "fixture_validate pf p =
     rbind (ensure_contract_compatible (fx_contract_version p)) (\<lambda>_.
     if is_blank (fx_publisher_id p) \<or> is_blank (fx_version p) then Inl (Sdk_InvalidPackage ''metadata'')
     else if sha256_digest pf (fx_artifact_bytes p) \<noteq> fx_artifact_digest p
     then Inl (Sdk_InvalidPackage ''artifact_digest'')
     else if fx_handlers p = [] then Inl (Sdk_InvalidPackage ''handlers'')
     else
     rbind (rfold validate_handler (fx_handlers p) {}) (\<lambda>_.
     rbind (rfold (\<lambda>a _. packaged_artifact_validate pf a) (fx_supporting_artifacts p) ()) (\<lambda>_.
     rfold (\<lambda>w _. if list_ex (\<lambda>a. pa_reference a = w) (fx_supporting_artifacts p) then Inr ()
                   else Inl (Sdk_InvalidPackage ''workflow_payload'')) (fx_workflows p) ())))"

section \<open>Invocations\<close>

record invocation_context =
  iv_invocation_id :: resource_id
  iv_tenant_id :: tenant_id
  iv_plugin_id :: plugin_id
  iv_handler_id :: string
  iv_grant_id :: grant_id
  iv_contract_version :: string
  iv_input_schema_ref :: artifact_ref
  iv_output_schema_ref :: artifact_ref
  iv_granted_capabilities :: "action set"

definition invocation_context_new ::
    "resource_id \<Rightarrow> tenant_id \<Rightarrow> plugin_id \<Rightarrow> string \<Rightarrow> grant_id \<Rightarrow> string \<Rightarrow> artifact_ref \<Rightarrow> artifact_ref
     \<Rightarrow> action list \<Rightarrow> sdk_error + invocation_context" where
  "invocation_context_new invocation tenant plugin handler grant version inp out capabilities =
     (if handler = [] \<or> 128 < length handler then Inl (Sdk_InvalidInvocation ''handler_id'')
      else
      rbind (ensure_contract_compatible version) (\<lambda>_.
      if ar_tenant_id inp \<noteq> tenant \<or> ar_tenant_id out \<noteq> tenant
      then Inl (Sdk_InvalidInvocation ''schema_tenant'')
      else Inr \<lparr> iv_invocation_id = invocation, iv_tenant_id = tenant, iv_plugin_id = plugin,
                 iv_handler_id = handler, iv_grant_id = grant, iv_contract_version = version,
                 iv_input_schema_ref = inp, iv_output_schema_ref = out,
                 iv_granted_capabilities = set capabilities \<rparr>))"

definition context_allows :: "invocation_context \<Rightarrow> action \<Rightarrow> bool" where
  "context_allows context a \<longleftrightarrow> a \<in> iv_granted_capabilities context"

text \<open>Input and output have the same shape: a schema and the bytes that claim to follow it.\<close>

record invocation_data =
  id_schema_ref :: artifact_ref
  id_bytes :: string

definition output_for_context :: "invocation_context \<Rightarrow> string \<Rightarrow> invocation_data" where
  "output_for_context context bytes = \<lparr> id_schema_ref = iv_output_schema_ref context, id_bytes = bytes \<rparr>"

record invocation_result =
  ir_output :: invocation_data
  ir_proposed_effects :: "effect_id list"

definition result_pure :: "invocation_context \<Rightarrow> string \<Rightarrow> invocation_result" where
  "result_pure context bytes = \<lparr> ir_output = output_for_context context bytes, ir_proposed_effects = [] \<rparr>"

definition validate_output :: "invocation_context \<Rightarrow> invocation_result \<Rightarrow> sdk_error + unit" where
  "validate_output context r =
     (if id_schema_ref (ir_output r) \<noteq> iv_output_schema_ref context then Inl Sdk_OutputSchemaMismatch
      else Inr ())"

record effect_proposal =
  ep_tenant_id :: tenant_id
  ep_action :: action
  ep_target :: resource_id
  ep_content_digest :: digest

text \<open>The broker a plugin is given answers a proposal with the identifier of an effect.\<close>

type_synonym effect_broker = "effect_proposal \<Rightarrow> sdk_error + effect_id"

definition deny_effects :: effect_broker where
  "deny_effects proposal = Inl (Sdk_CapabilityDenied ''effect.propose'')"

definition validate_invocation ::
    "plugin_descriptor \<Rightarrow> invocation_context \<Rightarrow> invocation_data \<Rightarrow> sdk_error + unit" where
  "validate_invocation descriptor context inp =
     rbind (ensure_contract_compatible (ds_contract_version descriptor)) (\<lambda>_.
     if ds_id descriptor \<noteq> iv_plugin_id context then Inl Sdk_PluginIdentityMismatch
     else if \<not> List.member (ds_operations descriptor) (iv_handler_id context)
     then Inl (Sdk_UnsupportedOperation (iv_handler_id context))
     else if id_schema_ref inp \<noteq> iv_input_schema_ref context then Inl Sdk_InputSchemaMismatch
     else Inr ())"

definition invoke_default ::
    "plugin_descriptor \<Rightarrow> invocation_context \<Rightarrow> invocation_data \<Rightarrow> effect_broker \<Rightarrow> sdk_error + invocation_result" where
  "invoke_default descriptor context inp host =
     rbind (validate_invocation descriptor context inp) (\<lambda>_.
     Inl (Sdk_NotImplemented (iv_handler_id context) (ds_trace_ids descriptor)))"

definition invoke_scaffold :: "plugin_descriptor \<Rightarrow> string \<Rightarrow> sdk_error + unit" where
  "invoke_scaffold descriptor operation =
     (if \<not> List.member (ds_operations descriptor) operation then Inl (Sdk_UnsupportedOperation operation)
      else Inl (Sdk_NotImplemented operation (ds_trace_ids descriptor)))"

section \<open>The finite-state helper\<close>

record transition_edge =
  te_from :: string
  te_to :: string

record versioned_contract_state =
  vc_state :: string
  vc_version :: u64

definition contract_state_new :: "string \<Rightarrow> versioned_contract_state" where
  "contract_state_new s = \<lparr> vc_state = s, vc_version = 1 \<rparr>"

datatype contract_state_error = ContractIllegalTransition

definition contract_edge :: "transition_edge list \<Rightarrow> string \<Rightarrow> string \<Rightarrow> bool" where
  "contract_edge edges from to \<longleftrightarrow> list_ex (\<lambda>e. te_from e = from \<and> te_to e = to) edges"

definition contract_transition ::
    "transition_edge list \<Rightarrow> versioned_contract_state \<Rightarrow> string \<Rightarrow> contract_state_error + versioned_contract_state" where
  "contract_transition edges s target =
     (if \<not> contract_edge edges (vc_state s) target then Inl ContractIllegalTransition
      else Inr (s\<lparr>vc_state := target, vc_version := vc_version s + 1\<rparr>))"

interpretation sdk_contract:
  versioned_machine vc_state vc_version "contract_edge edges" "contract_transition edges" for edges
  by unfold_locales (auto simp: contract_transition_def)

text \<open>
  A domain contract moves exactly along paths of its own edge table, from version 1 and one version
  per move.
\<close>

lemma contract_replay:
  "is_ok (replay (contract_transition edges) ts (contract_state_new s)) \<longleftrightarrow> edge_path (contract_edge edges) s ts"
  using sdk_contract.replay_iff_path [of edges ts "contract_state_new s"] by (simp add: contract_state_new_def)

lemma contract_replay_version:
  "replay (contract_transition edges) ts (contract_state_new s) = Inr c \<Longrightarrow>
     vc_state c = last (s # ts) \<and> vc_version c = 1 + of_nat (length ts)"
  using sdk_contract.replay_Inr [of edges ts "contract_state_new s" c] by (simp add: contract_state_new_def)

section \<open>What the checks admit\<close>

lemma split_on_ne: "split_on d s \<noteq> []"
  by (cases s) (auto split: list.splits)

lemma split_on_append: "d \<notin> set a \<Longrightarrow> split_on d (a @ d # t) = a # split_on d t"
  by (induction a) auto

lemma split_on_single: "d \<notin> set a \<Longrightarrow> split_on d a = [a]"
  by (induction a) auto

lemma split_on_two: "split_on d s = a # b # ps \<Longrightarrow> \<exists>t. s = a @ d # t \<and> split_on d t = b # ps"
proof (induction s arbitrary: a)
  case (Cons c cs)
  show ?case
  proof (cases "c = d")
    case False
    with Cons.prems obtain w where "split_on d cs = w # b # ps" "a = c # w"
      by (auto split: list.splits)
    with Cons.IH [of w] show ?thesis by auto
  qed (use Cons.prems in auto)
qed simp

lemma split_on_one: "split_on d s = [a] \<Longrightarrow> s = a"
proof (induction s arbitrary: a)
  case (Cons c cs)
  with split_on_ne [of d cs] show ?case by (cases "c = d"; cases "split_on d cs") auto
qed simp

lemma parse_u64_no_dot:
  assumes "parse_u64 s = Some n"
  shows "CHR ''.'' \<notin> set s"
proof -
  have "\<not> is_ascii_digit (CHR ''.'')" by code_simp
  with assms show ?thesis
    by (cases s) (auto simp: parse_u64_def Let_def list_all_iff split: if_split_asm)
qed

text \<open>The versions a host of contract 1 works with: three decimal numbers, the first of them 1.\<close>

lemma contract_compatible_iff:
  "ensure_contract_compatible v = Inr () \<longleftrightarrow>
     (\<exists>a b c. v = a @ ''.'' @ b @ ''.'' @ c \<and> parse_u64 a = Some 1 \<and> parse_u64 b \<noteq> None \<and> parse_u64 c \<noteq> None)"
proof -
  have len: "length ps \<le> 3 \<and> version_part ps 0 = Some 1 \<and> version_part ps 1 \<noteq> None \<and> version_part ps 2 \<noteq> None
      \<longleftrightarrow> (\<exists>a b c. ps = [a, b, c] \<and> parse_u64 a = Some 1 \<and> parse_u64 b \<noteq> None \<and> parse_u64 c \<noteq> None)" for ps
    by (cases ps rule: remdups_adj.cases; cases "drop 2 ps") (auto simp: version_part_def)
  have "ensure_contract_compatible v = Inr () \<longleftrightarrow>
      (\<exists>a b c. split_on (CHR ''.'') v = [a, b, c] \<and> parse_u64 a = Some 1 \<and> parse_u64 b \<noteq> None \<and> parse_u64 c \<noteq> None)"
    unfolding len [symmetric] by (auto simp: ensure_contract_compatible_def Let_def)
  also have "\<dots> \<longleftrightarrow> (\<exists>a b c. v = a @ ''.'' @ b @ ''.'' @ c \<and> parse_u64 a = Some 1 \<and> parse_u64 b \<noteq> None \<and> parse_u64 c \<noteq> None)"
  proof -
    have "v = a @ ''.'' @ b @ ''.'' @ c" if parts: "split_on (CHR ''.'') v = [a, b, c]" for a b c
    proof -
      from split_on_two [OF parts] obtain t where v: "v = a @ CHR ''.'' # t" "split_on (CHR ''.'') t = [b, c]" by auto
      from split_on_two [OF v(2)] obtain u where "t = b @ CHR ''.'' # u" "split_on (CHR ''.'') u = [c]" by auto
      with v split_on_one show ?thesis by fastforce
    qed
    moreover have "split_on (CHR ''.'') (a @ ''.'' @ b @ ''.'' @ c) = [a, b, c]"
      if "parse_u64 a = Some 1" "parse_u64 b \<noteq> None" "parse_u64 c \<noteq> None" for a b c
      using that parse_u64_no_dot by (auto simp: split_on_append split_on_single)
    ultimately show ?thesis by metis
  qed
  finally show ?thesis .
qed

lemma validate_handlers_iff:
  "(\<exists>seen'. rfold validate_handler hs seen = Inr seen') \<longleftrightarrow>
     distinct (map hc_id hs) \<and> set (map hc_id hs) \<inter> seen = {}
     \<and> (\<forall>h \<in> set hs. \<not> is_blank (hc_id h) \<and> hc_max_execution_seconds h \<noteq> 0
          \<and> ar_tenant_id (hc_input_schema_ref h) = ar_tenant_id (hc_output_schema_ref h)
          \<and> hc_effects h \<in> {''READ_ONLY'', ''PROPOSES_EFFECT'', ''DETERMINISTIC''})"
  by (induction hs arbitrary: seen) (auto simp: rbind_Inr_iff validate_handler_def)

text \<open>
  A package passes exactly when its version is of contract 1, its bytes and every supporting artifact
  have the digests they claim, its handlers are well formed with distinct names, and every workflow
  comes with its payload.
\<close>

lemma fixture_validate_iff:
  "fixture_validate pf p = Inr () \<longleftrightarrow>
     ensure_contract_compatible (fx_contract_version p) = Inr ()
     \<and> \<not> is_blank (fx_publisher_id p) \<and> \<not> is_blank (fx_version p)
     \<and> sha256_digest pf (fx_artifact_bytes p) = fx_artifact_digest p
     \<and> fx_handlers p \<noteq> [] \<and> distinct (map hc_id (fx_handlers p))
     \<and> (\<forall>h \<in> set (fx_handlers p). \<not> is_blank (hc_id h) \<and> hc_max_execution_seconds h \<noteq> 0
          \<and> ar_tenant_id (hc_input_schema_ref h) = ar_tenant_id (hc_output_schema_ref h)
          \<and> hc_effects h \<in> {''READ_ONLY'', ''PROPOSES_EFFECT'', ''DETERMINISTIC''})
     \<and> (\<forall>a \<in> set (fx_supporting_artifacts p). sha256_digest pf (pa_bytes a) = ar_digest (pa_reference a))
     \<and> set (fx_workflows p) \<subseteq> pa_reference ` set (fx_supporting_artifacts p)"
proof -
  have arts: "rfold (\<lambda>a _. packaged_artifact_validate pf a) as () = Inr () \<longleftrightarrow>
      (\<forall>a \<in> set as. sha256_digest pf (pa_bytes a) = ar_digest (pa_reference a))" for as
    by (induction as) (auto simp: rbind_Inr_iff packaged_artifact_validate_def)
  have flows: "rfold (\<lambda>w _. if list_ex (\<lambda>a. pa_reference a = w) as then Inr ()
        else Inl (Sdk_InvalidPackage ''workflow_payload'')) ws () = Inr () \<longleftrightarrow> set ws \<subseteq> pa_reference ` set as" for ws as
    by (induction ws) (auto simp: rbind_Inr_iff list_ex_iff)
  from validate_handlers_iff [of "fx_handlers p" "{}"] show ?thesis
    by (auto simp: fixture_validate_def rbind_Inr_iff arts flows)
qed

lemma validate_invocation_Inr:
  "validate_invocation d context inp = Inr () \<longleftrightarrow>
     ensure_contract_compatible (ds_contract_version d) = Inr () \<and> iv_plugin_id context = ds_id d
     \<and> iv_handler_id context \<in> set (ds_operations d) \<and> id_schema_ref inp = iv_input_schema_ref context"
  by (auto simp: validate_invocation_def rbind_Inr_iff)

lemma context_new_Inr:
  assumes "invocation_context_new i t p h g v a b caps = Inr context"
  shows "ar_tenant_id (iv_input_schema_ref context) = iv_tenant_id context
     \<and> ar_tenant_id (iv_output_schema_ref context) = iv_tenant_id context
     \<and> iv_handler_id context \<noteq> [] \<and> length (iv_handler_id context) \<le> 128
     \<and> (\<forall>x. context_allows context x \<longleftrightarrow> x \<in> set caps)"
  using assms by (auto simp: invocation_context_new_def rbind_Inr_iff context_allows_def split: if_split_asm)

text \<open>Nothing runs by default: a plugin without an implementation of its own never gives a result.\<close>

lemma default_never_succeeds: "\<not> is_ok (invoke_default d context inp host)" "\<not> is_ok (invoke_scaffold d op)"
  by (auto simp: is_ok_iff invoke_default_def invoke_scaffold_def rbind_Inr_iff)

section \<open>The interface of a domain plugin\<close>

text \<open>
  The trait \<open>DomainPlugin\<close>: a descriptor and an invocation that may panic (the outer option). Its laws
  are what the trait asks of an implementation: it starts with \<open>validate_invocation\<close>, and what it
  returns is under the output schema of the context.
\<close>

locale domain_plugin =
  fixes descriptor :: plugin_descriptor
    and invoke :: "invocation_context \<Rightarrow> invocation_data \<Rightarrow> effect_broker \<Rightarrow> (sdk_error + invocation_result) option"
  assumes invoke_validates: "validate_invocation descriptor context inp = Inl e \<Longrightarrow> invoke context inp host = Some (Inl e)"
    and invoke_output: "invoke context inp host = Some (Inr r) \<Longrightarrow> validate_output context r = Inr ()"
begin

lemma invoke_in_contract:
  assumes "invoke context inp host = Some (Inr r)"
  shows "iv_plugin_id context = ds_id descriptor \<and> iv_handler_id context \<in> set (ds_operations descriptor)
     \<and> id_schema_ref inp = iv_input_schema_ref context
     \<and> id_schema_ref (ir_output r) = iv_output_schema_ref context"
proof -
  have "validate_invocation descriptor context inp = Inr ()"
    using invoke_validates [where host = host] assms
    by (cases "validate_invocation descriptor context inp") auto
  with invoke_output [OF assms] show ?thesis
    by (auto simp: validate_invocation_Inr validate_output_def split: if_split_asm)
qed

end

text \<open>A deterministic plugin: it neither asks the broker nor lists a proposal.\<close>

locale deterministic_plugin = domain_plugin +
  assumes invoke_ignores_broker: "invoke context inp host = invoke context inp host'"
    and invoke_proposes_nothing: "invoke context inp host = Some (Inr r) \<Longrightarrow> ir_proposed_effects r = []"
begin

lemma succeeds_without_effects:
  assumes "invoke context inp host = Some (Inr r)"
  shows "invoke context inp deny_effects = Some (Inr r) \<and> ir_proposed_effects r = []"
  using assms invoke_ignores_broker [where host = host and host' = deny_effects] invoke_proposes_nothing by auto

end

end
