(* ===== verification/Products.thy ===== *)
theory Products
  imports Sdk
begin

text \<open>
  The two first-party products, \<open>products/checksum/src/lib.rs\<close> and
  \<open>products/document-review/src/lib.rs\<close>. They differ in their constants and in the text they compute;
  the functions that build their packages are the same line by line, so the model takes the
  constants of a product as a record. An \<open>expect\<close> that fails is the value \<open>None\<close>. The JSON decoder is
  the argument \<open>decode\<close>.
\<close>

section \<open>The constants\<close>

record product =
  po_plugin_id :: string
  po_handler_id :: string
  po_version :: string
  po_packaged_bytes :: string
  po_input_schema_json :: string
  po_output_schema_json :: string
  po_input_artifact :: string
  po_output_artifact :: string
  po_workflow_artifact :: string
  po_trace_ids :: "string list"

definition nul :: string where
  "nul = [CHR 0x00]"

definition checksum :: product where
  "checksum =
     \<lparr> po_plugin_id = ''fixture.checksum'', po_handler_id = ''checksum.compute'', po_version = ''1.0.0'',
       po_packaged_bytes = ''masonwing:first-party-native-fixture'' @ nul @ ''fixture.checksum'' @ nul @ ''v1.0.0'' @ nul
         @ ''checksum.compute'' @ nul,
       po_input_schema_json = ''{\"$schema\":\"https://json-schema.org/draft/2020-12/schema\",\"items\":{\"maximum\":255,\"minimum\":0,\"type\":\"integer\"},\"title\":\"Checksum input bytes\",\"type\":\"array\"}'',
       po_output_schema_json = ''{\"$schema\":\"https://json-schema.org/draft/2020-12/schema\",\"pattern\":\"^sha256:[0-9a-f]{64}$\",\"title\":\"Checksum SHA-256 digest\",\"type\":\"string\"}'',
       po_input_artifact = ''fixture.checksum.schema.input.v1'', po_output_artifact = ''fixture.checksum.schema.output.v1'',
       po_workflow_artifact = ''fixture.checksum.workflow.v1'',
       po_trace_ids = [''MASONWING@1.0.1:REQ-003'', ''MASONWING@1.0.1:AC-003'', ''MASONWING@1.0.1:TC-AC-003''] \<rparr>"

definition document_review :: product where
  "document_review =
     \<lparr> po_plugin_id = ''fixture.document-review'', po_handler_id = ''document-review.review'', po_version = ''1.0.0'',
       po_packaged_bytes = ''masonwing:first-party-native-fixture'' @ nul @ ''fixture.document-review'' @ nul @ ''v1.0.0'' @ nul
         @ ''document-review.review'' @ nul,
       po_input_schema_json = ''{\"$schema\":\"https://json-schema.org/draft/2020-12/schema\",\"items\":{\"maximum\":255,\"minimum\":0,\"type\":\"integer\"},\"title\":\"Document review input bytes\",\"type\":\"array\"}'',
       po_output_schema_json = ''{\"$schema\":\"https://json-schema.org/draft/2020-12/schema\",\"pattern\":\"^review:v1;bytes=[0-9]+;digest=sha256:[0-9a-f]{64};verdict=REVIEWED$\",\"title\":\"Deterministic document review summary\",\"type\":\"string\"}'',
       po_input_artifact = ''fixture.document-review.schema.input.v1'',
       po_output_artifact = ''fixture.document-review.schema.output.v1'',
       po_workflow_artifact = ''fixture.document-review.workflow.v1'',
       po_trace_ids = [''MASONWING@1.0.1:REQ-002'', ''MASONWING@1.0.1:AC-002'', ''MASONWING@1.0.1:TC-AC-002''] \<rparr>"

definition product_descriptor :: "product \<Rightarrow> plugin_descriptor" where
  "product_descriptor p =
     \<lparr> ds_id = po_plugin_id p, ds_contract_version = CONTRACT_VERSION,
       ds_feature_namespaces = [''MASONWING@1.0.1:F-001''], ds_operations = [po_handler_id p],
       ds_trace_ids = po_trace_ids p \<rparr>"

section \<open>The packages\<close>

definition canonical_json :: "(string \<Rightarrow> json option) \<Rightarrow> platform \<Rightarrow> string \<Rightarrow> string option" where
  "canonical_json decode pf raw = Option.bind (decode raw) (pf_canonical pf)"

definition canonical_workflow :: "platform \<Rightarrow> workflow_definition \<Rightarrow> string option" where
  "canonical_workflow pf d =
     Option.bind (pf_canonical pf (remove_member ''digest'' (ser_workflow_definition d))) (\<lambda>identity_bytes.
     pf_canonical pf (ser_workflow_definition (d\<lparr>wd_digest := sha256_digest pf identity_bytes\<rparr>)))"

definition fixture_ref :: "platform \<Rightarrow> tenant_id \<Rightarrow> string \<Rightarrow> string \<Rightarrow> artifact_ref option" where
  "fixture_ref pf tenant i bytes =
     (case opaque_id_new ''ArtifactId'' i of
        Inl _ \<Rightarrow> None
      | Inr a \<Rightarrow> Some \<lparr> ar_artifact_id = a, ar_tenant_id = tenant, ar_digest = sha256_digest pf bytes,
                        ar_schema_version = ''1.0.0'', ar_classification = Internal \<rparr>)"

definition fixture_workflow :: "platform \<Rightarrow> product \<Rightarrow> artifact_ref \<Rightarrow> artifact_ref \<Rightarrow> workflow_definition" where
  "fixture_workflow pf p inp out =
     \<lparr> wd_id = po_workflow_artifact p, wd_version = ''1.0.0'', wd_input_schema_ref = inp, wd_output_schema_ref = out,
       wd_entry_node = po_handler_id p,
       wd_nodes = [\<lparr> wn_id = po_handler_id p, wn_kind = ''DETERMINISTIC'', wn_handler_id = Some (po_handler_id p),
                     wn_input_schema_ref = inp, wn_output_schema_ref = out, wn_max_attempts = 1,
                     wn_timeout_seconds = 5, wn_max_iterations = 1, wn_on_failure = ''FAIL'' \<rparr>],
       wd_edges = [], wd_max_total_steps = 1, wd_max_model_turns = 0, wd_required_actions = [],
       wd_digest = sha256_digest pf ''workflow-digest-placeholder'' \<rparr>"

definition fixture_artifacts ::
    "(string \<Rightarrow> json option) \<Rightarrow> platform \<Rightarrow> product \<Rightarrow> tenant_id \<Rightarrow> packaged_artifact list option" where
  "fixture_artifacts decode pf p tenant =
     Option.bind (canonical_json decode pf (po_input_schema_json p)) (\<lambda>input_bytes.
     Option.bind (canonical_json decode pf (po_output_schema_json p)) (\<lambda>output_bytes.
     Option.bind (fixture_ref pf tenant (po_input_artifact p) input_bytes) (\<lambda>inp.
     Option.bind (fixture_ref pf tenant (po_output_artifact p) output_bytes) (\<lambda>out.
     Option.bind (canonical_workflow pf (fixture_workflow pf p inp out)) (\<lambda>workflow_bytes.
     Option.bind (fixture_ref pf tenant (po_workflow_artifact p) workflow_bytes) (\<lambda>workflow.
     Some [\<lparr> pa_reference = inp, pa_bytes = input_bytes \<rparr>, \<lparr> pa_reference = out, pa_bytes = output_bytes \<rparr>,
           \<lparr> pa_reference = workflow, pa_bytes = workflow_bytes \<rparr>]))))))"

definition fixture_bundle ::
    "(string \<Rightarrow> json option) \<Rightarrow> platform \<Rightarrow> product \<Rightarrow> tenant_id \<Rightarrow> packaged_plugin_fixture option" where
  "fixture_bundle decode pf p tenant =
     Option.bind (fixture_artifacts decode pf p tenant) (\<lambda>artifacts.
     case opaque_id_new ''PluginId'' (po_plugin_id p) of
       Inl _ \<Rightarrow> None
     | Inr plugin \<Rightarrow>
         Some \<lparr> fx_plugin_id = plugin, fx_version = po_version p, fx_contract_version = CONTRACT_VERSION,
                fx_publisher_id = ''masonwing.first-party'', fx_execution_class = TrustedNative,
                fx_artifact_bytes = po_packaged_bytes p, fx_artifact_digest = sha256_digest pf (po_packaged_bytes p),
                fx_handlers = [\<lparr> hc_id = po_handler_id p, hc_input_schema_ref = pa_reference (artifacts ! 0),
                                 hc_output_schema_ref = pa_reference (artifacts ! 1), hc_effects = ''DETERMINISTIC'',
                                 hc_required_capabilities = [], hc_max_execution_seconds = 5 \<rparr>],
                fx_workflows = [pa_reference (artifacts ! 2)], fx_supporting_artifacts = artifacts \<rparr>)"

definition document_review_artifacts ::
    "(string \<Rightarrow> json option) \<Rightarrow> platform \<Rightarrow> tenant_id \<Rightarrow> packaged_artifact list option" where
  "document_review_artifacts decode pf tenant = fixture_artifacts decode pf document_review tenant"

definition document_review_bundle ::
    "(string \<Rightarrow> json option) \<Rightarrow> platform \<Rightarrow> tenant_id \<Rightarrow> packaged_plugin_fixture option" where
  "document_review_bundle decode pf tenant = fixture_bundle decode pf document_review tenant"

section \<open>Invocation\<close>

text \<open>\<open>serde_json::from_slice::<Vec<u8>>\<close>: an array of integers from 0 to 255.\<close>

fun de_u8 :: "json \<Rightarrow> char option" where
  "de_u8 (JNum n) = (if 0 \<le> n \<and> n < 256 then Some (char_of (nat n)) else None)"
| "de_u8 _ = None"

definition read_payload :: "(string \<Rightarrow> json option) \<Rightarrow> string \<Rightarrow> string option" where
  "read_payload decode bytes = Option.bind (decode bytes) (de_list de_u8)"

record checksum_result =
  cr_digest :: digest
  cr_model_calls :: u32
  cr_external_effects :: u32

definition checksum_compute :: "platform \<Rightarrow> string \<Rightarrow> checksum_result" where
  "checksum_compute pf bytes =
     \<lparr> cr_digest = sha256_digest pf bytes, cr_model_calls = 0, cr_external_effects = 0 \<rparr>"

definition review_bytes :: "platform \<Rightarrow> string \<Rightarrow> string" where
  "review_bytes pf bytes =
     ''review:v1;bytes='' @ decimal (length bytes) @ '';digest='' @ sha256_digest pf bytes @ '';verdict=REVIEWED''"

definition checksum_invoke ::
    "(string \<Rightarrow> json option) \<Rightarrow> platform \<Rightarrow> invocation_context \<Rightarrow> invocation_data \<Rightarrow> effect_broker
     \<Rightarrow> (sdk_error + invocation_result) option" where
  "checksum_invoke decode pf context inp host =
     (case validate_invocation (product_descriptor checksum) context inp of
        Inl e \<Rightarrow> Some (Inl e)
      | Inr _ \<Rightarrow>
          (case read_payload decode (id_bytes inp) of
             None \<Rightarrow> Some (Inl (Sdk_InvalidPayload ''input_json''))
           | Some payload \<Rightarrow>
               map_option (\<lambda>out. Inr (result_pure context out))
                 (pf_canonical pf (JStr (cr_digest (checksum_compute pf payload))))))"

definition document_review_invoke ::
    "(string \<Rightarrow> json option) \<Rightarrow> platform \<Rightarrow> invocation_context \<Rightarrow> invocation_data \<Rightarrow> effect_broker
     \<Rightarrow> (sdk_error + invocation_result) option" where
  "document_review_invoke decode pf context inp host =
     (case validate_invocation (product_descriptor document_review) context inp of
        Inl e \<Rightarrow> Some (Inl e)
      | Inr _ \<Rightarrow>
          (case read_payload decode (id_bytes inp) of
             None \<Rightarrow> Some (Inl (Sdk_InvalidPayload ''input_json''))
           | Some payload \<Rightarrow>
               map_option (\<lambda>out. Inr (result_pure context out)) (pf_canonical pf (JStr (review_bytes pf payload)))))"

lemmas invoke_defs = checksum_invoke_def document_review_invoke_def result_pure_def output_for_context_def
  validate_output_def

interpretation checksum_plugin: deterministic_plugin "product_descriptor checksum" "checksum_invoke decode pf"
  for decode pf
  by unfold_locales (auto simp: invoke_defs split: sum.splits option.splits)

interpretation document_review_plugin:
  deterministic_plugin "product_descriptor document_review" "document_review_invoke decode pf" for decode pf
  by unfold_locales (auto simp: invoke_defs split: sum.splits option.splits)

section \<open>The packages are sound\<close>

lemma product_names:
  assumes "p \<in> {checksum, document_review}"
  shows "opaque_ok (po_plugin_id p)" "opaque_ok (po_handler_id p)" "opaque_ok (po_input_artifact p)"
    "opaque_ok (po_output_artifact p)" "opaque_ok (po_workflow_artifact p)"
    "\<not> is_blank (po_handler_id p)" "\<not> is_blank (po_version p)"
proof -
  have "opaque_ok (po_plugin_id q) \<and> opaque_ok (po_handler_id q) \<and> opaque_ok (po_input_artifact q)
      \<and> opaque_ok (po_output_artifact q) \<and> opaque_ok (po_workflow_artifact q)
      \<and> \<not> is_blank (po_handler_id q) \<and> \<not> is_blank (po_version q)" if "q = checksum \<or> q = document_review" for q
    using that by (elim disjE; hypsubst) code_simp+
  with assms show "opaque_ok (po_plugin_id p)" "opaque_ok (po_handler_id p)" "opaque_ok (po_input_artifact p)"
    "opaque_ok (po_output_artifact p)" "opaque_ok (po_workflow_artifact p)"
    "\<not> is_blank (po_handler_id p)" "\<not> is_blank (po_version p)" by blast+
qed

lemma opaque_new_ok: "opaque_ok s \<Longrightarrow> opaque_id_new kind s = Inr s"
  by (metis opaque_new_Inr opaque_ok_def is_ok_iff)

lemma fixture_ref_ok:
  "opaque_ok i \<Longrightarrow> fixture_ref pf tenant i bytes =
     Some \<lparr> ar_artifact_id = i, ar_tenant_id = tenant, ar_digest = sha256_digest pf bytes,
            ar_schema_version = ''1.0.0'', ar_classification = Internal \<rparr>"
  by (simp add: fixture_ref_def opaque_new_ok)

lemma parse_u64_digit: "n < 10 \<Longrightarrow> parse_u64 [digit_char n] = Some (of_nat n)"
  using digit_char_digit [of n]
  by (auto simp: parse_u64_def decimal_value_def is_ascii_digit_def Let_def)

lemma contract_version_ok: "ensure_contract_compatible CONTRACT_VERSION = Inr ()"
proof -
  have "CONTRACT_VERSION = [digit_char 1] @ ''.'' @ [digit_char 0] @ ''.'' @ [digit_char 0]" by code_simp
  then show ?thesis
    unfolding contract_compatible_iff using parse_u64_digit [of 1] parse_u64_digit [of 0]
    by (metis of_nat_1 one_less_numeral_iff option.distinct(1) semiring_norm(76) zero_less_numeral)
qed

text \<open>A workflow sealed by \<open>canonical_workflow\<close> carries the digest the host computes for it.\<close>

lemma sealed_digest:
  "remove_member ''digest'' (ser_workflow_definition (d\<lparr>wd_digest := x\<rparr>)) = remove_member ''digest'' (ser_workflow_definition d)"
  by (simp add: ser_workflow_definition_def)

lemma single_node_workflow_accepted:
  assumes "opaque_ok (po_handler_id p)" and "pl_handlers manifest = [h]" and "hc_id h = po_handler_id p"
    and "hc_input_schema_ref h = inp" and "hc_output_schema_ref h = out" and "hc_required_capabilities h = []"
    and "hc_max_execution_seconds h = 5"
    and "d = (fixture_workflow pf p inp out)\<lparr>wd_digest := sha256_digest pf identity\<rparr>"
    and "pf_canonical pf (remove_member ''digest'' (ser_workflow_definition (fixture_workflow pf p inp out))) = Some identity"
    and "catalog_validate catalog ''WorkflowDefinition'' (ser_workflow_definition d) = Inr ()"
  shows "validate_workflow pf (Inr catalog) d manifest = Inr ()"
proof -
  have "resolve (graph_insert [] i []) i = Inr [i]" for i
    by (simp add: graph_insert_def resolve_def visit.simps)
  moreover obtain n where "wd_nodes d = [n]" "wn_id n = po_handler_id p" "wn_kind n = ''DETERMINISTIC''"
    "wn_handler_id n = Some (po_handler_id p)" "wn_input_schema_ref n = inp" "wn_output_schema_ref n = out"
    "wn_timeout_seconds n = 5"
    by (simp add: assms(8) fixture_workflow_def)
  moreover have "wd_edges d = []" "wd_required_actions d = []" "wd_entry_node d = po_handler_id p"
    by (simp_all add: assms(8) fixture_workflow_def)
  moreover have "pf_canonical pf (remove_member ''digest'' (ser_workflow_definition d)) = Some identity"
    "digest_bytes pf identity = wd_digest d"
    by (simp_all add: assms(8,9) sealed_digest digest_bytes_def sha256_digest_def)
  ultimately show ?thesis
    using assms(1-7,10)
    by (simp add: validate_workflow_def Let_def btree_from_def check_node_def unbounded_insert_def unbounded_next_def
        check_resolves_def opaque_new_ok is_ok_iff)
qed


text \<open>What a bundle consists of, when the static schemas decode and canonicalisation succeeds.\<close>

lemma fixture_bundle_shape:
  assumes "p \<in> {checksum, document_review}" and "decode (po_input_schema_json p) \<noteq> None"
    and "decode (po_output_schema_json p) \<noteq> None" and "\<And>j. pf_canonical pf j \<noteq> None"
  obtains b inp out identity workflow_bytes where "fixture_bundle decode pf p tenant = Some b"
    and "pf_canonical pf (remove_member ''digest'' (ser_workflow_definition (fixture_workflow pf p inp out))) = Some identity"
    and "pf_canonical pf (ser_workflow_definition
          ((fixture_workflow pf p inp out)\<lparr>wd_digest := sha256_digest pf identity\<rparr>)) = Some workflow_bytes"
    and "fx_handlers b = [\<lparr> hc_id = po_handler_id p, hc_input_schema_ref = inp, hc_output_schema_ref = out,
          hc_effects = ''DETERMINISTIC'', hc_required_capabilities = [], hc_max_execution_seconds = 5 \<rparr>]"
    and "length (fx_supporting_artifacts b) = 3" and "pa_bytes (fx_supporting_artifacts b ! 2) = workflow_bytes"
    and "fx_workflows b = [pa_reference (fx_supporting_artifacts b ! 2)]"
    and "fixture_validate pf b = Inr ()"
proof -
  note names = product_names [OF assms(1)]
  obtain ib ob where bytes: "canonical_json decode pf (po_input_schema_json p) = Some ib"
    "canonical_json decode pf (po_output_schema_json p) = Some ob"
    using assms(2-4) by (fastforce simp: canonical_json_def)
  obtain inp where inp: "fixture_ref pf tenant (po_input_artifact p) ib = Some inp"
    "ar_tenant_id inp = tenant" "ar_digest inp = sha256_digest pf ib" using names(3) by (auto simp: fixture_ref_ok)
  obtain out where out: "fixture_ref pf tenant (po_output_artifact p) ob = Some out"
    "ar_tenant_id out = tenant" "ar_digest out = sha256_digest pf ob" using names(4) by (auto simp: fixture_ref_ok)
  let ?w = "fixture_workflow pf p inp out"
  obtain idt where idt: "pf_canonical pf (remove_member ''digest'' (ser_workflow_definition ?w)) = Some idt"
    using assms(4) by fastforce
  obtain wb where wb: "pf_canonical pf (ser_workflow_definition (?w\<lparr>wd_digest := sha256_digest pf idt\<rparr>)) = Some wb"
    using assms(4) by fastforce
  obtain wr where wr: "fixture_ref pf tenant (po_workflow_artifact p) wb = Some wr"
    "ar_digest wr = sha256_digest pf wb" using names(5) by (auto simp: fixture_ref_ok)
  obtain b where b: "fixture_bundle decode pf p tenant = Some b" and "fx_contract_version b = CONTRACT_VERSION"
    and "fx_publisher_id b = ''masonwing.first-party''" and "fx_version b = po_version p"
    and "fx_artifact_digest b = sha256_digest pf (fx_artifact_bytes b)"
    and h: "fx_handlers b = [\<lparr> hc_id = po_handler_id p, hc_input_schema_ref = inp, hc_output_schema_ref = out,
          hc_effects = ''DETERMINISTIC'', hc_required_capabilities = [], hc_max_execution_seconds = 5 \<rparr>]"
    and s: "fx_supporting_artifacts b = [\<lparr> pa_reference = inp, pa_bytes = ib \<rparr>,
          \<lparr> pa_reference = out, pa_bytes = ob \<rparr>, \<lparr> pa_reference = wr, pa_bytes = wb \<rparr>]"
    and w: "fx_workflows b = [wr]"
    using bytes inp(1) out(1) idt wb wr(1) names(1)
    by (simp add: fixture_bundle_def fixture_artifacts_def canonical_workflow_def opaque_new_ok)
  moreover have "\<not> is_blank ''masonwing.first-party''" by code_simp
  ultimately have "fixture_validate pf b = Inr ()"
    using inp out wr(2) names(6,7) by (simp add: fixture_validate_iff contract_version_ok)
  with that b idt wb h s w show thesis by simp
qed

text \<open>
  C40: the first-party packages are good. When the static schemas decode and canonicalisation
  succeeds, building the package of either product does not panic, the package passes the SDK's own
  validation, and the workflow whose canonical bytes it ships passes the host's validation against
  any manifest with the package's handlers, given that the schema catalogue accepts it.
\<close>

theorem packaged_products_are_accepted:
  assumes "p \<in> {checksum, document_review}" and "decode (po_input_schema_json p) \<noteq> None"
    and "decode (po_output_schema_json p) \<noteq> None" and "\<And>j. pf_canonical pf j \<noteq> None"
  shows "\<exists>b d. fixture_bundle decode pf p tenant = Some b \<and> fixture_validate pf b = Inr ()
    \<and> fx_workflows b = [pa_reference (fx_supporting_artifacts b ! 2)]
    \<and> pf_canonical pf (ser_workflow_definition d) = Some (pa_bytes (fx_supporting_artifacts b ! 2))
    \<and> (\<forall>catalog manifest. pl_handlers manifest = fx_handlers b
         \<and> catalog_validate catalog ''WorkflowDefinition'' (ser_workflow_definition d) = Inr ()
         \<longrightarrow> validate_workflow pf (Inr catalog) d manifest = Inr ())"
proof -
  from assms obtain b inp out idt wb where b: "fixture_bundle decode pf p tenant = Some b"
    and idt: "pf_canonical pf (remove_member ''digest'' (ser_workflow_definition (fixture_workflow pf p inp out))) = Some idt"
    and wb: "pf_canonical pf (ser_workflow_definition
          ((fixture_workflow pf p inp out)\<lparr>wd_digest := sha256_digest pf idt\<rparr>)) = Some wb"
    and h: "fx_handlers b = [\<lparr> hc_id = po_handler_id p, hc_input_schema_ref = inp, hc_output_schema_ref = out,
          hc_effects = ''DETERMINISTIC'', hc_required_capabilities = [], hc_max_execution_seconds = 5 \<rparr>]"
    and s: "pa_bytes (fx_supporting_artifacts b ! 2) = wb"
    and w: "fx_workflows b = [pa_reference (fx_supporting_artifacts b ! 2)]"
    and v: "fixture_validate pf b = Inr ()"
    by (rule fixture_bundle_shape [where tenant = tenant]) blast
  have accepted: "validate_workflow pf (Inr catalog) ((fixture_workflow pf p inp out)\<lparr>wd_digest := sha256_digest pf idt\<rparr>) manifest = Inr ()"
    if "pl_handlers manifest = fx_handlers b" and "catalog_validate catalog ''WorkflowDefinition''
      (ser_workflow_definition ((fixture_workflow pf p inp out)\<lparr>wd_digest := sha256_digest pf idt\<rparr>)) = Inr ()" for catalog manifest
    using that product_names(2) [OF assms(1)] idt
    by (intro single_node_workflow_accepted [where h = "hd (fx_handlers b)" and identity = idt and inp = inp and out = out])
      (simp_all add: h)
  from b v w wb s accepted show ?thesis by auto
qed

text \<open>A platform and a decoder that meet the hypotheses, and the package of the checksum product there.\<close>

theorem packaged_products_are_accepted_witness:
  "\<exists>b. fixture_bundle (\<lambda>_. Some JNull) sample_platform checksum ''t'' = Some b
     \<and> fixture_validate sample_platform b = Inr () \<and> length (fx_workflows b) = 1"
proof -
  have "pf_canonical sample_platform j \<noteq> None" for j by (simp add: sample_platform_def)
  from packaged_products_are_accepted [of checksum "\<lambda>_. Some JNull" sample_platform "''t''", OF _ _ _ this]
  show ?thesis by auto
qed

section \<open>Results\<close>

text \<open>
  On bytes sent as a JSON array, the checksum product answers with their digest as a JSON text, under
  the output schema of the context and without asking for an effect.
\<close>

definition byte_array :: "string \<Rightarrow> json" where
  "byte_array bytes = JArr (map (\<lambda>c. JNum (int (of_char c))) bytes)"

lemma de_bytes: "de_list de_u8 (byte_array bytes) = Some bytes"
proof -
  have "de_u8 (JNum (int (of_char c))) = Some c" for c :: char
    using nat_of_char_less_256 [of c] by simp
  then show ?thesis by (induction bytes) (auto simp: byte_array_def)
qed

lemma checksum_answers:
  assumes "validate_invocation (product_descriptor checksum) context inp = Inr ()"
    and "decode (id_bytes inp) = Some (byte_array bytes)"
    and "pf_canonical pf (JStr (sha256_digest pf bytes)) = Some text"
  shows "checksum_invoke decode pf context inp host = Some (Inr (result_pure context text))"
  using assms by (simp add: checksum_invoke_def read_payload_def de_bytes checksum_compute_def)

lemma document_review_answers:
  assumes "validate_invocation (product_descriptor document_review) context inp = Inr ()"
    and "decode (id_bytes inp) = Some (byte_array bytes)"
    and "pf_canonical pf (JStr (review_bytes pf bytes)) = Some text"
  shows "document_review_invoke decode pf context inp host = Some (Inr (result_pure context text))"
  using assms by (simp add: document_review_invoke_def read_payload_def de_bytes)

text \<open>Both stay within their contract, whatever broker they are given.\<close>

lemma products_stay_in_contract:
  assumes "checksum_invoke decode pf context inp host = Some (Inr r)
      \<or> document_review_invoke decode pf context inp host = Some (Inr r)"
  shows "ir_proposed_effects r = [] \<and> id_schema_ref (ir_output r) = iv_output_schema_ref context
    \<and> id_schema_ref inp = iv_input_schema_ref context
    \<and> iv_plugin_id context \<in> {po_plugin_id checksum, po_plugin_id document_review}"
  using assms checksum_plugin.invoke_in_contract checksum_plugin.succeeds_without_effects
    document_review_plugin.invoke_in_contract document_review_plugin.succeeds_without_effects
  by (fastforce simp: product_descriptor_def)

end
